(* ===== verification/Prelude.thy ===== *)
theory Prelude
  imports Main "HOL-Library.Word" "HOL-Library.Sublist"
begin

text \<open>
  The prelude of the CloudForge development: the collections of simp rules the components
  share, the Go string functions the sources call (package \<open>strings\<close>, \<open>strconv\<close> and the
  verbs of \<open>fmt\<close>), and the types every component uses. A Go string is a list of bytes and is
  modelled as a \<open>string\<close> (each \<open>char\<close> is one byte).
\<close>

named_theorems go_str "unfolding rules of the Go string functions"
named_theorems prog_def "definitions of effectful operations, unfolded in execution proofs"
named_theorems status_distinct "the status strings of one column are pairwise different"

type_synonym uuid = "128 word"
type_synonym time = int

definition uuid_Nil :: uuid where
  "uuid_Nil = 0"

definition zero_time :: time where
  "zero_time = 0"

section \<open>Package strings\<close>

definition HasPrefix :: "string \<Rightarrow> string \<Rightarrow> bool" where
  "HasPrefix s p \<longleftrightarrow> take (length p) s = p"

definition HasSuffix :: "string \<Rightarrow> string \<Rightarrow> bool" where
  "HasSuffix s p \<longleftrightarrow> length p \<le> length s \<and> drop (length s - length p) s = p"

fun Contains :: "string \<Rightarrow> string \<Rightarrow> bool" where
  "Contains [] p \<longleftrightarrow> p = []"
| "Contains (c # s) p \<longleftrightarrow> HasPrefix (c # s) p \<or> Contains s p"

definition TrimPrefix :: "string \<Rightarrow> string \<Rightarrow> string" where
  "TrimPrefix s p = (if HasPrefix s p then drop (length p) s else s)"

text \<open>The ASCII white space \<open>strings.TrimSpace\<close> removes.\<close>

definition is_space :: "char \<Rightarrow> bool" where
  "is_space c \<longleftrightarrow> c \<in> set [CHR '' '', CHR 0x09, CHR 0x0A, CHR 0x0B, CHR 0x0C, CHR 0x0D]"

definition TrimSpace :: "string \<Rightarrow> string" where
  "TrimSpace s = rev (dropWhile is_space (rev (dropWhile is_space s)))"

definition lower_char :: "char \<Rightarrow> char" where
  "lower_char c = (if 65 \<le> (of_char c :: nat) \<and> (of_char c :: nat) \<le> 90
                   then char_of ((of_char c :: nat) + 32) else c)"

definition ToLower :: "string \<Rightarrow> string" where
  "ToLower s = map lower_char s"

text \<open>\<open>strings.Split(s, sep)\<close> for a one-byte separator: always at least one field.\<close>

fun Split :: "string \<Rightarrow> char \<Rightarrow> string list" where
  "Split [] c = [[]]"
| "Split (x # s) c =
     (if x = c then [] # Split s c
      else (case Split s c of [] \<Rightarrow> [[x]] | f # fs \<Rightarrow> (x # f) # fs))"

fun Join :: "string list \<Rightarrow> string \<Rightarrow> string" where
  "Join [] sep = []"
| "Join [s] sep = s"
| "Join (s # t # ss) sep = s @ sep @ Join (t # ss) sep"

abbreviation NL :: string where "NL \<equiv> [CHR 0x0A]"

definition unlines :: "string list \<Rightarrow> string" where
  "unlines ls = concat (map (\<lambda>l. l @ NL) ls)"

lemma unlines_simps [simp]: "unlines [] = []" "unlines (l # ls) = l @ NL @ unlines ls"
  by (simp_all add: unlines_def)

lemma Split_append: "c \<notin> set xs \<Longrightarrow> Split (xs @ c # ys) c = xs # Split ys c"
  by (induction xs) auto

lemma Split_unlines: "\<forall>l\<in>set ls. CHR 0x0A \<notin> set l \<Longrightarrow> Split (unlines ls) (CHR 0x0A) = ls @ [[]]"
  by (induction ls) (simp_all add: Split_append)

lemma Split_nonempty [simp]: "Split s c \<noteq> []"
  by (induction s) (auto split: list.splits)

lemma Join_Split [simp]: "Join (Split s c) [c] = s"
proof (induction s)
  case Nil
  then show ?case by simp
next
  case (Cons x s)
  then show ?case
    by (cases "Split s c" rule: remdups_adj.cases) auto
qed

lemma Split_no_sep: "c \<notin> set s \<Longrightarrow> Split s c = [s]"
  by (induction s) auto

lemma Split_sep_free: "f \<in> set (Split s c) \<Longrightarrow> c \<notin> set f"
proof (induction s arbitrary: f)
  case Nil
  then show ?case by simp
next
  case (Cons x s)
  then show ?case by (cases "Split s c") (auto split: if_splits)
qed

lemma HasPrefix_iff_prefix: "HasPrefix s p \<longleftrightarrow> prefix p s"
  unfolding HasPrefix_def prefix_def by (metis append_eq_conv_conj append_take_drop_id)

lemma HasPrefix_append [simp]: "HasPrefix (p @ s) p"
  by (simp add: HasPrefix_def)

lemma TrimPrefix_append [simp]: "TrimPrefix (p @ s) p = s"
  by (simp add: TrimPrefix_def)

section \<open>Package fmt and strconv\<close>

definition digit_char :: "nat \<Rightarrow> char" where
  "digit_char n = char_of (48 + n)"

text \<open>The verb \<open>%d\<close> on a non-negative number, and \<open>strconv.Itoa\<close>.\<close>

fun Itoa :: "nat \<Rightarrow> string" where
  "Itoa n = (if n < 10 then [digit_char n] else Itoa (n div 10) @ [digit_char (n mod 10)])"

declare Itoa.simps [simp del]

text \<open>\<open>%d\<close> of a signed number, and \<open>%v\<close> of a slice of strings.\<close>

definition fmt_int :: "int \<Rightarrow> string" where
  "fmt_int n = (if n < 0 then ''-'' @ Itoa (nat (- n)) else Itoa (nat n))"

definition fmt_strings :: "string list \<Rightarrow> string" where
  "fmt_strings ss = ''['' @ Join ss '' '' @ '']''"

text \<open>
  The verb \<open>%q\<close>: \<open>strconv.Quote\<close> on the printable ASCII characters, the control characters
  Go writes as an escape, and (unchanged) the bytes from 0x80 on, which Go keeps for printable
  runes.
\<close>

definition hex_char :: "nat \<Rightarrow> char" where
  "hex_char n = (if n < 10 then char_of (48 + n) else char_of (87 + n))"

definition quote_char :: "char \<Rightarrow> string" where
  "quote_char c =
     (let n = of_char c :: nat in
      if n = 34 \<or> n = 92 then [CHR 0x5C, c]
      else if n = 7 then [CHR 0x5C, CHR ''a'']
      else if n = 8 then [CHR 0x5C, CHR ''b'']
      else if n = 9 then [CHR 0x5C, CHR ''t'']
      else if n = 10 then [CHR 0x5C, CHR ''n'']
      else if n = 11 then [CHR 0x5C, CHR ''v'']
      else if n = 12 then [CHR 0x5C, CHR ''f'']
      else if n = 13 then [CHR 0x5C, CHR ''r'']
      else if n < 32 \<or> n = 127 then [CHR 0x5C, CHR ''x'', hex_char (n div 16), hex_char (n mod 16)]
      else [c])"

text \<open>
  The verb \<open>%q\<close> of a rune: the first rune of the rest of a string, between single quotes. A byte
  sequence that is not UTF-8 decodes to U+FFFD.
\<close>

definition continuation :: "char \<Rightarrow> bool" where
  "continuation c \<longleftrightarrow> 128 \<le> (of_char c :: nat) \<and> (of_char c :: nat) < 192"

definition first_rune :: "string \<Rightarrow> string" where
  "first_rune s =
     (let b = (\<lambda>i. of_char (s ! i) :: nat); n = length s; cont = (\<lambda>i. continuation (s ! i));
          bad = [CHR 0xEF, CHR 0xBF, CHR 0xBD] in
      if n = 0 then []
      else if b 0 < 128 then take 1 s
      else if 194 \<le> b 0 \<and> b 0 \<le> 223 then (if 1 < n \<and> cont 1 then take 2 s else bad)
      else if 224 \<le> b 0 \<and> b 0 \<le> 239 then
        (if 2 < n \<and> cont 1 \<and> cont 2 \<and> (b 0 = 224 \<longrightarrow> 160 \<le> b 1) \<and> (b 0 = 237 \<longrightarrow> b 1 < 160)
         then take 3 s else bad)
      else if 240 \<le> b 0 \<and> b 0 \<le> 244 then
        (if 3 < n \<and> cont 1 \<and> cont 2 \<and> cont 3 \<and> (b 0 = 240 \<longrightarrow> 144 \<le> b 1) \<and> (b 0 = 244 \<longrightarrow> b 1 < 144)
         then take 4 s else bad)
      else bad)"

definition QuoteRune :: "string \<Rightarrow> string" where
  "QuoteRune s =
     [CHR 0x27] @
     (let r = first_rune s in
      if r = [CHR 0x27] then [CHR 0x5C, CHR 0x27]
      else if r = [CHR 0x22] then r else concat (map quote_char r)) @
     [CHR 0x27]"

definition Quote :: "string \<Rightarrow> string" where
  "Quote s = [CHR 0x22] @ concat (map quote_char s) @ [CHR 0x22]"

text \<open>\<open>hex.EncodeToString\<close>: two lower-case digits for each byte.\<close>

definition hex_byte :: "char \<Rightarrow> string" where
  "hex_byte c = (let n = of_char c :: nat in [hex_char (n div 16), hex_char (n mod 16)])"

definition EncodeToString :: "string \<Rightarrow> string" where
  "EncodeToString s = concat (map hex_byte s)"

text \<open>\<open>uuid.UUID.String\<close>: the five groups of 8, 4, 4, 4 and 12 hexadecimal digits.\<close>

definition nibble :: "uuid \<Rightarrow> nat \<Rightarrow> char" where
  "nibble u i = hex_char (unat (drop_bit (4 * (31 - i)) u) mod 16)"

definition uuid_String :: "uuid \<Rightarrow> string" where
  "uuid_String u =
     map (nibble u) [0..<8] @ ''-'' @ map (nibble u) [8..<12] @ ''-'' @
     map (nibble u) [12..<16] @ ''-'' @ map (nibble u) [16..<20] @ ''-'' @
     map (nibble u) [20..<32]"

lemma digit_char_inj: "m < 10 \<Longrightarrow> n < 10 \<Longrightarrow> digit_char m = digit_char n \<longleftrightarrow> m = n"
proof -
  assume "m < 10" "n < 10"
  then have "of_char (digit_char m) = 48 + m" "of_char (digit_char n) = 48 + n"
    by (simp_all add: digit_char_def)
  then show ?thesis by (metis add_left_cancel)
qed

lemma of_char_digit [simp]: "n < 10 \<Longrightarrow> (of_char (digit_char n) :: nat) = 48 + n"
  by (simp add: digit_char_def)

lemma Itoa_nonempty [simp]: "Itoa n \<noteq> []"
  by (subst Itoa.simps) simp

lemma Itoa_nonempty' [simp]: "[] \<noteq> Itoa n"
  using Itoa_nonempty [of n] by metis

lemma Itoa_digits: "c \<in> set (Itoa n) \<Longrightarrow> \<exists>d<10. c = digit_char d"
proof (induction n rule: Itoa.induct)
  case (1 n)
  show ?case
  proof (cases "n < 10")
    case True
    with "1.prems" show ?thesis by (subst (asm) Itoa.simps) auto
  next
    case False
    with "1.prems" have "c \<in> set (Itoa (n div 10)) \<or> c = digit_char (n mod 10)"
      by (subst (asm) Itoa.simps) auto
    with False "1.IH" show ?thesis by force
  qed
qed

lemma Itoa_small: "n < 10 \<Longrightarrow> Itoa n = [digit_char n]"
  by (subst Itoa.simps) simp

lemma Itoa_large: "\<not> n < 10 \<Longrightarrow> Itoa n = Itoa (n div 10) @ [digit_char (n mod 10)]"
  by (subst Itoa.simps) simp

lemma Itoa_inject [simp]: "Itoa m = Itoa n \<longleftrightarrow> m = n"
proof (induction m arbitrary: n rule: Itoa.induct)
  case (1 m)
  consider "m < 10" "n < 10" | "m < 10" "\<not> n < 10" | "\<not> m < 10" "n < 10" | "\<not> m < 10" "\<not> n < 10"
    by blast
  then show ?case
  proof cases
    case 1
    then show ?thesis by (simp add: Itoa_small digit_char_inj)
  next
    case 2
    then have "m \<noteq> n" by auto
    with 2 show ?thesis by (auto simp: Itoa_small Itoa_large [of n])
  next
    case 3
    then have "m \<noteq> n" by auto
    with 3 show ?thesis by (auto simp: Itoa_small Itoa_large [of m])
  next
    case 4
    then have "Itoa m = Itoa n \<longleftrightarrow> Itoa (m div 10) = Itoa (n div 10) \<and> m mod 10 = n mod 10"
      by (simp add: Itoa_large [of m] Itoa_large [of n] digit_char_inj)
    also have "\<dots> \<longleftrightarrow> m div 10 = n div 10 \<and> m mod 10 = n mod 10"
      using 4 "1.IH" by simp
    also have "\<dots> \<longleftrightarrow> m = n"
      by (metis div_mult_mod_eq)
    finally show ?thesis .
  qed
qed

end
