(* ===== verification/GoErrors.thy ===== *)
theory GoErrors
  imports Prelude
begin

text \<open>
  Go error values and the package \<open>internal/errors\<close>. An error is a sentinel (a package-level
  \<open>errors.New\<close> variable, compared by identity, so one constructor each), an error of an
  external package, a plain text error, a \<open>fmt.Errorf\<close> error wrapping another with \<open>%w\<close>, or a
  platform \<open>*errors.Error\<close>. \<open>errors_Is\<close> and \<open>errors_As_platform\<close> walk the unwrap chain as
  \<open>errors.Is\<close> and \<open>errors.As\<close> do.
\<close>

section \<open>Error values\<close>

datatype sentinel =
    accounts_ErrTenantNotFound
  | accounts_ErrTenantAlreadyExists
  | accounts_ErrUserNotFound
  | accounts_ErrEmailAlreadyRegistered
  | accounts_ErrAPIKeyNotFound
  | accounts_ErrJobNotFound
  | provisioner_ErrCIDRExhausted
  | provisioner_ErrNotFound
  | accountssvc_ErrAccountNotFound
  | accountssvc_ErrAccountAlreadyExists
  | accountssvc_ErrAccountNotActive
  | accountssvc_ErrKeyNotFound
  | accountssvc_ErrEmailAlreadyRegistered
  | provisionersvc_ErrTenantAlreadyExists
  | provisionersvc_ErrJobNotFound
  | provisionersvc_ErrCIDRExhausted
  | provisionersvc_ErrTenantNotFound

primrec sentinel_text :: "sentinel \<Rightarrow> string" where
  "sentinel_text accounts_ErrTenantNotFound = ''accounts: tenant not found''"
| "sentinel_text accounts_ErrTenantAlreadyExists = ''accounts: tenant slug already exists''"
| "sentinel_text accounts_ErrUserNotFound = ''accounts: user not found''"
| "sentinel_text accounts_ErrEmailAlreadyRegistered = ''accounts: email already registered''"
| "sentinel_text accounts_ErrAPIKeyNotFound = ''accounts: api key not found''"
| "sentinel_text accounts_ErrJobNotFound = ''accounts: provisioning job not found''"
| "sentinel_text provisioner_ErrCIDRExhausted =
     ''provisioner: CIDR space exhausted '' @ [CHR 0xE2, CHR 0x80, CHR 0x94] @
     '' all /24 blocks in supernet are allocated''"
| "sentinel_text provisioner_ErrNotFound = ''provisioner: kubeconfig not found''"
| "sentinel_text accountssvc_ErrAccountNotFound = ''accounts: account not found''"
| "sentinel_text accountssvc_ErrAccountAlreadyExists = ''accounts: account slug already exists''"
| "sentinel_text accountssvc_ErrAccountNotActive = ''accounts: account is not in ACTIVE status''"
| "sentinel_text accountssvc_ErrKeyNotFound = ''accounts: api key not found''"
| "sentinel_text accountssvc_ErrEmailAlreadyRegistered = ''accounts: email already registered''"
| "sentinel_text provisionersvc_ErrTenantAlreadyExists = ''provisioner: tenant already exists''"
| "sentinel_text provisionersvc_ErrJobNotFound = ''provisioner: job not found''"
| "sentinel_text provisionersvc_ErrCIDRExhausted = ''provisioner: CIDR address space exhausted''"
| "sentinel_text provisionersvc_ErrTenantNotFound = ''provisioner: tenant not found''"

text \<open>
  Errors that come from outside the repository: the gocql sentinel \<open>ErrNotFound\<close>, any other
  driver failure, an OpenBao \<open>*ResponseError\<close> with its HTTP status, and every other library or
  process error (context, uuid, rand, bcrypt, exec) with its text.
\<close>

datatype ext_error =
    GocqlErrNotFound
  | DriverError string
  | BaoResponseError int string
  | LibError string

primrec ext_text :: "ext_error \<Rightarrow> string" where
  "ext_text GocqlErrNotFound = ''not found''"
| "ext_text (DriverError s) = s"
| "ext_text (BaoResponseError n s) = s"
| "ext_text (LibError s) = s"

datatype gerror =
    Sentinel sentinel
  | Ext ext_error
  | Text string
  | Wrap string gerror string
  | Platform (platform_Code: string) (platform_Message: string)
      (platform_Cause: "gerror option") (platform_Status: int)

abbreviation ErrNotFound_gocql :: gerror where
  "ErrNotFound_gocql \<equiv> Ext GocqlErrNotFound"

text \<open>\<open>fmt.Errorf("pre%w", e)\<close>, the common shape: the wrapped error ends the text.\<close>

abbreviation Errorf :: "string \<Rightarrow> gerror \<Rightarrow> gerror" where
  "Errorf pre e \<equiv> Wrap pre e []"

fun Error_String :: "gerror \<Rightarrow> string" where
  "Error_String (Sentinel s) = sentinel_text s"
| "Error_String (Ext x) = ext_text x"
| "Error_String (Text s) = s"
| "Error_String (Wrap pre e post) = pre @ Error_String e @ post"
| "Error_String (Platform c m (Some e) st) = ''['' @ c @ ''] '' @ m @ '': '' @ Error_String e"
| "Error_String (Platform c m None st) = ''['' @ c @ ''] '' @ m"

fun Unwrap :: "gerror \<Rightarrow> gerror option" where
  "Unwrap (Wrap pre e post) = Some e"
| "Unwrap (Platform c m cause st) = cause"
| "Unwrap e = None"

fun errors_Is :: "gerror \<Rightarrow> gerror \<Rightarrow> bool" where
  "errors_Is (Wrap pre e post) t \<longleftrightarrow> Wrap pre e post = t \<or> errors_Is e t"
| "errors_Is (Platform c m (Some e) st) t \<longleftrightarrow> Platform c m (Some e) st = t \<or> errors_Is e t"
| "errors_Is e t \<longleftrightarrow> e = t"

lemma errors_Is_refl [simp]: "errors_Is e e"
  by (cases e rule: Unwrap.cases; cases "Unwrap e") (auto)

lemma errors_Is_unwrap: "Unwrap e = Some c \<Longrightarrow> errors_Is c t \<Longrightarrow> errors_Is e t"
  by (cases e rule: Unwrap.cases) auto

section \<open>Package internal/errors\<close>

definition CodeNotFound :: string where "CodeNotFound = ''RESOURCE_NOT_FOUND''"
definition CodeUnauthorized :: string where "CodeUnauthorized = ''UNAUTHORIZED''"
definition CodeForbidden :: string where "CodeForbidden = ''FORBIDDEN''"
definition CodeBadRequest :: string where "CodeBadRequest = ''BAD_REQUEST''"
definition CodeInternal :: string where "CodeInternal = ''INTERNAL_ERROR''"
definition CodeConflict :: string where "CodeConflict = ''CONFLICT''"

text \<open>\<open>HTTPStatusFor\<close> looks at the error itself only: \<open>err.(*Error)\<close> does not unwrap.\<close>

fun HTTPStatusFor :: "gerror option \<Rightarrow> int" where
  "HTTPStatusFor None = 200"
| "HTTPStatusFor (Some (Platform c m cause st)) = st"
| "HTTPStatusFor (Some e) = 500"

definition NotFound :: "string \<Rightarrow> string \<Rightarrow> gerror" where
  "NotFound resource ident =
     Platform CodeNotFound (resource @ '' '' @ Quote ident @ '' not found'') None 404"

definition Unauthorized :: "string \<Rightarrow> gerror" where
  "Unauthorized reason = Platform CodeUnauthorized reason None 401"

definition Forbidden :: "string \<Rightarrow> string \<Rightarrow> string \<Rightarrow> gerror" where
  "Forbidden who action resource =
     Platform CodeForbidden
       (''principal '' @ Quote who @ '' is not allowed to perform '' @ Quote action @
        '' on '' @ Quote resource) None 403"

definition BadRequest :: "string \<Rightarrow> gerror" where
  "BadRequest message = Platform CodeBadRequest message None 400"

definition Internal :: "gerror option \<Rightarrow> gerror" where
  "Internal cause = Platform CodeInternal ''an unexpected internal error occurred'' cause 500"

definition Conflict :: "string \<Rightarrow> string \<Rightarrow> gerror" where
  "Conflict resource ident =
     Platform CodeConflict (resource @ '' '' @ Quote ident @ '' already exists'') None 409"

text \<open>\<open>errors.As(err, &e)\<close> with \<open>e *Error\<close>: the first platform error of the chain.\<close>

fun errors_As_platform :: "gerror \<Rightarrow> gerror option" where
  "errors_As_platform (Platform c m cause st) = Some (Platform c m cause st)"
| "errors_As_platform (Wrap pre e post) = errors_As_platform e"
| "errors_As_platform e = None"

definition has_code :: "string \<Rightarrow> gerror \<Rightarrow> bool" where
  "has_code code err =
     (case errors_As_platform err of Some e \<Rightarrow> platform_Code e = code | None \<Rightarrow> False)"

definition IsNotFound :: "gerror \<Rightarrow> bool" where
  "IsNotFound err = has_code CodeNotFound err"

definition IsForbidden :: "gerror \<Rightarrow> bool" where
  "IsForbidden err = has_code CodeForbidden err"

definition IsUnauthorized :: "gerror \<Rightarrow> bool" where
  "IsUnauthorized err = has_code CodeUnauthorized err"

lemmas platform_codes =
  CodeNotFound_def CodeUnauthorized_def CodeForbidden_def CodeBadRequest_def CodeInternal_def
  CodeConflict_def

lemmas platform_constructors =
  NotFound_def Unauthorized_def Forbidden_def BadRequest_def Internal_def Conflict_def

text \<open>At most one of the three classifiers accepts an error: the codes differ.\<close>

lemma has_code_unique: "has_code c err \<Longrightarrow> has_code c' err \<Longrightarrow> c = c'"
  by (auto simp: has_code_def split: option.splits)

text \<open>Wrapping with \<open>%w\<close> never changes the classification.\<close>

lemma has_code_wrap [simp]: "has_code c (Wrap pre e post) = has_code c e"
  by (simp add: has_code_def)

text \<open>An error wraps at most one sentinel, so the order of the cases of a mapping does not matter.\<close>

lemma sentinel_unique: "errors_Is e (Sentinel a) \<Longrightarrow> errors_Is e (Sentinel b) \<Longrightarrow> a = b"
  by (induction e "Sentinel a" rule: errors_Is.induct) auto

lemma sentinel_iff: "errors_Is e (Sentinel n) \<Longrightarrow> errors_Is e (Sentinel m) \<longleftrightarrow> m = n"
  using sentinel_unique by blast

end
