(* ===== verification/Schema.thy ===== *)
theory Schema
  imports GoErrors
begin

text \<open>
  The ScyllaDB tables of \<open>internal/accounts/schema/schema.cql\<close>, the CQL statements the stores
  issue, and the documented meaning of each statement on the tables. A table is a map from its
  primary key; a column that a row may lack (CQL null) is an \<open>option\<close>. ScyllaDB itself is not
  part of the repository: what is stated here is the behaviour of the statements that the CQL
  documentation promises and the stores rely on (an \<open>INSERT .. IF NOT EXISTS\<close> applies exactly
  when the key is absent; an \<open>UPDATE\<close> without condition is an upsert; a materialized view holds
  the rows of its base table whose key columns are not null).
\<close>

section \<open>Rows and tables\<close>

record tenant_row =
  col_slug :: "string option"
  col_display_name :: "string option"
  col_status :: "string option"
  col_plan_id :: "string option"
  col_pod_cidr :: "string option"
  col_svc_cidr :: "string option"
  col_created_at :: "time option"
  col_updated_at :: "time option"

record user_row =
  ucol_email :: string
  ucol_password_hash :: string
  ucol_tenant_id :: uuid
  ucol_status :: string
  ucol_created_at :: time
  ucol_updated_at :: time

record key_row =
  kcol_key_id :: "uuid option"
  kcol_tenant_id :: "uuid option"
  kcol_user_id :: "uuid option"
  kcol_display_name :: "string option"
  kcol_scopes :: "string option"
  kcol_status :: "string option"
  kcol_expiry :: "time option"
  kcol_last_used_at :: "time option"
  kcol_created_at :: "time option"

record cidr_row =
  ccol_tenant_id :: uuid
  ccol_cidr_type :: string
  ccol_allocated_at :: time

record job_row =
  jcol_idempotency_key :: "string option"
  jcol_operation :: "string option"
  jcol_status :: "string option"
  jcol_error_message :: "string option"
  jcol_result :: "string option"
  jcol_started_at :: "time option"
  jcol_completed_at :: "time option"

text \<open>A row that no statement has written: every column is null.\<close>

definition null_tenant :: tenant_row where
  "null_tenant = \<lparr>col_slug = None, col_display_name = None, col_status = None,
     col_plan_id = None, col_pod_cidr = None, col_svc_cidr = None, col_created_at = None,
     col_updated_at = None\<rparr>"

definition null_key :: key_row where
  "null_key = \<lparr>kcol_key_id = None, kcol_tenant_id = None, kcol_user_id = None,
     kcol_display_name = None, kcol_scopes = None, kcol_status = None, kcol_expiry = None,
     kcol_last_used_at = None, kcol_created_at = None\<rparr>"

definition null_job :: job_row where
  "null_job = \<lparr>jcol_idempotency_key = None, jcol_operation = None, jcol_status = None,
     jcol_error_message = None, jcol_result = None, jcol_started_at = None,
     jcol_completed_at = None\<rparr>"

record cf_db =
  tenants :: "uuid \<rightharpoonup> tenant_row"
  tenant_slugs :: "string \<Rightarrow> bool"
  users :: "uuid \<rightharpoonup> user_row"
  api_keys :: "string \<rightharpoonup> key_row"
  cidr_allocations :: "string \<rightharpoonup> cidr_row"
  provisioning_jobs :: "(uuid \<times> uuid) \<rightharpoonup> job_row"
  provisioning_jobs_by_idem :: "(uuid \<times> string) \<rightharpoonup> uuid"
  ddl_log :: "string list"

definition empty_db :: cf_db where
  "empty_db = \<lparr>tenants = Map.empty, tenant_slugs = (\<lambda>_. False), users = Map.empty,
     api_keys = Map.empty, cidr_allocations = Map.empty, provisioning_jobs = Map.empty,
     provisioning_jobs_by_idem = Map.empty, ddl_log = []\<rparr>"

section \<open>Statements\<close>

text \<open>
  The conditional statements (\<open>IF NOT EXISTS\<close>, \<open>IF status = ?\<close>), run with
  \<open>MapScanCAS\<close>; the key columns come first.
\<close>

datatype cas_stmt =
    InsertTenantSlug string
  | InsertTenant uuid tenant_row
  | InsertUser uuid user_row
  | InsertAPIKey string key_row
  | InsertIdem uuid string uuid
  | InsertCIDR string cidr_row
  | ClaimJob uuid uuid string time string  \<comment> \<open>tenant, job, new status, started_at, expected status\<close>

text \<open>The unconditional statements, run with \<open>Exec\<close>.\<close>

datatype exec_stmt =
    DeleteTenantSlug string
  | UpdateTenantCIDRs uuid string string time
  | UpdateTenantStatus uuid string time
  | UpdateKeyStatus string string
  | InsertJob uuid uuid job_row
  | UpdateJobReady uuid uuid string string time
  | UpdateJobFailed uuid uuid string string time
  | DeleteCIDR string
  | DDL string

definition row_or :: "'r \<Rightarrow> 'r option \<Rightarrow> 'r" where
  "row_or r x = (case x of None \<Rightarrow> r | Some y \<Rightarrow> y)"

lemma row_or_simps [simp]: "row_or r None = r" "row_or r (Some y) = y"
  by (simp_all add: row_or_def)

text \<open>Whether a conditional statement applies.\<close>

fun cas_applies :: "cas_stmt \<Rightarrow> cf_db \<Rightarrow> bool" where
  "cas_applies (InsertTenantSlug s) d \<longleftrightarrow> \<not> tenant_slugs d s"
| "cas_applies (InsertTenant i r) d \<longleftrightarrow> tenants d i = None"
| "cas_applies (InsertUser i r) d \<longleftrightarrow> users d i = None"
| "cas_applies (InsertAPIKey h r) d \<longleftrightarrow> api_keys d h = None"
| "cas_applies (InsertIdem t k j) d \<longleftrightarrow> provisioning_jobs_by_idem d (t, k) = None"
| "cas_applies (InsertCIDR c r) d \<longleftrightarrow> cidr_allocations d c = None"
| "cas_applies (ClaimJob t j s at expected) d \<longleftrightarrow>
     (case provisioning_jobs d (t, j) of None \<Rightarrow> False | Some r \<Rightarrow> jcol_status r = Some expected)"

declare cas_applies.simps(7) [simp del]

text \<open>The row a conditional statement writes when it applies.\<close>

fun cas_write :: "cas_stmt \<Rightarrow> cf_db \<Rightarrow> cf_db" where
  "cas_write (InsertTenantSlug s) d = d\<lparr>tenant_slugs := (tenant_slugs d)(s := True)\<rparr>"
| "cas_write (InsertTenant i r) d = d\<lparr>tenants := (tenants d)(i \<mapsto> r)\<rparr>"
| "cas_write (InsertUser i r) d = d\<lparr>users := (users d)(i \<mapsto> r)\<rparr>"
| "cas_write (InsertAPIKey h r) d = d\<lparr>api_keys := (api_keys d)(h \<mapsto> r)\<rparr>"
| "cas_write (InsertIdem t k j) d =
     d\<lparr>provisioning_jobs_by_idem := (provisioning_jobs_by_idem d)((t, k) \<mapsto> j)\<rparr>"
| "cas_write (InsertCIDR c r) d = d\<lparr>cidr_allocations := (cidr_allocations d)(c \<mapsto> r)\<rparr>"
| "cas_write (ClaimJob t j s at expected) d =
     d\<lparr>provisioning_jobs := (provisioning_jobs d)((t, j) \<mapsto>
        (row_or null_job (provisioning_jobs d (t, j)))
          \<lparr>jcol_status := Some s, jcol_started_at := Some at\<rparr>)\<rparr>"

definition cas_effect :: "cas_stmt \<Rightarrow> cf_db \<Rightarrow> cf_db" where
  "cas_effect c d = (if cas_applies c d then cas_write c d else d)"

text \<open>
  The \<open>job_id\<close> column of the rejected row that \<open>MapScanCAS\<close> leaves in its map, which only
  the idempotency insert reads.
\<close>

fun cas_existing :: "cas_stmt \<Rightarrow> cf_db \<Rightarrow> uuid option" where
  "cas_existing (InsertIdem t k j) d = provisioning_jobs_by_idem d (t, k)"
| "cas_existing c d = None"

fun exec_effect :: "exec_stmt \<Rightarrow> cf_db \<Rightarrow> cf_db" where
  "exec_effect (DeleteTenantSlug s) d = d\<lparr>tenant_slugs := (tenant_slugs d)(s := False)\<rparr>"
| "exec_effect (UpdateTenantCIDRs i pod svc at) d =
     d\<lparr>tenants := (tenants d)(i \<mapsto> (row_or null_tenant (tenants d i))
        \<lparr>col_pod_cidr := Some pod, col_svc_cidr := Some svc, col_updated_at := Some at\<rparr>)\<rparr>"
| "exec_effect (UpdateTenantStatus i s at) d =
     d\<lparr>tenants := (tenants d)(i \<mapsto> (row_or null_tenant (tenants d i))
        \<lparr>col_status := Some s, col_updated_at := Some at\<rparr>)\<rparr>"
| "exec_effect (UpdateKeyStatus h s) d =
     d\<lparr>api_keys := (api_keys d)(h \<mapsto> (row_or null_key (api_keys d h))\<lparr>kcol_status := Some s\<rparr>)\<rparr>"
| "exec_effect (InsertJob t j r) d =
     d\<lparr>provisioning_jobs := (provisioning_jobs d)((t, j) \<mapsto> r)\<rparr>"
| "exec_effect (UpdateJobReady t j s result at) d =
     d\<lparr>provisioning_jobs := (provisioning_jobs d)((t, j) \<mapsto>
        (row_or null_job (provisioning_jobs d (t, j)))
          \<lparr>jcol_status := Some s, jcol_result := Some result, jcol_completed_at := Some at\<rparr>)\<rparr>"
| "exec_effect (UpdateJobFailed t j s msg at) d =
     d\<lparr>provisioning_jobs := (provisioning_jobs d)((t, j) \<mapsto>
        (row_or null_job (provisioning_jobs d (t, j)))
          \<lparr>jcol_status := Some s, jcol_error_message := Some msg, jcol_completed_at := Some at\<rparr>)\<rparr>"
| "exec_effect (DeleteCIDR c) d = d\<lparr>cidr_allocations := (cidr_allocations d)(c := None)\<rparr>"
| "exec_effect (DDL s) d = d\<lparr>ddl_log := ddl_log d @ [s]\<rparr>"

text \<open>
  The views: a row of \<open>tenants_by_slug\<close> (\<open>users_by_email\<close>) is a row of the base table with
  that slug (email). Several tenants may share a slug in the view; a \<open>SELECT\<close> scans one of them.
\<close>

definition tenants_by_slug :: "cf_db \<Rightarrow> string \<Rightarrow> uuid \<Rightarrow> tenant_row \<Rightarrow> bool" where
  "tenants_by_slug d s i r \<longleftrightarrow> tenants d i = Some r \<and> col_slug r = Some s"

definition users_by_email :: "cf_db \<Rightarrow> string \<Rightarrow> uuid \<Rightarrow> user_row \<Rightarrow> bool" where
  "users_by_email d e i r \<longleftrightarrow> users d i = Some r \<and> ucol_email r = e"

definition keys_by_id :: "cf_db \<Rightarrow> uuid \<Rightarrow> string \<Rightarrow> bool" where
  "keys_by_id d i h \<longleftrightarrow> (\<exists>r. api_keys d h = Some r \<and> kcol_key_id r = Some i)"

lemma cas_effect_not_applied [simp]: "\<not> cas_applies c d \<Longrightarrow> cas_effect c d = d"
  by (simp add: cas_effect_def)

lemma cas_effect_applied [simp]: "cas_applies c d \<Longrightarrow> cas_effect c d = cas_write c d"
  by (simp add: cas_effect_def)

text \<open>A conditional insert never overwrites: the row of its key afterwards is the one that was there.\<close>

lemma cas_tenant_preserves:
  "tenants d i = Some r \<Longrightarrow> tenants (cas_effect c d) i = Some r"
  by (cases c) (auto simp: cas_effect_def)

lemma cas_cidr_preserves:
  "cidr_allocations d k = Some r \<Longrightarrow> cidr_allocations (cas_effect c d) k = Some r"
  by (cases c) (auto simp: cas_effect_def)

lemma cas_idem_preserves:
  "provisioning_jobs_by_idem d k = Some j \<Longrightarrow> provisioning_jobs_by_idem (cas_effect c d) k = Some j"
  by (cases c) (auto simp: cas_effect_def)

lemma exec_idem [simp]:
  "provisioning_jobs_by_idem (exec_effect x d) = provisioning_jobs_by_idem d"
  by (cases x) auto

end
