(* ===== verification/AccountsTypes.thy ===== *)
theory AccountsTypes
  imports Schema
begin

text \<open>
  The records and status constants of package \<open>internal/accounts\<close>: \<open>Tenant\<close>, \<open>User\<close>,
  \<open>APIKey\<close> and \<open>ProvisioningJob\<close>, and how a scanned row fills them. A null column leaves the
  zero value of the Go field (the empty string, the nil UUID, the zero time).
\<close>

section \<open>Statuses\<close>

type_synonym TenantStatus = string
type_synonym UserStatus = string
type_synonym APIKeyStatus = string
type_synonym JobStatus = string
type_synonym JobOperation = string

definition TenantStatusProvisioning :: TenantStatus where
  "TenantStatusProvisioning = ''PROVISIONING''"
definition TenantStatusActive :: TenantStatus where
  "TenantStatusActive = ''ACTIVE''"
definition TenantStatusSuspended :: TenantStatus where
  "TenantStatusSuspended = ''SUSPENDED''"
definition TenantStatusDeleted :: TenantStatus where
  "TenantStatusDeleted = ''DELETED''"

definition UserStatusActive :: UserStatus where
  "UserStatusActive = ''ACTIVE''"
definition UserStatusSuspended :: UserStatus where
  "UserStatusSuspended = ''SUSPENDED''"

definition APIKeyStatusActive :: APIKeyStatus where
  "APIKeyStatusActive = ''ACTIVE''"
definition APIKeyStatusRotating :: APIKeyStatus where
  "APIKeyStatusRotating = ''ROTATING''"
definition APIKeyStatusRevoked :: APIKeyStatus where
  "APIKeyStatusRevoked = ''REVOKED''"

definition JobStatusQueued :: JobStatus where
  "JobStatusQueued = ''QUEUED''"
definition JobStatusProvisioning :: JobStatus where
  "JobStatusProvisioning = ''PROVISIONING''"
definition JobStatusReady :: JobStatus where
  "JobStatusReady = ''READY''"
definition JobStatusFailed :: JobStatus where
  "JobStatusFailed = ''FAILED''"

definition JobOperationProvisionVPC :: JobOperation where
  "JobOperationProvisionVPC = ''PROVISION_VPC''"
definition JobOperationDeprovisionVPC :: JobOperation where
  "JobOperationDeprovisionVPC = ''DEPROVISION_VPC''"

lemma tenant_status_distinct [status_distinct, simp]:
  "TenantStatusProvisioning \<noteq> TenantStatusActive" "TenantStatusActive \<noteq> TenantStatusProvisioning"
  "TenantStatusProvisioning \<noteq> TenantStatusDeleted" "TenantStatusDeleted \<noteq> TenantStatusProvisioning"
  "TenantStatusActive \<noteq> TenantStatusDeleted" "TenantStatusDeleted \<noteq> TenantStatusActive"
  by (simp_all add: TenantStatusProvisioning_def TenantStatusActive_def TenantStatusDeleted_def)

lemma key_status_distinct [status_distinct, simp]:
  "APIKeyStatusActive \<noteq> APIKeyStatusRevoked" "APIKeyStatusRevoked \<noteq> APIKeyStatusActive"
  by (simp_all add: APIKeyStatusActive_def APIKeyStatusRevoked_def)

lemma job_status_distinct [status_distinct, simp]:
  "JobStatusQueued \<noteq> JobStatusProvisioning" "JobStatusProvisioning \<noteq> JobStatusQueued"
  "JobStatusQueued \<noteq> JobStatusReady" "JobStatusReady \<noteq> JobStatusQueued"
  "JobStatusQueued \<noteq> JobStatusFailed" "JobStatusFailed \<noteq> JobStatusQueued"
  "JobStatusProvisioning \<noteq> JobStatusReady" "JobStatusReady \<noteq> JobStatusProvisioning"
  "JobStatusProvisioning \<noteq> JobStatusFailed" "JobStatusFailed \<noteq> JobStatusProvisioning"
  "JobStatusReady \<noteq> JobStatusFailed" "JobStatusFailed \<noteq> JobStatusReady"
  by (simp_all add: JobStatusQueued_def JobStatusProvisioning_def JobStatusReady_def
      JobStatusFailed_def)

section \<open>Structs\<close>

record Tenant =
  CreatedAt :: time
  UpdatedAt :: time
  Slug :: string
  DisplayName :: string
  Status :: TenantStatus
  PlanID :: string
  PodCIDR :: string
  SvcCIDR :: string
  TenantID :: uuid

record User =
  User_CreatedAt :: time
  User_UpdatedAt :: time
  User_Email :: string
  User_PasswordHash :: string
  User_Status :: UserStatus
  User_UserID :: uuid
  User_TenantID :: uuid

record APIKey =
  Key_ExpiresAt :: time
  Key_LastUsedAt :: time
  Key_CreatedAt :: time
  Key_KeyHash :: string
  Key_DisplayName :: string
  Key_Scopes :: string
  Key_Status :: APIKeyStatus
  Key_KeyID :: uuid
  Key_TenantID :: uuid
  Key_UserID :: uuid

record ProvisioningJob =
  Job_StartedAt :: time
  Job_CompletedAt :: time
  Job_IdempotencyKey :: string
  Job_Operation :: JobOperation
  Job_Status :: JobStatus
  Job_ErrorMessage :: string
  Job_Result :: string
  Job_JobID :: uuid
  Job_TenantID :: uuid

section \<open>Scanning a row into a struct\<close>

definition str :: "string option \<Rightarrow> string" where
  "str x = (case x of None \<Rightarrow> [] | Some s \<Rightarrow> s)"

definition tm :: "time option \<Rightarrow> time" where
  "tm x = (case x of None \<Rightarrow> zero_time | Some t \<Rightarrow> t)"

definition uid :: "uuid option \<Rightarrow> uuid" where
  "uid x = (case x of None \<Rightarrow> uuid_Nil | Some i \<Rightarrow> i)"

lemma scan_some [simp]: "str (Some s) = s" "tm (Some t) = t" "uid (Some i) = i"
  by (simp_all add: str_def tm_def uid_def)

lemma scan_null [simp]: "str None = []" "tm None = zero_time" "uid None = uuid_Nil"
  by (simp_all add: str_def tm_def uid_def)

text \<open>
  A timestamp column holds milliseconds: binding a \<open>time.Time\<close> (nanoseconds) truncates it.
\<close>

definition cql_timestamp :: "time \<Rightarrow> time" where
  "cql_timestamp t = t - t mod 1000000"

lemma cql_timestamp_idem [simp]: "cql_timestamp (cql_timestamp t) = cql_timestamp t"
  by (simp add: cql_timestamp_def mod_diff_eq [symmetric] minus_mod_eq_mult_div)

lemma cql_timestamp_zero [simp]: "cql_timestamp zero_time = zero_time"
  by (simp add: cql_timestamp_def zero_time_def)

definition scan_tenant :: "uuid \<Rightarrow> tenant_row \<Rightarrow> Tenant" where
  "scan_tenant i r = \<lparr>CreatedAt = tm (col_created_at r), UpdatedAt = tm (col_updated_at r),
     Slug = str (col_slug r), DisplayName = str (col_display_name r),
     Status = str (col_status r), PlanID = str (col_plan_id r),
     PodCIDR = str (col_pod_cidr r), SvcCIDR = str (col_svc_cidr r), TenantID = i\<rparr>"

definition scan_user :: "uuid \<Rightarrow> user_row \<Rightarrow> User" where
  "scan_user i r = \<lparr>User_CreatedAt = ucol_created_at r, User_UpdatedAt = ucol_updated_at r,
     User_Email = ucol_email r, User_PasswordHash = ucol_password_hash r,
     User_Status = ucol_status r, User_UserID = i, User_TenantID = ucol_tenant_id r\<rparr>"

definition scan_key :: "string \<Rightarrow> key_row \<Rightarrow> APIKey" where
  "scan_key h r = \<lparr>Key_ExpiresAt = tm (kcol_expiry r), Key_LastUsedAt = tm (kcol_last_used_at r),
     Key_CreatedAt = tm (kcol_created_at r), Key_KeyHash = h,
     Key_DisplayName = str (kcol_display_name r), Key_Scopes = str (kcol_scopes r),
     Key_Status = str (kcol_status r), Key_KeyID = uid (kcol_key_id r),
     Key_TenantID = uid (kcol_tenant_id r), Key_UserID = uid (kcol_user_id r)\<rparr>"

definition scan_job :: "uuid \<Rightarrow> uuid \<Rightarrow> job_row \<Rightarrow> ProvisioningJob" where
  "scan_job t j r = \<lparr>Job_StartedAt = tm (jcol_started_at r),
     Job_CompletedAt = tm (jcol_completed_at r),
     Job_IdempotencyKey = str (jcol_idempotency_key r), Job_Operation = str (jcol_operation r),
     Job_Status = str (jcol_status r), Job_ErrorMessage = str (jcol_error_message r),
     Job_Result = str (jcol_result r), Job_JobID = j, Job_TenantID = t\<rparr>"

lemmas scan_defs = scan_tenant_def scan_user_def scan_key_def scan_job_def

end
