(* ===== verification/Effects.thy ===== *)
theory Effects
  imports AccountsTypes
begin

text \<open>
  Effectful Go code as programs over external calls. A \<open>prog\<close> is the code's control flow, with
  one constructor per kind of call that leaves the process (the UUID, clock, random and bcrypt
  libraries, a CQL statement on the ScyllaDB session, an OpenBao KV v2 request, an external
  command, a \<open>select\<close> on a context, a \<open>go\<close> statement) and the rest of the code as a function of
  the reply. Nothing is said about the external systems in a program: they are the argument of
  its interpreters.

  \<^item> \<open>run\<close> executes a program against a record \<open>ops\<close> of reply functions over any state; it is
    executable.
  \<^item> \<open>estep\<close> and \<open>sem\<close> are all the steps and executions the documented behaviour of the
    external systems allows, with a bound \<open>fault\<close> on what may fail; \<open>run_sem\<close> says that a run
    against systems that behave as documented is one of them.
  \<^item> \<open>preach\<close> (theory \<open>Pools\<close>) interleaves the steps of several programs, as goroutines and
    replicas do.
\<close>

section \<open>External state and calls\<close>

datatype kv_val = KVString string | KVOther

type_synonym kv_data = "string \<rightharpoonup> kv_val"

record cmd_out =
  exit_err :: "gerror option"
  cmd_stdout :: string
  cmd_stderr :: string

datatype goroutine =
    RunProvisionWorkflow uuid string
  | RunDeprovisionWorkflow uuid Tenant

text \<open>
  What the code can change outside its process: the tables, the OpenBao secrets, the external
  commands issued so far (arguments, standard input and whether they succeeded), and the
  goroutines started.
\<close>

record sys =
  db :: cf_db
  kv :: "string \<rightharpoonup> kv_data"
  cmds :: "(string list \<times> string \<times> bool) list"
  spawned :: "goroutine list"

datatype tenant_query = TenantByID uuid | TenantBySlug string
datatype user_query = UserByID uuid | UserByEmail string

datatype 'a prog =
    Ret 'a
  | NewUUID "gerror + uuid \<Rightarrow> 'a prog"
  | RandRead nat "gerror + string \<Rightarrow> 'a prog"
  | Bcrypt string nat "gerror + string \<Rightarrow> 'a prog"
  | Now "time \<Rightarrow> 'a prog"
  | Today "string \<Rightarrow> 'a prog"
  | Cas cas_stmt "gerror + bool \<times> uuid option \<Rightarrow> 'a prog"
  | Exec exec_stmt "gerror option \<Rightarrow> 'a prog"
  | ScanTenant tenant_query "gerror + uuid \<times> tenant_row \<Rightarrow> 'a prog"
  | ScanUser user_query "gerror + uuid \<times> user_row \<Rightarrow> 'a prog"
  | ScanKey string "gerror + key_row \<Rightarrow> 'a prog"
  | ScanKeyHash uuid "gerror + string \<Rightarrow> 'a prog"
  | ScanJob uuid uuid "gerror + job_row \<Rightarrow> 'a prog"
  | KVPut string kv_data "gerror option \<Rightarrow> 'a prog"
  | KVGet string "gerror + kv_data option option \<Rightarrow> 'a prog"
  | KVDeleteMetadata string "gerror option \<Rightarrow> 'a prog"
  | Command "string list" string "cmd_out \<Rightarrow> 'a prog"
  | SelectDone "gerror option \<Rightarrow> 'a prog"
  | Go goroutine "'a prog"

primrec bind :: "'a prog \<Rightarrow> ('a \<Rightarrow> 'b prog) \<Rightarrow> 'b prog" where
  "bind (Ret a) f = f a"
| "bind (NewUUID k) f = NewUUID (\<lambda>r. bind (k r) f)"
| "bind (RandRead n k) f = RandRead n (\<lambda>r. bind (k r) f)"
| "bind (Bcrypt p n k) f = Bcrypt p n (\<lambda>r. bind (k r) f)"
| "bind (Now k) f = Now (\<lambda>r. bind (k r) f)"
| "bind (Today k) f = Today (\<lambda>r. bind (k r) f)"
| "bind (Cas c k) f = Cas c (\<lambda>r. bind (k r) f)"
| "bind (Exec x k) f = Exec x (\<lambda>r. bind (k r) f)"
| "bind (ScanTenant q k) f = ScanTenant q (\<lambda>r. bind (k r) f)"
| "bind (ScanUser q k) f = ScanUser q (\<lambda>r. bind (k r) f)"
| "bind (ScanKey h k) f = ScanKey h (\<lambda>r. bind (k r) f)"
| "bind (ScanKeyHash i k) f = ScanKeyHash i (\<lambda>r. bind (k r) f)"
| "bind (ScanJob t j k) f = ScanJob t j (\<lambda>r. bind (k r) f)"
| "bind (KVPut p v k) f = KVPut p v (\<lambda>r. bind (k r) f)"
| "bind (KVGet p k) f = KVGet p (\<lambda>r. bind (k r) f)"
| "bind (KVDeleteMetadata p k) f = KVDeleteMetadata p (\<lambda>r. bind (k r) f)"
| "bind (Command a i k) f = Command a i (\<lambda>r. bind (k r) f)"
| "bind (SelectDone k) f = SelectDone (\<lambda>r. bind (k r) f)"
| "bind (Go g p) f = Go g (bind p f)"

text \<open>Two shapes of Go code: \<open>x, err := f(); if err != nil { return wrap(err) }\<close> and
  \<open>if err := f(); err != nil { return wrap(err) }\<close>.\<close>

abbreviation attempt :: "(gerror + 'a) prog \<Rightarrow> (gerror \<Rightarrow> 'b prog) \<Rightarrow> ('a \<Rightarrow> 'b prog) \<Rightarrow> 'b prog" where
  "attempt p h f \<equiv> bind p (\<lambda>r. case r of Inl e \<Rightarrow> h e | Inr a \<Rightarrow> f a)"

abbreviation check :: "gerror option prog \<Rightarrow> (gerror \<Rightarrow> 'b prog) \<Rightarrow> 'b prog \<Rightarrow> 'b prog" where
  "check p h f \<equiv> bind p (\<lambda>r. case r of Some e \<Rightarrow> h e | None \<Rightarrow> f)"

lemma bind_Ret [simp]: "bind p Ret = p"
  by (induction p) auto

lemma bind_assoc [simp]: "bind (bind p f) g = bind p (\<lambda>a. bind (f a) g)"
  by (induction p) auto

end
