(* ===== verification/Execution.thy ===== *)
theory Execution
  imports Effects
begin

text \<open>
  What the programs of \<open>Effects\<close> do. \<open>estep\<close> states the documented behaviour of the external
  systems, one rule per call and outcome; \<open>sem\<close> is a whole execution of one program. Pools of
  concurrent programs are in \<open>Pools\<close>, the executable interpreter in \<open>World\<close>.
\<close>

section \<open>Faults\<close>

text \<open>
  \<open>NoFaults\<close>: every external system answers. \<open>CleanFaults\<close>: any call may return an error, and a
  statement that returned one was not applied. \<open>AnyFaults\<close>: a write that returned an error (a
  timeout) may or may not have been applied.
\<close>

datatype fault = NoFaults | CleanFaults | AnyFaults

definition faulty :: "fault \<Rightarrow> bool" where
  "faulty f \<longleftrightarrow> f \<noteq> NoFaults"

lemma faulty_simps [simp]: "\<not> faulty NoFaults" "faulty CleanFaults" "faulty AnyFaults"
  by (simp_all add: faulty_def)

text \<open>
  The errors of a fault: an error of an external package that is neither a \<open>not found\<close> answer of
  the driver nor one of OpenBao.
\<close>

definition fault_error :: "gerror \<Rightarrow> bool" where
  "fault_error e \<longleftrightarrow> (case e of
      Ext x \<Rightarrow> x \<noteq> GocqlErrNotFound \<and> \<not> HasPrefix (ext_text x) ''secret not found:'' \<and>
               (case x of BaoResponseError n m \<Rightarrow> n \<noteq> 404 | _ \<Rightarrow> True)
    | _ \<Rightarrow> False)"

lemma fault_error_not_sentinel [simp]:
  "fault_error e \<Longrightarrow> \<not> errors_Is e (Sentinel s)"
  "fault_error e \<Longrightarrow> \<not> errors_Is e ErrNotFound_gocql"
  by (cases e; simp add: fault_error_def)+

lemma fault_error_neq [simp]: "\<not> fault_error (Sentinel s)" "\<not> fault_error ErrNotFound_gocql"
  "\<not> fault_error (Wrap a b c)" "\<not> fault_error (Text t)"
  by (simp_all add: fault_error_def)

section \<open>Documented outcomes of the calls\<close>

definition value_reply :: "fault \<Rightarrow> ('a \<Rightarrow> bool) \<Rightarrow> gerror + 'a \<Rightarrow> bool" where
  "value_reply f ok r \<longleftrightarrow> (case r of Inl e \<Rightarrow> faulty f \<and> fault_error e | Inr v \<Rightarrow> ok v)"

text \<open>bcrypt refuses passwords of more than 72 bytes.\<close>

definition bcrypt_reply :: "fault \<Rightarrow> string \<Rightarrow> gerror + string \<Rightarrow> bool" where
  "bcrypt_reply f pw r \<longleftrightarrow>
     (case r of Inl e \<Rightarrow> fault_error e \<and> (faulty f \<or> 72 < length pw) | Inr h \<Rightarrow> length pw \<le> 72)"

text \<open>A write with effect \<open>g\<close> on the state, and the reply \<open>r\<close> of a successful one.\<close>

definition write_reply :: "fault \<Rightarrow> (sys \<Rightarrow> sys) \<Rightarrow> sys \<Rightarrow> gerror option \<Rightarrow> sys \<Rightarrow> bool" where
  "write_reply f g s r s' \<longleftrightarrow> (case r of
      None \<Rightarrow> s' = g s
    | Some e \<Rightarrow> faulty f \<and> fault_error e \<and> (s' = s \<or> f = AnyFaults \<and> s' = g s))"

definition cas_reply ::
    "fault \<Rightarrow> cas_stmt \<Rightarrow> sys \<Rightarrow> gerror + bool \<times> uuid option \<Rightarrow> sys \<Rightarrow> bool" where
  "cas_reply f c s r s' \<longleftrightarrow> (case r of
      Inr (applied, x) \<Rightarrow> s' = s\<lparr>db := cas_effect c (db s)\<rparr> \<and> applied = cas_applies c (db s) \<and>
                          x = (if applied then None else cas_existing c (db s))
    | Inl e \<Rightarrow> faulty f \<and> fault_error e \<and>
               (s' = s \<or> f = AnyFaults \<and> s' = s\<lparr>db := cas_effect c (db s)\<rparr>))"

text \<open>A read: one of the matching rows, \<open>gocql.ErrNotFound\<close> when there is none, or a fault.\<close>

definition row_reply :: "fault \<Rightarrow> ('r \<Rightarrow> bool) \<Rightarrow> gerror + 'r \<Rightarrow> bool" where
  "row_reply f matching r \<longleftrightarrow> (case r of
      Inr x \<Rightarrow> matching x
    | Inl e \<Rightarrow> (e = ErrNotFound_gocql \<and> (\<nexists>x. matching x)) \<or> (faulty f \<and> fault_error e))"

fun tenant_matches :: "cf_db \<Rightarrow> tenant_query \<Rightarrow> uuid \<times> tenant_row \<Rightarrow> bool" where
  "tenant_matches d (TenantByID i) (j, r) \<longleftrightarrow> j = i \<and> tenants d i = Some r"
| "tenant_matches d (TenantBySlug s) (j, r) \<longleftrightarrow> tenants_by_slug d s j r"

fun user_matches :: "cf_db \<Rightarrow> user_query \<Rightarrow> uuid \<times> user_row \<Rightarrow> bool" where
  "user_matches d (UserByID i) (j, r) \<longleftrightarrow> j = i \<and> users d i = Some r"
| "user_matches d (UserByEmail e) (j, r) \<longleftrightarrow> users_by_email d e j r"

text \<open>
  KV v2 reads: the stored data, or for a path with no data any of the three answers the code
  distinguishes (a nil secret or nil data, a 404 response, the \<open>secret not found:\<close> error).
\<close>

definition kv_missing :: "gerror + kv_data option option \<Rightarrow> bool" where
  "kv_missing r \<longleftrightarrow> (case r of
      Inr None \<Rightarrow> True | Inr (Some None) \<Rightarrow> True | Inr (Some (Some v)) \<Rightarrow> False
    | Inl (Ext (BaoResponseError n m)) \<Rightarrow> n = 404
    | Inl (Ext (LibError m)) \<Rightarrow> HasPrefix m ''secret not found:''
    | Inl e \<Rightarrow> False)"

definition kv_reply :: "fault \<Rightarrow> sys \<Rightarrow> string \<Rightarrow> gerror + kv_data option option \<Rightarrow> bool" where
  "kv_reply f s p r \<longleftrightarrow>
     (case kv s p of Some v \<Rightarrow> r = Inr (Some (Some v)) | None \<Rightarrow> kv_missing r) \<or>
     (\<exists>e. r = Inl e \<and> faulty f \<and> fault_error e)"

definition log_command :: "string list \<Rightarrow> string \<Rightarrow> cmd_out \<Rightarrow> sys \<Rightarrow> sys" where
  "log_command a i out s = s\<lparr>cmds := cmds s @ [(a, i, exit_err out = None)]\<rparr>"

definition command_reply :: "fault \<Rightarrow> cmd_out \<Rightarrow> bool" where
  "command_reply f out \<longleftrightarrow> (case exit_err out of None \<Rightarrow> True | Some e \<Rightarrow> faulty f \<and> fault_error e)"

text \<open>
  A \<open>select\<close> between \<open>ctx.Done()\<close> and a timer: the timer fired, or the context ended, with the
  error \<open>ctx.Err()\<close> reports.
\<close>

definition DeadlineExceeded :: gerror where
  "DeadlineExceeded = Ext (LibError ''context deadline exceeded'')"

definition Canceled :: gerror where
  "Canceled = Ext (LibError ''context canceled'')"

definition select_reply :: "gerror option \<Rightarrow> bool" where
  "select_reply r \<longleftrightarrow> (case r of None \<Rightarrow> True | Some e \<Rightarrow> e \<in> {DeadlineExceeded, Canceled})"

lemma select_reply_simps [simp]: "select_reply None" "select_reply (Some e) \<longleftrightarrow> e \<in> {DeadlineExceeded, Canceled}"
  by (simp_all add: select_reply_def)

inductive estep :: "fault \<Rightarrow> 'a prog \<Rightarrow> sys \<Rightarrow> 'a prog \<Rightarrow> sys \<Rightarrow> bool" for f where
  new_uuid: "value_reply f (\<lambda>_. True) r \<Longrightarrow> estep f (NewUUID k) s (k r) s"
| rand_read: "value_reply f (\<lambda>b. length b = n) r \<Longrightarrow> estep f (RandRead n k) s (k r) s"
| bcrypt: "bcrypt_reply f pw r \<Longrightarrow> estep f (Bcrypt pw c k) s (k r) s"
| now: "estep f (Now k) s (k t) s"
| today: "estep f (Today k) s (k t) s"
| cas: "cas_reply f c s r s' \<Longrightarrow> estep f (Cas c k) s (k r) s'"
| exec: "write_reply f (\<lambda>s. s\<lparr>db := exec_effect x (db s)\<rparr>) s r s' \<Longrightarrow> estep f (Exec x k) s (k r) s'"
| scan_tenant: "row_reply f (tenant_matches (db s) q) r \<Longrightarrow> estep f (ScanTenant q k) s (k r) s"
| scan_user: "row_reply f (user_matches (db s) q) r \<Longrightarrow> estep f (ScanUser q k) s (k r) s"
| scan_key: "row_reply f (\<lambda>r. api_keys (db s) h = Some r) r \<Longrightarrow> estep f (ScanKey h k) s (k r) s"
| scan_key_hash: "row_reply f (keys_by_id (db s) i) r \<Longrightarrow> estep f (ScanKeyHash i k) s (k r) s"
| scan_job: "row_reply f (\<lambda>r. provisioning_jobs (db s) (t, j) = Some r) r \<Longrightarrow>
     estep f (ScanJob t j k) s (k r) s"
| kv_put: "write_reply f (\<lambda>s. s\<lparr>kv := (kv s)(p \<mapsto> v)\<rparr>) s r s' \<Longrightarrow> estep f (KVPut p v k) s (k r) s'"
| kv_get: "kv_reply f s p r \<Longrightarrow> estep f (KVGet p k) s (k r) s"
| kv_delete: "write_reply f (\<lambda>s. s\<lparr>kv := (kv s)(p := None)\<rparr>) s r s' \<Longrightarrow>
     estep f (KVDeleteMetadata p k) s (k r) s'"
| command: "command_reply f out \<Longrightarrow> estep f (Command a i k) s (k out) (log_command a i out s)"
| select_done: "select_reply b \<Longrightarrow> estep f (SelectDone k) s (k b) s"
| go: "estep f (Go g p) s p (s\<lparr>spawned := spawned s @ [g]\<rparr>)"

inductive_simps estep_Ret [simp]: "estep f (Ret a) s p s'"
inductive_simps estep_NewUUID: "estep f (NewUUID k) s p s'"
inductive_simps estep_RandRead: "estep f (RandRead n k) s p s'"
inductive_simps estep_Bcrypt: "estep f (Bcrypt pw c k) s p s'"
inductive_simps estep_Now: "estep f (Now k) s p s'"
inductive_simps estep_Today: "estep f (Today k) s p s'"
inductive_simps estep_Cas: "estep f (Cas c k) s p s'"
inductive_simps estep_Exec: "estep f (Exec x k) s p s'"
inductive_simps estep_ScanTenant: "estep f (ScanTenant q k) s p s'"
inductive_simps estep_ScanUser: "estep f (ScanUser q k) s p s'"
inductive_simps estep_ScanKey: "estep f (ScanKey h k) s p s'"
inductive_simps estep_ScanKeyHash: "estep f (ScanKeyHash i k) s p s'"
inductive_simps estep_ScanJob: "estep f (ScanJob t j k) s p s'"
inductive_simps estep_KVPut: "estep f (KVPut q v k) s p s'"
inductive_simps estep_KVGet: "estep f (KVGet q k) s p s'"
inductive_simps estep_KVDeleteMetadata: "estep f (KVDeleteMetadata q k) s p s'"
inductive_simps estep_Command: "estep f (Command a i k) s p s'"
inductive_simps estep_SelectDone: "estep f (SelectDone k) s p s'"
inductive_simps estep_Go: "estep f (Go g q) s p s'"

lemmas estep_simps =
  estep_NewUUID estep_RandRead estep_Bcrypt estep_Now estep_Today estep_Cas estep_Exec
  estep_ScanTenant estep_ScanUser estep_ScanKey estep_ScanKeyHash estep_ScanJob estep_KVPut
  estep_KVGet estep_KVDeleteMetadata estep_Command estep_SelectDone estep_Go

section \<open>Executions of one program\<close>

inductive sem :: "fault \<Rightarrow> 'a prog \<Rightarrow> sys \<Rightarrow> 'a \<Rightarrow> sys \<Rightarrow> bool" for f where
  sem_done: "sem f (Ret a) s a s"
| sem_step: "estep f p s p' s' \<Longrightarrow> sem f p' s' a t \<Longrightarrow> sem f p s a t"

lemma sem_Ret_iff [simp]: "sem f (Ret a) s b t \<longleftrightarrow> b = a \<and> t = s"
  by (subst sem.simps) auto

text \<open>The execution of each call, as a simp rule: this is how the component proofs unfold a program.\<close>

lemma sem_calls [simp]:
  "sem f (NewUUID k0) s a t \<longleftrightarrow> (\<exists>r. value_reply f (\<lambda>_. True) r \<and> sem f (k0 r) s a t)"
  "sem f (RandRead n k1) s a t \<longleftrightarrow> (\<exists>r. value_reply f (\<lambda>b. length b = n) r \<and> sem f (k1 r) s a t)"
  "sem f (Bcrypt pw cost k2) s a t \<longleftrightarrow> (\<exists>r. bcrypt_reply f pw r \<and> sem f (k2 r) s a t)"
  "sem f (Now k3) s a t \<longleftrightarrow> (\<exists>r. sem f (k3 r) s a t)"
  "sem f (Today k4) s a t \<longleftrightarrow> (\<exists>r. sem f (k4 r) s a t)"
  "sem f (Cas c k5) s a t \<longleftrightarrow> (\<exists>r s'. cas_reply f c s r s' \<and> sem f (k5 r) s' a t)"
  "sem f (Exec x k6) s a t \<longleftrightarrow>
     (\<exists>r s'. write_reply f (\<lambda>s. s\<lparr>db := exec_effect x (db s)\<rparr>) s r s' \<and> sem f (k6 r) s' a t)"
  "sem f (ScanTenant q k7) s a t \<longleftrightarrow>
     (\<exists>r. row_reply f (tenant_matches (db s) q) r \<and> sem f (k7 r) s a t)"
  "sem f (ScanUser u k8) s a t \<longleftrightarrow>
     (\<exists>r. row_reply f (user_matches (db s) u) r \<and> sem f (k8 r) s a t)"
  "sem f (ScanKey h k9) s a t \<longleftrightarrow>
     (\<exists>r. row_reply f (\<lambda>r. api_keys (db s) h = Some r) r \<and> sem f (k9 r) s a t)"
  "sem f (ScanKeyHash i k10) s a t \<longleftrightarrow>
     (\<exists>r. row_reply f (keys_by_id (db s) i) r \<and> sem f (k10 r) s a t)"
  "sem f (ScanJob tn j k11) s a t \<longleftrightarrow>
     (\<exists>r. row_reply f (\<lambda>r. provisioning_jobs (db s) (tn, j) = Some r) r \<and> sem f (k11 r) s a t)"
  "sem f (KVPut p v k12) s a t \<longleftrightarrow>
     (\<exists>r s'. write_reply f (\<lambda>s. s\<lparr>kv := (kv s)(p \<mapsto> v)\<rparr>) s r s' \<and> sem f (k12 r) s' a t)"
  "sem f (KVGet p k13) s a t \<longleftrightarrow> (\<exists>r. kv_reply f s p r \<and> sem f (k13 r) s a t)"
  "sem f (KVDeleteMetadata p k14) s a t \<longleftrightarrow>
     (\<exists>r s'. write_reply f (\<lambda>s. s\<lparr>kv := (kv s)(p := None)\<rparr>) s r s' \<and> sem f (k14 r) s' a t)"
  "sem f (Command cmd input k15) s a t \<longleftrightarrow>
     (\<exists>out. command_reply f out \<and> sem f (k15 out) (log_command cmd input out s) a t)"
  "sem f (SelectDone k16) s a t \<longleftrightarrow> (\<exists>b. select_reply b \<and> sem f (k16 b) s a t)"
  "sem f (Go g q0) s a t \<longleftrightarrow> sem f q0 (s\<lparr>spawned := spawned s @ [g]\<rparr>) a t"
  by (subst sem.simps; auto simp: estep_simps)+

lemma sem_bind [simp]:
  "sem f (bind p g) s b t \<longleftrightarrow> (\<exists>a u. sem f p s a u \<and> sem f (g a) u b t)"
  by (induction p arbitrary: s) (simp; blast)+

section \<open>Replies, case by case\<close>

lemma reply_simps [simp]:
  "value_reply f ok (Inl e) \<longleftrightarrow> faulty f \<and> fault_error e"
  "value_reply f ok (Inr v) \<longleftrightarrow> ok v"
  "bcrypt_reply f pw (Inl e) \<longleftrightarrow> fault_error e \<and> (faulty f \<or> 72 < length pw)"
  "bcrypt_reply f pw (Inr h) \<longleftrightarrow> length pw \<le> 72"
  "write_reply f g s None s' \<longleftrightarrow> s' = g s"
  "write_reply f g s (Some e) s' \<longleftrightarrow> faulty f \<and> fault_error e \<and> (s' = s \<or> f = AnyFaults \<and> s' = g s)"
  "cas_reply f c s (Inr (b, x)) s' \<longleftrightarrow> s' = s\<lparr>db := cas_effect c (db s)\<rparr> \<and>
     b = cas_applies c (db s) \<and> x = (if b then None else cas_existing c (db s))"
  "cas_reply f c s (Inl e) s' \<longleftrightarrow> faulty f \<and> fault_error e \<and>
     (s' = s \<or> f = AnyFaults \<and> s' = s\<lparr>db := cas_effect c (db s)\<rparr>)"
  "row_reply f M (Inr row) \<longleftrightarrow> M row"
  "row_reply f M (Inl e) \<longleftrightarrow> (e = ErrNotFound_gocql \<and> (\<nexists>y. M y)) \<or> (faulty f \<and> fault_error e)"
  by (auto simp: value_reply_def bcrypt_reply_def write_reply_def cas_reply_def row_reply_def)

lemma sys_db_id [simp]: "s\<lparr>db := db s\<rparr> = s"
  by simp

lemmas ex_reply = split_sum_ex split_option_ex

text \<open>The two outcomes of a fallible step.\<close>

lemma checkE [consumes 1, case_names fail ok]:
  assumes "sem f (check p h q) s a t"
  obtains e u where "sem f p s (Some e) u" "sem f (h e) u a t"
    | u where "sem f p s None u" "sem f q u a t"
proof -
  from assms obtain r u where "sem f p s r u" "sem f (case r of Some e \<Rightarrow> h e | None \<Rightarrow> q) u a t" by auto
  then show thesis using that by (cases r) auto
qed

lemma attemptE [consumes 1, case_names fail ok]:
  assumes "sem f (attempt p h q) s a t"
  obtains e u where "sem f p s (Inl e) u" "sem f (h e) u a t"
    | b u where "sem f p s (Inr b) u" "sem f (q b) u a t"
proof -
  from assms obtain r u where "sem f p s r u" "sem f (case r of Inl e \<Rightarrow> h e | Inr b \<Rightarrow> q b) u a t" by auto
  then show thesis using that by (cases r) auto
qed

section \<open>Database programs\<close>

text \<open>Programs that touch nothing but the tables: their executions keep everything else.\<close>

primrec db_only :: "'a prog \<Rightarrow> bool" where
  "db_only (Ret a) \<longleftrightarrow> True"
| "db_only (NewUUID k) \<longleftrightarrow> (\<forall>r. db_only (k r))"
| "db_only (RandRead n k) \<longleftrightarrow> (\<forall>r. db_only (k r))"
| "db_only (Bcrypt p n k) \<longleftrightarrow> (\<forall>r. db_only (k r))"
| "db_only (Now k) \<longleftrightarrow> (\<forall>r. db_only (k r))"
| "db_only (Today k) \<longleftrightarrow> (\<forall>r. db_only (k r))"
| "db_only (Cas c k) \<longleftrightarrow> (\<forall>r. db_only (k r))"
| "db_only (Exec x k) \<longleftrightarrow> (\<forall>r. db_only (k r))"
| "db_only (ScanTenant q k) \<longleftrightarrow> (\<forall>r. db_only (k r))"
| "db_only (ScanUser q k) \<longleftrightarrow> (\<forall>r. db_only (k r))"
| "db_only (ScanKey h k) \<longleftrightarrow> (\<forall>r. db_only (k r))"
| "db_only (ScanKeyHash i k) \<longleftrightarrow> (\<forall>r. db_only (k r))"
| "db_only (ScanJob t j k) \<longleftrightarrow> (\<forall>r. db_only (k r))"
| "db_only (KVPut p v k) \<longleftrightarrow> False"
| "db_only (KVGet p k) \<longleftrightarrow> (\<forall>r. db_only (k r))"
| "db_only (KVDeleteMetadata p k) \<longleftrightarrow> False"
| "db_only (Command a i k) \<longleftrightarrow> False"
| "db_only (SelectDone k) \<longleftrightarrow> (\<forall>r. db_only (k r))"
| "db_only (Go g p) \<longleftrightarrow> False"

lemma db_only_bind [simp]: "db_only p \<Longrightarrow> (\<And>a. db_only (h a)) \<Longrightarrow> db_only (bind p h)"
  by (induction p) auto

definition same_outside :: "sys \<Rightarrow> sys \<Rightarrow> bool" where
  "same_outside s t \<longleftrightarrow> kv t = kv s \<and> cmds t = cmds s \<and> spawned t = spawned s"

lemma same_outside_simps [simp]:
  "same_outside s s" "same_outside s (s\<lparr>db := d\<rparr>)"
  by (simp_all add: same_outside_def)

lemma same_outside_trans: "same_outside s t \<Longrightarrow> same_outside t u \<Longrightarrow> same_outside s u"
  by (simp add: same_outside_def)

lemma estep_db_only:
  "estep f p s p' s' \<Longrightarrow> db_only p \<Longrightarrow> db_only p' \<and> same_outside s s'"
  by (induction rule: estep.induct)
     (auto simp: cas_reply_def write_reply_def split: sum.splits option.splits)

lemma sem_db_only: "sem f p s a t \<Longrightarrow> db_only p \<Longrightarrow> same_outside s t"
  by (induction rule: sem.induct) (auto dest: estep_db_only intro: same_outside_trans)

section \<open>Statements of a program\<close>

text \<open>
  Every conditional statement a program may issue satisfies \<open>P\<close> and every other one \<open>Q\<close>; a
  relation that holds across those statements holds across every execution.
\<close>

primrec issues :: "(cas_stmt \<Rightarrow> bool) \<Rightarrow> (exec_stmt \<Rightarrow> bool) \<Rightarrow> 'a prog \<Rightarrow> bool" where
  "issues P Q (Ret a) \<longleftrightarrow> True"
| "issues P Q (NewUUID k) \<longleftrightarrow> (\<forall>r. issues P Q (k r))"
| "issues P Q (RandRead n k) \<longleftrightarrow> (\<forall>r. issues P Q (k r))"
| "issues P Q (Bcrypt p n k) \<longleftrightarrow> (\<forall>r. issues P Q (k r))"
| "issues P Q (Now k) \<longleftrightarrow> (\<forall>r. issues P Q (k r))"
| "issues P Q (Today k) \<longleftrightarrow> (\<forall>r. issues P Q (k r))"
| "issues P Q (Cas c k) \<longleftrightarrow> P c \<and> (\<forall>r. issues P Q (k r))"
| "issues P Q (Exec x k) \<longleftrightarrow> Q x \<and> (\<forall>r. issues P Q (k r))"
| "issues P Q (ScanTenant q k) \<longleftrightarrow> (\<forall>r. issues P Q (k r))"
| "issues P Q (ScanUser q k) \<longleftrightarrow> (\<forall>r. issues P Q (k r))"
| "issues P Q (ScanKey h k) \<longleftrightarrow> (\<forall>r. issues P Q (k r))"
| "issues P Q (ScanKeyHash i k) \<longleftrightarrow> (\<forall>r. issues P Q (k r))"
| "issues P Q (ScanJob t j k) \<longleftrightarrow> (\<forall>r. issues P Q (k r))"
| "issues P Q (KVPut p v k) \<longleftrightarrow> (\<forall>r. issues P Q (k r))"
| "issues P Q (KVGet p k) \<longleftrightarrow> (\<forall>r. issues P Q (k r))"
| "issues P Q (KVDeleteMetadata p k) \<longleftrightarrow> (\<forall>r. issues P Q (k r))"
| "issues P Q (Command a i k) \<longleftrightarrow> (\<forall>r. issues P Q (k r))"
| "issues P Q (SelectDone k) \<longleftrightarrow> (\<forall>r. issues P Q (k r))"
| "issues P Q (Go g p) \<longleftrightarrow> issues P Q p"

lemma issues_bind [intro!]: "issues P Q p \<Longrightarrow> (\<And>a. issues P Q (h a)) \<Longrightarrow> issues P Q (bind p h)"
  by (induction p) auto

lemma estep_issues:
  assumes "estep f p s p' s'" and "issues P Q p"
    and "\<And>c d. P c \<Longrightarrow> rel d (cas_effect c d)" and "\<And>x d. Q x \<Longrightarrow> rel d (exec_effect x d)"
    and "\<And>d. rel d d"
  shows "issues P Q p' \<and> rel (db s) (db s')"
  using assms
  by (induction rule: estep.induct)
     (auto simp: cas_reply_def write_reply_def log_command_def split: sum.splits option.splits)

lemma sem_issues:
  assumes "sem f p s a t" and "issues P Q p"
    and "\<And>c d. P c \<Longrightarrow> rel d (cas_effect c d)" and "\<And>x d. Q x \<Longrightarrow> rel d (exec_effect x d)"
    and "\<And>d. rel d d" and "\<And>d e g. rel d e \<Longrightarrow> rel e g \<Longrightarrow> rel d g"
  shows "rel (db s) (db t)"
  using assms(1,2)
proof (induction rule: sem.induct)
  case (sem_done a s)
  then show ?case using assms(5) by simp
next
  case (sem_step p s p' s' a t)
  have "issues P Q p' \<and> rel (db s) (db s')"
    by (rule estep_issues [OF sem_step.hyps(1) sem_step.prems assms(3-5)])
  then show ?case using sem_step.IH assms(6) by blast
qed

end
