(* ===== verification/World.thy ===== *)
theory World
  imports Execution
begin

text \<open>
  The executable interpreter and the pool of concurrent programs. \<open>ops\<close> is what a program needs
  of its environment: one reply function per external call, over any state \<open>'w\<close>. The locale
  \<open>external_systems\<close> is the documented behaviour as an interface on such a record; inside it, a
  run of a program is one of its executions (\<open>run_sem\<close>). \<open>ref_ops\<close> is a reference environment
  (in-memory tables and secrets, counters for UUIDs and the clock, a script of faults), and the
  interpretations \<open>ref\<close> (no faults) and \<open>ref_faults\<close> (any script of faults) discharge the
  laws for it. Every witness of an execution property runs in it.
\<close>

section \<open>Environments and runs\<close>

record 'w ops =
  op_uuid :: "'w \<Rightarrow> (gerror + uuid) \<times> 'w"
  op_rand :: "nat \<Rightarrow> 'w \<Rightarrow> (gerror + string) \<times> 'w"
  op_bcrypt :: "string \<Rightarrow> nat \<Rightarrow> 'w \<Rightarrow> (gerror + string) \<times> 'w"
  op_now :: "'w \<Rightarrow> time \<times> 'w"
  op_today :: "'w \<Rightarrow> string \<times> 'w"
  op_cas :: "cas_stmt \<Rightarrow> 'w \<Rightarrow> (gerror + bool \<times> uuid option) \<times> 'w"
  op_exec :: "exec_stmt \<Rightarrow> 'w \<Rightarrow> gerror option \<times> 'w"
  op_tenant :: "tenant_query \<Rightarrow> 'w \<Rightarrow> (gerror + uuid \<times> tenant_row) \<times> 'w"
  op_user :: "user_query \<Rightarrow> 'w \<Rightarrow> (gerror + uuid \<times> user_row) \<times> 'w"
  op_key :: "string \<Rightarrow> 'w \<Rightarrow> (gerror + key_row) \<times> 'w"
  op_key_hash :: "uuid \<Rightarrow> 'w \<Rightarrow> (gerror + string) \<times> 'w"
  op_job :: "uuid \<Rightarrow> uuid \<Rightarrow> 'w \<Rightarrow> (gerror + job_row) \<times> 'w"
  op_kv_put :: "string \<Rightarrow> kv_data \<Rightarrow> 'w \<Rightarrow> gerror option \<times> 'w"
  op_kv_get :: "string \<Rightarrow> 'w \<Rightarrow> (gerror + kv_data option option) \<times> 'w"
  op_kv_delete :: "string \<Rightarrow> 'w \<Rightarrow> gerror option \<times> 'w"
  op_command :: "string list \<Rightarrow> string \<Rightarrow> 'w \<Rightarrow> cmd_out \<times> 'w"
  op_select :: "'w \<Rightarrow> gerror option \<times> 'w"
  op_go :: "goroutine \<Rightarrow> 'w \<Rightarrow> 'w"

text \<open>One call of a program, answered by the environment.\<close>

primrec next_call :: "'w ops \<Rightarrow> 'a prog \<Rightarrow> 'w \<Rightarrow> 'a prog \<times> 'w" where
  "next_call W (Ret a) w = (Ret a, w)"
| "next_call W (NewUUID k) w = (case op_uuid W w of (r, w) \<Rightarrow> (k r, w))"
| "next_call W (RandRead n k) w = (case op_rand W n w of (r, w) \<Rightarrow> (k r, w))"
| "next_call W (Bcrypt p c k) w = (case op_bcrypt W p c w of (r, w) \<Rightarrow> (k r, w))"
| "next_call W (Now k) w = (case op_now W w of (r, w) \<Rightarrow> (k r, w))"
| "next_call W (Today k) w = (case op_today W w of (r, w) \<Rightarrow> (k r, w))"
| "next_call W (Cas c k) w = (case op_cas W c w of (r, w) \<Rightarrow> (k r, w))"
| "next_call W (Exec x k) w = (case op_exec W x w of (r, w) \<Rightarrow> (k r, w))"
| "next_call W (ScanTenant q k) w = (case op_tenant W q w of (r, w) \<Rightarrow> (k r, w))"
| "next_call W (ScanUser q k) w = (case op_user W q w of (r, w) \<Rightarrow> (k r, w))"
| "next_call W (ScanKey h k) w = (case op_key W h w of (r, w) \<Rightarrow> (k r, w))"
| "next_call W (ScanKeyHash i k) w = (case op_key_hash W i w of (r, w) \<Rightarrow> (k r, w))"
| "next_call W (ScanJob t j k) w = (case op_job W t j w of (r, w) \<Rightarrow> (k r, w))"
| "next_call W (KVPut p v k) w = (case op_kv_put W p v w of (r, w) \<Rightarrow> (k r, w))"
| "next_call W (KVGet p k) w = (case op_kv_get W p w of (r, w) \<Rightarrow> (k r, w))"
| "next_call W (KVDeleteMetadata p k) w = (case op_kv_delete W p w of (r, w) \<Rightarrow> (k r, w))"
| "next_call W (Command a i k) w = (case op_command W a i w of (r, w) \<Rightarrow> (k r, w))"
| "next_call W (SelectDone k) w = (case op_select W w of (r, w) \<Rightarrow> (k r, w))"
| "next_call W (Go g p) w = (p, op_go W g w)"

primrec run :: "'w ops \<Rightarrow> 'a prog \<Rightarrow> 'w \<Rightarrow> 'a \<times> 'w" where
  "run W (Ret a) = (\<lambda>w. (a, w))"
| "run W (NewUUID k) = (\<lambda>w. case op_uuid W w of (r, w) \<Rightarrow> run W (k r) w)"
| "run W (RandRead n k) = (\<lambda>w. case op_rand W n w of (r, w) \<Rightarrow> run W (k r) w)"
| "run W (Bcrypt p c k) = (\<lambda>w. case op_bcrypt W p c w of (r, w) \<Rightarrow> run W (k r) w)"
| "run W (Now k) = (\<lambda>w. case op_now W w of (r, w) \<Rightarrow> run W (k r) w)"
| "run W (Today k) = (\<lambda>w. case op_today W w of (r, w) \<Rightarrow> run W (k r) w)"
| "run W (Cas c k) = (\<lambda>w. case op_cas W c w of (r, w) \<Rightarrow> run W (k r) w)"
| "run W (Exec x k) = (\<lambda>w. case op_exec W x w of (r, w) \<Rightarrow> run W (k r) w)"
| "run W (ScanTenant q k) = (\<lambda>w. case op_tenant W q w of (r, w) \<Rightarrow> run W (k r) w)"
| "run W (ScanUser q k) = (\<lambda>w. case op_user W q w of (r, w) \<Rightarrow> run W (k r) w)"
| "run W (ScanKey h k) = (\<lambda>w. case op_key W h w of (r, w) \<Rightarrow> run W (k r) w)"
| "run W (ScanKeyHash i k) = (\<lambda>w. case op_key_hash W i w of (r, w) \<Rightarrow> run W (k r) w)"
| "run W (ScanJob t j k) = (\<lambda>w. case op_job W t j w of (r, w) \<Rightarrow> run W (k r) w)"
| "run W (KVPut p v k) = (\<lambda>w. case op_kv_put W p v w of (r, w) \<Rightarrow> run W (k r) w)"
| "run W (KVGet p k) = (\<lambda>w. case op_kv_get W p w of (r, w) \<Rightarrow> run W (k r) w)"
| "run W (KVDeleteMetadata p k) = (\<lambda>w. case op_kv_delete W p w of (r, w) \<Rightarrow> run W (k r) w)"
| "run W (Command a i k) = (\<lambda>w. case op_command W a i w of (r, w) \<Rightarrow> run W (k r) w)"
| "run W (SelectDone k) = (\<lambda>w. case op_select W w of (r, w) \<Rightarrow> run W (k r) w)"
| "run W (Go g p) = (\<lambda>w. run W p (op_go W g w))"

lemma run_bind: "run W (bind p f) w = (case run W p w of (a, w') \<Rightarrow> run W (f a) w')"
  by (induction p arbitrary: w) (auto split: prod.splits)

fun returned :: "'a prog \<Rightarrow> 'a option" where
  "returned (Ret a) = Some a"
| "returned p = None"

section \<open>Documented behaviour as an interface\<close>

locale external_systems =
  fixes f :: fault and W :: "'w ops" and view :: "'w \<Rightarrow> sys" and good :: "'w \<Rightarrow> bool"
  assumes uuid_law: "good w \<Longrightarrow> op_uuid W w = (r1, w') \<Longrightarrow>
      value_reply f (\<lambda>_. True) r1 \<and> view w' = view w \<and> good w'"
    and rand_law: "good w \<Longrightarrow> op_rand W n w = (r2, w') \<Longrightarrow>
      value_reply f (\<lambda>b. length b = n) r2 \<and> view w' = view w \<and> good w'"
    and bcrypt_law: "good w \<Longrightarrow> op_bcrypt W pw c w = (r3, w') \<Longrightarrow>
      bcrypt_reply f pw r3 \<and> view w' = view w \<and> good w'"
    and now_law: "good w \<Longrightarrow> op_now W w = (r4, w') \<Longrightarrow> view w' = view w \<and> good w'"
    and today_law: "good w \<Longrightarrow> op_today W w = (r5, w') \<Longrightarrow> view w' = view w \<and> good w'"
    and cas_law: "good w \<Longrightarrow> op_cas W cs w = (r6, w') \<Longrightarrow>
      cas_reply f cs (view w) r6 (view w') \<and> good w'"
    and exec_law: "good w \<Longrightarrow> op_exec W x w = (r7, w') \<Longrightarrow>
      write_reply f (\<lambda>s. s\<lparr>db := exec_effect x (db s)\<rparr>) (view w) r7 (view w') \<and> good w'"
    and tenant_law: "good w \<Longrightarrow> op_tenant W tq w = (r8, w') \<Longrightarrow>
      row_reply f (tenant_matches (db (view w)) tq) r8 \<and> view w' = view w \<and> good w'"
    and user_law: "good w \<Longrightarrow> op_user W uq w = (r9, w') \<Longrightarrow>
      row_reply f (user_matches (db (view w)) uq) r9 \<and> view w' = view w \<and> good w'"
    and key_law: "good w \<Longrightarrow> op_key W h w = (r10, w') \<Longrightarrow>
      row_reply f (\<lambda>r. api_keys (db (view w)) h = Some r) r10 \<and> view w' = view w \<and> good w'"
    and key_hash_law: "good w \<Longrightarrow> op_key_hash W i w = (r11, w') \<Longrightarrow>
      row_reply f (keys_by_id (db (view w)) i) r11 \<and> view w' = view w \<and> good w'"
    and job_law: "good w \<Longrightarrow> op_job W t j w = (r12, w') \<Longrightarrow>
      row_reply f (\<lambda>r. provisioning_jobs (db (view w)) (t, j) = Some r) r12 \<and>
      view w' = view w \<and> good w'"
    and kv_put_law: "good w \<Longrightarrow> op_kv_put W p v w = (r7, w') \<Longrightarrow>
      write_reply f (\<lambda>s. s\<lparr>kv := (kv s)(p \<mapsto> v)\<rparr>) (view w) r7 (view w') \<and> good w'"
    and kv_get_law: "good w \<Longrightarrow> op_kv_get W p w = (r13, w') \<Longrightarrow>
      kv_reply f (view w) p r13 \<and> view w' = view w \<and> good w'"
    and kv_delete_law: "good w \<Longrightarrow> op_kv_delete W p w = (r7, w') \<Longrightarrow>
      write_reply f (\<lambda>s. s\<lparr>kv := (kv s)(p := None)\<rparr>) (view w) r7 (view w') \<and> good w'"
    and command_law: "good w \<Longrightarrow> op_command W a inp w = (out, w') \<Longrightarrow>
      command_reply f out \<and> view w' = log_command a inp out (view w) \<and> good w'"
    and select_law: "good w \<Longrightarrow> op_select W w = (b, w') \<Longrightarrow>
      select_reply b \<and> view w' = view w \<and> good w'"
    and go_law: "good w \<Longrightarrow>
      view (op_go W g w) = (view w)\<lparr>spawned := spawned (view w) @ [g]\<rparr> \<and> good (op_go W g w)"
begin

lemmas laws = uuid_law rand_law bcrypt_law now_law today_law cas_law exec_law tenant_law user_law
  key_law key_hash_law job_law kv_put_law kv_get_law kv_delete_law command_law select_law

text \<open>A call answered by conforming systems is a documented step.\<close>

lemma next_call_estep:
  assumes g: "good w" and n: "next_call W p w = (p', w')" and r: "returned p = None"
  shows "estep f p (view w) p' (view w') \<and> good w'"
proof (cases p)
  case Ret
  then show ?thesis using r by simp
next
  case (NewUUID k)
  then obtain y where "op_uuid W w = (y, w')" and p': "p' = k y" using n by (auto split: prod.splits)
  from uuid_law [OF g this(1)] show ?thesis unfolding NewUUID p' by (auto intro: estep.new_uuid)
next
  case (RandRead n k)
  then obtain y where "op_rand W n w = (y, w')" and p': "p' = k y" using n by (auto split: prod.splits)
  from rand_law [OF g this(1)] show ?thesis unfolding RandRead p' by (auto intro: estep.rand_read)
next
  case (Bcrypt q c k)
  then obtain y where "op_bcrypt W q c w = (y, w')" and p': "p' = k y" using n by (auto split: prod.splits)
  from bcrypt_law [OF g this(1)] show ?thesis unfolding Bcrypt p' by (auto intro: estep.bcrypt)
next
  case (Now k)
  then obtain y where "op_now W w = (y, w')" and p': "p' = k y" using n by (auto split: prod.splits)
  from now_law [OF g this(1)] show ?thesis unfolding Now p' by (auto intro: estep.now)
next
  case (Today k)
  then obtain y where "op_today W w = (y, w')" and p': "p' = k y" using n by (auto split: prod.splits)
  from today_law [OF g this(1)] show ?thesis unfolding Today p' by (auto intro: estep.today)
next
  case (Cas c k)
  then obtain y where "op_cas W c w = (y, w')" and p': "p' = k y" using n by (auto split: prod.splits)
  from cas_law [OF g this(1)] show ?thesis unfolding Cas p' by (auto intro: estep.cas)
next
  case (Exec x k)
  then obtain y where "op_exec W x w = (y, w')" and p': "p' = k y" using n by (auto split: prod.splits)
  from exec_law [OF g this(1)] show ?thesis unfolding Exec p' by (auto intro: estep.exec)
next
  case (ScanTenant q k)
  then obtain y where "op_tenant W q w = (y, w')" and p': "p' = k y" using n by (auto split: prod.splits)
  from tenant_law [OF g this(1)] show ?thesis unfolding ScanTenant p' by (auto intro: estep.scan_tenant)
next
  case (ScanUser q k)
  then obtain y where "op_user W q w = (y, w')" and p': "p' = k y" using n by (auto split: prod.splits)
  from user_law [OF g this(1)] show ?thesis unfolding ScanUser p' by (auto intro: estep.scan_user)
next
  case (ScanKey h k)
  then obtain y where "op_key W h w = (y, w')" and p': "p' = k y" using n by (auto split: prod.splits)
  from key_law [OF g this(1)] show ?thesis unfolding ScanKey p' by (auto intro: estep.scan_key)
next
  case (ScanKeyHash i k)
  then obtain y where "op_key_hash W i w = (y, w')" and p': "p' = k y" using n by (auto split: prod.splits)
  from key_hash_law [OF g this(1)] show ?thesis unfolding ScanKeyHash p' by (auto intro: estep.scan_key_hash)
next
  case (ScanJob t j k)
  then obtain y where "op_job W t j w = (y, w')" and p': "p' = k y" using n by (auto split: prod.splits)
  from job_law [OF g this(1)] show ?thesis unfolding ScanJob p' by (auto intro: estep.scan_job)
next
  case (KVPut q v k)
  then obtain y where "op_kv_put W q v w = (y, w')" and p': "p' = k y" using n by (auto split: prod.splits)
  from kv_put_law [OF g this(1)] show ?thesis unfolding KVPut p' by (auto intro: estep.kv_put)
next
  case (KVGet q k)
  then obtain y where "op_kv_get W q w = (y, w')" and p': "p' = k y" using n by (auto split: prod.splits)
  from kv_get_law [OF g this(1)] show ?thesis unfolding KVGet p' by (auto intro: estep.kv_get)
next
  case (KVDeleteMetadata q k)
  then obtain y where "op_kv_delete W q w = (y, w')" and p': "p' = k y" using n by (auto split: prod.splits)
  from kv_delete_law [OF g this(1)] show ?thesis unfolding KVDeleteMetadata p' by (auto intro: estep.kv_delete)
next
  case (Command c i k)
  then obtain y where "op_command W c i w = (y, w')" and p': "p' = k y" using n by (auto split: prod.splits)
  from command_law [OF g this(1)] show ?thesis unfolding Command p' by (auto intro: estep.command)
next
  case (SelectDone k)
  then obtain y where "op_select W w = (y, w')" and p': "p' = k y" using n by (auto split: prod.splits)
  from select_law [OF g this(1)] show ?thesis unfolding SelectDone p' by (auto intro: estep.select_done)
next
  case (Go c k)
  then show ?thesis using n go_law [OF g, of c] estep.go by auto
qed

lemma next_call_good: "good w \<Longrightarrow> next_call W p w = (p', w') \<Longrightarrow> good w'"
  by (cases "returned p") (auto dest: next_call_estep elim: returned.elims)

lemma run_next: "returned p = None \<Longrightarrow> run W p w = (case next_call W p w of (p', w') \<Rightarrow> run W p' w')"
  by (cases p) (auto split: prod.splits)

definition conforms :: "'a prog \<Rightarrow> 'w \<Rightarrow> bool" where
  "conforms p w \<longleftrightarrow>
     sem f p (view w) (fst (run W p w)) (view (snd (run W p w))) \<and> good (snd (run W p w))"

lemma conforms_next:
  assumes "good w" and "returned p = None"
    and ih: "\<And>p' w'. next_call W p w = (p', w') \<Longrightarrow> good w' \<Longrightarrow> conforms p' w'"
  shows "conforms p w"
proof -
  obtain p' w' where n: "next_call W p w = (p', w')" by fastforce
  have e: "estep f p (view w) p' (view w')" and g: "good w'"
    using next_call_estep [OF assms(1) n assms(2)] by auto
  have "run W p w = run W p' w'" using run_next [OF assms(2), of w] n by simp
  then show ?thesis using ih [OF n g] sem_step [OF e] unfolding conforms_def by auto
qed

text \<open>A run against conforming systems is one of the documented executions.\<close>

lemma run_conforms: "good w \<Longrightarrow> conforms p w"
proof (induction p arbitrary: w)
  case (Ret a)
  then show ?case by (simp add: conforms_def)
qed (rule conforms_next; auto split: prod.splits)+

lemma run_sem: "good w \<Longrightarrow> run W p w = (a, w') \<Longrightarrow> sem f p (view w) a (view w')"
  using run_conforms [of w p] by (simp add: conforms_def)

end

section \<open>A reference environment\<close>

text \<open>
  In-memory systems. \<open>script\<close> gives the outcome of the n-th call: answered, refused with an
  error, or lost (applied, and reported as an error). The lists of keys make the reads of a
  materialized view executable.
\<close>

datatype ref_outcome = Answer | Refuse | Lose

record ref_world =
  rw_sys :: sys
  rw_counter :: nat
  rw_calls :: nat
  rw_tenants :: "uuid list"
  rw_users :: "uuid list"
  rw_keys :: "string list"

definition empty_sys :: sys where
  "empty_sys = \<lparr>db = empty_db, kv = Map.empty, cmds = [], spawned = []\<rparr>"

definition ref_start :: ref_world where
  "ref_start = \<lparr>rw_sys = empty_sys, rw_counter = 0, rw_calls = 0, rw_tenants = [],
     rw_users = [], rw_keys = []\<rparr>"

definition ref_fault :: gerror where
  "ref_fault = Ext (DriverError ''timeout'')"

lemma fault_error_ref_fault [simp]: "fault_error ref_fault"
  by (simp add: ref_fault_def fault_error_def HasPrefix_def)

definition ref_tick :: "ref_world \<Rightarrow> ref_world" where
  "ref_tick w = w\<lparr>rw_calls := Suc (rw_calls w)\<rparr>"

definition ref_value ::
    "(nat \<Rightarrow> ref_outcome) \<Rightarrow> (nat \<Rightarrow> 'a) \<Rightarrow> ref_world \<Rightarrow> (gerror + 'a) \<times> ref_world" where
  "ref_value script v w =
     (if script (rw_calls w) = Answer
      then (Inr (v (rw_counter w)), (ref_tick w)\<lparr>rw_counter := Suc (rw_counter w)\<rparr>)
      else (Inl ref_fault, ref_tick w))"

definition ref_read ::
    "(nat \<Rightarrow> ref_outcome) \<Rightarrow> (sys \<Rightarrow> gerror + 'a) \<Rightarrow> ref_world \<Rightarrow> (gerror + 'a) \<times> ref_world" where
  "ref_read script v w =
     (if script (rw_calls w) = Answer then (v (rw_sys w), ref_tick w) else (Inl ref_fault, ref_tick w))"

definition ref_write ::
    "(nat \<Rightarrow> ref_outcome) \<Rightarrow> (sys \<Rightarrow> sys) \<Rightarrow> ref_world \<Rightarrow> gerror option \<times> ref_world" where
  "ref_write script g w =
     (case script (rw_calls w) of
        Answer \<Rightarrow> (None, (ref_tick w)\<lparr>rw_sys := g (rw_sys w)\<rparr>)
      | Refuse \<Rightarrow> (Some ref_fault, ref_tick w)
      | Lose \<Rightarrow> (Some ref_fault, (ref_tick w)\<lparr>rw_sys := g (rw_sys w)\<rparr>))"

fun cas_tenants :: "cas_stmt \<Rightarrow> uuid list" where
  "cas_tenants (InsertTenant i r) = [i]"
| "cas_tenants c = []"

fun cas_users :: "cas_stmt \<Rightarrow> uuid list" where
  "cas_users (InsertUser i r) = [i]"
| "cas_users c = []"

fun cas_keys :: "cas_stmt \<Rightarrow> string list" where
  "cas_keys (InsertAPIKey h r) = [h]"
| "cas_keys c = []"

fun exec_tenants :: "exec_stmt \<Rightarrow> uuid list" where
  "exec_tenants (UpdateTenantCIDRs i p v t) = [i]"
| "exec_tenants (UpdateTenantStatus i st t) = [i]"
| "exec_tenants x = []"

fun exec_keys :: "exec_stmt \<Rightarrow> string list" where
  "exec_keys (UpdateKeyStatus h st) = [h]"
| "exec_keys x = []"

definition ref_cas ::
    "(nat \<Rightarrow> ref_outcome) \<Rightarrow> cas_stmt \<Rightarrow> ref_world \<Rightarrow> (gerror + bool \<times> uuid option) \<times> ref_world" where
  "ref_cas script c w =
     (let d = db (rw_sys w); a = cas_applies c d;
          w' = (ref_tick w)\<lparr>rw_sys := (rw_sys w)\<lparr>db := cas_effect c d\<rparr>,
                 rw_tenants := rw_tenants w @ cas_tenants c,
                 rw_users := rw_users w @ cas_users c, rw_keys := rw_keys w @ cas_keys c\<rparr> in
      case script (rw_calls w) of
        Answer \<Rightarrow> (Inr (a, if a then None else cas_existing c d), w')
      | Refuse \<Rightarrow> (Inl ref_fault, ref_tick w)
      | Lose \<Rightarrow> (Inl ref_fault, w'))"

definition ref_exec ::
    "(nat \<Rightarrow> ref_outcome) \<Rightarrow> exec_stmt \<Rightarrow> ref_world \<Rightarrow> gerror option \<times> ref_world" where
  "ref_exec script x w =
     ref_write script (\<lambda>s. s\<lparr>db := exec_effect x (db s)\<rparr>)
       (w\<lparr>rw_tenants := rw_tenants w @ exec_tenants x, rw_keys := rw_keys w @ exec_keys x\<rparr>)"

text \<open>The first listed key whose row satisfies the condition.\<close>

fun first_row :: "'k list \<Rightarrow> ('k \<Rightarrow> 'r option) \<Rightarrow> ('r \<Rightarrow> bool) \<Rightarrow> gerror + 'k \<times> 'r" where
  "first_row [] m P = Inl ErrNotFound_gocql"
| "first_row (i # is) m P =
     (case m i of Some r \<Rightarrow> if P r then Inr (i, r) else first_row is m P | None \<Rightarrow> first_row is m P)"

lemma first_row_Inr: "first_row is m P = Inr (i, r) \<Longrightarrow> m i = Some r \<and> P r"
  by (induction "is") (auto split: option.splits if_splits)

lemma first_row_Inl:
  "first_row is m P = Inl e \<Longrightarrow> e = ErrNotFound_gocql \<and> (\<forall>i\<in>set is. \<forall>r. m i = Some r \<longrightarrow> \<not> P r)"
  by (induction "is") (auto split: option.splits if_splits)

definition found :: "'r option \<Rightarrow> gerror + 'r" where
  "found x = (case x of None \<Rightarrow> Inl ErrNotFound_gocql | Some r \<Rightarrow> Inr r)"

fun ref_tenant :: "uuid list \<Rightarrow> tenant_query \<Rightarrow> sys \<Rightarrow> gerror + uuid \<times> tenant_row" where
  "ref_tenant is (TenantByID i) s = first_row [i] (tenants (db s)) (\<lambda>_. True)"
| "ref_tenant is (TenantBySlug g) s = first_row is (tenants (db s)) (\<lambda>r. col_slug r = Some g)"

fun ref_user :: "uuid list \<Rightarrow> user_query \<Rightarrow> sys \<Rightarrow> gerror + uuid \<times> user_row" where
  "ref_user is (UserByID i) s = first_row [i] (users (db s)) (\<lambda>_. True)"
| "ref_user is (UserByEmail e) s = first_row is (users (db s)) (\<lambda>r. ucol_email r = e)"

definition ref_key_hash :: "string list \<Rightarrow> uuid \<Rightarrow> sys \<Rightarrow> gerror + string" where
  "ref_key_hash hs i s = map_sum id fst (first_row hs (api_keys (db s)) (\<lambda>r. kcol_key_id r = Some i))"

definition ref_command ::
    "(nat \<Rightarrow> ref_outcome) \<Rightarrow> string list \<Rightarrow> string \<Rightarrow> ref_world \<Rightarrow> cmd_out \<times> ref_world" where
  "ref_command script a i w =
     (let out = \<lparr>exit_err = (if script (rw_calls w) = Answer then None else Some ref_fault),
                 cmd_stdout = ''ok'', cmd_stderr = []\<rparr> in
      (out, (ref_tick w)\<lparr>rw_sys := log_command a i out (rw_sys w)\<rparr>))"

definition ref_bcrypt ::
    "(nat \<Rightarrow> ref_outcome) \<Rightarrow> string \<Rightarrow> ref_world \<Rightarrow> (gerror + string) \<times> ref_world" where
  "ref_bcrypt script pw w =
     (if script (rw_calls w) = Answer \<and> length pw \<le> 72 then (Inr (''$2a$12$'' @ pw), ref_tick w)
      else (Inl (if 72 < length pw then Ext (LibError ''bcrypt: password length exceeds 72 bytes'')
                 else ref_fault), ref_tick w))"

definition ref_ops :: "(nat \<Rightarrow> ref_outcome) \<Rightarrow> ref_world ops" where
  "ref_ops script = \<lparr>
     op_uuid = ref_value script (\<lambda>n. of_nat (Suc n)),
     op_rand = (\<lambda>n. ref_value script (\<lambda>c. replicate n (char_of c))),
     op_bcrypt = (\<lambda>pw cost. ref_bcrypt script pw),
     op_now = (\<lambda>w. (int (Suc (rw_calls w)), ref_tick w)),
     op_today = (\<lambda>w. (''2026-01-01'', ref_tick w)),
     op_cas = ref_cas script,
     op_exec = ref_exec script,
     op_tenant = (\<lambda>q w. ref_read script (ref_tenant (rw_tenants w) q) w),
     op_user = (\<lambda>q w. ref_read script (ref_user (rw_users w) q) w),
     op_key = (\<lambda>h. ref_read script (\<lambda>s. found (api_keys (db s) h))),
     op_key_hash = (\<lambda>i w. ref_read script (ref_key_hash (rw_keys w) i) w),
     op_job = (\<lambda>t j. ref_read script (\<lambda>s. found (provisioning_jobs (db s) (t, j)))),
     op_kv_put = (\<lambda>p v. ref_write script (\<lambda>s. s\<lparr>kv := (kv s)(p \<mapsto> v)\<rparr>)),
     op_kv_get = (\<lambda>p. ref_read script (\<lambda>s. Inr (map_option Some (kv s p)))),
     op_kv_delete = (\<lambda>p. ref_write script (\<lambda>s. s\<lparr>kv := (kv s)(p := None)\<rparr>)),
     op_command = ref_command script,
     op_select = (\<lambda>w. (None, ref_tick w)),
     op_go = (\<lambda>g w. w\<lparr>rw_sys := (rw_sys w)\<lparr>spawned := spawned (rw_sys w) @ [g]\<rparr>\<rparr>)\<rparr>"

text \<open>The key lists cover the tables, so a view read that finds nothing has nothing to find.\<close>

definition ref_good :: "ref_world \<Rightarrow> bool" where
  "ref_good w \<longleftrightarrow> dom (tenants (db (rw_sys w))) \<subseteq> set (rw_tenants w) \<and>
     dom (users (db (rw_sys w))) \<subseteq> set (rw_users w) \<and>
     dom (api_keys (db (rw_sys w))) \<subseteq> set (rw_keys w)"

lemma ref_good_start [simp]: "ref_good ref_start"
  by (simp add: ref_good_def ref_start_def empty_sys_def empty_db_def)

text \<open>What a script may do at a fault level.\<close>

definition script_ok :: "fault \<Rightarrow> (nat \<Rightarrow> ref_outcome) \<Rightarrow> bool" where
  "script_ok f script \<longleftrightarrow> (\<forall>n. (script n \<noteq> Answer \<longrightarrow> faulty f) \<and> (script n = Lose \<longrightarrow> f = AnyFaults))"

lemma cas_effect_doms:
  "dom (tenants (cas_effect c d)) \<subseteq> dom (tenants d) \<union> set (cas_tenants c)"
  "dom (users (cas_effect c d)) \<subseteq> dom (users d) \<union> set (cas_users c)"
  "dom (api_keys (cas_effect c d)) \<subseteq> dom (api_keys d) \<union> set (cas_keys c)"
  by (cases c; auto simp: cas_effect_def)+

lemma exec_effect_doms:
  "dom (tenants (exec_effect x d)) \<subseteq> dom (tenants d) \<union> set (exec_tenants x)"
  "users (exec_effect x d) = users d"
  "dom (api_keys (exec_effect x d)) \<subseteq> dom (api_keys d) \<union> set (exec_keys x)"
  by (cases x; auto)+


lemma ref_good_tick [simp]: "ref_good (ref_tick w) = ref_good w" "rw_sys (ref_tick w) = rw_sys w"
  by (simp_all add: ref_good_def ref_tick_def)

lemma ref_good_counter [simp]: "ref_good (w\<lparr>rw_counter := n\<rparr>) = ref_good w"
  by (simp add: ref_good_def)

lemma script_okD:
  "script_ok f script \<Longrightarrow> script n \<noteq> Answer \<Longrightarrow> faulty f"
  "script_ok f script \<Longrightarrow> script n = Lose \<Longrightarrow> f = AnyFaults"
  by (simp_all add: script_ok_def)

lemma ref_value_law:
  assumes "script_ok f script" and "ref_good w" and "ref_value script v w = (r, w')" and "\<And>n. ok (v n)"
  shows "value_reply f ok r \<and> rw_sys w' = rw_sys w \<and> ref_good w'"
  using assms script_okD(1) [OF assms(1), of "rw_calls w"]
  by (auto simp: ref_value_def value_reply_def split: if_splits)

lemma ref_read_law:
  assumes "script_ok f script" and "ref_good w" and "ref_read script v w = (r, w')"
    and "row_reply NoFaults M (v (rw_sys w))"
  shows "row_reply f M r \<and> rw_sys w' = rw_sys w \<and> ref_good w'"
  using assms script_okD(1) [OF assms(1), of "rw_calls w"]
  by (auto simp: ref_read_def row_reply_def split: if_splits sum.splits)

lemma ref_write_law:
  assumes "script_ok f script" and "ref_write script g w = (r, w')"
    and "ref_good w" and "ref_good (w\<lparr>rw_sys := g (rw_sys w)\<rparr>)"
  shows "write_reply f g (rw_sys w) r (rw_sys w') \<and> ref_good w'"
proof -
  have "ref_good ((ref_tick w)\<lparr>rw_sys := g (rw_sys w)\<rparr>)"
    using assms(4) by (simp add: ref_good_def ref_tick_def)
  then show ?thesis
    using assms script_okD [OF assms(1), of "rw_calls w"]
    by (cases "script (rw_calls w)") (auto simp: ref_write_def write_reply_def)
qed

lemma ref_good_extend:
  assumes "ref_good w"
    and "dom (tenants (db (rw_sys w'))) \<subseteq> dom (tenants (db (rw_sys w))) \<union> set ts"
    and "dom (users (db (rw_sys w'))) \<subseteq> dom (users (db (rw_sys w))) \<union> set us"
    and "dom (api_keys (db (rw_sys w'))) \<subseteq> dom (api_keys (db (rw_sys w))) \<union> set ks"
    and "rw_tenants w' = rw_tenants w @ ts" and "rw_users w' = rw_users w @ us"
    and "rw_keys w' = rw_keys w @ ks"
  shows "ref_good w'"
proof -
  have "set (rw_tenants w') = set (rw_tenants w) \<union> set ts"
    "set (rw_users w') = set (rw_users w) \<union> set us" "set (rw_keys w') = set (rw_keys w) \<union> set ks"
    using assms(5-7) by simp_all
  moreover have trans: "A \<subseteq> B \<union> T \<Longrightarrow> B \<subseteq> C \<Longrightarrow> A \<subseteq> C \<union> T" for A B C T :: "'b set" by blast
  moreover have trans': "A \<subseteq> B \<union> T \<Longrightarrow> B \<subseteq> C \<Longrightarrow> A \<subseteq> C \<union> T" for A B C T :: "'c set" by blast
  ultimately show ?thesis using assms(1) unfolding ref_good_def
    by (intro conjI) (simp_all only: trans [OF assms(2)] trans [OF assms(3)] trans' [OF assms(4)])
qed

lemma ref_cas_law:
  assumes "script_ok f script" and "ref_cas script c w = (r, w')" and g: "ref_good w"
  shows "cas_reply f c (rw_sys w) r (rw_sys w') \<and> ref_good w'"
proof -
  have "ref_good ((ref_tick w)\<lparr>rw_sys := (rw_sys w)\<lparr>db := cas_effect c (db (rw_sys w))\<rparr>,
                 rw_tenants := rw_tenants w @ cas_tenants c,
                 rw_users := rw_users w @ cas_users c, rw_keys := rw_keys w @ cas_keys c\<rparr>)"
    by (rule ref_good_extend [OF g]) (simp_all add: cas_effect_doms ref_tick_def)
  then show ?thesis
    using assms script_okD [OF assms(1), of "rw_calls w"]
    by (cases "script (rw_calls w)") (auto simp: ref_cas_def cas_reply_def Let_def)
qed

lemma ref_exec_law:
  assumes "script_ok f script" and "ref_exec script x w = (r, w')" and g: "ref_good w"
  shows "write_reply f (\<lambda>s. s\<lparr>db := exec_effect x (db s)\<rparr>) (rw_sys w) r (rw_sys w') \<and> ref_good w'"
proof -
  let ?w = "w\<lparr>rw_tenants := rw_tenants w @ exec_tenants x, rw_keys := rw_keys w @ exec_keys x\<rparr>"
  have "write_reply f (\<lambda>s. s\<lparr>db := exec_effect x (db s)\<rparr>) (rw_sys ?w) r (rw_sys w') \<and> ref_good w'"
  proof (rule ref_write_law [OF assms(1)])
    show "ref_write script (\<lambda>s. s\<lparr>db := exec_effect x (db s)\<rparr>) ?w = (r, w')"
      using assms(2) by (simp add: ref_exec_def)
    show "ref_good ?w" using g by (auto simp: ref_good_def)
    show "ref_good (?w\<lparr>rw_sys := (rw_sys ?w)\<lparr>db := exec_effect x (db (rw_sys ?w))\<rparr>\<rparr>)"
      by (rule ref_good_extend [OF g, where us = "[]"]) (simp_all add: exec_effect_doms)
  qed
  then show ?thesis by simp
qed

lemma ref_tenant_law:
  "ref_good w \<Longrightarrow> row_reply NoFaults (tenant_matches (db (rw_sys w)) q) (ref_tenant (rw_tenants w) q (rw_sys w))"
  by (cases q)
     (auto simp: row_reply_def tenants_by_slug_def ref_good_def split: sum.splits option.splits
        dest!: first_row_Inr first_row_Inl; blast)+

lemma ref_user_law:
  "ref_good w \<Longrightarrow> row_reply NoFaults (user_matches (db (rw_sys w)) q) (ref_user (rw_users w) q (rw_sys w))"
  by (cases q)
     (auto simp: row_reply_def users_by_email_def ref_good_def split: sum.splits option.splits
        dest!: first_row_Inr first_row_Inl; blast)+

lemma ref_key_hash_law:
  "ref_good w \<Longrightarrow> row_reply NoFaults (keys_by_id (db (rw_sys w)) i) (ref_key_hash (rw_keys w) i (rw_sys w))"
  by (cases "first_row (rw_keys w) (api_keys (db (rw_sys w))) (\<lambda>r. kcol_key_id r = Some i)")
     (auto simp: row_reply_def keys_by_id_def ref_good_def ref_key_hash_def
        dest!: first_row_Inr first_row_Inl)

lemma found_law: "row_reply NoFaults (\<lambda>r. x = Some r) (found x)"
  by (cases x) (simp_all add: row_reply_def found_def)

lemma ref_kv_law: "kv_reply NoFaults s p (Inr (map_option Some (kv s p)))"
  by (cases "kv s p") (simp_all add: kv_reply_def kv_missing_def)

lemma ref_kv_get_law:
  assumes "script_ok f script" and "ref_good w"
    and "ref_read script (\<lambda>s. Inr (map_option Some (kv s p))) w = (r, w')"
  shows "kv_reply f (rw_sys w) p r \<and> rw_sys w' = rw_sys w \<and> ref_good w'"
  using assms ref_kv_law [of "rw_sys w" p] script_okD(1) [OF assms(1), of "rw_calls w"]
  by (auto simp: ref_read_def kv_reply_def split: if_splits option.splits)

lemma bcrypt_too_long: "fault_error (Ext (LibError ''bcrypt: password length exceeds 72 bytes''))"
  by (simp add: fault_error_def HasPrefix_def)

lemma ref_bcrypt_law:
  assumes "script_ok f script" and "ref_good w" and "ref_bcrypt script pw w = (r, w')"
  shows "bcrypt_reply f pw r \<and> rw_sys w' = rw_sys w \<and> ref_good w'"
  using assms script_okD(1) [OF assms(1), of "rw_calls w"]
  by (auto simp: ref_bcrypt_def bcrypt_reply_def bcrypt_too_long split: if_splits)

lemma ref_command_law:
  assumes "script_ok f script" and "ref_good w" and "ref_command script a i w = (out, w')"
  shows "command_reply f out \<and> rw_sys w' = log_command a i out (rw_sys w) \<and> ref_good w'"
  using assms(2) assms(3) [symmetric] script_okD(1) [OF assms(1), of "rw_calls w"]
  by (cases "script (rw_calls w) = Answer")
     (simp_all add: ref_command_def command_reply_def Let_def ref_good_def log_command_def ref_tick_def)

theorem ref_external_systems:
  assumes "script_ok f script"
  shows "external_systems f (ref_ops script) rw_sys ref_good"
proof (unfold_locales, goal_cases)
  case (1 w r w') then show ?case
    by (intro ref_value_law [OF assms, where w = w]) (auto simp: ref_ops_def)
next
  case (2 w n r w') then show ?case
    by (intro ref_value_law [OF assms, where w = w]) (auto simp: ref_ops_def)
next
  case (3 w pw c r w') then show ?case
    by (intro ref_bcrypt_law [OF assms, where w = w]) (auto simp: ref_ops_def)
next
  case (6 w c r w') then show ?case
    by (intro ref_cas_law [OF assms, where w = w]) (auto simp: ref_ops_def)
next
  case (7 w x r w') then show ?case
    by (intro ref_exec_law [OF assms, where w = w]) (auto simp: ref_ops_def)
next
  case (8 w q r w') then show ?case
    by (intro ref_read_law [OF assms, where w = w and v = "ref_tenant (rw_tenants w) q"] ref_tenant_law)
       (auto simp: ref_ops_def)
next
  case (9 w q r w') then show ?case
    by (intro ref_read_law [OF assms, where w = w and v = "ref_user (rw_users w) q"] ref_user_law)
       (auto simp: ref_ops_def)
next
  case (10 w h r w') then show ?case
    by (intro ref_read_law [OF assms, where w = w]) (auto simp: ref_ops_def found_law)
next
  case (11 w i r w') then show ?case
    by (intro ref_read_law [OF assms, where w = w and v = "ref_key_hash (rw_keys w) i"] ref_key_hash_law)
       (auto simp: ref_ops_def)
next
  case (12 w t j r w') then show ?case
    by (intro ref_read_law [OF assms, where w = w]) (auto simp: ref_ops_def found_law)
next
  case (13 w p v r w') then show ?case
    by (intro ref_write_law [OF assms]) (auto simp: ref_ops_def ref_good_def)
next
  case (14 w p r w') then show ?case
    by (intro ref_kv_get_law [OF assms]) (auto simp: ref_ops_def)
next
  case (15 w p r w') then show ?case
    by (intro ref_write_law [OF assms]) (auto simp: ref_ops_def ref_good_def)
next
  case (16 w a i out w') then show ?case
    by (intro ref_command_law [OF assms]) (auto simp: ref_ops_def)
qed (auto simp: ref_ops_def ref_good_def ref_tick_def)

interpretation ref: external_systems NoFaults "ref_ops (\<lambda>_. Answer)" rw_sys ref_good
  by (rule ref_external_systems) (simp add: script_ok_def)

interpretation ref_clean: external_systems CleanFaults "ref_ops (\<lambda>_. Answer)" rw_sys ref_good
  by (rule ref_external_systems) (simp add: script_ok_def)

interpretation ref_faults: external_systems AnyFaults "ref_ops script" rw_sys ref_good for script
  by (rule ref_external_systems) (simp add: script_ok_def)

lemmas ref_defs = ref_ops_def ref_start_def empty_sys_def empty_db_def ref_value_def ref_read_def
  ref_write_def ref_cas_def ref_exec_def ref_bcrypt_def ref_command_def ref_key_hash_def ref_tick_def
  ref_fault_def found_def Let_def cas_effect_def

text \<open>
  Runs without faults. \<open>bind_weak\<close> keeps the simplifier out of the continuation of a call that has
  no reply yet, so that a run is evaluated call by call.
\<close>

definition ref_run :: "'a prog \<Rightarrow> ref_world \<Rightarrow> 'a \<times> ref_world" where
  "ref_run p w = run (ref_ops (\<lambda>_. Answer)) p w"

lemma ref_run_sem:
  assumes "ref_good w"
  shows "sem NoFaults p (rw_sys w) (fst (ref_run p w)) (rw_sys (snd (ref_run p w)))"
    and "ref_good (snd (ref_run p w))"
  using ref.run_conforms [OF assms, of p] by (simp_all add: ref.conforms_def ref_run_def)

lemma ref_run_start: "sem NoFaults p empty_sys (fst (ref_run p ref_start)) (rw_sys (snd (ref_run p ref_start)))"
  using ref_run_sem(1) [OF ref_good_start, of p] by (simp add: ref_start_def)

lemma bind_weak: "p = q \<Longrightarrow> bind p f = bind q f"
  by simp

lemmas ref_eval = ref_run_def run_bind ref_defs

end
