(* ===== verification/Pools.thy ===== *)
theory Pools
  imports World
begin

text \<open>
  Concurrency. Goroutines of one process, and replicas of a service, interleave at their external
  calls: a pool is a list of programs over one state of the external systems, and a step of the
  pool is one call of one of them. \<open>rg\<close> is rely-guarantee reasoning for one thread of a pool (the
  others may do what the rely allows before each of its calls; each of its calls is in the
  guarantee), with a ghost that records history; the locale \<open>rely_guarantee\<close> is the contract
  between the threads, and \<open>pool\<close> its soundness. \<open>sched_run\<close> executes a pool in a given order.
\<close>

section \<open>Pools\<close>

inductive preach :: "fault \<Rightarrow> 'a prog list \<Rightarrow> sys \<Rightarrow> 'a prog list \<Rightarrow> sys \<Rightarrow> bool"
  for f ps s where
  pool_start: "preach f ps s ps s"
| pool_step: "preach f ps s qs t \<Longrightarrow> i < length qs \<Longrightarrow> estep f (qs ! i) t q u \<Longrightarrow>
     preach f ps s (qs[i := q]) u"

lemma preach_length: "preach f ps s qs t \<Longrightarrow> length qs = length ps"
  by (induction rule: preach.induct) auto

text \<open>A whole execution of one thread while the others stand still is one of the interleavings.\<close>

lemma sem_preach:
  "sem f p t a u \<Longrightarrow> preach f ps s0 qs t \<Longrightarrow> i < length qs \<Longrightarrow> qs ! i = p \<Longrightarrow>
   preach f ps s0 (qs[i := Ret a]) u"
proof (induction arbitrary: qs rule: sem.induct)
  case (sem_done a s)
  then show ?case by (metis list_update_id)
next
  case (sem_step p s p' s' a t)
  have "preach f ps s0 (qs[i := p']) s'"
    using pool_step [OF sem_step.prems(1,2), of p' s'] sem_step by simp
  from sem_step.IH [OF this] show ?case using sem_step.prems by simp
qed

section \<open>Rely-guarantee\<close>

inductive rg ::
    "fault \<Rightarrow> (nat \<Rightarrow> sys \<Rightarrow> sys \<Rightarrow> 'g \<Rightarrow> 'g) \<Rightarrow> (nat \<Rightarrow> sys \<times> 'g \<Rightarrow> sys \<times> 'g \<Rightarrow> bool) \<Rightarrow>
     (nat \<Rightarrow> sys \<times> 'g \<Rightarrow> sys \<times> 'g \<Rightarrow> bool) \<Rightarrow> nat \<Rightarrow> ('a \<Rightarrow> sys \<times> 'g \<Rightarrow> bool) \<Rightarrow> 'a prog \<Rightarrow> sys \<times> 'g \<Rightarrow> bool"
  for f upd R G i Q where
  rgI: "(\<And>s' g'. R i x (s', g') \<Longrightarrow> (\<forall>a. p = Ret a \<longrightarrow> Q a (s', g')) \<and>
          (\<forall>p' s''. estep f p s' p' s'' \<longrightarrow> G i (s', g') (s'', upd i s' s'' g') \<and>
             rg f upd R G i Q p' (s'', upd i s' s'' g'))) \<Longrightarrow>
        rg f upd R G i Q p x"

lemma rg_unfold:
  "rg f upd R G i Q p x \<longleftrightarrow>
     (\<forall>s' g'. R i x (s', g') \<longrightarrow> (\<forall>a. p = Ret a \<longrightarrow> Q a (s', g')) \<and>
        (\<forall>p' s''. estep f p s' p' s'' \<longrightarrow> G i (s', g') (s'', upd i s' s'' g') \<and>
           rg f upd R G i Q p' (s'', upd i s' s'' g')))"
  by (subst rg.simps) blast

lemma rg_Ret: "rg f upd R G i Q (Ret a) x \<longleftrightarrow> (\<forall>y. R i x y \<longrightarrow> Q a y)"
  by (subst rg_unfold) auto

lemma rg_step:
  assumes "\<And>a. p \<noteq> Ret a"
  shows "rg f upd R G i Q p x \<longleftrightarrow>
     (\<forall>s' g' p' s''. R i x (s', g') \<longrightarrow> estep f p s' p' s'' \<longrightarrow>
        G i (s', g') (s'', upd i s' s'' g') \<and> rg f upd R G i Q p' (s'', upd i s' s'' g'))"
  using assms by (subst rg_unfold) blast

text \<open>The postcondition and the assertions of a thread may be weakened, and calls composed.\<close>

lemma rg_mono:
  "rg f upd R G i Q p x \<Longrightarrow> (\<And>a y. Q a y \<Longrightarrow> Q' a y) \<Longrightarrow> rg f upd R G i Q' p x"
proof (induction rule: rg.induct)
  case (rgI x p)
  show ?case
    by (rule rg.rgI) (use rgI in blast)
qed

lemma returned_bind_estep:
  "estep f (bind p h) s q t \<Longrightarrow> (\<exists>a. p = Ret a \<and> estep f (h a) s q t) \<or> (\<exists>p'. estep f p s p' t \<and> q = bind p' h)"
  by (cases p) (auto simp: estep_simps)

lemma bind_eq_Ret: "bind p h = Ret b \<longleftrightarrow> (\<exists>a. p = Ret a \<and> h a = Ret b)"
  by (cases p) auto

lemma rg_bind:
  assumes "rg f upd R G i (\<lambda>a y. rg f upd R G i Q (h a) y) p x"
    and refl: "\<And>y. R i y y"
  shows "rg f upd R G i Q (bind p h) x"
  using assms(1)
proof (induction rule: rg.induct)
  case (rgI x p)
  show ?case
  proof (rule rg.rgI, intro conjI allI impI)
    fix s' g' assume rely: "R i x (s', g')"
    {
      fix b assume "bind p h = Ret b"
      then obtain a where "p = Ret a" "h a = Ret b" by (auto simp: bind_eq_Ret)
      with rgI [OF rely] have "rg f upd R G i Q (Ret b) (s', g')" by auto
      then show "Q b (s', g')" using refl by (simp add: rg_Ret)
    }
    fix q s'' assume step: "estep f (bind p h) s' q s''"
    have "G i (s', g') (s'', upd i s' s'' g') \<and> rg f upd R G i Q q (s'', upd i s' s'' g')"
      using returned_bind_estep [OF step]
    proof (elim disjE exE conjE)
      fix a assume "p = Ret a" and st: "estep f (h a) s' q s''"
      with rgI [OF rely] have "rg f upd R G i Q (h a) (s', g')" by auto
      then show ?thesis using st refl rg_unfold by metis
    next
      fix p' assume "estep f p s' p' s''" "q = bind p' h"
      then show ?thesis using rgI [OF rely] by auto
    qed
    then show "G i (s', g') (s'', upd i s' s'' g')" "rg f upd R G i Q q (s'', upd i s' s'' g')"
      by auto
  qed
qed

text \<open>
  What the threads of a pool owe each other: relies are preorders, a step in the guarantee of one
  thread is in the rely of every other and keeps the invariant \<open>J\<close> of the pool, and a call that
  changes nothing is in every guarantee.
\<close>

locale rely_guarantee =
  fixes f :: fault and upd :: "nat \<Rightarrow> sys \<Rightarrow> sys \<Rightarrow> 'g \<Rightarrow> 'g"
    and R :: "nat \<Rightarrow> sys \<times> 'g \<Rightarrow> sys \<times> 'g \<Rightarrow> bool"
    and G :: "nat \<Rightarrow> sys \<times> 'g \<Rightarrow> sys \<times> 'g \<Rightarrow> bool"
    and J :: "sys \<times> 'g \<Rightarrow> bool"
  assumes rely_refl: "R i x x"
    and rely_trans: "R i x y \<Longrightarrow> R i y z \<Longrightarrow> R i x z"
    and compatible: "i \<noteq> j \<Longrightarrow> G j x y \<Longrightarrow> R i x y"
    and invariant: "G i x y \<Longrightarrow> J x \<Longrightarrow> J y"
    and idle: "G i x x"
    and upd_idle: "upd i s s g = g"
begin

lemma rg_rely: "rg f upd R G i Q p x \<Longrightarrow> R i x y \<Longrightarrow> rg f upd R G i Q p y"
  using rg_unfold [of f upd R G i Q p x] rg_unfold [of f upd R G i Q p y] rely_trans by blast

lemma rg_now: "rg f upd R G i Q (Ret a) x \<Longrightarrow> Q a x"
  using rely_refl [of i x] by (cases x) (auto simp: rg_Ret)

text \<open>How a thread is verified: a stable assertion before each call.\<close>

lemma rg_return:
  "A x \<Longrightarrow> (\<And>y. A x \<Longrightarrow> R i x y \<Longrightarrow> Q a y) \<Longrightarrow> rg f upd R G i Q (Ret a) x"
  by (simp add: rg_Ret)

lemma rg_call:
  assumes "A x" and stable: "\<And>y z. A y \<Longrightarrow> R i y z \<Longrightarrow> A z" and "\<And>a. p \<noteq> Ret a"
    and step: "\<And>s g p' s'. A (s, g) \<Longrightarrow> estep f p s p' s' \<Longrightarrow>
      G i (s, g) (s', upd i s s' g) \<and> rg f upd R G i Q p' (s', upd i s s' g)"
  shows "rg f upd R G i Q p x"
  unfolding rg_step [of p, OF assms(3)] using assms(1) stable step by blast

lemma rg_read:
  assumes "A x" and stable: "\<And>y z. A y \<Longrightarrow> R i y z \<Longrightarrow> A z" and "\<And>a. p \<noteq> Ret a"
    and "\<And>s p' s'. estep f p s p' s' \<Longrightarrow> s' = s"
    and "\<And>s g p'. A (s, g) \<Longrightarrow> estep f p s p' s \<Longrightarrow> rg f upd R G i Q p' (s, g)"
  shows "rg f upd R G i Q p x"
proof (rule rg_call [where A = A, OF assms(1-3)])
  fix s g p' s' assume "A (s, g)" "estep f p s p' s'"
  then show "G i (s, g) (s', upd i s s' g) \<and> rg f upd R G i Q p' (s', upd i s s' g)"
    using assms(4) [of s p' s'] assms(5) idle upd_idle by simp
qed

lemma pool:
  assumes "preach f ps s qs t" and "J (s, g)"
    and "\<And>i. i < length ps \<Longrightarrow> rg f upd R G i (Q i) (ps ! i) (s, g)"
  shows "\<exists>h. J (t, h) \<and> (\<forall>i<length qs. rg f upd R G i (Q i) (qs ! i) (t, h))"
  using assms
proof (induction rule: preach.induct)
  case pool_start
  then show ?case by blast
next
  case (pool_step qs t i q u)
  then obtain h where J: "J (t, h)"
    and h: "\<And>j. j < length qs \<Longrightarrow> rg f upd R G j (Q j) (qs ! j) (t, h)" by blast
  let ?h = "upd i t u h"
  have own: "G i (t, h) (u, ?h) \<and> rg f upd R G i (Q i) q (u, ?h)"
    using h [OF pool_step.hyps(2)] pool_step.hyps(3) rely_refl rg_unfold by metis
  have "rg f upd R G j (Q j) (qs[i := q] ! j) (u, ?h)" if "j < length qs" for j
  proof (cases "j = i")
    case True
    then show ?thesis using own that by simp
  next
    case False
    then have "R j (t, h) (u, ?h)" using own compatible by blast
    from rg_rely [OF h [OF that] this] show ?thesis using False by simp
  qed
  moreover have "J (u, ?h)" using own invariant J by blast
  ultimately show ?case by auto
qed

text \<open>Every thread that has returned satisfies its postcondition, all in the same state.\<close>

lemma pool_returned:
  assumes "preach f ps s qs t" and "J (s, g)"
    and "\<And>i. i < length ps \<Longrightarrow> rg f upd R G i (Q i) (ps ! i) (s, g)"
  shows "\<exists>h. J (t, h) \<and> (\<forall>i<length qs. \<forall>a. qs ! i = Ret a \<longrightarrow> Q i a (t, h))"
  using pool [OF assms] rg_now by metis

end

section \<open>Schedules\<close>

text \<open>A pool run in a given order: one call of the named thread at a time.\<close>

fun sched_run :: "'w ops \<Rightarrow> nat list \<Rightarrow> 'a prog list \<Rightarrow> 'w \<Rightarrow> 'a prog list \<times> 'w" where
  "sched_run W [] ps w = (ps, w)"
| "sched_run W (i # is) ps w =
     (case next_call W (ps ! i) w of (p, w') \<Rightarrow> sched_run W is (ps[i := p]) w')"

context external_systems
begin

lemma sched_preach:
  "good w \<Longrightarrow> \<forall>i\<in>set is. i < length ps \<Longrightarrow> sched_run W is ps w = (qs, w') \<Longrightarrow>
   preach f ps0 s0 ps (view w) \<Longrightarrow> preach f ps0 s0 qs (view w')"
proof (induction "is" arbitrary: ps w)
  case Nil
  then show ?case by simp
next
  case (Cons i "is")
  obtain p w1 where n: "next_call W (ps ! i) w = (p, w1)" by fastforce
  have g: "good w1" using next_call_good [OF Cons.prems(1) n] .
  have "preach f ps0 s0 (ps[i := p]) (view w1)"
  proof (cases "returned (ps ! i)")
    case None
    then have "estep f (ps ! i) (view w) p (view w1)" using next_call_estep [OF Cons.prems(1) n] by simp
    then show ?thesis using pool_step [OF Cons.prems(4)] Cons.prems(2) by simp
  next
    case (Some a)
    then have "ps ! i = Ret a" by (cases "ps ! i") auto
    with n have "p = ps ! i" "w1 = w" by auto
    then show ?thesis using Cons.prems(4) by simp
  qed
  from Cons.IH [OF g _ _ this] show ?case using Cons.prems n by simp
qed

end

lemma ref_pool:
  assumes "ref_good w" and "\<forall>i\<in>set is. i < length ps"
  shows "preach CleanFaults ps (rw_sys w) (fst (sched_run (ref_ops (\<lambda>_. Answer)) is ps w))
    (rw_sys (snd (sched_run (ref_ops (\<lambda>_. Answer)) is ps w)))"
  by (rule ref_clean.sched_preach [OF assms _ pool_start]) simp

lemma ref_pool_start:
  "\<forall>i\<in>set is. i < length ps \<Longrightarrow>
   preach CleanFaults ps empty_sys (fst (sched_run (ref_ops (\<lambda>_. Answer)) is ps ref_start))
    (rw_sys (snd (sched_run (ref_ops (\<lambda>_. Answer)) is ps ref_start)))"
  using ref_pool [OF ref_good_start, of "is" ps] by (simp only: ref_start_def ref_world.simps)

end
