(* ===== verification/TenantStore.thy ===== *)
theory TenantStore
  imports Pools
begin

text \<open>
  \<open>internal/accounts/tenant.go\<close>: the tenant store. A slug is reserved in \<open>tenant_slugs\<close> first
  and the tenant row inserted second; \<open>slug_inv\<close> is the well-formedness this protocol keeps (every
  slug of a tenant row is reserved and belongs to one tenant).
\<close>

section \<open>Operations\<close>

definition new_tenant :: "uuid \<Rightarrow> time \<Rightarrow> string \<Rightarrow> string \<Rightarrow> string \<Rightarrow> Tenant" where
  "new_tenant i now slug displayName planID =
     \<lparr>CreatedAt = now, UpdatedAt = now, Slug = slug, DisplayName = displayName,
      Status = TenantStatusProvisioning, PlanID = planID, PodCIDR = [], SvcCIDR = [],
      TenantID = i\<rparr>"

definition new_tenant_row :: "Tenant \<Rightarrow> tenant_row" where
  "new_tenant_row t =
     \<lparr>col_slug = Some (Slug t), col_display_name = Some (DisplayName t), col_status = Some (Status t),
      col_plan_id = Some (PlanID t), col_pod_cidr = Some [], col_svc_cidr = Some [],
      col_created_at = Some (cql_timestamp (CreatedAt t)),
      col_updated_at = Some (cql_timestamp (UpdatedAt t))\<rparr>"

definition TenantStore_Create :: "string \<Rightarrow> string \<Rightarrow> string \<Rightarrow> (gerror + Tenant) prog" where
  "TenantStore_Create slug displayName planID =
     attempt (NewUUID Ret)
       (\<lambda>e. Ret (Inl (Errorf ''accounts: generate tenant_id: '' e)))
       (\<lambda>i. Now (\<lambda>now.
         let t = new_tenant i now slug displayName planID in
         attempt (Cas (InsertTenantSlug slug) Ret)
           (\<lambda>e. Ret (Inl (Errorf (''accounts: reserve slug '' @ Quote slug @ '': '') e)))
           (\<lambda>(slugApplied, _).
             if \<not> slugApplied then Ret (Inl (Sentinel accounts_ErrTenantAlreadyExists))
             else
               attempt (Cas (InsertTenant i (new_tenant_row t)) Ret)
                 (\<lambda>e. Exec (DeleteTenantSlug slug) (\<lambda>_.
                    Ret (Inl (Errorf (''accounts: create tenant '' @ Quote slug @ '': '') e))))
                 (\<lambda>(applied, _).
                    if \<not> applied
                    then Exec (DeleteTenantSlug slug) (\<lambda>_.
                           Ret (Inl (Sentinel accounts_ErrTenantAlreadyExists)))
                    else Ret (Inr t)))))"

definition TenantStore_SetCIDRs :: "uuid \<Rightarrow> string \<Rightarrow> string \<Rightarrow> gerror option prog" where
  "TenantStore_SetCIDRs tenantID podCIDR svcCIDR =
     Now (\<lambda>now. Exec (UpdateTenantCIDRs tenantID podCIDR svcCIDR (cql_timestamp now)) Ret)"

definition TenantStore_UpdateStatus :: "uuid \<Rightarrow> TenantStatus \<Rightarrow> gerror option prog" where
  "TenantStore_UpdateStatus tenantID status =
     Now (\<lambda>now. Exec (UpdateTenantStatus tenantID status (cql_timestamp now)) Ret)"

definition TenantStore_Get :: "uuid \<Rightarrow> (gerror + Tenant) prog" where
  "TenantStore_Get tenantID =
     ScanTenant (TenantByID tenantID) (\<lambda>r. case r of
       Inl e \<Rightarrow>
         if errors_Is e ErrNotFound_gocql then Ret (Inl (Sentinel accounts_ErrTenantNotFound))
         else Ret (Inl (Errorf (''accounts: get tenant '' @ uuid_String tenantID @ '': '') e))
     | Inr (i, row) \<Rightarrow> Ret (Inr (scan_tenant i row)))"

definition TenantStore_GetBySlug :: "string \<Rightarrow> (gerror + Tenant) prog" where
  "TenantStore_GetBySlug slug =
     ScanTenant (TenantBySlug slug) (\<lambda>r. case r of
       Inl e \<Rightarrow>
         if errors_Is e ErrNotFound_gocql then Ret (Inl (Sentinel accounts_ErrTenantNotFound))
         else Ret (Inl (Errorf (''accounts: get tenant by slug '' @ Quote slug @ '': '') e))
     | Inr (i, row) \<Rightarrow> Ret (Inr (scan_tenant i row)))"

lemmas TenantStore_defs = TenantStore_Create_def TenantStore_SetCIDRs_def
  TenantStore_UpdateStatus_def TenantStore_Get_def TenantStore_GetBySlug_def

section \<open>Executions\<close>

text \<open>The state after a successful creation.\<close>

definition tenant_created :: "Tenant \<Rightarrow> sys \<Rightarrow> sys" where
  "tenant_created t s = s\<lparr>db := (db s)\<lparr>tenant_slugs := (tenant_slugs (db s))(Slug t := True),
     tenants := (tenants (db s))(TenantID t \<mapsto> new_tenant_row t)\<rparr>\<rparr>"

lemma tenant_Create_Inr:
  assumes "sem f (TenantStore_Create slug dn plan) s (Inr T) t"
  shows "\<exists>i now. T = new_tenant i now slug dn plan \<and> \<not> tenant_slugs (db s) slug \<and>
    tenants (db s) i = None \<and> t = tenant_created T s"
  using assms
  by (auto simp: TenantStore_Create_def Let_def ex_reply tenant_created_def new_tenant_def
      split: if_splits)

text \<open>A creation that fails cleanly leaves every tenant as it was and frees no other slug.\<close>

lemma tenant_Create_Inl:
  assumes "sem f (TenantStore_Create slug dn plan) s (Inl e) t" and "f \<noteq> AnyFaults"
  shows "(t = s \<or> (\<exists>b. t = s\<lparr>db := (db s)\<lparr>tenant_slugs := (tenant_slugs (db s))(slug := b)\<rparr>\<rparr>)
      \<and> \<not> tenant_slugs (db s) slug)"
  using assms
  by (auto simp: TenantStore_Create_def Let_def ex_reply split: if_splits)

section \<open>Well-formed slugs\<close>

definition tenant_has :: "cf_db \<Rightarrow> uuid \<Rightarrow> string \<Rightarrow> bool" where
  "tenant_has d i x \<longleftrightarrow> (\<exists>r. tenants d i = Some r \<and> col_slug r = Some x)"

definition slug_inv :: "cf_db \<Rightarrow> bool" where
  "slug_inv d \<longleftrightarrow> (\<forall>i x. tenant_has d i x \<longrightarrow> tenant_slugs d x) \<and>
     (\<forall>i j x. tenant_has d i x \<longrightarrow> tenant_has d j x \<longrightarrow> i = j)"

lemma slug_inv_empty [simp]: "slug_inv empty_db"
  by (simp add: slug_inv_def tenant_has_def empty_db_def)

lemma tenant_has_created [simp]:
  "tenant_has (db (tenant_created T s)) i x \<longleftrightarrow>
     (if i = TenantID T then x = Slug T else tenant_has (db s) i x)"
  by (auto simp: tenant_has_def tenant_created_def new_tenant_row_def)

lemma slugs_created [simp]:
  "tenant_slugs (db (tenant_created T s)) = (tenant_slugs (db s))(Slug T := True)"
  by (simp add: tenant_created_def)

lemma tenant_has_slugs [simp]: "tenant_has (d\<lparr>tenant_slugs := m\<rparr>) i x = tenant_has d i x"
  by (simp add: tenant_has_def)

lemma tenant_has_update [simp]:
  "tenant_has (exec_effect (UpdateTenantCIDRs j p v n) d) i x = tenant_has d i x"
  "tenant_has (exec_effect (UpdateTenantStatus j st n) d) i x = tenant_has d i x"
  by (cases "tenants d j"; auto simp: tenant_has_def null_tenant_def)+

lemma exec_slugs:
  "tenant_slugs (exec_effect (UpdateTenantCIDRs j p v n) d) = tenant_slugs d"
  "tenant_slugs (exec_effect (UpdateTenantStatus j st n) d) = tenant_slugs d"
  by simp_all

lemma Create_slug_inv:
  assumes "sem f (TenantStore_Create slug dn plan) s r t" and "f \<noteq> AnyFaults" and inv: "slug_inv (db s)"
  shows "slug_inv (db t)"
proof (cases r)
  case (Inl e)
  then show ?thesis using tenant_Create_Inl [of f slug dn plan s e t] assms
    by (auto simp: slug_inv_def)
next
  case (Inr T)
  then obtain i now where "T = new_tenant i now slug dn plan" "\<not> tenant_slugs (db s) slug"
    "tenants (db s) i = None" "t = tenant_created T s"
    using tenant_Create_Inr assms(1) by blast
  then show ?thesis using inv by (auto simp: slug_inv_def new_tenant_def)
qed

lemma SetCIDRs_slug_inv:
  "sem f (TenantStore_SetCIDRs i p v) s r t \<Longrightarrow> slug_inv (db s) \<Longrightarrow> slug_inv (db t)"
  by (cases r) (auto simp: TenantStore_SetCIDRs_def slug_inv_def exec_slugs simp del: exec_effect.simps)

lemma UpdateStatus_slug_inv:
  "sem f (TenantStore_UpdateStatus i st) s r t \<Longrightarrow> slug_inv (db s) \<Longrightarrow> slug_inv (db t)"
  by (cases r) (auto simp: TenantStore_UpdateStatus_def slug_inv_def exec_slugs simp del: exec_effect.simps)

text \<open>Reads return the stored tenant, or one of the two documented errors.\<close>

lemma Get_sem:
  "sem f (TenantStore_Get i) s r t \<Longrightarrow> t = s \<and>
   (case r of Inr T \<Rightarrow> (\<exists>row. tenants (db s) i = Some row \<and> T = scan_tenant i row)
    | Inl e \<Rightarrow> (e = Sentinel accounts_ErrTenantNotFound \<and> tenants (db s) i = None) \<or>
        (faulty f \<and> (\<exists>c. fault_error c \<and>
           e = Errorf (''accounts: get tenant '' @ uuid_String i @ '': '') c)))"
  by (auto simp: TenantStore_Get_def ex_reply split: if_splits)

lemma GetBySlug_sem:
  "sem f (TenantStore_GetBySlug x) s r t \<Longrightarrow> t = s \<and>
   (case r of Inr T \<Rightarrow> (\<exists>i row. tenants (db s) i = Some row \<and> col_slug row = Some x \<and> T = scan_tenant i row)
    | Inl e \<Rightarrow> (e = Sentinel accounts_ErrTenantNotFound \<and> (\<nexists>i. tenant_has (db s) i x)) \<or>
        (faulty f \<and> (\<exists>c. fault_error c \<and>
           e = Errorf (''accounts: get tenant by slug '' @ Quote x @ '': '') c)))"
  by (auto simp: TenantStore_GetBySlug_def ex_reply tenants_by_slug_def tenant_has_def split: if_splits)

text \<open>What a later read of a created tenant returns: its timestamps in milliseconds.\<close>

definition stored_tenant :: "Tenant \<Rightarrow> Tenant" where
  "stored_tenant T = T\<lparr>CreatedAt := cql_timestamp (CreatedAt T), UpdatedAt := cql_timestamp (UpdatedAt T)\<rparr>"

lemma new_tenant_sel [simp]:
  "TenantID (new_tenant i now x dn plan) = i" "Slug (new_tenant i now x dn plan) = x"
  "Status (new_tenant i now x dn plan) = TenantStatusProvisioning"
  "DisplayName (new_tenant i now x dn plan) = dn"
  "CreatedAt (new_tenant i now x dn plan) = now"
  by (simp_all add: new_tenant_def)

lemma scan_new_tenant [simp]:
  "scan_tenant i (new_tenant_row (new_tenant i now x dn plan)) = stored_tenant (new_tenant i now x dn plan)"
  by (simp add: scan_tenant_def new_tenant_row_def new_tenant_def stored_tenant_def)

lemma created_row [simp]: "tenants (db (tenant_created T s)) (TenantID T) = Some (new_tenant_row T)"
  by (simp add: tenant_created_def)

lemma Create_Get:
  assumes "sem f (TenantStore_Create x dn plan) s (Inr T) t"
    and "sem NoFaults (TenantStore_Get (TenantID T)) t r u"
  shows "r = Inr (stored_tenant T) \<and> u = t"
proof -
  from tenant_Create_Inr [OF assms(1)] obtain i now where T: "T = new_tenant i now x dn plan"
    and t: "t = tenant_created T s" by blast
  have "tenants (db t) i = Some (new_tenant_row T)"
    unfolding t using created_row [of T s] by (simp only: T new_tenant_sel)
  then show ?thesis using Get_sem [OF assms(2)] by (cases r) (auto simp: T)
qed

lemma Create_GetBySlug:
  assumes "sem f (TenantStore_Create x dn plan) s (Inr T) t" and inv: "slug_inv (db s)"
    and "sem NoFaults (TenantStore_GetBySlug x) t r u"
  shows "r = Inr (stored_tenant T) \<and> u = t"
proof -
  from tenant_Create_Inr [OF assms(1)] obtain i now where T: "T = new_tenant i now x dn plan"
    and new: "\<not> tenant_slugs (db s) x" and t: "t = tenant_created T s" by blast
  have only: "tenant_has (db t) j x \<longleftrightarrow> j = i" for j
    using inv new unfolding t tenant_has_created by (auto simp: T slug_inv_def)
  have row: "tenants (db t) i = Some (new_tenant_row T)"
    unfolding t using created_row [of T s] by (simp only: T new_tenant_sel)
  show ?thesis
  proof (cases r)
    case (Inl e)
    then show ?thesis using GetBySlug_sem [OF assms(3)] only by auto
  next
    case (Inr T')
    with GetBySlug_sem [OF assms(3)] obtain j r' where "tenants (db t) j = Some r'"
      "col_slug r' = Some x" "T' = scan_tenant j r'" "u = t" by auto
    moreover from this have "j = i" using only by (auto simp: tenant_has_def)
    ultimately show ?thesis using row Inr scan_new_tenant [of i now x dn plan] by (auto simp: T)
  qed
qed

section \<open>Concurrent creations\<close>

text \<open>
  The ghost is the thread that reserved each slug. A slug a thread holds stays its own, and no
  tenant with that slug appears while the holder has not inserted one.
\<close>

type_synonym owners = "string \<Rightarrow> nat option"

definition slug_upd :: "nat \<Rightarrow> sys \<Rightarrow> sys \<Rightarrow> owners \<Rightarrow> owners" where
  "slug_upd i s s' g = (\<lambda>x. if tenant_slugs (db s') x \<and> \<not> tenant_slugs (db s) x then Some i else g x)"

definition holds :: "nat \<Rightarrow> string \<Rightarrow> sys \<times> owners \<Rightarrow> bool" where
  "holds i x y \<longleftrightarrow> tenant_slugs (db (fst y)) x \<and> snd y x = Some i"

definition slug_free :: "string \<Rightarrow> sys \<times> owners \<Rightarrow> bool" where
  "slug_free x y \<longleftrightarrow> (\<forall>i. \<not> tenant_has (db (fst y)) i x)"

definition slug_J :: "sys \<times> owners \<Rightarrow> bool" where
  "slug_J y \<longleftrightarrow> slug_inv (db (fst y))"

definition slug_R :: "nat \<Rightarrow> sys \<times> owners \<Rightarrow> sys \<times> owners \<Rightarrow> bool" where
  "slug_R i y z \<longleftrightarrow> (slug_J y \<longrightarrow> slug_J z) \<and>
     (\<forall>x. holds i x y \<longrightarrow> holds i x z \<and> (slug_free x y \<longrightarrow> slug_free x z))"

definition slug_G :: "nat \<Rightarrow> sys \<times> owners \<Rightarrow> sys \<times> owners \<Rightarrow> bool" where
  "slug_G i y z \<longleftrightarrow> (slug_J y \<longrightarrow> slug_J z) \<and> (\<forall>j. j \<noteq> i \<longrightarrow> slug_R j y z)"

lemma slug_upd_idle [simp]: "slug_upd i s s g = g"
  by (simp add: slug_upd_def)

interpretation slugs: rely_guarantee CleanFaults slug_upd slug_R slug_G slug_J
  by unfold_locales (auto simp: slug_R_def slug_G_def)

definition created_by :: "nat \<Rightarrow> string \<Rightarrow> gerror + Tenant \<Rightarrow> sys \<times> owners \<Rightarrow> bool" where
  "created_by i x a y \<longleftrightarrow> (case a of Inl _ \<Rightarrow> True | Inr T \<Rightarrow> Slug T = x \<and> holds i x y)"

text \<open>The three writes of a creation are in the guarantee.\<close>

lemma reserve_G:
  assumes "slug_J (s, g)" and "\<not> tenant_slugs (db s) x"
    and "s' = s\<lparr>db := (db s)\<lparr>tenant_slugs := (tenant_slugs (db s))(x := True)\<rparr>\<rparr>"
  shows "slug_G i (s, g) (s', slug_upd i s s' g)" and "slug_J (s', slug_upd i s s' g)"
    and "holds i x (s', slug_upd i s s' g)" and "slug_free x (s', slug_upd i s s' g)"
  using assms by (auto simp: slug_G_def slug_R_def slug_J_def slug_inv_def holds_def slug_free_def slug_upd_def)

lemma insert_G:
  assumes J: "slug_J (s, g)" and h: "holds i x (s, g)" and fr: "slug_free x (s, g)"
    and T: "T = new_tenant j now x dn plan"
    and s': "s' = s\<lparr>db := (db s)\<lparr>tenants := (tenants (db s))(j \<mapsto> new_tenant_row T)\<rparr>\<rparr>"
    and new: "tenants (db s) j = None"
  shows "slug_G i (s, g) (s', slug_upd i s s' g)" and "slug_J (s', slug_upd i s s' g)"
    and "holds i x (s', slug_upd i s s' g)"
proof -
  have upd: "slug_upd i s s' g = g" by (auto simp: slug_upd_def s')
  have has: "tenant_has (db s') k y \<longleftrightarrow> (if k = j then y = x else tenant_has (db s) k y)" for k y
    by (auto simp: tenant_has_def s' T new_tenant_row_def new_tenant_def)
  have slugs: "tenant_slugs (db s') = tenant_slugs (db s)" by (simp add: s')
  show J': "slug_J (s', slug_upd i s s' g)"
    using J h fr new by (auto simp: slug_J_def slug_inv_def has slugs holds_def slug_free_def)
  show "holds i x (s', slug_upd i s s' g)" using h by (simp add: upd holds_def slugs)
  show "slug_G i (s, g) (s', slug_upd i s s' g)"
    using J' h by (auto simp: slug_G_def slug_R_def holds_def slug_free_def upd slugs has)
qed

lemma release_G:
  assumes J: "slug_J (s, g)" and h: "holds i x (s, g)" and fr: "slug_free x (s, g)"
    and s': "s' = s\<lparr>db := (db s)\<lparr>tenant_slugs := (tenant_slugs (db s))(x := False)\<rparr>\<rparr>"
  shows "slug_G i (s, g) (s', slug_upd i s s' g)" and "slug_J (s', slug_upd i s s' g)"
proof -
  have upd: "slug_upd i s s' g = g" by (auto simp: slug_upd_def s')
  have slugs: "tenant_slugs (db s') = (tenant_slugs (db s))(x := False)"
    and has: "tenant_has (db s') k y = tenant_has (db s) k y" for k y
    by (simp_all add: s')
  show J': "slug_J (s', slug_upd i s s' g)"
    using J fr by (auto simp: slug_J_def slug_inv_def slug_free_def slugs has)
  show "slug_G i (s, g) (s', slug_upd i s s' g)"
    using J' h by (auto simp: slug_G_def slug_R_def holds_def slug_free_def upd slugs has)
qed

lemma slug_stable:
  "slug_J y \<Longrightarrow> slug_R i y z \<Longrightarrow> slug_J z"
  "holds i x y \<Longrightarrow> slug_R i y z \<Longrightarrow> holds i x z"
  "holds i x y \<Longrightarrow> slug_free x y \<Longrightarrow> slug_R i y z \<Longrightarrow> slug_free x z"
  by (auto simp: slug_R_def)

lemma rg_release:
  assumes "slug_J y" "holds i x y" "slug_free x y"
  shows "rg CleanFaults slug_upd slug_R slug_G i (created_by i x)
    (Exec (DeleteTenantSlug x) (\<lambda>_. Ret (Inl e))) y"
proof (rule slugs.rg_call [where A = "\<lambda>y. slug_J y \<and> holds i x y \<and> slug_free x y"], goal_cases)
  case (4 s g p' s')
  have ret: "rg CleanFaults slug_upd slug_R slug_G i (created_by i x) (Ret (Inl e)) z" for z
    by (simp add: rg_Ret created_by_def)
  from 4 consider "s' = s" | "s' = s\<lparr>db := (db s)\<lparr>tenant_slugs := (tenant_slugs (db s))(x := False)\<rparr>\<rparr>"
    by (auto simp: estep_Exec write_reply_def split: option.splits)
  then show ?case
  proof cases
    case 1
    then show ?thesis using 4 ret slugs.idle by (auto simp: estep_Exec)
  next
    case 2
    then show ?thesis using 4 ret release_G(1) [of s g i x s'] by (auto simp: estep_Exec)
  qed
qed (use assms slug_stable in \<open>auto\<close>)

lemma rg_insert:
  assumes "slug_J y" "holds i x y" "slug_free x y" and T: "T = new_tenant j now x dn plan"
  shows "rg CleanFaults slug_upd slug_R slug_G i (created_by i x)
    (Cas (InsertTenant j (new_tenant_row T)) (\<lambda>r. case r of
        Inl e \<Rightarrow> Exec (DeleteTenantSlug x) (\<lambda>_. Ret (Inl (h e)))
      | Inr (applied, _) \<Rightarrow>
          if \<not> applied then Exec (DeleteTenantSlug x) (\<lambda>_. Ret (Inl e')) else Ret (Inr T))) y"
proof (rule slugs.rg_call [where A = "\<lambda>y. slug_J y \<and> holds i x y \<and> slug_free x y"], goal_cases)
  case (4 s g p' s')
  then obtain r where r: "cas_reply CleanFaults (InsertTenant j (new_tenant_row T)) s r s'"
    and p': "p' = (case r of Inl e \<Rightarrow> Exec (DeleteTenantSlug x) (\<lambda>_. Ret (Inl (h e)))
      | Inr (applied, _) \<Rightarrow>
          if \<not> applied then Exec (DeleteTenantSlug x) (\<lambda>_. Ret (Inl e')) else Ret (Inr T))"
    by (auto simp: estep_Cas)
  have A: "slug_J (s, g)" "holds i x (s, g)" "slug_free x (s, g)" using 4 by auto
  show ?case
  proof (cases r)
    case (Inl e)
    then show ?thesis using r A p' rg_release [OF A] slugs.idle by auto
  next
    case (Inr b)
    show ?thesis
    proof (cases "tenants (db s) j")
      case None
      then have b: "b = (True, None)" and s': "s' = s\<lparr>db := (db s)\<lparr>tenants := (tenants (db s))(j \<mapsto> new_tenant_row T)\<rparr>\<rparr>"
        using r Inr by (cases b; auto)+
      note G = insert_G [OF A T s' None]
      show ?thesis using G p' Inr b
        by (auto simp: T rg_Ret created_by_def dest: slug_stable(2))
    next
      case (Some row)
      then have "fst b = False" "s' = s" using r Inr by (cases b; auto)+
      then show ?thesis using A p' Inr rg_release [OF A] slugs.idle by (cases b) auto
    qed
  qed
qed (use assms slug_stable in \<open>auto\<close>)

text \<open>The program of a creation as a chain of calls.\<close>

definition create_slug :: "string \<Rightarrow> uuid \<Rightarrow> time \<Rightarrow> string \<Rightarrow> string \<Rightarrow> (gerror + Tenant) prog" where
  "create_slug x j now dn plan = Cas (InsertTenantSlug x) (\<lambda>r. case r of
      Inl e \<Rightarrow> Ret (Inl (Errorf (''accounts: reserve slug '' @ Quote x @ '': '') e))
    | Inr (slugApplied, _) \<Rightarrow>
        if \<not> slugApplied then Ret (Inl (Sentinel accounts_ErrTenantAlreadyExists))
        else Cas (InsertTenant j (new_tenant_row (new_tenant j now x dn plan))) (\<lambda>r. case r of
            Inl e \<Rightarrow> Exec (DeleteTenantSlug x) (\<lambda>_.
              Ret (Inl (Errorf (''accounts: create tenant '' @ Quote x @ '': '') e)))
          | Inr (applied, _) \<Rightarrow>
              if \<not> applied
              then Exec (DeleteTenantSlug x) (\<lambda>_. Ret (Inl (Sentinel accounts_ErrTenantAlreadyExists)))
              else Ret (Inr (new_tenant j now x dn plan))))"

lemma Create_unfold:
  "TenantStore_Create x dn plan = NewUUID (\<lambda>r. case r of
      Inl e \<Rightarrow> Ret (Inl (Errorf ''accounts: generate tenant_id: '' e))
    | Inr i \<Rightarrow> Now (\<lambda>now. create_slug x i now dn plan))"
  by (simp add: TenantStore_Create_def create_slug_def Let_def cong: if_cong sum.case_cong)

lemma rg_Create:
  assumes "slug_J y"
  shows "rg CleanFaults slug_upd slug_R slug_G i (created_by i x) (TenantStore_Create x dn plan) y"
proof -
  let ?rg = "rg CleanFaults slug_upd slug_R slug_G i (created_by i x)"
  have fail: "?rg (Ret (Inl e)) z" for e z
    by (simp add: rg_Ret created_by_def)
  have reserve: "?rg (Cas (InsertTenantSlug x) (\<lambda>r. case r of
      Inl e \<Rightarrow> Ret (Inl (h e))
    | Inr (slugApplied, _) \<Rightarrow>
        if \<not> slugApplied then Ret (Inl e')
        else Cas (InsertTenant j (new_tenant_row (new_tenant j now x dn plan))) (\<lambda>r. case r of
            Inl e \<Rightarrow> Exec (DeleteTenantSlug x) (\<lambda>_. Ret (Inl (h' e)))
          | Inr (applied, _) \<Rightarrow>
              if \<not> applied then Exec (DeleteTenantSlug x) (\<lambda>_. Ret (Inl e'))
              else Ret (Inr (new_tenant j now x dn plan))))) z"
    if "slug_J z" for z h e' j now h'
  proof (rule slugs.rg_call [where A = slug_J], goal_cases)
    case (4 s g p' s')
    from 4(2) obtain r where r: "cas_reply CleanFaults (InsertTenantSlug x) s r s'"
        and p': "p' = (case r of Inl e \<Rightarrow> Ret (Inl (h e)) | Inr (slugApplied, _) \<Rightarrow>
          if \<not> slugApplied then Ret (Inl e')
          else Cas (InsertTenant j (new_tenant_row (new_tenant j now x dn plan))) (\<lambda>r. case r of
              Inl e \<Rightarrow> Exec (DeleteTenantSlug x) (\<lambda>_. Ret (Inl (h' e)))
            | Inr (applied, _) \<Rightarrow>
                if \<not> applied then Exec (DeleteTenantSlug x) (\<lambda>_. Ret (Inl e'))
                else Ret (Inr (new_tenant j now x dn plan))))"
        by (auto simp: estep_Cas)
    show ?case
    proof (cases r)
      case (Inl e)
      then show ?thesis using r p' fail slugs.idle by auto
    next
      case (Inr b)
      show ?thesis
      proof (cases "tenant_slugs (db s) x")
        case True
        then have "fst b = False" "s' = s" using r Inr by (cases b; auto)+
        then show ?thesis using p' Inr fail slugs.idle by (cases b) auto
      next
        case False
        then have b: "b = (True, None)"
          and s': "s' = s\<lparr>db := (db s)\<lparr>tenant_slugs := (tenant_slugs (db s))(x := True)\<rparr>\<rparr>"
          using r Inr by (cases b; auto)+
        note G = reserve_G [OF 4(1) False s', of i]
        show ?thesis using G p' Inr b rg_insert [OF G(2-4) refl] by simp
      qed
    qed
  qed (use that slug_stable in \<open>auto\<close>)
  have now: "?rg (Now k) z" if "slug_J z" "\<And>r z'. slug_J z' \<Longrightarrow> ?rg (k r) z'" for k z
    by (rule slugs.rg_read [where A = slug_J]) (use that slug_stable in \<open>auto simp: estep_Now\<close>)
  show ?thesis
    unfolding Create_unfold
  proof (rule slugs.rg_read [where A = slug_J], goal_cases)
    case (5 s g p')
    then obtain r where p': "p' = (case r of
        Inl e \<Rightarrow> Ret (Inl (Errorf ''accounts: generate tenant_id: '' e))
      | Inr i \<Rightarrow> Now (\<lambda>now. create_slug x i now dn plan))"
      by (auto simp: estep_NewUUID)
    show ?case
    proof (cases r)
      case (Inl e)
      then show ?thesis using p' fail by simp
    next
      case (Inr j)
      then show ?thesis using p' now [OF 5(1) reserve] by (simp add: create_slug_def)
    qed
  qed (use assms slug_stable in \<open>auto simp: estep_NewUUID\<close>)
qed

text \<open>
  However many creations run concurrently (and whatever fails cleanly), the slugs stay well formed,
  and of those for one slug at most one succeeds.
\<close>

lemma creations_pool:
  assumes "preach CleanFaults (map (\<lambda>(x, dn, plan). TenantStore_Create x dn plan) as) s qs t"
    and "slug_inv (db s)"
  shows "\<exists>h. slug_J (t, h) \<and>
    (\<forall>i<length qs. \<forall>a. qs ! i = Ret a \<longrightarrow> created_by i (fst (as ! i)) a (t, h))"
proof (rule slugs.pool_returned [OF assms(1), where g = "\<lambda>_. None"])
  show "slug_J (s, \<lambda>_. None)" using assms(2) by (simp add: slug_J_def)
  then show "rg CleanFaults slug_upd slug_R slug_G i (created_by i (fst (as ! i)))
      (map (\<lambda>(x, dn, plan). TenantStore_Create x dn plan) as ! i) (s, \<lambda>_. None)"
    if "i < length (map (\<lambda>(x, dn, plan). TenantStore_Create x dn plan) as)" for i
    using rg_Create that by (cases "as ! i") auto
qed

lemma one_creation_wins:
  assumes "preach CleanFaults (map (\<lambda>(x, dn, plan). TenantStore_Create x dn plan) as) s qs t"
    and "slug_inv (db s)" and "i < length qs" "j < length qs"
    and "qs ! i = Ret (Inr T)" "qs ! j = Ret (Inr T')" and "Slug T = Slug T'"
  shows "i = j"
proof -
  from creations_pool [OF assms(1,2)] obtain h where
    "created_by i (fst (as ! i)) (Inr T) (t, h)" "created_by j (fst (as ! j)) (Inr T') (t, h)"
    using assms(3-6) by blast
  then show ?thesis using assms(7) by (auto simp: created_by_def holds_def)
qed

end
