(* ===== verification/UserStore.thy ===== *)
theory UserStore
  imports Pools
begin

text \<open>
  \<open>internal/accounts/user.go\<close>: the user store over its \<open>userQuerier\<close> interface, which
  production code implements on a gocql session. The locale \<open>user_querier\<close> is the contract of
  that interface; the store is proved against it and the interpretation \<open>gocql_users\<close> discharges
  it for \<open>gocqlUserQuerier\<close>.
\<close>

section \<open>Operations\<close>

record userQuerier =
  execCAS :: "cas_stmt \<Rightarrow> (gerror + bool) prog"
  execScan :: "user_query \<Rightarrow> (gerror + uuid \<times> user_row) prog"

record UserStore =
  UserStore_db :: userQuerier
  UserStore_newUUID :: "(gerror + uuid) prog"

definition gocqlUserQuerier :: userQuerier where
  "gocqlUserQuerier = \<lparr>execCAS = (\<lambda>stmt. Cas stmt (\<lambda>r. Ret (map_sum id fst r))),
     execScan = (\<lambda>q. ScanUser q Ret)\<rparr>"

definition NewUserStore :: UserStore where
  "NewUserStore = \<lparr>UserStore_db = gocqlUserQuerier, UserStore_newUUID = NewUUID Ret\<rparr>"

definition new_user :: "uuid \<Rightarrow> time \<Rightarrow> string \<Rightarrow> string \<Rightarrow> uuid \<Rightarrow> User" where
  "new_user i now email passwordHash tenantID =
     \<lparr>User_CreatedAt = now, User_UpdatedAt = now, User_Email = email,
      User_PasswordHash = passwordHash, User_Status = UserStatusActive, User_UserID = i,
      User_TenantID = tenantID\<rparr>"

definition new_user_row :: "User \<Rightarrow> user_row" where
  "new_user_row u =
     \<lparr>ucol_email = User_Email u, ucol_password_hash = User_PasswordHash u,
      ucol_tenant_id = User_TenantID u, ucol_status = User_Status u,
      ucol_created_at = cql_timestamp (User_CreatedAt u),
      ucol_updated_at = cql_timestamp (User_UpdatedAt u)\<rparr>"

definition UserStore_Create :: "UserStore \<Rightarrow> string \<Rightarrow> string \<Rightarrow> uuid \<Rightarrow> (gerror + User) prog" where
  "UserStore_Create st email passwordHash tenantID =
     attempt (UserStore_newUUID st)
       (\<lambda>e. Ret (Inl (Errorf ''accounts: generate user_id: '' e)))
       (\<lambda>i. Now (\<lambda>now.
         let u = new_user i now email passwordHash tenantID in
         attempt (execCAS (UserStore_db st) (InsertUser i (new_user_row u)))
           (\<lambda>e. Ret (Inl (Errorf (''accounts: create user '' @ Quote email @ '': '') e)))
           (\<lambda>applied.
             if \<not> applied then Ret (Inl (Sentinel accounts_ErrEmailAlreadyRegistered))
             else Ret (Inr u))))"

definition UserStore_GetByEmail :: "UserStore \<Rightarrow> string \<Rightarrow> (gerror + User) prog" where
  "UserStore_GetByEmail st email =
     bind (execScan (UserStore_db st) (UserByEmail email)) (\<lambda>r. case r of
       Inl e \<Rightarrow>
         if errors_Is e ErrNotFound_gocql then Ret (Inl (Sentinel accounts_ErrUserNotFound))
         else Ret (Inl (Errorf (''accounts: get user by email '' @ Quote email @ '': '') e))
     | Inr (i, row) \<Rightarrow> Ret (Inr (scan_user i row)))"

definition UserStore_GetByID :: "UserStore \<Rightarrow> uuid \<Rightarrow> (gerror + User) prog" where
  "UserStore_GetByID st userID =
     bind (execScan (UserStore_db st) (UserByID userID)) (\<lambda>r. case r of
       Inl e \<Rightarrow>
         if errors_Is e ErrNotFound_gocql then Ret (Inl (Sentinel accounts_ErrUserNotFound))
         else Ret (Inl (Errorf (''accounts: get user '' @ uuid_String userID @ '': '') e))
     | Inr (i, row) \<Rightarrow> Ret (Inr (scan_user i row)))"

section \<open>The contract of the querier\<close>

locale user_querier =
  fixes st :: UserStore
  assumes newUUID_law: "sem f (UserStore_newUUID st) s r t \<longleftrightarrow> value_reply f (\<lambda>_. True) r \<and> t = s"
    and execCAS_law: "sem f (execCAS (UserStore_db st) c) s r' t \<longleftrightarrow>
      (\<exists>x. cas_reply f c s x t \<and> r' = map_sum id fst x)"
    and execScan_law: "sem f (execScan (UserStore_db st) q) s r'' t \<longleftrightarrow>
      row_reply f (user_matches (db s) q) r'' \<and> t = s"
begin

lemmas laws = newUUID_law execCAS_law execScan_law

lemma Create_Inr:
  "sem f (UserStore_Create st email pw tid) s (Inr U) t \<longleftrightarrow>
   (\<exists>i now. U = new_user i now email pw tid \<and> users (db s) i = None \<and>
      t = s\<lparr>db := (db s)\<lparr>users := (users (db s))(i \<mapsto> new_user_row U)\<rparr>\<rparr>)"
  by (auto simp: UserStore_Create_def laws Let_def ex_reply split: if_splits)

text \<open>A failed creation leaves the tables as they were; a lost one may have inserted the user.\<close>

lemma Create_Inl:
  "sem f (UserStore_Create st email pw tid) s (Inl e) t \<Longrightarrow>
   t = s \<or> (f = AnyFaults \<and> (\<exists>i now. users (db s) i = None \<and>
     t = s\<lparr>db := (db s)\<lparr>users := (users (db s))(i \<mapsto> new_user_row (new_user i now email pw tid))\<rparr>\<rparr>))"
  by (cases "f = AnyFaults")
     (auto simp: UserStore_Create_def laws Let_def ex_reply cas_effect_def split: if_splits)

lemma GetByEmail_sem:
  "sem f (UserStore_GetByEmail st email) s r t \<Longrightarrow> t = s \<and>
   (case r of Inr U \<Rightarrow> (\<exists>i row. users_by_email (db s) email i row \<and> U = scan_user i row)
    | Inl e \<Rightarrow> (e = Sentinel accounts_ErrUserNotFound \<and> (\<nexists>i row. users_by_email (db s) email i row)) \<or>
        (faulty f \<and> (\<exists>c. fault_error c \<and>
           e = Errorf (''accounts: get user by email '' @ Quote email @ '': '') c)))"
  by (auto simp: UserStore_GetByEmail_def laws ex_reply split: if_splits)

lemma GetByID_sem:
  "sem f (UserStore_GetByID st i) s r t \<Longrightarrow> t = s \<and>
   (case r of Inr U \<Rightarrow> (\<exists>row. users (db s) i = Some row \<and> U = scan_user i row)
    | Inl e \<Rightarrow> (e = Sentinel accounts_ErrUserNotFound \<and> users (db s) i = None) \<or>
        (faulty f \<and> (\<exists>c. fault_error c \<and>
           e = Errorf (''accounts: get user '' @ uuid_String i @ '': '') c)))"
  by (auto simp: UserStore_GetByID_def laws ex_reply split: if_splits)

text \<open>What is registered is found again, by id and by email.\<close>

lemma Create_found:
  assumes "sem f (UserStore_Create st email pw tid) s (Inr U) t"
  shows "\<exists>U'. sem NoFaults (UserStore_GetByEmail st email) t (Inr U') t \<and> User_Email U' = email"
    and "sem NoFaults (UserStore_GetByID st (User_UserID U)) t
      (Inr (U\<lparr>User_CreatedAt := cql_timestamp (User_CreatedAt U),
             User_UpdatedAt := cql_timestamp (User_UpdatedAt U)\<rparr>)) t"
proof -
  from assms obtain i now where U: "U = new_user i now email pw tid"
    and t: "t = s\<lparr>db := (db s)\<lparr>users := (users (db s))(i \<mapsto> new_user_row U)\<rparr>\<rparr>"
    unfolding Create_Inr by blast
  have row: "users (db t) i = Some (new_user_row U)" by (simp add: t)
  then have "users_by_email (db t) email i (new_user_row U)"
    by (simp add: users_by_email_def new_user_row_def U new_user_def)
  then have "sem NoFaults (UserStore_GetByEmail st email) t (Inr (scan_user i (new_user_row U))) t"
    by (auto simp: UserStore_GetByEmail_def laws ex_reply)
  then show "\<exists>U'. sem NoFaults (UserStore_GetByEmail st email) t (Inr U') t \<and> User_Email U' = email"
    by (auto simp: scan_user_def new_user_row_def U new_user_def)
  have "sem NoFaults (UserStore_GetByID st i) t (Inr (scan_user i (new_user_row U))) t"
    using row by (auto simp: UserStore_GetByID_def laws ex_reply)
  then show "sem NoFaults (UserStore_GetByID st (User_UserID U)) t
      (Inr (U\<lparr>User_CreatedAt := cql_timestamp (User_CreatedAt U),
             User_UpdatedAt := cql_timestamp (User_UpdatedAt U)\<rparr>)) t"
    by (simp add: scan_user_def new_user_row_def U new_user_def)
qed

end

interpretation gocql_users: user_querier NewUserStore
  by unfold_locales (auto simp: NewUserStore_def gocqlUserQuerier_def)

end
