(* ===== verification/KeyStore.thy ===== *)
theory KeyStore
  imports Pools
begin

text \<open>
  \<open>internal/accounts/apikey.go\<close>: the API key store. Keys are kept by the hash of the raw key; a
  second \<open>Store\<close> of a hash is a success that writes nothing, and revocation by id goes through the
  hash column.
\<close>

section \<open>Operations\<close>

definition IsZero :: "time \<Rightarrow> bool" where
  "IsZero t \<longleftrightarrow> t = zero_time"

definition key_row_of :: "APIKey \<Rightarrow> key_row" where
  "key_row_of k =
     \<lparr>kcol_key_id = Some (Key_KeyID k), kcol_tenant_id = Some (Key_TenantID k),
      kcol_user_id = Some (Key_UserID k), kcol_display_name = Some (Key_DisplayName k),
      kcol_scopes = Some (Key_Scopes k), kcol_status = Some (Key_Status k),
      kcol_expiry = (if IsZero (Key_ExpiresAt k) then None else Some (cql_timestamp (Key_ExpiresAt k))),
      kcol_last_used_at = Some (cql_timestamp (Key_LastUsedAt k)),
      kcol_created_at = Some (cql_timestamp (Key_CreatedAt k))\<rparr>"

definition APIKeyStore_Store :: "APIKey \<Rightarrow> gerror option prog" where
  "APIKeyStore_Store k =
     attempt (Cas (InsertAPIKey (Key_KeyHash k) (key_row_of k)) Ret)
       (\<lambda>e. Ret (Some (Errorf (''accounts: store api key '' @ uuid_String (Key_KeyID k) @ '': '') e)))
       (\<lambda>(applied, _). if \<not> applied then Ret None else Ret None)"

definition APIKeyStore_Lookup :: "string \<Rightarrow> (gerror + APIKey) prog" where
  "APIKeyStore_Lookup keyHash =
     ScanKey keyHash (\<lambda>r. case r of
       Inl e \<Rightarrow>
         if errors_Is e ErrNotFound_gocql then Ret (Inl (Sentinel accounts_ErrAPIKeyNotFound))
         else Ret (Inl (Errorf ''accounts: lookup api key: '' e))
     | Inr row \<Rightarrow> Ret (Inr (scan_key keyHash row)))"

definition APIKeyStore_revokeWhere :: "uuid \<Rightarrow> gerror option prog" where
  "APIKeyStore_revokeWhere keyID =
     ScanKeyHash keyID (\<lambda>r. case r of
       Inl e \<Rightarrow>
         if errors_Is e ErrNotFound_gocql then Ret None
         else Ret (Some (Errorf (''accounts: find key hash for '' @ uuid_String keyID @ '': '') e))
     | Inr keyHash \<Rightarrow> Exec (UpdateKeyStatus keyHash APIKeyStatusRevoked) Ret)"

definition APIKeyStore_RevokeByID :: "uuid \<Rightarrow> gerror option prog" where
  "APIKeyStore_RevokeByID keyID = APIKeyStore_revokeWhere keyID"

definition APIKeyStore_RevokeByHash :: "string \<Rightarrow> gerror option prog" where
  "APIKeyStore_RevokeByHash keyHash = Exec (UpdateKeyStatus keyHash APIKeyStatusRevoked) Ret"

section \<open>Executions\<close>

text \<open>What a later lookup of a stored key returns: its times in milliseconds.\<close>

definition stored_key :: "APIKey \<Rightarrow> APIKey" where
  "stored_key k = k\<lparr>Key_ExpiresAt := cql_timestamp (Key_ExpiresAt k),
     Key_LastUsedAt := cql_timestamp (Key_LastUsedAt k),
     Key_CreatedAt := cql_timestamp (Key_CreatedAt k)\<rparr>"

lemma scan_key_row_of [simp]: "scan_key (Key_KeyHash k) (key_row_of k) = stored_key k"
  by (cases "IsZero (Key_ExpiresAt k)")
     (simp_all add: scan_key_def key_row_of_def stored_key_def IsZero_def)

lemma Store_sem:
  "sem f (APIKeyStore_Store k) s None t \<longleftrightarrow>
     t = s\<lparr>db := cas_effect (InsertAPIKey (Key_KeyHash k) (key_row_of k)) (db s)\<rparr>"
  by (auto simp: APIKeyStore_Store_def ex_reply)

lemma Lookup_sem:
  "sem f (APIKeyStore_Lookup h) s r t \<Longrightarrow> t = s \<and>
   (case r of Inr K \<Rightarrow> (\<exists>row. api_keys (db s) h = Some row \<and> K = scan_key h row)
    | Inl e \<Rightarrow> (e = Sentinel accounts_ErrAPIKeyNotFound \<and> api_keys (db s) h = None) \<or>
        (faulty f \<and> (\<exists>c. fault_error c \<and> e = Errorf ''accounts: lookup api key: '' c)))"
  by (auto simp: APIKeyStore_Lookup_def ex_reply split: if_splits)

text \<open>A stored key is looked up as it was stored; a second store does not overwrite.\<close>

lemma Store_Lookup:
  assumes "api_keys (db s) (Key_KeyHash k) = None" and "sem f (APIKeyStore_Store k) s None t"
    and "sem NoFaults (APIKeyStore_Lookup (Key_KeyHash k)) t r u"
  shows "r = Inr (stored_key k)"
  using assms Lookup_sem [OF assms(3)] by (cases r) (auto simp: Store_sem)

lemma Store_keeps:
  assumes "api_keys (db s) h = Some row" and "sem f (APIKeyStore_Store k) s r t"
  shows "api_keys (db t) h = Some row"
  using assms by (cases r) (auto simp: APIKeyStore_Store_def ex_reply cas_effect_def split: if_splits)

text \<open>
  Key ids are unique: what revocation by id relies on. A revoked key is looked up as REVOKED, and
  the rows of the other keys are untouched.
\<close>

definition key_inv :: "cf_db \<Rightarrow> bool" where
  "key_inv d \<longleftrightarrow> (\<forall>i h h'. keys_by_id d i h \<longrightarrow> keys_by_id d i h' \<longrightarrow> h = h')"

lemma key_inv_empty [simp]: "key_inv empty_db"
  by (simp add: key_inv_def keys_by_id_def empty_db_def)

lemma RevokeByID_sem:
  "sem f (APIKeyStore_RevokeByID i) s None t \<Longrightarrow>
   (\<exists>h. keys_by_id (db s) i h \<and> t = s\<lparr>db := exec_effect (UpdateKeyStatus h APIKeyStatusRevoked) (db s)\<rparr>) \<or>
   ((\<nexists>h. keys_by_id (db s) i h) \<and> t = s)"
  by (auto simp: APIKeyStore_RevokeByID_def APIKeyStore_revokeWhere_def ex_reply simp del: exec_effect.simps
      split: if_splits)

lemma RevokeByID_revokes:
  assumes "key_inv (db s)" and "keys_by_id (db s) i h" and "sem f (APIKeyStore_RevokeByID i) s None t"
  shows "map_option kcol_status (api_keys (db t) h) = Some (Some APIKeyStatusRevoked)"
    and "h' \<noteq> h \<Longrightarrow> api_keys (db t) h' = api_keys (db s) h'"
proof -
  have "t = s\<lparr>db := exec_effect (UpdateKeyStatus h APIKeyStatusRevoked) (db s)\<rparr>"
    using RevokeByID_sem [OF assms(3)] assms(1,2) by (auto simp: key_inv_def)
  then show "map_option kcol_status (api_keys (db t) h) = Some (Some APIKeyStatusRevoked)"
    and "h' \<noteq> h \<Longrightarrow> api_keys (db t) h' = api_keys (db s) h'" by auto
qed

text \<open>No operation of the store brings a revoked key back.\<close>

definition revoked :: "cf_db \<Rightarrow> string \<Rightarrow> bool" where
  "revoked d h \<longleftrightarrow> (\<exists>row. api_keys d h = Some row \<and> kcol_status row = Some APIKeyStatusRevoked)"

lemma revoked_effect:
  "revoked d h \<Longrightarrow> revoked (exec_effect (UpdateKeyStatus h' APIKeyStatusRevoked) d) h"
  by (auto simp: revoked_def)

lemma revoked_forever:
  assumes "revoked (db s) h"
  shows "sem f (APIKeyStore_Store k) s r t \<Longrightarrow> revoked (db t) h"
    and "sem f (APIKeyStore_RevokeByID i) s r t \<Longrightarrow> revoked (db t) h"
    and "sem f (APIKeyStore_RevokeByHash h') s r t \<Longrightarrow> revoked (db t) h"
  using assms
  by (cases r;
      auto simp: APIKeyStore_Store_def APIKeyStore_RevokeByID_def APIKeyStore_revokeWhere_def
        APIKeyStore_RevokeByHash_def ex_reply revoked_effect cas_effect_def
        simp del: exec_effect.simps split: if_splits;
      auto simp: revoked_def)+

end
