(* ===== verification/JobStore.thy ===== *)
theory JobStore
  imports Pools
begin

text \<open>
  \<open>internal/accounts/job.go\<close>: provisioning jobs. \<open>Enqueue\<close> deduplicates by (tenant, idempotency
  key), \<open>Claim\<close> is the compare-and-set that makes one worker the owner of a queued job.
\<close>

section \<open>Operations\<close>

definition new_job_row :: "string \<Rightarrow> JobOperation \<Rightarrow> time \<Rightarrow> job_row" where
  "new_job_row idemKey op now =
     \<lparr>jcol_idempotency_key = Some idemKey, jcol_operation = Some op,
      jcol_status = Some JobStatusQueued, jcol_error_message = Some [], jcol_result = Some [],
      jcol_started_at = Some (cql_timestamp now), jcol_completed_at = Some (cql_timestamp zero_time)\<rparr>"

definition JobStore_Enqueue :: "uuid \<Rightarrow> string \<Rightarrow> JobOperation \<Rightarrow> (gerror + uuid) prog" where
  "JobStore_Enqueue tenantID idemKey op =
     attempt (NewUUID Ret)
       (\<lambda>e. Ret (Inl (Errorf ''accounts: generate job_id: '' e)))
       (\<lambda>jobID.
         attempt (Cas (InsertIdem tenantID idemKey jobID) Ret)
           (\<lambda>e. Ret (Inl (Errorf (''accounts: idempotency insert for tenant '' @
                  uuid_String tenantID @ '': '') e)))
           (\<lambda>(applied, dest).
             if \<not> applied then
               (case dest of
                  Some existing \<Rightarrow> Ret (Inr existing)
                | None \<Rightarrow> Ret (Inl (Text (''accounts: idempotency conflict for tenant '' @
                    uuid_String tenantID @ '' key '' @ Quote idemKey @
                    '': could not extract existing job_id''))))
             else
               Now (\<lambda>now.
                 check (Exec (InsertJob tenantID jobID (new_job_row idemKey op now)) Ret)
                   (\<lambda>e. Ret (Inl (Errorf (''accounts: insert job row for tenant '' @
                          uuid_String tenantID @ '': '') e)))
                   (Ret (Inr jobID)))))"

definition JobStore_Claim :: "uuid \<Rightarrow> uuid \<Rightarrow> (gerror + bool) prog" where
  "JobStore_Claim tenantID jobID =
     Now (\<lambda>now.
       attempt (Cas (ClaimJob tenantID jobID JobStatusProvisioning (cql_timestamp now) JobStatusQueued) Ret)
         (\<lambda>e. Ret (Inl (Errorf (''accounts: claim job '' @ uuid_String jobID @ '': '') e)))
         (\<lambda>(applied, _). Ret (Inr applied)))"

definition JobStore_Complete :: "uuid \<Rightarrow> uuid \<Rightarrow> string \<Rightarrow> gerror option prog" where
  "JobStore_Complete tenantID jobID result =
     Now (\<lambda>now. Exec (UpdateJobReady tenantID jobID JobStatusReady result (cql_timestamp now)) Ret)"

definition JobStore_Fail :: "uuid \<Rightarrow> uuid \<Rightarrow> string \<Rightarrow> gerror option prog" where
  "JobStore_Fail tenantID jobID errMsg =
     Now (\<lambda>now. Exec (UpdateJobFailed tenantID jobID JobStatusFailed errMsg (cql_timestamp now)) Ret)"

definition JobStore_Get :: "uuid \<Rightarrow> uuid \<Rightarrow> (gerror + ProvisioningJob) prog" where
  "JobStore_Get tenantID jobID =
     ScanJob tenantID jobID (\<lambda>r. case r of
       Inl e \<Rightarrow>
         if errors_Is e ErrNotFound_gocql then Ret (Inl (Sentinel accounts_ErrJobNotFound))
         else Ret (Inl (Errorf (''accounts: get job '' @ uuid_String jobID @ '': '') e))
     | Inr row \<Rightarrow> Ret (Inr (scan_job tenantID jobID row)))"

section \<open>Executions\<close>

lemma Enqueue_Inr:
  "sem f (JobStore_Enqueue tid k op) s (Inr j) t \<longleftrightarrow>
   (provisioning_jobs_by_idem (db s) (tid, k) = Some j \<and> t = s) \<or>
   (provisioning_jobs_by_idem (db s) (tid, k) = None \<and> (\<exists>now.
      t = s\<lparr>db := exec_effect (InsertJob tid j (new_job_row k op now))
                    (cas_write (InsertIdem tid k j) (db s))\<rparr>))"
  by (cases "provisioning_jobs_by_idem (db s) (tid, k)")
     (auto simp: JobStore_Enqueue_def ex_reply cas_effect_def split: if_splits option.splits)

lemma Enqueue_Inl:
  assumes "sem f (JobStore_Enqueue tid k op) s (Inl e) t"
  shows "faulty f \<and> (\<forall>n. \<not> errors_Is e (Sentinel n)) \<and> same_outside s t"
  using assms
  by (cases "provisioning_jobs_by_idem (db s) (tid, k)")
     (auto simp: JobStore_Enqueue_def ex_reply cas_effect_def split: if_splits option.splits)

text \<open>Submitting the same key again returns the same job and changes nothing.\<close>

lemma Enqueue_idempotent:
  assumes "sem f (JobStore_Enqueue tid k op) s (Inr j) t"
    and "sem f' (JobStore_Enqueue tid k op') t (Inr j') u"
  shows "j' = j \<and> u = t"
  using assms unfolding Enqueue_Inr by auto

lemma job_Get_sem:
  "sem f (JobStore_Get i j) s r t \<Longrightarrow> t = s \<and>
   (case r of Inr J \<Rightarrow> (\<exists>row. provisioning_jobs (db s) (i, j) = Some row \<and> J = scan_job i j row)
    | Inl e \<Rightarrow> (e = Sentinel accounts_ErrJobNotFound \<and> provisioning_jobs (db s) (i, j) = None) \<or>
        (faulty f \<and> (\<exists>c. fault_error c \<and> e = Errorf (''accounts: get job '' @ uuid_String j @ '': '') c)))"
  by (auto simp: JobStore_Get_def ex_reply split: if_splits)

definition job_status :: "cf_db \<Rightarrow> uuid \<Rightarrow> uuid \<Rightarrow> JobStatus option" where
  "job_status d i j = (case provisioning_jobs d (i, j) of None \<Rightarrow> None | Some r \<Rightarrow> jcol_status r)"

text \<open>Life cycle: what each operation may do to the status of any job.\<close>

inductive job_moves :: "JobStatus option \<Rightarrow> JobStatus option \<Rightarrow> bool" where
  stay: "job_moves x x"
| enqueue: "job_moves x (Some JobStatusQueued)"
| claim: "job_moves (Some JobStatusQueued) (Some JobStatusProvisioning)"
| complete: "job_moves x (Some JobStatusReady)"
| fail: "job_moves x (Some JobStatusFailed)"

lemma status_after [simp]:
  "job_status (exec_effect (UpdateJobReady a b st res n) d) i j =
     (if i = a \<and> j = b then Some st else job_status d i j)"
  "job_status (exec_effect (UpdateJobFailed a b st msg n) d) i j =
     (if i = a \<and> j = b then Some st else job_status d i j)"
  "job_status (exec_effect (InsertJob a b r) d) i j =
     (if i = a \<and> j = b then jcol_status r else job_status d i j)"
  by (auto simp: job_status_def)

lemma status_claim [simp]:
  "job_status (cas_write (ClaimJob a b st n ex) d) i j =
     (if i = a \<and> j = b then Some st else job_status d i j)"
  by (auto simp: job_status_def)

lemma status_idem [simp]: "job_status (cas_write (InsertIdem a k b) d) i j = job_status d i j"
  by (simp add: job_status_def)

text \<open>A claim succeeds exactly on a queued job, which it moves to PROVISIONING.\<close>

lemma claim_applies [simp]:
  "cas_applies (ClaimJob i j st n ex) d \<longleftrightarrow> job_status d i j = Some ex"
  by (simp add: job_status_def cas_applies.simps(7) split: option.splits)

lemma Claim_Inr:
  "sem f (JobStore_Claim i j) s (Inr b) t \<Longrightarrow>
   (b \<longleftrightarrow> job_status (db s) i j = Some JobStatusQueued) \<and>
   (if b then job_status (db t) i j = Some JobStatusProvisioning else t = s)"
  by (cases "job_status (db s) i j = Some JobStatusQueued")
     (auto simp: JobStore_Claim_def ex_reply simp del: cas_write.simps)

lemma Claim_moves:
  "sem f (JobStore_Claim a b) s r t \<Longrightarrow> job_moves (job_status (db s) i j) (job_status (db t) i j)"
  by (cases r)
     (auto simp: JobStore_Claim_def ex_reply cas_effect_def simp del: cas_write.simps
        intro: job_moves.intros split: if_splits option.splits;
      auto simp: job_status_def intro: job_moves.intros)+

lemma Complete_moves:
  "sem f (JobStore_Complete a b res) s r t \<Longrightarrow> job_moves (job_status (db s) i j) (job_status (db t) i j)"
  "sem f (JobStore_Fail a b msg) s r t \<Longrightarrow> job_moves (job_status (db s) i j) (job_status (db t) i j)"
  by (cases r; auto simp: JobStore_Complete_def JobStore_Fail_def simp del: exec_effect.simps
        intro: job_moves.intros)+

section \<open>Concurrent claims\<close>

text \<open>
  The ghost is the winner of each claim. Workers only claim, so a claimed job stays claimed.
\<close>

type_synonym winners = "uuid \<times> uuid \<Rightarrow> nat option"

definition claim_upd :: "nat \<Rightarrow> sys \<Rightarrow> sys \<Rightarrow> winners \<Rightarrow> winners" where
  "claim_upd n s s' g = (\<lambda>k. if job_status (db s) (fst k) (snd k) = Some JobStatusQueued \<and>
     job_status (db s') (fst k) (snd k) \<noteq> Some JobStatusQueued then Some n else g k)"

definition settled :: "uuid \<times> uuid \<Rightarrow> sys \<times> winners \<Rightarrow> nat option \<Rightarrow> bool" where
  "settled k y w \<longleftrightarrow> job_status (db (fst y)) (fst k) (snd k) \<noteq> Some JobStatusQueued \<and> snd y k = w"

definition claim_R :: "nat \<Rightarrow> sys \<times> winners \<Rightarrow> sys \<times> winners \<Rightarrow> bool" where
  "claim_R n y z \<longleftrightarrow> (\<forall>k w. settled k y w \<longrightarrow> settled k z w)"

interpretation claims: rely_guarantee CleanFaults claim_upd claim_R claim_R "\<lambda>_. True"
  by unfold_locales (auto simp: claim_R_def claim_upd_def settled_def)

definition claimed_by :: "nat \<Rightarrow> uuid \<times> uuid \<Rightarrow> gerror + bool \<Rightarrow> sys \<times> winners \<Rightarrow> bool" where
  "claimed_by n k a y \<longleftrightarrow> (a = Inr True \<longrightarrow> settled k y (Some n))"

lemma claim_step_R:
  assumes "\<And>k. job_status (db s) (fst k) (snd k) \<noteq> Some JobStatusQueued \<Longrightarrow>
     job_status (db s') (fst k) (snd k) \<noteq> Some JobStatusQueued"
  shows "claim_R n (s, g) (s', claim_upd n s s' g)"
  using assms by (auto simp: claim_R_def claim_upd_def settled_def)

lemma rg_claim_cas:
  "rg CleanFaults claim_upd claim_R claim_R n (claimed_by n (i, j))
     (Cas (ClaimJob i j JobStatusProvisioning now JobStatusQueued) (\<lambda>r. case r of
        Inl e \<Rightarrow> Ret (Inl (h e)) | Inr (applied, _) \<Rightarrow> Ret (Inr applied))) y"
proof (rule claims.rg_call [where A = "\<lambda>_. True"], goal_cases)
  case (4 s g p' s')
  then obtain r where r: "cas_reply CleanFaults (ClaimJob i j JobStatusProvisioning now JobStatusQueued) s r s'"
    and p': "p' = (case r of Inl e \<Rightarrow> Ret (Inl (h e)) | Inr (applied, _) \<Rightarrow> Ret (Inr applied))"
    by (auto simp: estep_Cas)
  show ?case
  proof (cases r)
    case (Inl e)
    then show ?thesis using r p' claims.idle [of n "(s, g)"] claims.upd_idle [of n s g]
      by (simp add: rg_Ret claimed_by_def)
  next
    case (Inr b)
    let ?c = "ClaimJob i j JobStatusProvisioning now JobStatusQueued"
    have s': "s' = s\<lparr>db := cas_effect ?c (db s)\<rparr>" and b: "fst b \<longleftrightarrow> cas_applies ?c (db s)"
      using r Inr by (cases b; simp)+
    have st: "job_status (db s') a c =
        (if fst b \<and> a = i \<and> c = j then Some JobStatusProvisioning else job_status (db s) a c)" for a c
      unfolding s' b cas_effect_def by (simp del: cas_write.simps)
    have G: "claim_R n (s, g) (s', claim_upd n s s' g)"
      by (rule claim_step_R) (simp add: st)
    have post: "claimed_by n (i, j) (Inr (fst b)) z"
      if "claim_R n (s', claim_upd n s s' g) z" for z
    proof -
      have "settled (i, j) (s', claim_upd n s s' g) (Some n)" if "fst b"
        using that b by (simp add: settled_def claim_upd_def st)
      then show ?thesis using that by (auto simp: claimed_by_def claim_R_def)
    qed
    have "p' = Ret (Inr (fst b))" using p' Inr by (simp split: prod.split)
    then show ?thesis using G post by (auto simp: rg_Ret)
  qed
qed auto

lemma rg_Claim: "rg CleanFaults claim_upd claim_R claim_R n (claimed_by n (i, j)) (JobStore_Claim i j) y"
  unfolding JobStore_Claim_def
  by (rule claims.rg_read [where A = "\<lambda>_. True"])
     (auto simp: estep_Now intro: rg_claim_cas [simplified])

lemma one_claim_wins:
  assumes "preach CleanFaults (map (\<lambda>(i, j). JobStore_Claim i j) ks) s qs t"
    and "m < length qs" "n < length qs" and "qs ! m = Ret (Inr True)" "qs ! n = Ret (Inr True)"
    and "ks ! m = ks ! n"
  shows "m = n"
proof -
  have len: "length qs = length ks" using preach_length [OF assms(1)] by simp
  have "\<exists>h. True \<and> (\<forall>n<length qs. \<forall>a. qs ! n = Ret a \<longrightarrow> claimed_by n (ks ! n) a (t, h))"
  proof (rule claims.pool_returned [OF assms(1), where g = "\<lambda>_. None"])
    fix n assume "n < length (map (\<lambda>(i, j). JobStore_Claim i j) ks)"
    then show "rg CleanFaults claim_upd claim_R claim_R n (claimed_by n (ks ! n))
        (map (\<lambda>(i, j). JobStore_Claim i j) ks ! n) (s, \<lambda>_. None)"
      by (cases "ks ! n") (simp add: rg_Claim)
  qed simp
  then obtain h where "claimed_by m (ks ! m) (Inr True) (t, h)" "claimed_by n (ks ! n) (Inr True) (t, h)"
    using assms(2-5) by blast
  then show ?thesis using assms(6) by (auto simp: claimed_by_def settled_def)
qed

section \<open>Concurrent submissions\<close>

text \<open>
  No step of any program changes or removes an idempotency entry, so the entry a submission found or
  made stays: submissions of the same key get the same job, whatever runs beside them.
\<close>

definition idem_R :: "nat \<Rightarrow> sys \<times> nat \<Rightarrow> sys \<times> nat \<Rightarrow> bool" where
  "idem_R n y z \<longleftrightarrow> (\<forall>k j. provisioning_jobs_by_idem (db (fst y)) k = Some j \<longrightarrow>
     provisioning_jobs_by_idem (db (fst z)) k = Some j)"

interpretation idem_pool: rely_guarantee f "\<lambda>_ _ _ g. g" idem_R idem_R "\<lambda>_. True" for f
  by unfold_locales (auto simp: idem_R_def)

definition idem_holds :: "uuid \<times> string \<Rightarrow> gerror + uuid \<Rightarrow> sys \<times> nat \<Rightarrow> bool" where
  "idem_holds k r y \<longleftrightarrow> (\<forall>j. r = Inr j \<longrightarrow> provisioning_jobs_by_idem (db (fst y)) k = Some j)"

lemma idem_holds_stable: "idem_holds k r y \<Longrightarrow> idem_R n y z \<Longrightarrow> idem_holds k r z"
  unfolding idem_holds_def idem_R_def by blast

lemma estep_idem: "estep f p s p' s' \<Longrightarrow> idem_R n (s, g) (s', g)"
  by (induction rule: estep.induct)
     (auto simp: idem_R_def log_command_def write_reply_def cas_reply_def dest: cas_idem_preserves
        split: option.splits sum.splits)

lemma rg_idem_Ret: "idem_holds k r y \<Longrightarrow> rg f (\<lambda>_ _ _ g. g) idem_R idem_R n (idem_holds k) (Ret r) y"
  by (auto simp: rg_Ret intro: idem_holds_stable)

lemma rg_idem_call:
  assumes "\<And>a. p \<noteq> Ret a" and "idem_holds k r y"
    and "\<And>s p' s' g. idem_holds k r (s, g) \<Longrightarrow> estep f p s p' s' \<Longrightarrow>
      rg f (\<lambda>_ _ _ g. g) idem_R idem_R n (idem_holds k) p' (s', g)"
  shows "rg f (\<lambda>_ _ _ g. g) idem_R idem_R n (idem_holds k) p y"
  by (rule idem_pool.rg_call [where A = "idem_holds k r", OF assms(2) idem_holds_stable assms(1)])
     (use assms(3) estep_idem in auto)

lemma rg_idem_insert:
  assumes "idem_holds (tid, k) (Inr j) y"
  shows "rg f (\<lambda>_ _ _ g. g) idem_R idem_R n (idem_holds (tid, k))
    (Now (\<lambda>now. Exec (InsertJob tid j (new_job_row k op now))
       (\<lambda>r. case r of Some e \<Rightarrow> Ret (Inl (h e)) | None \<Rightarrow> Ret (Inr j)))) y"
proof (rule rg_idem_call [where r = "Inr j"], simp, rule assms, goal_cases)
  case (1 s p' s' g)
  have "rg f (\<lambda>_ _ _ g. g) idem_R idem_R n (idem_holds (tid, k)) (Exec (InsertJob tid j (new_job_row k op now))
       (\<lambda>r. case r of Some e \<Rightarrow> Ret (Inl (h e)) | None \<Rightarrow> Ret (Inr j))) (s, g)" for now
  proof (rule rg_idem_call [where r = "Inr j"], simp, rule 1(1), goal_cases)
    case (1 s p' s' g)
    then have "idem_holds (tid, k) (Inr j) (s', g)"
      using estep_idem [OF 1(2), of 0 g] idem_holds_stable by blast
    moreover have "idem_holds (tid, k) (Inl e) (s', g)" for e by (simp add: idem_holds_def)
    moreover have "(\<exists>e. p' = Ret (Inl (h e))) \<or> p' = Ret (Inr j)"
      using 1(2) by (auto simp: estep_Exec split: option.splits)
    ultimately show ?case using rg_idem_Ret by blast
  qed
  then show ?case using 1(2) by (auto simp: estep_Now)
qed

lemma rg_idem_cas:
  "rg f (\<lambda>_ _ _ g. g) idem_R idem_R n (idem_holds (tid, k))
    (Cas (InsertIdem tid k j) (\<lambda>r. case r of
       Inl e \<Rightarrow> Ret (Inl (h e))
     | Inr (applied, dest) \<Rightarrow>
         if \<not> applied then (case dest of Some existing \<Rightarrow> Ret (Inr existing) | None \<Rightarrow> Ret (Inl e0))
         else Now (\<lambda>now. Exec (InsertJob tid j (new_job_row k op now))
           (\<lambda>r. case r of Some e \<Rightarrow> Ret (Inl (h' e)) | None \<Rightarrow> Ret (Inr j))))) y"
proof (rule rg_idem_call [where r = "Inl (Text [])"], simp, simp add: idem_holds_def, goal_cases)
  case (1 s p' s' g)
  have err: "idem_holds (tid, k) (Inl e) (s', g)" for e by (simp add: idem_holds_def)
  from 1(2) obtain r where r: "cas_reply f (InsertIdem tid k j) s r s'"
    and p': "p' = (case r of
       Inl e \<Rightarrow> Ret (Inl (h e))
     | Inr (applied, dest) \<Rightarrow>
         if \<not> applied then (case dest of Some existing \<Rightarrow> Ret (Inr existing) | None \<Rightarrow> Ret (Inl e0))
         else Now (\<lambda>now. Exec (InsertJob tid j (new_job_row k op now))
           (\<lambda>r. case r of Some e \<Rightarrow> Ret (Inl (h' e)) | None \<Rightarrow> Ret (Inr j))))"
    by (auto simp: estep_Cas)
  consider e where "r = Inl e" | x where "r = Inr (True, x)" | "r = Inr (False, None)" | x where "r = Inr (False, Some x)"
    by (cases r) (auto, metis option.exhaust)
  then show ?case
  proof cases
    case (2 x)
    then have "idem_holds (tid, k) (Inr j) (s', g)" using r by (auto simp: idem_holds_def cas_effect_def)
    then show ?thesis unfolding p' 2 by (simp add: rg_idem_insert)
  next
    case (4 x)
    then have "idem_holds (tid, k) (Inr x) (s', g)" using r by (auto simp: idem_holds_def cas_effect_def split: if_splits)
    then show ?thesis unfolding p' 4 by (simp add: rg_idem_Ret)
  qed (unfold p', simp_all add: err rg_idem_Ret)
qed

lemma rg_Enqueue:
  "rg f (\<lambda>_ _ _ g. g) idem_R idem_R n (idem_holds (tid, k)) (JobStore_Enqueue tid k op) y"
  unfolding JobStore_Enqueue_def bind.simps
proof (rule rg_idem_call [where r = "Inl (Text [])"], simp, simp add: idem_holds_def, goal_cases)
  case (1 s p' s' g)
  have err: "idem_holds (tid, k) (Inl e) (s, g)" for e by (simp add: idem_holds_def)
  show ?case using 1(2) unfolding estep_NewUUID
  proof (elim exE conjE, goal_cases)
    case (1 r)
    show ?case unfolding 1 using rg_idem_Ret [OF err] by (cases r) (simp_all add: rg_idem_cas)
  qed
qed

text \<open>Any program may run beside the submissions.\<close>

lemma rg_idem_any_step:
  assumes "\<And>a. p \<noteq> Ret a"
    and "\<And>s p' s' g. estep f p s p' s' \<Longrightarrow> rg f (\<lambda>_ _ _ g. g) idem_R idem_R n (\<lambda>_ _. True) p' (s', g)"
  shows "rg f (\<lambda>_ _ _ g. g) idem_R idem_R n (\<lambda>_ _. True) p y"
  unfolding rg_step [OF assms(1)] using assms(2) estep_idem by blast

lemma rg_idem_any: "rg f (\<lambda>_ _ _ g. g) idem_R idem_R n (\<lambda>_ _. True) p y"
proof (induction p arbitrary: y)
  case (Ret a)
  then show ?case by (simp add: rg_Ret)
qed (rule rg_idem_any_step, simp, auto simp: estep_simps)+

lemma same_key_same_job:
  assumes "preach f ps s qs t" and "m < length ps" "n < length ps"
    and "ps ! m = JobStore_Enqueue tid k op" "ps ! n = JobStore_Enqueue tid k op'"
    and "qs ! m = Ret (Inr i)" "qs ! n = Ret (Inr j)"
  shows "i = j \<and> provisioning_jobs_by_idem (db t) (tid, k) = Some i"
proof -
  let ?Q = "\<lambda>l r z. if l = m \<or> l = n then idem_holds (tid, k) r z else True"
  have "\<exists>h. True \<and> (\<forall>l<length qs. \<forall>a. qs ! l = Ret a \<longrightarrow> ?Q l a (t, h))"
  proof (rule idem_pool.pool_returned [OF assms(1), where g = 0], simp, goal_cases)
    case (1 l)
    then show ?case using rg_Enqueue [of f l tid k op "(s, 0)"] rg_Enqueue [of f l tid k op' "(s, 0)"]
        rg_idem_any [of f l "ps ! l" "(s, 0)"] assms(4,5)
      by (cases "l = m \<or> l = n") (auto simp del: One_nat_def)
  qed
  moreover have "length qs = length ps" by (rule preach_length [OF assms(1)])
  ultimately obtain h where h: "\<And>l a. l < length ps \<Longrightarrow> qs ! l = Ret a \<Longrightarrow> ?Q l a (t, h)" by auto
  from h [OF assms(2,6)] h [OF assms(3,7)] show ?thesis by (simp add: idem_holds_def)
qed

end
