(* ===== verification/Session.thy ===== *)
theory Session
  imports Pools
begin

text \<open>
  \<open>internal/accounts/session.go\<close>: the connection parameters of the session and the application
  of the schema file, one trimmed non-empty statement at a time, stopping at the first error.
  Dialling is gocql's: \<open>NewSession\<close> takes \<open>CreateSession\<close> as an argument.
\<close>

section \<open>Connection\<close>

record Config =
  Username :: string
  Password :: string
  Hosts :: "string list"
  Port :: int
  ConnectTimeout :: time
  QueryTimeout :: time

definition Second :: time where "Second = 1000000000"

definition DefaultConfig :: Config where
  "DefaultConfig = \<lparr>Username = [], Password = [], Hosts = [''127.0.0.1''], Port = 19042,
     ConnectTimeout = 10 * Second, QueryTimeout = 5 * Second\<rparr>"

text \<open>The fields of \<open>gocql.ClusterConfig\<close> the code sets.\<close>

datatype consistency = Quorum

record ClusterConfig =
  cluster_Hosts :: "string list"
  cluster_Port :: int
  cluster_ConnectTimeout :: time
  cluster_Timeout :: time
  cluster_Consistency :: consistency
  cluster_NumConns :: nat
  cluster_ProtoVersion :: nat
  cluster_Authenticator :: "(string \<times> string) option"

definition NewSession ::
    "(ClusterConfig \<Rightarrow> gerror + 'session) \<Rightarrow> Config \<Rightarrow> gerror + 'session" where
  "NewSession CreateSession cfg =
     (let cluster = \<lparr>cluster_Hosts = Hosts cfg, cluster_Port = Port cfg,
            cluster_ConnectTimeout = ConnectTimeout cfg, cluster_Timeout = QueryTimeout cfg,
            cluster_Consistency = Quorum, cluster_NumConns = 4, cluster_ProtoVersion = 4,
            cluster_Authenticator =
              (if Username cfg \<noteq> [] then Some (Username cfg, Password cfg) else None)\<rparr> in
      case CreateSession cluster of
        Inl e \<Rightarrow> Inl (Errorf (''accounts: dial ScyllaDB '' @ fmt_strings (Hosts cfg) @ '':'' @
                   fmt_int (Port cfg) @ '': '') e)
      | Inr sess \<Rightarrow> Inr sess)"

section \<open>Schema\<close>

definition is_comment :: "string \<Rightarrow> bool" where
  "is_comment line \<longleftrightarrow> HasPrefix (TrimSpace line) ''--''"

definition splitStatements :: "string \<Rightarrow> string list" where
  "splitStatements src =
     (let cleaned = concat (map (\<lambda>line. if is_comment line then [] else line @ [CHR 0x0A])
            (Split src (CHR 0x0A))) in
      Split cleaned (CHR '';''))"

fun ApplySchema_from :: "nat \<Rightarrow> string list \<Rightarrow> gerror option prog" where
  "ApplySchema_from i [] = Ret None"
| "ApplySchema_from i (raw # stmts) =
     (let stmt = TrimSpace raw in
      if stmt = [] then ApplySchema_from (Suc i) stmts
      else check (Exec (DDL stmt) Ret)
             (\<lambda>e. Ret (Some (Wrap (''accounts: schema statement '' @ Itoa (i + 1) @ '': '') e
                    ([CHR 0x0A] @ stmt))))
             (ApplySchema_from (Suc i) stmts))"

definition ApplySchema :: "string \<Rightarrow> gerror option prog" where
  "ApplySchema schemaContent = ApplySchema_from 0 (splitStatements schemaContent)"

lemma splitStatements_no_semicolon: "s \<in> set (splitStatements src) \<Longrightarrow> CHR '';'' \<notin> set s"
  by (simp add: splitStatements_def Let_def Split_sep_free)

text \<open>Nothing but comment lines is lost: joined again, the statements are the other lines.\<close>

lemma splitStatements_join:
  "Join (splitStatements src) '';'' =
     concat (map (\<lambda>line. line @ [CHR 0x0A]) (filter (\<lambda>line. \<not> is_comment line) (Split src (CHR 0x0A))))"
proof -
  have "concat (map (\<lambda>line. if is_comment line then [] else line @ [CHR 0x0A]) ls) =
      concat (map (\<lambda>line. line @ [CHR 0x0A]) (filter (\<lambda>line. \<not> is_comment line) ls))" for ls
    by (induction ls) auto
  then show ?thesis by (simp add: splitStatements_def Let_def)
qed

definition nonblank :: "string list \<Rightarrow> string list" where
  "nonblank stmts = filter (\<lambda>s. s \<noteq> []) (map TrimSpace stmts)"

lemma nonblank_Cons [simp]:
  "nonblank (raw # stmts) = (if TrimSpace raw = [] then nonblank stmts else TrimSpace raw # nonblank stmts)"
  "nonblank [] = []"
  by (simp_all add: nonblank_def)

text \<open>The statements a schema file holds.\<close>

definition schema_statements :: "string \<Rightarrow> string list" where
  "schema_statements src = nonblank (splitStatements src)"

definition ddl_done :: "sys \<Rightarrow> string list \<Rightarrow> sys" where
  "ddl_done s done = s\<lparr>db := (db s)\<lparr>ddl_log := ddl_log (db s) @ done\<rparr>\<rparr>"

lemma ddl_done_simps [simp]:
  "ddl_done s [] = s" "ddl_done (ddl_done s xs) ys = ddl_done s (xs @ ys)"
  by (simp_all add: ddl_done_def)

lemma ddl_step: "s\<lparr>db := exec_effect (DDL x) (db s)\<rparr> = ddl_done s [x]"
  by (simp add: ddl_done_def)

lemma ApplySchema_from_None:
  "sem f (ApplySchema_from i stmts) s None t \<Longrightarrow> t = ddl_done s (nonblank stmts)"
proof (induction i stmts arbitrary: s rule: ApplySchema_from.induct)
  case (2 i raw stmts)
  show ?case
  proof (cases "TrimSpace raw = []")
    case True
    then show ?thesis using 2 by simp
  next
    case False
    with "2.prems" have "sem f (ApplySchema_from (Suc i) stmts) (ddl_done s [TrimSpace raw]) None t"
      by (auto simp: ex_reply Let_def ddl_step simp del: exec_effect.simps)
    from "2.IH"(2) [OF refl False this] False show ?thesis by simp
  qed
qed simp

lemma ApplySchema_from_Some:
  "sem f (ApplySchema_from i stmts) s (Some e) t \<Longrightarrow> faulty f \<and> (\<exists>done stmt rest.
     nonblank stmts = done @ stmt # rest \<and>
     (t = ddl_done s done \<or> f = AnyFaults \<and> t = ddl_done s (done @ [stmt])))"
proof (induction i stmts arbitrary: s rule: ApplySchema_from.induct)
  case (1 i)
  then show ?case by simp
next
  case (2 i raw stmts)
  show ?case
  proof (cases "TrimSpace raw = []")
    case True
    then show ?thesis using 2 by simp
  next
    case False
    with "2.prems" consider
      (ok) "sem f (ApplySchema_from (Suc i) stmts) (ddl_done s [TrimSpace raw]) (Some e) t"
    | (fail) "faulty f" "t = s \<or> f = AnyFaults \<and> t = ddl_done s [TrimSpace raw]"
      by (auto simp: ex_reply Let_def ddl_step simp del: exec_effect.simps)
    then show ?thesis
    proof cases
      case ok
      from "2.IH"(2) [OF refl False ok] obtain d x rest where f: "faulty f"
        and split: "nonblank stmts = d @ x # rest"
        and t: "t = ddl_done (ddl_done s [TrimSpace raw]) d \<or>
          f = AnyFaults \<and> t = ddl_done (ddl_done s [TrimSpace raw]) (d @ [x])" by blast
      have "nonblank (raw # stmts) = (TrimSpace raw # d) @ x # rest" using False split by simp
      then show ?thesis using f t by (intro conjI exI) (assumption | simp)+
    next
      case fail
      have "nonblank (raw # stmts) = [] @ TrimSpace raw # nonblank stmts" using False by simp
      then show ?thesis using fail by (intro conjI exI) (assumption | simp)+
    qed
  qed
qed

text \<open>
  A schema that applies without error has executed exactly its statements, in order; one that
  fails has executed a proper prefix of them (and, when the failure is a timeout, perhaps the
  next).
\<close>

lemma ApplySchema_ok:
  "sem f (ApplySchema src) s None t \<Longrightarrow> t = ddl_done s (schema_statements src)"
  using ApplySchema_from_None [of f 0 "splitStatements src" s t]
  by (simp add: ApplySchema_def schema_statements_def)

lemma ApplySchema_fails:
  "sem f (ApplySchema src) s (Some e) t \<Longrightarrow> faulty f \<and> (\<exists>done stmt rest.
     schema_statements src = done @ stmt # rest \<and>
     (t = ddl_done s done \<or> f = AnyFaults \<and> t = ddl_done s (done @ [stmt])))"
  using ApplySchema_from_Some [of f 0 "splitStatements src" s e t]
  by (simp add: ApplySchema_def schema_statements_def)

end
