(* ===== verification/Cidr.thy ===== *)
theory Cidr
  imports Pools
begin

text \<open>
  \<open>internal/provisioner/cidr.go\<close>: allocation of one /24 pod and one /24 service block per tenant.
  \<open>ParseCIDR\<close> is Go's \<open>net.ParseCIDR\<close> on IPv4 texts; the locale \<open>cidr_allocation_db\<close> is the
  contract of the \<open>CIDRAllocationDB\<close> interface, over any view \<open>owner\<close> of who holds a block, and
  the interpretation \<open>gocql\<close> discharges it for \<open>GocqlCIDRDB\<close> on \<open>cf.cidr_allocations\<close>.
\<close>

section \<open>Blocks\<close>

definition podSupernet :: string where "podSupernet = ''10.100.0.0/16''"
definition svcSupernet :: string where "svcSupernet = ''10.200.0.0/16''"
definition maxTenants :: nat where "maxTenants = 254"

definition pod_block :: "nat \<Rightarrow> string" where
  "pod_block i = ''10.100.'' @ Itoa i @ ''.0/24''"

definition svc_block :: "nat \<Rightarrow> string" where
  "svc_block i = ''10.200.'' @ Itoa i @ ''.0/24''"

record IPNet =
  IPNet_IP :: "32 word"
  IPNet_ones :: nat

definition digit_val :: "char \<Rightarrow> nat" where
  "digit_val c = of_char c - 48"

definition is_digit :: "char \<Rightarrow> bool" where
  "is_digit c \<longleftrightarrow> 48 \<le> (of_char c :: nat) \<and> (of_char c :: nat) \<le> 57"

definition dec :: "string \<Rightarrow> nat" where
  "dec s = foldl (\<lambda>n c. 10 * n + digit_val c) 0 s"

text \<open>A decimal field of a dotted quad: no leading zero, at most 255.\<close>

definition parse_octet :: "string \<Rightarrow> nat option" where
  "parse_octet s =
     (if s \<noteq> [] \<and> list_all is_digit s \<and> (length s = 1 \<or> hd s \<noteq> CHR ''0'') \<and> length s \<le> 3 \<and> dec s \<le> 255
      then Some (dec s) else None)"

definition parse_mask :: "string \<Rightarrow> nat option" where
  "parse_mask s = (if s \<noteq> [] \<and> list_all is_digit s \<and> dec s \<le> 32 then Some (dec s) else None)"

fun parse_quad :: "string list \<Rightarrow> 32 word option" where
  "parse_quad [a, b, c, d] =
     (case (parse_octet a, parse_octet b, parse_octet c, parse_octet d) of
        (Some a, Some b, Some c, Some d) \<Rightarrow>
          Some (of_nat (((a * 256 + b) * 256 + c) * 256 + d))
      | _ \<Rightarrow> None)"
| "parse_quad _ = None"

text \<open>The address and the network of a CIDR text; the network address has the host bits cleared.\<close>

definition host_mask :: "nat \<Rightarrow> 32 word \<Rightarrow> 32 word" where
  "host_mask n a = push_bit (32 - n) (drop_bit (32 - n) a)"

definition ParseCIDR :: "string \<Rightarrow> gerror + 32 word \<times> IPNet" where
  "ParseCIDR s =
     (let bad = Inl (Ext (LibError (''invalid CIDR address: '' @ s))) in
      case Split s (CHR ''/'') of
        [addr, ones] \<Rightarrow>
          (case (parse_quad (Split addr (CHR ''.'')), parse_mask ones) of
             (Some ip, Some n) \<Rightarrow> Inr (ip, \<lparr>IPNet_IP = host_mask n ip, IPNet_ones = n\<rparr>)
           | _ \<Rightarrow> bad)
      | _ \<Rightarrow> bad)"

definition parsedSupernets :: "gerror + IPNet \<times> IPNet" where
  "parsedSupernets =
     (case ParseCIDR podSupernet of
        Inl e \<Rightarrow> Inl e
      | Inr (_, pod) \<Rightarrow>
          (case ParseCIDR svcSupernet of Inl e \<Rightarrow> Inl e | Inr (_, svc) \<Rightarrow> Inr (pod, svc)))"

text \<open>Whether an address is in a network.\<close>

definition in_net :: "IPNet \<Rightarrow> 32 word \<Rightarrow> bool" where
  "in_net n a \<longleftrightarrow> host_mask (IPNet_ones n) a = IPNet_IP n"

lemma dec_snoc [simp]: "dec (s @ [c]) = 10 * dec s + digit_val c"
  by (simp add: dec_def)

lemma dec_Itoa [simp]: "dec (Itoa n) = n"
proof (induction n rule: Itoa.induct)
  case (1 n)
  show ?case
  proof (cases "n < 10")
    case True
    then show ?thesis by (simp add: Itoa_small dec_def digit_val_def)
  next
    case False
    with 1 show ?thesis by (simp add: Itoa_large digit_val_def)
  qed
qed

lemma Itoa_is_digit: "list_all is_digit (Itoa n)"
  unfolding list_all_iff
proof
  fix c assume "c \<in> set (Itoa n)"
  then obtain d where "d < 10" "c = digit_char d" using Itoa_digits by blast
  then show "is_digit c" by (simp add: is_digit_def)
qed

lemma Itoa_length: "n < 1000 \<Longrightarrow> length (Itoa n) \<le> 3"
proof -
  assume n: "n < 1000"
  consider "n < 10" | "\<not> n < 10" "n div 10 < 10" | "\<not> n < 10" "\<not> n div 10 < 10" "n div 10 div 10 < 10"
    using n by linarith
  then show ?thesis by cases (simp_all add: Itoa_small Itoa_large)
qed

lemma digit_char_eqs: "digit_char 0 = CHR ''0''" "digit_char 1 = CHR ''1''" "digit_char 2 = CHR ''2''"
  by code_simp+

lemma Itoa_hd: "length (Itoa n) = 1 \<or> hd (Itoa n) \<noteq> CHR ''0''"
proof (induction n rule: Itoa.induct)
  case (1 n)
  show ?case
  proof (cases "n < 10")
    case True
    then show ?thesis by (simp add: Itoa_small)
  next
    case False
    have "hd (Itoa (n div 10)) \<noteq> CHR ''0''"
    proof (cases "n div 10 < 10")
      case True
      have "digit_char (n div 10) \<noteq> digit_char 0"
        using False True digit_char_inj [of "n div 10" 0] by simp
      then show ?thesis using True by (simp add: Itoa_small digit_char_eqs)
    next
      case f: False
      then have "length (Itoa (n div 10)) \<noteq> 1" by (simp add: Itoa_large)
      with 1 [OF False] show ?thesis by blast
    qed
    then show ?thesis using False by (simp add: Itoa_large)
  qed
qed

lemma parse_octet_Itoa [simp]: "n \<le> 255 \<Longrightarrow> parse_octet (Itoa n) = Some n"
  using Itoa_is_digit Itoa_hd Itoa_length [of n] by (auto simp: parse_octet_def)

lemma Itoa_no_sep: "CHR ''.'' \<notin> set (Itoa n)" "CHR ''/'' \<notin> set (Itoa n)"
  using Itoa_is_digit [of n] by (auto simp: list_all_iff is_digit_def)

lemma octet_consts:
  "parse_octet ''10'' = Some 10" "parse_octet ''100'' = Some 100" "parse_octet ''200'' = Some 200"
  "parse_octet ''0'' = Some 0" "parse_mask ''24'' = Some 24"
  by (simp_all add: parse_octet_def parse_mask_def is_digit_def dec_def digit_val_def)

text \<open>Every candidate block is a well-formed CIDR, so the defensive checks never fail.\<close>

definition block_ip :: "nat \<Rightarrow> nat \<Rightarrow> 32 word" where
  "block_ip b i = of_nat (((10 * 256 + b) * 256 + i) * 256)"

lemma block_parse:
  assumes "i \<le> 255" and "b \<in> {100, 200}"
  shows "ParseCIDR (''10.'' @ Itoa b @ ''.'' @ Itoa i @ ''.0/24'') =
    Inr (block_ip b i, \<lparr>IPNet_IP = host_mask 24 (block_ip b i), IPNet_ones = 24\<rparr>)"
proof -
  have "b \<le> 255" using assms by auto
  have "Split (''10.'' @ Itoa b @ ''.'' @ Itoa i @ ''.0/24'') (CHR ''/'') =
      [''10.'' @ Itoa b @ ''.'' @ Itoa i @ ''.0'', ''24'']"
    using Split_append [of "CHR ''/''" "''10.'' @ Itoa b @ ''.'' @ Itoa i @ ''.0''" "''24''"]
    by (simp add: Itoa_no_sep)
  moreover have "Split (''10.'' @ Itoa b @ ''.'' @ Itoa i @ ''.0'') (CHR ''.'') = [''10'', Itoa b, Itoa i, ''0'']"
    using Split_append [of "CHR ''.''" "''10''"] Split_append [of "CHR ''.''" "Itoa b"]
      Split_append [of "CHR ''.''" "Itoa i"] by (simp add: Itoa_no_sep)
  ultimately show ?thesis
    using \<open>b \<le> 255\<close> assms(1) by (simp add: ParseCIDR_def Let_def octet_consts block_ip_def)
qed

lemma Itoa_100: "Itoa 100 = ''100''" "Itoa 200 = ''200''"
  by (simp_all add: Itoa_small Itoa_large digit_char_eqs [simplified])

lemma pod_block_parse:
  "i \<le> 255 \<Longrightarrow> ParseCIDR (pod_block i) =
     Inr (block_ip 100 i, \<lparr>IPNet_IP = host_mask 24 (block_ip 100 i), IPNet_ones = 24\<rparr>)"
  using block_parse [of i 100] by (simp add: pod_block_def Itoa_100)

lemma svc_block_parse:
  "i \<le> 255 \<Longrightarrow> ParseCIDR (svc_block i) =
     Inr (block_ip 200 i, \<lparr>IPNet_IP = host_mask 24 (block_ip 200 i), IPNet_ones = 24\<rparr>)"
  using block_parse [of i 200] by (simp add: svc_block_def Itoa_100)

lemma block_inject [simp]:
  "pod_block i = pod_block j \<longleftrightarrow> i = j" "svc_block i = svc_block j \<longleftrightarrow> i = j"
  "pod_block i \<noteq> svc_block j" "svc_block j \<noteq> pod_block i"
  by (simp_all add: pod_block_def svc_block_def)

text \<open>Networks as ranges of addresses.\<close>

lemma unat_host_mask: "unat (host_mask n a) = unat a div 2 ^ (32 - n) * 2 ^ (32 - n)"
proof -
  have lt: "unat a < 2 ^ 32" using unsigned_less [of a] by simp
  have "unat a div 2 ^ (32 - n) * 2 ^ (32 - n) \<le> unat a" by simp
  also note lt
  finally have bound: "unat a div 2 ^ (32 - n) * 2 ^ (32 - n) < 2 ^ 32" .
  have "unat (host_mask n a) = take_bit 32 (push_bit (32 - n) (drop_bit (32 - n) (unat a)))"
    using take_bit_nat_eq_self [of "unat a" 32] lt
    unfolding host_mask_def unsigned_push_bit_eq unsigned_drop_bit_eq by simp
  also have "\<dots> = take_bit 32 (unat a div 2 ^ (32 - n) * 2 ^ (32 - n))"
    by (simp only: push_bit_eq_mult drop_bit_eq_div)
  finally show ?thesis using bound by (simp only: take_bit_nat_eq_self)
qed

lemma host_mask_eq_iff: "host_mask n a = host_mask n b \<longleftrightarrow> unat a div 2 ^ (32 - n) = unat b div 2 ^ (32 - n)"
  by (simp add: word_unat_eq_iff unat_host_mask)

lemma unat_of_small: "n < 2 ^ 32 \<Longrightarrow> unat (of_nat n :: 32 word) = n"
  by (simp add: unsigned_of_nat take_bit_nat_eq_self)

lemma unat_block_ip: "b < 256 \<Longrightarrow> i < 256 \<Longrightarrow> unat (block_ip b i) = ((10 * 256 + b) * 256 + i) * 256"
proof -
  assume "b < 256" "i < 256"
  then have "((10 * 256 + b) * 256 + i) * 256 < (2::nat) ^ 32" by simp
  then show ?thesis unfolding block_ip_def by (rule unat_of_small)
qed

definition block_net :: "nat \<Rightarrow> nat \<Rightarrow> IPNet" where
  "block_net b i = \<lparr>IPNet_IP = host_mask 24 (block_ip b i), IPNet_ones = 24\<rparr>"

lemma in_block_net:
  "b < 256 \<Longrightarrow> i < 256 \<Longrightarrow> in_net (block_net b i) a \<longleftrightarrow> unat a div 256 = (10 * 256 + b) * 256 + i"
  by (simp add: in_net_def block_net_def host_mask_eq_iff unat_block_ip mult.commute)

definition super_net :: "nat \<Rightarrow> IPNet" where
  "super_net b = \<lparr>IPNet_IP = host_mask 16 (block_ip b 0), IPNet_ones = 16\<rparr>"

lemma in_super_net: "b < 256 \<Longrightarrow> in_net (super_net b) a \<longleftrightarrow> unat a div 256 div 256 = 10 * 256 + b"
  by (simp add: in_net_def super_net_def host_mask_eq_iff unat_block_ip div_mult2_eq [symmetric])

lemma parsedSupernets_eq: "parsedSupernets = Inr (super_net 100, super_net 200)"
proof -
  have "ParseCIDR podSupernet = Inr (block_ip 100 0, super_net 100)"
    "ParseCIDR svcSupernet = Inr (block_ip 200 0, super_net 200)"
    by (simp_all add: ParseCIDR_def podSupernet_def svcSupernet_def Let_def octet_consts parse_mask_def
        is_digit_def dec_def digit_val_def block_ip_def super_net_def)
  then show ?thesis by (simp add: parsedSupernets_def)
qed

lemma block_in_supernet:
  assumes "b < 256" and "i < 256" and "in_net (block_net b i) a"
  shows "in_net (super_net b) a"
proof -
  have "unat a div 256 = (10 * 256 + b) * 256 + i" using assms by (simp add: in_block_net)
  then have "unat a div 256 div 256 = 10 * 256 + b" using assms(2) by simp
  then show ?thesis using assms(1) by (simp add: in_super_net)
qed

lemma blocks_disjoint:
  assumes "b < 256" "c < 256" "i < 256" "j < 256" and "in_net (block_net b i) a" "in_net (block_net c j) a"
  shows "b = c \<and> i = j"
proof -
  have eq: "(10 * 256 + b) * 256 + i = (10 * 256 + c) * 256 + j"
    using assms(5,6) unfolding in_block_net [OF assms(1,3)] in_block_net [OF assms(2,4)] by simp
  have "((10 * 256 + b) * 256 + i) mod 256 = i" "((10 * 256 + c) * 256 + j) mod 256 = j"
    using assms(3,4) by (simp_all only: mod_mult_self3 mod_less)
  then have "i = j" using eq by metis
  then show ?thesis using eq by simp
qed

section \<open>The allocator\<close>

definition CIDRTypePod :: string where "CIDRTypePod = ''POD''"
definition CIDRTypeService :: string where "CIDRTypeService = ''SERVICE''"

record CIDRPair =
  Pair_PodCIDR :: string
  Pair_SvcCIDR :: string

record CIDRAllocationDB =
  TryAllocate :: "string \<Rightarrow> uuid \<Rightarrow> string \<Rightarrow> time \<Rightarrow> (gerror + bool) prog"
  Release :: "string \<Rightarrow> gerror option prog"

definition GocqlCIDRDB_TryAllocate :: "string \<Rightarrow> uuid \<Rightarrow> string \<Rightarrow> time \<Rightarrow> (gerror + bool) prog" where
  "GocqlCIDRDB_TryAllocate cidr tenantID cidrType now =
     attempt (Cas (InsertCIDR cidr \<lparr>ccol_tenant_id = tenantID, ccol_cidr_type = cidrType,
                ccol_allocated_at = cql_timestamp now\<rparr>) Ret)
       (\<lambda>e. Ret (Inl (Errorf (''provisioner: cidr LWT for '' @ cidr @ '': '') e)))
       (\<lambda>(applied, _). Ret (Inr applied))"

definition GocqlCIDRDB_Release :: "string \<Rightarrow> gerror option prog" where
  "GocqlCIDRDB_Release cidr = Exec (DeleteCIDR cidr) Ret"

definition NewGocqlCIDRDB :: CIDRAllocationDB where
  "NewGocqlCIDRDB = \<lparr>TryAllocate = GocqlCIDRDB_TryAllocate, Release = GocqlCIDRDB_Release\<rparr>"

definition ReleaseCIDR :: "CIDRAllocationDB \<Rightarrow> string \<Rightarrow> gerror option prog" where
  "ReleaseCIDR D cidr =
     check (Release D cidr)
       (\<lambda>e. Ret (Some (Errorf (''provisioner: release CIDR '' @ cidr @ '': '') e)))
       (Ret None)"

definition ReleaseTenantCIDRs :: "CIDRAllocationDB \<Rightarrow> string \<Rightarrow> string \<Rightarrow> gerror option prog" where
  "ReleaseTenantCIDRs D podCIDR svcCIDR =
     bind (ReleaseCIDR D podCIDR) (\<lambda>e1. bind (ReleaseCIDR D svcCIDR) (\<lambda>e2.
       let errs = (case e1 of Some e \<Rightarrow> [e] | None \<Rightarrow> []) @ (case e2 of Some e \<Rightarrow> [e] | None \<Rightarrow> []) in
       if length errs > 0
       then Ret (Some (Text (''provisioner: release CIDRs: '' @ fmt_strings (map Error_String errs))))
       else Ret None))"

text \<open>The scan from index \<open>i\<close>; the loop variable of the code runs from 1 to \<open>maxTenants\<close>.\<close>

function AllocateCIDRs_from :: "CIDRAllocationDB \<Rightarrow> uuid \<Rightarrow> nat \<Rightarrow> (gerror + CIDRPair) prog" where
  "AllocateCIDRs_from D tenantID i =
     (if i \<le> maxTenants then
        let podCIDR = pod_block i; svcCIDR = svc_block i in
        case ParseCIDR podCIDR of
          Inl e \<Rightarrow> Ret (Inl (Errorf (''provisioner: invalid pod CIDR '' @ podCIDR @ '': '') e))
        | Inr _ \<Rightarrow>
        (case ParseCIDR svcCIDR of
          Inl e \<Rightarrow> Ret (Inl (Errorf (''provisioner: invalid svc CIDR '' @ svcCIDR @ '': '') e))
        | Inr _ \<Rightarrow>
          Now (\<lambda>now.
            attempt (TryAllocate D podCIDR tenantID CIDRTypePod now)
              (\<lambda>e. Ret (Inl (Errorf (''provisioner: allocate pod CIDR '' @ podCIDR @ '': '') e)))
              (\<lambda>podApplied.
                if \<not> podApplied then AllocateCIDRs_from D tenantID (i + 1)
                else
                  attempt (TryAllocate D svcCIDR tenantID CIDRTypeService now)
                    (\<lambda>e. bind (ReleaseCIDR D podCIDR) (\<lambda>_.
                       Ret (Inl (Errorf (''provisioner: allocate svc CIDR '' @ svcCIDR @ '': '') e))))
                    (\<lambda>svcApplied.
                      if \<not> svcApplied
                      then bind (ReleaseCIDR D podCIDR) (\<lambda>_. AllocateCIDRs_from D tenantID (i + 1))
                      else Ret (Inr \<lparr>Pair_PodCIDR = podCIDR, Pair_SvcCIDR = svcCIDR\<rparr>)))))
      else Ret (Inl (Sentinel provisioner_ErrCIDRExhausted)))"
  by pat_completeness auto
termination by (relation "measure (\<lambda>(D, tid, i). Suc maxTenants - i)") auto

declare AllocateCIDRs_from.simps [simp del]

definition AllocateCIDRs :: "CIDRAllocationDB \<Rightarrow> uuid \<Rightarrow> (gerror + CIDRPair) prog" where
  "AllocateCIDRs D tenantID = AllocateCIDRs_from D tenantID 1"

text \<open>The defensive checks pass, so the scan is this.\<close>

lemma AllocateCIDRs_step:
  "i \<le> maxTenants \<Longrightarrow> AllocateCIDRs_from D tenantID i =
     Now (\<lambda>now.
       attempt (TryAllocate D (pod_block i) tenantID CIDRTypePod now)
         (\<lambda>e. Ret (Inl (Errorf (''provisioner: allocate pod CIDR '' @ pod_block i @ '': '') e)))
         (\<lambda>podApplied.
           if \<not> podApplied then AllocateCIDRs_from D tenantID (i + 1)
           else
             attempt (TryAllocate D (svc_block i) tenantID CIDRTypeService now)
               (\<lambda>e. bind (ReleaseCIDR D (pod_block i)) (\<lambda>_.
                  Ret (Inl (Errorf (''provisioner: allocate svc CIDR '' @ svc_block i @ '': '') e))))
               (\<lambda>svcApplied.
                 if \<not> svcApplied
                 then bind (ReleaseCIDR D (pod_block i)) (\<lambda>_. AllocateCIDRs_from D tenantID (i + 1))
                 else Ret (Inr \<lparr>Pair_PodCIDR = pod_block i, Pair_SvcCIDR = svc_block i\<rparr>))))"
  by (subst AllocateCIDRs_from.simps) (simp add: pod_block_parse svc_block_parse maxTenants_def Let_def)

lemma AllocateCIDRs_end:
  "\<not> i \<le> maxTenants \<Longrightarrow> AllocateCIDRs_from D tenantID i = Ret (Inl (Sentinel provisioner_ErrCIDRExhausted))"
  by (subst AllocateCIDRs_from.simps) simp

text \<open>The five ways one index of the scan goes.\<close>

lemma scan_cases:
  assumes "sem f (AllocateCIDRs_from D tid i) s r t" and "i \<le> maxTenants"
  obtains
    (pod_error) now e where "sem f (TryAllocate D (pod_block i) tid CIDRTypePod now) s (Inl e) t"
      "r = Inl (Errorf (''provisioner: allocate pod CIDR '' @ pod_block i @ '': '') e)"
  | (pod_taken) now u where "sem f (TryAllocate D (pod_block i) tid CIDRTypePod now) s (Inr False) u"
      "sem f (AllocateCIDRs_from D tid (Suc i)) u r t"
  | (svc_error) now u e v x where "sem f (TryAllocate D (pod_block i) tid CIDRTypePod now) s (Inr True) u"
      "sem f (TryAllocate D (svc_block i) tid CIDRTypeService now) u (Inl e) v"
      "sem f (ReleaseCIDR D (pod_block i)) v x t"
      "r = Inl (Errorf (''provisioner: allocate svc CIDR '' @ svc_block i @ '': '') e)"
  | (svc_taken) now u v x w where "sem f (TryAllocate D (pod_block i) tid CIDRTypePod now) s (Inr True) u"
      "sem f (TryAllocate D (svc_block i) tid CIDRTypeService now) u (Inr False) v"
      "sem f (ReleaseCIDR D (pod_block i)) v x w" "sem f (AllocateCIDRs_from D tid (Suc i)) w r t"
  | (taken) now u where "sem f (TryAllocate D (pod_block i) tid CIDRTypePod now) s (Inr True) u"
      "sem f (TryAllocate D (svc_block i) tid CIDRTypeService now) u (Inr True) t"
      "r = Inr \<lparr>Pair_PodCIDR = pod_block i, Pair_SvcCIDR = svc_block i\<rparr>"
proof -
  from assms(1) obtain now b u where pod: "sem f (TryAllocate D (pod_block i) tid CIDRTypePod now) s b u"
    and rest: "sem f (case b of
        Inl e \<Rightarrow> Ret (Inl (Errorf (''provisioner: allocate pod CIDR '' @ pod_block i @ '': '') e))
      | Inr podApplied \<Rightarrow>
          if \<not> podApplied then AllocateCIDRs_from D tid (i + 1)
          else
            attempt (TryAllocate D (svc_block i) tid CIDRTypeService now)
              (\<lambda>e. bind (ReleaseCIDR D (pod_block i)) (\<lambda>_.
                 Ret (Inl (Errorf (''provisioner: allocate svc CIDR '' @ svc_block i @ '': '') e))))
              (\<lambda>svcApplied.
                if \<not> svcApplied
                then bind (ReleaseCIDR D (pod_block i)) (\<lambda>_. AllocateCIDRs_from D tid (i + 1))
                else Ret (Inr \<lparr>Pair_PodCIDR = pod_block i, Pair_SvcCIDR = svc_block i\<rparr>))) u r t"
    unfolding AllocateCIDRs_step [OF assms(2)] sem_calls sem_bind by blast
  consider e where "b = Inl e" | "b = Inr False" | "b = Inr True" by (cases b) auto
  then show thesis
  proof cases
    case 1
    then show ?thesis using pod rest pod_error by simp
  next
    case 2
    then show ?thesis using pod rest pod_taken by simp
  next
    case 3
    with rest obtain b' v where svc: "sem f (TryAllocate D (svc_block i) tid CIDRTypeService now) u b' v"
      and rest': "sem f (case b' of
          Inl e \<Rightarrow> bind (ReleaseCIDR D (pod_block i)) (\<lambda>_.
            Ret (Inl (Errorf (''provisioner: allocate svc CIDR '' @ svc_block i @ '': '') e)))
        | Inr svcApplied \<Rightarrow>
            if \<not> svcApplied
            then bind (ReleaseCIDR D (pod_block i)) (\<lambda>_. AllocateCIDRs_from D tid (i + 1))
            else Ret (Inr \<lparr>Pair_PodCIDR = pod_block i, Pair_SvcCIDR = svc_block i\<rparr>)) v r t"
      unfolding 3 by (simp only: sum.case not_True_eq_False if_False sem_bind) blast
    consider e where "b' = Inl e" | "b' = Inr False" | "b' = Inr True" by (cases b') auto
    then show ?thesis
    proof cases
      case 1
      then show ?thesis using pod svc rest' 3 svc_error by auto
    next
      case 2
      then show ?thesis using pod svc rest' 3 svc_taken by auto
    next
      case f3: 3
      then show ?thesis using pod svc rest' 3 taken by auto
    qed
  qed
qed

section \<open>The contract of the allocation table\<close>

text \<open>
  \<open>owner\<close> is who holds each block. A failed call changes nothing, unless it timed out and was
  applied after all.
\<close>

locale cidr_allocation_db =
  fixes D :: CIDRAllocationDB and owner :: "sys \<Rightarrow> string \<rightharpoonup> uuid"
  assumes try_ok: "sem f (TryAllocate D c tid ty now) s (Inr b) t \<Longrightarrow>
      (b \<longleftrightarrow> owner s c = None) \<and> owner t = (if b then (owner s)(c \<mapsto> tid) else owner s)"
    and try_err: "sem f (TryAllocate D c tid ty now) s (Inl e) t \<Longrightarrow> faulty f \<and>
      (owner t = owner s \<or> f = AnyFaults \<and> owner s c = None \<and> owner t = (owner s)(c \<mapsto> tid))"
    and release_ok: "sem f (Release D c) s None t \<Longrightarrow> owner t = (owner s)(c := None)"
    and release_err: "sem f (Release D c) s (Some e) t \<Longrightarrow> faulty f \<and>
      (owner t = owner s \<or> f = AnyFaults \<and> owner t = (owner s)(c := None))"
begin

definition free_index :: "sys \<Rightarrow> nat \<Rightarrow> bool" where
  "free_index s i \<longleftrightarrow> owner s (pod_block i) = None \<and> owner s (svc_block i) = None"

lemma ReleaseCIDR_ok: "sem f (ReleaseCIDR D c) s None t \<Longrightarrow> owner t = (owner s)(c := None)"
  by (auto simp: ReleaseCIDR_def ex_reply dest: release_ok)

lemma ReleaseCIDR_nofault:
  "sem NoFaults (ReleaseCIDR D c) s r t \<Longrightarrow> r = None \<and> owner t = (owner s)(c := None)"
  by (auto simp: ReleaseCIDR_def ex_reply dest: release_ok release_err)

text \<open>Without faults the scan takes the lowest free index, and otherwise changes nothing.\<close>

definition allocated :: "sys \<Rightarrow> uuid \<Rightarrow> nat \<Rightarrow> gerror + CIDRPair \<Rightarrow> sys \<Rightarrow> bool" where
  "allocated s tid i r t \<longleftrightarrow>
     (\<exists>k. i \<le> k \<and> k \<le> maxTenants \<and> free_index s k \<and> (\<forall>j. i \<le> j \<longrightarrow> j < k \<longrightarrow> \<not> free_index s j) \<and>
        r = Inr \<lparr>Pair_PodCIDR = pod_block k, Pair_SvcCIDR = svc_block k\<rparr> \<and>
        owner t = (owner s)(pod_block k \<mapsto> tid, svc_block k \<mapsto> tid)) \<or>
     ((\<forall>j. i \<le> j \<longrightarrow> j \<le> maxTenants \<longrightarrow> \<not> free_index s j) \<and>
        r = Inl (Sentinel provisioner_ErrCIDRExhausted) \<and> owner t = owner s)"

lemma allocated_skip:
  assumes "allocated u tid (Suc i) r t" and "owner u = owner s" and "\<not> free_index s i" and "i \<le> maxTenants"
  shows "allocated s tid i r t"
proof -
  have same: "free_index u j = free_index s j" for j using assms(2) by (simp add: free_index_def)
  have below: "i \<le> j \<Longrightarrow> j = i \<or> Suc i \<le> j" for j by auto
  from assms(1) consider (won) k where "Suc i \<le> k" "k \<le> maxTenants" "free_index s k"
      "\<forall>j. Suc i \<le> j \<longrightarrow> j < k \<longrightarrow> \<not> free_index s j"
      "r = Inr \<lparr>Pair_PodCIDR = pod_block k, Pair_SvcCIDR = svc_block k\<rparr>"
      "owner t = (owner s)(pod_block k \<mapsto> tid, svc_block k \<mapsto> tid)"
    | (none) "\<forall>j. Suc i \<le> j \<longrightarrow> j \<le> maxTenants \<longrightarrow> \<not> free_index s j"
      "r = Inl (Sentinel provisioner_ErrCIDRExhausted)" "owner t = owner s"
    unfolding allocated_def same assms(2) by blast
  then show ?thesis
  proof cases
    case (won k)
    then have "\<forall>j. i \<le> j \<longrightarrow> j < k \<longrightarrow> \<not> free_index s j" using assms(3) below by blast
    then show ?thesis using won unfolding allocated_def by (intro disjI1 exI [of _ k]) simp
  next
    case none
    then show ?thesis using assms(3) below unfolding allocated_def by blast
  qed
qed

lemma Allocate_nofault:
  "sem NoFaults (AllocateCIDRs_from D tid i) s r t \<Longrightarrow> allocated s tid i r t"
proof (induction "Suc maxTenants - i" arbitrary: i s)
  case 0
  then show ?case by (auto simp: AllocateCIDRs_end allocated_def)
next
  case (Suc n)
  then have i: "i \<le> maxTenants" and n: "n = Suc maxTenants - Suc i" by auto
  from Suc.prems i show ?case
  proof (cases rule: scan_cases)
    case (pod_error now e)
    then show ?thesis using try_err by fastforce
  next
    case (pod_taken now u)
    then show ?thesis using try_ok [OF pod_taken(1)] allocated_skip [OF Suc.hyps(1) [OF n pod_taken(2)]] i
      by (simp add: free_index_def)
  next
    case (svc_error now u e v x)
    then show ?thesis using try_err by fastforce
  next
    case (svc_taken now u v x w)
    note pod = try_ok [OF svc_taken(1)] and svc = try_ok [OF svc_taken(2)]
    have "owner w = owner s" using ReleaseCIDR_nofault [OF svc_taken(3)] pod svc by (auto simp: fun_eq_iff)
    moreover have "\<not> free_index s i" using pod svc by (auto simp: free_index_def)
    ultimately show ?thesis using allocated_skip [OF Suc.hyps(1) [OF n svc_taken(4)]] i by simp
  next
    case (taken now u)
    then show ?thesis using try_ok [OF taken(1)] try_ok [OF taken(2)] i
      unfolding allocated_def by (intro disjI1 exI [of _ i]) (auto simp: free_index_def)
  qed
qed

text \<open>Whatever fails cleanly, the allocator never takes or frees a block of another tenant.\<close>

definition keeps :: "uuid \<Rightarrow> sys \<Rightarrow> sys \<Rightarrow> bool" where
  "keeps tid s t \<longleftrightarrow> (\<forall>c o'. o' \<noteq> tid \<longrightarrow> owner s c = Some o' \<longrightarrow> owner t c = Some o')"

lemma keeps_trans [trans]: "keeps tid s t \<Longrightarrow> keeps tid t u \<Longrightarrow> keeps tid s u"
  by (simp add: keeps_def)

lemma keeps_Try:
  "f \<noteq> AnyFaults \<Longrightarrow> sem f (TryAllocate D c tid ty now) s b t \<Longrightarrow> keeps tid s t"
  by (cases b) (auto simp: keeps_def dest!: try_ok try_err split: if_splits)

lemma keeps_Release:
  assumes "f \<noteq> AnyFaults" and "sem f (ReleaseCIDR D c) s r t" and "\<And>o'. owner s c = Some o' \<Longrightarrow> o' = tid"
  shows "keeps tid s t"
  using assms by (auto simp: keeps_def ReleaseCIDR_def ex_reply dest!: release_ok release_err)

lemma Try_owner:
  assumes "f \<noteq> AnyFaults" and "owner s c = Some tid" and "sem f (TryAllocate D c' tid' ty now) s b t"
  shows "owner t c = Some tid"
  using assms by (cases b) (auto dest!: try_ok try_err split: if_splits)

lemma Allocate_foreign:
  assumes f: "f \<noteq> AnyFaults"
  shows "sem f (AllocateCIDRs_from D tid i) s r t \<Longrightarrow> keeps tid s t"
proof (induction "Suc maxTenants - i" arbitrary: i s)
  case 0
  then show ?case by (auto simp: AllocateCIDRs_end keeps_def)
next
  case (Suc n)
  then have i: "i \<le> maxTenants" and n: "n = Suc maxTenants - Suc i" by auto
  note Try = keeps_Try [OF f]
  have rel: "keeps tid v w"
    if "sem f (TryAllocate D (pod_block i) tid CIDRTypePod now) s (Inr True) u"
      "sem f (TryAllocate D (svc_block i) tid CIDRTypeService now) u b v"
      "sem f (ReleaseCIDR D (pod_block i)) v x w" for now u b v x w
  proof (rule keeps_Release [OF f that(3)])
    have "owner v (pod_block i) = Some tid"
      using try_ok [OF that(1)] Try_owner [OF f _ that(2)] by simp
    then show "o' = tid" if "owner v (pod_block i) = Some o'" for o' using that by simp
  qed
  from Suc.prems i show ?case
  proof (cases rule: scan_cases)
    case (pod_error now e)
    then show ?thesis using Try by blast
  next
    case (pod_taken now u)
    then show ?thesis using Try Suc.hyps(1) [OF n] keeps_trans by blast
  next
    case (svc_error now u e v x)
    then show ?thesis using Try rel keeps_trans by metis
  next
    case (svc_taken now u v x w)
    then show ?thesis using Try rel Suc.hyps(1) [OF n] keeps_trans by metis
  next
    case (taken now u)
    then show ?thesis using Try keeps_trans by blast
  qed
qed

end

text \<open>The table behind the interface.\<close>

definition cidr_owner :: "sys \<Rightarrow> string \<rightharpoonup> uuid" where
  "cidr_owner s c = map_option ccol_tenant_id (cidr_allocations (db s) c)"

lemma owner_insert [simp]:
  "cidr_owner (s\<lparr>db := (db s)\<lparr>cidr_allocations := (cidr_allocations (db s))(c \<mapsto> r)\<rparr>\<rparr>) =
     (cidr_owner s)(c \<mapsto> ccol_tenant_id r)"
  "cidr_owner (s\<lparr>db := (db s)\<lparr>cidr_allocations := (cidr_allocations (db s))(c := None)\<rparr>\<rparr>) =
     (cidr_owner s)(c := None)"
  by (auto simp: cidr_owner_def fun_eq_iff)

interpretation gocql_cidrs: cidr_allocation_db NewGocqlCIDRDB cidr_owner
proof
  fix f c tid ty now s b t
  assume "sem f (TryAllocate NewGocqlCIDRDB c tid ty now) s (Inr b) t"
  then show "(b \<longleftrightarrow> cidr_owner s c = None) \<and> cidr_owner t = (if b then (cidr_owner s)(c \<mapsto> tid) else cidr_owner s)"
    by (cases "cidr_allocations (db s) c")
       (auto simp: NewGocqlCIDRDB_def GocqlCIDRDB_TryAllocate_def ex_reply cidr_owner_def fun_eq_iff)
next
  fix f c tid ty now s e t
  assume "sem f (TryAllocate NewGocqlCIDRDB c tid ty now) s (Inl e) t"
  then show "faulty f \<and> (cidr_owner t = cidr_owner s \<or>
      f = AnyFaults \<and> cidr_owner s c = None \<and> cidr_owner t = (cidr_owner s)(c \<mapsto> tid))"
    by (cases "cidr_allocations (db s) c")
       (auto simp: NewGocqlCIDRDB_def GocqlCIDRDB_TryAllocate_def ex_reply cidr_owner_def fun_eq_iff)
next
  fix f c s t
  assume "sem f (Release NewGocqlCIDRDB c) s None t"
  then show "cidr_owner t = (cidr_owner s)(c := None)"
    by (simp add: NewGocqlCIDRDB_def GocqlCIDRDB_Release_def)
next
  fix f c s e t
  assume "sem f (Release NewGocqlCIDRDB c) s (Some e) t"
  then show "faulty f \<and> (cidr_owner t = cidr_owner s \<or> f = AnyFaults \<and> cidr_owner t = (cidr_owner s)(c := None))"
    by (auto simp: NewGocqlCIDRDB_def GocqlCIDRDB_Release_def)
qed

section \<open>Concurrent allocators\<close>

text \<open>
  Thread \<open>i\<close> of the pool allocates for tenant \<open>ts ! i\<close>. The blocks of a tenant that only one
  thread works for stay its own.
\<close>

definition unique :: "uuid list \<Rightarrow> nat \<Rightarrow> bool" where
  "unique ts i \<longleftrightarrow> (\<forall>j<length ts. j \<noteq> i \<longrightarrow> ts ! j \<noteq> ts ! i)"

definition owns :: "uuid \<Rightarrow> string set \<Rightarrow> sys \<times> unit \<Rightarrow> bool" where
  "owns tid S y \<longleftrightarrow> (\<forall>c\<in>S. cidr_owner (fst y) c = Some tid)"

definition cidr_R :: "uuid list \<Rightarrow> nat \<Rightarrow> sys \<times> unit \<Rightarrow> sys \<times> unit \<Rightarrow> bool" where
  "cidr_R ts i y z \<longleftrightarrow> i < length ts \<longrightarrow> unique ts i \<longrightarrow> (\<forall>c. owns (ts ! i) {c} y \<longrightarrow> owns (ts ! i) {c} z)"

definition cidr_G :: "uuid list \<Rightarrow> nat \<Rightarrow> sys \<times> unit \<Rightarrow> sys \<times> unit \<Rightarrow> bool" where
  "cidr_G ts i y z \<longleftrightarrow> (\<forall>j. j \<noteq> i \<longrightarrow> cidr_R ts j y z)"

interpretation cidr_pool: rely_guarantee CleanFaults "\<lambda>_ _ _ g. g" "cidr_R ts" "cidr_G ts" "\<lambda>_. True" for ts
  by unfold_locales (auto simp: cidr_R_def cidr_G_def)

abbreviation cidr_rg ::
    "uuid list \<Rightarrow> nat \<Rightarrow> ('a \<Rightarrow> sys \<times> unit \<Rightarrow> bool) \<Rightarrow> 'a prog \<Rightarrow> sys \<times> unit \<Rightarrow> bool" where
  "cidr_rg ts \<equiv> rg CleanFaults (\<lambda>_ _ _ g. g) (cidr_R ts) (cidr_G ts)"

lemma owns_stable:
  "owns (ts ! i) S y \<Longrightarrow> cidr_R ts i y z \<Longrightarrow> i < length ts \<Longrightarrow> unique ts i \<Longrightarrow> owns (ts ! i) S z"
  by (auto simp: owns_def cidr_R_def)

lemma foreign_G:
  assumes "i < length ts" "unique ts i"
    and "\<And>c tid. tid \<noteq> ts ! i \<Longrightarrow> cidr_owner s c = Some tid \<Longrightarrow> cidr_owner s' c = Some tid"
  shows "cidr_G ts i (s, g) (s', g)"
  using assms by (auto simp: cidr_G_def cidr_R_def unique_def owns_def)

lemma owns_Ret:
  assumes "i < length ts" "unique ts i" "owns (ts ! i) S y" "\<And>z. owns (ts ! i) S z \<Longrightarrow> Q a z"
  shows "cidr_rg ts i Q (Ret a) y"
  using assms owns_stable by (auto simp: rg_Ret)

lemma rg_Try:
  assumes i: "i < length ts" "unique ts i" and own: "owns (ts ! i) S y"
  shows "cidr_rg ts i (\<lambda>b z. owns (ts ! i) (if b = Inr True then insert c S else S) z)
    (GocqlCIDRDB_TryAllocate c (ts ! i) ty now) y"
  unfolding GocqlCIDRDB_TryAllocate_def bind.simps
proof (rule cidr_pool.rg_call [where A = "owns (ts ! i) S"], goal_cases)
  case (4 s g p' s')
  let ?Q = "\<lambda>b z. owns (ts ! i) (if b = Inr True then insert c S else S) z"
  let ?row = "\<lparr>ccol_tenant_id = ts ! i, ccol_cidr_type = ty, ccol_allocated_at = cql_timestamp now\<rparr>"
  from 4(2) obtain r where r: "cas_reply CleanFaults (InsertCIDR c ?row) s r s'"
    and p': "p' = (case r of
        Inl e \<Rightarrow> Ret (Inl (Errorf (''provisioner: cidr LWT for '' @ c @ '': '') e))
      | Inr (applied, _) \<Rightarrow> Ret (Inr applied))"
    unfolding estep_Cas by auto
  show ?case
  proof (cases r)
    case (Inl e)
    have "s' = s" using r Inl by simp
    moreover have "cidr_rg ts i ?Q p' (s, g)" unfolding p' Inl sum.case
      by (rule owns_Ret [OF i 4(1)]) simp
    ultimately show ?thesis using cidr_pool.idle by simp
  next
    case (Inr b)
    then obtain applied x where b: "b = (applied, x)" by (cases b)
    have s': "s' = s\<lparr>db := cas_effect (InsertCIDR c ?row) (db s)\<rparr>"
      and a: "applied \<longleftrightarrow> cidr_allocations (db s) c = None" using r Inr b by auto
    have owner: "cidr_owner s' = (if applied then (cidr_owner s)(c \<mapsto> ts ! i) else cidr_owner s)"
      by (auto simp: s' a fun_eq_iff cidr_owner_def cas_effect_def)
    have none: "applied \<Longrightarrow> cidr_owner s c = None" by (simp add: a cidr_owner_def)
    have "cidr_G ts i (s, g) (s', g)"
      by (rule foreign_G [OF i]) (use none in \<open>auto simp: owner\<close>)
    moreover have "cidr_rg ts i ?Q p' (s', g)" unfolding p' Inr b sum.case prod.case
    proof (rule owns_Ret [OF i, where S = "if applied then insert c S else S"])
      show "owns (ts ! i) (if applied then insert c S else S) (s', g)"
        using 4(1) by (auto simp: owns_def owner)
    qed simp
    ultimately show ?thesis by simp
  qed
qed (use own owns_stable [OF _ _ i] in \<open>auto\<close>)

lemma rg_ReleaseCIDR:
  assumes i: "i < length ts" "unique ts i" and own: "owns (ts ! i) S y" and c: "c \<in> S"
  shows "cidr_rg ts i (\<lambda>_ z. owns (ts ! i) (S - {c}) z) (ReleaseCIDR NewGocqlCIDRDB c) y"
proof -
  let ?Q = "\<lambda>_ z. owns (ts ! i) (S - {c}) z"
  have "cidr_rg ts i ?Q (Exec (DeleteCIDR c) (\<lambda>r. case r of
      None \<Rightarrow> Ret None | Some e \<Rightarrow> Ret (Some (Errorf (''provisioner: release CIDR '' @ c @ '': '') e)))) y"
  proof (rule cidr_pool.rg_call [where A = "owns (ts ! i) S"], goal_cases)
    case (4 s g p' s')
    from 4(2) obtain r where r: "write_reply CleanFaults (\<lambda>s. s\<lparr>db := exec_effect (DeleteCIDR c) (db s)\<rparr>) s r s'"
      and "p' = (case r of None \<Rightarrow> Ret None
        | Some e \<Rightarrow> Ret (Some (Errorf (''provisioner: release CIDR '' @ c @ '': '') e)))"
      unfolding estep_Exec by blast
    then have p': "\<exists>a. p' = Ret a" by (cases r) auto
    have owner: "cidr_owner s' = (cidr_owner s)(c := None) \<or> cidr_owner s' = cidr_owner s"
      using r by (cases r) auto
    have same: "cidr_owner s' d = cidr_owner s d" if "d \<noteq> c" for d using owner that by auto
    have mine: "cidr_owner s c = Some (ts ! i)" using 4(1) c by (auto simp: owns_def)
    have "cidr_G ts i (s, g) (s', g)"
      by (rule foreign_G [OF i]) (use owner mine in \<open>auto split: if_splits\<close>)
    moreover have "cidr_rg ts i ?Q p' (s', g)"
    proof -
      from p' obtain a where a: "p' = Ret a" by blast
      show ?thesis unfolding a
        by (rule owns_Ret [OF i, where S = "S - {c}"]) (use 4(1) same in \<open>auto simp: owns_def\<close>)
    qed
    ultimately show ?case by simp
  qed (use own owns_stable [OF _ _ i] in \<open>auto\<close>)
  moreover have "ReleaseCIDR NewGocqlCIDRDB c = Exec (DeleteCIDR c) (\<lambda>r. case r of
      None \<Rightarrow> Ret None | Some e \<Rightarrow> Ret (Some (Errorf (''provisioner: release CIDR '' @ c @ '': '') e)))"
    by (simp add: ReleaseCIDR_def NewGocqlCIDRDB_def GocqlCIDRDB_Release_def)
  ultimately show ?thesis by simp
qed

definition pair_owned :: "uuid \<Rightarrow> gerror + CIDRPair \<Rightarrow> sys \<times> unit \<Rightarrow> bool" where
  "pair_owned tid r y \<longleftrightarrow> (\<forall>p. r = Inr p \<longrightarrow> owns tid {Pair_PodCIDR p, Pair_SvcCIDR p} y \<and>
     (\<exists>k\<le>maxTenants. p = \<lparr>Pair_PodCIDR = pod_block k, Pair_SvcCIDR = svc_block k\<rparr>))"

lemma rg_Allocate:
  assumes i: "i < length ts" "unique ts i"
  shows "cidr_rg ts i (pair_owned (ts ! i)) (AllocateCIDRs_from NewGocqlCIDRDB (ts ! i) k) y"
proof (induction "Suc maxTenants - k" arbitrary: k y)
  case 0
  then show ?case by (simp add: AllocateCIDRs_end rg_Ret pair_owned_def)
next
  case (Suc n)
  then have k: "k \<le> maxTenants" and n: "n = Suc maxTenants - Suc k" by auto
  note next_index = Suc.hyps(1) [OF n]
  note bind = rg_bind [OF _ cidr_pool.rely_refl]
  have fail: "cidr_rg ts i (pair_owned (ts ! i)) (Ret (Inl e)) z" for e z
    by (simp add: rg_Ret pair_owned_def)
  have release: "cidr_rg ts i (pair_owned (ts ! i)) (bind (ReleaseCIDR NewGocqlCIDRDB (pod_block k)) (\<lambda>_. q)) z"
    if "owns (ts ! i) {pod_block k} z" and "\<And>z. cidr_rg ts i (pair_owned (ts ! i)) q z" for q z
    by (rule bind, rule rg_mono [OF rg_ReleaseCIDR [OF i that(1)]]) (use that(2) in auto)
  have db: "TryAllocate NewGocqlCIDRDB = GocqlCIDRDB_TryAllocate" by (simp add: NewGocqlCIDRDB_def)
  show ?case
    unfolding AllocateCIDRs_step [OF k] db
  proof (rule cidr_pool.rg_read [where A = "\<lambda>_. True"], goal_cases)
    case (5 s g p')
    then obtain now where p': "p' = attempt (GocqlCIDRDB_TryAllocate (pod_block k) (ts ! i) CIDRTypePod now)
         (\<lambda>e. Ret (Inl (Errorf (''provisioner: allocate pod CIDR '' @ pod_block k @ '': '') e)))
         (\<lambda>podApplied.
           if \<not> podApplied then AllocateCIDRs_from NewGocqlCIDRDB (ts ! i) (k + 1)
           else
             attempt (GocqlCIDRDB_TryAllocate (svc_block k) (ts ! i) CIDRTypeService now)
               (\<lambda>e. bind (ReleaseCIDR NewGocqlCIDRDB (pod_block k)) (\<lambda>_.
                  Ret (Inl (Errorf (''provisioner: allocate svc CIDR '' @ svc_block k @ '': '') e))))
               (\<lambda>svcApplied.
                 if \<not> svcApplied
                 then bind (ReleaseCIDR NewGocqlCIDRDB (pod_block k)) (\<lambda>_. AllocateCIDRs_from NewGocqlCIDRDB (ts ! i) (k + 1))
                 else Ret (Inr \<lparr>Pair_PodCIDR = pod_block k, Pair_SvcCIDR = svc_block k\<rparr>)))"
      unfolding estep_Now by blast
    show ?case unfolding p'
    proof (rule bind, rule rg_mono [OF rg_Try [OF i, where S = "{}"]], simp add: owns_def, goal_cases)
      case (1 b z)
      consider e where "b = Inl e" | "b = Inr False" | "b = Inr True" by (cases b) auto
      then show ?case
      proof cases
        case 3
        have "cidr_rg ts i (pair_owned (ts ! i))
            (attempt (GocqlCIDRDB_TryAllocate (svc_block k) (ts ! i) CIDRTypeService now)
               (\<lambda>e. bind (ReleaseCIDR NewGocqlCIDRDB (pod_block k)) (\<lambda>_.
                  Ret (Inl (Errorf (''provisioner: allocate svc CIDR '' @ svc_block k @ '': '') e))))
               (\<lambda>svcApplied.
                 if \<not> svcApplied
                 then bind (ReleaseCIDR NewGocqlCIDRDB (pod_block k)) (\<lambda>_. AllocateCIDRs_from NewGocqlCIDRDB (ts ! i) (k + 1))
                 else Ret (Inr \<lparr>Pair_PodCIDR = pod_block k, Pair_SvcCIDR = svc_block k\<rparr>))) z"
        proof (rule bind, rule rg_mono [OF rg_Try [OF i, where S = "{pod_block k}"]], goal_cases)
          case 1
          then show ?case using \<open>owns _ _ z\<close> 3 by simp
        next
          case (2 b' z')
          consider e where "b' = Inl e" | "b' = Inr False" | "b' = Inr True" by (cases b') auto
          then show ?case
          proof cases
            case f3: 3
            have "owns (ts ! i) {pod_block k, svc_block k} z'" using 2 f3 by (simp add: insert_commute)
            then have "cidr_rg ts i (pair_owned (ts ! i))
                (Ret (Inr \<lparr>Pair_PodCIDR = pod_block k, Pair_SvcCIDR = svc_block k\<rparr>)) z'"
              by (rule owns_Ret [OF i]) (use k in \<open>auto simp: pair_owned_def\<close>)
            then show ?thesis unfolding f3 by simp
          qed (use 2 release fail next_index in auto)
        qed
        then show ?thesis unfolding 3 by (simp only: sum.case not_True_eq_False if_False)
      qed (use fail next_index in auto)
    qed
  qed (auto simp: estep_Now)
qed

text \<open>Two concurrent allocations that succeed have no block in common, and no address.\<close>

lemma concurrent_pairs:
  assumes "preach CleanFaults (map (AllocateCIDRs NewGocqlCIDRDB) ts) s qs t"
    and "distinct ts" and "i < length ts" "j < length ts" "i \<noteq> j"
    and "qs ! i = Ret (Inr p)" "qs ! j = Ret (Inr q)"
  obtains k l where "k \<le> maxTenants" "l \<le> maxTenants" "k \<noteq> l"
    "p = \<lparr>Pair_PodCIDR = pod_block k, Pair_SvcCIDR = svc_block k\<rparr>"
    "q = \<lparr>Pair_PodCIDR = pod_block l, Pair_SvcCIDR = svc_block l\<rparr>"
proof -
  have len: "length qs = length ts" using preach_length [OF assms(1)] by simp
  have u: "unique ts k" if "k < length ts" for k
    using that assms(2) by (auto simp: unique_def nth_eq_iff_index_eq)
  have "\<exists>h. True \<and> (\<forall>i<length qs. \<forall>a. qs ! i = Ret a \<longrightarrow> pair_owned (ts ! i) a (t, h))"
  proof (rule cidr_pool.pool_returned [OF assms(1), where g = "()"])
    fix k assume "k < length (map (AllocateCIDRs NewGocqlCIDRDB) ts)"
    then show "cidr_rg ts k (pair_owned (ts ! k)) (map (AllocateCIDRs NewGocqlCIDRDB) ts ! k) (s, ())"
      using rg_Allocate [OF _ u] by (simp add: AllocateCIDRs_def)
  qed simp
  then have own: "pair_owned (ts ! i) (Inr p) (t, ())" "pair_owned (ts ! j) (Inr q) (t, ())"
    using assms(3-7) len by auto
  moreover have "ts ! i \<noteq> ts ! j" using assms(2-5) by (simp add: nth_eq_iff_index_eq)
  moreover obtain k l where kl: "k \<le> maxTenants" "l \<le> maxTenants"
    "p = \<lparr>Pair_PodCIDR = pod_block k, Pair_SvcCIDR = svc_block k\<rparr>"
    "q = \<lparr>Pair_PodCIDR = pod_block l, Pair_SvcCIDR = svc_block l\<rparr>"
    using own by (auto simp: pair_owned_def)
  ultimately have "k \<noteq> l" by (auto simp: pair_owned_def owns_def)
  then show thesis using that kl by blast
qed

lemma block_net_parse:
  assumes "ParseCIDR b = Inr (x, n)" and "b \<in> {pod_block k, svc_block k}" and "k \<le> maxTenants"
  obtains c where "c \<in> {100, 200}" "n = block_net c k"
proof -
  have "k \<le> 255" using assms(3) by (simp add: maxTenants_def)
  then have "n = block_net 100 k \<or> n = block_net 200 k"
    using assms(1,2) pod_block_parse [of k] svc_block_parse [of k] by (auto simp: block_net_def)
  then show thesis using that by blast
qed

lemma concurrent_networks_disjoint:
  assumes "preach CleanFaults (map (AllocateCIDRs NewGocqlCIDRDB) ts) s qs t"
    and "distinct ts" and "i < length ts" "j < length ts" "i \<noteq> j"
    and "qs ! i = Ret (Inr p)" "qs ! j = Ret (Inr q)"
    and "b \<in> {Pair_PodCIDR p, Pair_SvcCIDR p}" "c \<in> {Pair_PodCIDR q, Pair_SvcCIDR q}"
    and "ParseCIDR b = Inr (x, n)" "ParseCIDR c = Inr (y, m)"
  shows "\<not> (in_net n a \<and> in_net m a)"
proof -
  obtain k l where kl: "k \<le> maxTenants" "l \<le> maxTenants" "k \<noteq> l"
    "p = \<lparr>Pair_PodCIDR = pod_block k, Pair_SvcCIDR = svc_block k\<rparr>"
    "q = \<lparr>Pair_PodCIDR = pod_block l, Pair_SvcCIDR = svc_block l\<rparr>"
    by (rule concurrent_pairs [OF assms(1-7)])
  have bc: "b \<in> {pod_block k, svc_block k}" "c \<in> {pod_block l, svc_block l}"
    using assms(8,9) kl(4,5) by simp_all
  obtain u where u: "u \<in> {100, 200}" "n = block_net u k" by (rule block_net_parse [OF assms(10) bc(1) kl(1)])
  obtain v where v: "v \<in> {100, 200}" "m = block_net v l" by (rule block_net_parse [OF assms(11) bc(2) kl(2)])
  have "u < 256" "v < 256" "k < 256" "l < 256" using u v kl by (auto simp: maxTenants_def)
  from blocks_disjoint [OF this] show ?thesis using kl(3) unfolding u v by blast
qed

end
