(* ===== verification/ApiKey.thy ===== *)
theory ApiKey
  imports KeyStore
begin

text \<open>
  \<open>internal/provisioner/apikey.go\<close>: generation of API keys. BLAKE2b-256 is a third-party library:
  \<open>New256\<close>, its constructor without key, is an argument of the definitions that use it.
  The locale \<open>api_key_storer\<close> is the contract of the interface \<open>APIKeyStorer\<close>.
\<close>

section \<open>Operations\<close>

type_synonym hasher = "gerror + (string \<Rightarrow> string)"

definition apiKeyPrefix :: string where "apiKeyPrefix = ''cf_live_''"
definition apiKeyRandomBytes :: nat where "apiKeyRandomBytes = 32"
definition ProvisionerUserID :: uuid where "ProvisionerUserID = 1"

record GeneratedAPIKey =
  Gen_Record :: APIKey
  Gen_RawKey :: string
  Gen_KeyHash :: string

definition HashAPIKey :: "hasher \<Rightarrow> string \<Rightarrow> gerror + string" where
  "HashAPIKey New256 rawKey =
     (case New256 of
        Inl e \<Rightarrow> Inl (Errorf ''provisioner: create BLAKE2b hasher: '' e)
      | Inr H \<Rightarrow> Inr (EncodeToString (H rawKey)))"

definition newRawKeyAndHash :: "hasher \<Rightarrow> (gerror + string \<times> string) prog" where
  "newRawKeyAndHash New256 =
     attempt (RandRead apiKeyRandomBytes Ret)
       (\<lambda>e. Ret (Inl (Errorf ''provisioner: generate random key material: '' e)))
       (\<lambda>buf.
         let raw = apiKeyPrefix @ EncodeToString buf in
         case HashAPIKey New256 raw of
           Inl e \<Rightarrow> Ret (Inl e)
         | Inr hash \<Rightarrow> Ret (Inr (raw, hash)))"

definition new_api_key :: "string \<Rightarrow> uuid \<Rightarrow> uuid \<Rightarrow> string \<Rightarrow> string \<Rightarrow> APIKey" where
  "new_api_key hash keyID tenantID displayName scopes =
     \<lparr>Key_ExpiresAt = zero_time, Key_LastUsedAt = zero_time, Key_CreatedAt = zero_time,
      Key_KeyHash = hash, Key_DisplayName = displayName, Key_Scopes = scopes,
      Key_Status = APIKeyStatusActive, Key_KeyID = keyID, Key_TenantID = tenantID,
      Key_UserID = ProvisionerUserID\<rparr>"

definition GenerateAPIKey ::
    "hasher \<Rightarrow> (APIKey \<Rightarrow> gerror option prog) \<Rightarrow> uuid \<Rightarrow> string \<Rightarrow> string \<Rightarrow> (gerror + GeneratedAPIKey) prog" where
  "GenerateAPIKey New256 Store tenantID displayName scopes =
     attempt (newRawKeyAndHash New256) (\<lambda>e. Ret (Inl e))
       (\<lambda>(raw, hash).
         attempt (NewUUID Ret)
           (\<lambda>e. Ret (Inl (Errorf ''provisioner: generate key_id: '' e)))
           (\<lambda>keyID.
             let rec = new_api_key hash keyID tenantID displayName scopes in
             check (Store rec)
               (\<lambda>e. Ret (Inl (Errorf (''provisioner: persist api key for tenant '' @
                      uuid_String tenantID @ '': '') e)))
               (Ret (Inr \<lparr>Gen_Record = rec, Gen_RawKey = raw, Gen_KeyHash = hash\<rparr>))))"

section \<open>Format of the keys\<close>

lemma EncodeToString_length [simp]: "length (EncodeToString s) = 2 * length s"
  by (induction s) (simp_all add: EncodeToString_def hex_byte_def Let_def)

lemma hex_char_inject: "m < 16 \<Longrightarrow> n < 16 \<Longrightarrow> hex_char m = hex_char n \<longleftrightarrow> m = n"
proof -
  have code: "(of_char (hex_char k) :: nat) = (if k < 10 then 48 + k else 87 + k)" if "k < 16" for k
    using that by (simp add: hex_char_def)
  assume lt: "m < 16" "n < 16"
  show ?thesis
  proof
    assume "hex_char m = hex_char n"
    then have "(if m < 10 then 48 + m else 87 + m) = (if n < 10 then 48 + n else 87 + n)"
      using code lt by metis
    then show "m = n" using lt by (auto split: if_splits)
  qed simp
qed

lemma hex_byte_inject [simp]: "hex_byte a = hex_byte b \<longleftrightarrow> a = b"
proof
  assume eq: "hex_byte a = hex_byte b"
  have lt: "(of_char c :: nat) < 256" for c :: char
    using of_char_of [where 'a = nat, of "of_char c"] by (metis char_of_char mod_less_divisor zero_less_numeral)
  then have "(of_char c :: nat) div 16 < 16" for c :: char by (simp add: less_mult_imp_div_less)
  with eq have "(of_char a :: nat) div 16 = of_char b div 16" "(of_char a :: nat) mod 16 = of_char b mod 16"
    by (simp_all add: hex_byte_def Let_def hex_char_inject)
  then have "(of_char a :: nat) = of_char b" by (metis div_mult_mod_eq)
  then show "a = b" by simp
qed simp

lemma hex_byte_length [simp]: "length (hex_byte c) = 2"
  by (simp add: hex_byte_def Let_def)

text \<open>Different key material gives different keys.\<close>

lemma EncodeToString_inject [simp]: "EncodeToString s = EncodeToString t \<longleftrightarrow> s = t"
proof (induction s arbitrary: t)
  case Nil
  then show ?case by (cases t) (auto simp: EncodeToString_def hex_byte_def Let_def)
next
  case (Cons a s)
  show ?case
  proof (cases t)
    case Nil
    then show ?thesis by (simp add: EncodeToString_def hex_byte_def Let_def)
  next
    case (Cons b u)
    then show ?thesis using Cons.IH [of u] by (auto simp: EncodeToString_def)
  qed
qed

lemma newRawKeyAndHash_sem:
  "sem f (newRawKeyAndHash (Inr H)) s r t \<longleftrightarrow> t = s \<and>
   (case r of
      Inr (raw, hash) \<Rightarrow> (\<exists>buf. length buf = apiKeyRandomBytes \<and> raw = apiKeyPrefix @ EncodeToString buf) \<and>
        hash = EncodeToString (H raw)
    | Inl e \<Rightarrow> faulty f \<and> (\<exists>c. fault_error c \<and>
        e = Errorf ''provisioner: generate random key material: '' c))"
  by (cases r) (auto simp: newRawKeyAndHash_def HashAPIKey_def ex_reply Let_def)

section \<open>The contract of the key storer\<close>

text \<open>
  A successful \<open>Store\<close> leaves the key found by its hash, unless the hash was taken before; it never
  changes a key stored before.
\<close>

locale api_key_storer =
  fixes Store :: "APIKey \<Rightarrow> gerror option prog" and lookup :: "sys \<Rightarrow> string \<Rightarrow> APIKey option"
  assumes store_found: "sem f (Store k) s None t \<Longrightarrow> lookup s (Key_KeyHash k) = None \<Longrightarrow>
      lookup t (Key_KeyHash k) = Some (stored_key k)"
    and store_keeps: "sem f (Store k) s r t \<Longrightarrow> lookup s h = Some k' \<Longrightarrow> lookup t h = Some k'"
begin

lemma Generate_sem:
  assumes "sem f (GenerateAPIKey (Inr H) Store tid dn scopes) s (Inr G) t"
  shows "\<exists>keyID buf. length buf = apiKeyRandomBytes \<and> Gen_RawKey G = apiKeyPrefix @ EncodeToString buf \<and>
    Gen_KeyHash G = EncodeToString (H (Gen_RawKey G)) \<and>
    Gen_Record G = new_api_key (Gen_KeyHash G) keyID tid dn scopes \<and> sem f (Store (Gen_Record G)) s None t"
  using assms
  by (auto simp: GenerateAPIKey_def newRawKeyAndHash_sem ex_reply Let_def split: prod.splits)

lemma Generate_found:
  assumes "sem f (GenerateAPIKey (Inr H) Store tid dn scopes) s (Inr G) t"
    and "lookup s (Gen_KeyHash G) = None" and "HashAPIKey (Inr H) (Gen_RawKey G) = Inr h"
  shows "\<exists>k. lookup t h = Some k \<and> Key_TenantID k = tid \<and> Key_Status k = APIKeyStatusActive \<and>
    Key_Scopes k = scopes \<and> Key_KeyID k = Key_KeyID (Gen_Record G)"
proof -
  from Generate_sem [OF assms(1)] obtain keyID where
    h: "Gen_KeyHash G = EncodeToString (H (Gen_RawKey G))"
    and rec: "Gen_Record G = new_api_key (Gen_KeyHash G) keyID tid dn scopes"
    and st: "sem f (Store (Gen_Record G)) s None t" by blast
  have "Key_KeyHash (Gen_Record G) = Gen_KeyHash G" by (simp add: rec new_api_key_def)
  with store_found [OF st] assms(2) have "lookup t (Gen_KeyHash G) = Some (stored_key (Gen_Record G))" by simp
  moreover have "h = Gen_KeyHash G" using assms(3) h by (simp add: HashAPIKey_def)
  ultimately show ?thesis by (simp add: rec new_api_key_def stored_key_def)
qed

end

definition key_found :: "sys \<Rightarrow> string \<Rightarrow> APIKey option" where
  "key_found s h = map_option (scan_key h) (api_keys (db s) h)"

interpretation key_store: api_key_storer APIKeyStore_Store key_found
  by unfold_locales (auto simp: Store_sem key_found_def dest: Store_keeps)

end
