(* ===== verification/Cnp.thy ===== *)
theory Cnp
  imports GoErrors
begin

text \<open>
  \<open>internal/provisioner/cnp.go\<close>: the CiliumNetworkPolicy documents and the namespace check that
  guards them. A template is a list of pieces, as \<open>text/template\<close> parses it: literal text and the
  two fields of \<open>cnpData\<close>.
\<close>

section \<open>Namespace names\<close>

definition lower_alnum :: "char \<Rightarrow> bool" where
  "lower_alnum r \<longleftrightarrow> (97 \<le> (of_char r :: nat) \<and> (of_char r :: nat) \<le> 122) \<or>
     (48 \<le> (of_char r :: nat) \<and> (of_char r :: nat) \<le> 57)"

text \<open>The loop over the runes from position \<open>i\<close>; an invalid rune is a byte that is no ASCII letter,
  digit or inner hyphen.\<close>

fun validate_runes :: "string \<Rightarrow> nat \<Rightarrow> string \<Rightarrow> gerror option" where
  "validate_runes ns i [] = None"
| "validate_runes ns i (r # rest) =
     (if lower_alnum r then validate_runes ns (i + 1) rest
      else if r = CHR ''-'' \<and> i > 0 \<and> int i < int (length ns) - 1 then validate_runes ns (i + 1) rest
      else Some (Text (''namespace '' @ Quote ns @ '' contains invalid character '' @
             QuoteRune (r # rest) @ '' at position '' @ Itoa i)))"

definition validateNamespace :: "string \<Rightarrow> gerror option" where
  "validateNamespace ns =
     (if ns = [] then Some (Text ''namespace must not be empty'') else validate_runes ns 0 ns)"

text \<open>The RFC 1123 label rule the comment states.\<close>

definition dns_label :: "string \<Rightarrow> bool" where
  "dns_label ns \<longleftrightarrow> ns \<noteq> [] \<and> (\<forall>c\<in>set ns. lower_alnum c \<or> c = CHR ''-'') \<and>
     hd ns \<noteq> CHR ''-'' \<and> last ns \<noteq> CHR ''-''"

lemma hyphen_not_alnum [simp]: "\<not> lower_alnum (CHR ''-'')"
  by (simp add: lower_alnum_def)

lemma validate_runes_None:
  "ns = pre @ rest \<Longrightarrow> validate_runes ns (length pre) rest = None \<longleftrightarrow>
     (\<forall>c\<in>set rest. lower_alnum c \<or> c = CHR ''-'') \<and>
     (pre = [] \<longrightarrow> rest \<noteq> [] \<longrightarrow> hd rest \<noteq> CHR ''-'') \<and> (rest \<noteq> [] \<longrightarrow> last rest \<noteq> CHR ''-'')"
proof (induction rest arbitrary: pre)
  case Nil
  then show ?case by simp
next
  case (Cons r rest)
  have IH: "validate_runes ns (length pre + 1) rest = None \<longleftrightarrow>
      (\<forall>c\<in>set rest. lower_alnum c \<or> c = CHR ''-'') \<and> (rest \<noteq> [] \<longrightarrow> last rest \<noteq> CHR ''-'')"
    using Cons.IH [of "pre @ [r]"] Cons.prems by simp
  have len: "int (length pre) < int (length ns) - 1 \<longleftrightarrow> rest \<noteq> []"
    using Cons.prems by auto
  show ?case
  proof (cases "lower_alnum r")
    case True
    then show ?thesis using IH by (cases "rest = []") auto
  next
    case False
    then show ?thesis using IH len by (cases "rest = []") auto
  qed
qed

lemma validateNamespace_iff: "validateNamespace ns = None \<longleftrightarrow> dns_label ns"
  using validate_runes_None [of ns "[]" ns] by (auto simp: validateNamespace_def dns_label_def)

lemma dns_label_chars: "dns_label ns \<Longrightarrow> c \<in> set ns \<Longrightarrow> 45 \<le> (of_char c :: nat) \<and> (of_char c :: nat) \<le> 122"
  by (force simp: dns_label_def lower_alnum_def)

lemma dns_label_no_newline: "dns_label ns \<Longrightarrow> CHR 0x0A \<notin> set ns"
  using dns_label_chars [of ns "CHR 0x0A"] by auto

section \<open>Policies\<close>

record cnpData =
  PolicyName :: string
  Namespace :: string

datatype piece = Lit string | FieldPolicyName | FieldNamespace

fun piece_text :: "cnpData \<Rightarrow> piece \<Rightarrow> string" where
  "piece_text d (Lit s) = s"
| "piece_text d FieldPolicyName = PolicyName d"
| "piece_text d FieldNamespace = Namespace d"

definition template_Execute :: "piece list list \<Rightarrow> cnpData \<Rightarrow> string" where
  "template_Execute tpl d = unlines (map (\<lambda>line. concat (map (piece_text d) line)) tpl)"

definition isolationCNPTemplate :: "piece list list" where
  "isolationCNPTemplate =
    [[Lit ''apiVersion: cilium.io/v2''],
     [Lit ''kind: CiliumNetworkPolicy''],
     [Lit ''metadata:''],
     [Lit ''  name: '', FieldPolicyName],
     [Lit ''  namespace: '', FieldNamespace],
     [Lit ''spec:''],
     [Lit ''  endpointSelector: {}''],
     [Lit ''  ingress:''],
     [Lit ''    - fromEndpoints:''],
     [Lit ''        - matchLabels:''],
     [Lit ''            io.kubernetes.pod.namespace: '', FieldNamespace]]"

definition provisionerAccessCNPTemplate :: "piece list list" where
  "provisionerAccessCNPTemplate =
    [[Lit ''apiVersion: cilium.io/v2''],
     [Lit ''kind: CiliumNetworkPolicy''],
     [Lit ''metadata:''],
     [Lit ''  name: provisioner-access''],
     [Lit ''  namespace: '', FieldNamespace],
     [Lit ''spec:''],
     [Lit ''  endpointSelector:''],
     [Lit ''    matchLabels:''],
     [Lit ''      app: vcluster''],
     [Lit ''  ingress:''],
     [Lit ''    - fromEndpoints:''],
     [Lit ''        - matchLabels:''],
     [Lit ''            io.kubernetes.pod.namespace: cf-system''],
     [Lit ''      toPorts:''],
     [Lit ''        - ports:''],
     [Lit (''            - port: '' @ [CHR 0x22] @ ''6443'' @ [CHR 0x22])],
     [Lit ''              protocol: TCP'']]"

definition renderCNP :: "string \<Rightarrow> string \<Rightarrow> gerror + string" where
  "renderCNP ns policyName =
     (case validateNamespace ns of
        Some e \<Rightarrow> Inl e
      | None \<Rightarrow> Inr (template_Execute isolationCNPTemplate \<lparr>PolicyName = policyName, Namespace = ns\<rparr>))"

definition TenantIsolationPolicy :: "string \<Rightarrow> gerror + string" where
  "TenantIsolationPolicy ns = renderCNP ns ''tenant-isolation''"

definition PlatformIsolationPolicy :: "string \<Rightarrow> gerror + string" where
  "PlatformIsolationPolicy ns = renderCNP ns ''platform-isolation''"

definition ProvisionerAccessPolicy :: "string \<Rightarrow> gerror + string" where
  "ProvisionerAccessPolicy ns =
     (case validateNamespace ns of
        Some e \<Rightarrow> Inl e
      | None \<Rightarrow> Inr (template_Execute provisionerAccessCNPTemplate
                  \<lparr>PolicyName = ''provisioner-access'', Namespace = ns\<rparr>))"

text \<open>
  Read back line by line, a rendered policy is the template with the namespace in its places: no
  accepted namespace adds or splits a line of the document.
\<close>

lemma isolation_lines:
  assumes "renderCNP ns name = Inr doc" and "CHR 0x0A \<notin> set name"
  shows "Split doc (CHR 0x0A) =
    [''apiVersion: cilium.io/v2'', ''kind: CiliumNetworkPolicy'', ''metadata:'', ''  name: '' @ name,
     ''  namespace: '' @ ns, ''spec:'', ''  endpointSelector: {}'', ''  ingress:'', ''    - fromEndpoints:'',
     ''        - matchLabels:'', ''            io.kubernetes.pod.namespace: '' @ ns, []]"
proof -
  have "dns_label ns" and doc: "doc = template_Execute isolationCNPTemplate \<lparr>PolicyName = name, Namespace = ns\<rparr>"
    using assms(1) by (auto simp: renderCNP_def validateNamespace_iff [symmetric] split: option.splits)
  then have "CHR 0x0A \<notin> set ns" using dns_label_no_newline by blast
  then show ?thesis unfolding doc template_Execute_def
    by (subst Split_unlines) (use assms(2) in \<open>simp_all add: isolationCNPTemplate_def\<close>)
qed

lemma access_lines:
  assumes "ProvisionerAccessPolicy ns = Inr doc"
  shows "Split doc (CHR 0x0A) =
    map (\<lambda>line. concat (map (piece_text \<lparr>PolicyName = ''provisioner-access'', Namespace = ns\<rparr>) line))
      provisionerAccessCNPTemplate @ [[]]"
proof -
  have "dns_label ns" and doc: "doc = template_Execute provisionerAccessCNPTemplate
      \<lparr>PolicyName = ''provisioner-access'', Namespace = ns\<rparr>"
    using assms(1) by (auto simp: ProvisionerAccessPolicy_def validateNamespace_iff [symmetric] split: option.splits)
  then have "CHR 0x0A \<notin> set ns" using dns_label_no_newline by blast
  then show ?thesis unfolding doc template_Execute_def
    by (intro Split_unlines) (simp add: provisionerAccessCNPTemplate_def)
qed

lemma render_ok_iff: "(\<exists>doc. renderCNP ns name = Inr doc) \<longleftrightarrow> dns_label ns"
  by (auto simp: renderCNP_def validateNamespace_iff [symmetric] split: option.splits)

end
