(* ===== verification/Kubeconfig.thy ===== *)
theory Kubeconfig
  imports Cnp Pools
begin

text \<open>
  \<open>internal/provisioner/kubeconfig.go\<close>: the kubeconfig of a tenant in the OpenBao KV v2 engine,
  one path per tenant.
\<close>

section \<open>Operations\<close>

definition kvMount :: string where "kvMount = ''secret''"
definition kubeconfigKey :: string where "kubeconfigKey = ''kubeconfig''"

definition kvPath :: "string \<Rightarrow> string" where
  "kvPath tenantID = ''cf/tenants/'' @ tenantID @ ''/kubeconfig''"

definition validateTenantID :: "string \<Rightarrow> gerror option" where
  "validateTenantID i =
     (case validateNamespace i of Some e \<Rightarrow> Some (Errorf ''tenantID '' e) | None \<Rightarrow> None)"

text \<open>\<open>errors.As(err, &re)\<close> for an OpenBao \<open>*ResponseError\<close>.\<close>

fun errors_As_response :: "gerror \<Rightarrow> int option" where
  "errors_As_response (Ext (BaoResponseError status m)) = Some status"
| "errors_As_response (Wrap pre e post) = errors_As_response e"
| "errors_As_response (Platform c m (Some e) st) = errors_As_response e"
| "errors_As_response e = None"

definition isNotFound :: "gerror option \<Rightarrow> bool" where
  "isNotFound err = (case err of
     None \<Rightarrow> False
   | Some e \<Rightarrow>
       if errors_As_response e = Some 404 then True
       else HasPrefix (Error_String e) ''secret not found:'')"

definition kv_path :: "string \<Rightarrow> string" where
  "kv_path tenantID = kvMount @ ''/'' @ kvPath tenantID"

definition Store :: "string \<Rightarrow> string \<Rightarrow> gerror option prog" where
  "Store tenantID kubeconfigYAML =
     (case validateTenantID tenantID of
        Some e \<Rightarrow> Ret (Some e)
      | None \<Rightarrow>
          if kubeconfigYAML = [] then Ret (Some (Text ''provisioner: kubeconfigYAML must not be empty''))
          else check (KVPut (kv_path tenantID) [kubeconfigKey \<mapsto> KVString kubeconfigYAML] Ret)
                 (\<lambda>e. Ret (Some (Errorf (''provisioner: store kubeconfig for tenant '' @ Quote tenantID @ '': '') e)))
                 (Ret None))"

definition Retrieve :: "string \<Rightarrow> (gerror + string) prog" where
  "Retrieve tenantID =
     (case validateTenantID tenantID of
        Some e \<Rightarrow> Ret (Inl e)
      | None \<Rightarrow>
          KVGet (kv_path tenantID) (\<lambda>r. case r of
            Inl e \<Rightarrow>
              if isNotFound (Some e) then Ret (Inl (Sentinel provisioner_ErrNotFound))
              else Ret (Inl (Errorf (''provisioner: retrieve kubeconfig for tenant '' @ Quote tenantID @ '': '') e))
          | Inr None \<Rightarrow> Ret (Inl (Sentinel provisioner_ErrNotFound))
          | Inr (Some None) \<Rightarrow> Ret (Inl (Sentinel provisioner_ErrNotFound))
          | Inr (Some (Some data)) \<Rightarrow>
              (case data kubeconfigKey of
                 Some (KVString (c # val)) \<Rightarrow> Ret (Inr (c # val))
               | _ \<Rightarrow> Ret (Inl (Text (''provisioner: kubeconfig field '' @ Quote kubeconfigKey @
                        '' missing or empty for tenant '' @ Quote tenantID))))))"

definition Revoke :: "string \<Rightarrow> gerror option prog" where
  "Revoke tenantID =
     (case validateTenantID tenantID of
        Some e \<Rightarrow> Ret (Some e)
      | None \<Rightarrow>
          check (KVDeleteMetadata (kv_path tenantID) Ret)
            (\<lambda>e. Ret (Some (Errorf (''provisioner: revoke kubeconfig for tenant '' @ Quote tenantID @ '': '') e)))
            (Ret None))"

section \<open>Executions\<close>

lemma validateTenantID_None: "validateTenantID i = None \<longleftrightarrow> dns_label i"
  by (simp add: validateTenantID_def validateNamespace_iff [symmetric] split: option.splits)

text \<open>Different tenants have different paths.\<close>

lemma kv_path_inject [simp]: "kv_path a = kv_path b \<longleftrightarrow> a = b"
  by (simp add: kv_path_def kvPath_def)

lemma kubeconfig_Store_sem:
  "sem f (Store tid yaml) s None t \<longleftrightarrow> dns_label tid \<and> yaml \<noteq> [] \<and>
     t = s\<lparr>kv := (kv s)(kv_path tid \<mapsto> [kubeconfigKey \<mapsto> KVString yaml])\<rparr>"
  by (cases "validateTenantID tid")
     (auto simp: Store_def ex_reply validateTenantID_None [symmetric])

lemma kubeconfig_Revoke_sem:
  "sem f (Revoke tid) s None t \<longleftrightarrow> dns_label tid \<and> t = s\<lparr>kv := (kv s)(kv_path tid := None)\<rparr>"
  by (cases "validateTenantID tid")
     (auto simp: Revoke_def ex_reply validateTenantID_None [symmetric])

lemma isNotFound_fault [simp]: "fault_error e \<Longrightarrow> \<not> isNotFound (Some e)"
proof -
  assume f: "fault_error e"
  then obtain x where e: "e = Ext x" by (cases e) (auto simp: fault_error_def)
  then show ?thesis using f
    by (cases x) (auto simp: isNotFound_def fault_error_def)
qed

text \<open>Every one of the answers for a missing path becomes \<open>ErrNotFound\<close>.\<close>

lemma kv_missing_cases:
  assumes "kv_missing r"
  shows "r = Inr None \<or> r = Inr (Some None) \<or> (\<exists>e. r = Inl e \<and> isNotFound (Some e))"
proof (cases r)
  case (Inl e)
  show ?thesis
  proof (cases e)
    case (Ext x)
    then show ?thesis using assms Inl by (cases x) (auto simp: kv_missing_def isNotFound_def)
  qed (use assms Inl in \<open>auto simp: kv_missing_def\<close>)
next
  case (Inr v)
  then show ?thesis using assms by (auto simp: kv_missing_def split: option.splits)
qed

definition stored_kubeconfig :: "sys \<Rightarrow> string \<Rightarrow> string option" where
  "stored_kubeconfig s tid = (case kv s (kv_path tid) of
     None \<Rightarrow> None
   | Some d \<Rightarrow> (case d kubeconfigKey of Some (KVString v) \<Rightarrow> Some v | _ \<Rightarrow> None))"

lemma Retrieve_missing:
  assumes "dns_label tid" and "kv s (kv_path tid) = None"
  shows "sem NoFaults (Retrieve tid) s r t \<Longrightarrow> r = Inl (Sentinel provisioner_ErrNotFound) \<and> t = s"
proof -
  have v: "validateTenantID tid = None" using assms(1) by (simp add: validateTenantID_None)
  assume "sem NoFaults (Retrieve tid) s r t"
  then obtain x where "kv_missing x"
    and rest: "sem NoFaults (case x of
            Inl e \<Rightarrow>
              if isNotFound (Some e) then Ret (Inl (Sentinel provisioner_ErrNotFound))
              else Ret (Inl (Errorf (''provisioner: retrieve kubeconfig for tenant '' @ Quote tid @ '': '') e))
          | Inr None \<Rightarrow> Ret (Inl (Sentinel provisioner_ErrNotFound))
          | Inr (Some None) \<Rightarrow> Ret (Inl (Sentinel provisioner_ErrNotFound))
          | Inr (Some (Some data)) \<Rightarrow>
              (case data kubeconfigKey of
                 Some (KVString (c # val)) \<Rightarrow> Ret (Inr (c # val))
               | _ \<Rightarrow> Ret (Inl (Text (''provisioner: kubeconfig field '' @ Quote kubeconfigKey @
                        '' missing or empty for tenant '' @ Quote tid))))) s r t"
    unfolding Retrieve_def v option.case sem_calls kv_reply_def using assms(2) by auto
  then show ?thesis using kv_missing_cases [of x] by auto
qed

lemma Retrieve_present:
  assumes "dns_label tid" and "kv s (kv_path tid) = Some d" and "d kubeconfigKey = Some (KVString v)" and "v \<noteq> []"
  shows "sem NoFaults (Retrieve tid) s r t \<longleftrightarrow> r = Inr v \<and> t = s"
proof -
  have v: "validateTenantID tid = None" using assms(1) by (simp add: validateTenantID_None)
  show ?thesis unfolding Retrieve_def v option.case sem_calls kv_reply_def using assms
    by (cases v) simp_all
qed

text \<open>Store then Retrieve, Revoke then Retrieve, and the independence of tenants.\<close>

lemma Store_Retrieve:
  assumes "sem f (Store tid yaml) s None t" and "sem NoFaults (Retrieve tid) t r u"
  shows "r = Inr yaml \<and> u = t"
  using assms Retrieve_present [of tid t "[kubeconfigKey \<mapsto> KVString yaml]" yaml r u]
  by (auto simp: kubeconfig_Store_sem)

lemma Revoke_Retrieve:
  assumes "sem f (Revoke tid) s None t" and "sem NoFaults (Retrieve tid) t r u"
  shows "r = Inl (Sentinel provisioner_ErrNotFound) \<and> u = t"
  using assms Retrieve_missing [of tid t r u] by (auto simp: kubeconfig_Revoke_sem)

lemma Store_other: "sem f (Store tid yaml) s r t \<Longrightarrow> other \<noteq> tid \<Longrightarrow> kv t (kv_path other) = kv s (kv_path other)"
  by (cases "validateTenantID tid"; cases r) (auto simp: Store_def ex_reply split: if_splits)

end
