(* ===== verification/VCluster.thy ===== *)
theory VCluster
  imports Kubeconfig
begin

text \<open>
  \<open>internal/provisioner/vcluster.go\<close>: creation and deletion of tenant vClusters through the
  \<open>vcluster\<close> and \<open>kubectl\<close> command lines. A command is logged with its arguments, the program name
  first. The readiness wait polls every 3 s under a 90 s timeout: after 30 fired timers the context
  is done, which bounds the loop (\<open>ready_polls\<close>).
\<close>

section \<open>Commands\<close>

record VClusterConfig =
  vc_TenantID :: string
  vc_HostNamespace :: string
  vc_PodCIDR :: string
  vc_SvcCIDR :: string

definition vClusterReadyTimeout :: nat where "vClusterReadyTimeout = 90"  \<comment> \<open>seconds\<close>
definition vClusterPollInterval :: nat where "vClusterPollInterval = 3"

definition ready_polls :: nat where
  "ready_polls = vClusterReadyTimeout div vClusterPollInterval"

definition defaultVClusterRunner :: "string list \<Rightarrow> gerror option prog" where
  "defaultVClusterRunner args =
     Command (''vcluster'' # args) [] (\<lambda>out. case exit_err out of
       None \<Rightarrow> Ret None
     | Some err \<Rightarrow>
         let details = TrimSpace (cmd_stderr out) in
         if details = [] then Ret (Some err) else Ret (Some (Wrap [] err ('': '' @ details))))"

definition runVClusterCLI :: "string list \<Rightarrow> gerror option prog" where
  "runVClusterCLI args = defaultVClusterRunner args"

definition defaultKubectlRunner :: "string list \<Rightarrow> gerror option prog" where
  "defaultKubectlRunner args =
     Command (''kubectl'' # args) [] (\<lambda>out. case exit_err out of
       None \<Rightarrow> Ret None
     | Some err \<Rightarrow> Ret (Some (Wrap (''kubectl '' @ fmt_strings args @ '': '') err
                     ('': '' @ TrimSpace (cmd_stderr out)))))"

definition runKubectl :: "string list \<Rightarrow> gerror option prog" where
  "runKubectl args = defaultKubectlRunner args"

definition defaultKubeconfigExporter :: "string \<Rightarrow> string \<Rightarrow> string \<Rightarrow> (gerror + string) prog" where
  "defaultKubeconfigExporter tenantID hostNamespace inClusterServer =
     Command [''vcluster'', ''connect'', tenantID, ''--namespace'', hostNamespace,
              ''--server'', inClusterServer, ''--print'', ''--update-current=false''] [] (\<lambda>out.
       case exit_err out of
         Some err \<Rightarrow> Ret (Inl (Wrap ''vcluster connect --print: '' err ('': '' @ TrimSpace (cmd_stderr out))))
       | None \<Rightarrow>
           let kc = TrimSpace (cmd_stdout out) in
           if kc = [] then Ret (Inl (Text ''provisioner: vcluster connect --print returned empty output''))
           else Ret (Inr kc))"

definition exportVClusterKubeconfig :: "string \<Rightarrow> string \<Rightarrow> string \<Rightarrow> (gerror + string) prog" where
  "exportVClusterKubeconfig tenantID hostNamespace inClusterServer =
     defaultKubeconfigExporter tenantID hostNamespace inClusterServer"

text \<open>\<open>n\<close> is the number of timers that can still fire before the deadline.\<close>

fun waitVClusterReady_from :: "nat \<Rightarrow> string \<Rightarrow> string \<Rightarrow> gerror option prog" where
  "waitVClusterReady_from n tenantID hostNamespace =
     (let timeout = (\<lambda>err. Ret (Some (Errorf (''vCluster '' @ Quote tenantID @ '' in namespace '' @
            Quote hostNamespace @ '' not ready after 1m30s: '') err))) in
      bind (runKubectl [''rollout'', ''status'', ''statefulset/'' @ tenantID, ''-n'', hostNamespace, ''--timeout=5s''])
        (\<lambda>r. case r of
           None \<Rightarrow> Ret None
         | Some _ \<Rightarrow>
             SelectDone (\<lambda>d. case d of
               Some err \<Rightarrow> timeout err
             | None \<Rightarrow>
                 (case n of
                    0 \<Rightarrow> timeout DeadlineExceeded
                  | Suc m \<Rightarrow> waitVClusterReady_from m tenantID hostNamespace))))"

declare waitVClusterReady_from.simps [simp del]

definition waitVClusterReady :: "string \<Rightarrow> string \<Rightarrow> gerror option prog" where
  "waitVClusterReady tenantID hostNamespace = waitVClusterReady_from ready_polls tenantID hostNamespace"

section \<open>Create and delete\<close>

definition helm_values :: "string \<Rightarrow> string \<Rightarrow> string" where
  "helm_values podCIDR svcCIDR =
     ''vcluster:'' @ NL @ ''  extraArgs:'' @ NL @ ''    - --cluster-cidr='' @ podCIDR @ NL @
     ''    - --service-cidr='' @ svcCIDR @ NL"

definition create_args :: "VClusterConfig \<Rightarrow> string list" where
  "create_args cfg =
     [''create'', vc_TenantID cfg, ''--namespace'', vc_HostNamespace cfg,
      ''--chart-values'', helm_values (vc_PodCIDR cfg) (vc_SvcCIDR cfg),
      ''--connect=false'', ''--update-current=false'']"

definition CreateVCluster :: "VClusterConfig \<Rightarrow> (gerror + string) prog" where
  "CreateVCluster cfg =
     (case validateTenantID (vc_TenantID cfg) of
        Some e \<Rightarrow> Ret (Inl e)
      | None \<Rightarrow>
          if vc_HostNamespace cfg = []
          then Ret (Inl (Text ''provisioner: vCluster host namespace must not be empty''))
          else if vc_PodCIDR cfg = [] \<or> vc_SvcCIDR cfg = []
          then Ret (Inl (Text ''provisioner: vCluster pod and service CIDRs must not be empty''))
          else
            check (runVClusterCLI (create_args cfg))
              (\<lambda>e. Ret (Inl (Errorf (''provisioner: create vCluster for tenant '' @
                     Quote (vc_TenantID cfg) @ '': '') e)))
              (check (waitVClusterReady (vc_TenantID cfg) (vc_HostNamespace cfg))
                (\<lambda>e. Ret (Inl (Errorf (''provisioner: wait vCluster ready for tenant '' @
                       Quote (vc_TenantID cfg) @ '': '') e)))
                (let inClusterServer = ''https://'' @ vc_TenantID cfg @ ''.'' @ vc_HostNamespace cfg @
                       ''.svc.cluster.local:443'' in
                 attempt (exportVClusterKubeconfig (vc_TenantID cfg) (vc_HostNamespace cfg) inClusterServer)
                   (\<lambda>e. Ret (Inl (Errorf (''provisioner: export kubeconfig for tenant '' @
                          Quote (vc_TenantID cfg) @ '': '') e)))
                   (\<lambda>kubeconfigYAML. Ret (Inr kubeconfigYAML)))))"

definition isVClusterNotFound :: "gerror option \<Rightarrow> bool" where
  "isVClusterNotFound err = (case err of
     None \<Rightarrow> False
   | Some e \<Rightarrow>
       let msg = ToLower (Error_String e) in
       Contains msg ''not found'' \<or> Contains msg ''no virtual cluster'' \<or> Contains msg ''does not exist'')"

definition DeleteVCluster :: "string \<Rightarrow> string \<Rightarrow> gerror option prog" where
  "DeleteVCluster tenantID hostNamespace =
     (case validateTenantID tenantID of
        Some e \<Rightarrow> Ret (Some e)
      | None \<Rightarrow>
          check (runVClusterCLI [''delete'', tenantID, ''--namespace'', hostNamespace])
            (\<lambda>err. if isVClusterNotFound (Some err) then Ret None
                   else Ret (Some (Errorf (''provisioner: delete vCluster for tenant '' @
                          Quote tenantID @ '': '') err)))
            (Ret None))"

section \<open>Executions\<close>

text \<open>Commands change nothing but the log of commands.\<close>

definition only_cmds :: "sys \<Rightarrow> sys \<Rightarrow> bool" where
  "only_cmds s t \<longleftrightarrow> (\<exists>c. t = s\<lparr>cmds := cmds s @ c\<rparr>)"

lemma only_cmds_refl [simp]: "only_cmds s s"
  by (auto simp: only_cmds_def intro: exI [of _ "[]"])

lemma only_cmds_log [simp]: "only_cmds s (log_command a i out s)"
  by (auto simp: only_cmds_def log_command_def)

lemma only_cmds_trans [trans]: "only_cmds s t \<Longrightarrow> only_cmds t u \<Longrightarrow> only_cmds s u"
  by (auto simp: only_cmds_def)

lemma only_cmds_sel: "only_cmds s t \<Longrightarrow> db t = db s \<and> kv t = kv s \<and> spawned t = spawned s"
  by (auto simp: only_cmds_def)

lemma runKubectl_sem:
  "sem f (runKubectl args) s r t \<Longrightarrow> t = s\<lparr>cmds := cmds s @ [(''kubectl'' # args, [], r = None)]\<rparr> \<and>
     (r \<noteq> None \<longrightarrow> faulty f)"
  by (auto simp: runKubectl_def defaultKubectlRunner_def log_command_def command_reply_def split: option.splits)

lemma runVClusterCLI_sem:
  "sem f (runVClusterCLI args) s r t \<Longrightarrow> t = s\<lparr>cmds := cmds s @ [(''vcluster'' # args, [], r = None)]\<rparr> \<and>
     (r \<noteq> None \<longrightarrow> faulty f)"
  by (auto simp: runVClusterCLI_def defaultVClusterRunner_def log_command_def command_reply_def Let_def
      split: option.splits if_splits)

definition rollout_args :: "string \<Rightarrow> string \<Rightarrow> string list" where
  "rollout_args tid ns =
     [''kubectl'', ''rollout'', ''status'', ''statefulset/'' @ tid, ''-n'', ns, ''--timeout=5s'']"

lemma wait_step:
  assumes "sem f (waitVClusterReady_from n tid ns) s r t"
  shows "\<exists>x :: gerror option. let u = s\<lparr>cmds := cmds s @ [(rollout_args tid ns, [], x = None)]\<rparr> in
    (x = None \<and> r = None \<and> t = u) \<or> (x \<noteq> None \<and> r \<noteq> None \<and> t = u) \<or>
    (x \<noteq> None \<and> (\<exists>m. n = Suc m \<and> sem f (waitVClusterReady_from m tid ns) u r t))"
proof -
  from assms obtain x u where
    poll: "sem f (runKubectl [''rollout'', ''status'', ''statefulset/'' @ tid, ''-n'', ns, ''--timeout=5s'']) s x u"
    and rest: "sem f (case x of
           None \<Rightarrow> Ret None
         | Some _ \<Rightarrow>
             SelectDone (\<lambda>d. case d of
               Some err \<Rightarrow> Ret (Some (Errorf (''vCluster '' @ Quote tid @ '' in namespace '' @
                 Quote ns @ '' not ready after 1m30s: '') err))
             | None \<Rightarrow>
                 (case n of
                    0 \<Rightarrow> Ret (Some (Errorf (''vCluster '' @ Quote tid @ '' in namespace '' @
                 Quote ns @ '' not ready after 1m30s: '') DeadlineExceeded))
                  | Suc m \<Rightarrow> waitVClusterReady_from m tid ns))) u r t"
    unfolding waitVClusterReady_from.simps [of n] Let_def sem_bind by blast
  have u: "u = s\<lparr>cmds := cmds s @ [(rollout_args tid ns, [], x = None)]\<rparr>"
    using runKubectl_sem [OF poll] by (simp add: rollout_args_def)
  have "(x = None \<and> r = None \<and> t = u) \<or> (x \<noteq> None \<and> r \<noteq> None \<and> t = u) \<or>
      (x \<noteq> None \<and> (\<exists>m. n = Suc m \<and> sem f (waitVClusterReady_from m tid ns) u r t))"
  proof (cases x)
    case None
    then show ?thesis using rest by simp
  next
    case (Some e)
    then obtain d where "sem f (case d of
               Some err \<Rightarrow> Ret (Some (Errorf (''vCluster '' @ Quote tid @ '' in namespace '' @
                 Quote ns @ '' not ready after 1m30s: '') err))
             | None \<Rightarrow>
                 (case n of
                    0 \<Rightarrow> Ret (Some (Errorf (''vCluster '' @ Quote tid @ '' in namespace '' @
                 Quote ns @ '' not ready after 1m30s: '') DeadlineExceeded))
                  | Suc m \<Rightarrow> waitVClusterReady_from m tid ns)) u r t"
      using rest unfolding Some option.case sem_calls by blast
    then show ?thesis using Some by (cases d; cases n) simp_all
  qed
  then show ?thesis unfolding u by (intro exI [of _ x]) (simp only: Let_def)
qed

text \<open>
  The wait polls at most \<open>n + 1\<close> times; it succeeds exactly when its last poll does, and every
  poll before that failed.
\<close>

lemma wait_sem:
  "sem f (waitVClusterReady_from n tid ns) s r t \<Longrightarrow>
   \<exists>k\<le>n. t = s\<lparr>cmds := cmds s @ replicate k (rollout_args tid ns, [], False) @
            [(rollout_args tid ns, [], r = None)]\<rparr>"
proof (induction n arbitrary: s)
  case 0
  from wait_step [OF this] show ?case by (auto simp: Let_def)
next
  case (Suc n)
  from wait_step [OF Suc.prems] obtain x :: "gerror option" where x: "let u = s\<lparr>cmds := cmds s @ [(rollout_args tid ns, [], x = None)]\<rparr> in
    (x = None \<and> r = None \<and> t = u) \<or> (x \<noteq> None \<and> r \<noteq> None \<and> t = u) \<or>
    (x \<noteq> None \<and> sem f (waitVClusterReady_from n tid ns) u r t)" by auto
  let ?u = "s\<lparr>cmds := cmds s @ [(rollout_args tid ns, [], x = None)]\<rparr>"
  from x consider "x = None \<longleftrightarrow> r = None" "t = ?u" | "x \<noteq> None" "sem f (waitVClusterReady_from n tid ns) ?u r t"
    by (auto simp: Let_def)
  then show ?case
  proof cases
    case 1
    then show ?thesis by (intro exI [of _ 0]) simp
  next
    case 2
    from Suc.IH [OF 2(2)] obtain k where "k \<le> n" "t = ?u\<lparr>cmds := cmds ?u @ replicate k (rollout_args tid ns, [], False) @
            [(rollout_args tid ns, [], r = None)]\<rparr>" by blast
    then show ?thesis using 2(1) by (intro exI [of _ "Suc k"]) simp
  qed
qed

lemma export_sem:
  "sem f (exportVClusterKubeconfig tid ns srv) s r t \<Longrightarrow> \<exists>b. t = s\<lparr>cmds := cmds s @
     [([''vcluster'', ''connect'', tid, ''--namespace'', ns, ''--server'', srv, ''--print'',
        ''--update-current=false''], [], b)]\<rparr> \<and> (\<forall>kc. r = Inr kc \<longrightarrow> kc \<noteq> [] \<and> b)"
  by (auto simp: exportVClusterKubeconfig_def defaultKubeconfigExporter_def log_command_def Let_def
      split: option.splits if_splits)

text \<open>
  What a successful creation has done: the vCluster of this tenant created with these CIDRs, the
  last poll answered, the kubeconfig exported and not empty.
\<close>

lemma Create_ok:
  assumes "sem f (CreateVCluster cfg) s (Inr kc) t"
  shows "dns_label (vc_TenantID cfg) \<and> kc \<noteq> [] \<and> vc_PodCIDR cfg \<noteq> [] \<and> vc_SvcCIDR cfg \<noteq> [] \<and>
    (\<exists>polls k. k \<le> ready_polls \<and>
       polls = replicate k (rollout_args (vc_TenantID cfg) (vc_HostNamespace cfg), [], False) \<and>
       t = s\<lparr>cmds := cmds s @ [(''vcluster'' # create_args cfg, [], True)] @ polls @
         [(rollout_args (vc_TenantID cfg) (vc_HostNamespace cfg), [], True),
          ([''vcluster'', ''connect'', vc_TenantID cfg, ''--namespace'', vc_HostNamespace cfg, ''--server'',
            ''https://'' @ vc_TenantID cfg @ ''.'' @ vc_HostNamespace cfg @ ''.svc.cluster.local:443'',
            ''--print'', ''--update-current=false''], [], True)]\<rparr>)"
proof -
  let ?tid = "vc_TenantID cfg" and ?ns = "vc_HostNamespace cfg"
  let ?srv = "''https://'' @ ?tid @ ''.'' @ ?ns @ ''.svc.cluster.local:443''"
  have v: "validateTenantID ?tid = None"
    using assms by (cases "validateTenantID ?tid") (simp_all add: CreateVCluster_def)
  have ne: "?ns \<noteq> [] \<and> vc_PodCIDR cfg \<noteq> [] \<and> vc_SvcCIDR cfg \<noteq> []"
    using assms v by (auto simp: CreateVCluster_def split: if_splits)
  then have "\<exists>u w. sem f (runVClusterCLI (create_args cfg)) s None u \<and>
      sem f (waitVClusterReady ?tid ?ns) u None w \<and> sem f (exportVClusterKubeconfig ?tid ?ns ?srv) w (Inr kc) t"
    using assms v unfolding CreateVCluster_def Let_def
    by (simp add: ex_reply split: if_splits)
  then obtain u w where cr: "sem f (runVClusterCLI (create_args cfg)) s None u"
    and wt: "sem f (waitVClusterReady ?tid ?ns) u None w"
    and ex: "sem f (exportVClusterKubeconfig ?tid ?ns ?srv) w (Inr kc) t" by blast
  from wait_sem [OF wt [unfolded waitVClusterReady_def]] obtain k where k: "k \<le> ready_polls"
    and w: "w = u\<lparr>cmds := cmds u @ replicate k (rollout_args ?tid ?ns, [], False) @ [(rollout_args ?tid ?ns, [], True)]\<rparr>"
    by auto
  have u: "u = s\<lparr>cmds := cmds s @ [(''vcluster'' # create_args cfg, [], True)]\<rparr>"
    using runVClusterCLI_sem [OF cr] by simp
  have "dns_label ?tid" using v by (simp add: validateTenantID_None)
  moreover have "kc \<noteq> []" using export_sem [OF ex] by auto
  moreover have "t = s\<lparr>cmds := cmds s @ [(''vcluster'' # create_args cfg, [], True)] @
      replicate k (rollout_args ?tid ?ns, [], False) @
      [(rollout_args ?tid ?ns, [], True),
       ([''vcluster'', ''connect'', ?tid, ''--namespace'', ?ns, ''--server'', ?srv, ''--print'',
         ''--update-current=false''], [], True)]\<rparr>"
    using export_sem [OF ex] u w by auto
  ultimately show ?thesis using ne k by blast
qed

lemma Create_only_cmds: "sem f (CreateVCluster cfg) s r t \<Longrightarrow> only_cmds s t"
proof -
  have run: "only_cmds s t" if "sem f (runVClusterCLI a) s r t" for a s r t
    using runVClusterCLI_sem [OF that] by (auto simp: only_cmds_def)
  have wait: "only_cmds s t" if "sem f (waitVClusterReady a b) s r t" for a b s r t
    using wait_sem [OF that [unfolded waitVClusterReady_def]] by (auto simp: only_cmds_def)
  have export: "only_cmds s t" if "sem f (exportVClusterKubeconfig a b c) s r t" for a b c s r t
    using export_sem [OF that] by (auto simp: only_cmds_def)
  assume "sem f (CreateVCluster cfg) s r t"
  then show ?thesis unfolding CreateVCluster_def Let_def
    by (auto simp: ex_reply split: option.splits if_splits dest!: run wait export intro: only_cmds_trans)
qed

lemma Delete_only_cmds: "sem f (DeleteVCluster a b) s r t \<Longrightarrow> only_cmds s t"
proof -
  assume d: "sem f (DeleteVCluster a b) s r t"
  have run: "only_cmds s t" if "sem f (runVClusterCLI a) s r t" for a s r t
    using runVClusterCLI_sem [OF that] by (auto simp: only_cmds_def)
  show ?thesis using d unfolding DeleteVCluster_def
    by (auto simp: ex_reply split: option.splits if_splits dest!: run)
qed

text \<open>The bound on the wait: the loop ends after at most 31 polls.\<close>

lemma ready_polls_eq: "ready_polls = 30"
  by (simp add: ready_polls_def vClusterReadyTimeout_def vClusterPollInterval_def)

end
