(* ===== verification/Json.thy ===== *)
theory Json
  imports Prelude
begin

text \<open>
  What the sources use of \<open>encoding/json\<close>: the text \<open>Marshal\<close> writes (object keys in the given
  order, HTML characters and control characters escaped) and the value \<open>Unmarshal\<close> reads. Both
  replace the bytes of a string that are not UTF-8 by U+FFFD, so \<open>parse_json_print\<close> is the round
  trip for values whose strings are UTF-8.
\<close>

section \<open>Values and printing\<close>

datatype json =
    JNull
  | JBool bool
  | JNum string
  | JStr string
  | JArr "json list"
  | JObj "(string \<times> json) list"

definition u_escape :: "nat \<Rightarrow> string" where
  "u_escape n = [CHR 0x5C, CHR ''u'', CHR ''0'', CHR ''0'', hex_char (n div 16), hex_char (n mod 16)]"

definition escape_char :: "char \<Rightarrow> string" where
  "escape_char c =
     (let n = of_char c :: nat in
      if n = 34 \<or> n = 92 then [CHR 0x5C, c]
      else if n = 8 then [CHR 0x5C, CHR ''b'']
      else if n = 12 then [CHR 0x5C, CHR ''f'']
      else if n = 10 then [CHR 0x5C, CHR ''n'']
      else if n = 13 then [CHR 0x5C, CHR ''r'']
      else if n = 9 then [CHR 0x5C, CHR ''t'']
      else if n < 32 \<or> n \<in> {38, 60, 62} then u_escape n
      else [c])"

text \<open>\<open>utf8.DecodeRune\<close>: the length of the rune a string starts with, none for an invalid byte.\<close>

fun conts :: "(nat \<times> nat) list \<Rightarrow> string \<Rightarrow> bool" where
  "conts [] s = True"
| "conts (b # bs) [] = False"
| "conts ((lo, hi) # bs) (c # s) = (lo \<le> (of_char c :: nat) \<and> (of_char c :: nat) \<le> hi \<and> conts bs s)"

definition rune_conts :: "nat \<Rightarrow> (nat \<times> nat) list option" where
  "rune_conts n =
     (if n < 128 then Some []
      else if 194 \<le> n \<and> n \<le> 223 then Some [(128, 191)]
      else if n = 224 then Some [(160, 191), (128, 191)]
      else if n = 237 then Some [(128, 159), (128, 191)]
      else if 225 \<le> n \<and> n \<le> 239 then Some [(128, 191), (128, 191)]
      else if n = 240 then Some [(144, 191), (128, 191), (128, 191)]
      else if 241 \<le> n \<and> n \<le> 243 then Some [(128, 191), (128, 191), (128, 191)]
      else if n = 244 then Some [(128, 143), (128, 191), (128, 191)]
      else None)"

definition rune_len :: "char \<Rightarrow> string \<Rightarrow> nat option" where
  "rune_len c s = (case rune_conts (of_char c) of
     Some bs \<Rightarrow> if conts bs s then Some (length bs) else None | None \<Rightarrow> None)"

definition replacement :: string where "replacement = [CHR 0xEF, CHR 0xBF, CHR 0xBD]"

text \<open>\<open>rune_len\<close> counts the bytes after the first. U+2028 and U+2029 are escaped too.\<close>

function escape :: "string \<Rightarrow> string" where
  "escape [] = []"
| "escape (c # s) = (case rune_len c s of
     None \<Rightarrow> CHR 0x5C # ''ufffd'' @ escape s
   | Some n \<Rightarrow>
       (if n = 0 then escape_char c
        else if c # take n s = [CHR 0xE2, CHR 0x80, CHR 0xA8] then CHR 0x5C # ''u2028''
        else if c # take n s = [CHR 0xE2, CHR 0x80, CHR 0xA9] then CHR 0x5C # ''u2029''
        else c # take n s) @ escape (drop n s))"
  by pat_completeness auto
termination by (relation "measure length") auto

definition json_string :: "string \<Rightarrow> string" where
  "json_string s = CHR 0x22 # escape s @ [CHR 0x22]"

fun Marshal :: "json \<Rightarrow> string"
  and Marshal_elems :: "json list \<Rightarrow> string"
  and Marshal_fields :: "(string \<times> json) list \<Rightarrow> string" where
  "Marshal JNull = ''null''"
| "Marshal (JBool b) = (if b then ''true'' else ''false'')"
| "Marshal (JNum s) = s"
| "Marshal (JStr s) = json_string s"
| "Marshal (JArr js) = CHR ''['' # Marshal_elems js"
| "Marshal (JObj fs) = CHR ''{'' # Marshal_fields fs"
| "Marshal_elems [] = '']''"
| "Marshal_elems [j] = Marshal j @ '']''"
| "Marshal_elems (j # k # js) = Marshal j @ '','' @ Marshal_elems (k # js)"
| "Marshal_fields [] = ''}''"
| "Marshal_fields [(n, j)] = json_string n @ '':'' @ Marshal j @ ''}''"
| "Marshal_fields ((n, j) # f # fs) = json_string n @ '':'' @ Marshal j @ '','' @ Marshal_fields (f # fs)"

section \<open>Parsing\<close>

definition json_space :: "char \<Rightarrow> bool" where
  "json_space c \<longleftrightarrow> (of_char c :: nat) \<in> {32, 9, 10, 13}"

definition skip :: "string \<Rightarrow> string" where
  "skip s = dropWhile json_space s"

definition hex_val :: "char \<Rightarrow> nat option" where
  "hex_val c = (let n = of_char c :: nat in
     if 48 \<le> n \<and> n \<le> 57 then Some (n - 48)
     else if 97 \<le> n \<and> n \<le> 102 then Some (n - 87)
     else if 65 \<le> n \<and> n \<le> 70 then Some (n - 55)
     else None)"

fun hex4 :: "string \<Rightarrow> (nat \<times> string) option" where
  "hex4 (a # b # c # d # s) =
     (case (hex_val a, hex_val b, hex_val c, hex_val d) of
        (Some a, Some b, Some c, Some d) \<Rightarrow> Some (((a * 16 + b) * 16 + c) * 16 + d, s)
      | _ \<Rightarrow> None)"
| "hex4 _ = None"

definition byte :: "nat \<Rightarrow> char" where "byte n = char_of n"

definition utf8_encode :: "nat \<Rightarrow> string" where
  "utf8_encode n =
     (if n < 128 then [byte n]
      else if n < 2048 then [byte (192 + n div 64), byte (128 + n mod 64)]
      else if n < 65536 then [byte (224 + n div 4096), byte (128 + n div 64 mod 64), byte (128 + n mod 64)]
      else [byte (240 + n div 262144), byte (128 + n div 4096 mod 64), byte (128 + n div 64 mod 64),
            byte (128 + n mod 64)])"

text \<open>
  The rune of a \<open>\<backslash>u\<close> escape: a surrogate pair is one rune, a lone surrogate is U+FFFD.
\<close>

definition u_rune :: "string \<Rightarrow> (string \<times> string) option" where
  "u_rune s = (case hex4 s of
     None \<Rightarrow> None
   | Some (n, r) \<Rightarrow>
       if 55296 \<le> n \<and> n < 57344 then
         (case r of
            b # u # r' \<Rightarrow>
              (if b = CHR 0x5C \<and> u = CHR ''u'' \<and> n < 56320 then
                 (case hex4 r' of
                    Some (m, r'') \<Rightarrow>
                      if 56320 \<le> m \<and> m < 57344
                      then Some (utf8_encode (65536 + (n - 55296) * 1024 + (m - 56320)), r'')
                      else Some (utf8_encode 65533, r)
                  | None \<Rightarrow> Some (utf8_encode 65533, r))
               else Some (utf8_encode 65533, r))
          | _ \<Rightarrow> Some (utf8_encode 65533, r))
       else Some (utf8_encode n, r))"

definition simple_escape :: "char \<Rightarrow> char option" where
  "simple_escape c = map_of
     [(CHR 0x22, CHR 0x22), (CHR 0x5C, CHR 0x5C), (CHR ''/'', CHR ''/''), (CHR ''b'', CHR 0x08),
      (CHR ''f'', CHR 0x0C), (CHR ''n'', CHR 0x0A), (CHR ''r'', CHR 0x0D), (CHR ''t'', CHR 0x09)] c"

lemma u_rune_shorter: "u_rune s = Some (x, r) \<Longrightarrow> length r < length s"
proof -
  have h: "hex4 s = Some (n, r) \<Longrightarrow> length r < length s" for s n r
    by (induction s rule: hex4.induct) (auto split: option.splits)
  assume "u_rune s = Some (x, r)"
  then show ?thesis
    by (auto simp: u_rune_def split: option.splits if_splits list.splits dest!: h)
qed

function parse_chars :: "string \<Rightarrow> (string \<times> string) option" where
  "parse_chars s = (case s of
     [] \<Rightarrow> None
   | c # r \<Rightarrow>
       if c = CHR 0x22 then Some ([], r)
       else if c = CHR 0x5C then
         (case r of
            [] \<Rightarrow> None
          | e # r' \<Rightarrow>
              if e = CHR ''u'' then
                (case u_rune r' of
                   None \<Rightarrow> None
                 | Some (x, r'') \<Rightarrow> map_option (map_prod ((@) x) id) (parse_chars r''))
              else
                (case simple_escape e of
                   None \<Rightarrow> None
                 | Some x \<Rightarrow> map_option (map_prod ((#) x) id) (parse_chars r')))
       else if (of_char c :: nat) < 32 then None
       else (case rune_len c r of
          None \<Rightarrow> map_option (map_prod ((@) replacement) id) (parse_chars r)
        | Some n \<Rightarrow> map_option (map_prod ((@) (c # take n r)) id) (parse_chars (drop n r))))"
  by pat_completeness auto
termination by (relation "measure length") (auto dest: u_rune_shorter)

declare parse_chars.simps [simp del]

definition number_char :: "char \<Rightarrow> bool" where
  "number_char c \<longleftrightarrow> (48 \<le> (of_char c :: nat) \<and> (of_char c :: nat) \<le> 57) \<or> c \<in> {CHR ''-'', CHR ''+'', CHR ''.'', CHR ''e'', CHR ''E''}"

definition digit :: "char \<Rightarrow> bool" where
  "digit c \<longleftrightarrow> 48 \<le> (of_char c :: nat) \<and> (of_char c :: nat) \<le> 57"

text \<open>The JSON number grammar.\<close>

definition valid_exp :: "string \<Rightarrow> bool" where
  "valid_exp s \<longleftrightarrow> (case s of
     [] \<Rightarrow> True
   | c # r \<Rightarrow> c \<in> {CHR ''e'', CHR ''E''} \<and>
       (let d = (case r of x # r' \<Rightarrow> if x \<in> {CHR ''+'', CHR ''-''} then r' else r | [] \<Rightarrow> []) in
        d \<noteq> [] \<and> list_all digit d))"

definition valid_frac :: "string \<Rightarrow> bool" where
  "valid_frac s \<longleftrightarrow> (case s of
     [] \<Rightarrow> True
   | c # r \<Rightarrow> if c = CHR ''.'' then takeWhile digit r \<noteq> [] \<and> valid_exp (dropWhile digit r)
             else valid_exp s)"

definition valid_number :: "string \<Rightarrow> bool" where
  "valid_number s \<longleftrightarrow>
     (let u = (case s of c # r \<Rightarrow> if c = CHR ''-'' then r else s | [] \<Rightarrow> []); i = takeWhile digit u in
      i \<noteq> [] \<and> (hd i = CHR ''0'' \<longrightarrow> length i = 1) \<and> valid_frac (dropWhile digit u))"

definition literal :: "string \<Rightarrow> 'a \<Rightarrow> string \<Rightarrow> ('a \<times> string) option" where
  "literal w v s = (if HasPrefix s w then Some (v, drop (length w) s) else None)"

fun parse_value :: "nat \<Rightarrow> string \<Rightarrow> (json \<times> string) option"
  and parse_elems :: "nat \<Rightarrow> string \<Rightarrow> (json list \<times> string) option"
  and parse_fields :: "nat \<Rightarrow> string \<Rightarrow> ((string \<times> json) list \<times> string) option" where
  "parse_value 0 s = None"
| "parse_value (Suc n) s = (case skip s of
     [] \<Rightarrow> None
   | c # r \<Rightarrow>
       if c = CHR 0x22 then map_option (map_prod JStr id) (parse_chars r)
       else if c = CHR ''{'' then
         (case skip r of
            d # r' \<Rightarrow> if d = CHR ''}'' then Some (JObj [], r')
                     else map_option (map_prod JObj id) (parse_fields n r)
          | [] \<Rightarrow> None)
       else if c = CHR ''['' then
         (case skip r of
            d # r' \<Rightarrow> if d = CHR '']'' then Some (JArr [], r')
                     else map_option (map_prod JArr id) (parse_elems n r)
          | [] \<Rightarrow> None)
       else if c = CHR ''t'' then literal ''true'' (JBool True) (c # r)
       else if c = CHR ''f'' then literal ''false'' (JBool False) (c # r)
       else if c = CHR ''n'' then literal ''null'' JNull (c # r)
       else
         (let num = takeWhile number_char (c # r) in
          if valid_number num then Some (JNum num, dropWhile number_char (c # r)) else None))"
| "parse_elems 0 s = None"
| "parse_elems (Suc n) s = (case parse_value n s of
     None \<Rightarrow> None
   | Some (v, r) \<Rightarrow>
       (case skip r of
          [] \<Rightarrow> None
        | c # r' \<Rightarrow>
            if c = CHR '']'' then Some ([v], r')
            else if c = CHR '','' then map_option (map_prod ((#) v) id) (parse_elems n r')
            else None))"
| "parse_fields 0 s = None"
| "parse_fields (Suc n) s = (case skip s of
     [] \<Rightarrow> None
   | q # r0 \<Rightarrow>
       if q \<noteq> CHR 0x22 then None
       else (case parse_chars r0 of
          None \<Rightarrow> None
        | Some (name, r1) \<Rightarrow>
            (case skip r1 of
               [] \<Rightarrow> None
             | d # r2 \<Rightarrow>
                 if d \<noteq> CHR '':'' then None
                 else (case parse_value n r2 of
                    None \<Rightarrow> None
                  | Some (v, r) \<Rightarrow>
                      (case skip r of
                         [] \<Rightarrow> None
                       | c # r' \<Rightarrow>
                           if c = CHR ''}'' then Some ([(name, v)], r')
                           else if c = CHR '','' then map_option (map_prod ((#) (name, v)) id) (parse_fields n r')
                           else None)))))"

text \<open>\<open>json.Unmarshal\<close>: one value and nothing but white space after it.\<close>

definition parse_json :: "string \<Rightarrow> json option" where
  "parse_json s = (case parse_value (Suc (length s)) s of
     Some (v, r) \<Rightarrow> if skip r = [] then Some v else None
   | None \<Rightarrow> None)"

section \<open>Round trip\<close>

text \<open>\<open>to_valid\<close> is \<open>strings.ToValidUTF8\<close> with U+FFFD for each invalid byte.\<close>

function to_valid :: "string \<Rightarrow> string" where
  "to_valid [] = []"
| "to_valid (c # s) = (case rune_len c s of
     None \<Rightarrow> replacement @ to_valid s | Some n \<Rightarrow> c # take n s @ to_valid (drop n s))"
  by pat_completeness auto
termination by (relation "measure length") auto

definition utf8 :: "string \<Rightarrow> bool" where
  "utf8 s \<longleftrightarrow> to_valid s = s"

definition ascii :: "string \<Rightarrow> bool" where
  "ascii s \<longleftrightarrow> (\<forall>c\<in>set s. (of_char c :: nat) < 128)"

lemma rune_len_ascii [simp]: "(of_char c :: nat) < 128 \<Longrightarrow> rune_len c s = Some 0"
  by (simp add: rune_len_def rune_conts_def)

lemma ascii_utf8: "ascii s \<Longrightarrow> utf8 s"
  unfolding utf8_def by (induction s) (auto simp: ascii_def)

lemma conts_append: "conts bs s \<Longrightarrow> conts bs (take (length bs) s @ t)"
  by (induction bs s rule: conts.induct) auto

lemma rune_len_append: "rune_len c s = Some n \<Longrightarrow> rune_len c (take n s @ t) = Some n"
  by (auto simp: rune_len_def conts_append split: option.splits if_splits)

lemma conts_length: "conts bs s \<Longrightarrow> length bs \<le> length s"
  by (induction bs s rule: conts.induct) auto

lemma rune_len_length: "rune_len c s = Some n \<Longrightarrow> n \<le> length s"
  by (auto simp: rune_len_def conts_length split: option.splits if_splits)

lemma rune_len_0: "rune_len c s = Some 0 \<Longrightarrow> (of_char c :: nat) < 128"
  by (auto simp: rune_len_def rune_conts_def split: option.splits if_splits)

lemma append_singleton: "(@) [x] = (#) x" by auto

lemma hex_val_hex_char [simp]: "k < 16 \<Longrightarrow> hex_val (hex_char k) = Some k"
  by (auto simp: hex_val_def hex_char_def Let_def)

lemma hex4_u: "n < 256 \<Longrightarrow> hex4 (drop 2 (u_escape n) @ s) = Some (n, s)"
proof -
  assume "n < 256"
  then have "n div 16 < 16" by (simp add: less_mult_imp_div_less)
  then show ?thesis by (simp add: u_escape_def hex_val_def [of "CHR ''0''"] Let_def)
qed

lemma parse_chars_u:
  assumes "n < 128"
  shows "parse_chars (u_escape n @ s) = map_option (map_prod ((#) (char_of n)) id) (parse_chars s)"
proof -
  have "u_rune (drop 2 (u_escape n) @ s) = Some ([char_of n], s)"
    using assms hex4_u [of n s] by (simp add: u_rune_def utf8_encode_def byte_def)
  moreover have e: "u_escape n @ s = CHR 0x5C # CHR ''u'' # (drop 2 (u_escape n) @ s)"
    by (simp add: u_escape_def)
  ultimately show ?thesis unfolding e by (subst parse_chars.simps) (simp add: append_singleton)
qed

lemma parse_chars_simple:
  "simple_escape e = Some x \<Longrightarrow> e \<noteq> CHR ''u'' \<Longrightarrow>
     parse_chars (CHR 0x5C # e # s) = map_option (map_prod ((#) x) id) (parse_chars s)"
  by (subst parse_chars.simps) simp

lemma parse_chars_plain:
  "c \<noteq> CHR 0x22 \<Longrightarrow> c \<noteq> CHR 0x5C \<Longrightarrow> 32 \<le> (of_char c :: nat) \<Longrightarrow> (of_char c :: nat) < 128 \<Longrightarrow>
     parse_chars (c # s) = map_option (map_prod ((#) c) id) (parse_chars s)"
  by (subst parse_chars.simps) (simp add: append_singleton)

text \<open>A rune of more than one byte is read as it is.\<close>

lemma parse_chars_rune:
  assumes "rune_len c s = Some n" "n \<noteq> 0"
  shows "parse_chars (c # take n s @ t) = map_option (map_prod ((@) (c # take n s)) id) (parse_chars t)"
proof -
  have "\<not> (of_char c :: nat) < 128" using assms by auto
  then have "c \<noteq> CHR 0x22" "c \<noteq> CHR 0x5C" "\<not> (of_char c :: nat) < 32" by auto
  then show ?thesis using rune_len_append [OF assms(1), of t] rune_len_length [OF assms(1)]
    by (subst parse_chars.simps) simp
qed

lemma parse_chars_hex:
  assumes "hex4 [a, b, c, d] = Some (n, [])" "\<not> (55296 \<le> n \<and> n < 57344)"
  shows "parse_chars (CHR 0x5C # CHR ''u'' # a # b # c # d # t) = map_option (map_prod ((@) (utf8_encode n)) id) (parse_chars t)"
proof -
  have "hex4 (a # b # c # d # t) = Some (n, t)" using assms(1) by (auto split: option.splits)
  then have "u_rune (a # b # c # d # t) = Some (utf8_encode n, t)"
    using assms(2) by (auto simp: u_rune_def simp del: hex4.simps)
  then show ?thesis by (subst parse_chars.simps) simp
qed

lemma char_by_code: "(of_char c :: nat) = n \<Longrightarrow> c = char_of n"
  by (metis char_of_char)

lemma code_chars:
  "(char_of (34::nat) :: char) = CHR 0x22" "(char_of (92::nat) :: char) = CHR 0x5C"
  "(char_of (8::nat) :: char) = CHR 0x08" "(char_of (12::nat) :: char) = CHR 0x0C"
  "(char_of (10::nat) :: char) = CHR 0x0A" "(char_of (13::nat) :: char) = CHR 0x0D"
  "(char_of (9::nat) :: char) = CHR 0x09"
  by code_simp+

lemma parse_chars_escape:
  assumes "(of_char c :: nat) < 128"
  shows "parse_chars (escape_char c @ s) = map_option (map_prod ((#) c) id) (parse_chars s)"
proof -
  let ?n = "of_char c :: nat"
  consider "?n = 34 \<or> ?n = 92" | "?n = 8" | "?n = 12" | "?n = 10" | "?n = 13" | "?n = 9"
    | (esc) "?n < 32 \<or> ?n \<in> {38, 60, 62}" "?n \<notin> {8, 9, 10, 12, 13}"
    | (plain) "\<not> ?n < 32" "?n \<notin> {34, 92, 38, 60, 62}" by auto
  then show ?thesis
  proof cases
    case 1
    then have "escape_char c = [CHR 0x5C, c]" "c = CHR 0x22 \<or> c = CHR 0x5C"
      by (auto simp: escape_char_def Let_def code_chars dest: char_by_code)
    then show ?thesis by (auto simp: parse_chars_simple simple_escape_def)
  next
    case esc
    then have "escape_char c = u_escape ?n" by (auto simp: escape_char_def Let_def)
    then show ?thesis using parse_chars_u [OF assms, of s] by simp
  next
    case plain
    then have "escape_char c = [c]" "c \<noteq> CHR 0x22" "c \<noteq> CHR 0x5C"
      by (auto simp: escape_char_def Let_def)
    then show ?thesis using plain assms by (simp add: parse_chars_plain)
  qed (simp_all add: escape_char_def Let_def parse_chars_simple simple_escape_def,
       (drule char_by_code, simp add: code_chars)+)
qed

lemma escaped_runes:
  "parse_chars (CHR 0x5C # ''ufffd'' @ t) = map_option (map_prod ((@) replacement) id) (parse_chars t)"
  "parse_chars (CHR 0x5C # ''u2028'' @ t) = map_option (map_prod ((@) [CHR 0xE2, CHR 0x80, CHR 0xA8]) id) (parse_chars t)"
  "parse_chars (CHR 0x5C # ''u2029'' @ t) = map_option (map_prod ((@) [CHR 0xE2, CHR 0x80, CHR 0xA9]) id) (parse_chars t)"
proof -
  have h: "hex4 ''fffd'' = Some (65533, [])" "hex4 ''2028'' = Some (8232, [])" "hex4 ''2029'' = Some (8233, [])"
    by (simp_all add: hex_val_def)
  have u: "utf8_encode 65533 = replacement" "utf8_encode 8232 = [CHR 0xE2, CHR 0x80, CHR 0xA8]"
    "utf8_encode 8233 = [CHR 0xE2, CHR 0x80, CHR 0xA9]"
    by (simp_all add: utf8_encode_def byte_def replacement_def char_of_def bit_iff_odd)
  show "parse_chars (CHR 0x5C # ''ufffd'' @ t) = map_option (map_prod ((@) replacement) id) (parse_chars t)"
    "parse_chars (CHR 0x5C # ''u2028'' @ t) = map_option (map_prod ((@) [CHR 0xE2, CHR 0x80, CHR 0xA8]) id) (parse_chars t)"
    "parse_chars (CHR 0x5C # ''u2029'' @ t) = map_option (map_prod ((@) [CHR 0xE2, CHR 0x80, CHR 0xA9]) id) (parse_chars t)"
    using parse_chars_hex [OF h(1), of t] parse_chars_hex [OF h(2), of t] parse_chars_hex [OF h(3), of t]
    unfolding u append_Cons append_Nil by simp_all
qed

lemma parse_chars_string: "parse_chars (escape s @ CHR 0x22 # r) = Some (to_valid s, r)"
proof (induction s rule: escape.induct)
  case 1
  then show ?case by (subst parse_chars.simps) simp
next
  case (2 c s)
  show ?case
  proof (cases "rune_len c s")
    case None
    then show ?thesis using 2 escaped_runes(1) [of "escape s @ CHR 0x22 # r"] by simp
  next
    case (Some n)
    note IH = 2(2) [OF Some]
    show ?thesis
    proof (cases "n = 0")
      case True
      then show ?thesis using IH Some rune_len_0 [of c s] by (simp add: parse_chars_escape)
    next
      case False
      then show ?thesis
        using IH Some parse_chars_rune [OF Some False, of "escape (drop n s) @ CHR 0x22 # r"]
          escaped_runes(2,3) [of "escape (drop n s) @ CHR 0x22 # r"] by (auto simp: append_assoc)
    qed
  qed
qed

fun json_ok :: "json \<Rightarrow> bool" and jsons_ok :: "json list \<Rightarrow> bool"
  and fields_ok :: "(string \<times> json) list \<Rightarrow> bool" where
  "json_ok JNull = True"
| "json_ok (JBool b) = True"
| "json_ok (JNum s) = False"
| "json_ok (JStr s) = utf8 s"
| "json_ok (JArr js) = jsons_ok js"
| "json_ok (JObj fs) = fields_ok fs"
| "jsons_ok [] = True"
| "jsons_ok (j # js) = (json_ok j \<and> jsons_ok js)"
| "fields_ok [] = True"
| "fields_ok ((n, j) # fs) = (utf8 n \<and> json_ok j \<and> fields_ok fs)"

lemma skip_simps [simp]:
  "skip [] = []" "skip (CHR 0x22 # s) = CHR 0x22 # s" "skip (CHR '','' # s) = CHR '','' # s"
  "skip (CHR '':'' # s) = CHR '':'' # s" "skip (CHR ''{'' # s) = CHR ''{'' # s"
  "skip (CHR ''}'' # s) = CHR ''}'' # s" "skip (CHR ''['' # s) = CHR ''['' # s"
  "skip (CHR '']'' # s) = CHR '']'' # s" "skip (CHR ''t'' # s) = CHR ''t'' # s"
  "skip (CHR ''f'' # s) = CHR ''f'' # s" "skip (CHR ''n'' # s) = CHR ''n'' # s"
  by (simp_all add: skip_def json_space_def)

lemma Marshal_first:
  "json_ok j \<Longrightarrow> \<exists>c s. Marshal j = c # s \<and> c \<noteq> CHR '']'' \<and> (\<forall>t. skip (c # t) = c # t)"
  by (cases j) (auto simp: json_string_def)

lemma Marshal_fields_first:
  "fs \<noteq> [] \<Longrightarrow> \<exists>s. Marshal_fields fs = CHR 0x22 # s"
  by (cases fs rule: remdups_adj.cases) (auto simp: json_string_def)

lemma Marshal_elems_first:
  "js \<noteq> [] \<Longrightarrow> jsons_ok js \<Longrightarrow> \<exists>c s. Marshal_elems js = c # s \<and> c \<noteq> CHR '']'' \<and> (\<forall>t. skip (c # t) = c # t)"
  using Marshal_first by (cases js rule: remdups_adj.cases) fastforce+

text \<open>Parsing undoes printing; \<open>n\<close> is the fuel.\<close>

lemma parse_Marshal:
  "json_ok j \<Longrightarrow> length (Marshal j) < n \<Longrightarrow> parse_value n (Marshal j @ r) = Some (j, r)"
  "jsons_ok js \<Longrightarrow> js \<noteq> [] \<Longrightarrow> length (Marshal_elems js) < n \<Longrightarrow>
     parse_elems n (Marshal_elems js @ r) = Some (js, r)"
  "fields_ok fs \<Longrightarrow> fs \<noteq> [] \<Longrightarrow> length (Marshal_fields fs) < n \<Longrightarrow>
     parse_fields n (Marshal_fields fs @ r) = Some (fs, r)"
proof (induction j and js and fs arbitrary: n r and n r and n r rule: Marshal_Marshal_elems_Marshal_fields.induct)
  case 1
  then show ?case by (cases n) (auto simp: literal_def HasPrefix_def)
next
  case (2 b)
  then show ?case by (cases n; cases b) (auto simp: literal_def HasPrefix_def)
next
  case (3 s)
  then show ?case by simp
next
  case (4 s)
  then show ?case using parse_chars_string [of s r] by (cases n) (auto simp: json_string_def utf8_def)
next
  case (5 js)
  then obtain m where n: "n = Suc m" by (cases n) auto
  show ?case
  proof (cases "js = []")
    case True
    then show ?thesis by (simp add: n)
  next
    case False
    with 5 obtain c s where "Marshal_elems js = c # s" "c \<noteq> CHR '']''" "\<forall>t. skip (c # t) = c # t"
      using Marshal_elems_first [OF False] by auto
    then show ?thesis using 5 False by (auto simp: n)
  qed
next
  case (6 fs)
  then obtain m where n: "n = Suc m" by (cases n) auto
  show ?case
  proof (cases "fs = []")
    case True
    then show ?thesis by (simp add: n)
  next
    case False
    with 6 obtain s where "Marshal_fields fs = CHR 0x22 # s" using Marshal_fields_first by blast
    then show ?thesis using 6 False by (auto simp: n)
  qed
next
  case 7
  then show ?case by simp
next
  case (8 j)
  then show ?case by (cases n) auto
next
  case (9 j k js)
  then show ?case by (cases n) auto
next
  case 10
  then show ?case by simp
next
  case (11 name j)
  then show ?case using parse_chars_string [of name]
    by (cases n) (auto simp: json_string_def utf8_def)
next
  case (12 name j f fs)
  then show ?case using parse_chars_string [of name]
    by (cases n) (auto simp: json_string_def utf8_def)
qed

lemma parse_json_print: "json_ok j \<Longrightarrow> parse_json (Marshal j) = Some j"
  using parse_Marshal(1) [of j "Suc (length (Marshal j))" "[]"] by (simp add: parse_json_def)

end
