(* ===== verification/ProvisionerService.thy ===== *)
theory ProvisionerService
  imports VCluster ApiKey TenantStore JobStore Cidr Json
begin

text \<open>
  \<open>services/provisioner/service\<close>: the provisioner service. Its three store interfaces
  (\<open>tenantManager\<close>, \<open>jobQueuer\<close>, \<open>apiKeyManager\<close>) are records of operations; \<open>New\<close> fills
  them with the stores. The two background workflows are programs of their own, which \<open>Provision\<close>
  and \<open>Deprovision\<close> start with \<open>Go\<close>. Logging is not modelled; BLAKE2b (\<open>New256\<close>) and
  \<open>uuid.Parse\<close> are arguments.
\<close>

section \<open>Models\<close>

record ProvisionParams =
  pp_TenantSlug :: string

record DeprovisionParams =
  dp_TenantSlug :: string

record VPCProvisionResult =
  vpr_PodCIDR :: string
  vpr_SvcCIDR :: string
  vpr_APIKey :: string
  vpr_APIKeyID :: uuid

record JobResult =
  jr_VPCResult :: "VPCProvisionResult option"
  jr_Status :: string
  jr_ErrorMessage :: string
  jr_JobID :: uuid

section \<open>Transformations\<close>

text \<open>
  \<open>json.Unmarshal\<close> into the anonymous struct: the values of a field are those of the members whose
  name matches it (ASCII case folded), in order; a null leaves the field as it is.
\<close>

definition members :: "string \<Rightarrow> (string \<times> json) list \<Rightarrow> json list" where
  "members name fs = map snd (filter (\<lambda>(n, _). ToLower n = ToLower name) fs)"

fun decode_string :: "json list \<Rightarrow> string \<Rightarrow> string option" where
  "decode_string [] d = Some d"
| "decode_string (JStr s # r) d = decode_string r s"
| "decode_string (JNull # r) d = decode_string r d"
| "decode_string (_ # r) d = None"

fun decode_uuid :: "(string \<Rightarrow> uuid option) \<Rightarrow> json list \<Rightarrow> uuid \<Rightarrow> uuid option" where
  "decode_uuid uuid_Parse [] d = Some d"
| "decode_uuid uuid_Parse (JStr s # r) d =
     (case uuid_Parse s of Some i \<Rightarrow> decode_uuid uuid_Parse r i | None \<Rightarrow> None)"
| "decode_uuid uuid_Parse (JNull # r) d = decode_uuid uuid_Parse r d"
| "decode_uuid uuid_Parse (_ # r) d = None"

fun decode_vpc_info :: "json list \<Rightarrow> string \<times> string \<Rightarrow> (string \<times> string) option" where
  "decode_vpc_info [] d = Some d"
| "decode_vpc_info (JObj fs # r) (pod, svc) =
     (case (decode_string (members ''pod_cidr'' fs) pod, decode_string (members ''service_cidr'' fs) svc) of
        (Some pod, Some svc) \<Rightarrow> decode_vpc_info r (pod, svc)
      | _ \<Rightarrow> None)"
| "decode_vpc_info (JNull # r) d = decode_vpc_info r d"
| "decode_vpc_info (_ # r) d = None"

definition parseVPCResult :: "(string \<Rightarrow> uuid option) \<Rightarrow> string \<Rightarrow> VPCProvisionResult option" where
  "parseVPCResult uuid_Parse blob =
     (case (case parse_json blob of
              Some (JObj fs) \<Rightarrow> Some fs
            | Some JNull \<Rightarrow> Some []
            | _ \<Rightarrow> None) of
        None \<Rightarrow> None
      | Some fs \<Rightarrow>
          (case (decode_vpc_info (members ''vpc_info'' fs) ([], []),
                 decode_string (members ''api_key'' fs) [],
                 decode_uuid uuid_Parse (members ''api_key_id'' fs) uuid_Nil) of
             (Some (pod, svc), Some key, Some kid) \<Rightarrow>
               Some \<lparr>vpr_PodCIDR = pod, vpr_SvcCIDR = svc, vpr_APIKey = key, vpr_APIKeyID = kid\<rparr>
           | _ \<Rightarrow> None))"

definition ToJobResultFromAccountsJob :: "(string \<Rightarrow> uuid option) \<Rightarrow> ProvisioningJob \<Rightarrow> JobResult" where
  "ToJobResultFromAccountsJob uuid_Parse j =
     \<lparr>jr_VPCResult = (if Job_Status j = JobStatusReady \<and> Job_Result j \<noteq> []
        then parseVPCResult uuid_Parse (Job_Result j) else None),
      jr_Status = Job_Status j, jr_ErrorMessage = Job_ErrorMessage j, jr_JobID = Job_JobID j\<rparr>"

definition ToAccountsJobOperation :: "string \<Rightarrow> JobOperation" where
  "ToAccountsJobOperation op =
     (if op = ''PROVISION_VPC'' then JobOperationProvisionVPC
      else if op = ''DEPROVISION_VPC'' then JobOperationDeprovisionVPC
      else JobOperationProvisionVPC)"

section \<open>Dependencies\<close>

record tenantManager =
  tm_GetBySlug :: "string \<Rightarrow> (gerror + Tenant) prog"
  tm_SetCIDRs :: "uuid \<Rightarrow> string \<Rightarrow> string \<Rightarrow> gerror option prog"
  tm_UpdateStatus :: "uuid \<Rightarrow> TenantStatus \<Rightarrow> gerror option prog"

record jobQueuer =
  jq_Enqueue :: "uuid \<Rightarrow> string \<Rightarrow> JobOperation \<Rightarrow> (gerror + uuid) prog"
  jq_Get :: "uuid \<Rightarrow> uuid \<Rightarrow> (gerror + ProvisioningJob) prog"
  jq_Claim :: "uuid \<Rightarrow> uuid \<Rightarrow> (gerror + bool) prog"
  jq_Complete :: "uuid \<Rightarrow> uuid \<Rightarrow> string \<Rightarrow> gerror option prog"
  jq_Fail :: "uuid \<Rightarrow> uuid \<Rightarrow> string \<Rightarrow> gerror option prog"

record apiKeyManager =
  km_Store :: "APIKey \<Rightarrow> gerror option prog"
  km_RevokeByHash :: "string \<Rightarrow> gerror option prog"

record CFProvisionerService =
  svc_tenants :: tenantManager
  svc_jobs :: jobQueuer
  svc_keys :: apiKeyManager

definition newWithIfaces :: "tenantManager \<Rightarrow> jobQueuer \<Rightarrow> apiKeyManager \<Rightarrow> CFProvisionerService" where
  "newWithIfaces tenants' jobs keys = \<lparr>svc_tenants = tenants', svc_jobs = jobs, svc_keys = keys\<rparr>"

definition store_tenantManager :: tenantManager where
  "store_tenantManager = \<lparr>tm_GetBySlug = TenantStore_GetBySlug, tm_SetCIDRs = TenantStore_SetCIDRs,
     tm_UpdateStatus = TenantStore_UpdateStatus\<rparr>"

definition store_jobQueuer :: jobQueuer where
  "store_jobQueuer = \<lparr>jq_Enqueue = JobStore_Enqueue, jq_Get = JobStore_Get, jq_Claim = JobStore_Claim,
     jq_Complete = JobStore_Complete, jq_Fail = JobStore_Fail\<rparr>"

definition store_apiKeyManager :: apiKeyManager where
  "store_apiKeyManager = \<lparr>km_Store = APIKeyStore_Store, km_RevokeByHash = APIKeyStore_RevokeByHash\<rparr>"

definition New :: CFProvisionerService where
  "New = \<lparr>svc_tenants = store_tenantManager, svc_jobs = store_jobQueuer, svc_keys = store_apiKeyManager\<rparr>"

section \<open>Operations\<close>

definition Provision :: "CFProvisionerService \<Rightarrow> ProvisionParams \<Rightarrow> (gerror + uuid) prog" where
  "Provision s p =
     (let idemKey = ''provision-vpc:'' @ pp_TenantSlug p in
      attempt (jq_Enqueue (svc_jobs s) uuid_Nil idemKey JobOperationProvisionVPC)
        (\<lambda>e. Ret (Inl (Errorf ''enqueue provision job: '' e)))
        (\<lambda>jobID. Go (RunProvisionWorkflow jobID (pp_TenantSlug p)) (Ret (Inr jobID))))"

definition GetJob :: "(string \<Rightarrow> uuid option) \<Rightarrow> CFProvisionerService \<Rightarrow> uuid \<Rightarrow> (gerror + JobResult) prog" where
  "GetJob uuid_Parse s jobID =
     attempt (jq_Get (svc_jobs s) uuid_Nil jobID)
       (\<lambda>e. if errors_Is e (Sentinel accounts_ErrJobNotFound) then Ret (Inl (Sentinel provisionersvc_ErrJobNotFound))
            else Ret (Inl (Errorf ''get job: '' e)))
       (\<lambda>job. Ret (Inr (ToJobResultFromAccountsJob uuid_Parse job)))"

definition Deprovision :: "CFProvisionerService \<Rightarrow> DeprovisionParams \<Rightarrow> (gerror + uuid) prog" where
  "Deprovision s p =
     attempt (tm_GetBySlug (svc_tenants s) (dp_TenantSlug p))
       (\<lambda>e. if errors_Is e (Sentinel accounts_ErrTenantNotFound)
            then Ret (Inl (Sentinel provisionersvc_ErrTenantNotFound))
            else Ret (Inl (Errorf ''lookup tenant for deprovision: '' e)))
       (\<lambda>tenant. Today (\<lambda>day.
          let idemKey = ''deprovision-vpc:'' @ dp_TenantSlug p @ '':'' @ day in
          attempt (jq_Enqueue (svc_jobs s) (TenantID tenant) idemKey JobOperationDeprovisionVPC)
            (\<lambda>e. Ret (Inl (Errorf ''enqueue deprovision job: '' e)))
            (\<lambda>jobID. Go (RunDeprovisionWorkflow jobID tenant) (Ret (Inr jobID)))))"

text \<open>The service as the interface its callers see.\<close>

record ProvisionerService =
  ps_Provision :: "ProvisionParams \<Rightarrow> (gerror + uuid) prog"
  ps_GetJob :: "uuid \<Rightarrow> (gerror + JobResult) prog"
  ps_Deprovision :: "DeprovisionParams \<Rightarrow> (gerror + uuid) prog"

definition provisioner_service :: "(string \<Rightarrow> uuid option) \<Rightarrow> CFProvisionerService \<Rightarrow> ProvisionerService" where
  "provisioner_service uuid_Parse s =
     \<lparr>ps_Provision = Provision s, ps_GetJob = GetJob uuid_Parse s, ps_Deprovision = Deprovision s\<rparr>"

section \<open>Cluster helpers\<close>

definition kubectlApplyBytes :: "string \<Rightarrow> gerror option prog" where
  "kubectlApplyBytes manifest =
     Command [''kubectl'', ''apply'', ''-f'', ''-''] manifest (\<lambda>out. case exit_err out of
       Some err \<Rightarrow> Ret (Some (Wrap ''kubectl apply: '' err ('': '' @ TrimSpace (cmd_stderr out))))
     | None \<Rightarrow> Ret None)"

definition createNamespace :: "string \<Rightarrow> gerror option prog" where
  "createNamespace ns =
     Command [''kubectl'', ''create'', ''namespace'', ns, ''--dry-run=client'', ''-o'', ''yaml''] [] (\<lambda>out.
       case exit_err out of
         Some err \<Rightarrow> Ret (Some (Errorf ''kubectl dry-run namespace: '' err))
       | None \<Rightarrow> kubectlApplyBytes (cmd_stdout out))"

definition applyIsolationPolicies :: "string \<Rightarrow> gerror option prog" where
  "applyIsolationPolicies ns =
     (case TenantIsolationPolicy ns of
        Inl e \<Rightarrow> Ret (Some e)
      | Inr isolation \<Rightarrow>
          check (kubectlApplyBytes isolation)
            (\<lambda>e. Ret (Some (Errorf ''apply tenant-isolation: '' e)))
            (case ProvisionerAccessPolicy ns of
               Inl e \<Rightarrow> Ret (Some e)
             | Inr access \<Rightarrow>
                 check (kubectlApplyBytes access)
                   (\<lambda>e. Ret (Some (Errorf ''apply provisioner-access: '' e)))
                   (Ret None)))"

definition failJob :: "CFProvisionerService \<Rightarrow> uuid \<Rightarrow> uuid \<Rightarrow> string \<Rightarrow> gerror \<Rightarrow> unit prog" where
  "failJob s tenantID jobID step err =
     bind (jq_Fail (svc_jobs s) tenantID jobID (step @ '': '' @ Error_String err)) (\<lambda>_. Ret ())"

section \<open>Workflows\<close>

definition result_json :: "GeneratedAPIKey \<Rightarrow> CIDRPair \<Rightarrow> string" where
  "result_json generated cidrPair = Marshal (JObj
     [(''api_key'', JStr (Gen_RawKey generated)),
      (''api_key_id'', JStr (uuid_String (Key_KeyID (Gen_Record generated)))),
      (''key_hash'', JStr (Gen_KeyHash generated)),
      (''vpc_info'', JObj
         [(''pod_cidr'', JStr (Pair_PodCIDR cidrPair)),
          (''service_cidr'', JStr (Pair_SvcCIDR cidrPair)),
          (''vcluster_ready'', JBool True)])])"

definition fixed_cidrs :: CIDRPair where
  "fixed_cidrs = \<lparr>Pair_PodCIDR = ''10.100.1.0/24'', Pair_SvcCIDR = ''10.200.1.0/24''\<rparr>"

text \<open>Steps 8 to 10, from the API key to the READY job.\<close>

definition finish_provision ::
    "hasher \<Rightarrow> CFProvisionerService \<Rightarrow> uuid \<Rightarrow> Tenant \<Rightarrow> CIDRPair \<Rightarrow> unit prog" where
  "finish_provision New256 s jobID tenant cidrPair =
     attempt (GenerateAPIKey New256 (km_Store (svc_keys s)) (TenantID tenant)
                (DisplayName tenant @ '' default key'') ''provision:write,provision:read'')
       (failJob s (TenantID tenant) jobID ''generate api key'')
       (\<lambda>generated.
         check (tm_SetCIDRs (svc_tenants s) (TenantID tenant) (Pair_PodCIDR cidrPair) (Pair_SvcCIDR cidrPair))
           (failJob s (TenantID tenant) jobID ''set CIDRs'')
           (check (tm_UpdateStatus (svc_tenants s) (TenantID tenant) TenantStatusActive)
             (failJob s (TenantID tenant) jobID ''set tenant ACTIVE'')
             (bind (jq_Complete (svc_jobs s) (TenantID tenant) jobID (result_json generated cidrPair))
               (\<lambda>_. Ret ()))))"

text \<open>Steps 4 to 7, for the tenant found, then the rest.\<close>

definition provision_tenant ::
    "hasher \<Rightarrow> CFProvisionerService \<Rightarrow> uuid \<Rightarrow> string \<Rightarrow> Tenant \<Rightarrow> unit prog" where
  "provision_tenant New256 s jobID slug tenant =
     (let cidrPair = fixed_cidrs; hostNamespace = ''tenant-'' @ slug in
      check (createNamespace hostNamespace)
        (failJob s (TenantID tenant) jobID ''create namespace'')
        (check (applyIsolationPolicies hostNamespace)
          (failJob s (TenantID tenant) jobID ''apply Cilium policies'')
          (attempt (CreateVCluster \<lparr>vc_TenantID = slug, vc_HostNamespace = hostNamespace,
                      vc_PodCIDR = Pair_PodCIDR cidrPair, vc_SvcCIDR = Pair_SvcCIDR cidrPair\<rparr>)
            (failJob s (TenantID tenant) jobID ''create vCluster'')
            (\<lambda>kubeconfigYAML.
              check (Store slug kubeconfigYAML)
                (failJob s (TenantID tenant) jobID ''store kubeconfig'')
                (finish_provision New256 s jobID tenant cidrPair)))))"

definition runProvisionWorkflow ::
    "hasher \<Rightarrow> CFProvisionerService \<Rightarrow> uuid \<Rightarrow> string \<Rightarrow> unit prog" where
  "runProvisionWorkflow New256 s jobID slug =
     attempt (jq_Claim (svc_jobs s) uuid_Nil jobID)
       (\<lambda>_. Ret ())
       (\<lambda>claimed.
         if \<not> claimed then Ret ()
         else
           attempt (tm_GetBySlug (svc_tenants s) slug)
             (\<lambda>e. if errors_Is e (Sentinel accounts_ErrTenantNotFound)
                  then bind (jq_Fail (svc_jobs s) uuid_Nil jobID (''tenant not found: '' @ slug)) (\<lambda>_. Ret ())
                  else failJob s uuid_Nil jobID ''get tenant record'' e)
             (\<lambda>tenant. provision_tenant New256 s jobID slug tenant))"

definition runDeprovisionWorkflow :: "CFProvisionerService \<Rightarrow> uuid \<Rightarrow> Tenant \<Rightarrow> unit prog" where
  "runDeprovisionWorkflow s jobID tenant =
     bind (jq_Claim (svc_jobs s) (TenantID tenant) jobID) (\<lambda>r.
       if r \<noteq> Inr True then Ret ()
       else
         let hostNamespace = ''tenant-'' @ Slug tenant in
         check (Revoke (Slug tenant))
           (failJob s (TenantID tenant) jobID ''revoke kubeconfig'')
           (check (DeleteVCluster (Slug tenant) hostNamespace)
             (failJob s (TenantID tenant) jobID ''delete vCluster'')
             (check (tm_UpdateStatus (svc_tenants s) (TenantID tenant) TenantStatusDeleted)
               (failJob s (TenantID tenant) jobID ''set tenant DELETED'')
               (bind (jq_Complete (svc_jobs s) (TenantID tenant) jobID
                        (Marshal (JObj [(''deprovisioned'', JBool True)])))
                 (\<lambda>_. Ret ())))))"

text \<open>What a started goroutine runs.\<close>

primrec goroutine_prog :: "hasher \<Rightarrow> CFProvisionerService \<Rightarrow> goroutine \<Rightarrow> unit prog" where
  "goroutine_prog New256 s (RunProvisionWorkflow jobID slug) = runProvisionWorkflow New256 s jobID slug"
| "goroutine_prog New256 s (RunDeprovisionWorkflow jobID tenant) = runDeprovisionWorkflow s jobID tenant"

lemma New_sel [simp]:
  "svc_tenants New = store_tenantManager" "svc_jobs New = store_jobQueuer" "svc_keys New = store_apiKeyManager"
  "tm_GetBySlug store_tenantManager = TenantStore_GetBySlug" "tm_SetCIDRs store_tenantManager = TenantStore_SetCIDRs"
  "tm_UpdateStatus store_tenantManager = TenantStore_UpdateStatus" "jq_Enqueue store_jobQueuer = JobStore_Enqueue"
  "jq_Get store_jobQueuer = JobStore_Get" "jq_Claim store_jobQueuer = JobStore_Claim"
  "jq_Complete store_jobQueuer = JobStore_Complete" "jq_Fail store_jobQueuer = JobStore_Fail"
  "km_Store store_apiKeyManager = APIKeyStore_Store"
  by (simp_all add: New_def store_tenantManager_def store_jobQueuer_def store_apiKeyManager_def)

lemma provisioner_service_sel [simp]:
  "ps_Provision (provisioner_service P s) = Provision s" "ps_GetJob (provisioner_service P s) = GetJob P s"
  "ps_Deprovision (provisioner_service P s) = Deprovision s"
  by (simp_all add: provisioner_service_def)

section \<open>Outcomes\<close>

lemma Provision_sem:
  "sem f (Provision New p) s r t \<longleftrightarrow>
     (\<exists>r0 u. sem f (JobStore_Enqueue uuid_Nil (''provision-vpc:'' @ pp_TenantSlug p) JobOperationProvisionVPC) s r0 u \<and>
        (case r0 of
           Inl e \<Rightarrow> r = Inl (Errorf ''enqueue provision job: '' e) \<and> t = u
         | Inr j \<Rightarrow> r = Inr j \<and>
             t = u\<lparr>spawned := spawned u @ [RunProvisionWorkflow j (pp_TenantSlug p)]\<rparr>))"
  by (auto simp: Provision_def Let_def ex_reply simp del: Enqueue_Inr)

lemma Provision_failed:
  assumes "sem f (Provision New p) s (Inl e) t"
  shows "faulty f \<and> (\<forall>n. \<not> errors_Is e (Sentinel n)) \<and> same_outside s t"
  using assms Enqueue_Inl by (auto simp: Provision_sem ex_reply)

lemma Deprovision_failed:
  assumes "sem f (Deprovision New p) s (Inl e) t"
  shows "(e = Sentinel provisionersvc_ErrTenantNotFound \<and> (\<nexists>i. tenant_has (db s) i (dp_TenantSlug p)) \<and> t = s) \<or>
    (faulty f \<and> (\<forall>n. \<not> errors_Is e (Sentinel n)) \<and> same_outside s t)"
proof -
  from assms obtain q u where q: "sem f (TenantStore_GetBySlug (dp_TenantSlug p)) s q u"
    and r: "sem f (case q of
        Inl e \<Rightarrow> if errors_Is e (Sentinel accounts_ErrTenantNotFound)
            then Ret (Inl (Sentinel provisionersvc_ErrTenantNotFound))
            else Ret (Inl (Errorf ''lookup tenant for deprovision: '' e))
      | Inr tenant \<Rightarrow> Today (\<lambda>day.
          let idemKey = ''deprovision-vpc:'' @ dp_TenantSlug p @ '':'' @ day in
          attempt (JobStore_Enqueue (TenantID tenant) idemKey JobOperationDeprovisionVPC)
            (\<lambda>e. Ret (Inl (Errorf ''enqueue deprovision job: '' e)))
            (\<lambda>jobID. Go (RunDeprovisionWorkflow jobID tenant) (Ret (Inr jobID))))) u (Inl e) t"
    unfolding Deprovision_def sem_bind New_sel by blast
  show ?thesis
  proof (cases q)
    case (Inl c)
    then show ?thesis using GetBySlug_sem [OF q] r by (auto split: if_splits)
  next
    case (Inr tn)
    then show ?thesis using GetBySlug_sem [OF q] r Enqueue_Inl by (auto simp: Let_def ex_reply)
  qed
qed

end
