(* ===== verification/ProvisionerFacts.thy ===== *)
theory ProvisionerFacts
  imports ProvisionerService
begin

text \<open>
  What the provisioning workflows do on every execution: the commands they issue and in which
  order, which rows they write, and what must have happened before a tenant becomes ACTIVE or
  DELETED. The locale \<open>table_stores\<close> is what the workflows rely on of their store interfaces (they
  touch nothing but the tables); its interpretation is the service that \<open>New\<close> builds.
\<close>

section \<open>Commands\<close>

definition is_create :: "string list \<Rightarrow> bool" where
  "is_create c \<longleftrightarrow> take 2 c = [''vcluster'', ''create'']"

type_synonym command_log = "(string list \<times> string \<times> bool) list"

definition apply_ok :: "string \<Rightarrow> string list \<times> string \<times> bool" where
  "apply_ok doc = ([''kubectl'', ''apply'', ''-f'', ''-''], doc, True)"

definition no_create :: "command_log \<Rightarrow> bool" where
  "no_create cs \<longleftrightarrow> (\<forall>c\<in>set cs. \<not> is_create (fst c))"

text \<open>Both isolation policies of the namespace have been applied.\<close>

definition isolated :: "string \<Rightarrow> command_log \<Rightarrow> bool" where
  "isolated ns cs \<longleftrightarrow> (\<exists>iso acc. TenantIsolationPolicy ns = Inr iso \<and> ProvisionerAccessPolicy ns = Inr acc \<and>
     apply_ok iso \<in> set cs \<and> apply_ok acc \<in> set cs)"

text \<open>Every \<open>vcluster create\<close> of the log comes after both.\<close>

definition guarded :: "string \<Rightarrow> command_log \<Rightarrow> bool" where
  "guarded ns cs \<longleftrightarrow> (\<forall>pre c post. cs = pre @ c # post \<longrightarrow> is_create (fst c) \<longrightarrow> isolated ns pre)"

lemma guarded_no_create: "no_create cs \<Longrightarrow> guarded ns cs"
  by (auto simp: guarded_def no_create_def)

lemma isolated_append: "isolated ns a \<Longrightarrow> isolated ns (a @ b)"
  unfolding isolated_def set_append by blast

lemma guarded_append:
  assumes "no_create a" and "isolated ns a"
  shows "guarded ns (a @ b)"
  unfolding guarded_def
proof (intro allI impI)
  fix pre c post assume eq: "a @ b = pre @ c # post" and "is_create (fst c)"
  then have "\<exists>us. pre = a @ us"
    using assms(1) by (auto simp: append_eq_append_conv2 no_create_def append_eq_Cons_conv)
  then show "isolated ns pre" using assms(2) isolated_append by blast
qed

definition runs :: "sys \<Rightarrow> command_log \<Rightarrow> sys \<Rightarrow> bool" where
  "runs s new t \<longleftrightarrow> cmds t = cmds s @ new"

lemma runs_refl [simp]: "runs s [] s"
  by (simp add: runs_def)

lemma runs_trans: "runs s a t \<Longrightarrow> runs t b u \<Longrightarrow> runs s (a @ b) u"
  by (simp add: runs_def)

lemma runs_same [dest]: "same_outside s t \<Longrightarrow> runs s [] t"
  by (simp add: same_outside_def runs_def)

lemma apply_sem:
  "sem f (kubectlApplyBytes doc) s r t \<Longrightarrow>
     t = s\<lparr>cmds := cmds s @ [([''kubectl'', ''apply'', ''-f'', ''-''], doc, r = None)]\<rparr>"
  by (auto simp: kubectlApplyBytes_def log_command_def split: option.splits)

lemma createNamespace_sem:
  assumes "sem f (createNamespace ns) s r t"
  shows "\<exists>new. t = s\<lparr>cmds := cmds s @ new\<rparr> \<and> no_create new"
proof -
  from assms obtain out where
    "sem f (case exit_err out of
         Some err \<Rightarrow> Ret (Some (Errorf ''kubectl dry-run namespace: '' err))
       | None \<Rightarrow> kubectlApplyBytes (cmd_stdout out))
       (log_command [''kubectl'', ''create'', ''namespace'', ns, ''--dry-run=client'', ''-o'', ''yaml''] [] out s) r t"
    unfolding createNamespace_def sem_calls by blast
  then obtain last where t: "t = s\<lparr>cmds := cmds s @
      ([''kubectl'', ''create'', ''namespace'', ns, ''--dry-run=client'', ''-o'', ''yaml''], [], exit_err out = None) # last\<rparr>"
    and last: "last = [] \<or> (\<exists>b. last = [([''kubectl'', ''apply'', ''-f'', ''-''], cmd_stdout out, b)])"
    by (cases "exit_err out") (auto simp: log_command_def dest!: apply_sem)
  have "no_create (([''kubectl'', ''create'', ''namespace'', ns, ''--dry-run=client'', ''-o'', ''yaml''], [],
      exit_err out = None) # last)"
    using last by (auto simp: no_create_def is_create_def)
  with t show ?thesis by (intro exI conjI)
qed

lemma policies_sem:
  assumes "sem f (applyIsolationPolicies ns) s r t"
  shows "\<exists>new. t = s\<lparr>cmds := cmds s @ new\<rparr> \<and> no_create new \<and> (r = None \<longrightarrow> isolated ns new)"
proof (cases "TenantIsolationPolicy ns")
  case (Inl e)
  then show ?thesis using assms
    by (auto simp: applyIsolationPolicies_def no_create_def intro!: exI [of _ "[]"])
next
  case (Inr iso)
  then have "dns_label ns" unfolding TenantIsolationPolicy_def using render_ok_iff by blast
  then obtain acc where acc: "ProvisionerAccessPolicy ns = Inr acc"
    by (auto simp: ProvisionerAccessPolicy_def validateNamespace_iff [symmetric])
  have "sem f (check (kubectlApplyBytes iso) (\<lambda>e. Ret (Some (Errorf ''apply tenant-isolation: '' e)))
      (check (kubectlApplyBytes acc) (\<lambda>e. Ret (Some (Errorf ''apply provisioner-access: '' e))) (Ret None))) s r t"
    using assms unfolding applyIsolationPolicies_def Inr acc by simp
  then show ?thesis
  proof (cases rule: checkE)
    case (fail e u)
    then have r: "r \<noteq> None" and t: "t = s\<lparr>cmds := cmds s @ [([''kubectl'', ''apply'', ''-f'', ''-''], iso, False)]\<rparr>"
      using apply_sem [OF fail(1)] by auto
    have "no_create [([''kubectl'', ''apply'', ''-f'', ''-''], iso, False)]"
      by (simp add: no_create_def is_create_def)
    with t r show ?thesis by blast
  next
    case (ok u)
    from ok(2) obtain y where y: "sem f (kubectlApplyBytes acc) u y t" "r = None \<longleftrightarrow> y = None"
      by (cases rule: checkE) auto
    let ?new = "[([''kubectl'', ''apply'', ''-f'', ''-''], iso, True), ([''kubectl'', ''apply'', ''-f'', ''-''], acc, y = None)]"
    have t: "t = s\<lparr>cmds := cmds s @ ?new\<rparr>"
      using apply_sem [OF ok(1)] apply_sem [OF y(1)] by simp
    have "no_create ?new" by (simp add: no_create_def is_create_def)
    moreover have "r = None \<longrightarrow> isolated ns ?new"
      using y(2) Inr acc by (simp add: isolated_def apply_ok_def)
    ultimately show ?thesis using t by blast
  qed
qed

lemma createNamespace_runs: "sem f (createNamespace ns) s r t \<Longrightarrow> \<exists>new. runs s new t \<and> no_create new"
  unfolding runs_def using createNamespace_sem [of f ns s r t] by fastforce

lemma policies_runs: "sem f (applyIsolationPolicies ns) s r t \<Longrightarrow>
    \<exists>new. runs s new t \<and> no_create new \<and> (r = None \<longrightarrow> isolated ns new)"
  unfolding runs_def using policies_sem [of f ns s r t] by fastforce

lemma vcluster_runs: "sem f (CreateVCluster cfg) s r t \<Longrightarrow> \<exists>new. runs s new t"
  unfolding runs_def using Create_only_cmds [of f cfg s r t] by (fastforce simp: only_cmds_def)

lemma no_create_append [simp]: "no_create (a @ b) \<longleftrightarrow> no_create a \<and> no_create b"
  by (auto simp: no_create_def)

lemma isolated_later: "isolated ns b \<Longrightarrow> isolated ns (a @ b)"
  unfolding isolated_def set_append by blast

lemma kubeconfig_Store_frame:
  "sem f (Store tid yaml) s r t \<Longrightarrow> db t = db s \<and> cmds t = cmds s \<and> spawned t = spawned s"
  by (cases "validateTenantID tid"; cases r) (auto simp: Store_def ex_reply split: if_splits)

lemma kubeconfig_Revoke_frame:
  "sem f (Revoke tid) s r t \<Longrightarrow> db t = db s \<and> cmds t = cmds s \<and> spawned t = spawned s"
  by (cases "validateTenantID tid"; cases r) (auto simp: Revoke_def ex_reply)

section \<open>What the workflows need of the stores\<close>

locale table_stores =
  fixes S :: CFProvisionerService
  assumes tables: "db_only (tm_GetBySlug (svc_tenants S) x)"
      "db_only (tm_SetCIDRs (svc_tenants S) i p v)" "db_only (tm_UpdateStatus (svc_tenants S) i st)"
      "db_only (jq_Claim (svc_jobs S) i j)" "db_only (jq_Complete (svc_jobs S) i j res)"
      "db_only (jq_Fail (svc_jobs S) i j msg)" "db_only (km_Store (svc_keys S) k)"
begin

lemma failJob_tables [simp]: "db_only (failJob S i j step e)"
  using tables by (auto simp: failJob_def intro!: db_only_bind)

lemma finish_tables: "db_only (finish_provision H S j T c)"
  unfolding finish_provision_def GenerateAPIKey_def newRawKeyAndHash_def
  using tables by (auto simp: Let_def intro!: db_only_bind split: sum.splits option.splits)

lemma provision_tenant_guarded:
  assumes "sem f (provision_tenant H S j x T) s a t"
  shows "\<exists>new. runs s new t \<and> guarded (''tenant-'' @ x) new"
proof -
  let ?ns = "''tenant-'' @ x"
  have tail: "runs u [] t" if "sem f (failJob S i j step e) u b t" for u i step e b
    using sem_db_only [OF that] by auto
  have short: "\<exists>new. runs s new t \<and> guarded ?ns new" if "runs s cs u" "no_create cs" "runs u [] t" for u cs
    using runs_trans [OF that(1,3)] guarded_no_create [OF that(2)] by auto
  from assms [unfolded provision_tenant_def Let_def] show ?thesis
  proof (cases rule: checkE)
    case (fail e u)
    then show ?thesis using createNamespace_runs [OF fail(1)] short tail by blast
  next
    case (ok u)
    from createNamespace_runs [OF ok(1)] obtain c1 where c1: "runs s c1 u" "no_create c1" by blast
    from ok(2) show ?thesis
    proof (cases rule: checkE)
      case (fail e v)
      from policies_runs [OF fail(1)] obtain c2 where "runs u c2 v" "no_create c2" by blast
      then show ?thesis using short [OF runs_trans [OF c1(1)]] c1(2) tail [OF fail(2)] by simp
    next
      case (ok v)
      from policies_runs [OF ok(1)] obtain c2 where c2: "runs u c2 v" "no_create c2" "isolated ?ns c2"
        by blast
      have pre: "runs s (c1 @ c2) v" "no_create (c1 @ c2)" "isolated ?ns (c1 @ c2)"
        using runs_trans [OF c1(1) c2(1)] c1(2) c2(2) isolated_later [OF c2(3)] by simp_all
      have "\<exists>c3. runs v c3 t" using ok(2)
      proof (cases rule: attemptE)
        case (fail e w)
        then show ?thesis using vcluster_runs [OF fail(1)] tail [OF fail(2)] runs_trans by blast
      next
        case (ok kc w)
        from vcluster_runs [OF ok(1)] obtain c3 where c3: "runs v c3 w" by blast
        have "runs w [] t" using ok(2)
        proof (cases rule: checkE)
          case (fail e z)
          then show ?thesis using kubeconfig_Store_frame [OF fail(1)] tail [OF fail(2)] by (simp add: runs_def)
        next
          case (ok z)
          then show ?thesis using kubeconfig_Store_frame [OF ok(1)] sem_db_only [OF ok(2) finish_tables]
            by (simp add: runs_def same_outside_def)
        qed
        then show ?thesis using runs_trans [OF c3] by blast
      qed
      then obtain c3 where "runs v c3 t" by blast
      from runs_trans [OF pre(1) this] guarded_append [OF pre(2,3)] show ?thesis by blast
    qed
  qed
qed

lemma workflow_guarded:
  assumes "sem f (runProvisionWorkflow H S j x) s a t"
  shows "\<exists>new. runs s new t \<and> guarded (''tenant-'' @ x) new"
proof -
  have g: "\<exists>new. runs s new t \<and> guarded (''tenant-'' @ x) new" if "runs s [] t"
    using that guarded_no_create by (auto simp: no_create_def)
  from assms [unfolded runProvisionWorkflow_def] show ?thesis
  proof (cases rule: attemptE)
    case (fail e u)
    then show ?thesis using sem_db_only [OF fail(1) tables(4)] g by auto
  next
    case (ok claimed u)
    then have u: "runs s [] u" using sem_db_only [OF ok(1) tables(4)] by auto
    show ?thesis
    proof (cases claimed)
      case False
      then show ?thesis using ok(2) u g by simp
    next
      case True
      then have "sem f (attempt (tm_GetBySlug (svc_tenants S) x)
             (\<lambda>e. if errors_Is e (Sentinel accounts_ErrTenantNotFound)
                  then bind (jq_Fail (svc_jobs S) uuid_Nil j (''tenant not found: '' @ x)) (\<lambda>_. Ret ())
                  else failJob S uuid_Nil j ''get tenant record'' e)
             (\<lambda>tenant. provision_tenant H S j x tenant)) u a t" using ok(2) by simp
      then show ?thesis
      proof (cases rule: attemptE)
        case (fail e v)
        have "db_only (if errors_Is e (Sentinel accounts_ErrTenantNotFound)
            then bind (jq_Fail (svc_jobs S) uuid_Nil j (''tenant not found: '' @ x)) (\<lambda>_. Ret ())
            else failJob S uuid_Nil j ''get tenant record'' e)" using tables by simp
        then show ?thesis using sem_db_only [OF fail(1) tables(1)] sem_db_only [OF fail(2)] u g
          by (auto simp: runs_def same_outside_def)
      next
        case (ok T v)
        then have "runs s [] v" using sem_db_only [OF ok(1) tables(1)] u by (auto simp: runs_def same_outside_def)
        then show ?thesis using provision_tenant_guarded [OF ok(2)] runs_trans by (metis append_Nil)
      qed
    qed
  qed
qed

end

interpretation store_tables: table_stores New
  by unfold_locales
     (auto simp: TenantStore_defs JobStore_Claim_def JobStore_Complete_def JobStore_Fail_def APIKeyStore_Store_def
       intro!: db_only_bind split: sum.splits)

section \<open>Tenant status\<close>

definition tenant_status :: "cf_db \<Rightarrow> uuid \<Rightarrow> string option" where
  "tenant_status d i = (case tenants d i of None \<Rightarrow> None | Some r \<Rightarrow> col_status r)"

text \<open>The statements that leave every tenant status as it is.\<close>

fun quiet_cas :: "cas_stmt \<Rightarrow> bool" where
  "quiet_cas (InsertTenant i r) = False"
| "quiet_cas c = True"

fun quiet_exec :: "exec_stmt \<Rightarrow> bool" where
  "quiet_exec (UpdateTenantStatus i st n) = False"
| "quiet_exec x = True"

lemma quiet_status:
  assumes "sem f p s a t" and "issues quiet_cas quiet_exec p"
  shows "tenant_status (db t) = tenant_status (db s)"
proof (rule sem_issues [OF assms, where rel = "\<lambda>d e. tenant_status e = tenant_status d"])
  show "tenant_status (cas_effect c d) = tenant_status d" if "quiet_cas c" for c d
    using that by (cases c) (auto simp: cas_effect_def tenant_status_def fun_eq_iff)
  show "tenant_status (exec_effect x d) = tenant_status d" if "quiet_exec x" for x d
    using that by (cases x) (auto simp: tenant_status_def fun_eq_iff null_tenant_def row_or_def split: option.splits)
qed auto

lemma issues_Command [simp]: "issues P Q (kubectlApplyBytes d)" "issues P Q (createNamespace ns)"
  "issues P Q (runVClusterCLI a)" "issues P Q (runKubectl a)" "issues P Q (exportVClusterKubeconfig a' b c)"
  by (auto simp: kubectlApplyBytes_def createNamespace_def runVClusterCLI_def defaultVClusterRunner_def
      runKubectl_def defaultKubectlRunner_def exportVClusterKubeconfig_def defaultKubeconfigExporter_def Let_def
      split: option.splits)

lemma issues_wait [simp]: "issues P Q (waitVClusterReady_from n a b)"
proof (induction n)
  case 0
  then show ?case by (subst waitVClusterReady_from.simps) (auto simp: Let_def split: option.splits)
next
  case (Suc n)
  then show ?case by (subst waitVClusterReady_from.simps) (auto simp: Let_def split: option.splits)
qed

lemma issues_cluster [simp]: "issues P Q (applyIsolationPolicies ns)" "issues P Q (CreateVCluster cfg)"
  "issues P Q (DeleteVCluster a b)" "issues P Q (Store a' b')" "issues P Q (Revoke a'')"
  by (auto simp: applyIsolationPolicies_def CreateVCluster_def DeleteVCluster_def Store_def Revoke_def
      waitVClusterReady_def Let_def split: sum.splits option.splits)

lemma failJob_quiet [simp]: "issues quiet_cas quiet_exec (failJob New i j step e)"
  by (auto simp: failJob_def JobStore_Fail_def)

lemma store_quiet [simp]:
  "issues quiet_cas quiet_exec (JobStore_Claim i j)" "issues quiet_cas quiet_exec (JobStore_Complete i j res)"
  "issues quiet_cas quiet_exec (JobStore_Fail i j msg)" "issues quiet_cas quiet_exec (TenantStore_GetBySlug x)"
  "issues quiet_cas quiet_exec (TenantStore_SetCIDRs i p v)"
  by (auto simp: JobStore_Claim_def JobStore_Complete_def JobStore_Fail_def TenantStore_GetBySlug_def
      TenantStore_SetCIDRs_def split: sum.splits)

lemma generate_quiet [simp]:
  "issues quiet_cas quiet_exec (GenerateAPIKey H APIKeyStore_Store i dn sc)"
  by (auto simp: GenerateAPIKey_def newRawKeyAndHash_def APIKeyStore_Store_def Let_def split: sum.splits option.splits)

section \<open>Activation\<close>

text \<open>What must hold of tenant \<open>i\<close> with slug \<open>x\<close> when the workflow has made it ACTIVE.\<close>

definition provisioned :: "(string \<Rightarrow> string) \<Rightarrow> string \<Rightarrow> uuid \<Rightarrow> sys \<Rightarrow> bool" where
  "provisioned H x i s \<longleftrightarrow>
     (\<exists>r. tenants (db s) i = Some r \<and> col_pod_cidr r = Some (Pair_PodCIDR fixed_cidrs) \<and>
        col_svc_cidr r = Some (Pair_SvcCIDR fixed_cidrs)) \<and>
     (\<exists>kc. kc \<noteq> [] \<and> stored_kubeconfig s x = Some kc) \<and>
     (\<exists>raw. HasPrefix raw apiKeyPrefix \<and> api_keys (db s) (EncodeToString (H raw)) \<noteq> None) \<and>
     isolated (''tenant-'' @ x) (cmds s) \<and>
     (\<exists>args. is_create args \<and> (args, [], True) \<in> set (cmds s))"

lemma finish_activates:
  assumes "sem f (finish_provision (Inr H) New j T c) s a t"
    and "tenant_status (db t) \<noteq> tenant_status (db s)"
  shows "(\<exists>r. tenants (db t) (TenantID T) = Some r \<and> col_pod_cidr r = Some (Pair_PodCIDR c) \<and>
        col_svc_cidr r = Some (Pair_SvcCIDR c)) \<and>
     (\<exists>raw. HasPrefix raw apiKeyPrefix \<and> api_keys (db t) (EncodeToString (H raw)) \<noteq> None) \<and>
     (\<forall>i. i \<noteq> TenantID T \<longrightarrow> tenant_status (db t) i = tenant_status (db s) i)"
proof -
  have quiet_tail: "tenant_status (db v) = tenant_status (db u)"
    if "sem f (failJob New i j step e) u b v" for i step e u b v using quiet_status [OF that] by simp
  have job_tables: "tenants (db v) = tenants (db u) \<and> api_keys (db v) = api_keys (db u)"
    if "sem f p u b v" "p = JobStore_Complete i j res \<or> p = JobStore_Fail i j res" for p :: "gerror option prog" and i res u b v
    using that by (cases b) (auto simp: JobStore_Complete_def JobStore_Fail_def)
  let ?i = "TenantID T"
  from assms(1) [unfolded finish_provision_def] show ?thesis
  proof (cases rule: attemptE)
    case (fail e u)
    then show ?thesis using assms(2) quiet_tail [OF fail(2)] quiet_status [OF fail(1)] by simp
  next
    case (ok G u)
    have gen: "sem f (GenerateAPIKey (Inr H) APIKeyStore_Store ?i (DisplayName T @ '' default key'')
        ''provision:write,provision:read'') s (Inr G) u" using ok(1) by simp
    from key_store.Generate_sem [OF gen] obtain buf where raw: "Gen_RawKey G = apiKeyPrefix @ EncodeToString buf"
      and hash: "Gen_KeyHash G = EncodeToString (H (Gen_RawKey G))" by blast
    have key: "api_keys (db u) (Gen_KeyHash G) \<noteq> None"
    proof -
      from key_store.Generate_sem [OF gen] obtain kid where
        "Gen_Record G = new_api_key (Gen_KeyHash G) kid ?i (DisplayName T @ '' default key'') ''provision:write,provision:read''"
        by blast
      moreover have "\<exists>w. sem f (APIKeyStore_Store (Gen_Record G)) w None u"
        using gen by (auto simp: GenerateAPIKey_def ex_reply Let_def split: prod.splits)
      ultimately show ?thesis by (auto simp: Store_sem cas_effect_def new_api_key_def)
    qed
    have status_u: "tenant_status (db u) = tenant_status (db s)" using quiet_status [OF gen] by simp
    from ok(2) show ?thesis
    proof (cases rule: checkE)
      case (fail e v)
      have "tenant_status (db v) = tenant_status (db u)" using quiet_status [OF fail(1)] by simp
      then show ?thesis using assms(2) quiet_tail [OF fail(2)] status_u by simp
    next
      case (ok v)
      have status_v: "tenant_status (db v) = tenant_status (db u)" using quiet_status [OF ok(1)] by simp
      from ok(1) obtain now where v: "v = u\<lparr>db := exec_effect (UpdateTenantCIDRs ?i (Pair_PodCIDR c) (Pair_SvcCIDR c) now) (db u)\<rparr>"
        by (auto simp: TenantStore_SetCIDRs_def)
      have fin: ?thesis
        if w: "w = v \<or> (\<exists>now. w = v\<lparr>db := exec_effect (UpdateTenantStatus ?i TenantStatusActive now) (db v)\<rparr>)"
          and tw: "tenants (db t) = tenants (db w)" "api_keys (db t) = api_keys (db w)" for w
      proof (intro conjI)
        show "\<exists>r. tenants (db t) ?i = Some r \<and> col_pod_cidr r = Some (Pair_PodCIDR c) \<and>
            col_svc_cidr r = Some (Pair_SvcCIDR c)"
          using w tw v by auto
        have "api_keys (db t) = api_keys (db u)" using w tw v by auto
        then show "\<exists>raw. HasPrefix raw apiKeyPrefix \<and> api_keys (db t) (EncodeToString (H raw)) \<noteq> None"
          using key hash raw by (intro exI [of _ "Gen_RawKey G"]) auto
        have "tenant_status (db t) i = tenant_status (db v) i" if "i \<noteq> ?i" for i
          using w tw that by (auto simp: tenant_status_def)
        then show "\<forall>i. i \<noteq> ?i \<longrightarrow> tenant_status (db t) i = tenant_status (db s) i"
          using status_v status_u by simp
      qed
      from ok(2) show ?thesis
      proof (cases rule: checkE)
        case (fail e w)
        have "w = v \<or> (\<exists>now. w = v\<lparr>db := exec_effect (UpdateTenantStatus ?i TenantStatusActive now) (db v)\<rparr>)"
          using fail(1) by (auto simp: TenantStore_UpdateStatus_def simp del: exec_effect.simps)
        moreover have "tenants (db t) = tenants (db w) \<and> api_keys (db t) = api_keys (db w)"
          using fail(2) job_tables by (fastforce simp: failJob_def)
        ultimately show ?thesis using fin by blast
      next
        case (ok w)
        have "w = v \<or> (\<exists>now. w = v\<lparr>db := exec_effect (UpdateTenantStatus ?i TenantStatusActive now) (db v)\<rparr>)"
          using ok(1) by (auto simp: TenantStore_UpdateStatus_def simp del: exec_effect.simps)
        moreover have "tenants (db t) = tenants (db w) \<and> api_keys (db t) = api_keys (db w)"
          using ok(2) job_tables by fastforce
        ultimately show ?thesis using fin by blast
      qed
    qed
  qed
qed

lemma finish_outside: "sem f (finish_provision H New j T c) s a t \<Longrightarrow> kv t = kv s \<and> cmds t = cmds s"
  using sem_db_only [OF _ store_tables.finish_tables] by (fastforce simp: same_outside_def)

lemma is_create_args: "is_create (''vcluster'' # create_args cfg)"
  by (simp add: is_create_def create_args_def)

lemma vcluster_created:
  "sem f (CreateVCluster cfg) s (Inr kc) t \<Longrightarrow> kc \<noteq> [] \<and> dns_label (vc_TenantID cfg) \<and>
     (''vcluster'' # create_args cfg, [], True) \<in> set (cmds t) \<and> db t = db s \<and> (\<exists>new. runs s new t)"
  using Create_ok [of f cfg s kc t] by (fastforce simp: runs_def)

lemma tenant_activated:
  assumes "sem f (provision_tenant (Inr H) New j x T) s a t"
    and "tenant_status (db t) i \<noteq> tenant_status (db s) i"
  shows "i = TenantID T \<and> provisioned H x i t"
proof -
  let ?ns = "''tenant-'' @ x"
  have quiet_tail: "tenant_status (db v) = tenant_status (db u)"
    if "sem f (failJob New i j step e) u b v" for i step e u b v using quiet_status [OF that] by simp
  from assms(1) [unfolded provision_tenant_def Let_def] show ?thesis
  proof (cases rule: checkE)
    case (fail e u)
    then show ?thesis using assms(2) quiet_tail [OF fail(2)] quiet_status [OF fail(1)] by simp
  next
    case (ok u)
    note su = quiet_status [OF ok(1), simplified]
    from ok(2) show ?thesis
    proof (cases rule: checkE)
      case (fail e v)
      then show ?thesis using assms(2) quiet_tail [OF fail(2)] quiet_status [OF fail(1)] su by simp
    next
      case (ok v)
      note sv = quiet_status [OF ok(1), simplified]
      from policies_runs [OF ok(1)] obtain c2 where "runs u c2 v" "isolated ?ns c2" by blast
      then have iso: "isolated ?ns (cmds v)" by (simp add: runs_def isolated_later)
      from ok(2) show ?thesis
      proof (cases rule: attemptE)
        case (fail e w)
        then show ?thesis using assms(2) quiet_tail [OF fail(2)] quiet_status [OF fail(1)] su sv by simp
      next
        case (ok kc w)
        note vc = vcluster_created [OF ok(1)]
        from ok(2) show ?thesis
        proof (cases rule: checkE)
          case (fail e z)
          then show ?thesis using assms(2) quiet_tail [OF fail(2)] quiet_status [OF fail(1)] vc su sv by simp
        next
          case (ok z)
          have z: "z = w\<lparr>kv := (kv w)(kv_path x \<mapsto> [kubeconfigKey \<mapsto> KVString kc])\<rparr>"
            using ok(1) by (simp add: kubeconfig_Store_sem)
          have same: "tenant_status (db z) = tenant_status (db s)" using z vc su sv by simp
          have "tenant_status (db t) \<noteq> tenant_status (db z)" using assms(2) same by auto
          note act = finish_activates [OF ok(2) this]
          have i: "i = TenantID T" using act assms(2) same by fastforce
          have out: "kv t = kv z" "cmds t = cmds z" using finish_outside [OF ok(2)] by auto
          have "stored_kubeconfig t x = Some kc" by (simp add: stored_kubeconfig_def out z)
          moreover have "isolated ?ns (cmds t)"
          proof -
            from vc obtain new where "runs v new w" by blast
            then have "cmds t = cmds v @ new" by (simp add: out z runs_def)
            then show ?thesis using iso isolated_append by simp
          qed
          moreover have "\<exists>args. is_create args \<and> (args, [], True) \<in> set (cmds t)"
            using vc is_create_args by (auto simp: out z)
          ultimately show ?thesis using act i vc unfolding provisioned_def by blast
        qed
      qed
    qed
  qed
qed

text \<open>
  A status the workflow changes is that of a tenant with the slug it works for, and only after
  every step: isolation, vCluster, kubeconfig, key and CIDRs.
\<close>

lemma workflow_activates:
  assumes "sem f (runProvisionWorkflow (Inr H) New j x) s a t"
    and "tenant_status (db t) i \<noteq> tenant_status (db s) i"
  shows "tenant_has (db s) i x \<and> provisioned H x i t"
proof -
  from assms(1) [unfolded runProvisionWorkflow_def] show ?thesis
  proof (cases rule: attemptE)
    case (fail e u)
    then show ?thesis using assms(2) quiet_status [OF fail(1)] by simp
  next
    case (ok claimed u)
    have su: "tenant_status (db u) = tenant_status (db s)" using quiet_status [OF ok(1)] by simp
    have su': "tenants (db u) = tenants (db s)"
      using ok(1) by (auto simp: JobStore_Claim_def ex_reply cas_effect_def)
    show ?thesis
    proof (cases claimed)
      case False
      then show ?thesis using ok(2) assms(2) su by simp
    next
      case True
      then have "sem f (attempt (tm_GetBySlug (svc_tenants New) x)
             (\<lambda>e. if errors_Is e (Sentinel accounts_ErrTenantNotFound)
                  then bind (jq_Fail (svc_jobs New) uuid_Nil j (''tenant not found: '' @ x)) (\<lambda>_. Ret ())
                  else failJob New uuid_Nil j ''get tenant record'' e)
             (\<lambda>tenant. provision_tenant (Inr H) New j x tenant)) u a t" using ok(2) by simp
      then show ?thesis
      proof (cases rule: attemptE)
        case (fail e v)
        have "issues quiet_cas quiet_exec (if errors_Is e (Sentinel accounts_ErrTenantNotFound)
            then bind (jq_Fail (svc_jobs New) uuid_Nil j (''tenant not found: '' @ x)) (\<lambda>_. Ret ())
            else failJob New uuid_Nil j ''get tenant record'' e)" by auto
        then show ?thesis using assms(2) quiet_status [OF fail(1)] quiet_status [OF fail(2)] su by simp
      next
        case (ok T v)
        then obtain k row where row: "v = u" "tenants (db u) k = Some row" "col_slug row = Some x" "T = scan_tenant k row"
          using GetBySlug_sem [of f x u "Inr T" v] by auto
        have "i = TenantID T \<and> provisioned H x i t"
          using tenant_activated [OF ok(2)] assms(2) su row(1) by simp
        then show ?thesis using row su' by (auto simp: tenant_has_def scan_tenant_def)
      qed
    qed
  qed
qed

section \<open>The job row of a provisioning job\<close>

text \<open>
  Provisioning jobs are enqueued, claimed and polled under the nil tenant, but completed and failed
  under the id of the tenant: the row that is polled does not see the end of the workflow.
\<close>

fun other_cas :: "uuid \<times> uuid \<Rightarrow> cas_stmt \<Rightarrow> bool" where
  "other_cas k (ClaimJob i j st n ex) \<longleftrightarrow> (i, j) \<noteq> k"
| "other_cas k c \<longleftrightarrow> True"

fun other_exec :: "uuid \<times> uuid \<Rightarrow> exec_stmt \<Rightarrow> bool" where
  "other_exec k (InsertJob i j r) \<longleftrightarrow> (i, j) \<noteq> k"
| "other_exec k (UpdateJobReady i j st res n) \<longleftrightarrow> (i, j) \<noteq> k"
| "other_exec k (UpdateJobFailed i j st msg n) \<longleftrightarrow> (i, j) \<noteq> k"
| "other_exec k x \<longleftrightarrow> True"

lemma other_job:
  assumes "sem f p s a t" and "issues (other_cas k) (other_exec k) p"
  shows "provisioning_jobs (db t) k = provisioning_jobs (db s) k"
proof (rule sem_issues [OF assms, where rel = "\<lambda>d e. provisioning_jobs e k = provisioning_jobs d k"])
  show "provisioning_jobs (cas_effect c d) k = provisioning_jobs d k" if "other_cas k c" for c d
    using that by (cases c) (auto simp: cas_effect_def)
  show "provisioning_jobs (exec_effect x d) k = provisioning_jobs d k" if "other_exec k x" for x d
    using that by (cases x) auto
qed auto

lemma other_failJob [simp]: "(i, j) \<noteq> k \<Longrightarrow> issues (other_cas k) (other_exec k) (failJob New i j step e)"
  by (auto simp: failJob_def JobStore_Fail_def)

lemma other_finish: "(TenantID T, j) \<noteq> k \<Longrightarrow> issues (other_cas k) (other_exec k) (finish_provision (Inr H) New j T c)"
  by (auto simp: finish_provision_def GenerateAPIKey_def newRawKeyAndHash_def HashAPIKey_def APIKeyStore_Store_def
      TenantStore_SetCIDRs_def TenantStore_UpdateStatus_def JobStore_Complete_def Let_def
      split: sum.splits option.splits)

lemma other_provision: "(TenantID T, j) \<noteq> k \<Longrightarrow> issues (other_cas k) (other_exec k) (provision_tenant (Inr H) New j x T)"
  unfolding provision_tenant_def Let_def
  by (intro issues_bind) (auto simp: other_finish split: sum.splits option.splits)

lemma workflow_never_ready:
  assumes "sem f (runProvisionWorkflow (Inr H) New j x) s a t"
    and "tenants (db s) uuid_Nil = None" and "job_status (db s) uuid_Nil j \<noteq> Some JobStatusReady"
  shows "job_status (db t) uuid_Nil j \<noteq> Some JobStatusReady"
proof -
  have moves: "job_status (db v) uuid_Nil j \<noteq> Some JobStatusReady"
    if "sem f p u b v" "job_status (db u) uuid_Nil j \<noteq> Some JobStatusReady"
      "p = JobStore_Fail uuid_Nil j msg" for p :: "gerror option prog" and msg u b v
    using that by (cases b) (auto simp: JobStore_Fail_def simp del: exec_effect.simps)
  from assms(1) [unfolded runProvisionWorkflow_def] show ?thesis
  proof (cases rule: attemptE)
    case (fail e u)
    then show ?thesis using assms(3)
      by (auto simp: JobStore_Claim_def ex_reply cas_effect_def simp del: cas_write.simps split: if_splits)
  next
    case (ok claimed u)
    have st: "job_status (db u) uuid_Nil j \<noteq> Some JobStatusReady"
      using Claim_Inr [of f uuid_Nil j s claimed u] ok(1) assms(3) by (auto split: if_splits)
    have nil: "tenants (db u) uuid_Nil = None"
      using ok(1) assms(2) by (auto simp: JobStore_Claim_def ex_reply cas_effect_def)
    show ?thesis
    proof (cases claimed)
      case False
      then show ?thesis using ok(2) st by simp
    next
      case True
      then have "sem f (attempt (tm_GetBySlug (svc_tenants New) x)
             (\<lambda>e. if errors_Is e (Sentinel accounts_ErrTenantNotFound)
                  then bind (jq_Fail (svc_jobs New) uuid_Nil j (''tenant not found: '' @ x)) (\<lambda>_. Ret ())
                  else failJob New uuid_Nil j ''get tenant record'' e)
             (\<lambda>tenant. provision_tenant (Inr H) New j x tenant)) u a t" using ok(2) by simp
      then show ?thesis
      proof (cases rule: attemptE)
        case (fail e v)
        then have "v = u" using GetBySlug_sem [of f x u "Inl e" v] by simp
        moreover from fail(2) obtain msg b where "sem f (JobStore_Fail uuid_Nil j msg) v b t"
          by (auto simp: failJob_def split: if_splits)
        ultimately show ?thesis using moves st by blast
      next
        case (ok T v)
        then obtain k row where row: "v = u" "tenants (db u) k = Some row" "T = scan_tenant k row"
          using GetBySlug_sem [of f x u "Inr T" v] by auto
        then have "TenantID T \<noteq> uuid_Nil" using nil by (auto simp: scan_tenant_def)
        then show ?thesis
          using other_job [OF ok(2) other_provision, of "(uuid_Nil, j)"] st row(1) by (simp add: job_status_def)
      qed
    qed
  qed
qed

text \<open>A job that is not QUEUED is left alone: the workflow has one owner.\<close>

lemma workflow_not_queued:
  assumes "sem f (runProvisionWorkflow H New j x) s a t" and "job_status (db s) uuid_Nil j \<noteq> Some JobStatusQueued"
  shows "t = s"
proof -
  from assms(1) [unfolded runProvisionWorkflow_def] show ?thesis
  proof (cases rule: attemptE)
    case (fail e u)
    then show ?thesis using assms(2) by (auto simp: JobStore_Claim_def ex_reply cas_effect_def)
  next
    case (ok claimed u)
    then show ?thesis using Claim_Inr [of f uuid_Nil j s claimed u] assms(2) by auto
  qed
qed

section \<open>Results\<close>

lemma ToLower_const [simp]: "ToLower ''api_key'' = ''api_key''" "ToLower ''api_key_id'' = ''api_key_id''"
  "ToLower ''key_hash'' = ''key_hash''" "ToLower ''vpc_info'' = ''vpc_info''" "ToLower ''pod_cidr'' = ''pod_cidr''"
  "ToLower ''service_cidr'' = ''service_cidr''" "ToLower ''vcluster_ready'' = ''vcluster_ready''"
  by (simp_all add: ToLower_def lower_char_def)

text \<open>What the workflow writes as a result is what \<open>GetJob\<close> reads.\<close>

lemma parse_result:
  assumes "ascii (Gen_RawKey G)" "ascii (Gen_KeyHash G)" "ascii (Pair_PodCIDR c)" "ascii (Pair_SvcCIDR c)"
    and "ascii (uuid_String (Key_KeyID (Gen_Record G)))"
    and "uuid_Parse (uuid_String (Key_KeyID (Gen_Record G))) = Some (Key_KeyID (Gen_Record G))"
  shows "parseVPCResult uuid_Parse (result_json G c) = Some
    \<lparr>vpr_PodCIDR = Pair_PodCIDR c, vpr_SvcCIDR = Pair_SvcCIDR c, vpr_APIKey = Gen_RawKey G,
     vpr_APIKeyID = Key_KeyID (Gen_Record G)\<rparr>"
proof -
  have "parse_json (result_json G c) = Some (JObj
     [(''api_key'', JStr (Gen_RawKey G)), (''api_key_id'', JStr (uuid_String (Key_KeyID (Gen_Record G)))),
      (''key_hash'', JStr (Gen_KeyHash G)),
      (''vpc_info'', JObj [(''pod_cidr'', JStr (Pair_PodCIDR c)), (''service_cidr'', JStr (Pair_SvcCIDR c)),
         (''vcluster_ready'', JBool True)])])"
    unfolding result_json_def by (rule parse_json_print) (use assms(1-5) in \<open>simp add: ascii_utf8 ascii_def\<close>)
  then show ?thesis using assms(6) by (simp add: parseVPCResult_def members_def)
qed

lemma hex_char_ascii: "n < 16 \<Longrightarrow> (of_char (hex_char n) :: nat) < 128"
  by (simp add: hex_char_def)

lemma ascii_uuid_String: "ascii (uuid_String i)"
  by (auto simp: ascii_def uuid_String_def nibble_def hex_char_ascii)

lemma ascii_EncodeToString: "ascii (EncodeToString s)"
proof -
  have "(of_char c :: nat) div 16 < 16" for c :: char
    using nat_of_char_less_256 [of c] by (simp add: less_mult_imp_div_less)
  then show ?thesis by (auto simp: ascii_def EncodeToString_def hex_byte_def Let_def hex_char_ascii)
qed

end
