(* ===== verification/Regex.thy ===== *)
theory Regex
  imports Cnp
begin

text \<open>
  Regular expressions as Go's \<open>regexp\<close> matches them on a whole text (\<open>^...$\<close>), by derivatives, and
  the expression \<open>tenantIDPattern\<close> of \<open>services/provisioner/handler.go\<close>. A text is a list of
  bytes; a byte that is part of no ASCII character is in no class used here.
\<close>

section \<open>Matching\<close>

datatype rx = Empty | Eps | Cls "char \<Rightarrow> bool" | Seq rx rx | Alt rx rx | Star rx

primrec nullable :: "rx \<Rightarrow> bool" where
  "nullable Empty \<longleftrightarrow> False"
| "nullable Eps \<longleftrightarrow> True"
| "nullable (Cls P) \<longleftrightarrow> False"
| "nullable (Seq r s) \<longleftrightarrow> nullable r \<and> nullable s"
| "nullable (Alt r s) \<longleftrightarrow> nullable r \<or> nullable s"
| "nullable (Star r) \<longleftrightarrow> True"

primrec deriv :: "char \<Rightarrow> rx \<Rightarrow> rx" where
  "deriv c Empty = Empty"
| "deriv c Eps = Empty"
| "deriv c (Cls P) = (if P c then Eps else Empty)"
| "deriv c (Seq r s) = (if nullable r then Alt (Seq (deriv c r) s) (deriv c s) else Seq (deriv c r) s)"
| "deriv c (Alt r s) = Alt (deriv c r) (deriv c s)"
| "deriv c (Star r) = Seq (deriv c r) (Star r)"

definition matches :: "rx \<Rightarrow> string \<Rightarrow> bool" where
  "matches r s \<longleftrightarrow> nullable (foldl (\<lambda>r c. deriv c r) r s)"

definition Opt :: "rx \<Rightarrow> rx" where
  "Opt r = Alt Eps r"

section \<open>The language of an expression\<close>

inductive lang :: "rx \<Rightarrow> string \<Rightarrow> bool" where
  eps: "lang Eps []"
| cls: "P c \<Longrightarrow> lang (Cls P) [c]"
| seq: "lang r u \<Longrightarrow> lang s v \<Longrightarrow> lang (Seq r s) (u @ v)"
| alt1: "lang r u \<Longrightarrow> lang (Alt r s) u"
| alt2: "lang s u \<Longrightarrow> lang (Alt r s) u"
| star0: "lang (Star r) []"
| star: "lang r u \<Longrightarrow> lang (Star r) v \<Longrightarrow> lang (Star r) (u @ v)"

inductive_simps lang_simps [simp]: "lang Empty w" "lang Eps w" "lang (Cls P) w" "lang (Alt r s) w"
inductive_simps lang_Seq: "lang (Seq r s) w"
inductive_cases lang_StarE: "lang (Star r) w"

lemma nullable_lang: "nullable r \<longleftrightarrow> lang r []"
  by (induction r) (auto simp: lang_Seq intro: lang.intros)

lemma star_Cons:
  "lang (Star r) w \<Longrightarrow> w = c # v \<Longrightarrow> \<exists>a b. v = a @ b \<and> lang r (c # a) \<and> lang (Star r) b"
proof (induction "Star r" w arbitrary: c v rule: lang.induct)
  case (star u x)
  then show ?case
  proof (cases u)
    case Nil
    then show ?thesis using star by auto
  next
    case (Cons d u')
    then show ?thesis using star by (intro exI [of _ u'] exI [of _ x]) auto
  qed
qed simp

lemma lang_Star_Cons: "lang (Star r) (c # v) \<longleftrightarrow> (\<exists>a b. v = a @ b \<and> lang r (c # a) \<and> lang (Star r) b)"
proof
  assume "\<exists>a b. v = a @ b \<and> lang r (c # a) \<and> lang (Star r) b"
  then obtain a b where v: "v = a @ b" and l: "lang r (c # a)" "lang (Star r) b" by blast
  have "c # v = (c # a) @ b" by (simp add: v)
  then show "lang (Star r) (c # v)" using lang.star [OF l] by argo
qed (use star_Cons in blast)

lemma lang_Seq_Cons:
  "lang (Seq r s) (c # v) \<longleftrightarrow>
     (\<exists>a b. v = a @ b \<and> lang r (c # a) \<and> lang s b) \<or> (lang r [] \<and> lang s (c # v))"
  by (auto simp: lang_Seq Cons_eq_append_conv)

lemma lang_deriv: "lang (deriv c r) v \<longleftrightarrow> lang r (c # v)"
proof (induction r arbitrary: v)
  case (Seq r s)
  then show ?case by (cases "nullable r") (auto simp: lang_Seq [where w = v] lang_Seq_Cons nullable_lang)
next
  case (Star r)
  then show ?case by (simp only: deriv.simps lang_Seq lang_Star_Cons)
qed (auto simp: lang_Seq)

lemma matches_lang: "matches r s \<longleftrightarrow> lang r s"
  by (induction s arbitrary: r) (simp_all add: matches_def nullable_lang lang_deriv)

lemma lang_Star_Cls: "lang (Star (Cls P)) w \<longleftrightarrow> list_all P w"
proof (induction w)
  case Nil
  then show ?case by (auto intro: lang.star0)
next
  case (Cons c w)
  then show ?case by (auto simp: lang_Star_Cons)
qed

lemma lang_class_ends:
  "lang (Seq (Cls P) s) (c # v) \<longleftrightarrow> P c \<and> lang s v" "\<not> lang (Seq (Cls P) s) []"
  "lang (Seq r (Cls P)) (u @ [d]) \<longleftrightarrow> lang r u \<and> P d" "\<not> lang (Seq r (Cls P)) []"
proof -
  show "lang (Seq (Cls P) s) (c # v) \<longleftrightarrow> P c \<and> lang s v" by (simp add: lang_Seq_Cons)
qed (auto simp: lang_Seq)

section \<open>Tenant identifiers\<close>

text \<open>\<open>^[a-z0-9]([a-z0-9\-]*[a-z0-9])?$\<close>\<close>

definition tenantIDPattern :: rx where
  "tenantIDPattern =
     (let first = Cls lower_alnum; inner = Cls (\<lambda>c. lower_alnum c \<or> c = CHR ''-'') in
      Seq first (Opt (Seq (Star inner) first)))"

lemma tenantIDPattern_lang:
  "lang tenantIDPattern s \<longleftrightarrow> s \<noteq> [] \<and> lower_alnum (hd s) \<and> lower_alnum (last s) \<and>
     list_all (\<lambda>c. lower_alnum c \<or> c = CHR ''-'') s"
proof (cases s)
  case Nil
  then show ?thesis by (simp add: tenantIDPattern_def Let_def lang_class_ends)
next
  case (Cons c v)
  then show ?thesis
    by (cases v rule: rev_cases) (auto simp: tenantIDPattern_def Let_def lang_class_ends Opt_def lang_Star_Cls)
qed

text \<open>The identifiers accepted are the DNS labels the namespace check accepts.\<close>

lemma tenantIDPattern_dns_label: "matches tenantIDPattern s \<longleftrightarrow> dns_label s"
proof -
  have "hd s \<in> set s" "last s \<in> set s" if "s \<noteq> []" using that by simp_all
  then show ?thesis unfolding matches_lang tenantIDPattern_lang dns_label_def list_all_iff
    by (metis hyphen_not_alnum)
qed

lemma dns_label_prefix: "dns_label s \<Longrightarrow> dns_label (''tenant-'' @ s)"
  by (auto simp: dns_label_def lower_alnum_def)

end
