(* ===== verification/Http.thy ===== *)
theory Http
  imports Prelude
begin

text \<open>
  What the typed HTTP handlers of the two services return. The generated response types fix one
  status code each (\<open>GetJob404JSONResponse\<close> is written with status 404), so a response is its
  status with either a success body or the error envelope both services share.
\<close>

record ErrorBody =
  err_code :: string
  err_message :: string

datatype 'a response = Success int 'a | Failure int ErrorBody

primrec status_code :: "'a response \<Rightarrow> int" where
  "status_code (Success n a) = n"
| "status_code (Failure n b) = n"

primrec error_body :: "'a response \<Rightarrow> ErrorBody option" where
  "error_body (Success n a) = None"
| "error_body (Failure n b) = Some b"

definition newBody :: "string \<Rightarrow> string \<Rightarrow> ErrorBody" where
  "newBody code msg = \<lparr>err_code = code, err_message = msg\<rparr>"

definition BAD_REQUEST :: string where "BAD_REQUEST = ''BAD_REQUEST''"
definition CONFLICT :: string where "CONFLICT = ''CONFLICT''"
definition INTERNAL_ERROR :: string where "INTERNAL_ERROR = ''INTERNAL_ERROR''"
definition NOT_FOUND :: string where "NOT_FOUND = ''NOT_FOUND''"
definition SERVICE_UNAVAILABLE :: string where "SERVICE_UNAVAILABLE = ''SERVICE_UNAVAILABLE''"
definition UNPROCESSABLE :: string where "UNPROCESSABLE = ''UNPROCESSABLE''"

text \<open>The body of every 500: no detail of the error.\<close>

definition internal_body :: ErrorBody where
  "internal_body = newBody INTERNAL_ERROR ''internal server error''"

text \<open>A response with a 500 says nothing of the error.\<close>

definition discreet :: "'a response \<Rightarrow> bool" where
  "discreet r \<longleftrightarrow> (status_code r = 500 \<longrightarrow> error_body r = Some internal_body)"

lemma discreet_simps [simp]:
  "discreet (Success n a) \<longleftrightarrow> n \<noteq> 500" "discreet (Failure n b) \<longleftrightarrow> n \<noteq> 500 \<or> b = internal_body"
  by (auto simp: discreet_def)

end
