(* ===== verification/ProvisionerApi.thy ===== *)
theory ProvisionerApi
  imports Http Regex ProvisionerService
begin

text \<open>
  \<open>services/provisioner\<close>: the REST layer of the provisioner, over the interface
  \<open>ProvisionerService\<close>. A handler answers every call with a response object; its error result is
  always nil.
\<close>

section \<open>Errors\<close>

definition provisioner_HTTPStatusAndBody :: "gerror \<Rightarrow> int \<times> ErrorBody" where
  "provisioner_HTTPStatusAndBody err =
     (if errors_Is err (Sentinel provisionersvc_ErrTenantAlreadyExists)
      then (409, newBody CONFLICT (Error_String err))
      else if errors_Is err (Sentinel provisionersvc_ErrTenantNotFound)
      then (404, newBody NOT_FOUND (Error_String err))
      else if errors_Is err (Sentinel provisionersvc_ErrJobNotFound)
      then (404, newBody NOT_FOUND (Error_String err))
      else if errors_Is err (Sentinel provisionersvc_ErrCIDRExhausted)
      then (503, newBody SERVICE_UNAVAILABLE (Error_String err))
      else (500, newBody INTERNAL_ERROR ''internal server error''))"

definition ValidationBody :: "string \<Rightarrow> ErrorBody" where
  "ValidationBody msg = newBody UNPROCESSABLE msg"

definition BadRequestBody :: "string \<Rightarrow> ErrorBody" where
  "BadRequestBody msg = newBody BAD_REQUEST msg"

section \<open>Models and transformations\<close>

record ProvisionRequest =
  req_TenantID :: string
  req_DisplayName :: string
  req_Plan :: string

record JobAccepted =
  ja_JobId :: uuid
  ja_Status :: string

record VPCInfo =
  vi_PodCidr :: string
  vi_ServiceCidr :: string
  vi_VclusterReady :: bool

record JobResponse =
  jresp_ApiKey :: "string option"
  jresp_ApiKeyId :: "uuid option"
  jresp_ErrorMessage :: "string option"
  jresp_JobId :: uuid
  jresp_Status :: string
  jresp_VpcInfo :: "VPCInfo option"

record DeprovisionAccepted =
  dp_JobId :: uuid
  dp_Status :: string
  dp_TenantId :: string

definition ToServiceProvisionParams :: "ProvisionRequest \<Rightarrow> ProvisionParams" where
  "ToServiceProvisionParams r = \<lparr>pp_TenantSlug = req_TenantID r\<rparr>"

definition ToGeneratedJobResponse :: "JobResult \<Rightarrow> JobResponse" where
  "ToGeneratedJobResponse j =
     (let resp = \<lparr>jresp_ApiKey = None, jresp_ApiKeyId = None,
            jresp_ErrorMessage = (if jr_ErrorMessage j \<noteq> [] then Some (jr_ErrorMessage j) else None),
            jresp_JobId = jr_JobID j, jresp_Status = jr_Status j, jresp_VpcInfo = None\<rparr> in
      case jr_VPCResult j of
        None \<Rightarrow> resp
      | Some v \<Rightarrow> resp\<lparr>jresp_ApiKey := Some (vpr_APIKey v), jresp_ApiKeyId := Some (vpr_APIKeyID v),
          jresp_VpcInfo := Some \<lparr>vi_PodCidr = vpr_PodCIDR v, vi_ServiceCidr = vpr_SvcCIDR v,
                                 vi_VclusterReady = True\<rparr>\<rparr>)"

section \<open>Handlers\<close>

definition Handler_ProvisionVPC ::
    "ProvisionerService \<Rightarrow> ProvisionRequest option \<Rightarrow> JobAccepted response prog" where
  "Handler_ProvisionVPC svc req =
     (case req of
        None \<Rightarrow> Ret (Failure 400 (BadRequestBody ''request body is required''))
      | Some body \<Rightarrow>
          if \<not> matches tenantIDPattern (req_TenantID body)
          then Ret (Failure 422 (ValidationBody
                 (''tenant_id must be a DNS label: lowercase alphanumeric and hyphens, '' @
                  ''cannot start or end with a hyphen'')))
          else
            attempt (ps_Provision svc (ToServiceProvisionParams body))
              (\<lambda>err. case provisioner_HTTPStatusAndBody err of (status, body) \<Rightarrow>
                 if status = 409 then Ret (Failure 409 body)
                 else if status = 503 then Ret (Failure 503 body)
                 else Ret (Failure 500 body))
              (\<lambda>jobID. Ret (Success 202 \<lparr>ja_JobId = jobID, ja_Status = ''QUEUED''\<rparr>)))"

definition Handler_GetJob ::
    "(string \<Rightarrow> uuid option) \<Rightarrow> ProvisionerService \<Rightarrow> uuid \<Rightarrow> JobResponse response prog" where
  "Handler_GetJob uuid_Parse svc req_JobId =
     (case uuid_Parse (uuid_String req_JobId) of
        None \<Rightarrow> Ret (Failure 400 (BadRequestBody ''job_id must be a valid UUID''))
      | Some jobID \<Rightarrow>
          attempt (ps_GetJob svc jobID)
            (\<lambda>err. if errors_Is err (Sentinel provisionersvc_ErrJobNotFound)
               then Ret (Failure 404 \<lparr>err_code = NOT_FOUND, err_message = ''job not found''\<rparr>)
               else Ret (Failure 500 (snd (provisioner_HTTPStatusAndBody err))))
            (\<lambda>result. Ret (Success 200 (ToGeneratedJobResponse result))))"

definition Handler_DeprovisionVPC ::
    "ProvisionerService \<Rightarrow> string \<Rightarrow> DeprovisionAccepted response prog" where
  "Handler_DeprovisionVPC svc tenantSlug =
     (if \<not> matches tenantIDPattern tenantSlug
      then Ret (Failure 400 (BadRequestBody ''tenant_id path parameter is invalid''))
      else
        attempt (ps_Deprovision svc \<lparr>dp_TenantSlug = tenantSlug\<rparr>)
          (\<lambda>err. if errors_Is err (Sentinel provisionersvc_ErrTenantNotFound)
             then Ret (Failure 404 \<lparr>err_code = NOT_FOUND, err_message = ''tenant not found''\<rparr>)
             else Ret (Failure 500 (snd (provisioner_HTTPStatusAndBody err))))
          (\<lambda>jobID. Ret (Success 202
             \<lparr>dp_JobId = jobID, dp_Status = ''QUEUED'', dp_TenantId = tenantSlug\<rparr>)))"

section \<open>Error mapping\<close>

lemma provisioner_status_sentinel:
  assumes "errors_Is e (Sentinel n)"
  shows "provisioner_HTTPStatusAndBody e =
     (if n = provisionersvc_ErrTenantAlreadyExists then (409, newBody CONFLICT (Error_String e))
      else if n \<in> {provisionersvc_ErrTenantNotFound, provisionersvc_ErrJobNotFound}
      then (404, newBody NOT_FOUND (Error_String e))
      else if n = provisionersvc_ErrCIDRExhausted then (503, newBody SERVICE_UNAVAILABLE (Error_String e))
      else (500, internal_body))"
  unfolding provisioner_HTTPStatusAndBody_def sentinel_iff [OF assms] internal_body_def
  by (cases n) simp_all

lemma provisioner_status_500:
  "fst (provisioner_HTTPStatusAndBody e) = 500 \<Longrightarrow> snd (provisioner_HTTPStatusAndBody e) = internal_body"
  unfolding provisioner_HTTPStatusAndBody_def internal_body_def by (simp split: if_splits)

lemma provisioner_status_range: "fst (provisioner_HTTPStatusAndBody e) \<in> {409, 404, 503, 500}"
  by (simp add: provisioner_HTTPStatusAndBody_def)

lemma provisioner_no_sentinel:
  "(\<And>n. \<not> errors_Is e (Sentinel n)) \<Longrightarrow> provisioner_HTTPStatusAndBody e = (500, internal_body)"
  by (simp add: provisioner_HTTPStatusAndBody_def internal_body_def)

section \<open>The handlers on the stores\<close>

lemma GetJob_sem:
  "sem f (GetJob P New i) s r t \<Longrightarrow> t = s \<and> (case r of
      Inr J \<Rightarrow> (\<exists>row. provisioning_jobs (db s) (uuid_Nil, i) = Some row \<and>
        J = ToJobResultFromAccountsJob P (scan_job uuid_Nil i row))
    | Inl e \<Rightarrow> (e = Sentinel provisionersvc_ErrJobNotFound \<and> provisioning_jobs (db s) (uuid_Nil, i) = None) \<or>
        (faulty f \<and> (\<forall>n. \<not> errors_Is e (Sentinel n))))"
  by (auto simp: GetJob_def ex_reply split: if_splits sum.splits dest!: job_Get_sem)

text \<open>A request that fails validation issues no call.\<close>

lemma ProvisionVPC_invalid:
  "Handler_ProvisionVPC svc None = Ret (Failure 400 (BadRequestBody ''request body is required''))"
  "\<not> dns_label (req_TenantID b) \<Longrightarrow> \<exists>m. Handler_ProvisionVPC svc (Some b) = Ret (Failure 422 (ValidationBody m))"
  by (auto simp: Handler_ProvisionVPC_def tenantIDPattern_dns_label)

lemma ProvisionVPC_sem:
  assumes "sem f (Handler_ProvisionVPC (provisioner_service P New) (Some b)) s r t" and "dns_label (req_TenantID b)"
  shows "(\<exists>j. r = Success 202 \<lparr>ja_JobId = j, ja_Status = ''QUEUED''\<rparr> \<and>
      sem f (Provision New \<lparr>pp_TenantSlug = req_TenantID b\<rparr>) s (Inr j) t) \<or>
    (faulty f \<and> r = Failure 500 internal_body \<and> same_outside s t)"
proof -
  have "sem f (attempt (Provision New \<lparr>pp_TenantSlug = req_TenantID b\<rparr>)
      (\<lambda>err. case provisioner_HTTPStatusAndBody err of (status, body) \<Rightarrow>
                 if status = 409 then Ret (Failure 409 body)
                 else if status = 503 then Ret (Failure 503 body)
                 else Ret (Failure 500 body))
      (\<lambda>jobID. Ret (Success 202 \<lparr>ja_JobId = jobID, ja_Status = ''QUEUED''\<rparr>))) s r t"
    using assms by (simp add: Handler_ProvisionVPC_def tenantIDPattern_dns_label ToServiceProvisionParams_def)
  then show ?thesis
  proof (cases rule: attemptE)
    case (fail e u)
    then show ?thesis using Provision_failed [OF fail(1)] provisioner_no_sentinel [of e] by auto
  qed auto
qed

lemma Handler_GetJob_sem:
  assumes "sem f (Handler_GetJob P (provisioner_service P New) i) s r t" and "P (uuid_String i) = Some i"
  shows "t = s \<and> (case provisioning_jobs (db s) (uuid_Nil, i) of
      Some row \<Rightarrow> r = Success 200 (ToGeneratedJobResponse (ToJobResultFromAccountsJob P (scan_job uuid_Nil i row)))
    | None \<Rightarrow> r = Failure 404 \<lparr>err_code = NOT_FOUND, err_message = ''job not found''\<rparr>) \<or>
    (faulty f \<and> r = Failure 500 internal_body \<and> t = s)"
proof -
  have "sem f (attempt (GetJob P New i)
      (\<lambda>err. if errors_Is err (Sentinel provisionersvc_ErrJobNotFound)
               then Ret (Failure 404 \<lparr>err_code = NOT_FOUND, err_message = ''job not found''\<rparr>)
               else Ret (Failure 500 (snd (provisioner_HTTPStatusAndBody err))))
      (\<lambda>result. Ret (Success 200 (ToGeneratedJobResponse result)))) s r t"
    using assms by (simp add: Handler_GetJob_def)
  then show ?thesis
  proof (cases rule: attemptE)
    case (fail e u)
    then show ?thesis using GetJob_sem [OF fail(1)] provisioner_no_sentinel [of e] by auto
  next
    case (ok J u)
    then show ?thesis using GetJob_sem [OF ok(1)] by auto
  qed
qed

text \<open>An accepted provisioning request can be polled at once: its job is QUEUED.\<close>

lemma provision_then_poll:
  assumes "sem f (Handler_ProvisionVPC (provisioner_service P New) (Some b)) s (Success 202 a) t"
    and "provisioning_jobs_by_idem (db s) (uuid_Nil, ''provision-vpc:'' @ req_TenantID b) = None"
    and "P (uuid_String (ja_JobId a)) = Some (ja_JobId a)"
    and "sem NoFaults (Handler_GetJob P (provisioner_service P New) (ja_JobId a)) t r u"
  shows "spawned t = spawned s @ [RunProvisionWorkflow (ja_JobId a) (req_TenantID b)] \<and> u = t \<and>
    r = Success 200 \<lparr>jresp_ApiKey = None, jresp_ApiKeyId = None, jresp_ErrorMessage = None,
       jresp_JobId = ja_JobId a, jresp_Status = JobStatusQueued, jresp_VpcInfo = None\<rparr>"
proof -
  have "dns_label (req_TenantID b)"
    using assms(1) ProvisionVPC_invalid(2) [of b "provisioner_service P New"] by fastforce
  from ProvisionVPC_sem [OF assms(1) this] have "sem f (Provision New \<lparr>pp_TenantSlug = req_TenantID b\<rparr>) s (Inr (ja_JobId a)) t"
    by auto
  then obtain v where e: "sem f (JobStore_Enqueue uuid_Nil (''provision-vpc:'' @ req_TenantID b) JobOperationProvisionVPC)
      s (Inr (ja_JobId a)) v" and t: "t = v\<lparr>spawned := spawned v @ [RunProvisionWorkflow (ja_JobId a) (req_TenantID b)]\<rparr>"
    unfolding Provision_sem by (auto simp: ex_reply)
  obtain now where v: "v = s\<lparr>db := exec_effect (InsertJob uuid_Nil (ja_JobId a)
        (new_job_row (''provision-vpc:'' @ req_TenantID b) JobOperationProvisionVPC now))
      (cas_write (InsertIdem uuid_Nil (''provision-vpc:'' @ req_TenantID b) (ja_JobId a)) (db s))\<rparr>"
    using e assms(2) unfolding Enqueue_Inr by auto
  have row: "provisioning_jobs (db t) (uuid_Nil, ja_JobId a) =
      Some (new_job_row (''provision-vpc:'' @ req_TenantID b) JobOperationProvisionVPC now)"
    by (simp add: t v)
  have "u = t \<and> r = Success 200 (ToGeneratedJobResponse (ToJobResultFromAccountsJob P
      (scan_job uuid_Nil (ja_JobId a) (new_job_row (''provision-vpc:'' @ req_TenantID b) JobOperationProvisionVPC now))))"
    using Handler_GetJob_sem [OF assms(4,3)] by (simp add: row)
  moreover have "spawned t = spawned s @ [RunProvisionWorkflow (ja_JobId a) (req_TenantID b)]" by (simp add: t v)
  ultimately show ?thesis
    by (simp add: ToGeneratedJobResponse_def ToJobResultFromAccountsJob_def scan_job_def new_job_row_def Let_def)
qed

text \<open>
  A deprovisioning job is kept under the tenant it deletes, which is not where \<open>GetJob\<close> looks.
\<close>

lemma Deprovision_ok:
  assumes "sem f (Deprovision New p) s (Inr j) t"
  shows "\<exists>i row. tenants (db s) i = Some row \<and> col_slug row = Some (dp_TenantSlug p) \<and>
    spawned t = spawned s @ [RunDeprovisionWorkflow j (scan_tenant i row)] \<and>
    (\<forall>k. fst k \<noteq> i \<longrightarrow> provisioning_jobs (db t) k = provisioning_jobs (db s) k)"
proof -
  from assms [unfolded Deprovision_def New_sel] show ?thesis
  proof (cases rule: attemptE)
    case (fail e u)
    then show ?thesis by (simp split: if_splits)
  next
    case (ok T u)
    then obtain i row where i: "tenants (db s) i = Some row" "col_slug row = Some (dp_TenantSlug p)"
      "T = scan_tenant i row" "u = s" using GetBySlug_sem [OF ok(1)] by auto
    have id: "TenantID T = i" by (simp add: i scan_tenant_def)
    from ok(2) obtain day where "sem f (attempt (JobStore_Enqueue (TenantID T)
          (''deprovision-vpc:'' @ dp_TenantSlug p @ '':'' @ day) JobOperationDeprovisionVPC)
        (\<lambda>e. Ret (Inl (Errorf ''enqueue deprovision job: '' e)))
        (\<lambda>jobID. Go (RunDeprovisionWorkflow jobID T) (Ret (Inr jobID)))) u (Inr j) t"
      unfolding sem_calls Let_def by blast
    then show ?thesis
    proof (cases rule: attemptE)
      case (ok j' v)
      then have "j' = j" and t: "t = v\<lparr>spawned := spawned v @ [RunDeprovisionWorkflow j T]\<rparr>" by auto
      have v: "v = s \<or> (\<exists>now. v = s\<lparr>db := exec_effect (InsertJob i j (new_job_row
            (''deprovision-vpc:'' @ dp_TenantSlug p @ '':'' @ day) JobOperationDeprovisionVPC now))
          (cas_write (InsertIdem i (''deprovision-vpc:'' @ dp_TenantSlug p @ '':'' @ day) j) (db s))\<rparr>)"
        using ok(1) unfolding id i(4) \<open>j' = j\<close> Enqueue_Inr by blast
      then have "spawned v = spawned s" "\<forall>k. fst k \<noteq> i \<longrightarrow> provisioning_jobs (db v) k = provisioning_jobs (db s) k"
        by auto
      then show ?thesis using i t by auto
    qed simp
  qed
qed

lemma deprovision_then_poll:
  assumes "sem f (Handler_DeprovisionVPC (provisioner_service P New) x) s (Success 202 a) t"
    and "provisioning_jobs (db s) (uuid_Nil, dp_JobId a) = None" and "tenants (db s) uuid_Nil = None"
    and "P (uuid_String (dp_JobId a)) = Some (dp_JobId a)"
    and "sem NoFaults (Handler_GetJob P (provisioner_service P New) (dp_JobId a)) t r u"
  shows "r = Failure 404 \<lparr>err_code = NOT_FOUND, err_message = ''job not found''\<rparr>"
proof -
  have "sem f (attempt (Deprovision New \<lparr>dp_TenantSlug = x\<rparr>)
      (\<lambda>err. if errors_Is err (Sentinel provisionersvc_ErrTenantNotFound)
             then Ret (Failure 404 \<lparr>err_code = NOT_FOUND, err_message = ''tenant not found''\<rparr>)
             else Ret (Failure 500 (snd (provisioner_HTTPStatusAndBody err))))
      (\<lambda>jobID. Ret (Success 202
             \<lparr>dp_JobId = jobID, dp_Status = ''QUEUED'', dp_TenantId = x\<rparr>))) s (Success 202 a) t"
    using assms(1) unfolding Handler_DeprovisionVPC_def
    by (cases "matches tenantIDPattern x") simp_all
  then have d: "sem f (Deprovision New \<lparr>dp_TenantSlug = x\<rparr>) s (Inr (dp_JobId a)) t"
    by (cases rule: attemptE) (auto split: if_splits)
  from Deprovision_ok [OF d] obtain i where i: "tenants (db s) i \<noteq> None"
    and same: "\<forall>k. fst k \<noteq> i \<longrightarrow> provisioning_jobs (db t) k = provisioning_jobs (db s) k" by auto
  have "i \<noteq> uuid_Nil" using i assms(3) by auto
  then have "provisioning_jobs (db t) (uuid_Nil, dp_JobId a) = None" using same assms(2) by simp
  then show ?thesis using Handler_GetJob_sem [OF assms(5,4)] by simp
qed

text \<open>
  The idempotency key of a provisioning request is fixed by the slug: a later request gets the old
  job, whatever became of it.
\<close>

lemma Provision_again:
  assumes "sem f (Provision New p) s (Inr j) t"
    and "provisioning_jobs_by_idem (db s) (uuid_Nil, ''provision-vpc:'' @ pp_TenantSlug p) = Some k"
  shows "j = k \<and> db t = db s"
  using assms by (auto simp: Provision_sem ex_reply Enqueue_Inr)

end
