(* ===== verification/ProvisionerRuns.thy ===== *)
theory ProvisionerRuns
  imports ProvisionerFacts ProvisionerApi
begin

text \<open>
  Executions that exist: when every external system answers, the workflow of a queued job ends with
  an ACTIVE tenant and a READY job, and a deprovisioning ends with a DELETED tenant. These are the
  counterparts of the safety lemmas of \<open>ProvisionerFacts\<close>, which restrict what an execution may do.
\<close>

section \<open>Steps that succeed\<close>

lemma can_check: "sem f p s None u \<Longrightarrow> sem f q u a t \<Longrightarrow> sem f (check p h q) s a t"
  unfolding sem_bind by (intro exI conjI) (assumption, simp)

lemma can_attempt: "sem f p s (Inr b) u \<Longrightarrow> sem f (q b) u a t \<Longrightarrow> sem f (attempt p h q) s a t"
  unfolding sem_bind by (intro exI conjI) (assumption, simp)

definition ok_out :: cmd_out where
  "ok_out = \<lparr>exit_err = None, cmd_stdout = ''ok'', cmd_stderr = []\<rparr>"

lemma ok_out_simps [simp]: "exit_err ok_out = None" "cmd_stdout ok_out = ''ok''" "command_reply f ok_out"
  by (simp_all add: ok_out_def command_reply_def)

lemma can_Command: "sem f (k ok_out) (log_command c i ok_out s) a t \<Longrightarrow> sem f (Command c i k) s a t"
  unfolding sem_calls by (intro exI [of _ ok_out]) simp

lemma TrimSpace_ok: "TrimSpace ''ok'' = ''ok''"
  by code_simp

lemma policies_render:
  "dns_label ns \<Longrightarrow> \<exists>iso acc. TenantIsolationPolicy ns = Inr iso \<and> ProvisionerAccessPolicy ns = Inr acc"
  by (simp add: TenantIsolationPolicy_def ProvisionerAccessPolicy_def renderCNP_def
      validateNamespace_iff [THEN iffD2])

lemma can_apply: "sem f (kubectlApplyBytes d) s None (log_command [''kubectl'', ''apply'', ''-f'', ''-''] d ok_out s)"
  unfolding kubectlApplyBytes_def by (rule can_Command) simp

lemma can_createNamespace: "\<exists>t. sem f (createNamespace ns) s None t \<and> only_cmds s t"
  unfolding createNamespace_def
  by (rule exI, rule conjI, rule can_Command, simp del: sem_calls, rule can_apply)
     (rule only_cmds_trans [OF only_cmds_log only_cmds_log])

lemma can_policies:
  assumes "dns_label ns"
  shows "\<exists>t. sem f (applyIsolationPolicies ns) s None t \<and> only_cmds s t"
proof -
  obtain iso acc where docs: "TenantIsolationPolicy ns = Inr iso" "ProvisionerAccessPolicy ns = Inr acc"
    using policies_render [OF assms] by blast
  show ?thesis unfolding applyIsolationPolicies_def docs sum.case
    by (rule exI, rule conjI, rule can_check [OF can_apply], rule can_check [OF can_apply], simp)
       (rule only_cmds_trans [OF only_cmds_log only_cmds_log])
qed

lemma can_create:
  assumes "dns_label (vc_TenantID cfg)" "vc_HostNamespace cfg \<noteq> []" "vc_PodCIDR cfg \<noteq> []" "vc_SvcCIDR cfg \<noteq> []"
  shows "\<exists>t. sem f (CreateVCluster cfg) s (Inr ''ok'') t \<and> only_cmds s t"
proof -
  let ?run = "\<lambda>c s. log_command c [] ok_out s"
  have cli: "sem f (runVClusterCLI a) s None (?run (''vcluster'' # a) s)" for a s
    unfolding runVClusterCLI_def defaultVClusterRunner_def by (rule can_Command) simp
  have kube: "sem f (runKubectl a) s None (?run (''kubectl'' # a) s)" for a s
    unfolding runKubectl_def defaultKubectlRunner_def by (rule can_Command) simp
  have wait: "\<exists>t. sem f (waitVClusterReady a b) s None t \<and> only_cmds s t" for a b s
    unfolding waitVClusterReady_def waitVClusterReady_from.simps [of ready_polls] Let_def sem_bind
    using kube by (intro exI conjI) (assumption, simp, simp)
  have export: "\<exists>t. sem f (exportVClusterKubeconfig a b c) s (Inr ''ok'') t \<and> only_cmds s t" for a b c s
    unfolding exportVClusterKubeconfig_def defaultKubeconfigExporter_def
    by (rule exI, rule conjI, rule can_Command, simp add: TrimSpace_ok, rule only_cmds_log)
  obtain u where u: "sem f (waitVClusterReady (vc_TenantID cfg) (vc_HostNamespace cfg))
      (?run (''vcluster'' # create_args cfg) s) None u" "only_cmds (?run (''vcluster'' # create_args cfg) s) u"
    using wait by blast
  obtain t where t: "sem f (exportVClusterKubeconfig (vc_TenantID cfg) (vc_HostNamespace cfg)
      (''https://'' @ vc_TenantID cfg @ ''.'' @ vc_HostNamespace cfg @ ''.svc.cluster.local:443'')) u (Inr ''ok'') t"
    "only_cmds u t" using export by blast
  have "only_cmds s t" by (rule only_cmds_trans [OF only_cmds_log only_cmds_trans [OF u(2) t(2)]])
  moreover have "sem f (CreateVCluster cfg) s (Inr ''ok'') t"
    unfolding CreateVCluster_def Let_def validateTenantID_None [THEN iffD2, OF assms(1)] option.case
    by (simp only: assms(2-4) if_False simp_thms) (rule can_check [OF cli], rule can_check [OF u(1)], rule can_attempt [OF t(1)], simp)
  ultimately show ?thesis by blast
qed

section \<open>Provisioning\<close>

lemma can_Generate:
  "\<exists>G t. sem f (GenerateAPIKey (Inr H) APIKeyStore_Store tid dn sc) s (Inr G) t \<and>
     tenants (db t) = tenants (db s) \<and> provisioning_jobs (db t) = provisioning_jobs (db s)"
proof -
  let ?raw = "apiKeyPrefix @ EncodeToString (replicate apiKeyRandomBytes (CHR ''a''))"
  let ?h = "EncodeToString (H ?raw)"
  let ?k = "new_api_key ?h 1 tid dn sc"
  let ?t = "s\<lparr>db := cas_effect (InsertAPIKey (Key_KeyHash ?k) (key_row_of ?k)) (db s)\<rparr>"
  have "sem f (GenerateAPIKey (Inr H) APIKeyStore_Store tid dn sc) s
      (Inr \<lparr>Gen_Record = ?k, Gen_RawKey = ?raw, Gen_KeyHash = ?h\<rparr>) ?t"
    unfolding GenerateAPIKey_def
  proof (rule can_attempt)
    show "sem f (newRawKeyAndHash (Inr H)) s (Inr (?raw, ?h)) s"
      unfolding newRawKeyAndHash_sem by auto
    show "sem f (case (?raw, ?h) of (raw, hash) \<Rightarrow>
         attempt (NewUUID Ret)
           (\<lambda>e. Ret (Inl (Errorf ''provisioner: generate key_id: '' e)))
           (\<lambda>keyID.
             let rec = new_api_key hash keyID tid dn sc in
             check (APIKeyStore_Store rec)
               (\<lambda>e. Ret (Inl (Errorf (''provisioner: persist api key for tenant '' @
                      uuid_String tid @ '': '') e)))
               (Ret (Inr \<lparr>Gen_Record = rec, Gen_RawKey = raw, Gen_KeyHash = hash\<rparr>)))) s
      (Inr \<lparr>Gen_Record = ?k, Gen_RawKey = ?raw, Gen_KeyHash = ?h\<rparr>) ?t"
      unfolding prod.case Let_def
    proof (rule can_attempt)
      show "sem f (NewUUID Ret) s (Inr 1) s" by (auto simp: ex_reply)
      show "sem f (check (APIKeyStore_Store ?k)
               (\<lambda>e. Ret (Inl (Errorf (''provisioner: persist api key for tenant '' @
                      uuid_String tid @ '': '') e)))
               (Ret (Inr \<lparr>Gen_Record = ?k, Gen_RawKey = ?raw, Gen_KeyHash = ?h\<rparr>))) s
        (Inr \<lparr>Gen_Record = ?k, Gen_RawKey = ?raw, Gen_KeyHash = ?h\<rparr>) ?t"
        by (rule can_check [where u = ?t]) (simp_all add: Store_sem)
    qed
  qed
  moreover have "tenants (db ?t) = tenants (db s)" "provisioning_jobs (db ?t) = provisioning_jobs (db s)"
    by (auto simp: cas_effect_def)
  ultimately show ?thesis by blast
qed

lemma can_Exec: "sem f (Exec x Ret) s None (s\<lparr>db := exec_effect x (db s)\<rparr>)"
  unfolding sem_calls by (intro exI [of _ None] exI [of _ "s\<lparr>db := exec_effect x (db s)\<rparr>"]) simp

lemma can_updates:
  "sem f (TenantStore_SetCIDRs i p v) s None (s\<lparr>db := exec_effect (UpdateTenantCIDRs i p v (cql_timestamp 0)) (db s)\<rparr>)"
  "sem f (TenantStore_UpdateStatus i st) s None (s\<lparr>db := exec_effect (UpdateTenantStatus i st (cql_timestamp 0)) (db s)\<rparr>)"
  "sem f (JobStore_Complete i j res) s None
     (s\<lparr>db := exec_effect (UpdateJobReady i j JobStatusReady res (cql_timestamp 0)) (db s)\<rparr>)"
  unfolding TenantStore_SetCIDRs_def TenantStore_UpdateStatus_def JobStore_Complete_def sem_calls(4)
  by (rule exI [of _ 0], rule can_Exec)+

lemma can_finish:
  "\<exists>t. sem f (finish_provision (Inr H) New j T c) s () t \<and>
     tenant_status (db t) (TenantID T) = Some TenantStatusActive \<and>
     job_status (db t) (TenantID T) j = Some JobStatusReady"
proof -
  obtain G u where G: "sem f (GenerateAPIKey (Inr H) APIKeyStore_Store (TenantID T)
      (DisplayName T @ '' default key'') ''provision:write,provision:read'') s (Inr G) u"
    using can_Generate by blast
  let ?d1 = "exec_effect (UpdateTenantCIDRs (TenantID T) (Pair_PodCIDR c) (Pair_SvcCIDR c) (cql_timestamp 0)) (db u)"
  let ?d2 = "exec_effect (UpdateTenantStatus (TenantID T) TenantStatusActive (cql_timestamp 0)) ?d1"
  let ?d3 = "exec_effect (UpdateJobReady (TenantID T) j JobStatusReady (result_json G c) (cql_timestamp 0)) ?d2"
  have "sem f (finish_provision (Inr H) New j T c) s () (u\<lparr>db := ?d3\<rparr>)"
    unfolding finish_provision_def New_sel
  proof (rule can_attempt [OF G], rule can_check [OF can_updates(1)], rule can_check [OF can_updates(2)])
    show "sem f (bind (JobStore_Complete (TenantID T) j (result_json G c)) (\<lambda>_. Ret ()))
       (u\<lparr>db := ?d1\<rparr>\<lparr>db := exec_effect (UpdateTenantStatus (TenantID T) TenantStatusActive (cql_timestamp 0))
           (db (u\<lparr>db := ?d1\<rparr>))\<rparr>) () (u\<lparr>db := ?d3\<rparr>)"
      unfolding sem_bind
      using can_updates(3) [of f "TenantID T" j "result_json G c" "u\<lparr>db := ?d2\<rparr>"]
      by (intro exI [of _ None] exI [of _ "u\<lparr>db := ?d3\<rparr>"]) simp
  qed
  moreover have "tenant_status (db (u\<lparr>db := ?d3\<rparr>)) (TenantID T) = Some TenantStatusActive"
    by (simp add: tenant_status_def)
  moreover have "job_status (db (u\<lparr>db := ?d3\<rparr>)) (TenantID T) j = Some JobStatusReady" by (simp add: job_status_def)
  ultimately show ?thesis by blast
qed

lemma can_provision:
  assumes "dns_label x"
  shows "\<exists>t. sem f (provision_tenant (Inr H) New j x T) s () t \<and>
     tenant_status (db t) (TenantID T) = Some TenantStatusActive \<and>
     job_status (db t) (TenantID T) j = Some JobStatusReady"
proof -
  let ?ns = "''tenant-'' @ x"
  let ?cfg = "\<lparr>vc_TenantID = x, vc_HostNamespace = ?ns, vc_PodCIDR = Pair_PodCIDR fixed_cidrs,
     vc_SvcCIDR = Pair_SvcCIDR fixed_cidrs\<rparr>"
  obtain s1 where s1: "sem f (createNamespace ?ns) s None s1" using can_createNamespace by blast
  obtain s2 where s2: "sem f (applyIsolationPolicies ?ns) s1 None s2"
    using can_policies [OF dns_label_prefix [OF assms]] by blast
  have "\<exists>s3. sem f (CreateVCluster ?cfg) s2 (Inr ''ok'') s3 \<and> only_cmds s2 s3"
    by (rule can_create) (use assms in \<open>simp_all add: fixed_cidrs_def\<close>)
  then obtain s3 where s3: "sem f (CreateVCluster ?cfg) s2 (Inr ''ok'') s3" by blast
  let ?s4 = "s3\<lparr>kv := (kv s3)(kv_path x \<mapsto> [kubeconfigKey \<mapsto> KVString ''ok''])\<rparr>"
  have s4: "sem f (Store x ''ok'') s3 None ?s4" using assms by (simp add: kubeconfig_Store_sem)
  obtain t where t: "sem f (finish_provision (Inr H) New j T fixed_cidrs) ?s4 () t"
    "tenant_status (db t) (TenantID T) = Some TenantStatusActive" "job_status (db t) (TenantID T) j = Some JobStatusReady"
    using can_finish by blast
  have "sem f (provision_tenant (Inr H) New j x T) s () t"
    unfolding provision_tenant_def Let_def
    by (rule can_check [OF s1], rule can_check [OF s2], rule can_attempt [OF s3], rule can_check [OF s4], rule t(1))
  then show ?thesis using t by blast
qed

lemma can_Claim:
  assumes "job_status (db s) i j = Some JobStatusQueued"
  shows "\<exists>t. sem f (JobStore_Claim i j) s (Inr True) t \<and> tenants (db t) = tenants (db s)"
proof -
  let ?c = "ClaimJob i j JobStatusProvisioning (cql_timestamp 0) JobStatusQueued"
  let ?t = "s\<lparr>db := cas_effect ?c (db s)\<rparr>"
  have "sem f (Cas ?c Ret) s (Inr (True, None)) ?t"
    unfolding sem_calls by (intro exI [of _ "Inr (True, None)"] exI [of _ ?t]) (use assms in simp)
  then have "sem f (JobStore_Claim i j) s (Inr True) ?t"
    unfolding JobStore_Claim_def sem_calls(4) by (intro exI [of _ 0], rule can_attempt) simp_all
  then show ?thesis by (intro exI [of _ ?t]) (auto simp: cas_effect_def)
qed

lemma can_GetBySlug:
  assumes "tenants (db s) i = Some row" and "col_slug row = Some x"
  shows "sem f (TenantStore_GetBySlug x) s (Inr (scan_tenant i row)) s"
  unfolding TenantStore_GetBySlug_def sem_calls
  by (intro exI [of _ "Inr (i, row)"]) (use assms in \<open>simp add: tenants_by_slug_def\<close>)

text \<open>
  Progress: the workflow of a queued job for an existing tenant with a valid slug has an execution
  that activates the tenant. The job that is READY is the one under the tenant's id.
\<close>

lemma workflow_can_activate:
  assumes "job_status (db s) uuid_Nil j = Some JobStatusQueued"
    and "tenants (db s) i = Some row" "col_slug row = Some x" and "dns_label x"
  shows "\<exists>t. sem f (runProvisionWorkflow (Inr H) New j x) s () t \<and>
     tenant_status (db t) i = Some TenantStatusActive \<and> job_status (db t) i j = Some JobStatusReady"
proof -
  obtain u where u: "sem f (JobStore_Claim uuid_Nil j) s (Inr True) u" "tenants (db u) = tenants (db s)"
    using can_Claim [OF assms(1)] by blast
  have g: "sem f (TenantStore_GetBySlug x) u (Inr (scan_tenant i row)) u"
    by (rule can_GetBySlug) (use u(2) assms in simp_all)
  obtain t where t: "sem f (provision_tenant (Inr H) New j x (scan_tenant i row)) u () t"
    "tenant_status (db t) i = Some TenantStatusActive" "job_status (db t) i j = Some JobStatusReady"
    using can_provision [OF assms(4), of f H j "scan_tenant i row" u] by (auto simp: scan_tenant_def)
  have "sem f (runProvisionWorkflow (Inr H) New j x) s () t"
    unfolding runProvisionWorkflow_def New_sel
    by (rule can_attempt [OF u(1)]) (use can_attempt [OF g] t(1) in \<open>simp del: sem_bind\<close>)
  then show ?thesis using t by blast
qed

section \<open>Deprovisioning\<close>

text \<open>
  A tenant that ends DELETED had its kubeconfig revoked and its vCluster deleted (or the CLI said
  there was none).
\<close>

definition deleted_cluster :: "string \<Rightarrow> sys \<Rightarrow> bool" where
  "deleted_cluster x s \<longleftrightarrow> kv s (kv_path x) = None \<and>
     (\<exists>b. ([''vcluster'', ''delete'', x, ''--namespace'', ''tenant-'' @ x], [], b) \<in> set (cmds s))"

lemma DeleteVCluster_logged:
  assumes "sem f (DeleteVCluster x ns) s None t"
  shows "\<exists>b. ([''vcluster'', ''delete'', x, ''--namespace'', ns], [], b) \<in> set (cmds t)"
proof (cases "validateTenantID x")
  case None
  from assms [unfolded DeleteVCluster_def None option.case] show ?thesis
  proof (cases rule: checkE)
    case (fail e u)
    then have "t = u" by (simp split: if_splits)
    then show ?thesis using runVClusterCLI_sem [OF fail(1)] by auto
  next
    case (ok u)
    then show ?thesis using runVClusterCLI_sem [OF ok(1)] by auto
  qed
next
  case (Some e)
  then show ?thesis using assms by (simp add: DeleteVCluster_def)
qed

lemma failJob_status: "sem f (failJob New i j step e) s a t \<Longrightarrow> tenant_status (db t) = tenant_status (db s)"
  by (rule quiet_status [OF _ failJob_quiet])

lemma UpdateStatus_status:
  "sem f (TenantStore_UpdateStatus i st) s r t \<Longrightarrow>
     same_outside s t \<and> (\<forall>k. k \<noteq> i \<longrightarrow> tenant_status (db t) k = tenant_status (db s) k)"
  by (cases r) (auto simp: TenantStore_UpdateStatus_def tenant_status_def)

lemma deprovision_claimed:
  assumes "sem f (
         check (Revoke (Slug T))
           (failJob New (TenantID T) j ''revoke kubeconfig'')
           (check (DeleteVCluster (Slug T) (''tenant-'' @ Slug T))
             (failJob New (TenantID T) j ''delete vCluster'')
             (check (TenantStore_UpdateStatus (TenantID T) TenantStatusDeleted)
               (failJob New (TenantID T) j ''set tenant DELETED'')
               (bind (JobStore_Complete (TenantID T) j res) (\<lambda>_. Ret ()))))) s a t"
    and change: "tenant_status (db t) i \<noteq> tenant_status (db s) i"
  shows "i = TenantID T \<and> deleted_cluster (Slug T) t"
  using assms(1)
proof (cases rule: checkE)
  case (fail e u)
  have "db u = db s" using kubeconfig_Revoke_frame [OF fail(1)] by simp
  then show ?thesis using failJob_status [OF fail(2)] change by simp
next
  case revoked: (ok u)
  then have u: "db u = db s" "kv u (kv_path (Slug T)) = None" by (auto simp: kubeconfig_Revoke_sem)
  from revoked(2) show ?thesis
  proof (cases rule: checkE)
    case (fail e v)
    then show ?thesis using only_cmds_sel [OF Delete_only_cmds [OF fail(1)]] failJob_status [OF fail(2)] change u by simp
  next
    case deleted: (ok v)
    note v = only_cmds_sel [OF Delete_only_cmds [OF deleted(1)]] DeleteVCluster_logged [OF deleted(1)]
    have fin: "i = TenantID T \<and> deleted_cluster (Slug T) t"
      if w: "sem f (TenantStore_UpdateStatus (TenantID T) TenantStatusDeleted) v r w"
        and t: "same_outside w t" "tenant_status (db t) = tenant_status (db w)" for r w
      using UpdateStatus_status [OF w] v u t change
      by (auto simp: deleted_cluster_def same_outside_def)
    from deleted(2) show ?thesis
    proof (cases rule: checkE)
      case (fail e w)
      have "same_outside w t"
        by (rule sem_db_only [OF fail(2)]) (simp add: store_tables.failJob_tables)
      then show ?thesis using fin [OF fail(1)] failJob_status [OF fail(2)] by simp
    next
      case (ok w)
      then obtain c where c: "sem f (JobStore_Complete (TenantID T) j res) w c t" by auto
      have "same_outside w t" by (rule sem_db_only [OF c]) (simp add: JobStore_Complete_def)
      then show ?thesis using fin [OF ok(1)] quiet_status [OF c store_quiet(2)] by simp
    qed
  qed
qed

lemma deprovision_deletes:
  assumes "sem f (runDeprovisionWorkflow New j T) s a t"
    and "tenant_status (db t) i \<noteq> tenant_status (db s) i"
  shows "i = TenantID T \<and> deleted_cluster (Slug T) t"
proof -
  from assms(1) obtain r u where c: "sem f (JobStore_Claim (TenantID T) j) s r u" and rest: "sem f (
       if r \<noteq> Inr True then Ret ()
       else
         let hostNamespace = ''tenant-'' @ Slug T in
         check (Revoke (Slug T))
           (failJob New (TenantID T) j ''revoke kubeconfig'')
           (check (DeleteVCluster (Slug T) hostNamespace)
             (failJob New (TenantID T) j ''delete vCluster'')
             (check (TenantStore_UpdateStatus (TenantID T) TenantStatusDeleted)
               (failJob New (TenantID T) j ''set tenant DELETED'')
               (bind (JobStore_Complete (TenantID T) j (Marshal (JObj [(''deprovisioned'', JBool True)])))
                 (\<lambda>_. Ret ()))))) u a t"
    unfolding runDeprovisionWorkflow_def sem_bind New_sel by blast
  have u: "tenant_status (db u) = tenant_status (db s)" using quiet_status [OF c store_quiet(1)] .
  show ?thesis
  proof (cases "r = Inr True")
    case False
    then show ?thesis using rest u assms(2) by simp
  next
    case True
    show ?thesis
      by (rule deprovision_claimed [OF rest [unfolded Let_def True not_True_eq_False if_False simp_thms]])
         (use u assms(2) in simp)
  qed
qed

end
