(* ===== verification/AccountsService.thy ===== *)
theory AccountsService
  imports UserStore ProvisionerService
begin

text \<open>
  \<open>services/accounts/service\<close>: registration, network provisioning, account status and API keys.
  The store interfaces the service needs are records of operations; \<open>store_deps\<close> is the wiring of
  \<open>cmd/cf-accounts\<close>: the stores of \<open>internal/accounts\<close> and the provisioner as a library.
\<close>

section \<open>Models\<close>

definition PlanStarter :: string where "PlanStarter = ''starter''"
definition PlanPro :: string where "PlanPro = ''pro''"
definition PlanEnterprise :: string where "PlanEnterprise = ''enterprise''"

record AccountResult =
  ar_CreatedAt :: time
  ar_Slug :: string
  ar_DisplayName :: string
  ar_Status :: string
  ar_Plan :: string
  ar_PodCIDR :: string
  ar_ServiceCIDR :: string
  ar_TenantID :: uuid

record ProvisionNetworkResult =
  pn_Slug :: string
  pn_Status :: string
  pn_TenantID :: uuid
  pn_JobID :: uuid

record DeleteAccountResult =
  da_Slug :: string
  da_JobID :: uuid

record IssueKeyParams =
  ik_TenantSlug :: string
  ik_DisplayName :: string
  ik_Scopes :: string

record KeyResult =
  kr_CreatedAt :: time
  kr_RawKey :: string
  kr_DisplayName :: string
  kr_Scopes :: string
  kr_Status :: string
  kr_KeyID :: uuid

record RegisterParams =
  rp_Email :: string
  rp_Password :: string
  rp_Slug :: string
  rp_DisplayName :: string
  rp_Plan :: string

record RegisterResult =
  rr_InitialAPIKey :: string
  rr_Slug :: string
  rr_UserID :: uuid
  rr_TenantID :: uuid

definition ToAccountResultFromTenant :: "Tenant \<Rightarrow> AccountResult" where
  "ToAccountResultFromTenant t =
     \<lparr>ar_CreatedAt = CreatedAt t, ar_Slug = Slug t, ar_DisplayName = DisplayName t,
      ar_Status = Status t, ar_Plan = PlanID t, ar_PodCIDR = PodCIDR t,
      ar_ServiceCIDR = SvcCIDR t, ar_TenantID = TenantID t\<rparr>"

section \<open>Dependencies\<close>

record TenantStorer =
  ts_Create :: "string \<Rightarrow> string \<Rightarrow> string \<Rightarrow> (gerror + Tenant) prog"
  ts_GetBySlug :: "string \<Rightarrow> (gerror + Tenant) prog"

record UserStorer =
  us_Create :: "string \<Rightarrow> string \<Rightarrow> uuid \<Rightarrow> (gerror + User) prog"
  us_GetByEmail :: "string \<Rightarrow> (gerror + User) prog"

record APIKeyStorer =
  ks_Store :: "APIKey \<Rightarrow> gerror option prog"
  ks_RevokeByID :: "uuid \<Rightarrow> gerror option prog"

record CFAccountsService =
  as_tenants :: TenantStorer
  as_users :: UserStorer
  as_keys :: APIKeyStorer
  as_provisioner :: ProvisionerService
  as_keyGenerator :: "APIKey \<Rightarrow> gerror option prog"

definition NewAccounts ::
    "TenantStorer \<Rightarrow> UserStorer \<Rightarrow> APIKeyStorer \<Rightarrow> ProvisionerService \<Rightarrow> (APIKey \<Rightarrow> gerror option prog) \<Rightarrow>
     CFAccountsService" where
  "NewAccounts dT dU dK dP dG =
     \<lparr>as_tenants = dT, as_users = dU, as_keys = dK, as_provisioner = dP, as_keyGenerator = dG\<rparr>"

definition store_deps :: "(string \<Rightarrow> uuid option) \<Rightarrow> CFAccountsService" where
  "store_deps uuid_Parse =
     NewAccounts \<lparr>ts_Create = TenantStore_Create, ts_GetBySlug = TenantStore_GetBySlug\<rparr>
       \<lparr>us_Create = UserStore_Create NewUserStore, us_GetByEmail = UserStore_GetByEmail NewUserStore\<rparr>
       \<lparr>ks_Store = APIKeyStore_Store, ks_RevokeByID = APIKeyStore_RevokeByID\<rparr>
       (provisioner_service uuid_Parse New) APIKeyStore_Store"

section \<open>Operations\<close>

definition ProvisionNetwork :: "CFAccountsService \<Rightarrow> string \<Rightarrow> (gerror + ProvisionNetworkResult) prog" where
  "ProvisionNetwork s tenantSlug =
     attempt (ts_GetBySlug (as_tenants s) tenantSlug)
       (\<lambda>e. if errors_Is e (Sentinel accounts_ErrTenantNotFound)
            then Ret (Inl (Sentinel accountssvc_ErrAccountNotFound))
            else Ret (Inl (Errorf ''accounts: provision network, lookup tenant: '' e)))
       (\<lambda>tenant.
         attempt (ps_Provision (as_provisioner s) \<lparr>pp_TenantSlug = tenantSlug\<rparr>)
           (\<lambda>e. if errors_Is e (Sentinel provisionersvc_ErrTenantAlreadyExists)
                then Ret (Inl (Sentinel accountssvc_ErrAccountAlreadyExists))
                else Ret (Inl (Errorf ''accounts: provision network: '' e)))
           (\<lambda>jobID. Ret (Inr \<lparr>pn_Slug = tenantSlug, pn_Status = TenantStatusProvisioning,
              pn_TenantID = TenantID tenant, pn_JobID = jobID\<rparr>)))"

definition GetAccount :: "CFAccountsService \<Rightarrow> string \<Rightarrow> (gerror + AccountResult) prog" where
  "GetAccount s tenantSlug =
     attempt (ts_GetBySlug (as_tenants s) tenantSlug)
       (\<lambda>e. if errors_Is e (Sentinel accounts_ErrTenantNotFound)
            then Ret (Inl (Sentinel accountssvc_ErrAccountNotFound))
            else Ret (Inl (Errorf ''accounts: get account: '' e)))
       (\<lambda>tenant. Ret (Inr (ToAccountResultFromTenant tenant)))"

definition DeleteAccount :: "CFAccountsService \<Rightarrow> string \<Rightarrow> (gerror + DeleteAccountResult) prog" where
  "DeleteAccount s tenantSlug =
     attempt (ps_Deprovision (as_provisioner s) \<lparr>dp_TenantSlug = tenantSlug\<rparr>)
       (\<lambda>e. if errors_Is e (Sentinel provisionersvc_ErrTenantNotFound)
            then Ret (Inl (Sentinel accountssvc_ErrAccountNotFound))
            else Ret (Inl (Errorf ''accounts: deprovision: '' e)))
       (\<lambda>jobID. Ret (Inr \<lparr>da_Slug = tenantSlug, da_JobID = jobID\<rparr>))"

definition IssueKey :: "hasher \<Rightarrow> CFAccountsService \<Rightarrow> IssueKeyParams \<Rightarrow> (gerror + KeyResult) prog" where
  "IssueKey New256 s p =
     attempt (ts_GetBySlug (as_tenants s) (ik_TenantSlug p))
       (\<lambda>e. if errors_Is e (Sentinel accounts_ErrTenantNotFound)
            then Ret (Inl (Sentinel accountssvc_ErrAccountNotFound))
            else Ret (Inl (Errorf ''accounts: issue key, lookup tenant: '' e)))
       (\<lambda>tenant.
         if Status tenant \<noteq> TenantStatusActive then Ret (Inl (Sentinel accountssvc_ErrAccountNotActive))
         else
           let scopes = (if ik_Scopes p = [] then ''provision:read'' else ik_Scopes p) in
           attempt (GenerateAPIKey New256 (as_keyGenerator s) (TenantID tenant) (ik_DisplayName p) scopes)
             (\<lambda>e. Ret (Inl (Errorf ''accounts: generate api key: '' e)))
             (\<lambda>generated. Ret (Inr
                \<lparr>kr_CreatedAt = Key_CreatedAt (Gen_Record generated),
                 kr_RawKey = Gen_RawKey generated,
                 kr_DisplayName = Key_DisplayName (Gen_Record generated),
                 kr_Scopes = Key_Scopes (Gen_Record generated),
                 kr_Status = Key_Status (Gen_Record generated),
                 kr_KeyID = Key_KeyID (Gen_Record generated)\<rparr>)))"

definition Register :: "hasher \<Rightarrow> CFAccountsService \<Rightarrow> RegisterParams \<Rightarrow> (gerror + RegisterResult) prog" where
  "Register New256 s p =
     bind (us_GetByEmail (as_users s) (rp_Email p)) (\<lambda>r. case r of
       Inr _ \<Rightarrow> Ret (Inl (Sentinel accountssvc_ErrEmailAlreadyRegistered))
     | Inl e0 \<Rightarrow>
       if \<not> errors_Is e0 (Sentinel accounts_ErrUserNotFound)
       then Ret (Inl (Errorf ''accounts: register, email lookup: '' e0))
       else
       attempt (ts_Create (as_tenants s) (rp_Slug p) (rp_DisplayName p) (rp_Plan p))
         (\<lambda>e. if errors_Is e (Sentinel accounts_ErrTenantAlreadyExists)
              then Ret (Inl (Sentinel accountssvc_ErrAccountAlreadyExists))
              else Ret (Inl (Errorf ''accounts: register, create tenant: '' e)))
         (\<lambda>tenant.
       attempt (Bcrypt (rp_Password p) 12 Ret)
         (\<lambda>e. Ret (Inl (Errorf ''accounts: register, hash password: '' e)))
         (\<lambda>hash.
       attempt (us_Create (as_users s) (rp_Email p) hash (TenantID tenant))
         (\<lambda>e. if errors_Is e (Sentinel accounts_ErrEmailAlreadyRegistered)
              then Ret (Inl (Sentinel accountssvc_ErrEmailAlreadyRegistered))
              else Ret (Inl (Errorf ''accounts: register, create user: '' e)))
         (\<lambda>user.
       attempt (GenerateAPIKey New256 (as_keyGenerator s) (TenantID tenant) ''initial'' ''provision:read'')
         (\<lambda>e. Ret (Inl (Errorf ''accounts: register, issue initial key: '' e)))
         (\<lambda>key. Ret (Inr
            \<lparr>rr_InitialAPIKey = Gen_RawKey key, rr_Slug = rp_Slug p,
             rr_UserID = User_UserID user, rr_TenantID = TenantID tenant\<rparr>))))))"

definition RevokeKey :: "CFAccountsService \<Rightarrow> string \<Rightarrow> uuid \<Rightarrow> gerror option prog" where
  "RevokeKey s tenantSlug keyID =
     attempt (ts_GetBySlug (as_tenants s) tenantSlug)
       (\<lambda>e. if errors_Is e (Sentinel accounts_ErrTenantNotFound)
            then Ret (Some (Sentinel accountssvc_ErrAccountNotFound))
            else Ret (Some (Errorf ''accounts: revoke key, lookup tenant: '' e)))
       (\<lambda>_. check (ks_RevokeByID (as_keys s) keyID)
          (\<lambda>e. Ret (Some (Errorf (''accounts: revoke key '' @ uuid_String keyID @ '': '') e)))
          (Ret None))"

lemmas accounts_defs = ProvisionNetwork_def GetAccount_def DeleteAccount_def IssueKey_def
  Register_def RevokeKey_def

lemma store_deps_sel [simp]:
  "ts_Create (as_tenants (store_deps P)) = TenantStore_Create"
  "ts_GetBySlug (as_tenants (store_deps P)) = TenantStore_GetBySlug"
  "us_Create (as_users (store_deps P)) = UserStore_Create NewUserStore"
  "us_GetByEmail (as_users (store_deps P)) = UserStore_GetByEmail NewUserStore"
  "ks_RevokeByID (as_keys (store_deps P)) = APIKeyStore_RevokeByID"
  "as_keyGenerator (store_deps P) = APIKeyStore_Store"
  "ps_Provision (as_provisioner (store_deps P)) = Provision New"
  "ps_GetJob (as_provisioner (store_deps P)) = GetJob P New"
  "ps_Deprovision (as_provisioner (store_deps P)) = Deprovision New"
  by (simp_all add: store_deps_def NewAccounts_def provisioner_service_def)

end
