(* ===== verification/AccountsFacts.thy ===== *)
theory AccountsFacts
  imports AccountsService
begin

text \<open>
  What the accounts service does on its stores. The locale \<open>tenant_storer\<close> is the contract of the
  \<open>TenantStorer\<close> reads over a view \<open>known\<close> of the tenants, \<open>accounts_service\<close> adds the one of the
  key generator's store; the operations that only depend on them are proved there, and the
  interpretation \<open>accounts\<close> discharges both for the ScyllaDB stores. Registration is proved on the
  stores themselves.
\<close>

section \<open>Operations that look a tenant up\<close>

locale tenant_storer =
  fixes T :: TenantStorer and known :: "sys \<Rightarrow> string \<Rightarrow> Tenant \<Rightarrow> bool"
  assumes GetBySlug_law: "sem f (ts_GetBySlug T x) s r t \<Longrightarrow> t = s \<and>
    (case r of Inr tn \<Rightarrow> known s x tn
     | Inl e \<Rightarrow> (e = Sentinel accounts_ErrTenantNotFound \<and> (\<nexists>tn. known s x tn)) \<or>
         (faulty f \<and> (\<forall>n. \<not> errors_Is e (Sentinel n))))"
begin

lemma unknown:
  assumes "sem NoFaults (ts_GetBySlug T x) s r t" and "\<nexists>tn. known s x tn"
  shows "r = Inl (Sentinel accounts_ErrTenantNotFound) \<and> t = s"
  using GetBySlug_law [OF assms(1)] assms(2) by (cases r) auto

lemma unknown_bind:
  assumes "\<nexists>tn. known s x tn" and "sem NoFaults (bind (ts_GetBySlug T x) g) s r t"
  shows "sem NoFaults (g (Inl (Sentinel accounts_ErrTenantNotFound))) s r t"
  using assms(2) unknown [OF _ assms(1)] unfolding sem_bind by blast

lemma looked_up:
  assumes "sem f (ts_GetBySlug T x) s (Inr tn) t"
  shows "known s x tn" and "t = s"
  using GetBySlug_law [OF assms] by simp_all

lemma lookup_error:
  assumes "sem f (ts_GetBySlug T x) s (Inl e) t"
  shows "t = s" and "errors_Is e (Sentinel n) \<Longrightarrow> e = Sentinel accounts_ErrTenantNotFound \<and>
      n = accounts_ErrTenantNotFound \<and> (\<nexists>tn. known s x tn)"
    and "\<not> errors_Is e (Sentinel accounts_ErrTenantNotFound) \<Longrightarrow> faulty f \<and> (\<forall>n. \<not> errors_Is e (Sentinel n))"
  using GetBySlug_law [OF assms] by auto

end

locale accounts_service =
  tenant_storer "as_tenants S" known + api_key_storer "as_keyGenerator S" lookup
  for S :: CFAccountsService and known lookup
begin

text \<open>\<open>GetAccount\<close> reads: the tenant, the not-found error, or an error that is no sentinel.\<close>

lemma GetAccount_sem:
  assumes "sem f (GetAccount S x) s r t"
  shows "t = s \<and> (case r of
      Inr A \<Rightarrow> (\<exists>tn. known s x tn \<and> A = ToAccountResultFromTenant tn)
    | Inl e \<Rightarrow> (e = Sentinel accountssvc_ErrAccountNotFound \<and> (\<nexists>tn. known s x tn)) \<or>
        (faulty f \<and> (\<forall>n. \<not> errors_Is e (Sentinel n))))"
proof -
  from assms obtain q u where q: "sem f (ts_GetBySlug (as_tenants S) x) s q u"
    and r: "sem f (case q of
        Inl e \<Rightarrow> if errors_Is e (Sentinel accounts_ErrTenantNotFound)
            then Ret (Inl (Sentinel accountssvc_ErrAccountNotFound))
            else Ret (Inl (Errorf ''accounts: get account: '' e))
      | Inr tn \<Rightarrow> Ret (Inr (ToAccountResultFromTenant tn))) u r t"
    unfolding GetAccount_def sem_bind by blast
  show ?thesis
  proof (cases q)
    case (Inl e)
    then show ?thesis using lookup_error [of f x s e u] q r
      by (cases "errors_Is e (Sentinel accounts_ErrTenantNotFound)") auto
  next
    case (Inr tn)
    then show ?thesis using looked_up [of f x s tn u] q r by auto
  qed
qed

text \<open>Every operation but \<open>Register\<close> refuses an unknown account, and changes nothing.\<close>

lemma unknown_account:
  assumes "\<nexists>tn. known s x tn"
  shows "sem NoFaults (GetAccount S x) s r t \<Longrightarrow> r = Inl (Sentinel accountssvc_ErrAccountNotFound) \<and> t = s"
    and "sem NoFaults (ProvisionNetwork S x) s r1 t \<Longrightarrow> r1 = Inl (Sentinel accountssvc_ErrAccountNotFound) \<and> t = s"
    and "sem NoFaults (IssueKey N S p) s r2 t \<Longrightarrow> ik_TenantSlug p = x \<Longrightarrow>
      r2 = Inl (Sentinel accountssvc_ErrAccountNotFound) \<and> t = s"
    and "sem NoFaults (RevokeKey S x i) s r3 t \<Longrightarrow> r3 = Some (Sentinel accountssvc_ErrAccountNotFound) \<and> t = s"
  unfolding accounts_defs using unknown_bind [OF assms] by fastforce+

lemma IssueKey_not_active:
  assumes "sem NoFaults (IssueKey N S p) s r t"
    and "\<And>tn. known s (ik_TenantSlug p) tn \<Longrightarrow> Status tn \<noteq> TenantStatusActive"
  shows "t = s \<and> (r = Inl (Sentinel accountssvc_ErrAccountNotActive) \<or>
    r = Inl (Sentinel accountssvc_ErrAccountNotFound) \<and> (\<nexists>tn. known s (ik_TenantSlug p) tn))"
proof -
  from assms(1) obtain q u where q: "sem NoFaults (ts_GetBySlug (as_tenants S) (ik_TenantSlug p)) s q u"
    and r: "sem NoFaults (case q of
        Inl e \<Rightarrow> if errors_Is e (Sentinel accounts_ErrTenantNotFound)
            then Ret (Inl (Sentinel accountssvc_ErrAccountNotFound))
            else Ret (Inl (Errorf ''accounts: issue key, lookup tenant: '' e))
      | Inr tenant \<Rightarrow>
         if Status tenant \<noteq> TenantStatusActive then Ret (Inl (Sentinel accountssvc_ErrAccountNotActive))
         else
           let scopes = (if ik_Scopes p = [] then ''provision:read'' else ik_Scopes p) in
           attempt (GenerateAPIKey N (as_keyGenerator S) (TenantID tenant) (ik_DisplayName p) scopes)
             (\<lambda>e. Ret (Inl (Errorf ''accounts: generate api key: '' e)))
             (\<lambda>generated. Ret (Inr
                \<lparr>kr_CreatedAt = Key_CreatedAt (Gen_Record generated),
                 kr_RawKey = Gen_RawKey generated,
                 kr_DisplayName = Key_DisplayName (Gen_Record generated),
                 kr_Scopes = Key_Scopes (Gen_Record generated),
                 kr_Status = Key_Status (Gen_Record generated),
                 kr_KeyID = Key_KeyID (Gen_Record generated)\<rparr>))) u r t"
    unfolding IssueKey_def sem_bind by blast
  show ?thesis
  proof (cases q)
    case (Inl e)
    then show ?thesis using GetBySlug_law [OF q] r by auto
  next
    case (Inr tn)
    then show ?thesis using GetBySlug_law [OF q] r assms(2) by auto
  qed
qed

text \<open>A key is issued to an ACTIVE tenant only, and authenticates as that tenant.\<close>

lemma IssueKey_ok:
  assumes "sem f (IssueKey (Inr H) S p) s (Inr K) t"
  shows "\<exists>tn keyID buf. known s (ik_TenantSlug p) tn \<and> Status tn = TenantStatusActive \<and>
    length buf = apiKeyRandomBytes \<and> kr_RawKey K = apiKeyPrefix @ EncodeToString buf \<and>
    kr_KeyID K = keyID \<and> kr_Status K = APIKeyStatusActive \<and>
    kr_Scopes K = (if ik_Scopes p = [] then ''provision:read'' else ik_Scopes p) \<and>
    kr_DisplayName K = ik_DisplayName p \<and>
    (lookup s (EncodeToString (H (kr_RawKey K))) = None \<longrightarrow>
      (\<exists>k. lookup t (EncodeToString (H (kr_RawKey K))) = Some k \<and> Key_TenantID k = TenantID tn \<and>
         Key_Status k = APIKeyStatusActive \<and> Key_Scopes k = kr_Scopes K \<and> Key_KeyID k = keyID))"
proof -
  let ?sc = "if ik_Scopes p = [] then ''provision:read'' else ik_Scopes p"
  from assms obtain tn G where tn: "sem f (ts_GetBySlug (as_tenants S) (ik_TenantSlug p)) s (Inr tn) s"
    and act: "Status tn = TenantStatusActive"
    and G: "sem f (GenerateAPIKey (Inr H) (as_keyGenerator S) (TenantID tn) (ik_DisplayName p) ?sc) s (Inr G) t"
    and K: "K = \<lparr>kr_CreatedAt = Key_CreatedAt (Gen_Record G), kr_RawKey = Gen_RawKey G,
                 kr_DisplayName = Key_DisplayName (Gen_Record G),
                 kr_Scopes = Key_Scopes (Gen_Record G),
                 kr_Status = Key_Status (Gen_Record G), kr_KeyID = Key_KeyID (Gen_Record G)\<rparr>"
    unfolding IssueKey_def sem_bind Let_def
    by (auto simp: ex_reply split: if_splits sum.splits dest: looked_up)
  from Generate_sem [OF G] obtain keyID buf where
    len: "length buf = apiKeyRandomBytes" and raw: "Gen_RawKey G = apiKeyPrefix @ EncodeToString buf"
    and h: "Gen_KeyHash G = EncodeToString (H (Gen_RawKey G))"
    and rec: "Gen_Record G = new_api_key (Gen_KeyHash G) keyID (TenantID tn) (ik_DisplayName p) ?sc" by blast
  have "\<exists>k. lookup t (Gen_KeyHash G) = Some k \<and> Key_TenantID k = TenantID tn \<and>
      Key_Status k = APIKeyStatusActive \<and> Key_Scopes k = ?sc \<and> Key_KeyID k = Key_KeyID (Gen_Record G)"
    if "lookup s (Gen_KeyHash G) = None"
    by (rule Generate_found [OF G that]) (simp add: HashAPIKey_def h)
  then show ?thesis using looked_up [OF tn] act len raw
    by (intro exI [of _ tn] exI [of _ keyID] exI [of _ buf]) (simp add: K rec h new_api_key_def)
qed

end

definition tenant_known :: "sys \<Rightarrow> string \<Rightarrow> Tenant \<Rightarrow> bool" where
  "tenant_known s x tn \<longleftrightarrow>
     (\<exists>i row. tenants (db s) i = Some row \<and> col_slug row = Some x \<and> tn = scan_tenant i row)"

lemma tenant_known_has: "(\<exists>tn. tenant_known s x tn) \<longleftrightarrow> (\<exists>i. tenant_has (db s) i x)"
  by (auto simp: tenant_known_def tenant_has_def)

lemma known_row:
  "tenants (db s) i = Some row \<Longrightarrow> col_slug row = Some x \<Longrightarrow> \<exists>tn. tenant_known s x tn"
  by (auto simp: tenant_known_def)

interpretation accounts: accounts_service "store_deps P" tenant_known key_found for P
proof (unfold_locales, goal_cases)
  case (1 f x s r t)
  then show ?case using GetBySlug_sem [of f x s r t]
    by (cases r) (auto simp: tenant_known_def tenant_has_def)
qed (auto simp: key_found_def Store_sem dest: Store_keeps)

section \<open>Registration\<close>

definition email_taken :: "cf_db \<Rightarrow> string \<Rightarrow> bool" where
  "email_taken d x \<longleftrightarrow> (\<exists>i row. users_by_email d x i row)"

text \<open>The part of \<open>Register\<close> after the email check, and after the tenant is created.\<close>

definition register_user :: "hasher \<Rightarrow> CFAccountsService \<Rightarrow> RegisterParams \<Rightarrow> Tenant \<Rightarrow> (gerror + RegisterResult) prog" where
  "register_user N S p tenant =
     attempt (Bcrypt (rp_Password p) 12 Ret)
       (\<lambda>e. Ret (Inl (Errorf ''accounts: register, hash password: '' e)))
       (\<lambda>hash.
     attempt (us_Create (as_users S) (rp_Email p) hash (TenantID tenant))
       (\<lambda>e. if errors_Is e (Sentinel accounts_ErrEmailAlreadyRegistered)
            then Ret (Inl (Sentinel accountssvc_ErrEmailAlreadyRegistered))
            else Ret (Inl (Errorf ''accounts: register, create user: '' e)))
       (\<lambda>user.
     attempt (GenerateAPIKey N (as_keyGenerator S) (TenantID tenant) ''initial'' ''provision:read'')
       (\<lambda>e. Ret (Inl (Errorf ''accounts: register, issue initial key: '' e)))
       (\<lambda>key. Ret (Inr
          \<lparr>rr_InitialAPIKey = Gen_RawKey key, rr_Slug = rp_Slug p,
           rr_UserID = User_UserID user, rr_TenantID = TenantID tenant\<rparr>))))"

definition register_tenant :: "hasher \<Rightarrow> CFAccountsService \<Rightarrow> RegisterParams \<Rightarrow> (gerror + RegisterResult) prog" where
  "register_tenant N S p =
     attempt (ts_Create (as_tenants S) (rp_Slug p) (rp_DisplayName p) (rp_Plan p))
       (\<lambda>e. if errors_Is e (Sentinel accounts_ErrTenantAlreadyExists)
            then Ret (Inl (Sentinel accountssvc_ErrAccountAlreadyExists))
            else Ret (Inl (Errorf ''accounts: register, create tenant: '' e)))
       (register_user N S p)"

lemma Register_email:
  assumes "sem f (Register N (store_deps P) p) s r t"
  shows "(email_taken (db s) (rp_Email p) \<and> t = s \<and> r = Inl (Sentinel accountssvc_ErrEmailAlreadyRegistered)) \<or>
    (faulty f \<and> t = s \<and> (\<exists>e. r = Inl (Errorf ''accounts: register, email lookup: '' e) \<and>
       (\<forall>n. \<not> errors_Is e (Sentinel n)))) \<or>
    (\<not> email_taken (db s) (rp_Email p) \<and> sem f (register_tenant N (store_deps P) p) s r t)"
proof -
  from assms obtain q u where q: "sem f (UserStore_GetByEmail NewUserStore (rp_Email p)) s q u"
    and r: "sem f (case q of
       Inr _ \<Rightarrow> Ret (Inl (Sentinel accountssvc_ErrEmailAlreadyRegistered))
     | Inl e0 \<Rightarrow>
       if \<not> errors_Is e0 (Sentinel accounts_ErrUserNotFound)
       then Ret (Inl (Errorf ''accounts: register, email lookup: '' e0))
       else register_tenant N (store_deps P) p) u r t"
    unfolding Register_def register_tenant_def register_user_def sem_bind store_deps_sel by blast
  have "u = s" using gocql_users.GetByEmail_sem [OF q] by simp
  show ?thesis
  proof (cases q)
    case (Inl e)
    then show ?thesis using gocql_users.GetByEmail_sem [OF q] r
      by (auto simp: email_taken_def split: if_splits)
  next
    case (Inr U)
    then show ?thesis using gocql_users.GetByEmail_sem [OF q] r by (auto simp: email_taken_def)
  qed
qed

text \<open>A successful registration: one tenant, one user and one key, and nothing is provisioned.\<close>

lemma Register_ok:
  assumes "sem f (Register (Inr H) (store_deps P) p) s (Inr R) t"
  shows "\<exists>now now' hash buf G.
    \<not> email_taken (db s) (rp_Email p) \<and> \<not> tenant_slugs (db s) (rp_Slug p) \<and> length (rp_Password p) \<le> 72 \<and>
    tenants (db s) (rr_TenantID R) = None \<and> users (db s) (rr_UserID R) = None \<and> rr_Slug R = rp_Slug p \<and>
    length buf = apiKeyRandomBytes \<and> rr_InitialAPIKey R = apiKeyPrefix @ EncodeToString buf \<and>
    G = new_api_key (EncodeToString (H (rr_InitialAPIKey R))) (Key_KeyID G) (rr_TenantID R)
          ''initial'' ''provision:read'' \<and>
    t = s\<lparr>db := cas_effect (InsertAPIKey (Key_KeyHash G) (key_row_of G))
      ((db s)\<lparr>tenant_slugs := (tenant_slugs (db s))(rp_Slug p := True),
              tenants := (tenants (db s))(rr_TenantID R \<mapsto>
                new_tenant_row (new_tenant (rr_TenantID R) now (rp_Slug p) (rp_DisplayName p) (rp_Plan p))),
              users := (users (db s))(rr_UserID R \<mapsto>
                new_user_row (new_user (rr_UserID R) now' (rp_Email p) hash (rr_TenantID R)))\<rparr>)\<rparr>"
proof -
  from Register_email [OF assms] have new: "\<not> email_taken (db s) (rp_Email p)"
    and tn: "sem f (register_tenant (Inr H) (store_deps P) p) s (Inr R) t" by auto
  from tn [unfolded register_tenant_def store_deps_sel] obtain T s1 where
    c: "sem f (TenantStore_Create (rp_Slug p) (rp_DisplayName p) (rp_Plan p)) s (Inr T) s1"
    and rest: "sem f (register_user (Inr H) (store_deps P) p T) s1 (Inr R) t"
    by (cases rule: attemptE) (auto split: if_splits)
  from rest [unfolded register_user_def store_deps_sel] obtain hash s2 where
    pw: "length (rp_Password p) \<le> 72" "s2 = s1" and "sem f (
     attempt (UserStore_Create NewUserStore (rp_Email p) hash (TenantID T))
       (\<lambda>e. if errors_Is e (Sentinel accounts_ErrEmailAlreadyRegistered)
            then Ret (Inl (Sentinel accountssvc_ErrEmailAlreadyRegistered))
            else Ret (Inl (Errorf ''accounts: register, create user: '' e)))
       (\<lambda>user.
     attempt (GenerateAPIKey (Inr H) APIKeyStore_Store (TenantID T) ''initial'' ''provision:read'')
       (\<lambda>e. Ret (Inl (Errorf ''accounts: register, issue initial key: '' e)))
       (\<lambda>key. Ret (Inr
          \<lparr>rr_InitialAPIKey = Gen_RawKey key, rr_Slug = rp_Slug p,
           rr_UserID = User_UserID user, rr_TenantID = TenantID T\<rparr>)))) s2 (Inr R) t"
    by (cases rule: attemptE) auto
  from this(3) obtain U s3 where
    u: "sem f (UserStore_Create NewUserStore (rp_Email p) hash (TenantID T)) s1 (Inr U) s3" and
    "sem f (attempt (GenerateAPIKey (Inr H) APIKeyStore_Store (TenantID T) ''initial'' ''provision:read'')
       (\<lambda>e. Ret (Inl (Errorf ''accounts: register, issue initial key: '' e)))
       (\<lambda>key. Ret (Inr
          \<lparr>rr_InitialAPIKey = Gen_RawKey key, rr_Slug = rp_Slug p,
           rr_UserID = User_UserID U, rr_TenantID = TenantID T\<rparr>))) s3 (Inr R) t"
    unfolding pw(2) by (cases rule: attemptE) (auto split: if_splits)
  from this(2) obtain K where
    k: "sem f (GenerateAPIKey (Inr H) APIKeyStore_Store (TenantID T) ''initial'' ''provision:read'') s3 (Inr K) t"
    and R: "R = \<lparr>rr_InitialAPIKey = Gen_RawKey K, rr_Slug = rp_Slug p,
           rr_UserID = User_UserID U, rr_TenantID = TenantID T\<rparr>"
    by (cases rule: attemptE) auto
  from tenant_Create_Inr [OF c] obtain i now where T: "T = new_tenant i now (rp_Slug p) (rp_DisplayName p) (rp_Plan p)"
    and s1: "\<not> tenant_slugs (db s) (rp_Slug p)" "tenants (db s) i = None" "s1 = tenant_created T s" by blast
  from u [unfolded gocql_users.Create_Inr] obtain j now' where
    U: "U = new_user j now' (rp_Email p) hash (TenantID T)" and s3: "users (db s1) j = None"
    "s3 = s1\<lparr>db := (db s1)\<lparr>users := (users (db s1))(j \<mapsto> new_user_row U)\<rparr>\<rparr>" by blast
  from key_store.Generate_sem [OF k] obtain keyID buf where
    buf: "length buf = apiKeyRandomBytes" "Gen_RawKey K = apiKeyPrefix @ EncodeToString buf"
    and rec: "Gen_Record K = new_api_key (EncodeToString (H (Gen_RawKey K))) keyID (TenantID T) ''initial'' ''provision:read''"
    and st: "sem f (APIKeyStore_Store (Gen_Record K)) s3 None t" by auto
  have t: "t = s3\<lparr>db := cas_effect (InsertAPIKey (Key_KeyHash (Gen_Record K)) (key_row_of (Gen_Record K))) (db s3)\<rparr>"
    using st unfolding Store_sem .
  have ids: "rr_TenantID R = i" "rr_UserID R = j" "rr_InitialAPIKey R = Gen_RawKey K" "rr_Slug R = rp_Slug p"
    by (simp_all add: R T U new_user_def)
  show ?thesis
    by (rule exI [of _ now], rule exI [of _ now'], rule exI [of _ hash], rule exI [of _ buf],
        rule exI [of _ "Gen_Record K"])
       (use new s1 s3 pw buf rec t in \<open>simp add: ids T U tenant_created_def new_api_key_def\<close>)
qed

text \<open>Registrations that are refused write nothing.\<close>

lemma Register_refused:
  assumes "sem NoFaults (Register N (store_deps P) p) s r t"
  shows "email_taken (db s) (rp_Email p) \<Longrightarrow>
      r = Inl (Sentinel accountssvc_ErrEmailAlreadyRegistered) \<and> t = s"
    and "\<not> email_taken (db s) (rp_Email p) \<Longrightarrow> tenant_slugs (db s) (rp_Slug p) \<Longrightarrow>
      r = Inl (Sentinel accountssvc_ErrAccountAlreadyExists) \<and> t = s"
proof -
  assume "email_taken (db s) (rp_Email p)"
  then show "r = Inl (Sentinel accountssvc_ErrEmailAlreadyRegistered) \<and> t = s"
    using Register_email [OF assms] by simp
next
  assume "\<not> email_taken (db s) (rp_Email p)" and taken: "tenant_slugs (db s) (rp_Slug p)"
  then have "sem NoFaults (register_tenant N (store_deps P) p) s r t"
    using Register_email [OF assms] by simp
  then show "r = Inl (Sentinel accountssvc_ErrAccountAlreadyExists) \<and> t = s"
    unfolding register_tenant_def store_deps_sel
    by (cases rule: attemptE)
       (use taken tenant_Create_Inr in \<open>force simp: TenantStore_Create_def Let_def cas_effect_def ex_reply\<close>)+
qed

text \<open>
  bcrypt refuses a password of more than 72 bytes, after the tenant was created: the account
  cannot be used, and its slug is taken.
\<close>

lemma Register_long_password:
  assumes "sem NoFaults (Register N (store_deps P) p) s r t" and "72 < length (rp_Password p)"
    and "\<not> email_taken (db s) (rp_Email p)" and "\<not> tenant_slugs (db s) (rp_Slug p)"
  shows "(\<exists>e. r = Inl e) \<and> users (db t) = users (db s) \<and>
    ((\<exists>T. tenant_known t (rp_Slug p) T \<and> tenant_slugs (db t) (rp_Slug p)) \<or>
     r = Inl (Sentinel accountssvc_ErrAccountAlreadyExists))"
proof -
  have "sem NoFaults (register_tenant N (store_deps P) p) s r t"
    using Register_email [OF assms(1)] assms(3) by simp
  then show ?thesis unfolding register_tenant_def store_deps_sel
  proof (cases rule: attemptE)
    case (fail e u)
    have "e = Sentinel accounts_ErrTenantAlreadyExists" "users (db u) = users (db s)"
      using fail(1) by (auto simp: TenantStore_Create_def Let_def cas_effect_def ex_reply split: if_splits)
    then show ?thesis using fail(2) by simp
  next
    case (ok T u)
    from tenant_Create_Inr [OF ok(1)] obtain i now where T: "T = new_tenant i now (rp_Slug p) (rp_DisplayName p) (rp_Plan p)"
      and u: "u = tenant_created T s" by blast
    have t: "t = u" and "\<exists>e. r = Inl e"
      using ok(2) assms(2) unfolding register_user_def by (auto simp: ex_reply)
    have "tenants (db u) i = Some (new_tenant_row T)" using created_row [of T s] by (simp add: u T)
    then have "\<exists>T. tenant_known t (rp_Slug p) T" unfolding t
      by (rule known_row) (simp add: T new_tenant_row_def)
    moreover have "tenant_slugs (db t) (rp_Slug p)" "users (db t) = users (db s)"
      by (simp_all add: t u T tenant_created_def)
    ultimately show ?thesis using \<open>\<exists>e. r = Inl e\<close> by blast
  qed
qed

end
