(* ===== verification/AccountsApi.thy ===== *)
theory AccountsApi
  imports Http AccountsFacts
begin

text \<open>
  \<open>services/accounts\<close>: the REST layer of the accounts service. \<open>mail_ParseAddress\<close>, the address
  parser of Go's \<open>net/mail\<close>, is an argument: the code only looks at its error.
\<close>

section \<open>Errors\<close>

definition accounts_HTTPStatusAndBody :: "gerror \<Rightarrow> int \<times> ErrorBody" where
  "accounts_HTTPStatusAndBody err =
     (if errors_Is err (Sentinel accountssvc_ErrAccountAlreadyExists)
      then (409, newBody CONFLICT (Error_String err))
      else if errors_Is err (Sentinel accountssvc_ErrEmailAlreadyRegistered)
      then (409, newBody CONFLICT (Error_String err))
      else if errors_Is err (Sentinel accountssvc_ErrAccountNotFound)
      then (404, newBody NOT_FOUND (Error_String err))
      else if errors_Is err (Sentinel accountssvc_ErrKeyNotFound)
      then (404, newBody NOT_FOUND (Error_String err))
      else if errors_Is err (Sentinel accountssvc_ErrAccountNotActive)
      then (422, newBody UNPROCESSABLE (Error_String err))
      else (500, newBody INTERNAL_ERROR ''internal server error''))"

definition accounts_ValidationBody :: "string \<Rightarrow> ErrorBody" where
  "accounts_ValidationBody msg = newBody UNPROCESSABLE msg"

definition accounts_BadRequestBody :: "string \<Rightarrow> ErrorBody" where
  "accounts_BadRequestBody msg = newBody BAD_REQUEST msg"

section \<open>Models and transformations\<close>

record AccountResponse =
  aresp_CreatedAt :: time
  aresp_DisplayName :: string
  aresp_Plan :: string
  aresp_PodCidr :: "string option"
  aresp_ServiceCidr :: "string option"
  aresp_Slug :: string
  aresp_Status :: string
  aresp_TenantId :: uuid

record CreateAccountAccepted =
  caa_TenantId :: uuid
  caa_Slug :: string
  caa_Status :: string
  caa_JobId :: uuid

record DeleteAccountAccepted =
  daa_Slug :: string
  daa_JobId :: uuid
  daa_Status :: string

record IssueKeyRequest =
  ikr_DisplayName :: string
  ikr_Scopes :: "string option"

record IssueKeyResponse =
  ikresp_KeyId :: uuid
  ikresp_RawKey :: string
  ikresp_DisplayName :: string
  ikresp_Scopes :: string
  ikresp_Status :: string
  ikresp_CreatedAt :: time

record RegisterRequest =
  regreq_Email :: string
  regreq_Password :: string
  regreq_Slug :: string
  regreq_DisplayName :: string
  regreq_Plan :: string

record RegisterResponse =
  regresp_UserId :: uuid
  regresp_TenantId :: uuid
  regresp_Slug :: string
  regresp_InitialApiKey :: string

definition ToGeneratedAccountResponse :: "AccountResult \<Rightarrow> AccountResponse" where
  "ToGeneratedAccountResponse a =
     \<lparr>aresp_CreatedAt = ar_CreatedAt a, aresp_DisplayName = ar_DisplayName a, aresp_Plan = ar_Plan a,
      aresp_PodCidr = (if ar_PodCIDR a \<noteq> [] then Some (ar_PodCIDR a) else None),
      aresp_ServiceCidr = (if ar_ServiceCIDR a \<noteq> [] then Some (ar_ServiceCIDR a) else None),
      aresp_Slug = ar_Slug a, aresp_Status = ar_Status a, aresp_TenantId = ar_TenantID a\<rparr>"

definition ToGeneratedIssueKeyResponse :: "KeyResult \<Rightarrow> IssueKeyResponse" where
  "ToGeneratedIssueKeyResponse k =
     \<lparr>ikresp_KeyId = kr_KeyID k, ikresp_RawKey = kr_RawKey k, ikresp_DisplayName = kr_DisplayName k,
      ikresp_Scopes = kr_Scopes k, ikresp_Status = ''ACTIVE'', ikresp_CreatedAt = kr_CreatedAt k\<rparr>"

definition ToServiceRegisterParams ::
    "(string \<Rightarrow> gerror option) \<Rightarrow> RegisterRequest \<Rightarrow> gerror + RegisterParams" where
  "ToServiceRegisterParams mail_ParseAddress r =
     (case mail_ParseAddress (regreq_Email r) of
        Some err \<Rightarrow> Inl (Errorf ''invalid email address: '' err)
      | None \<Rightarrow>
          if length (regreq_Password r) < 8 then Inl (Text ''password must be at least 8 characters'')
          else Inr \<lparr>rp_Email = regreq_Email r, rp_Password = regreq_Password r, rp_Slug = regreq_Slug r,
                    rp_DisplayName = regreq_DisplayName r, rp_Plan = regreq_Plan r\<rparr>)"

definition ToGeneratedRegisterResponse :: "RegisterResult \<Rightarrow> RegisterResponse" where
  "ToGeneratedRegisterResponse r =
     \<lparr>regresp_UserId = rr_UserID r, regresp_TenantId = rr_TenantID r, regresp_Slug = rr_Slug r,
      regresp_InitialApiKey = rr_InitialAPIKey r\<rparr>"

section \<open>Handlers\<close>

definition Handler_ProvisionNetwork ::
    "CFAccountsService \<Rightarrow> string \<Rightarrow> CreateAccountAccepted response prog" where
  "Handler_ProvisionNetwork svc tenantSlug =
     attempt (ProvisionNetwork svc tenantSlug)
       (\<lambda>err. case accounts_HTTPStatusAndBody err of (code, body) \<Rightarrow>
          if code = 404 then Ret (Failure 404 body)
          else if code = 409 then Ret (Failure 409 body)
          else Ret (Failure 500 body))
       (\<lambda>result. Ret (Success 202
          \<lparr>caa_TenantId = pn_TenantID result, caa_Slug = pn_Slug result,
           caa_Status = pn_Status result, caa_JobId = pn_JobID result\<rparr>))"

definition Handler_GetAccount :: "CFAccountsService \<Rightarrow> string \<Rightarrow> AccountResponse response prog" where
  "Handler_GetAccount svc tenantSlug =
     attempt (GetAccount svc tenantSlug)
       (\<lambda>err. case accounts_HTTPStatusAndBody err of (code, body) \<Rightarrow>
          if code = 404 then Ret (Failure 404 body)
          else Ret (Failure 500 body))
       (\<lambda>result. Ret (Success 200 (ToGeneratedAccountResponse result)))"

definition Handler_DeleteAccount :: "CFAccountsService \<Rightarrow> string \<Rightarrow> DeleteAccountAccepted response prog" where
  "Handler_DeleteAccount svc tenantSlug =
     attempt (DeleteAccount svc tenantSlug)
       (\<lambda>err. case accounts_HTTPStatusAndBody err of (code, body) \<Rightarrow>
          if code = 404 then Ret (Failure 404 body)
          else Ret (Failure 500 body))
       (\<lambda>result. Ret (Success 202
          \<lparr>daa_Slug = da_Slug result, daa_JobId = da_JobID result, daa_Status = ''QUEUED''\<rparr>))"

definition Handler_IssueKey ::
    "hasher \<Rightarrow> CFAccountsService \<Rightarrow> string \<Rightarrow> IssueKeyRequest option \<Rightarrow> IssueKeyResponse response prog" where
  "Handler_IssueKey New256 svc tenantSlug req =
     (case req of
        None \<Rightarrow> Ret (Failure 400 (accounts_BadRequestBody ''request body required''))
      | Some body \<Rightarrow>
          let scopes = (case ikr_Scopes body of Some x \<Rightarrow> x | None \<Rightarrow> []) in
          attempt (IssueKey New256 svc \<lparr>ik_TenantSlug = tenantSlug,
                     ik_DisplayName = ikr_DisplayName body, ik_Scopes = scopes\<rparr>)
            (\<lambda>err. case accounts_HTTPStatusAndBody err of (code, body) \<Rightarrow>
               if code = 404 then Ret (Failure 404 body)
               else if code = 422 then Ret (Failure 422 body)
               else Ret (Failure 500 body))
            (\<lambda>result. Ret (Success 201 (ToGeneratedIssueKeyResponse result))))"

definition Handler_Register ::
    "(string \<Rightarrow> gerror option) \<Rightarrow> hasher \<Rightarrow> CFAccountsService \<Rightarrow> RegisterRequest option \<Rightarrow>
     RegisterResponse response prog" where
  "Handler_Register mail_ParseAddress New256 svc req =
     (case req of
        None \<Rightarrow> Ret (Failure 400 (accounts_BadRequestBody ''request body required''))
      | Some body \<Rightarrow>
          (case ToServiceRegisterParams mail_ParseAddress body of
             Inl err \<Rightarrow> Ret (Failure 422 (accounts_ValidationBody (Error_String err)))
           | Inr params \<Rightarrow>
               attempt (Register New256 svc params)
                 (\<lambda>svcErr. case accounts_HTTPStatusAndBody svcErr of (code, body) \<Rightarrow>
                    if code = 409 then Ret (Failure 409 body)
                    else if code = 422 then Ret (Failure 422 body)
                    else Ret (Failure 500 body))
                 (\<lambda>result. Ret (Success 201 (ToGeneratedRegisterResponse result)))))"

definition Handler_RevokeKey :: "CFAccountsService \<Rightarrow> string \<Rightarrow> uuid \<Rightarrow> unit response prog" where
  "Handler_RevokeKey svc tenantSlug keyID =
     check (RevokeKey svc tenantSlug keyID)
       (\<lambda>err. case accounts_HTTPStatusAndBody err of (code, body) \<Rightarrow>
          if code = 404 then Ret (Failure 404 body)
          else Ret (Failure 500 body))
       (Ret (Success 204 ()))"

lemmas accounts_handlers = Handler_ProvisionNetwork_def Handler_GetAccount_def
  Handler_DeleteAccount_def Handler_IssueKey_def Handler_Register_def Handler_RevokeKey_def

section \<open>Error mapping\<close>

lemma accounts_status_sentinel:
  assumes "errors_Is e (Sentinel n)"
  shows "accounts_HTTPStatusAndBody e =
     (if n \<in> {accountssvc_ErrAccountAlreadyExists, accountssvc_ErrEmailAlreadyRegistered}
      then (409, newBody CONFLICT (Error_String e))
      else if n \<in> {accountssvc_ErrAccountNotFound, accountssvc_ErrKeyNotFound}
      then (404, newBody NOT_FOUND (Error_String e))
      else if n = accountssvc_ErrAccountNotActive then (422, newBody UNPROCESSABLE (Error_String e))
      else (500, internal_body))"
  unfolding accounts_HTTPStatusAndBody_def sentinel_iff [OF assms] internal_body_def
  by (cases n) simp_all

lemma accounts_no_sentinel:
  "(\<And>n. \<not> errors_Is e (Sentinel n)) \<Longrightarrow> accounts_HTTPStatusAndBody e = (500, internal_body)"
  by (simp add: accounts_HTTPStatusAndBody_def internal_body_def)

lemma accounts_status_500:
  "fst (accounts_HTTPStatusAndBody e) \<in> {409, 404, 422} \<or> accounts_HTTPStatusAndBody e = (500, internal_body)"
  unfolding accounts_HTTPStatusAndBody_def internal_body_def by simp

text \<open>
  The errors of the operations on the stores: the documented sentinels of each, and errors that
  wrap no sentinel.
\<close>

lemma GenerateAPIKey_failed:
  "sem f (GenerateAPIKey (Inr H) APIKeyStore_Store i dn sc) s (Inl e) t \<Longrightarrow> \<forall>m. \<not> errors_Is e (Sentinel m)"
  by (auto simp: GenerateAPIKey_def newRawKeyAndHash_sem APIKeyStore_Store_def ex_reply Let_def
      split: prod.splits if_splits)

lemma ProvisionNetwork_failed:
  assumes "sem f (ProvisionNetwork (store_deps P) x) s (Inl e) t"
  shows "e = Sentinel accountssvc_ErrAccountNotFound \<or> (\<forall>m. \<not> errors_Is e (Sentinel m))"
  using assms unfolding ProvisionNetwork_def store_deps_sel
proof (cases rule: attemptE)
  case (fail c u)
  then show ?thesis using GetBySlug_sem [OF fail(1)] by (auto split: if_splits)
next
  case (ok T u)
  from ok(2) show ?thesis
  proof (cases rule: attemptE)
    case (fail c v)
    then show ?thesis using Provision_failed [OF fail(1)] by (auto split: if_splits)
  qed simp
qed

lemma DeleteAccount_failed:
  assumes "sem f (DeleteAccount (store_deps P) x) s (Inl e) t"
  shows "e = Sentinel accountssvc_ErrAccountNotFound \<or> (\<forall>m. \<not> errors_Is e (Sentinel m))"
  using assms unfolding DeleteAccount_def store_deps_sel
proof (cases rule: attemptE)
  case (fail c u)
  then show ?thesis using Deprovision_failed [OF fail(1)] by (auto split: if_splits)
qed simp

lemma IssueKey_failed:
  assumes "sem f (IssueKey (Inr H) (store_deps P) p) s (Inl e) t"
  shows "e = Sentinel accountssvc_ErrAccountNotFound \<or> e = Sentinel accountssvc_ErrAccountNotActive \<or>
    (\<forall>m. \<not> errors_Is e (Sentinel m))"
  using assms unfolding IssueKey_def store_deps_sel
proof (cases rule: attemptE)
  case (fail c u)
  then show ?thesis using GetBySlug_sem [OF fail(1)] by (auto split: if_splits)
next
  case (ok T u)
  show ?thesis
  proof (cases "Status T = TenantStatusActive")
    case False
    then show ?thesis using ok(2) by simp
  next
    case True
    then have "sem f (attempt (GenerateAPIKey (Inr H) APIKeyStore_Store (TenantID T) (ik_DisplayName p)
          (if ik_Scopes p = [] then ''provision:read'' else ik_Scopes p))
        (\<lambda>e. Ret (Inl (Errorf ''accounts: generate api key: '' e)))
        (\<lambda>generated. Ret (Inr
                \<lparr>kr_CreatedAt = Key_CreatedAt (Gen_Record generated),
                 kr_RawKey = Gen_RawKey generated,
                 kr_DisplayName = Key_DisplayName (Gen_Record generated),
                 kr_Scopes = Key_Scopes (Gen_Record generated),
                 kr_Status = Key_Status (Gen_Record generated),
                 kr_KeyID = Key_KeyID (Gen_Record generated)\<rparr>))) u (Inl e) t"
      using ok(2) by (simp add: Let_def)
    then show ?thesis by (cases rule: attemptE) (use GenerateAPIKey_failed in auto)
  qed
qed

lemma RevokeKey_failed:
  assumes "sem f (RevokeKey (store_deps P) x i) s (Some e) t"
  shows "e = Sentinel accountssvc_ErrAccountNotFound \<or> (\<forall>m. \<not> errors_Is e (Sentinel m))"
  using assms unfolding RevokeKey_def store_deps_sel
proof (cases rule: attemptE)
  case (fail c u)
  then show ?thesis using GetBySlug_sem [OF fail(1)] by (auto split: if_splits)
next
  case (ok T u)
  from ok(2) show ?thesis
  proof (cases rule: checkE)
    case (fail c v)
    then show ?thesis
      by (auto simp: APIKeyStore_RevokeByID_def APIKeyStore_revokeWhere_def ex_reply split: if_splits)
  qed simp
qed

lemma Register_failed:
  assumes "sem f (Register (Inr H) (store_deps P) p) s (Inl e) t"
  shows "e = Sentinel accountssvc_ErrEmailAlreadyRegistered \<or> e = Sentinel accountssvc_ErrAccountAlreadyExists \<or>
    (\<forall>m. \<not> errors_Is e (Sentinel m))"
proof -
  consider "e = Sentinel accountssvc_ErrEmailAlreadyRegistered" | "\<forall>m. \<not> errors_Is e (Sentinel m)"
    | "sem f (register_tenant (Inr H) (store_deps P) p) s (Inl e) t"
    using Register_email [OF assms] by auto
  then show ?thesis
  proof cases
    case 3
    then show ?thesis unfolding register_tenant_def store_deps_sel
    proof (cases rule: attemptE)
      case (fail c u)
      have "c = Sentinel accounts_ErrTenantAlreadyExists \<or> (\<forall>m. \<not> errors_Is c (Sentinel m))"
        using fail(1) by (auto simp: TenantStore_Create_def Let_def ex_reply split: if_splits)
      then show ?thesis using fail(2) by auto
    next
      case (ok T u)
      from ok(2) [unfolded register_user_def store_deps_sel] show ?thesis
      proof (cases rule: attemptE)
        case (fail c v)
        then show ?thesis by simp
      next
        case hash: (ok hash v)
        from hash(2) show ?thesis
        proof (cases rule: attemptE)
          case (fail c w)
          have "c = Sentinel accounts_ErrEmailAlreadyRegistered \<or> (\<forall>m. \<not> errors_Is c (Sentinel m))"
            using fail(1) by (auto simp: UserStore_Create_def gocql_users.laws Let_def ex_reply split: if_splits)
          then show ?thesis using fail(2) by auto
        next
          case user: (ok U w)
          from user(2) show ?thesis by (cases rule: attemptE) (use GenerateAPIKey_failed in auto)
        qed
      qed
    qed
  qed simp_all
qed

text \<open>So the handlers answer with the documented statuses, and a 500 is the fixed body.\<close>

lemmas status_of = accounts_status_sentinel [OF errors_Is_refl] accounts_no_sentinel

lemma ProvisionNetwork_codes:
  assumes "sem f (Handler_ProvisionNetwork (store_deps P) x) s r t"
  shows "discreet r \<and> status_code r \<in> {202, 404, 500}"
  using assms unfolding Handler_ProvisionNetwork_def
proof (cases rule: attemptE)
  case (fail e u)
  then show ?thesis using ProvisionNetwork_failed [OF fail(1)] by (auto simp: status_of)
qed simp

lemma GetAccount_codes:
  assumes "sem f (Handler_GetAccount (store_deps P) x) s r t"
  shows "discreet r \<and> status_code r \<in> {200, 404, 500}"
  using assms unfolding Handler_GetAccount_def
proof (cases rule: attemptE)
  case (fail e u)
  then show ?thesis using accounts.GetAccount_sem [OF fail(1)] by (auto simp: status_of)
qed simp

lemma DeleteAccount_codes:
  assumes "sem f (Handler_DeleteAccount (store_deps P) x) s r t"
  shows "discreet r \<and> status_code r \<in> {202, 404, 500}"
  using assms unfolding Handler_DeleteAccount_def
proof (cases rule: attemptE)
  case (fail e u)
  then show ?thesis using DeleteAccount_failed [OF fail(1)] by (auto simp: status_of)
qed simp

lemma IssueKey_codes:
  assumes "sem f (Handler_IssueKey (Inr H) (store_deps P) x b) s r t"
  shows "discreet r \<and> status_code r \<in> {201, 400, 404, 422, 500}"
proof (cases b)
  case None
  then show ?thesis using assms by (simp add: Handler_IssueKey_def)
next
  case (Some q)
  from assms [unfolded Handler_IssueKey_def Some option.case Let_def] show ?thesis
  proof (cases rule: attemptE)
    case (fail e u)
    then show ?thesis using IssueKey_failed [OF fail(1)] by (auto simp: status_of)
  qed simp
qed

lemma Register_codes:
  assumes "sem f (Handler_Register M (Inr H) (store_deps P) b) s r t"
  shows "discreet r \<and> status_code r \<in> {201, 400, 409, 422, 500}"
proof (cases b)
  case None
  then show ?thesis using assms by (simp add: Handler_Register_def)
next
  case (Some q)
  show ?thesis
  proof (cases "ToServiceRegisterParams M q")
    case (Inl e)
    then show ?thesis using assms by (simp add: Handler_Register_def Some)
  next
    case (Inr p)
    from assms [unfolded Handler_Register_def Some option.case Inr sum.case] show ?thesis
    proof (cases rule: attemptE)
      case (fail e u)
      then show ?thesis using Register_failed [OF fail(1)] by (auto simp: status_of)
    qed simp
  qed
qed

lemma RevokeKey_codes:
  assumes "sem f (Handler_RevokeKey (store_deps P) x i) s r t"
  shows "discreet r \<and> status_code r \<in> {204, 404, 500}"
  using assms unfolding Handler_RevokeKey_def
proof (cases rule: checkE)
  case (fail e u)
  then show ?thesis using RevokeKey_failed [OF fail(1)] by (auto simp: status_of)
qed simp

end
