(* ===== verification/Middleware.thy ===== *)
theory Middleware
  imports GoErrors Json "HOL-Library.Signed_Division"
begin

text \<open>
  The HTTP layer shared by the services: \<open>internal/middleware\<close>, the context functions of
  \<open>internal/logging\<close>, the HTTP instruments of \<open>internal/metrics\<close> and \<open>WriteJSON\<close> of
  \<open>internal/errors\<close>. A handler is a function of the request and of what it can change, the state
  \<open>hw\<close>: the response writer of the server, the writers wrapped around it, the log, the metrics and
  the number of clock readings and fresh ids so far. A handler returns or panics. The header maps are
  keyed by the names as the code spells them.
\<close>

section \<open>Requests, writers, handlers\<close>

type_synonym attr = "string \<times> string"
type_synonym headers = "string \<rightharpoonup> string"

datatype logger = NilLogger | NoopLogger | Logger "attr list"

record http_ctx =
  ctx_request_id :: "string option"
  ctx_span :: "(string \<times> string) option"
  ctx_logger :: "logger option"
  ctx_tenant :: "string option"
  ctx_project :: "string option"
  ctx_pattern :: "string option"

text \<open>\<open>req_path\<close> is \<open>r.URL.Path\<close>, \<open>req_escaped\<close> the path as sent (\<open>r.URL.EscapedPath()\<close>).\<close>

record request =
  req_method :: string
  req_path :: string
  req_escaped :: string
  req_body :: string
  req_header :: headers
  req_path_values :: headers
  req_ctx :: http_ctx

definition Background :: http_ctx where
  "Background = \<lparr>ctx_request_id = None, ctx_span = None, ctx_logger = None, ctx_tenant = None,
     ctx_project = None, ctx_pattern = None\<rparr>"

text \<open>
  \<open>hw_sent\<close> is the status line and headers that went out with the first final status. The wrapped
  writers of \<open>hw_recorders\<close> (innermost first) each hold the status and byte count they captured.
\<close>

record recorder =
  rec_status :: int
  rec_written :: nat

record hw =
  hw_header :: headers
  hw_sent :: "(int \<times> headers) option"
  hw_body :: string
  hw_recorders :: "recorder list"
  hw_log :: "(string \<times> attr list) list"
  hw_metrics :: "(string \<times> string \<times> string \<times> nat) list"
  hw_ids :: nat
  hw_clock :: nat

datatype panic_value = PanicError gerror | PanicValue string
datatype outcome = Returned | Panicked panic_value

type_synonym handler = "request \<Rightarrow> hw \<Rightarrow> outcome \<times> hw"

definition Header_Get :: "headers \<Rightarrow> string \<Rightarrow> string" where
  "Header_Get h k = (case h k of Some v \<Rightarrow> v | None \<Rightarrow> [])"

definition Header_Set :: "string \<Rightarrow> string \<Rightarrow> hw \<Rightarrow> hw" where
  "Header_Set k v w = w\<lparr>hw_header := (hw_header w)(k \<mapsto> v)\<rparr>"

text \<open>
  The server's writer: the first status is sent with the headers set so far, later ones are ignored,
  a write without a status sends 200, and 204 and 304 have no body.
\<close>

definition server_WriteHeader :: "int \<Rightarrow> hw \<Rightarrow> hw" where
  "server_WriteHeader code w =
     (if hw_sent w = None then w\<lparr>hw_sent := Some (code, hw_header w)\<rparr> else w)"

definition bodyless :: "hw \<Rightarrow> bool" where
  "bodyless w = (case hw_sent w of Some (code, _) \<Rightarrow> code \<in> {204, 304} | None \<Rightarrow> False)"

definition server_Write :: "string \<Rightarrow> hw \<Rightarrow> nat \<times> hw" where
  "server_Write b w =
     (let w = server_WriteHeader 200 w in
      if bodyless w then (0, w)
      else (length b, w\<lparr>hw_body := hw_body w @ b\<rparr>))"

section \<open>Wrapped writers\<close>

definition newResponseWriter :: recorder where
  "newResponseWriter = \<lparr>rec_status = 200, rec_written = 0\<rparr>"

definition recorder_WriteHeader :: "int \<Rightarrow> recorder \<Rightarrow> recorder" where
  "recorder_WriteHeader code rw = rw\<lparr>rec_status := code\<rparr>"

definition recorder_Write :: "nat \<Rightarrow> recorder \<Rightarrow> recorder" where
  "recorder_Write n rw = rw\<lparr>rec_written := rec_written rw + n\<rparr>"

definition WriteHeader :: "int \<Rightarrow> hw \<Rightarrow> hw" where
  "WriteHeader code w =
     server_WriteHeader code (w\<lparr>hw_recorders := map (recorder_WriteHeader code) (hw_recorders w)\<rparr>)"

definition Write :: "string \<Rightarrow> hw \<Rightarrow> hw" where
  "Write b w =
     (let (n, w) = server_Write b w in
      w\<lparr>hw_recorders := map (recorder_Write n) (hw_recorders w)\<rparr>)"

text \<open>A middleware that observes the response puts a writer around the one it was given.\<close>

definition push_recorder :: "hw \<Rightarrow> hw" where
  "push_recorder w = w\<lparr>hw_recorders := newResponseWriter # hw_recorders w\<rparr>"

definition pop_recorder :: "hw \<Rightarrow> hw" where
  "pop_recorder w = w\<lparr>hw_recorders := tl (hw_recorders w)\<rparr>"

definition rw_Status :: "hw \<Rightarrow> int" where
  "rw_Status w = rec_status (hd (hw_recorders w))"

definition BytesWritten :: "hw \<Rightarrow> nat" where
  "BytesWritten w = rec_written (hd (hw_recorders w))"

section \<open>Error responses\<close>

definition requestIDHeader :: string where "requestIDHeader = ''X-Request-ID''"

definition requestIDFromResponse :: "hw \<Rightarrow> string" where
  "requestIDFromResponse w = Header_Get (hw_header w) requestIDHeader"

text \<open>\<open>request_id\<close> is marked \<open>omitempty\<close>; the encoder ends the value with a newline.\<close>

definition errorResponse :: "string \<Rightarrow> string \<Rightarrow> string \<Rightarrow> string" where
  "errorResponse code message requestID =
     Marshal (JObj [(''error'', JObj ([(''code'', JStr code), (''message'', JStr message)] @
       (if requestID = [] then [] else [(''request_id'', JStr requestID)])))]) @ NL"

fun WriteJSON :: "gerror option \<Rightarrow> hw \<Rightarrow> hw" where
  "WriteJSON (Some (Platform code message cause status)) w =
     (let resp = errorResponse code message (requestIDFromResponse w);
          w = Header_Set ''Content-Type'' ''application/json; charset=utf-8'' w;
          w = Header_Set ''X-Content-Type-Options'' ''nosniff'' w in
      Write resp (WriteHeader status w))"
| "WriteJSON e w = WriteHeader 200 w"

section \<open>Logging\<close>

definition FromContext :: "http_ctx \<Rightarrow> logger" where
  "FromContext c = (case ctx_logger c of Some l \<Rightarrow> if l \<noteq> NilLogger then l else NoopLogger | None \<Rightarrow> NoopLogger)"

definition WithContext :: "http_ctx \<Rightarrow> logger \<Rightarrow> http_ctx" where
  "WithContext c l = c\<lparr>ctx_logger := Some l\<rparr>"

text \<open>\<open>logger.With\<close> and the emission of a record; calls on a nil logger do not occur.\<close>

fun logger_With :: "logger \<Rightarrow> attr list \<Rightarrow> logger" where
  "logger_With (Logger as) bs = Logger (as @ bs)"
| "logger_With l bs = l"

fun log_record :: "logger \<Rightarrow> string \<Rightarrow> attr list \<Rightarrow> hw \<Rightarrow> hw" where
  "log_record (Logger as) msg bs w = w\<lparr>hw_log := hw_log w @ [(msg, as @ bs)]\<rparr>"
| "log_record l msg bs w = w"

section \<open>The middlewares\<close>

definition RequestID :: "(nat \<Rightarrow> string) \<Rightarrow> handler \<Rightarrow> handler" where
  "RequestID NewString next_h r w =
     (let id0 = Header_Get (req_header r) requestIDHeader;
          rid = (if id0 = [] then NewString (hw_ids w) else id0);
          w = (if id0 = [] then w\<lparr>hw_ids := Suc (hw_ids w)\<rparr> else w) in
      next_h (r\<lparr>req_ctx := (req_ctx r)\<lparr>ctx_request_id := Some rid\<rparr>\<rparr>) (Header_Set requestIDHeader rid w))"

definition RequestIDFromContext :: "http_ctx \<Rightarrow> string" where
  "RequestIDFromContext c = (case ctx_request_id c of Some i \<Rightarrow> i | None \<Rightarrow> [])"

definition Milliseconds :: "int \<Rightarrow> int" where
  "Milliseconds d = d sdiv 1000000"

text \<open>When the handler panics, the code after it does not run: there is no record of completion.\<close>

definition StructuredLogger :: "(nat \<Rightarrow> int) \<Rightarrow> logger \<Rightarrow> handler \<Rightarrow> handler" where
  "StructuredLogger Clock base next_h r w =
     (let start = Clock (hw_clock w);
          w = w\<lparr>hw_clock := Suc (hw_clock w)\<rparr>;
          reqID = RequestIDFromContext (req_ctx r);
          attrs = [(''method'', req_method r), (''path'', req_path r), (''request_id'', reqID)] @
            (case ctx_span (req_ctx r) of
               Some (traceID, spanID) \<Rightarrow> [(''trace_id'', traceID), (''span_id'', spanID)] | None \<Rightarrow> []);
          reqLogger = logger_With base attrs;
          (out, w) = next_h (r\<lparr>req_ctx := WithContext (req_ctx r) reqLogger\<rparr>)
            (log_record reqLogger ''request started'' [] (push_recorder w)) in
      case out of
        Panicked v \<Rightarrow> (Panicked v, pop_recorder w)
      | Returned \<Rightarrow>
          (let elapsed = Clock (hw_clock w) - start in
           (Returned, pop_recorder (log_record reqLogger ''request completed''
              [(''status'', fmt_int (rw_Status w)), (''latency_ms'', fmt_int (Milliseconds elapsed)),
               (''bytes'', Itoa (BytesWritten w))] (w\<lparr>hw_clock := Suc (hw_clock w)\<rparr>)))))"

definition PanicRecovery :: "string \<Rightarrow> logger \<Rightarrow> handler \<Rightarrow> handler" where
  "PanicRecovery stack log next_h r w =
     (case next_h r w of
        (Returned, w) \<Rightarrow> (Returned, w)
      | (Panicked v, w) \<Rightarrow>
          (let cause = (case v of PanicError e \<Rightarrow> e | PanicValue x \<Rightarrow> Text (''panic: '' @ x));
               reqLogger = (if FromContext (req_ctx r) = NilLogger then log else FromContext (req_ctx r)) in
           (Returned, WriteJSON (Some (Internal (Some cause)))
              (log_record reqLogger ''panic recovered'' [(''error'', Error_String cause), (''stack'', stack)] w))))"

definition TenantContext :: "handler \<Rightarrow> handler" where
  "TenantContext next_h r w =
     (let tenant = Header_Get (req_path_values r) ''tenant'';
          project = Header_Get (req_path_values r) ''project'';
          c = req_ctx r;
          c = (if tenant \<noteq> [] then c\<lparr>ctx_tenant := Some tenant\<rparr> else c);
          c = (if project \<noteq> [] then c\<lparr>ctx_project := Some project\<rparr> else c) in
      next_h (r\<lparr>req_ctx := c\<rparr>) w)"

definition TenantFromContext :: "http_ctx \<Rightarrow> (string \<times> string) option" where
  "TenantFromContext c = (case (ctx_tenant c, ctx_project c) of
     (Some t, Some p) \<Rightarrow> if t = [] \<or> p = [] then None else Some (t, p)
   | _ \<Rightarrow> None)"

section \<open>Metrics\<close>

definition routePatternFromContext :: "request \<Rightarrow> string" where
  "routePatternFromContext r = (case ctx_pattern (req_ctx r) of
     Some p \<Rightarrow> if p \<noteq> [] then p else req_path r | None \<Rightarrow> req_path r)"

definition WithRoutePattern :: "string \<Rightarrow> handler \<Rightarrow> handler" where
  "WithRoutePattern pattern next_h r w =
     (let r = (if ctx_pattern (req_ctx r) = None
               then r\<lparr>req_ctx := (req_ctx r)\<lparr>ctx_pattern := Some pattern\<rparr>\<rparr> else r) in
      next_h r w)"

text \<open>
  One observation (method, path, status, bytes) per handled request, in all three instruments; the
  latency they observe is not kept. A panic of the handler skips the observation.
\<close>

definition HTTPMiddleware :: "handler \<Rightarrow> handler" where
  "HTTPMiddleware next_h r w =
     (let w = w\<lparr>hw_clock := Suc (hw_clock w)\<rparr>;
          (out, w) = next_h r (push_recorder w) in
      case out of
        Panicked v \<Rightarrow> (Panicked v, pop_recorder w)
      | Returned \<Rightarrow>
          (let path = routePatternFromContext r;
               statusStr = fmt_int (rw_Status w) in
           (Returned, pop_recorder (w\<lparr>hw_clock := Suc (hw_clock w),
              hw_metrics := hw_metrics w @ [(req_method r, path, statusStr, BytesWritten w)]\<rparr>))))"

section \<open>CORS\<close>

fun origin_set :: "string list \<Rightarrow> string list \<times> bool" where
  "origin_set [] = ([], False)"
| "origin_set (x # xs) =
     (if x = ''*'' then ([], True) else (let (originSet, allowAll) = origin_set xs in (x # originSet, allowAll)))"

definition CORS :: "string list \<Rightarrow> handler \<Rightarrow> handler" where
  "CORS allowedOrigins next_h r w =
     (let (originSet, allowAll) = origin_set allowedOrigins;
          origin = Header_Get (req_header r) ''Origin'';
          w = (if origin \<noteq> [] then
                 (let w = (if allowAll then Header_Set ''Access-Control-Allow-Origin'' origin w
                           else if origin \<in> set originSet then Header_Set ''Access-Control-Allow-Origin'' origin w
                           else w);
                      w = Header_Set ''Access-Control-Allow-Methods'' ''GET, POST, PUT, DELETE, OPTIONS'' w;
                      w = Header_Set ''Access-Control-Allow-Headers''
                            (Join [''Authorization'', ''Content-Type'', ''X-Request-ID'', ''X-CF-Tenant-ID''] '', '') w in
                  Header_Set ''Access-Control-Max-Age'' ''86400'' w)
               else w) in
      if req_method r = ''OPTIONS'' then (Returned, WriteHeader 204 w) else next_h r w)"

section \<open>The chain\<close>

text \<open>The loop of \<open>Apply\<close> from index \<open>i - 1\<close> down to 0.\<close>

primrec Apply_from :: "nat \<Rightarrow> (handler \<Rightarrow> handler) list \<Rightarrow> handler \<Rightarrow> handler" where
  "Apply_from 0 ms h = h"
| "Apply_from (Suc i) ms h = Apply_from i ms ((ms ! i) h)"

definition Apply :: "(handler \<Rightarrow> handler) list \<Rightarrow> handler \<Rightarrow> handler" where
  "Apply ms h = Apply_from (length ms) ms h"

text \<open>
  What the chain takes from the outside: fresh UUID strings, the clock, the text of a stack trace and
  the OpenTelemetry middleware.
\<close>

record http_env =
  env_NewString :: "nat \<Rightarrow> string"
  env_Clock :: "nat \<Rightarrow> int"
  env_Stack :: string
  env_OTelSpan :: "handler \<Rightarrow> handler"

definition Chain :: "http_env \<Rightarrow> logger \<Rightarrow> (handler \<Rightarrow> handler) list" where
  "Chain env log =
     [RequestID (env_NewString env), env_OTelSpan env, StructuredLogger (env_Clock env) log,
      PanicRecovery (env_Stack env) log, HTTPMiddleware, TenantContext]"

definition ChainWithCORS :: "string list \<Rightarrow> http_env \<Rightarrow> logger \<Rightarrow> (handler \<Rightarrow> handler) list" where
  "ChainWithCORS corsOrigins env log =
     (let base = Chain env log in
      if length corsOrigins = 0 then base else [CORS corsOrigins] @ base)"

end
