(* ===== verification/MiddlewareFacts.thy ===== *)
theory MiddlewareFacts
  imports Middleware
begin

text \<open>
  What the chain does around a handler. \<open>chain_request\<close> and \<open>chain_state\<close> are the request and the
  state that reach the handler, and \<open>Chain_run\<close> says how its outcome is completed on the way out. The
  contract of a handler towards the wrapped writers is the locale \<open>http_handler\<close>.
\<close>

section \<open>Order of application\<close>

lemma Apply_from_foldr: "n \<le> length ms \<Longrightarrow> Apply_from n ms h = foldr (\<lambda>m h. m h) (take n ms) h"
  by (induction n arbitrary: h) (simp_all add: take_Suc_conv_app_nth)

lemma Apply_foldr: "Apply ms h = foldr (\<lambda>m h. m h) ms h"
  by (simp add: Apply_def Apply_from_foldr)

lemma Apply_Nil [simp]: "Apply [] h = h"
  by (simp add: Apply_def)

lemma Apply_Cons [simp]: "Apply (m # ms) h = m (Apply ms h)"
  by (simp add: Apply_foldr)

section \<open>Writers\<close>

lemma writer_simps [simp]:
  "hw_recorders (Header_Set k v w) = hw_recorders w" "hw_sent (Header_Set k v w) = hw_sent w"
  "hw_body (Header_Set k v w) = hw_body w" "hw_log (Header_Set k v w) = hw_log w"
  "hw_metrics (Header_Set k v w) = hw_metrics w" "hw_header (Header_Set k v w) = (hw_header w)(k \<mapsto> v)"
  "hw_clock (Header_Set k v w) = hw_clock w" "hw_ids (Header_Set k v w) = hw_ids w"
  by (simp_all add: Header_Set_def)

lemma WriteHeader_simps [simp]:
  "hw_recorders (WriteHeader c w) = map (recorder_WriteHeader c) (hw_recorders w)"
  "hw_sent (WriteHeader c w) = (if hw_sent w = None then Some (c, hw_header w) else hw_sent w)"
  "hw_body (WriteHeader c w) = hw_body w" "hw_log (WriteHeader c w) = hw_log w"
  "hw_metrics (WriteHeader c w) = hw_metrics w" "hw_header (WriteHeader c w) = hw_header w"
  "hw_clock (WriteHeader c w) = hw_clock w" "hw_ids (WriteHeader c w) = hw_ids w"
  by (simp_all add: WriteHeader_def server_WriteHeader_def)

lemma Write_simps [simp]:
  "hw_sent (Write b w) = (if hw_sent w = None then Some (200, hw_header w) else hw_sent w)"
  "hw_body (Write b w) = hw_body w @ (if bodyless w then [] else b)" "hw_log (Write b w) = hw_log w"
  "hw_recorders (Write b w) = map (recorder_Write (if bodyless w then 0 else length b)) (hw_recorders w)"
  "hw_metrics (Write b w) = hw_metrics w" "hw_header (Write b w) = hw_header w"
  "hw_clock (Write b w) = hw_clock w" "hw_ids (Write b w) = hw_ids w"
  by (auto simp: Write_def server_Write_def server_WriteHeader_def bodyless_def Let_def split: option.splits)

lemma bodyless_simps [simp]:
  "bodyless (Header_Set k v w) = bodyless w"
  "bodyless (WriteHeader c w) = (if hw_sent w = None then c \<in> {204, 304} else bodyless w)"
  by (auto simp: bodyless_def split: option.splits)

lemma recorder_simps [simp]:
  "rec_status (recorder_WriteHeader c rw) = c" "rec_written (recorder_WriteHeader c rw) = rec_written rw"
  "rec_status (recorder_Write n rw) = rec_status rw" "rec_written (recorder_Write n rw) = rec_written rw + n"
  "rec_status newResponseWriter = 200" "rec_written newResponseWriter = 0"
  by (simp_all add: recorder_WriteHeader_def recorder_Write_def newResponseWriter_def)

lemma push_pop_simps [simp]:
  "hw_recorders (push_recorder w) = newResponseWriter # hw_recorders w" "hw_sent (push_recorder w) = hw_sent w"
  "hw_body (push_recorder w) = hw_body w" "hw_log (push_recorder w) = hw_log w"
  "hw_metrics (push_recorder w) = hw_metrics w" "hw_header (push_recorder w) = hw_header w"
  "hw_recorders (pop_recorder w) = tl (hw_recorders w)" "hw_sent (pop_recorder w) = hw_sent w"
  "hw_body (pop_recorder w) = hw_body w" "hw_log (pop_recorder w) = hw_log w"
  "hw_metrics (pop_recorder w) = hw_metrics w" "hw_header (pop_recorder w) = hw_header w"
  by (simp_all add: push_recorder_def pop_recorder_def)

lemma log_record_simps [simp]:
  "hw_recorders (log_record l m as w) = hw_recorders w" "hw_sent (log_record l m as w) = hw_sent w"
  "hw_body (log_record l m as w) = hw_body w" "hw_metrics (log_record l m as w) = hw_metrics w"
  "hw_header (log_record l m as w) = hw_header w" "hw_clock (log_record l m as w) = hw_clock w"
  "hw_log (log_record l m as w) = hw_log w @ (case l of Logger bs \<Rightarrow> [(m, bs @ as)] | _ \<Rightarrow> [])"
  by (cases l; simp)+

section \<open>The contract of a handler\<close>

text \<open>
  A handler treats the writers around it alike: each sees the same calls, so the ones that were there
  before are changed by one function.
\<close>

definition uniform :: "handler \<Rightarrow> bool" where
  "uniform h \<longleftrightarrow> (\<forall>r w. \<exists>g. hw_recorders (snd (h r w)) = map g (hw_recorders w))"

locale http_handler =
  fixes h :: handler
  assumes writers_alike: "\<exists>g. hw_recorders (snd (h r w)) = map g (hw_recorders w)"
begin

lemma depth: "h r w = (out, u) \<Longrightarrow> length (hw_recorders u) = length (hw_recorders w)"
  using writers_alike [of r w] by auto

text \<open>The innermost two writers agree after the handler if they did before.\<close>

lemma agree:
  assumes "h r w = (out, u)" and "hw_recorders w = rw # rw # rws"
  shows "\<exists>rw' rws'. hw_recorders u = rw' # rw' # rws'"
  using writers_alike [of r w] assms by auto

end

section \<open>One middleware at a time\<close>

definition request_attrs :: "request \<Rightarrow> attr list" where
  "request_attrs r = [(''method'', req_method r), (''path'', req_path r),
     (''request_id'', RequestIDFromContext (req_ctx r))] @
     (case ctx_span (req_ctx r) of
        Some (traceID, spanID) \<Rightarrow> [(''trace_id'', traceID), (''span_id'', spanID)] | None \<Rightarrow> [])"

definition logged_request :: "logger \<Rightarrow> request \<Rightarrow> request" where
  "logged_request base r = r\<lparr>req_ctx := WithContext (req_ctx r) (logger_With base (request_attrs r))\<rparr>"

definition logged_state :: "logger \<Rightarrow> request \<Rightarrow> hw \<Rightarrow> hw" where
  "logged_state base r w = log_record (logger_With base (request_attrs r)) ''request started'' []
     (push_recorder (w\<lparr>hw_clock := Suc (hw_clock w)\<rparr>))"

definition logged_exit :: "(nat \<Rightarrow> int) \<Rightarrow> logger \<Rightarrow> request \<Rightarrow> int \<Rightarrow> hw \<Rightarrow> hw" where
  "logged_exit Clock base r start u = pop_recorder (log_record (logger_With base (request_attrs r)) ''request completed''
     [(''status'', fmt_int (rw_Status u)), (''latency_ms'', fmt_int (Milliseconds (Clock (hw_clock u) - start))),
      (''bytes'', Itoa (BytesWritten u))] (u\<lparr>hw_clock := Suc (hw_clock u)\<rparr>))"

lemma StructuredLogger_run:
  "StructuredLogger Clock base h r w = (case h (logged_request base r) (logged_state base r w) of
     (Panicked v, u) \<Rightarrow> (Panicked v, pop_recorder u)
   | (Returned, u) \<Rightarrow> (Returned, logged_exit Clock base r (Clock (hw_clock w)) u))"
  by (simp add: StructuredLogger_def logged_request_def logged_state_def logged_exit_def request_attrs_def
      Let_def case_prod_beta split: outcome.split)

definition measured_state :: "hw \<Rightarrow> hw" where
  "measured_state w = push_recorder (w\<lparr>hw_clock := Suc (hw_clock w)\<rparr>)"

definition observation :: "request \<Rightarrow> hw \<Rightarrow> string \<times> string \<times> string \<times> nat" where
  "observation r u = (req_method r, routePatternFromContext r, fmt_int (rw_Status u), BytesWritten u)"

lemma HTTPMiddleware_run:
  "HTTPMiddleware h r w = (case h r (measured_state w) of
     (Panicked v, u) \<Rightarrow> (Panicked v, pop_recorder u)
   | (Returned, u) \<Rightarrow> (Returned, pop_recorder (u\<lparr>hw_clock := Suc (hw_clock u),
       hw_metrics := hw_metrics u @ [observation r u]\<rparr>)))"
  by (simp add: HTTPMiddleware_def measured_state_def observation_def Let_def case_prod_beta split: outcome.split)

definition panic_cause :: "panic_value \<Rightarrow> gerror" where
  "panic_cause v = (case v of PanicError e \<Rightarrow> e | PanicValue x \<Rightarrow> Text (''panic: '' @ x))"

lemma PanicRecovery_run:
  "PanicRecovery stack log h r w = (case h r w of
     (Returned, u) \<Rightarrow> (Returned, u)
   | (Panicked v, u) \<Rightarrow> (Returned, WriteJSON (Some (Internal (Some (panic_cause v))))
       (log_record (FromContext (req_ctx r)) ''panic recovered''
          [(''error'', Error_String (panic_cause v)), (''stack'', stack)] u)))"
  by (auto simp: PanicRecovery_def panic_cause_def FromContext_def Let_def split: prod.split outcome.split option.split)

text \<open>The contract is kept: every middleware makes a handler of a handler.\<close>

lemma uniformI: "http_handler h \<Longrightarrow> uniform h"
  by (simp add: uniform_def http_handler_def)

context http_handler
begin

lemma alike_from: "hw_recorders w' = hw_recorders w \<Longrightarrow> \<exists>g. hw_recorders (snd (h r w')) = map g (hw_recorders w)"
  using writers_alike [of r w'] by simp

lemma logged: "http_handler (StructuredLogger Clock base h)"
proof
  fix r w
  obtain g where "hw_recorders (snd (h (logged_request base r) (logged_state base r w))) =
      map g (hw_recorders (logged_state base r w))" using writers_alike by blast
  then have "tl (hw_recorders (snd (h (logged_request base r) (logged_state base r w)))) = map g (hw_recorders w)"
    by (simp add: logged_state_def)
  then show "\<exists>g. hw_recorders (snd (StructuredLogger Clock base h r w)) = map g (hw_recorders w)"
    unfolding StructuredLogger_run by (auto simp: logged_exit_def split: prod.split outcome.split)
qed

lemma measured: "http_handler (HTTPMiddleware h)"
proof
  fix r w
  obtain g where "hw_recorders (snd (h r (measured_state w))) = map g (hw_recorders (measured_state w))"
    using writers_alike by blast
  then have "tl (hw_recorders (snd (h r (measured_state w)))) = map g (hw_recorders w)"
    by (simp add: measured_state_def)
  then show "\<exists>g. hw_recorders (snd (HTTPMiddleware h r w)) = map g (hw_recorders w)"
    unfolding HTTPMiddleware_run by (auto split: prod.split outcome.split)
qed

lemma recovered: "http_handler (PanicRecovery stack log h)"
proof
  fix r w
  obtain g where "hw_recorders (snd (h r w)) = map g (hw_recorders w)" using writers_alike by blast
  then show "\<exists>g. hw_recorders (snd (PanicRecovery stack log h r w)) = map g (hw_recorders w)"
    unfolding PanicRecovery_run
    by (cases "h r w"; cases "fst (h r w)") (auto simp: Internal_def Let_def intro: exI)
qed

lemma identified: "http_handler (RequestID NewString h)"
  by unfold_locales (auto simp: RequestID_def Let_def intro!: alike_from)

lemma in_tenant: "http_handler (TenantContext h)"
  using writers_alike by unfold_locales (simp add: TenantContext_def Let_def)

lemma with_cors: "http_handler (CORS origins h)"
  by unfold_locales (auto simp: CORS_def Let_def split: prod.split intro!: alike_from)

end

section \<open>The whole chain\<close>

text \<open>
  What the OpenTelemetry middleware is documented to do for the handlers below it: they get the span
  in the context, and their response goes through unchanged.
\<close>

definition span_middleware :: "(request \<Rightarrow> (string \<times> string) option) \<Rightarrow> handler \<Rightarrow> handler" where
  "span_middleware S next_h r w = next_h (r\<lparr>req_ctx := (req_ctx r)\<lparr>ctx_span := S r\<rparr>\<rparr>) w"

definition request_id_for :: "http_env \<Rightarrow> request \<Rightarrow> hw \<Rightarrow> string" where
  "request_id_for env r w =
     (if Header_Get (req_header r) requestIDHeader = [] then env_NewString env (hw_ids w)
      else Header_Get (req_header r) requestIDHeader)"

definition spanned_request :: "http_env \<Rightarrow> (request \<Rightarrow> (string \<times> string) option) \<Rightarrow> request \<Rightarrow> hw \<Rightarrow> request" where
  "spanned_request env S r w =
     (let r = r\<lparr>req_ctx := (req_ctx r)\<lparr>ctx_request_id := Some (request_id_for env r w)\<rparr>\<rparr> in
      r\<lparr>req_ctx := (req_ctx r)\<lparr>ctx_span := S r\<rparr>\<rparr>)"

definition identified_state :: "http_env \<Rightarrow> request \<Rightarrow> hw \<Rightarrow> hw" where
  "identified_state env r w = Header_Set requestIDHeader (request_id_for env r w)
     (if Header_Get (req_header r) requestIDHeader = [] then w\<lparr>hw_ids := Suc (hw_ids w)\<rparr> else w)"

definition tenant_ctx :: "request \<Rightarrow> http_ctx" where
  "tenant_ctx r =
     (let c = req_ctx r;
          c = (if Header_Get (req_path_values r) ''tenant'' \<noteq> []
               then c\<lparr>ctx_tenant := Some (Header_Get (req_path_values r) ''tenant'')\<rparr> else c) in
      if Header_Get (req_path_values r) ''project'' \<noteq> []
      then c\<lparr>ctx_project := Some (Header_Get (req_path_values r) ''project'')\<rparr> else c)"

definition chain_request :: "http_env \<Rightarrow> (request \<Rightarrow> (string \<times> string) option) \<Rightarrow> logger \<Rightarrow> request \<Rightarrow> hw \<Rightarrow> request" where
  "chain_request env S log r w =
     (let r = logged_request log (spanned_request env S r w) in r\<lparr>req_ctx := tenant_ctx r\<rparr>)"

definition chain_state :: "http_env \<Rightarrow> (request \<Rightarrow> (string \<times> string) option) \<Rightarrow> logger \<Rightarrow> request \<Rightarrow> hw \<Rightarrow> hw" where
  "chain_state env S log r w = measured_state (logged_state log (spanned_request env S r w) (identified_state env r w))"

definition chain_inner :: "http_env \<Rightarrow> logger \<Rightarrow> request \<Rightarrow> outcome \<times> hw \<Rightarrow> hw" where
  "chain_inner env log r x = (case x of
     (Returned, u) \<Rightarrow> pop_recorder (u\<lparr>hw_clock := Suc (hw_clock u),
        hw_metrics := hw_metrics u @ [observation (logged_request log r) u]\<rparr>)
   | (Panicked v, u) \<Rightarrow> WriteJSON (Some (Internal (Some (panic_cause v))))
       (log_record (FromContext (req_ctx (logged_request log r))) ''panic recovered''
          [(''error'', Error_String (panic_cause v)), (''stack'', env_Stack env)] (pop_recorder u)))"

lemma TenantContext_run: "TenantContext h r w = h (r\<lparr>req_ctx := tenant_ctx r\<rparr>) w"
  by (simp add: TenantContext_def tenant_ctx_def Let_def)

lemma RequestID_run:
  "RequestID (env_NewString env) h r w =
     h (r\<lparr>req_ctx := (req_ctx r)\<lparr>ctx_request_id := Some (request_id_for env r w)\<rparr>\<rparr>) (identified_state env r w)"
  by (simp add: RequestID_def request_id_for_def identified_state_def Let_def)

lemma Chain_run:
  assumes "env_OTelSpan env = span_middleware S"
  shows "Apply (Chain env log) h r w = (Returned,
    logged_exit (env_Clock env) log (spanned_request env S r w) (env_Clock env (hw_clock w))
      (chain_inner env log (spanned_request env S r w) (h (chain_request env S log r w) (chain_state env S log r w))))"
proof -
  have clock: "hw_clock (identified_state env r w) = hw_clock w" by (simp add: identified_state_def)
  show ?thesis
    unfolding Chain_def Apply_Cons Apply_Nil RequestID_run assms span_middleware_def
      StructuredLogger_run PanicRecovery_run HTTPMiddleware_run TenantContext_run clock
    by (simp add: chain_request_def chain_state_def chain_inner_def spanned_request_def Let_def
        split: prod.split outcome.split)
qed

lemma chain_state_simps [simp]:
  "hw_header (chain_state env S log r w) = (hw_header w)(requestIDHeader \<mapsto> request_id_for env r w)"
  "hw_sent (chain_state env S log r w) = hw_sent w" "hw_body (chain_state env S log r w) = hw_body w"
  "hw_metrics (chain_state env S log r w) = hw_metrics w"
  "hw_recorders (chain_state env S log r w) = newResponseWriter # newResponseWriter # hw_recorders w"
  by (simp_all add: chain_state_def measured_state_def logged_state_def identified_state_def)

lemma chain_request_simps [simp]:
  "req_method (chain_request env S log r w) = req_method r" "req_path (chain_request env S log r w) = req_path r"
  "req_header (chain_request env S log r w) = req_header r" "req_escaped (chain_request env S log r w) = req_escaped r"
  "req_body (chain_request env S log r w) = req_body r" "req_path_values (chain_request env S log r w) = req_path_values r"
  "ctx_request_id (req_ctx (chain_request env S log r w)) = Some (request_id_for env r w)"
  "ctx_pattern (req_ctx (chain_request env S log r w)) = ctx_pattern (req_ctx r)"
  "ctx_tenant (req_ctx (chain_request env S log r w)) =
     (if Header_Get (req_path_values r) ''tenant'' \<noteq> [] then Some (Header_Get (req_path_values r) ''tenant'')
      else ctx_tenant (req_ctx r))"
  "ctx_project (req_ctx (chain_request env S log r w)) =
     (if Header_Get (req_path_values r) ''project'' \<noteq> [] then Some (Header_Get (req_path_values r) ''project'')
      else ctx_project (req_ctx r))"
  by (simp_all add: chain_request_def logged_request_def spanned_request_def tenant_ctx_def WithContext_def Let_def)

text \<open>How a panicking request ends.\<close>

lemma chain_panic:
  assumes "env_OTelSpan env = span_middleware S"
    and "h (chain_request env S log r w) (chain_state env S log r w) = (Panicked v, u)"
    and "length (hw_recorders u) = Suc (Suc n)"
  shows "\<exists>t. Apply (Chain env log) h r w = (Returned, t) \<and>
    hw_sent t = (case hw_sent u of None \<Rightarrow> Some (500, (hw_header u)(''Content-Type'' \<mapsto> ''application/json; charset=utf-8'',
      ''X-Content-Type-Options'' \<mapsto> ''nosniff'')) | Some x \<Rightarrow> Some x) \<and>
    (\<not> bodyless u \<longrightarrow> hw_body t = hw_body u @ errorResponse CodeInternal ''an unexpected internal error occurred''
      (Header_Get (hw_header u) requestIDHeader)) \<and>
    hw_metrics t = hw_metrics u \<and>
    (\<forall>as. log = Logger as \<longrightarrow> (\<exists>bs. last (hw_log t) = (''request completed'', bs) \<and> (''status'', ''500'') \<in> set bs))"
proof -
  obtain a b rs where rs: "hw_recorders u = a # b # rs"
    using assms(3) by (metis length_Suc_conv)
  have n500: "fmt_int 500 = ''500''" by code_simp
  show ?thesis unfolding Chain_run [OF assms(1)] assms(2)
    by (intro exI conjI, rule refl)
       (auto simp: chain_inner_def logged_exit_def Internal_def rs rw_Status_def requestIDFromResponse_def n500 Let_def
         bodyless_def split: option.split)
qed

text \<open>How a handled request ends: the log and the metrics tell the same status and size.\<close>

lemma chain_return:
  assumes "env_OTelSpan env = span_middleware S"
    and "h (chain_request env S (Logger as) r w) (chain_state env S (Logger as) r w) = (Returned, u)"
    and "hw_recorders u = rw # rw # rws"
  shows "\<exists>t bs. Apply (Chain env (Logger as)) h r w = (Returned, t) \<and> hw_sent t = hw_sent u \<and> hw_body t = hw_body u \<and>
    hw_metrics t = hw_metrics u @ [(req_method r, routePatternFromContext r, fmt_int (rec_status rw), rec_written rw)] \<and>
    last (hw_log t) = (''request completed'', bs) \<and> (''status'', fmt_int (rec_status rw)) \<in> set bs \<and>
    (''bytes'', Itoa (rec_written rw)) \<in> set bs \<and> (''request_id'', request_id_for env r w) \<in> set bs"
proof -
  have r: "req_method (logged_request l (spanned_request env S r w)) = req_method r"
    "routePatternFromContext (logged_request l (spanned_request env S r w)) = routePatternFromContext r"
    "RequestIDFromContext (req_ctx (spanned_request env S r w)) = request_id_for env r w" for l
    by (auto simp: logged_request_def spanned_request_def routePatternFromContext_def WithContext_def
        RequestIDFromContext_def Let_def split: option.split)
  show ?thesis unfolding Chain_run [OF assms(1)] assms(2)
    by (intro exI conjI, rule refl)
       (auto simp: chain_inner_def logged_exit_def assms(3) rw_Status_def BytesWritten_def observation_def r request_attrs_def)
qed

end
