(* ===== verification/ServeMux.thy ===== *)
theory ServeMux
  imports MiddlewareFacts
begin

text \<open>
  \<open>http.ServeMux\<close> for the patterns the code registers: an optional method, literal segments,
  one-segment wildcards and a final slash that matches any rest. The tree of patterns is the list of
  the patterns that remain after the segments read so far. \<open>match_path_captures\<close> relates the search to
  the patterns one by one.
\<close>

section \<open>Paths\<close>

text \<open>\<open>cleanPath\<close>: \<open>path.Clean\<close> of the rooted path, keeping a final slash.\<close>

fun clean_segments :: "string list \<Rightarrow> string list \<Rightarrow> string list" where
  "clean_segments acc [] = rev acc"
| "clean_segments acc (x # xs) =
     (if x = [] \<or> x = ''.'' then clean_segments acc xs
      else if x = ''..'' then clean_segments (tl acc) xs
      else clean_segments (x # acc) xs)"

definition cleanPath :: "string \<Rightarrow> string" where
  "cleanPath p =
     (if p = [] then ''/''
      else
        (let p = (if hd p = CHR ''/'' then p else CHR ''/'' # p);
             np = CHR ''/'' # Join (clean_segments [] (Split (tl p) (CHR ''/''))) ''/'' in
         if last p = CHR ''/'' \<and> np \<noteq> ''/'' then np @ ''/'' else np))"

fun PathUnescape :: "string \<Rightarrow> string option" where
  "PathUnescape [] = Some []"
| "PathUnescape (c # s) =
     (if c = CHR ''%'' then
        (case s of
           a # b # r \<Rightarrow>
             (case (hex_val a, hex_val b) of
                (Some x, Some y) \<Rightarrow> map_option ((#) (byte (x * 16 + y))) (PathUnescape r) | _ \<Rightarrow> None)
         | _ \<Rightarrow> None)
      else map_option ((#) c) (PathUnescape s))"

definition unescaped :: "string \<Rightarrow> string" where
  "unescaped s = (case PathUnescape s of Some t \<Rightarrow> t | None \<Rightarrow> s)"

text \<open>The segments \<open>firstSegment\<close> yields: a final slash is the segment \<open>/\<close>.\<close>

function path_segs :: "string \<Rightarrow> string list" where
  "path_segs [] = []"
| "path_segs (c # s) =
     (if c = CHR ''/'' \<and> s = [] then [''/'']
      else unescaped (takeWhile (\<lambda>x. x \<noteq> CHR ''/'') s) # path_segs (dropWhile (\<lambda>x. x \<noteq> CHR ''/'') s))"
  by pat_completeness auto
termination
  by (relation "measure length") (auto simp: length_dropWhile_le le_imp_less_Suc)

section \<open>Matching\<close>

datatype seg = Seg string | Wild string | Rest

type_synonym pattern = "string option \<times> seg list"

fun lit_children :: "string \<Rightarrow> (seg list \<times> 'a) list \<Rightarrow> (seg list \<times> 'a) list" where
  "lit_children s [] = []"
| "lit_children s ((ps, a) # t) = (case ps of
     Seg x # qs \<Rightarrow> if x = s then (qs, a) # lit_children s t else lit_children s t
   | _ \<Rightarrow> lit_children s t)"

fun wild_children :: "(seg list \<times> 'a) list \<Rightarrow> (seg list \<times> 'a) list" where
  "wild_children [] = []"
| "wild_children ((ps, a) # t) = (case ps of
     Wild x # qs \<Rightarrow> (qs, a) # wild_children t | _ \<Rightarrow> wild_children t)"

fun match_path :: "(seg list \<times> 'a) list \<Rightarrow> string list \<Rightarrow> string list \<Rightarrow> ('a \<times> string list) option" where
  "match_path t [] ms = map_option (\<lambda>a. (a, ms)) (map_of t [])"
| "match_path t (s # ss) ms =
     (case match_path (lit_children s t) ss ms of
        Some x \<Rightarrow> Some x
      | None \<Rightarrow>
          (case if s \<noteq> ''/'' then match_path (wild_children t) ss (ms @ [s]) else None of
             Some x \<Rightarrow> Some x
           | None \<Rightarrow> map_option (\<lambda>a. (a, ms)) (map_of t [Rest])))"

definition routes_of :: "string option \<Rightarrow> (pattern \<times> 'a) list \<Rightarrow> (seg list \<times> seg list \<times> 'a) list" where
  "routes_of m t = map (\<lambda>((m, ps), a). (ps, ps, a)) (filter (\<lambda>((m', ps), a). m' = m) t)"

text \<open>A pattern with the method of the request goes first, a GET pattern serves HEAD.\<close>

definition find_route :: "(pattern \<times> 'a) list \<Rightarrow> string \<Rightarrow> string list \<Rightarrow> ((seg list \<times> 'a) \<times> string list) option" where
  "find_route t m ss =
     (case match_path (routes_of (Some m) t) ss [] of
        Some x \<Rightarrow> Some x
      | None \<Rightarrow>
          (case if m = ''HEAD'' then match_path (routes_of (Some ''GET'') t) ss [] else None of
             Some x \<Rightarrow> Some x
           | None \<Rightarrow> match_path (routes_of None t) ss []))"

definition http_methods :: "string list" where
  "http_methods = [''CONNECT'', ''DELETE'', ''GET'', ''HEAD'', ''OPTIONS'', ''PATCH'', ''POST'', ''PUT'', ''TRACE'']"

text \<open>The methods other patterns would accept for the path, sorted.\<close>

definition matchingMethods :: "(pattern \<times> 'a) list \<Rightarrow> string \<Rightarrow> string list" where
  "matchingMethods t path =
     (let accepts = (\<lambda>m. match_path (routes_of (Some m) t) (path_segs path) [] \<noteq> None \<or>
            (last path \<noteq> CHR ''/'' \<and> match_path (routes_of (Some m) t) (path_segs (path @ ''/'')) [] \<noteq> None)) in
      filter (\<lambda>m. accepts m \<or> (m = ''HEAD'' \<and> accepts ''GET'')) http_methods)"

datatype 'a routed =
    StarURI
  | RedirectTo string
  | MethodNotAllowed "string list"
  | Unrouted
  | Routed 'a headers

text \<open>No pattern of the code ends in a slash but \<open>/\<close> itself, so there is no redirect to a path with one.\<close>

definition findHandler :: "(pattern \<times> 'a) list \<Rightarrow> request \<Rightarrow> 'a routed" where
  "findHandler t r =
     (let path = (if req_method r = ''CONNECT'' then req_escaped r else cleanPath (req_escaped r)) in
      if req_escaped r = ''*'' then StarURI
      else if path \<noteq> req_escaped r then RedirectTo path
      else (case find_route t (req_method r) (path_segs path) of
          Some ((ps, a), vs) \<Rightarrow> Routed a (map_of (zip (concat (map (\<lambda>p. case p of Wild n \<Rightarrow> [n] | _ \<Rightarrow> []) ps)) vs))
        | None \<Rightarrow>
            (let ms = matchingMethods t path in if ms \<noteq> [] then MethodNotAllowed ms else Unrouted)))"

section \<open>Serving\<close>

text \<open>\<open>http.Error\<close>: the text and a newline, as plain text.\<close>

definition http_Error :: "string \<Rightarrow> int \<Rightarrow> hw \<Rightarrow> hw" where
  "http_Error msg code w =
     (let w = w\<lparr>hw_header := (hw_header w)(''Content-Length'' := None)\<rparr>;
          w = Header_Set ''Content-Type'' ''text/plain; charset=utf-8'' w;
          w = Header_Set ''X-Content-Type-Options'' ''nosniff'' w in
      Write (msg @ NL) (WriteHeader code w))"

text \<open>The answers of the mux itself. \<open>Redirect\<close> is \<open>http.Redirect\<close> to the path with the query of the request.\<close>

fun mux_reply :: "(string \<Rightarrow> request \<Rightarrow> hw \<Rightarrow> hw) \<Rightarrow> 'a routed \<Rightarrow> request \<Rightarrow> hw \<Rightarrow> hw" where
  "mux_reply Redirect StarURI r w = WriteHeader 400 (Header_Set ''Connection'' ''close'' w)"
| "mux_reply Redirect (RedirectTo p) r w = Redirect p r w"
| "mux_reply Redirect (MethodNotAllowed ms) r w =
     http_Error ''Method Not Allowed'' 405 (Header_Set ''Allow'' (Join ms '', '') w)"
| "mux_reply Redirect Unrouted r w = http_Error ''404 page not found'' 404 w"
| "mux_reply Redirect (Routed a vs) r w = w"

definition ServeMux :: "(string \<Rightarrow> request \<Rightarrow> hw \<Rightarrow> hw) \<Rightarrow> (pattern \<times> handler) list \<Rightarrow> handler" where
  "ServeMux Redirect t r w =
     (case findHandler t r of
        Routed h vs \<Rightarrow> h (r\<lparr>req_path_values := vs\<rparr>) w
      | x \<Rightarrow> (Returned, mux_reply Redirect x r w))"

section \<open>The search and the single patterns\<close>

text \<open>What one pattern captures of a path.\<close>

fun capture :: "seg list \<Rightarrow> string list \<Rightarrow> string list option" where
  "capture [] [] = Some []"
| "capture [Rest] (s # ss) = Some []"
| "capture (Seg x # ps) (s # ss) = (if x = s then capture ps ss else None)"
| "capture (Wild x # ps) (s # ss) = (if s \<noteq> ''/'' then map_option ((#) s) (capture ps ss) else None)"
| "capture ps ss = None"

lemma capture_Segs: "capture (map Seg xs) ss = (if ss = xs then Some [] else None)"
proof (induction xs arbitrary: ss)
  case Nil
  then show ?case by (cases ss) simp_all
next
  case (Cons x xs)
  then show ?case by (cases ss) simp_all
qed

lemma lit_children_iff: "(ps, a) \<in> set (lit_children s t) \<longleftrightarrow> (Seg s # ps, a) \<in> set t"
  by (induction t rule: lit_children.induct) (auto split: list.splits seg.splits)

lemma wild_children_iff: "(ps, a) \<in> set (wild_children t) \<longleftrightarrow> (\<exists>x. (Wild x # ps, a) \<in> set t)"
  by (induction t rule: wild_children.induct) (auto split: list.splits seg.splits)

lemma children_ball:
  "(\<forall>(ps, a) \<in> set (lit_children s t). P ps) \<longleftrightarrow> (\<forall>ps a. (Seg s # ps, a) \<in> set t \<longrightarrow> P ps)"
  "(\<forall>(ps, a) \<in> set (wild_children t). P ps) \<longleftrightarrow> (\<forall>x ps a. (Wild x # ps, a) \<in> set t \<longrightarrow> P ps)"
  by (auto simp: lit_children_iff wild_children_iff Ball_def)

lemma map_of_None_iff: "map_of t k = None \<longleftrightarrow> (\<forall>a. (k, a) \<notin> set t)"
  by (metis map_of_SomeD not_None_eq weak_map_of_SomeI)

text \<open>The search finds a pattern that matches and what it captures, and it finds one if there is one.\<close>

lemma match_path_captures:
  "match_path t ss ms = Some (a, ms') \<Longrightarrow> \<exists>ps vs. (ps, a) \<in> set t \<and> capture ps ss = Some vs \<and> ms' = ms @ vs"
proof (induction t ss ms rule: match_path.induct)
  case (1 t ms)
  then show ?case by (force dest: map_of_SomeD)
next
  case (2 t s ss ms)
  consider (lit) "match_path (lit_children s t) ss ms = Some (a, ms')"
    | (wild) "s \<noteq> ''/''" "match_path (lit_children s t) ss ms = None" "match_path (wild_children t) ss (ms @ [s]) = Some (a, ms')"
    | (rest) "map_of t [Rest] = Some a" "ms' = ms"
    using 2(3) by (auto split: option.splits if_splits)
  then show ?case
  proof cases
    case lit
    from 2(1) [OF lit] obtain ps vs where "(ps, a) \<in> set (lit_children s t)" "capture ps ss = Some vs" "ms' = ms @ vs"
      by blast
    then show ?thesis unfolding lit_children_iff
      by (intro exI [of _ "Seg s # ps"] exI [of _ vs]) simp
  next
    case wild
    from 2(2) [OF wild(2,1,3)] obtain ps vs where "(ps, a) \<in> set (wild_children t)" "capture ps ss = Some vs"
      "ms' = (ms @ [s]) @ vs" by blast
    then obtain x where "(Wild x # ps, a) \<in> set t" unfolding wild_children_iff by blast
    then show ?thesis using wild(1) \<open>capture ps ss = Some vs\<close> \<open>ms' = (ms @ [s]) @ vs\<close>
      by (intro exI [of _ "Wild x # ps"] exI [of _ "s # vs"]) simp
  next
    case rest
    then show ?thesis by (intro exI [of _ "[Rest]"] exI [of _ "[]"]) (simp add: map_of_SomeD)
  qed
qed

lemma match_path_None:
  "match_path t ss ms = None \<longleftrightarrow> (\<forall>(ps, a) \<in> set t. capture ps ss = None)"
proof (induction t ss ms rule: match_path.induct)
  case (1 t ms)
  have "capture ps [] = None \<longleftrightarrow> ps \<noteq> []" for ps by (cases "(ps, [] :: string list)" rule: capture.cases) auto
  then show ?case by (auto simp: map_of_None_iff)
next
  case (2 t s ss ms)
  have "match_path t (s # ss) ms = None \<longleftrightarrow> match_path (lit_children s t) ss ms = None \<and>
      (s \<noteq> ''/'' \<longrightarrow> match_path (wild_children t) ss (ms @ [s]) = None) \<and> map_of t [Rest] = None"
    by (auto split: option.splits)
  also have "\<dots> \<longleftrightarrow> (\<forall>ps a. (Seg s # ps, a) \<in> set t \<longrightarrow> capture ps ss = None) \<and>
      (s \<noteq> ''/'' \<longrightarrow> (\<forall>x ps a. (Wild x # ps, a) \<in> set t \<longrightarrow> capture ps ss = None)) \<and> (\<forall>a. ([Rest], a) \<notin> set t)"
    using 2 unfolding children_ball map_of_None_iff
    by (cases "match_path (lit_children s t) ss ms"; cases "s = ''/''") simp_all
  also have "\<dots> \<longleftrightarrow> (\<forall>ps a. (ps, a) \<in> set t \<longrightarrow> capture ps (s # ss) = None)"
  proof (intro iffI allI impI conjI)
    fix ps a
    assume "(\<forall>ps a. (Seg s # ps, a) \<in> set t \<longrightarrow> capture ps ss = None) \<and>
      (s \<noteq> ''/'' \<longrightarrow> (\<forall>x ps a. (Wild x # ps, a) \<in> set t \<longrightarrow> capture ps ss = None)) \<and> (\<forall>a. ([Rest], a) \<notin> set t)"
      and "(ps, a) \<in> set t"
    then show "capture ps (s # ss) = None" by (cases "(ps, s # ss)" rule: capture.cases) (auto, blast)
  next
    fix ps a
    assume *: "\<forall>ps a. (ps, a) \<in> set t \<longrightarrow> capture ps (s # ss) = None"
    show "(Seg s # ps, a) \<in> set t \<Longrightarrow> capture ps ss = None" using * by fastforce
  next
    fix x ps a
    assume *: "\<forall>ps a. (ps, a) \<in> set t \<longrightarrow> capture ps (s # ss) = None"
    show "s \<noteq> ''/'' \<Longrightarrow> (Wild x # ps, a) \<in> set t \<Longrightarrow> capture ps ss = None" using * by fastforce
  next
    fix a
    assume *: "\<forall>ps a. (ps, a) \<in> set t \<longrightarrow> capture ps (s # ss) = None"
    show "([Rest], a) \<notin> set t" using * by fastforce
  qed
  finally show ?case by auto
qed

lemma match_path_empty [simp]: "match_path [] ss ms = None"
  by (simp add: match_path_None)

lemma find_route_in: "find_route t m ss = Some ((ps, a), vs) \<Longrightarrow> a \<in> snd ` set t"
  unfolding find_route_def
  by (force simp: routes_of_def split: option.splits if_splits dest!: match_path_captures)

lemma findHandler_in: "findHandler t r = Routed h vs \<Longrightarrow> h \<in> snd ` set t"
  unfolding findHandler_def Let_def
  by (auto split: if_splits option.splits dest!: find_route_in)

section \<open>Requests with a clean path\<close>

text \<open>Requests the mux does not redirect.\<close>

lemma cleanPath_rooted: "\<exists>s. cleanPath p = CHR ''/'' # s"
  by (auto simp: cleanPath_def Let_def)

definition clean_request :: "request \<Rightarrow> bool" where
  "clean_request r \<longleftrightarrow> req_method r \<noteq> ''CONNECT'' \<and> cleanPath (req_escaped r) = req_escaped r"

lemma clean_path_nonempty: "clean_request r \<Longrightarrow> path_segs (req_escaped r) \<noteq> [] \<and> req_escaped r \<noteq> ''*''"
proof -
  assume "clean_request r"
  then have c: "cleanPath (req_escaped r) = req_escaped r" by (simp add: clean_request_def)
  then obtain s where "req_escaped r = CHR ''/'' # s" using cleanPath_rooted [of "req_escaped r"] by auto
  then show ?thesis by simp
qed

lemma findHandler_found:
  assumes "clean_request r" and "find_route t (req_method r) (path_segs (req_escaped r)) = Some ((ps, a), vs)"
  shows "findHandler t r = Routed a (map_of (zip (concat (map (\<lambda>p. case p of Wild n \<Rightarrow> [n] | _ \<Rightarrow> []) ps)) vs))"
  using assms clean_path_nonempty [OF assms(1)] by (simp add: findHandler_def clean_request_def Let_def)

section \<open>The contract of the mux\<close>

lemma mux_reply_recorders:
  "(\<And>p r w. \<exists>g. hw_recorders (Redirect p r w) = map g (hw_recorders w)) \<Longrightarrow>
     \<exists>g. hw_recorders (mux_reply Redirect x r w) = map g (hw_recorders w)"
  by (cases x) (auto simp: http_Error_def Let_def intro: exI [of _ id])

text \<open>A mux over handlers that keep the contract keeps it.\<close>

lemma ServeMux_handler:
  assumes "\<And>p r w. \<exists>g. hw_recorders (Redirect p r w) = map g (hw_recorders w)"
    and "\<And>h. h \<in> snd ` set t \<Longrightarrow> http_handler h"
  shows "http_handler (ServeMux Redirect t)"
proof
  fix r :: request and w :: hw
  show "\<exists>g. hw_recorders (snd (ServeMux Redirect t r w)) = map g (hw_recorders w)"
    using mux_reply_recorders [where x = "findHandler t r" and r = r and w = w, OF assms(1)] assms(2) findHandler_in [of t r]
    by (cases "findHandler t r") (auto simp: ServeMux_def http_handler_def)
qed

end
