(* ===== verification/Server.thy ===== *)
theory Server
  imports ServeMux Http Effects
begin

text \<open>
  What the three generated servers share. A routed operation is a function of the request that yields
  a program, whose value is what it writes to the response. The functions of the \<open>runtime\<close> package of
  oapi-codegen (binding of path parameters, the email type) and the text of a JSON syntax error are the
  fields of \<open>runtime\<close>. The routers add no middleware to single operations, no handler of the services
  returns an error or a nil response, and the scopes put into the context are not read.
\<close>

type_synonym operation = "request \<Rightarrow> (hw \<Rightarrow> hw) prog"

record runtime =
  rt_BindString :: "string \<Rightarrow> string \<Rightarrow> gerror + string"
  rt_BindUUID :: "string \<Rightarrow> string \<Rightarrow> gerror + uuid"
  rt_Email :: "json \<Rightarrow> gerror + string"
  rt_SyntaxError :: "string \<Rightarrow> gerror"

section \<open>Path parameters\<close>

definition InvalidParamFormatError :: "string \<Rightarrow> gerror \<Rightarrow> gerror" where
  "InvalidParamFormatError name err = Wrap (''Invalid format for parameter '' @ name @ '': '') err []"

definition bind_param :: "(string \<Rightarrow> string \<Rightarrow> gerror + 'a) \<Rightarrow> string \<Rightarrow> (gerror \<Rightarrow> hw \<Rightarrow> hw) \<Rightarrow>
    ('a \<Rightarrow> operation) \<Rightarrow> operation" where
  "bind_param bind_value name onError k r =
     (case bind_value name (Header_Get (req_path_values r) name) of
        Inl err \<Rightarrow> Ret (onError (InvalidParamFormatError name err))
      | Inr v \<Rightarrow> k v r)"

section \<open>Error handlers of the strict server\<close>

definition RequestErrorHandlerFunc :: "gerror \<Rightarrow> hw \<Rightarrow> hw" where
  "RequestErrorHandlerFunc err w = http_Error (Error_String err) 400 w"

definition ResponseErrorHandlerFunc :: "gerror \<Rightarrow> hw \<Rightarrow> hw" where
  "ResponseErrorHandlerFunc err w = http_Error (Error_String err) 500 w"

section \<open>Request bodies\<close>

text \<open>
  \<open>json.Decoder\<close> reads one value and leaves the rest. The fields of the object are stored in its order;
  a name selects the field with that tag, else one that differs in case only. A value of the wrong type
  is skipped and reported at the end, an error of an \<open>UnmarshalJSON\<close> method ends the decoding.
\<close>

datatype 'a stored = Stored 'a | Mismatch gerror | Abort gerror

fun fold_name :: "string \<Rightarrow> string" where
  "fold_name [] = []"
| "fold_name (a # s) =
     (if a = CHR 0xC5 \<and> take 1 s = [CHR 0xBF] then CHR ''s'' # fold_name (drop 1 s)
      else if a = CHR 0xE2 \<and> take 2 s = [CHR 0x84, CHR 0xAA] then CHR ''k'' # fold_name (drop 2 s)
      else lower_char a # fold_name s)"

definition field_named :: "(string \<times> 'b) list \<Rightarrow> string \<Rightarrow> 'b option" where
  "field_named fs k = (case map_of fs k of
     Some b \<Rightarrow> Some b
   | None \<Rightarrow> map_option snd (find (\<lambda>(n, _). fold_name n = fold_name k) fs))"

primrec json_kind :: "json \<Rightarrow> string" where
  "json_kind JNull = ''null''"
| "json_kind (JBool b) = ''bool''"
| "json_kind (JNum s) = ''number''"
| "json_kind (JStr s) = ''string''"
| "json_kind (JArr js) = ''array''"
| "json_kind (JObj fs) = ''object''"

definition field_type_error :: "string \<Rightarrow> string \<Rightarrow> json \<Rightarrow> gerror" where
  "field_type_error field type j = Text (''json: cannot unmarshal '' @ json_kind j @ '' into Go struct field '' @
     field @ '' of type '' @ type)"

definition string_field :: "string \<Rightarrow> string \<Rightarrow> (string \<Rightarrow> 'a \<Rightarrow> 'a) \<Rightarrow> json \<Rightarrow> 'a \<Rightarrow> 'a stored" where
  "string_field field type set_field j x = (case j of
     JStr s \<Rightarrow> Stored (set_field s x) | JNull \<Rightarrow> Stored x | _ \<Rightarrow> Mismatch (field_type_error field type j))"

definition pointer_field :: "string \<Rightarrow> string \<Rightarrow> (string option \<Rightarrow> 'a \<Rightarrow> 'a) \<Rightarrow> json \<Rightarrow> 'a \<Rightarrow> 'a stored" where
  "pointer_field field type set_field j x = (case j of
     JStr s \<Rightarrow> Stored (set_field (Some s) x) | JNull \<Rightarrow> Stored (set_field None x)
   | _ \<Rightarrow> Mismatch (field_type_error field type j))"

definition unmarshaler_field :: "(json \<Rightarrow> gerror + 'b) \<Rightarrow> ('b \<Rightarrow> 'a \<Rightarrow> 'a) \<Rightarrow> json \<Rightarrow> 'a \<Rightarrow> 'a stored" where
  "unmarshaler_field unmarshal set_field j x =
     (case unmarshal j of Inl e \<Rightarrow> Abort e | Inr s \<Rightarrow> Stored (set_field s x))"

definition struct_field :: "((string \<times> json) list \<Rightarrow> 'b stored) \<Rightarrow> string \<Rightarrow> string \<Rightarrow> ('b \<Rightarrow> 'a \<Rightarrow> 'a) \<Rightarrow> json \<Rightarrow> 'a \<Rightarrow> 'a stored" where
  "struct_field decode field type set_field j x = (case j of
     JObj ps \<Rightarrow> (case decode ps of Stored y \<Rightarrow> Stored (set_field y x) | Mismatch e \<Rightarrow> Mismatch e | Abort e \<Rightarrow> Abort e)
   | JNull \<Rightarrow> Stored x | _ \<Rightarrow> Mismatch (field_type_error field type j))"

fun decode_object :: "(string \<times> (json \<Rightarrow> 'a \<Rightarrow> 'a stored)) list \<Rightarrow> (string \<times> json) list \<Rightarrow> gerror option \<Rightarrow> 'a \<Rightarrow>
    'a stored" where
  "decode_object fs [] saved x = (case saved of Some e \<Rightarrow> Mismatch e | None \<Rightarrow> Stored x)"
| "decode_object fs ((k, v) # ps) saved x = (case field_named fs k of
     None \<Rightarrow> decode_object fs ps saved x
   | Some store \<Rightarrow>
       (case store v x of
          Stored y \<Rightarrow> decode_object fs ps saved y
        | Mismatch e \<Rightarrow> decode_object fs ps (case saved of None \<Rightarrow> Some e | Some d \<Rightarrow> Some d) x
        | Abort e \<Rightarrow> Abort e))"

definition decode_fields :: "(string \<times> (json \<Rightarrow> 'a \<Rightarrow> 'a stored)) list \<Rightarrow> (string \<times> json) list \<Rightarrow> gerror option \<Rightarrow> 'a \<Rightarrow>
    gerror + 'a" where
  "decode_fields fs ps saved x =
     (case decode_object fs ps saved x of Stored y \<Rightarrow> Inr y | Mismatch e \<Rightarrow> Inl e | Abort e \<Rightarrow> Inl e)"

lemma decode_fields_simps [simp]:
  "decode_fields fs [] saved x = (case saved of Some e \<Rightarrow> Inl e | None \<Rightarrow> Inr x)"
  "decode_fields fs ((k, v) # ps) saved x = (case field_named fs k of
     None \<Rightarrow> decode_fields fs ps saved x
   | Some store \<Rightarrow>
       (case store v x of
          Stored y \<Rightarrow> decode_fields fs ps saved y
        | Mismatch e \<Rightarrow> decode_fields fs ps (case saved of None \<Rightarrow> Some e | Some d \<Rightarrow> Some d) x
        | Abort e \<Rightarrow> Inl e))"
  by (auto simp: decode_fields_def split: option.split stored.split)

definition decode_body :: "runtime \<Rightarrow> string \<Rightarrow> (string \<times> (json \<Rightarrow> 'a \<Rightarrow> 'a stored)) list \<Rightarrow> 'a \<Rightarrow> string \<Rightarrow> gerror + 'a" where
  "decode_body rt type fs zero body = (case parse_value (Suc (length body)) body of
     None \<Rightarrow> Inl (rt_SyntaxError rt body)
   | Some (JObj ps, _) \<Rightarrow> decode_fields fs ps None zero
   | Some (JNull, _) \<Rightarrow> Inr zero
   | Some (j, _) \<Rightarrow> Inl (Text (''json: cannot unmarshal '' @ json_kind j @ '' into Go value of type '' @ type)))"

text \<open>\<open>json.Unmarshal\<close> reads the whole text.\<close>

definition Unmarshal :: "(string \<Rightarrow> gerror) \<Rightarrow> string \<Rightarrow> (string \<times> (json \<Rightarrow> 'a \<Rightarrow> 'a stored)) list \<Rightarrow> 'a \<Rightarrow> string \<Rightarrow> gerror + 'a" where
  "Unmarshal syntax_error type fs zero body = (case parse_json body of
     None \<Rightarrow> Inl (syntax_error body)
   | Some (JObj ps) \<Rightarrow> decode_fields fs ps None zero
   | Some JNull \<Rightarrow> Inr zero
   | Some j \<Rightarrow> Inl (Text (''json: cannot unmarshal '' @ json_kind j @ '' into Go value of type '' @ type)))"

definition with_body :: "(string \<Rightarrow> gerror + 'a) \<Rightarrow> ('a \<Rightarrow> (hw \<Rightarrow> hw) prog) \<Rightarrow> operation" where
  "with_body decode k r = (case decode (req_body r) of
     Inl err \<Rightarrow> Ret (RequestErrorHandlerFunc (Errorf ''can't decode JSON body: '' err))
   | Inr body \<Rightarrow> k body)"

section \<open>Responses\<close>

text \<open>
  \<open>time.Time.MarshalJSON\<close> in UTC, for a time in nanoseconds since the zero time: RFC 3339 with the
  nanoseconds without their trailing zeros. \<open>civil\<close> is the date of a day of the Gregorian calendar,
  counted from 0001-01-01.
\<close>

definition civil :: "int \<Rightarrow> int \<times> int \<times> int" where
  "civil days =
     (let z = days + 306; era = z div 146097; doe = z mod 146097;
          yoe = (doe - doe div 1460 + doe div 36524 - doe div 146096) div 365;
          doy = doe - (365 * yoe + yoe div 4 - yoe div 100);
          mp = (5 * doy + 2) div 153;
          d = doy - (153 * mp + 2) div 5 + 1;
          m = (if mp < 10 then mp + 3 else mp - 9) in
      (yoe + era * 400 + (if m \<le> 2 then 1 else 0), m, d))"

definition padded :: "nat \<Rightarrow> int \<Rightarrow> string" where
  "padded n k = (let s = Itoa (nat k) in replicate (n - length s) (CHR ''0'') @ s)"

definition fraction :: "int \<Rightarrow> string" where
  "fraction ns = (if ns = 0 then [] else CHR ''.'' # rev (dropWhile (\<lambda>c. c = CHR ''0'') (rev (padded 9 ns))))"

definition marshal_time :: "time \<Rightarrow> gerror + json" where
  "marshal_time t =
     (let secs = t div 1000000000; ns = t mod 1000000000; (y, m, d) = civil (secs div 86400); s = secs mod 86400 in
      if y < 0 \<or> 9999 < y
      then Inl (Text ''json: error calling MarshalJSON for type time.Time: Time.MarshalJSON: year outside of range [0,9999]'')
      else Inr (JStr (padded 4 y @ ''-'' @ padded 2 m @ ''-'' @ padded 2 d @ ''T'' @ padded 2 (s div 3600) @ '':'' @
        padded 2 (s mod 3600 div 60) @ '':'' @ padded 2 (s mod 60) @ fraction ns @ ''Z'')))"

definition error_envelope :: "ErrorBody \<Rightarrow> json" where
  "error_envelope b = JObj [(''error'', JObj [(''code'', JStr (err_code b)), (''message'', JStr (err_message b))])]"

definition error_json :: "ErrorBody \<Rightarrow> string" where
  "error_json b = Marshal (error_envelope b) @ NL"

text \<open>The \<open>Visit\<close> methods: header, status, body. An encoding error comes after the status was sent.\<close>

definition visit_json :: "int \<Rightarrow> gerror + json \<Rightarrow> hw \<Rightarrow> hw" where
  "visit_json code enc w =
     (let w = WriteHeader code (Header_Set ''Content-Type'' ''application/json'' w) in
      case enc of Inl err \<Rightarrow> ResponseErrorHandlerFunc err w | Inr j \<Rightarrow> Write (Marshal j @ NL) w)"

definition visit_response :: "('a \<Rightarrow> gerror + json) \<Rightarrow> 'a response \<Rightarrow> hw \<Rightarrow> hw" where
  "visit_response enc response = (case response of
     Success code a \<Rightarrow> visit_json code (enc a) | Failure code b \<Rightarrow> visit_json code (Inr (error_envelope b)))"

definition optional :: "string \<Rightarrow> ('a \<Rightarrow> json) \<Rightarrow> 'a option \<Rightarrow> (string \<times> json) list" where
  "optional name enc x = (case x of None \<Rightarrow> [] | Some a \<Rightarrow> [(name, enc a)])"

section \<open>Serving\<close>

definition ServeMux_api :: "(string \<Rightarrow> request \<Rightarrow> hw \<Rightarrow> hw) \<Rightarrow> (pattern \<times> operation) list \<Rightarrow> operation" where
  "ServeMux_api Redirect t r =
     (case findHandler t r of
        Routed h vs \<Rightarrow> h (r\<lparr>req_path_values := vs\<rparr>)
      | x \<Rightarrow> Ret (mux_reply Redirect x r))"

section \<open>Facts\<close>

lemma decode_body_Marshal:
  "json_ok (JObj ps) \<Longrightarrow> decode_body rt type fs zero (Marshal (JObj ps)) = decode_fields fs ps None zero"
  using parse_Marshal(1) [of "JObj ps" "Suc (length (Marshal (JObj ps)))" "[]"] by (simp add: decode_body_def)

lemma Unmarshal_line:
  assumes "json_ok (JObj ps)"
  shows "Unmarshal e type fs zero (Marshal (JObj ps) @ NL) = decode_fields fs ps None zero"
proof -
  have "parse_json (Marshal (JObj ps) @ NL) = Some (JObj ps)"
    using parse_Marshal(1) [OF assms, of "Suc (length (Marshal (JObj ps) @ NL))" NL] by (simp add: parse_json_def skip_def json_space_def)
  then show ?thesis by (simp add: Unmarshal_def)
qed

text \<open>A body that cannot be decoded is answered in plain text, not with the error envelope of the API.\<close>

lemma undecodable_body:
  assumes "decode (req_body r) = Inl e"
  shows "with_body decode k r = Ret (http_Error (''can't decode JSON body: '' @ Error_String e) 400)"
  using assms by (simp add: with_body_def RequestErrorHandlerFunc_def fun_eq_iff)

lemma http_Error_sent:
  "hw_sent w = None \<Longrightarrow> map_option fst (hw_sent (http_Error msg code w)) = Some code"
  "hw_sent w = None \<Longrightarrow> (case hw_sent (http_Error msg code w) of Some (_, h) \<Rightarrow> h ''Content-Type'' | None \<Rightarrow> None) =
     Some ''text/plain; charset=utf-8''"
  "hw_sent w = None \<Longrightarrow> code \<notin> {204, 304} \<Longrightarrow> hw_body (http_Error msg code w) = hw_body w @ msg @ NL"
  by (simp_all add: http_Error_def Let_def Header_Set_def)

lemma visit_json_Inr:
  "hw_sent w = None \<Longrightarrow> hw_sent (visit_json code (Inr j) w) = Some (code, (hw_header w)(''Content-Type'' \<mapsto> ''application/json''))"
  "hw_sent w = None \<Longrightarrow> code \<notin> {204, 304} \<Longrightarrow> hw_body (visit_json code (Inr j) w) = hw_body w @ Marshal j @ NL"
  by (simp_all add: visit_json_def Let_def)

lemma path_segs_slash:
  assumes "last p \<noteq> CHR ''/''" "p \<noteq> []" "hd p = CHR ''/''"
  shows "path_segs (p @ ''/'') = path_segs p @ [''/'']"
  using assms
proof (induction p rule: path_segs.induct)
  case (2 c s)
  let ?sep = "\<lambda>x. x \<noteq> CHR ''/''"
  have s: "s \<noteq> []" using 2(2,4) by auto
  then have l: "last s \<noteq> CHR ''/''" using 2(2) by simp
  show ?case
  proof (cases "dropWhile ?sep s = []")
    case True
    then have all: "\<forall>x\<in>set s. ?sep x" by simp
    then have eq: "takeWhile ?sep s = s" by (simp add: takeWhile_eq_all_conv)
    have "takeWhile ?sep (s @ ''/'') = s" "dropWhile ?sep (s @ ''/'') = ''/''"
      using all by (simp_all add: takeWhile_append2)
    then show ?thesis using s by (simp add: eq True del: dropWhile_eq_Nil_conv)
  next
    case False
    then have d: "takeWhile ?sep (s @ ''/'') = takeWhile ?sep s" "dropWhile ?sep (s @ ''/'') = dropWhile ?sep s @ ''/''"
      by (auto simp: takeWhile_append dropWhile_append)
    have "hd (dropWhile ?sep s) = CHR ''/''" using hd_dropWhile [OF False] by simp
    moreover have "last (takeWhile ?sep s @ dropWhile ?sep s) = last (dropWhile ?sep s)" using False by (rule last_appendR)
    then have "last s = last (dropWhile ?sep s)" by (simp only: takeWhile_dropWhile_id)
    then have "last (dropWhile ?sep s) \<noteq> CHR ''/''" using l by simp
    ultimately show ?thesis using 2(1) False s d by simp
  qed
qed simp

text \<open>A path no pattern captures, as it is or with a final slash, is not found, whatever the method.\<close>

lemma findHandler_none:
  assumes "clean_request r"
    and none: "\<And>m ps a xs. ((m, ps), a) \<in> set t \<Longrightarrow> capture ps (path_segs (req_escaped r) @ xs) = None"
  shows "findHandler t r = Unrouted"
proof -
  obtain s where e: "req_escaped r = CHR ''/'' # s" using cleanPath_rooted [of "req_escaped r"] assms(1)
    by (auto simp: clean_request_def)
  have no: "match_path (routes_of m t) (path_segs (req_escaped r)) [] = None" for m
    unfolding match_path_None routes_of_def using none [where xs = "[]"] by auto
  have slash: "match_path (routes_of m t) (path_segs (req_escaped r @ ''/'')) [] = None" if "last (req_escaped r) \<noteq> CHR ''/''" for m
    unfolding match_path_None routes_of_def using none [where xs = "[''/'']"] path_segs_slash [OF that] e by auto
  have "find_route t (req_method r) (path_segs (req_escaped r)) = None" "matchingMethods t (req_escaped r) = []"
    using no slash by (cases "last (req_escaped r) = CHR ''/''"; simp add: find_route_def matchingMethods_def Let_def)+
  then show ?thesis using assms(1) e by (simp add: findHandler_def clean_request_def Let_def)
qed

end
