(* ===== verification/Routers.thy ===== *)
theory Routers
  imports Server ProvisionerApi AccountsApi
begin

text \<open>
  The HTTP entry points: \<open>NewRouter\<close> of \<open>services/accounts\<close>, \<open>services/provisioner\<close> and
  \<open>services/storage\<close> with the routes they add themselves, their validation error handlers. The generated router below them is a parameter, the
  handler \<open>mux\<close>.
\<close>

section \<open>Routes of the routers\<close>

definition healthz :: handler where
  "healthz r w =
     (Returned, Write (Marshal (JObj [(''status'', JStr ''ok'')]))
        (WriteHeader 200 (Header_Set ''Content-Type'' ''application/json'' w)))"

definition openapi_yaml :: "(string \<Rightarrow> gerror + string) \<Rightarrow> string \<Rightarrow> handler" where
  "openapi_yaml ReadFile path r w =
     (case ReadFile path of
        Inl err \<Rightarrow> (Returned, http_Error ''OpenAPI spec not found'' 404 w)
      | Inr spec \<Rightarrow> (Returned, Write spec (Header_Set ''Content-Type'' ''application/yaml'' w)))"

definition swaggerUIHTML :: "string \<Rightarrow> string \<Rightarrow> string" where
  "swaggerUIHTML title url = Join
    [''<!DOCTYPE html>'',
     ''<html lang='' @ Quote ''en'' @ ''>'',
     ''<head>'',
     ''  <meta charset='' @ Quote ''utf-8'' @ ''/>'',
     ''  <meta name='' @ Quote ''viewport'' @ '' content='' @ Quote ''width=device-width, initial-scale=1'' @ ''/>'',
     ''  <title>'' @ title @ ''</title>'',
     ''  <link rel='' @ Quote ''stylesheet'' @ '' href='' @
       Quote ''https://cdn.jsdelivr.net/npm/swagger-ui-dist/swagger-ui.css'' @ ''/>'',
     ''</head>'',
     ''<body>'',
     ''<div id='' @ Quote ''swagger-ui'' @ ''></div>'',
     ''<script src='' @ Quote ''https://cdn.jsdelivr.net/npm/swagger-ui-dist/swagger-ui-bundle.js'' @ ''></script>'',
     ''<script>'',
     ''  SwaggerUIBundle({'',
     ''    url: '' @ [CHR 0x22] @ url @ [CHR 0x22] @ '','',
     ''    dom_id: '' @ Quote ''#swagger-ui'' @ '','',
     ''    presets: [SwaggerUIBundle.presets.apis, SwaggerUIBundle.SwaggerUIStandalonePreset],'',
     ''    layout: '' @ Quote ''BaseLayout'' @ '','',
     ''    deepLinking: true,'',
     ''  });'',
     ''</script>'',
     ''</body>'',
     ''</html>''] NL"

definition docs_page :: "string \<Rightarrow> handler" where
  "docs_page title r w =
     (Returned, Write (swaggerUIHTML title ''/api/v1/openapi.yaml'')
        (Header_Set ''Content-Type'' ''text/html; charset=utf-8'' w))"

text \<open>The table of the mux \<open>top\<close>; \<open>/\<close> matches every path.\<close>

definition top_routes :: "handler \<Rightarrow> handler \<Rightarrow> handler \<Rightarrow> (pattern \<times> handler) list" where
  "top_routes spec docs mux =
     [((Some ''GET'', [Seg ''healthz'']), healthz),
      ((Some ''GET'', [Seg ''api'', Seg ''v1'', Seg ''openapi.yaml'']), spec),
      ((Some ''GET'', [Seg ''api'', Seg ''v1'', Seg ''docs'']), docs),
      ((None, [Rest]), mux)]"

definition top_mux :: "(string \<Rightarrow> request \<Rightarrow> hw \<Rightarrow> hw) \<Rightarrow> handler \<Rightarrow> handler \<Rightarrow> handler \<Rightarrow> handler" where
  "top_mux Redirect spec docs mux = ServeMux Redirect (top_routes spec docs mux)"

definition accounts_NewRouter ::
    "http_env \<Rightarrow> (string \<Rightarrow> request \<Rightarrow> hw \<Rightarrow> hw) \<Rightarrow> (string \<Rightarrow> gerror + string) \<Rightarrow> handler \<Rightarrow> logger \<Rightarrow> string list \<Rightarrow> handler" where
  "accounts_NewRouter env Redirect ReadFile mux log corsOrigins =
     Apply (ChainWithCORS corsOrigins env log)
       (top_mux Redirect (openapi_yaml ReadFile ''api/accounts/v1/openapi.yaml'')
          (docs_page ''CloudForge Accounts API'') mux)"

definition provisioner_NewRouter ::
    "http_env \<Rightarrow> (string \<Rightarrow> request \<Rightarrow> hw \<Rightarrow> hw) \<Rightarrow> (string \<Rightarrow> gerror + string) \<Rightarrow> handler \<Rightarrow> logger \<Rightarrow> string list \<Rightarrow> handler" where
  "provisioner_NewRouter env Redirect ReadFile mux log corsOrigins =
     Apply (ChainWithCORS corsOrigins env log)
       (top_mux Redirect (openapi_yaml ReadFile ''api/provisioner/v1/openapi.yaml'')
          (docs_page ''CloudForge Provisioner API'') mux)"

definition accounts_opapiErrorHandler :: "gerror \<Rightarrow> hw \<Rightarrow> hw" where
  "accounts_opapiErrorHandler err w =
     Write (error_json (accounts_BadRequestBody (Error_String err)))
       (WriteHeader 400 (Header_Set ''Content-Type'' ''application/json'' w))"

definition provisioner_opapiErrorHandler :: "gerror \<Rightarrow> hw \<Rightarrow> hw" where
  "provisioner_opapiErrorHandler err w =
     Write (error_json (ProvisionerApi.BadRequestBody (Error_String err)))
       (WriteHeader 400 (Header_Set ''Content-Type'' ''application/json'' w))"

section \<open>The storage service\<close>

definition notImplemented :: handler where
  "notImplemented r w =
     (Returned, WriteJSON (Some (Platform ''NOT_IMPLEMENTED'' ''this operation is not yet implemented'' None 501)) w)"

definition requestErrorHandler :: "gerror \<Rightarrow> hw \<Rightarrow> hw" where
  "requestErrorHandler err w = WriteJSON (Some (BadRequest (Error_String err))) w"

definition storage_NewRouter :: "http_env \<Rightarrow> handler \<Rightarrow> logger \<Rightarrow> handler" where
  "storage_NewRouter env mux log = Apply (Chain env log) mux"

section \<open>What the top router answers itself\<close>

text \<open>The path matches none of the fixed pages: it goes to the generated router.\<close>

definition own_page :: "request \<Rightarrow> bool" where
  "own_page r \<longleftrightarrow> req_method r \<in> {''GET'', ''HEAD''} \<and>
     path_segs (req_escaped r) \<in> {[''healthz''], [''api'', ''v1'', ''openapi.yaml''], [''api'', ''v1'', ''docs'']}"

lemma top_mux_healthz:
  assumes "clean_request r" "path_segs (req_escaped r) = [''healthz'']" "req_method r = ''GET''"
  shows "top_mux Redirect spec docs mux r w = healthz (r\<lparr>req_path_values := Map.empty\<rparr>) w"
  using assms clean_path_nonempty [OF assms(1)]
  by (simp add: top_mux_def ServeMux_def findHandler_def clean_request_def find_route_def top_routes_def routes_of_def)

lemma top_mux_below:
  assumes "clean_request r" "\<not> own_page r"
  shows "top_mux Redirect spec docs mux r w = mux (r\<lparr>req_path_values := Map.empty\<rparr>) w"
proof -
  let ?ss = "path_segs (req_escaped r)" and ?t = "top_routes spec docs mux"
  have own: "match_path (routes_of (Some m) ?t) ?ss [] = None" if "m = req_method r \<or> (req_method r = ''HEAD'' \<and> m = ''GET'')" for m
    unfolding match_path_None routes_of_def top_routes_def using assms(2) that
      capture_Segs [of "[''healthz'']" ?ss] capture_Segs [of "[''api'', ''v1'', ''openapi.yaml'']" ?ss]
      capture_Segs [of "[''api'', ''v1'', ''docs'']" ?ss]
    by (auto simp: own_page_def)
  have all: "match_path (routes_of None ?t) ?ss [] = Some (([Rest], mux), [])"
    using clean_path_nonempty [OF assms(1)] by (cases ?ss) (simp_all add: routes_of_def top_routes_def)
  have "find_route ?t (req_method r) ?ss = Some (([Rest], mux), [])"
    unfolding find_route_def using own [of "req_method r"] own [of "''GET''"] all by simp
  then show ?thesis using assms(1) clean_path_nonempty [OF assms(1)]
    by (simp add: top_mux_def ServeMux_def findHandler_def clean_request_def Let_def)
qed

text \<open>The request the generated router sees: the chain added to its context, the mux cleared its path values.\<close>

definition routed_request :: "http_env \<Rightarrow> (request \<Rightarrow> (string \<times> string) option) \<Rightarrow> logger \<Rightarrow> request \<Rightarrow> hw \<Rightarrow> request" where
  "routed_request env S log r w = (chain_request env S log r w)\<lparr>req_path_values := Map.empty\<rparr>"

lemma routed_request_simps [simp]:
  "req_method (routed_request env S log r w) = req_method r" "req_escaped (routed_request env S log r w) = req_escaped r"
  "req_body (routed_request env S log r w) = req_body r" "clean_request (routed_request env S log r w) = clean_request r"
  by (simp_all add: routed_request_def clean_request_def)

text \<open>A request for the generated router is answered as that router answers it inside the chain.\<close>

lemma router_answer:
  assumes "env_OTelSpan env = span_middleware S" "clean_request r" "\<not> own_page r"
  shows "\<exists>t. Apply (ChainWithCORS [] env log) (top_mux R spec docs (\<lambda>q v. (Returned, wr q v))) r w = (Returned, t) \<and>
    hw_sent t = hw_sent (wr (routed_request env S log r w) (chain_state env S log r w)) \<and>
    hw_body t = hw_body (wr (routed_request env S log r w) (chain_state env S log r w))"
proof -
  have "clean_request (chain_request env S log r w)" "\<not> own_page (chain_request env S log r w)"
    using assms(2,3) by (simp_all add: clean_request_def own_page_def)
  from top_mux_below [OF this] show ?thesis
    by (simp add: ChainWithCORS_def Chain_run [OF assms(1)] chain_inner_def logged_exit_def routed_request_def)
qed

section \<open>Handlers of the code keep the contract\<close>

interpretation healthz_handler: http_handler healthz
  by unfold_locales (auto simp: healthz_def)

interpretation openapi_handler: http_handler "openapi_yaml ReadFile path" for ReadFile path
  by unfold_locales (auto simp: openapi_yaml_def http_Error_def Let_def split: sum.split)

interpretation docs_handler: http_handler "docs_page title" for title
  by unfold_locales (auto simp: docs_page_def)

interpretation notImplemented_handler: http_handler notImplemented
  by unfold_locales (auto simp: notImplemented_def Let_def)

context http_handler
begin

text \<open>A router over a generated router that keeps the contract.\<close>

lemma routed:
  assumes "\<And>p r w. \<exists>g. hw_recorders (Redirect p r w) = map g (hw_recorders w)"
  shows "http_handler (top_mux Redirect (openapi_yaml ReadFile path) (docs_page title) h)"
  unfolding top_mux_def using assms
proof (rule ServeMux_handler)
  fix k assume "k \<in> snd ` set (top_routes (openapi_yaml ReadFile path) (docs_page title) h)"
  then show "http_handler k"
    using healthz_handler.http_handler_axioms openapi_handler.http_handler_axioms docs_handler.http_handler_axioms
      http_handler_axioms by (auto simp: top_routes_def)
qed

lemma chained:
  assumes "env_OTelSpan env = span_middleware S"
  shows "http_handler (Apply (Chain env log) h)"
proof -
  have "http_handler (StructuredLogger (env_Clock env) log (PanicRecovery (env_Stack env) log (HTTPMiddleware (TenantContext h))))"
    by (intro http_handler.logged http_handler.recovered http_handler.measured in_tenant)
  then have "http_handler (span_middleware S (StructuredLogger (env_Clock env) log (PanicRecovery (env_Stack env) log
      (HTTPMiddleware (TenantContext h)))))"
    by (simp add: http_handler_def span_middleware_def)
  from http_handler.identified [OF this] show ?thesis unfolding Chain_def Apply_Cons Apply_Nil assms .
qed

end

end
