(* ===== verification/ProvisionerServer.thy ===== *)
theory ProvisionerServer
  imports Routers
begin

text \<open>
  \<open>services/provisioner/generated/server.gen.go\<close>: what \<open>oapi-codegen\<close> made of the provisioner's
  specification. Requests are routed, path parameters bound, bodies decoded, the handlers of
  \<open>services/provisioner\<close> called and their response objects written. \<open>provisioner_api\<close> is the handler
  \<open>NewRouter\<close> mounts under \<open>/\<close>.
\<close>

section \<open>Bodies\<close>

definition ProvisionRequest_fields :: "(string \<times> (json \<Rightarrow> ProvisionRequest \<Rightarrow> ProvisionRequest stored)) list" where
  "ProvisionRequest_fields =
     [(''display_name'', string_field ''ProvisionRequest.display_name'' ''string'' (\<lambda>s b. b\<lparr>req_DisplayName := s\<rparr>)),
      (''plan'', string_field ''ProvisionRequest.plan'' ''generated.ProvisionRequestPlan'' (\<lambda>s b. b\<lparr>req_Plan := s\<rparr>)),
      (''tenant_id'', string_field ''ProvisionRequest.tenant_id'' ''string'' (\<lambda>s b. b\<lparr>req_TenantID := s\<rparr>))]"

definition decode_ProvisionRequest :: "runtime \<Rightarrow> string \<Rightarrow> gerror + ProvisionRequest" where
  "decode_ProvisionRequest rt =
     decode_body rt ''generated.ProvisionRequest'' ProvisionRequest_fields \<lparr>req_TenantID = [], req_DisplayName = [], req_Plan = []\<rparr>"

definition encode_JobAccepted :: "JobAccepted \<Rightarrow> json" where
  "encode_JobAccepted a = JObj [(''job_id'', JStr (uuid_String (ja_JobId a))), (''status'', JStr (ja_Status a))]"

definition encode_VPCInfo :: "VPCInfo \<Rightarrow> json" where
  "encode_VPCInfo v = JObj [(''pod_cidr'', JStr (vi_PodCidr v)), (''service_cidr'', JStr (vi_ServiceCidr v)),
     (''vcluster_ready'', JBool (vi_VclusterReady v))]"

definition encode_JobResponse :: "JobResponse \<Rightarrow> json" where
  "encode_JobResponse j = JObj
     (optional ''api_key'' JStr (jresp_ApiKey j) @
      optional ''api_key_id'' (\<lambda>i. JStr (uuid_String i)) (jresp_ApiKeyId j) @
      optional ''error_message'' JStr (jresp_ErrorMessage j) @
      [(''job_id'', JStr (uuid_String (jresp_JobId j))), (''status'', JStr (jresp_Status j))] @
      optional ''vpc_info'' encode_VPCInfo (jresp_VpcInfo j))"

definition encode_DeprovisionAccepted :: "DeprovisionAccepted \<Rightarrow> json" where
  "encode_DeprovisionAccepted d = JObj [(''job_id'', JStr (uuid_String (dp_JobId d))), (''status'', JStr (dp_Status d)),
     (''tenant_id'', JStr (dp_TenantId d))]"

section \<open>Responses\<close>

definition VisitGetJobResponse :: "JobResponse response \<Rightarrow> hw \<Rightarrow> hw" where
  "VisitGetJobResponse = visit_response (\<lambda>j. Inr (encode_JobResponse j))"

definition VisitProvisionVPCResponse :: "JobAccepted response \<Rightarrow> hw \<Rightarrow> hw" where
  "VisitProvisionVPCResponse = visit_response (\<lambda>a. Inr (encode_JobAccepted a))"

definition VisitDeprovisionVPCResponse :: "DeprovisionAccepted response \<Rightarrow> hw \<Rightarrow> hw" where
  "VisitDeprovisionVPCResponse = visit_response (\<lambda>d. Inr (encode_DeprovisionAccepted d))"

section \<open>The strict handler\<close>

record provisioner_ServerInterface =
  psi_GetJob :: "uuid \<Rightarrow> operation"
  psi_ProvisionVPC :: operation
  psi_DeprovisionVPC :: "string \<Rightarrow> operation"

definition strict_GetJob :: "(string \<Rightarrow> uuid option) \<Rightarrow> ProvisionerService \<Rightarrow> uuid \<Rightarrow> operation" where
  "strict_GetJob uuid_Parse svc jobId r =
     bind (Handler_GetJob uuid_Parse svc jobId) (\<lambda>response. Ret (VisitGetJobResponse response))"

definition strict_ProvisionVPC :: "runtime \<Rightarrow> ProvisionerService \<Rightarrow> operation" where
  "strict_ProvisionVPC rt svc =
     with_body (decode_ProvisionRequest rt) (\<lambda>body.
       bind (Handler_ProvisionVPC svc (Some body)) (\<lambda>response. Ret (VisitProvisionVPCResponse response)))"

definition strict_DeprovisionVPC :: "ProvisionerService \<Rightarrow> string \<Rightarrow> operation" where
  "strict_DeprovisionVPC svc tenantId r =
     bind (Handler_DeprovisionVPC svc tenantId) (\<lambda>response. Ret (VisitDeprovisionVPCResponse response))"

definition provisioner_NewStrictHandler ::
    "runtime \<Rightarrow> (string \<Rightarrow> uuid option) \<Rightarrow> ProvisionerService \<Rightarrow> provisioner_ServerInterface" where
  "provisioner_NewStrictHandler rt uuid_Parse svc = \<lparr>psi_GetJob = strict_GetJob uuid_Parse svc,
     psi_ProvisionVPC = strict_ProvisionVPC rt svc, psi_DeprovisionVPC = strict_DeprovisionVPC svc\<rparr>"

section \<open>Routes\<close>

definition wrapper_GetJob :: "runtime \<Rightarrow> (gerror \<Rightarrow> hw \<Rightarrow> hw) \<Rightarrow> provisioner_ServerInterface \<Rightarrow> operation" where
  "wrapper_GetJob rt onError si = bind_param (rt_BindUUID rt) ''job_id'' onError (psi_GetJob si)"

definition wrapper_ProvisionVPC :: "provisioner_ServerInterface \<Rightarrow> operation" where
  "wrapper_ProvisionVPC si = psi_ProvisionVPC si"

definition wrapper_DeprovisionVPC :: "runtime \<Rightarrow> (gerror \<Rightarrow> hw \<Rightarrow> hw) \<Rightarrow> provisioner_ServerInterface \<Rightarrow> operation" where
  "wrapper_DeprovisionVPC rt onError si = bind_param (rt_BindString rt) ''tenant_id'' onError (psi_DeprovisionVPC si)"

definition provisioner_HandlerWithOptions ::
    "runtime \<Rightarrow> seg list \<Rightarrow> (gerror \<Rightarrow> hw \<Rightarrow> hw) option \<Rightarrow> provisioner_ServerInterface \<Rightarrow> (pattern \<times> operation) list" where
  "provisioner_HandlerWithOptions rt baseURL errorHandlerFunc si =
     (let onError = (case errorHandlerFunc of Some h \<Rightarrow> h | None \<Rightarrow> RequestErrorHandlerFunc) in
     [((Some ''GET'', baseURL @ [Seg ''jobs'', Wild ''job_id'']), wrapper_GetJob rt onError si),
      ((Some ''POST'', baseURL @ [Seg ''provision'']), wrapper_ProvisionVPC si),
      ((Some ''DELETE'', baseURL @ [Wild ''tenant_id'']), wrapper_DeprovisionVPC rt onError si)])"

definition provisioner_api :: "runtime \<Rightarrow> (string \<Rightarrow> request \<Rightarrow> hw \<Rightarrow> hw) \<Rightarrow> (string \<Rightarrow> uuid option) \<Rightarrow> ProvisionerService \<Rightarrow> operation" where
  "provisioner_api rt Redirect uuid_Parse svc = ServeMux_api Redirect
     (provisioner_HandlerWithOptions rt [] (Some provisioner_opapiErrorHandler) (provisioner_NewStrictHandler rt uuid_Parse svc))"

section \<open>Which operation answers\<close>

lemma provisioner_routed:
  assumes "clean_request r" and "find_route (provisioner_HandlerWithOptions rt [] (Some provisioner_opapiErrorHandler)
    (provisioner_NewStrictHandler rt P svc)) (req_method r) (path_segs (req_escaped r)) = Some ((ps, a), vs)"
  shows "provisioner_api rt R P svc r =
    a (r\<lparr>req_path_values := map_of (zip (concat (map (\<lambda>p. case p of Wild n \<Rightarrow> [n] | _ \<Rightarrow> []) ps)) vs)\<rparr>)"
  unfolding provisioner_api_def ServeMux_api_def findHandler_found [OF assms] by simp

lemmas provisioner_route_defs = find_route_def routes_of_def provisioner_HandlerWithOptions_def
  provisioner_NewStrictHandler_def wrapper_GetJob_def wrapper_ProvisionVPC_def wrapper_DeprovisionVPC_def

lemma route_ProvisionVPC:
  assumes "clean_request r" "req_method r = ''POST''" "path_segs (req_escaped r) = [''provision'']"
  shows "provisioner_api rt R P svc r = strict_ProvisionVPC rt svc (r\<lparr>req_path_values := Map.empty\<rparr>)"
  using assms(2,3) by (subst provisioner_routed [OF assms(1)]) (simp add: provisioner_route_defs, simp)

lemma route_GetJob:
  assumes "clean_request r" "req_method r = ''GET''" "path_segs (req_escaped r) = [''jobs'', x]" "x \<noteq> ''/''"
  shows "provisioner_api rt R P svc r =
      (case rt_BindUUID rt ''job_id'' x of
         Inl e \<Rightarrow> Ret (provisioner_opapiErrorHandler (InvalidParamFormatError ''job_id'' e))
       | Inr i \<Rightarrow> strict_GetJob P svc i (r\<lparr>req_path_values := [''job_id'' \<mapsto> x]\<rparr>))"
  using assms(2-4) by (subst provisioner_routed [OF assms(1)]) (simp add: provisioner_route_defs, simp add: bind_param_def Header_Get_def)

lemma route_DeprovisionVPC:
  assumes "clean_request r" "req_method r = ''DELETE''" "path_segs (req_escaped r) = [x]" "x \<noteq> ''/''"
  shows "provisioner_api rt R P svc r =
      (case rt_BindString rt ''tenant_id'' x of
         Inl e \<Rightarrow> Ret (provisioner_opapiErrorHandler (InvalidParamFormatError ''tenant_id'' e))
       | Inr i \<Rightarrow> strict_DeprovisionVPC svc i (r\<lparr>req_path_values := [''tenant_id'' \<mapsto> x]\<rparr>))"
  using assms(2-4) by (subst provisioner_routed [OF assms(1)]) (simp add: provisioner_route_defs, simp add: bind_param_def Header_Get_def)

text \<open>The specification puts the API under \<open>/api/v1/vpc\<close>, but no base URL is set: nothing answers there.\<close>

lemma provisioner_api_prefix:
  assumes "clean_request r" and "path_segs (req_escaped r) = ''api'' # x # ss"
  shows "provisioner_api rt R P svc r = Ret (http_Error ''404 page not found'' 404)"
proof -
  have "findHandler (provisioner_HandlerWithOptions rt [] onErr si) r = Unrouted" for onErr si
    using assms by (intro findHandler_none) (auto simp: provisioner_HandlerWithOptions_def Let_def)
  then show ?thesis by (simp add: provisioner_api_def ServeMux_api_def fun_eq_iff)
qed

section \<open>A provisioning request over HTTP\<close>

lemma decode_provision_body:
  assumes "utf8 x" "utf8 y" "utf8 z"
  shows "decode_ProvisionRequest rt (Marshal (JObj [(''tenant_id'', JStr x), (''display_name'', JStr y), (''plan'', JStr z)])) =
    Inr \<lparr>req_TenantID = x, req_DisplayName = y, req_Plan = z\<rparr>"
proof -
  have "ascii ''tenant_id''" "ascii ''display_name''" "ascii ''plan''" by (simp_all add: ascii_def)
  then show ?thesis unfolding decode_ProvisionRequest_def using assms
    by (subst decode_body_Marshal) (simp_all add: ascii_utf8 ProvisionRequest_fields_def field_named_def string_field_def)
qed

lemma strict_ProvisionVPC_sem:
  assumes "sem f (strict_ProvisionVPC rt (provisioner_service P New) r) s wr t"
    and "decode_ProvisionRequest rt (req_body r) = Inr b" and "dns_label (req_TenantID b)"
  shows "(\<exists>j. wr = visit_json 202 (Inr (encode_JobAccepted \<lparr>ja_JobId = j, ja_Status = ''QUEUED''\<rparr>)) \<and>
      sem f (Provision New \<lparr>pp_TenantSlug = req_TenantID b\<rparr>) s (Inr j) t) \<or>
    (faulty f \<and> wr = visit_json 500 (Inr (error_envelope internal_body)) \<and> same_outside s t)"
proof -
  from assms(1,2) obtain response where h: "sem f (Handler_ProvisionVPC (provisioner_service P New) (Some b)) s response t"
    and wr: "wr = VisitProvisionVPCResponse response"
    by (auto simp: strict_ProvisionVPC_def with_body_def sem_bind)
  from ProvisionVPC_sem [OF h assms(3)] wr show ?thesis
    by (auto simp: VisitProvisionVPCResponse_def visit_response_def)
qed

end
