(* ===== verification/AccountsServer.thy ===== *)
theory AccountsServer
  imports Routers
begin

text \<open>
  \<open>services/accounts/generated/server.gen.go\<close>: the generated server of the accounts API, as
  \<open>ProvisionerServer\<close> models the provisioner's. \<open>accounts_api\<close> is the handler \<open>NewRouter\<close> mounts under
  \<open>/\<close>.
\<close>

section \<open>Bodies\<close>

definition IssueKeyRequest_fields :: "(string \<times> (json \<Rightarrow> IssueKeyRequest \<Rightarrow> IssueKeyRequest stored)) list" where
  "IssueKeyRequest_fields =
     [(''display_name'', string_field ''IssueKeyRequest.display_name'' ''string'' (\<lambda>s b. b\<lparr>ikr_DisplayName := s\<rparr>)),
      (''scopes'', pointer_field ''IssueKeyRequest.scopes'' ''string'' (\<lambda>s b. b\<lparr>ikr_Scopes := s\<rparr>))]"

definition decode_IssueKeyRequest :: "runtime \<Rightarrow> string \<Rightarrow> gerror + IssueKeyRequest" where
  "decode_IssueKeyRequest rt =
     decode_body rt ''generated.IssueKeyRequest'' IssueKeyRequest_fields \<lparr>ikr_DisplayName = [], ikr_Scopes = None\<rparr>"

definition RegisterRequest_fields :: "runtime \<Rightarrow> (string \<times> (json \<Rightarrow> RegisterRequest \<Rightarrow> RegisterRequest stored)) list" where
  "RegisterRequest_fields rt =
     [(''display_name'', string_field ''RegisterRequest.display_name'' ''string'' (\<lambda>s b. b\<lparr>regreq_DisplayName := s\<rparr>)),
      (''email'', unmarshaler_field (rt_Email rt) (\<lambda>s b. b\<lparr>regreq_Email := s\<rparr>)),
      (''password'', string_field ''RegisterRequest.password'' ''string'' (\<lambda>s b. b\<lparr>regreq_Password := s\<rparr>)),
      (''plan'', string_field ''RegisterRequest.plan'' ''generated.RegisterRequestPlan'' (\<lambda>s b. b\<lparr>regreq_Plan := s\<rparr>)),
      (''slug'', string_field ''RegisterRequest.slug'' ''string'' (\<lambda>s b. b\<lparr>regreq_Slug := s\<rparr>))]"

definition decode_RegisterRequest :: "runtime \<Rightarrow> string \<Rightarrow> gerror + RegisterRequest" where
  "decode_RegisterRequest rt = decode_body rt ''generated.RegisterRequest'' (RegisterRequest_fields rt)
     \<lparr>regreq_Email = [], regreq_Password = [], regreq_Slug = [], regreq_DisplayName = [], regreq_Plan = []\<rparr>"

definition encode_AccountResponse :: "AccountResponse \<Rightarrow> gerror + json" where
  "encode_AccountResponse a = (case marshal_time (aresp_CreatedAt a) of
     Inl e \<Rightarrow> Inl e
   | Inr created \<Rightarrow> Inr (JObj
       ([(''created_at'', created), (''display_name'', JStr (aresp_DisplayName a)), (''plan'', JStr (aresp_Plan a))] @
        optional ''pod_cidr'' JStr (aresp_PodCidr a) @ optional ''service_cidr'' JStr (aresp_ServiceCidr a) @
        [(''slug'', JStr (aresp_Slug a)), (''status'', JStr (aresp_Status a)),
         (''tenant_id'', JStr (uuid_String (aresp_TenantId a)))])))"

definition encode_CreateAccountAccepted :: "CreateAccountAccepted \<Rightarrow> json" where
  "encode_CreateAccountAccepted a = JObj
     [(''job_id'', JStr (uuid_String (caa_JobId a))), (''slug'', JStr (caa_Slug a)), (''status'', JStr (caa_Status a)),
      (''tenant_id'', JStr (uuid_String (caa_TenantId a)))]"

definition encode_DeleteAccountAccepted :: "DeleteAccountAccepted \<Rightarrow> json" where
  "encode_DeleteAccountAccepted a = JObj
     [(''job_id'', JStr (uuid_String (daa_JobId a))), (''slug'', JStr (daa_Slug a)), (''status'', JStr (daa_Status a))]"

definition encode_IssueKeyResponse :: "IssueKeyResponse \<Rightarrow> gerror + json" where
  "encode_IssueKeyResponse k = (case marshal_time (ikresp_CreatedAt k) of
     Inl e \<Rightarrow> Inl e
   | Inr created \<Rightarrow> Inr (JObj
       [(''created_at'', created), (''display_name'', JStr (ikresp_DisplayName k)),
        (''key_id'', JStr (uuid_String (ikresp_KeyId k))), (''raw_key'', JStr (ikresp_RawKey k)),
        (''scopes'', JStr (ikresp_Scopes k)), (''status'', JStr (ikresp_Status k))]))"

definition encode_RegisterResponse :: "RegisterResponse \<Rightarrow> json" where
  "encode_RegisterResponse r = JObj
     [(''initial_api_key'', JStr (regresp_InitialApiKey r)), (''slug'', JStr (regresp_Slug r)),
      (''tenant_id'', JStr (uuid_String (regresp_TenantId r))), (''user_id'', JStr (uuid_String (regresp_UserId r)))]"

section \<open>Responses\<close>

definition VisitDeleteAccountResponse :: "DeleteAccountAccepted response \<Rightarrow> hw \<Rightarrow> hw" where
  "VisitDeleteAccountResponse = visit_response (\<lambda>a. Inr (encode_DeleteAccountAccepted a))"

definition VisitGetAccountResponse :: "AccountResponse response \<Rightarrow> hw \<Rightarrow> hw" where
  "VisitGetAccountResponse = visit_response encode_AccountResponse"

definition VisitIssueKeyResponse :: "IssueKeyResponse response \<Rightarrow> hw \<Rightarrow> hw" where
  "VisitIssueKeyResponse = visit_response encode_IssueKeyResponse"

definition VisitRevokeKeyResponse :: "unit response \<Rightarrow> hw \<Rightarrow> hw" where
  "VisitRevokeKeyResponse response = (case response of
     Success code _ \<Rightarrow> WriteHeader code | Failure code b \<Rightarrow> visit_json code (Inr (error_envelope b)))"

definition VisitProvisionNetworkResponse :: "CreateAccountAccepted response \<Rightarrow> hw \<Rightarrow> hw" where
  "VisitProvisionNetworkResponse = visit_response (\<lambda>a. Inr (encode_CreateAccountAccepted a))"

definition VisitRegisterResponse :: "RegisterResponse response \<Rightarrow> hw \<Rightarrow> hw" where
  "VisitRegisterResponse = visit_response (\<lambda>r. Inr (encode_RegisterResponse r))"

section \<open>The strict handler\<close>

record accounts_ServerInterface =
  asi_DeleteAccount :: "string \<Rightarrow> operation"
  asi_GetAccount :: "string \<Rightarrow> operation"
  asi_IssueKey :: "string \<Rightarrow> operation"
  asi_RevokeKey :: "string \<Rightarrow> uuid \<Rightarrow> operation"
  asi_ProvisionNetwork :: "string \<Rightarrow> operation"
  asi_Register :: operation

definition strict_DeleteAccount :: "CFAccountsService \<Rightarrow> string \<Rightarrow> operation" where
  "strict_DeleteAccount svc tenantSlug r =
     bind (Handler_DeleteAccount svc tenantSlug) (\<lambda>response. Ret (VisitDeleteAccountResponse response))"

definition strict_GetAccount :: "CFAccountsService \<Rightarrow> string \<Rightarrow> operation" where
  "strict_GetAccount svc tenantSlug r =
     bind (Handler_GetAccount svc tenantSlug) (\<lambda>response. Ret (VisitGetAccountResponse response))"

definition strict_IssueKey :: "runtime \<Rightarrow> hasher \<Rightarrow> CFAccountsService \<Rightarrow> string \<Rightarrow> operation" where
  "strict_IssueKey rt New256 svc tenantSlug =
     with_body (decode_IssueKeyRequest rt) (\<lambda>body.
       bind (Handler_IssueKey New256 svc tenantSlug (Some body)) (\<lambda>response. Ret (VisitIssueKeyResponse response)))"

definition strict_RevokeKey :: "CFAccountsService \<Rightarrow> string \<Rightarrow> uuid \<Rightarrow> operation" where
  "strict_RevokeKey svc tenantSlug keyId r =
     bind (Handler_RevokeKey svc tenantSlug keyId) (\<lambda>response. Ret (VisitRevokeKeyResponse response))"

definition strict_ProvisionNetwork :: "CFAccountsService \<Rightarrow> string \<Rightarrow> operation" where
  "strict_ProvisionNetwork svc tenantSlug r =
     bind (Handler_ProvisionNetwork svc tenantSlug) (\<lambda>response. Ret (VisitProvisionNetworkResponse response))"

definition strict_Register :: "runtime \<Rightarrow> (string \<Rightarrow> gerror option) \<Rightarrow> hasher \<Rightarrow> CFAccountsService \<Rightarrow> operation" where
  "strict_Register rt mail_ParseAddress New256 svc =
     with_body (decode_RegisterRequest rt) (\<lambda>body.
       bind (Handler_Register mail_ParseAddress New256 svc (Some body)) (\<lambda>response. Ret (VisitRegisterResponse response)))"

definition accounts_NewStrictHandler ::
    "runtime \<Rightarrow> (string \<Rightarrow> gerror option) \<Rightarrow> hasher \<Rightarrow> CFAccountsService \<Rightarrow> accounts_ServerInterface" where
  "accounts_NewStrictHandler rt mail_ParseAddress New256 svc =
     \<lparr>asi_DeleteAccount = strict_DeleteAccount svc, asi_GetAccount = strict_GetAccount svc,
      asi_IssueKey = strict_IssueKey rt New256 svc, asi_RevokeKey = strict_RevokeKey svc,
      asi_ProvisionNetwork = strict_ProvisionNetwork svc, asi_Register = strict_Register rt mail_ParseAddress New256 svc\<rparr>"

section \<open>Routes\<close>

definition wrapper_DeleteAccount :: "runtime \<Rightarrow> (gerror \<Rightarrow> hw \<Rightarrow> hw) \<Rightarrow> accounts_ServerInterface \<Rightarrow> operation" where
  "wrapper_DeleteAccount rt onError si = bind_param (rt_BindString rt) ''tenant_slug'' onError (asi_DeleteAccount si)"

definition wrapper_GetAccount :: "runtime \<Rightarrow> (gerror \<Rightarrow> hw \<Rightarrow> hw) \<Rightarrow> accounts_ServerInterface \<Rightarrow> operation" where
  "wrapper_GetAccount rt onError si = bind_param (rt_BindString rt) ''tenant_slug'' onError (asi_GetAccount si)"

definition wrapper_IssueKey :: "runtime \<Rightarrow> (gerror \<Rightarrow> hw \<Rightarrow> hw) \<Rightarrow> accounts_ServerInterface \<Rightarrow> operation" where
  "wrapper_IssueKey rt onError si = bind_param (rt_BindString rt) ''tenant_slug'' onError (asi_IssueKey si)"

definition wrapper_RevokeKey :: "runtime \<Rightarrow> (gerror \<Rightarrow> hw \<Rightarrow> hw) \<Rightarrow> accounts_ServerInterface \<Rightarrow> operation" where
  "wrapper_RevokeKey rt onError si = bind_param (rt_BindString rt) ''tenant_slug'' onError (\<lambda>tenantSlug.
     bind_param (rt_BindUUID rt) ''key_id'' onError (asi_RevokeKey si tenantSlug))"

definition wrapper_ProvisionNetwork :: "runtime \<Rightarrow> (gerror \<Rightarrow> hw \<Rightarrow> hw) \<Rightarrow> accounts_ServerInterface \<Rightarrow> operation" where
  "wrapper_ProvisionNetwork rt onError si = bind_param (rt_BindString rt) ''tenant_slug'' onError (asi_ProvisionNetwork si)"

definition wrapper_Register :: "accounts_ServerInterface \<Rightarrow> operation" where
  "wrapper_Register si = asi_Register si"

definition accounts_HandlerWithOptions ::
    "runtime \<Rightarrow> seg list \<Rightarrow> (gerror \<Rightarrow> hw \<Rightarrow> hw) option \<Rightarrow> accounts_ServerInterface \<Rightarrow> (pattern \<times> operation) list" where
  "accounts_HandlerWithOptions rt baseURL errorHandlerFunc si =
     (let onError = (case errorHandlerFunc of Some h \<Rightarrow> h | None \<Rightarrow> RequestErrorHandlerFunc) in
     [((Some ''DELETE'', baseURL @ [Seg ''accounts'', Wild ''tenant_slug'']), wrapper_DeleteAccount rt onError si),
      ((Some ''GET'', baseURL @ [Seg ''accounts'', Wild ''tenant_slug'']), wrapper_GetAccount rt onError si),
      ((Some ''POST'', baseURL @ [Seg ''accounts'', Wild ''tenant_slug'', Seg ''keys'']), wrapper_IssueKey rt onError si),
      ((Some ''DELETE'', baseURL @ [Seg ''accounts'', Wild ''tenant_slug'', Seg ''keys'', Wild ''key_id'']), wrapper_RevokeKey rt onError si),
      ((Some ''POST'', baseURL @ [Seg ''accounts'', Wild ''tenant_slug'', Seg ''provision'']), wrapper_ProvisionNetwork rt onError si),
      ((Some ''POST'', baseURL @ [Seg ''register'']), wrapper_Register si)])"

definition accounts_api :: "runtime \<Rightarrow> (string \<Rightarrow> request \<Rightarrow> hw \<Rightarrow> hw) \<Rightarrow> (string \<Rightarrow> gerror option) \<Rightarrow> hasher \<Rightarrow>
    CFAccountsService \<Rightarrow> operation" where
  "accounts_api rt Redirect mail_ParseAddress New256 svc = ServeMux_api Redirect
     (accounts_HandlerWithOptions rt [] (Some accounts_opapiErrorHandler) (accounts_NewStrictHandler rt mail_ParseAddress New256 svc))"

section \<open>Which operation answers\<close>

lemma accounts_routed:
  assumes "clean_request r" and "find_route (accounts_HandlerWithOptions rt [] (Some accounts_opapiErrorHandler)
    (accounts_NewStrictHandler rt P H svc)) (req_method r) (path_segs (req_escaped r)) = Some ((ps, a), vs)"
  shows "accounts_api rt R P H svc r =
    a (r\<lparr>req_path_values := map_of (zip (concat (map (\<lambda>p. case p of Wild n \<Rightarrow> [n] | _ \<Rightarrow> []) ps)) vs)\<rparr>)"
  unfolding accounts_api_def ServeMux_api_def findHandler_found [OF assms] by simp

lemmas accounts_route_defs = find_route_def routes_of_def accounts_HandlerWithOptions_def accounts_NewStrictHandler_def
  wrapper_DeleteAccount_def wrapper_GetAccount_def wrapper_IssueKey_def wrapper_RevokeKey_def wrapper_ProvisionNetwork_def
  wrapper_Register_def

lemma route_Register:
  assumes "clean_request r" "req_method r = ''POST''" "path_segs (req_escaped r) = [''register'']"
  shows "accounts_api rt R P H svc r = strict_Register rt P H svc (r\<lparr>req_path_values := Map.empty\<rparr>)"
  using assms(2,3) by (subst accounts_routed [OF assms(1)]) (simp add: accounts_route_defs, simp)

lemma route_GetAccount:
  assumes "clean_request r" "req_method r = ''GET''" "path_segs (req_escaped r) = [''accounts'', x]" "x \<noteq> ''/''"
  shows "accounts_api rt R P H svc r =
      (case rt_BindString rt ''tenant_slug'' x of
         Inl e \<Rightarrow> Ret (accounts_opapiErrorHandler (InvalidParamFormatError ''tenant_slug'' e))
       | Inr i \<Rightarrow> strict_GetAccount svc i (r\<lparr>req_path_values := [''tenant_slug'' \<mapsto> x]\<rparr>))"
  using assms(2-4) by (subst accounts_routed [OF assms(1)]) (simp add: accounts_route_defs, simp add: bind_param_def Header_Get_def)

lemma route_RevokeKey:
  assumes "clean_request r" "req_method r = ''DELETE''" "path_segs (req_escaped r) = [''accounts'', x, ''keys'', k]"
    and "x \<noteq> ''/''" "k \<noteq> ''/''" "rt_BindString rt ''tenant_slug'' x = Inr y"
  shows "accounts_api rt R P H svc r =
      (case rt_BindUUID rt ''key_id'' k of
         Inl e \<Rightarrow> Ret (accounts_opapiErrorHandler (InvalidParamFormatError ''key_id'' e))
       | Inr i \<Rightarrow> strict_RevokeKey svc y i (r\<lparr>req_path_values := [''key_id'' \<mapsto> k, ''tenant_slug'' \<mapsto> x]\<rparr>))"
  using assms(2-6) by (subst accounts_routed [OF assms(1)])
    (simp add: accounts_route_defs, simp add: bind_param_def Header_Get_def)

text \<open>The specification puts the API under \<open>/api/v1\<close>, but no base URL is set: nothing answers there.\<close>

lemma accounts_api_prefix:
  assumes "clean_request r" and "path_segs (req_escaped r) = ''api'' # ss"
  shows "accounts_api rt R P H svc r = Ret (http_Error ''404 page not found'' 404)"
proof -
  have "findHandler (accounts_HandlerWithOptions rt [] onErr si) r = Unrouted" for onErr si
    using assms by (intro findHandler_none) (auto simp: accounts_HandlerWithOptions_def Let_def)
  then show ?thesis by (simp add: accounts_api_def ServeMux_api_def fun_eq_iff)
qed

section \<open>Bodies that do not decode\<close>

lemma route_IssueKey:
  assumes "clean_request r" "req_method r = ''POST''" "path_segs (req_escaped r) = [''accounts'', x, ''keys'']"
    and "x \<noteq> ''/''" "rt_BindString rt ''tenant_slug'' x = Inr y"
  shows "accounts_api rt R P H svc r = strict_IssueKey rt H svc y (r\<lparr>req_path_values := [''tenant_slug'' \<mapsto> x]\<rparr>)"
  using assms(2-5) by (subst accounts_routed [OF assms(1)])
    (simp add: accounts_route_defs, simp add: bind_param_def Header_Get_def)

text \<open>An email the runtime's type refuses ends the decoding, so no handler sees it.\<close>

lemma refused_email:
  assumes "rt_Email rt (JStr x) = Inl e" "utf8 x"
  shows "decode_RegisterRequest rt (Marshal (JObj [(''email'', JStr x)])) = Inl e"
proof -
  have "ascii ''email''" by (simp add: ascii_def)
  then show ?thesis unfolding decode_RegisterRequest_def using assms
    by (subst decode_body_Marshal) (simp_all add: ascii_utf8 RegisterRequest_fields_def field_named_def unmarshaler_field_def)
qed

end
