(* ===== verification/StorageServer.thy ===== *)
theory StorageServer
  imports Routers
begin

text \<open>
  The storage service: its generated server (\<open>services/storage/generated/server.gen.go\<close>) and the
  placeholder operations of \<open>services/storage/handler.go\<close>. \<open>storage_api\<close> is the handler \<open>NewRouter\<close> puts
  the middleware chain around.
\<close>

section \<open>Types\<close>

record Bucket =
  bk_CreatedAt :: time
  bk_Name :: string
  bk_Project :: string
  bk_Region :: "string option"
  bk_Tenant :: string
  bk_Versioning :: "bool option"

text \<open>A nil slice of items is \<open>None\<close>.\<close>

record BucketList =
  bl_Items :: "Bucket list option"
  bl_Total :: int

record CreateBucketRequest =
  cb_Name :: string
  cb_Region :: "string option"
  cb_Versioning :: "bool option"

definition bool_pointer_field :: "string \<Rightarrow> (bool option \<Rightarrow> 'a \<Rightarrow> 'a) \<Rightarrow> json \<Rightarrow> 'a \<Rightarrow> 'a stored" where
  "bool_pointer_field field set_field j x = (case j of
     JBool b \<Rightarrow> Stored (set_field (Some b) x) | JNull \<Rightarrow> Stored (set_field None x)
   | _ \<Rightarrow> Mismatch (field_type_error field ''bool'' j))"

definition CreateBucketRequest_fields :: "(string \<times> (json \<Rightarrow> CreateBucketRequest \<Rightarrow> CreateBucketRequest stored)) list" where
  "CreateBucketRequest_fields =
     [(''name'', string_field ''CreateBucketRequest.name'' ''string'' (\<lambda>s b. b\<lparr>cb_Name := s\<rparr>)),
      (''region'', pointer_field ''CreateBucketRequest.region'' ''string'' (\<lambda>s b. b\<lparr>cb_Region := s\<rparr>)),
      (''versioning'', bool_pointer_field ''CreateBucketRequest.versioning'' (\<lambda>v b. b\<lparr>cb_Versioning := v\<rparr>))]"

definition decode_CreateBucketRequest :: "runtime \<Rightarrow> string \<Rightarrow> gerror + CreateBucketRequest" where
  "decode_CreateBucketRequest rt = decode_body rt ''generated.CreateBucketRequest'' CreateBucketRequest_fields
     \<lparr>cb_Name = [], cb_Region = None, cb_Versioning = None\<rparr>"

definition encode_Bucket :: "Bucket \<Rightarrow> gerror + json" where
  "encode_Bucket b = (case marshal_time (bk_CreatedAt b) of
     Inl e \<Rightarrow> Inl e
   | Inr created \<Rightarrow> Inr (JObj
       ([(''createdAt'', created), (''name'', JStr (bk_Name b)), (''project'', JStr (bk_Project b))] @
        optional ''region'' JStr (bk_Region b) @ [(''tenant'', JStr (bk_Tenant b))] @
        optional ''versioning'' JBool (bk_Versioning b))))"

fun encode_Buckets :: "Bucket list \<Rightarrow> gerror + json list" where
  "encode_Buckets [] = Inr []"
| "encode_Buckets (b # bs) = (case encode_Bucket b of
     Inl e \<Rightarrow> Inl e
   | Inr j \<Rightarrow> (case encode_Buckets bs of Inl e \<Rightarrow> Inl e | Inr js \<Rightarrow> Inr (j # js)))"

definition encode_BucketList :: "BucketList \<Rightarrow> gerror + json" where
  "encode_BucketList l =
     (case (case bl_Items l of None \<Rightarrow> Inr JNull | Some bs \<Rightarrow> map_sum id JArr (encode_Buckets bs)) of
        Inl e \<Rightarrow> Inl e
      | Inr items \<Rightarrow> Inr (JObj [(''items'', items), (''total'', JNum (fmt_int (bl_Total l)))]))"

section \<open>Responses\<close>

definition VisitListBucketsResponse :: "BucketList response \<Rightarrow> hw \<Rightarrow> hw" where
  "VisitListBucketsResponse = visit_response encode_BucketList"

text \<open>A created bucket comes with the value of the \<open>Location\<close> header.\<close>

definition VisitCreateBucketResponse :: "(Bucket \<times> string) response \<Rightarrow> hw \<Rightarrow> hw" where
  "VisitCreateBucketResponse response w = (case response of
     Success code (b, location) \<Rightarrow> visit_json code (encode_Bucket b) (Header_Set ''Location'' location w)
   | Failure code b \<Rightarrow> visit_json code (Inr (error_envelope b)) w)"

definition VisitDeleteBucketResponse :: "unit response \<Rightarrow> hw \<Rightarrow> hw" where
  "VisitDeleteBucketResponse response = (case response of
     Success code _ \<Rightarrow> WriteHeader code | Failure code b \<Rightarrow> visit_json code (Inr (error_envelope b)))"

definition VisitGetBucketResponse :: "Bucket response \<Rightarrow> hw \<Rightarrow> hw" where
  "VisitGetBucketResponse = visit_response encode_Bucket"

section \<open>The strict handler\<close>

record storage_StrictServerInterface =
  st_ListBuckets :: "string \<Rightarrow> string \<Rightarrow> BucketList response prog"
  st_CreateBucket :: "string \<Rightarrow> string \<Rightarrow> CreateBucketRequest option \<Rightarrow> (Bucket \<times> string) response prog"
  st_DeleteBucket :: "string \<Rightarrow> string \<Rightarrow> string \<Rightarrow> unit response prog"
  st_GetBucket :: "string \<Rightarrow> string \<Rightarrow> string \<Rightarrow> Bucket response prog"

record storage_ServerInterface =
  ssi_ListBuckets :: "string \<Rightarrow> string \<Rightarrow> operation"
  ssi_CreateBucket :: "string \<Rightarrow> string \<Rightarrow> operation"
  ssi_DeleteBucket :: "string \<Rightarrow> string \<Rightarrow> string \<Rightarrow> operation"
  ssi_GetBucket :: "string \<Rightarrow> string \<Rightarrow> string \<Rightarrow> operation"

definition strict_ListBuckets :: "storage_StrictServerInterface \<Rightarrow> string \<Rightarrow> string \<Rightarrow> operation" where
  "strict_ListBuckets impl tenant project r =
     bind (st_ListBuckets impl tenant project) (\<lambda>response. Ret (VisitListBucketsResponse response))"

definition strict_CreateBucket :: "runtime \<Rightarrow> storage_StrictServerInterface \<Rightarrow> string \<Rightarrow> string \<Rightarrow> operation" where
  "strict_CreateBucket rt impl tenant project =
     with_body (decode_CreateBucketRequest rt) (\<lambda>body.
       bind (st_CreateBucket impl tenant project (Some body)) (\<lambda>response. Ret (VisitCreateBucketResponse response)))"

definition strict_DeleteBucket :: "storage_StrictServerInterface \<Rightarrow> string \<Rightarrow> string \<Rightarrow> string \<Rightarrow> operation" where
  "strict_DeleteBucket impl tenant project name r =
     bind (st_DeleteBucket impl tenant project name) (\<lambda>response. Ret (VisitDeleteBucketResponse response))"

definition strict_GetBucket :: "storage_StrictServerInterface \<Rightarrow> string \<Rightarrow> string \<Rightarrow> string \<Rightarrow> operation" where
  "strict_GetBucket impl tenant project name r =
     bind (st_GetBucket impl tenant project name) (\<lambda>response. Ret (VisitGetBucketResponse response))"

definition storage_NewStrictHandler :: "runtime \<Rightarrow> storage_StrictServerInterface \<Rightarrow> storage_ServerInterface" where
  "storage_NewStrictHandler rt impl = \<lparr>ssi_ListBuckets = strict_ListBuckets impl, ssi_CreateBucket = strict_CreateBucket rt impl,
     ssi_DeleteBucket = strict_DeleteBucket impl, ssi_GetBucket = strict_GetBucket impl\<rparr>"

section \<open>Routes\<close>

definition wrapper_ListBuckets :: "runtime \<Rightarrow> (gerror \<Rightarrow> hw \<Rightarrow> hw) \<Rightarrow> storage_ServerInterface \<Rightarrow> operation" where
  "wrapper_ListBuckets rt onError si = bind_param (rt_BindString rt) ''tenant'' onError (\<lambda>tenant.
     bind_param (rt_BindString rt) ''project'' onError (ssi_ListBuckets si tenant))"

definition wrapper_CreateBucket :: "runtime \<Rightarrow> (gerror \<Rightarrow> hw \<Rightarrow> hw) \<Rightarrow> storage_ServerInterface \<Rightarrow> operation" where
  "wrapper_CreateBucket rt onError si = bind_param (rt_BindString rt) ''tenant'' onError (\<lambda>tenant.
     bind_param (rt_BindString rt) ''project'' onError (ssi_CreateBucket si tenant))"

definition wrapper_DeleteBucket :: "runtime \<Rightarrow> (gerror \<Rightarrow> hw \<Rightarrow> hw) \<Rightarrow> storage_ServerInterface \<Rightarrow> operation" where
  "wrapper_DeleteBucket rt onError si = bind_param (rt_BindString rt) ''tenant'' onError (\<lambda>tenant.
     bind_param (rt_BindString rt) ''project'' onError (\<lambda>project.
     bind_param (rt_BindString rt) ''name'' onError (ssi_DeleteBucket si tenant project)))"

definition wrapper_GetBucket :: "runtime \<Rightarrow> (gerror \<Rightarrow> hw \<Rightarrow> hw) \<Rightarrow> storage_ServerInterface \<Rightarrow> operation" where
  "wrapper_GetBucket rt onError si = bind_param (rt_BindString rt) ''tenant'' onError (\<lambda>tenant.
     bind_param (rt_BindString rt) ''project'' onError (\<lambda>project.
     bind_param (rt_BindString rt) ''name'' onError (ssi_GetBucket si tenant project)))"

definition storage_HandlerWithOptions ::
    "runtime \<Rightarrow> seg list \<Rightarrow> (gerror \<Rightarrow> hw \<Rightarrow> hw) option \<Rightarrow> storage_ServerInterface \<Rightarrow> (pattern \<times> operation) list" where
  "storage_HandlerWithOptions rt baseURL errorHandlerFunc si =
     (let onError = (case errorHandlerFunc of Some h \<Rightarrow> h | None \<Rightarrow> RequestErrorHandlerFunc);
          buckets = baseURL @ [Wild ''tenant'', Wild ''project'', Seg ''buckets''] in
     [((Some ''GET'', buckets), wrapper_ListBuckets rt onError si),
      ((Some ''POST'', buckets), wrapper_CreateBucket rt onError si),
      ((Some ''DELETE'', buckets @ [Wild ''name'']), wrapper_DeleteBucket rt onError si),
      ((Some ''GET'', buckets @ [Wild ''name'']), wrapper_GetBucket rt onError si)])"

definition storage_api :: "runtime \<Rightarrow> (string \<Rightarrow> request \<Rightarrow> hw \<Rightarrow> hw) \<Rightarrow> storage_StrictServerInterface \<Rightarrow> operation" where
  "storage_api rt Redirect impl = ServeMux_api Redirect
     (storage_HandlerWithOptions rt [] (Some requestErrorHandler) (storage_NewStrictHandler rt impl))"

section \<open>The placeholder operations\<close>

definition storage_placeholder :: "'a response prog" where
  "storage_placeholder = Ret (Failure 500 \<lparr>err_code = ''INTERNAL_ERROR'', err_message = ''not yet implemented''\<rparr>)"

definition ListBuckets :: "string \<Rightarrow> string \<Rightarrow> BucketList response prog" where
  "ListBuckets tenant project = storage_placeholder"

definition CreateBucket :: "string \<Rightarrow> string \<Rightarrow> CreateBucketRequest option \<Rightarrow> (Bucket \<times> string) response prog" where
  "CreateBucket tenant project body = storage_placeholder"

definition GetBucket :: "string \<Rightarrow> string \<Rightarrow> string \<Rightarrow> Bucket response prog" where
  "GetBucket tenant project name = storage_placeholder"

definition DeleteBucket :: "string \<Rightarrow> string \<Rightarrow> string \<Rightarrow> unit response prog" where
  "DeleteBucket tenant project name = storage_placeholder"

definition storage_NewHandler :: storage_StrictServerInterface where
  "storage_NewHandler = \<lparr>st_ListBuckets = ListBuckets, st_CreateBucket = CreateBucket, st_DeleteBucket = DeleteBucket,
     st_GetBucket = GetBucket\<rparr>"

section \<open>Which operation answers\<close>

lemma storage_routed:
  assumes "clean_request r" and "find_route (storage_HandlerWithOptions rt [] (Some requestErrorHandler)
    (storage_NewStrictHandler rt impl)) (req_method r) (path_segs (req_escaped r)) = Some ((ps, a), vs)"
  shows "storage_api rt R impl r =
    a (r\<lparr>req_path_values := map_of (zip (concat (map (\<lambda>p. case p of Wild n \<Rightarrow> [n] | _ \<Rightarrow> []) ps)) vs)\<rparr>)"
  unfolding storage_api_def ServeMux_api_def findHandler_found [OF assms] by simp

lemmas storage_route_defs = find_route_def routes_of_def storage_HandlerWithOptions_def storage_NewStrictHandler_def
  wrapper_ListBuckets_def wrapper_CreateBucket_def wrapper_DeleteBucket_def wrapper_GetBucket_def Let_def

lemma route_buckets:
  assumes "clean_request r" "path_segs (req_escaped r) = [x, y, ''buckets'']" "x \<noteq> ''/''" "y \<noteq> ''/''"
    and "rt_BindString rt ''tenant'' x = Inr t" "rt_BindString rt ''project'' y = Inr p"
  shows "req_method r = ''GET'' \<Longrightarrow> storage_api rt R impl r =
      strict_ListBuckets impl t p (r\<lparr>req_path_values := [''project'' \<mapsto> y, ''tenant'' \<mapsto> x]\<rparr>)"
    and "req_method r = ''POST'' \<Longrightarrow> storage_api rt R impl r =
      strict_CreateBucket rt impl t p (r\<lparr>req_path_values := [''project'' \<mapsto> y, ''tenant'' \<mapsto> x]\<rparr>)"
proof -
  assume "req_method r = ''GET''"
  then show "storage_api rt R impl r =
      strict_ListBuckets impl t p (r\<lparr>req_path_values := [''project'' \<mapsto> y, ''tenant'' \<mapsto> x]\<rparr>)"
    using assms(2-6) by (subst storage_routed [OF assms(1)]) (simp add: storage_route_defs, simp add: bind_param_def Header_Get_def)
next
  assume "req_method r = ''POST''"
  then show "storage_api rt R impl r =
      strict_CreateBucket rt impl t p (r\<lparr>req_path_values := [''project'' \<mapsto> y, ''tenant'' \<mapsto> x]\<rparr>)"
    using assms(2-6) by (subst storage_routed [OF assms(1)]) (simp add: storage_route_defs, simp add: bind_param_def Header_Get_def)
qed

lemma route_bucket:
  assumes "clean_request r" "path_segs (req_escaped r) = [x, y, ''buckets'', z]" "x \<noteq> ''/''" "y \<noteq> ''/''" "z \<noteq> ''/''"
    and "rt_BindString rt ''tenant'' x = Inr t" "rt_BindString rt ''project'' y = Inr p" "rt_BindString rt ''name'' z = Inr n"
  shows "req_method r = ''GET'' \<Longrightarrow> storage_api rt R impl r =
      strict_GetBucket impl t p n (r\<lparr>req_path_values := [''name'' \<mapsto> z, ''project'' \<mapsto> y, ''tenant'' \<mapsto> x]\<rparr>)"
    and "req_method r = ''DELETE'' \<Longrightarrow> storage_api rt R impl r =
      strict_DeleteBucket impl t p n (r\<lparr>req_path_values := [''name'' \<mapsto> z, ''project'' \<mapsto> y, ''tenant'' \<mapsto> x]\<rparr>)"
proof -
  assume "req_method r = ''GET''"
  then show "storage_api rt R impl r =
      strict_GetBucket impl t p n (r\<lparr>req_path_values := [''name'' \<mapsto> z, ''project'' \<mapsto> y, ''tenant'' \<mapsto> x]\<rparr>)"
    using assms(2-8) by (subst storage_routed [OF assms(1)]) (simp add: storage_route_defs, simp add: bind_param_def Header_Get_def)
next
  assume "req_method r = ''DELETE''"
  then show "storage_api rt R impl r =
      strict_DeleteBucket impl t p n (r\<lparr>req_path_values := [''name'' \<mapsto> z, ''project'' \<mapsto> y, ''tenant'' \<mapsto> x]\<rparr>)"
    using assms(2-8) by (subst storage_routed [OF assms(1)]) (simp add: storage_route_defs, simp add: bind_param_def Header_Get_def)
qed

end
