(* ===== verification/Startup.thy ===== *)
theory Startup
  imports ProvisionerServer AccountsServer Session Cidr
begin

text \<open>
  The commands \<open>cmd/cf-accounts\<close> and \<open>cmd/cf-provisioner\<close>: their configuration from environment
  variables (\<open>config.go\<close>), the assembly of the application (\<open>wire.go\<close>), and the process \<open>run\<close>
  starts (\<open>main.go\<close>): the server, the goroutine that waits for a signal, the open requests and the
  workflows, as a step relation. The box \<open>printDevAddresses\<close> prints is left out.
\<close>

section \<open>Configuration\<close>

record appConfig =
  OpenBaoAddr :: string
  OpenBaoToken :: string
  ListenAddr :: string
  DevCORSOrigins :: "string list"
  Scylla :: Config

text \<open>
  \<open>fmt.Sscanf(s, "%d", &port)\<close>: blanks are skipped, a sign and decimal digits are read, what follows
  is ignored. \<open>space_len\<close> is the length of the blank a text starts with, in UTF-8.
\<close>

definition space_len :: "string \<Rightarrow> nat" where
  "space_len s = (case s of
     [] \<Rightarrow> 0
   | c # t \<Rightarrow>
       (if is_space c then 1
        else if c = CHR 0xC2 \<and> take 1 t \<in> {[CHR 0x85], [CHR 0xA0]} then 2
        else if take 3 s \<in> {[CHR 0xE1, CHR 0x9A, CHR 0x80], [CHR 0xE2, CHR 0x80, CHR 0xA8], [CHR 0xE2, CHR 0x80, CHR 0xA9],
             [CHR 0xE2, CHR 0x80, CHR 0xAF], [CHR 0xE2, CHR 0x81, CHR 0x9F], [CHR 0xE3, CHR 0x80, CHR 0x80]} then 3
        else if take 2 s = [CHR 0xE2, CHR 0x80] \<and> take 1 (drop 2 s) \<in> (\<lambda>b. [char_of b]) ` {128 ..< (139::nat)} then 3
        else 0))"

lemma space_len_pos: "space_len s \<noteq> 0 \<Longrightarrow> s \<noteq> []"
  by (cases s) (simp_all add: space_len_def)

function SkipSpace :: "string \<Rightarrow> gerror + string" where
  "SkipSpace s =
     (if HasPrefix s [CHR 0x0D, CHR 0x0A] \<or> HasPrefix s [CHR 0x0A] then Inl (Text ''unexpected newline'')
      else if space_len s = 0 then Inr s else SkipSpace (drop (space_len s) s))"
  by auto
termination
proof (relation "measure length")
  show "(drop (space_len s) s, s) \<in> measure length" if "space_len s \<noteq> 0" for s
    using that space_len_pos [OF that] by simp
qed simp

declare SkipSpace.simps [simp del]

definition Sscanf_d :: "string \<Rightarrow> gerror + int" where
  "Sscanf_d s = (case SkipSpace s of
     Inl e \<Rightarrow> Inl e
   | Inr t \<Rightarrow>
       (let sign = (if HasPrefix t ''-'' \<or> HasPrefix t ''+'' then take 1 t else []);
            digits = takeWhile digit (drop (length sign) t);
            n = (if sign = ''-'' then - int (dec digits) else int (dec digits)) in
        if t = [] \<or> (sign \<noteq> [] \<and> length t = 1) then Inl (Text ''EOF'')
        else if digits = [] then Inl (Text ''expected integer'')
        else if n < - (2 ^ 63) \<or> 2 ^ 63 \<le> n
        then Inl (Text (''strconv.ParseInt: parsing '' @ Quote (sign @ digits) @ '': value out of range''))
        else Inr n))"

definition env_or :: "(string \<Rightarrow> string) \<Rightarrow> string \<Rightarrow> string \<Rightarrow> string" where
  "env_or Getenv name fallback = (if Getenv name = [] then fallback else Getenv name)"

definition cors_origins :: "string \<Rightarrow> string list" where
  "cors_origins raw = (if raw = [] then [] else filter (\<lambda>o'. o' \<noteq> []) (map TrimSpace (Split raw (CHR '',''))))"

text \<open>\<open>configFromEnv\<close> of the two commands, which differ in the default of \<open>LISTEN_ADDR\<close>.\<close>

definition configFromEnv :: "string \<Rightarrow> (string \<Rightarrow> string) \<Rightarrow> gerror + appConfig" where
  "configFromEnv listen Getenv =
     (let hosts = env_or Getenv ''SCYLLA_HOSTS'' ''127.0.0.1''; p = Getenv ''SCYLLA_PORT'' in
      case (if p = [] then Inr 19042 else Sscanf_d p) of
        Inl err \<Rightarrow> Inl (Errorf (''invalid SCYLLA_PORT '' @ Quote p @ '': '') err)
      | Inr port \<Rightarrow> Inr
          \<lparr>OpenBaoAddr = env_or Getenv ''OPENBAO_ADDR'' ''http://localhost:8200'',
           OpenBaoToken = env_or Getenv ''OPENBAO_TOKEN'' ''dev-root-token'',
           ListenAddr = env_or Getenv ''LISTEN_ADDR'' listen,
           DevCORSOrigins = cors_origins (Getenv ''DEV_CORS_ORIGINS''),
           Scylla = \<lparr>Username = Getenv ''SCYLLA_USER'', Password = Getenv ''SCYLLA_PASS'', Hosts = Split hosts (CHR '',''),
             Port = port, ConnectTimeout = 10 * Second, QueryTimeout = 5 * Second\<rparr>\<rparr>)"

definition accounts_configFromEnv :: "(string \<Rightarrow> string) \<Rightarrow> gerror + appConfig" where
  "accounts_configFromEnv = configFromEnv '':8082''"

definition provisioner_configFromEnv :: "(string \<Rightarrow> string) \<Rightarrow> gerror + appConfig" where
  "provisioner_configFromEnv = configFromEnv '':8084''"

text \<open>A port is read from its leading digits; the text behind them does not matter.\<close>

lemma digit_no_space:
  assumes "digit c"
  shows "space_len (c # s) = 0" "c \<noteq> CHR 0x0A" "c \<noteq> CHR 0x0D" "c \<noteq> CHR ''-''" "c \<noteq> CHR ''+''"
proof -
  have c: "48 \<le> (of_char c :: nat)" "(of_char c :: nat) \<le> 57" using assms by (auto simp: digit_def)
  have no: "c \<noteq> d" if "(of_char d :: nat) < 48 \<or> 57 < (of_char d :: nat)" for d using c that by auto
  show "c \<noteq> CHR 0x0A" "c \<noteq> CHR 0x0D" "c \<noteq> CHR ''-''" "c \<noteq> CHR ''+''" by (rule no, simp)+
  have "c \<noteq> CHR '' ''" "c \<noteq> CHR 0x09" "c \<noteq> CHR 0x0B" "c \<noteq> CHR 0x0C" "c \<noteq> CHR 0xC2" "c \<noteq> CHR 0xE1" "c \<noteq> CHR 0xE2" "c \<noteq> CHR 0xE3"
    by (rule no, simp)+
  with \<open>c \<noteq> CHR 0x0A\<close> \<open>c \<noteq> CHR 0x0D\<close> show "space_len (c # s) = 0" by (simp add: space_len_def is_space_def)
qed

lemma Sscanf_digits:
  assumes "ds \<noteq> []" "\<forall>c\<in>set ds. digit c" "rest = [] \<or> \<not> digit (hd rest)" "dec ds < 2 ^ 63"
  shows "Sscanf_d (ds @ rest) = Inr (int (dec ds))"
proof -
  obtain c s where ds: "ds = c # s" using assms(1) by (cases ds) auto
  then have c: "digit c" using assms(2) by simp
  have skip: "SkipSpace (ds @ rest) = Inr (ds @ rest)"
    using digit_no_space(1-3) [OF c] by (subst SkipSpace.simps) (simp add: ds HasPrefix_def)
  have "takeWhile digit rest = []" using assms(3) by (cases rest) auto
  then have tw: "takeWhile digit (ds @ rest) = ds" using assms(2) by (simp add: takeWhile_append2)
  have sign: "\<not> HasPrefix (ds @ rest) ''-''" "\<not> HasPrefix (ds @ rest) ''+''"
    using digit_no_space(4,5) [OF c] by (simp_all add: ds HasPrefix_def)
  have "\<not> int (dec ds) < - (2 ^ 63)" by (rule order.trans [THEN leD], rule zero_less_power [THEN neg_less_0_iff_less [THEN iffD2], THEN less_imp_le]) simp_all
  then show ?thesis unfolding Sscanf_d_def skip using assms(1,4) tw sign by (simp add: Let_def)
qed

section \<open>Wiring\<close>

text \<open>
  The application: the API its routes lead to, the router around the handler that serves it, and
  \<open>Shutdown\<close>, which closes the session. The stores are those of the session, so \<open>assembleApp\<close> is
  the choice of the implementations behind the interfaces of the services.
\<close>

record 'session App =
  app_api :: operation
  app_Router :: "handler \<Rightarrow> handler"
  app_Shutdown :: 'session

record platform =
  pl_env :: http_env
  pl_Redirect :: "string \<Rightarrow> request \<Rightarrow> hw \<Rightarrow> hw"
  pl_ReadFile :: "string \<Rightarrow> gerror + string"
  pl_runtime :: runtime
  pl_uuid_Parse :: "string \<Rightarrow> uuid option"
  pl_ParseAddress :: "string \<Rightarrow> gerror option"
  pl_New256 :: hasher

definition accounts_assembleApp :: "platform \<Rightarrow> 'session \<Rightarrow> logger \<Rightarrow> string list \<Rightarrow> 'session App" where
  "accounts_assembleApp pl sess log corsOrigins =
     \<lparr>app_api = accounts_api (pl_runtime pl) (pl_Redirect pl) (pl_ParseAddress pl) (pl_New256 pl) (store_deps (pl_uuid_Parse pl)),
      app_Router = (\<lambda>mux. accounts_NewRouter (pl_env pl) (pl_Redirect pl) (pl_ReadFile pl) mux log corsOrigins),
      app_Shutdown = sess\<rparr>"

definition provisioner_assembleApp :: "platform \<Rightarrow> 'session \<Rightarrow> logger \<Rightarrow> string list \<Rightarrow> 'session App" where
  "provisioner_assembleApp pl sess log corsOrigins =
     \<lparr>app_api = provisioner_api (pl_runtime pl) (pl_Redirect pl) (pl_uuid_Parse pl) (provisioner_service (pl_uuid_Parse pl) New),
      app_Router = (\<lambda>mux. provisioner_NewRouter (pl_env pl) (pl_Redirect pl) (pl_ReadFile pl) mux log corsOrigins),
      app_Shutdown = sess\<rparr>"

text \<open>\<open>Wire\<close>, the same in both commands: its result and the sessions it closed.\<close>

definition Wire :: "(ClusterConfig \<Rightarrow> gerror + 'session) \<Rightarrow> (string \<Rightarrow> gerror option) \<Rightarrow> ('session \<Rightarrow> logger \<Rightarrow> string list \<Rightarrow> 'session App) \<Rightarrow>
    appConfig \<Rightarrow> logger \<Rightarrow> (gerror + 'session App) \<times> 'session list" where
  "Wire CreateSession NewBaoClient assemble cfg log =
     (case NewSession CreateSession (Scylla cfg) of
        Inl err \<Rightarrow> (Inl err, [])
      | Inr sess \<Rightarrow>
          (case NewBaoClient (OpenBaoAddr cfg) of
             Some err \<Rightarrow> (Inl err, [sess])
           | None \<Rightarrow> (Inr (assemble sess log (DevCORSOrigins cfg)), [])))"

text \<open>No session leaks from \<open>Wire\<close>: the application owns it or it was closed.\<close>

lemma Wire_sessions:
  assumes "NewSession CreateSession (Scylla cfg) = Inr sess"
  shows "Wire CreateSession NewBaoClient assemble cfg log = (case NewBaoClient (OpenBaoAddr cfg) of
     Some err \<Rightarrow> (Inl err, [sess]) | None \<Rightarrow> (Inr (assemble sess log (DevCORSOrigins cfg)), []))"
  using assms by (simp add: Wire_def)

lemma cors_origins_trimmed: "o' \<in> set (cors_origins raw) \<longleftrightarrow> raw \<noteq> [] \<and> o' \<noteq> [] \<and> (\<exists>x\<in>set (Split raw (CHR '','')). o' = TrimSpace x)"
  by (auto simp: cors_origins_def)

section \<open>The process\<close>

text \<open>
  \<open>run\<close> after \<open>configFromEnv\<close> and \<open>Wire\<close>, whose error, if any, is the argument \<open>boot\<close>. The main goroutine
  is in \<open>ListenAndServe\<close>, in the deferred \<open>app.Shutdown\<close>, or has ended the process. \<open>in_flight\<close> counts
  the requests being served, \<open>running\<close> the workflows their handlers started, \<open>drained\<close> says that
  \<open>srv.Shutdown\<close> returned: when no request was left, or after its 15 seconds.
\<close>

datatype main_at = Booting | Serving | Leaving "gerror option" | Exited int

record process =
  at :: main_at
  session_open :: bool
  signalled :: bool
  in_shutdown :: bool
  drained :: bool
  in_flight :: nat
  completed :: nat
  running :: nat

definition new_process :: process where
  "new_process = \<lparr>at = Booting, session_open = False, signalled = False, in_shutdown = False, drained = False,
     in_flight = 0, completed = 0, running = 0\<rparr>"

definition alive :: "process \<Rightarrow> bool" where
  "alive p \<longleftrightarrow> (case at p of Exited _ \<Rightarrow> False | _ \<Rightarrow> True)"

definition exit_code :: "gerror option \<Rightarrow> int" where
  "exit_code err = (if err = None then 0 else 1)"

inductive run_step :: "gerror option \<Rightarrow> process \<Rightarrow> process \<Rightarrow> bool" for boot where
  boot_fails: "at p = Booting \<Longrightarrow> boot \<noteq> None \<Longrightarrow> run_step boot p (p\<lparr>at := Exited (exit_code boot)\<rparr>)"
| boot_done: "at p = Booting \<Longrightarrow> boot = None \<Longrightarrow> run_step boot p (p\<lparr>at := Serving, session_open := True\<rparr>)"
| accept: "at p = Serving \<Longrightarrow> \<not> in_shutdown p \<Longrightarrow> run_step boot p (p\<lparr>in_flight := Suc (in_flight p)\<rparr>)"
| handler_returns: "alive p \<Longrightarrow> 0 < in_flight p \<Longrightarrow>
    run_step boot p (p\<lparr>in_flight := in_flight p - 1, completed := Suc (completed p), running := running p + n\<rparr>)"
| workflow_ends: "alive p \<Longrightarrow> 0 < running p \<Longrightarrow> run_step boot p (p\<lparr>running := running p - 1\<rparr>)"
| stop_signal: "alive p \<Longrightarrow> at p \<noteq> Booting \<Longrightarrow> run_step boot p (p\<lparr>signalled := True\<rparr>)"
| shutdown_begins: "alive p \<Longrightarrow> signalled p \<Longrightarrow> run_step boot p (p\<lparr>in_shutdown := True\<rparr>)"
| shutdown_returns: "alive p \<Longrightarrow> in_shutdown p \<Longrightarrow> in_flight p = 0 \<Longrightarrow> run_step boot p (p\<lparr>drained := True\<rparr>)"
| shutdown_times_out: "alive p \<Longrightarrow> in_shutdown p \<Longrightarrow> run_step boot p (p\<lparr>drained := True\<rparr>)"
| listen_fails: "at p = Serving \<Longrightarrow> \<not> in_shutdown p \<Longrightarrow> run_step boot p (p\<lparr>at := Leaving (Some e)\<rparr>)"
| listen_closed: "at p = Serving \<Longrightarrow> in_shutdown p \<Longrightarrow> run_step boot p (p\<lparr>at := Leaving None\<rparr>)"
| app_shutdown: "at p = Leaving err \<Longrightarrow> session_open p \<Longrightarrow> run_step boot p (p\<lparr>session_open := False\<rparr>)"
| main_returns: "at p = Leaving err \<Longrightarrow> \<not> session_open p \<Longrightarrow> run_step boot p (p\<lparr>at := Exited (exit_code err)\<rparr>)"

inductive_cases run_stepE: "run_step boot p q"

abbreviation run_process :: "gerror option \<Rightarrow> process \<Rightarrow> bool" where
  "run_process boot \<equiv> (run_step boot)\<^sup>*\<^sup>* new_process"

text \<open>What every execution keeps.\<close>

definition process_inv :: "gerror option \<Rightarrow> process \<Rightarrow> bool" where
  "process_inv boot p \<longleftrightarrow> (in_shutdown p \<longrightarrow> signalled p) \<and> (drained p \<longrightarrow> in_shutdown p) \<and>
     (case at p of
        Booting \<Rightarrow> \<not> session_open p \<and> \<not> signalled p \<and> completed p = 0 \<and> running p = 0 \<and> in_flight p = 0
      | Serving \<Rightarrow> session_open p \<and> boot = None
      | Leaving err \<Rightarrow> boot = None \<and> (err = None \<longrightarrow> in_shutdown p)
      | Exited code \<Rightarrow> \<not> session_open p \<and> code \<in> {0, 1} \<and> (code = 0 \<longrightarrow> boot = None \<and> in_shutdown p) \<and>
          (boot \<noteq> None \<longrightarrow> completed p = 0 \<and> running p = 0))"

lemma process_inv_step:
  assumes "run_step boot p q" "process_inv boot p"
  shows "process_inv boot q"
  using assms by cases (simp add: process_inv_def exit_code_def alive_def split: main_at.splits if_splits option.splits; blast)+

lemma process_inv: "run_process boot p \<Longrightarrow> process_inv boot p"
proof (induction rule: rtranclp_induct)
  case base
  show ?case by (simp add: process_inv_def new_process_def)
next
  case (step p q)
  then show ?case using process_inv_step by blast
qed

text \<open>
  A signal ends \<open>ListenAndServe\<close> at once, and \<open>run\<close> does not wait for \<open>srv.Shutdown\<close>: the process can exit
  with any number of requests and workflows unfinished.
\<close>

lemma serving_with:
  "run_process None (new_process\<lparr>at := Serving, session_open := True, in_flight := n, completed := k, running := m * k\<rparr>)"
    (is "run_process None (?p n k)")
proof -
  have start: "run_process None (?p 0 0)"
    using run_step.boot_done [of new_process None] by (intro r_into_rtranclp) (simp add: new_process_def)
  have more: "run_process None (?p n k) \<Longrightarrow> run_process None (?p (Suc n) k)" for n k
    by (rule rtranclp.rtrancl_into_rtrancl, assumption)
      (use run_step.accept [of "?p n k" None] in \<open>simp add: new_process_def\<close>)
  have serve: "run_process None (?p (Suc n) k) \<Longrightarrow> run_process None (?p n (Suc k))" for n k
    by (rule rtranclp.rtrancl_into_rtrancl, assumption)
      (use run_step.handler_returns [of "?p (Suc n) k" None m] in \<open>simp add: alive_def new_process_def algebra_simps\<close>)
  have opened: "run_process None (?p n 0)" for n by (induction n) (rule start, rule more)
  have "run_process None (?p n k)" for n k by (induction k arbitrary: n) (rule opened, rule serve)
  then show ?thesis .
qed

lemma exit_with:
  "\<exists>p. run_process None p \<and> at p = Exited 0 \<and> in_flight p = n \<and> running p = m \<and> \<not> drained p \<and> \<not> session_open p"
proof -
  let ?p = "new_process\<lparr>at := Serving, session_open := True, in_flight := n, completed := 1, running := m\<rparr>"
  let ?s = "?p\<lparr>signalled := True\<rparr>"
  let ?d = "?s\<lparr>in_shutdown := True\<rparr>"
  let ?l = "?d\<lparr>at := Leaving None\<rparr>"
  let ?c = "?l\<lparr>session_open := False\<rparr>"
  have "run_process None ?p" using serving_with [where n = n and k = 1 and m = m] by simp
  also have "run_step None ?p ?s" by (rule run_step.stop_signal) (simp_all add: alive_def)
  also have "run_step None ?s ?d" by (rule run_step.shutdown_begins) (simp_all add: alive_def)
  also have "run_step None ?d ?l" by (rule run_step.listen_closed) simp_all
  also have "run_step None ?l ?c" by (rule run_step.app_shutdown) simp_all
  also have "run_step None ?c (?c\<lparr>at := Exited (exit_code None)\<rparr>)" by (rule run_step.main_returns) simp_all
  finally have "run_process None (?c\<lparr>at := Exited (exit_code None)\<rparr>)" .
  then show ?thesis
    by (intro exI [of _ "?c\<lparr>at := Exited (exit_code None)\<rparr>"] conjI) (simp_all add: exit_code_def new_process_def)
qed

end
