(* ===== verification/AccountsClient.thy ===== *)
theory AccountsClient
  imports AccountsServer ProvisionerFacts
begin

text \<open>
  \<open>pkg/client/accounts/client.gen.go\<close>: the generated client of the accounts API. It has the struct types of
  the server, so the records of \<open>AccountsApi\<close> stand for both. Parameters are the functions of the
  \<open>runtime\<close> package, the resolution of a path against the URL of the server (\<open>net/url\<close>), the text of
  JSON and time values of the library types, and the doer that performs a request. A context only
  reaches the doer and is left out. The variants that take the body as a reader differ in the body.
\<close>

section \<open>Client\<close>

record client_request =
  cq_Method :: string
  cq_URL :: string
  cq_Header :: headers
  cq_Body :: "string option"

record reply =
  rp_StatusCode :: int
  rp_Header :: headers
  rp_Body :: "gerror + string"

type_synonym doer = "client_request \<Rightarrow> (gerror + reply) prog"
type_synonym RequestEditorFn = "client_request \<Rightarrow> gerror + client_request"

record client_runtime =
  cr_StyleString :: "string \<Rightarrow> string \<Rightarrow> gerror + string"
  cr_StyleUUID :: "string \<Rightarrow> uuid \<Rightarrow> gerror + string"
  cr_ParseURL :: "string \<Rightarrow> gerror + string"
  cr_Resolve :: "string \<Rightarrow> string \<Rightarrow> gerror + string"
  cr_MarshalEmail :: "string \<Rightarrow> gerror + json"
  cr_UUID :: "string \<Rightarrow> gerror + uuid"
  cr_Time :: "json \<Rightarrow> gerror + time"
  cr_SyntaxError :: "string \<Rightarrow> gerror"
  cr_DefaultDoer :: doer

record Client =
  client_Server :: string
  Doer :: "doer option"
  RequestEditors :: "RequestEditorFn list"

type_synonym ClientOption = "Client \<Rightarrow> gerror + Client"

fun apply_options :: "ClientOption list \<Rightarrow> ClientOption" where
  "apply_options [] c = Inr c"
| "apply_options (opt # opts) c = (case opt c of Inl err \<Rightarrow> Inl err | Inr c \<Rightarrow> apply_options opts c)"

definition NewClient :: "client_runtime \<Rightarrow> string \<Rightarrow> ClientOption list \<Rightarrow> gerror + Client" where
  "NewClient cr server opts =
     (case apply_options opts \<lparr>client_Server = server, Doer = None, RequestEditors = []\<rparr> of
        Inl err \<Rightarrow> Inl err
      | Inr c \<Rightarrow>
          (let c = (if HasSuffix (client_Server c) ''/'' then c else c\<lparr>client_Server := client_Server c @ ''/''\<rparr>) in
           Inr (case Doer c of None \<Rightarrow> c\<lparr>Doer := Some (cr_DefaultDoer cr)\<rparr> | Some _ \<Rightarrow> c)))"

text \<open>A client that was made by \<open>NewClient\<close> has a doer, so \<open>send\<close> below never meets the nil one.\<close>

lemma NewClient_doer: "NewClient cr server opts = Inr c \<Longrightarrow> Doer c \<noteq> None \<and> HasSuffix (client_Server c) ''/''"
  by (auto simp: NewClient_def Let_def HasSuffix_def split: sum.splits option.splits if_splits)

definition WithHTTPClient :: "doer \<Rightarrow> ClientOption" where
  "WithHTTPClient doer c = Inr (c\<lparr>Doer := Some doer\<rparr>)"

definition WithRequestEditorFn :: "RequestEditorFn \<Rightarrow> ClientOption" where
  "WithRequestEditorFn fn c = Inr (c\<lparr>RequestEditors := RequestEditors c @ [fn]\<rparr>)"

definition WithBaseURL :: "client_runtime \<Rightarrow> string \<Rightarrow> ClientOption" where
  "WithBaseURL cr baseURL c = (case cr_ParseURL cr baseURL of Inl err \<Rightarrow> Inl err | Inr u \<Rightarrow> Inr (c\<lparr>client_Server := u\<rparr>))"

fun run_editors :: "RequestEditorFn list \<Rightarrow> RequestEditorFn" where
  "run_editors [] req = Inr req"
| "run_editors (r # rs) req = (case r req of Inl err \<Rightarrow> Inl err | Inr req \<Rightarrow> run_editors rs req)"

definition applyEditors :: "Client \<Rightarrow> RequestEditorFn list \<Rightarrow> RequestEditorFn" where
  "applyEditors c additionalEditors req =
     (case run_editors (RequestEditors c) req of Inl err \<Rightarrow> Inl err | Inr req \<Rightarrow> run_editors additionalEditors req)"

text \<open>What every operation of the client does with the request it built.\<close>

definition send :: "client_runtime \<Rightarrow> Client \<Rightarrow> RequestEditorFn list \<Rightarrow> gerror + client_request \<Rightarrow> (gerror + reply) prog" where
  "send cr c reqEditors built =
     (case built of
        Inl err \<Rightarrow> Ret (Inl err)
      | Inr req \<Rightarrow>
          (case applyEditors c reqEditors req of
             Inl err \<Rightarrow> Ret (Inl err)
           | Inr req \<Rightarrow> (case Doer c of Some Do \<Rightarrow> Do req | None \<Rightarrow> cr_DefaultDoer cr req)))"

section \<open>Requests\<close>

definition build_request :: "client_runtime \<Rightarrow> string \<Rightarrow> string \<Rightarrow> string \<Rightarrow> (string \<times> string) option \<Rightarrow> gerror + client_request" where
  "build_request cr method server operationPath body =
     (let path = (if HasPrefix operationPath ''/'' then ''.'' @ operationPath else operationPath) in
      case cr_Resolve cr server path of
        Inl err \<Rightarrow> Inl err
      | Inr u \<Rightarrow> Inr \<lparr>cq_Method = method, cq_URL = u,
          cq_Header = (case body of None \<Rightarrow> Map.empty | Some (contentType, _) \<Rightarrow> [''Content-Type'' \<mapsto> contentType]),
          cq_Body = map_option snd body\<rparr>)"

definition NewDeleteAccountRequest :: "client_runtime \<Rightarrow> string \<Rightarrow> string \<Rightarrow> gerror + client_request" where
  "NewDeleteAccountRequest cr server tenantSlug =
     (case cr_StyleString cr ''tenant_slug'' tenantSlug of
        Inl err \<Rightarrow> Inl err
      | Inr pathParam0 \<Rightarrow> build_request cr ''DELETE'' server (''/accounts/'' @ pathParam0) None)"

definition NewGetAccountRequest :: "client_runtime \<Rightarrow> string \<Rightarrow> string \<Rightarrow> gerror + client_request" where
  "NewGetAccountRequest cr server tenantSlug =
     (case cr_StyleString cr ''tenant_slug'' tenantSlug of
        Inl err \<Rightarrow> Inl err
      | Inr pathParam0 \<Rightarrow> build_request cr ''GET'' server (''/accounts/'' @ pathParam0) None)"

definition NewIssueKeyRequestWithBody ::
    "client_runtime \<Rightarrow> string \<Rightarrow> string \<Rightarrow> string \<Rightarrow> string \<Rightarrow> gerror + client_request" where
  "NewIssueKeyRequestWithBody cr server tenantSlug contentType body =
     (case cr_StyleString cr ''tenant_slug'' tenantSlug of
        Inl err \<Rightarrow> Inl err
      | Inr pathParam0 \<Rightarrow>
          build_request cr ''POST'' server (''/accounts/'' @ pathParam0 @ ''/keys'') (Some (contentType, body)))"

definition encode_IssueKeyRequest :: "IssueKeyRequest \<Rightarrow> json" where
  "encode_IssueKeyRequest b =
     JObj ([(''display_name'', JStr (ikr_DisplayName b))] @ optional ''scopes'' JStr (ikr_Scopes b))"

definition NewIssueKeyRequest :: "client_runtime \<Rightarrow> string \<Rightarrow> string \<Rightarrow> IssueKeyRequest \<Rightarrow> gerror + client_request" where
  "NewIssueKeyRequest cr server tenantSlug body =
     NewIssueKeyRequestWithBody cr server tenantSlug ''application/json'' (Marshal (encode_IssueKeyRequest body))"

definition NewRevokeKeyRequest :: "client_runtime \<Rightarrow> string \<Rightarrow> string \<Rightarrow> uuid \<Rightarrow> gerror + client_request" where
  "NewRevokeKeyRequest cr server tenantSlug keyId =
     (case cr_StyleString cr ''tenant_slug'' tenantSlug of
        Inl err \<Rightarrow> Inl err
      | Inr pathParam0 \<Rightarrow>
          (case cr_StyleUUID cr ''key_id'' keyId of
             Inl err \<Rightarrow> Inl err
           | Inr pathParam1 \<Rightarrow>
               build_request cr ''DELETE'' server (''/accounts/'' @ pathParam0 @ ''/keys/'' @ pathParam1) None))"

definition NewProvisionNetworkRequest :: "client_runtime \<Rightarrow> string \<Rightarrow> string \<Rightarrow> gerror + client_request" where
  "NewProvisionNetworkRequest cr server tenantSlug =
     (case cr_StyleString cr ''tenant_slug'' tenantSlug of
        Inl err \<Rightarrow> Inl err
      | Inr pathParam0 \<Rightarrow> build_request cr ''POST'' server (''/accounts/'' @ pathParam0 @ ''/provision'') None)"

definition NewRegisterRequestWithBody :: "client_runtime \<Rightarrow> string \<Rightarrow> string \<Rightarrow> string \<Rightarrow> gerror + client_request" where
  "NewRegisterRequestWithBody cr server contentType body =
     build_request cr ''POST'' server ''/register'' (Some (contentType, body))"

definition encode_RegisterRequest :: "client_runtime \<Rightarrow> RegisterRequest \<Rightarrow> gerror + json" where
  "encode_RegisterRequest cr b =
     (case cr_MarshalEmail cr (regreq_Email b) of
        Inl err \<Rightarrow> Inl err
      | Inr email \<Rightarrow> Inr (JObj
          [(''display_name'', JStr (regreq_DisplayName b)), (''email'', email), (''password'', JStr (regreq_Password b)),
           (''plan'', JStr (regreq_Plan b)), (''slug'', JStr (regreq_Slug b))]))"

definition NewRegisterRequest :: "client_runtime \<Rightarrow> string \<Rightarrow> RegisterRequest \<Rightarrow> gerror + client_request" where
  "NewRegisterRequest cr server body =
     (case encode_RegisterRequest cr body of
        Inl err \<Rightarrow> Inl err
      | Inr j \<Rightarrow> NewRegisterRequestWithBody cr server ''application/json'' (Marshal j))"

section \<open>Operations\<close>

definition Client_DeleteAccount :: "client_runtime \<Rightarrow> Client \<Rightarrow> string \<Rightarrow> RequestEditorFn list \<Rightarrow> (gerror + reply) prog" where
  "Client_DeleteAccount cr c tenantSlug reqEditors = send cr c reqEditors (NewDeleteAccountRequest cr (client_Server c) tenantSlug)"

definition Client_GetAccount :: "client_runtime \<Rightarrow> Client \<Rightarrow> string \<Rightarrow> RequestEditorFn list \<Rightarrow> (gerror + reply) prog" where
  "Client_GetAccount cr c tenantSlug reqEditors = send cr c reqEditors (NewGetAccountRequest cr (client_Server c) tenantSlug)"

definition Client_IssueKeyWithBody :: "client_runtime \<Rightarrow> Client \<Rightarrow> string \<Rightarrow> string \<Rightarrow> string \<Rightarrow> RequestEditorFn list \<Rightarrow> (gerror + reply) prog" where
  "Client_IssueKeyWithBody cr c tenantSlug contentType body reqEditors = send cr c reqEditors (NewIssueKeyRequestWithBody cr (client_Server c) tenantSlug contentType body)"

definition Client_IssueKey :: "client_runtime \<Rightarrow> Client \<Rightarrow> string \<Rightarrow> IssueKeyRequest \<Rightarrow> RequestEditorFn list \<Rightarrow> (gerror + reply) prog" where
  "Client_IssueKey cr c tenantSlug body reqEditors = send cr c reqEditors (NewIssueKeyRequest cr (client_Server c) tenantSlug body)"

definition Client_RevokeKey :: "client_runtime \<Rightarrow> Client \<Rightarrow> string \<Rightarrow> uuid \<Rightarrow> RequestEditorFn list \<Rightarrow> (gerror + reply) prog" where
  "Client_RevokeKey cr c tenantSlug keyId reqEditors = send cr c reqEditors (NewRevokeKeyRequest cr (client_Server c) tenantSlug keyId)"

definition Client_ProvisionNetwork :: "client_runtime \<Rightarrow> Client \<Rightarrow> string \<Rightarrow> RequestEditorFn list \<Rightarrow> (gerror + reply) prog" where
  "Client_ProvisionNetwork cr c tenantSlug reqEditors = send cr c reqEditors (NewProvisionNetworkRequest cr (client_Server c) tenantSlug)"

definition Client_RegisterWithBody :: "client_runtime \<Rightarrow> Client \<Rightarrow> string \<Rightarrow> string \<Rightarrow> RequestEditorFn list \<Rightarrow> (gerror + reply) prog" where
  "Client_RegisterWithBody cr c contentType body reqEditors = send cr c reqEditors (NewRegisterRequestWithBody cr (client_Server c) contentType body)"

definition Client_Register :: "client_runtime \<Rightarrow> Client \<Rightarrow> RegisterRequest \<Rightarrow> RequestEditorFn list \<Rightarrow> (gerror + reply) prog" where
  "Client_Register cr c body reqEditors = send cr c reqEditors (NewRegisterRequest cr (client_Server c) body)"

section \<open>Response bodies\<close>

record ErrorDetail =
  ed_Code :: string
  ed_Message :: string
  ed_RequestId :: "string option"

record ErrorResponse =
  er_Error :: ErrorDetail

definition uuid_field :: "(string \<Rightarrow> gerror + uuid) \<Rightarrow> string \<Rightarrow> (uuid \<Rightarrow> 'a \<Rightarrow> 'a) \<Rightarrow> json \<Rightarrow> 'a \<Rightarrow> 'a stored" where
  "uuid_field parse field set_field j x = (case j of
     JStr s \<Rightarrow> (case parse s of Inl e \<Rightarrow> Abort e | Inr i \<Rightarrow> Stored (set_field i x))
   | JNull \<Rightarrow> Stored x
   | _ \<Rightarrow> Mismatch (field_type_error field ''uuid.UUID'' j))"

definition ErrorDetail_fields :: "string \<Rightarrow> (string \<times> (json \<Rightarrow> ErrorDetail \<Rightarrow> ErrorDetail stored)) list" where
  "ErrorDetail_fields pkg =
     [(''code'', string_field ''ErrorDetail.error.code'' (pkg @ ''.ErrorDetailCode'') (\<lambda>s b. b\<lparr>ed_Code := s\<rparr>)),
      (''message'', string_field ''ErrorDetail.error.message'' ''string'' (\<lambda>s b. b\<lparr>ed_Message := s\<rparr>)),
      (''request_id'', pointer_field ''ErrorDetail.error.request_id'' ''string'' (\<lambda>s b. b\<lparr>ed_RequestId := s\<rparr>))]"

definition no_error :: ErrorDetail where
  "no_error = \<lparr>ed_Code = [], ed_Message = [], ed_RequestId = None\<rparr>"

definition decode_ErrorResponse :: "string \<Rightarrow> client_runtime \<Rightarrow> string \<Rightarrow> gerror + ErrorResponse" where
  "decode_ErrorResponse pkg cr = Unmarshal (cr_SyntaxError cr) (pkg @ ''.ErrorResponse'')
     [(''error'', struct_field (\<lambda>ps. decode_object (ErrorDetail_fields pkg) ps None no_error) ''ErrorResponse.error''
        (pkg @ ''.ErrorDetail'') (\<lambda>d b. b\<lparr>er_Error := d\<rparr>))]
     \<lparr>er_Error = no_error\<rparr>"

definition decode_AccountResponse :: "client_runtime \<Rightarrow> string \<Rightarrow> gerror + AccountResponse" where
  "decode_AccountResponse cr = Unmarshal (cr_SyntaxError cr) ''accountsclient.AccountResponse''
     [(''created_at'', unmarshaler_field (cr_Time cr) (\<lambda>s b. b\<lparr>aresp_CreatedAt := s\<rparr>)),
      (''display_name'', string_field ''AccountResponse.display_name'' ''string'' (\<lambda>s b. b\<lparr>aresp_DisplayName := s\<rparr>)),
      (''plan'', string_field ''AccountResponse.plan'' ''string'' (\<lambda>s b. b\<lparr>aresp_Plan := s\<rparr>)),
      (''pod_cidr'', pointer_field ''AccountResponse.pod_cidr'' ''string'' (\<lambda>s b. b\<lparr>aresp_PodCidr := s\<rparr>)),
      (''service_cidr'', pointer_field ''AccountResponse.service_cidr'' ''string'' (\<lambda>s b. b\<lparr>aresp_ServiceCidr := s\<rparr>)),
      (''slug'', string_field ''AccountResponse.slug'' ''string'' (\<lambda>s b. b\<lparr>aresp_Slug := s\<rparr>)),
      (''status'', string_field ''AccountResponse.status'' ''accountsclient.AccountStatus'' (\<lambda>s b. b\<lparr>aresp_Status := s\<rparr>)),
      (''tenant_id'', uuid_field (cr_UUID cr) ''AccountResponse.tenant_id'' (\<lambda>s b. b\<lparr>aresp_TenantId := s\<rparr>))]
     \<lparr>aresp_CreatedAt = zero_time, aresp_DisplayName = [], aresp_Plan = [], aresp_PodCidr = None, aresp_ServiceCidr = None, aresp_Slug = [], aresp_Status = [], aresp_TenantId = uuid_Nil\<rparr>"

definition decode_CreateAccountAccepted :: "client_runtime \<Rightarrow> string \<Rightarrow> gerror + CreateAccountAccepted" where
  "decode_CreateAccountAccepted cr = Unmarshal (cr_SyntaxError cr) ''accountsclient.CreateAccountAccepted''
     [(''job_id'', uuid_field (cr_UUID cr) ''CreateAccountAccepted.job_id'' (\<lambda>s b. b\<lparr>caa_JobId := s\<rparr>)),
      (''slug'', string_field ''CreateAccountAccepted.slug'' ''string'' (\<lambda>s b. b\<lparr>caa_Slug := s\<rparr>)),
      (''status'', string_field ''CreateAccountAccepted.status'' ''accountsclient.AccountStatus'' (\<lambda>s b. b\<lparr>caa_Status := s\<rparr>)),
      (''tenant_id'', uuid_field (cr_UUID cr) ''CreateAccountAccepted.tenant_id'' (\<lambda>s b. b\<lparr>caa_TenantId := s\<rparr>))]
     \<lparr>caa_TenantId = uuid_Nil, caa_Slug = [], caa_Status = [], caa_JobId = uuid_Nil\<rparr>"

definition decode_DeleteAccountAccepted :: "client_runtime \<Rightarrow> string \<Rightarrow> gerror + DeleteAccountAccepted" where
  "decode_DeleteAccountAccepted cr = Unmarshal (cr_SyntaxError cr) ''accountsclient.DeleteAccountAccepted''
     [(''job_id'', uuid_field (cr_UUID cr) ''DeleteAccountAccepted.job_id'' (\<lambda>s b. b\<lparr>daa_JobId := s\<rparr>)),
      (''slug'', string_field ''DeleteAccountAccepted.slug'' ''string'' (\<lambda>s b. b\<lparr>daa_Slug := s\<rparr>)),
      (''status'', string_field ''DeleteAccountAccepted.status'' ''accountsclient.DeleteAccountAcceptedStatus'' (\<lambda>s b. b\<lparr>daa_Status := s\<rparr>))]
     \<lparr>daa_Slug = [], daa_JobId = uuid_Nil, daa_Status = []\<rparr>"

definition decode_IssueKeyResponse :: "client_runtime \<Rightarrow> string \<Rightarrow> gerror + IssueKeyResponse" where
  "decode_IssueKeyResponse cr = Unmarshal (cr_SyntaxError cr) ''accountsclient.IssueKeyResponse''
     [(''created_at'', unmarshaler_field (cr_Time cr) (\<lambda>s b. b\<lparr>ikresp_CreatedAt := s\<rparr>)),
      (''display_name'', string_field ''IssueKeyResponse.display_name'' ''string'' (\<lambda>s b. b\<lparr>ikresp_DisplayName := s\<rparr>)),
      (''key_id'', uuid_field (cr_UUID cr) ''IssueKeyResponse.key_id'' (\<lambda>s b. b\<lparr>ikresp_KeyId := s\<rparr>)),
      (''raw_key'', string_field ''IssueKeyResponse.raw_key'' ''string'' (\<lambda>s b. b\<lparr>ikresp_RawKey := s\<rparr>)),
      (''scopes'', string_field ''IssueKeyResponse.scopes'' ''string'' (\<lambda>s b. b\<lparr>ikresp_Scopes := s\<rparr>)),
      (''status'', string_field ''IssueKeyResponse.status'' ''accountsclient.IssueKeyResponseStatus'' (\<lambda>s b. b\<lparr>ikresp_Status := s\<rparr>))]
     \<lparr>ikresp_KeyId = uuid_Nil, ikresp_RawKey = [], ikresp_DisplayName = [], ikresp_Scopes = [], ikresp_Status = [], ikresp_CreatedAt = zero_time\<rparr>"

definition decode_RegisterResponse :: "client_runtime \<Rightarrow> string \<Rightarrow> gerror + RegisterResponse" where
  "decode_RegisterResponse cr = Unmarshal (cr_SyntaxError cr) ''accountsclient.RegisterResponse''
     [(''initial_api_key'', string_field ''RegisterResponse.initial_api_key'' ''string'' (\<lambda>s b. b\<lparr>regresp_InitialApiKey := s\<rparr>)),
      (''slug'', string_field ''RegisterResponse.slug'' ''string'' (\<lambda>s b. b\<lparr>regresp_Slug := s\<rparr>)),
      (''tenant_id'', uuid_field (cr_UUID cr) ''RegisterResponse.tenant_id'' (\<lambda>s b. b\<lparr>regresp_TenantId := s\<rparr>)),
      (''user_id'', uuid_field (cr_UUID cr) ''RegisterResponse.user_id'' (\<lambda>s b. b\<lparr>regresp_UserId := s\<rparr>))]
     \<lparr>regresp_UserId = uuid_Nil, regresp_TenantId = uuid_Nil, regresp_Slug = [], regresp_InitialApiKey = []\<rparr>"

section \<open>Responses\<close>

definition json_reply :: "reply \<Rightarrow> int \<Rightarrow> bool" where
  "json_reply rsp code \<longleftrightarrow> Contains (Header_Get (rp_Header rsp) ''Content-Type'') ''json'' \<and> rp_StatusCode rsp = code"

definition field_set :: "gerror + 'b \<Rightarrow> ('b \<Rightarrow> 'a) \<Rightarrow> gerror + 'a" where
  "field_set dest k = (case dest of Inl err \<Rightarrow> Inl err | Inr d \<Rightarrow> Inr (k d))"

record DeleteAccountHTTPResponse =
  del_Body :: string
  del_HTTPResponse :: "reply option"
  del_JSON202 :: "DeleteAccountAccepted option"
  del_JSON400 :: "ErrorResponse option"
  del_JSON404 :: "ErrorResponse option"
  del_JSON500 :: "ErrorResponse option"

definition del_StatusCode :: "DeleteAccountHTTPResponse \<Rightarrow> int" where
  "del_StatusCode r = (case del_HTTPResponse r of Some rsp \<Rightarrow> rp_StatusCode rsp | None \<Rightarrow> 0)"

definition ParseDeleteAccountHTTPResponse :: "client_runtime \<Rightarrow> reply \<Rightarrow> gerror + DeleteAccountHTTPResponse" where
  "ParseDeleteAccountHTTPResponse cr rsp =
     (case rp_Body rsp of
        Inl err \<Rightarrow> Inl err
      | Inr bodyBytes \<Rightarrow>
          (let response = \<lparr>del_Body = bodyBytes, del_HTTPResponse = Some rsp, del_JSON202 = None, del_JSON400 = None, del_JSON404 = None, del_JSON500 = None\<rparr> in
           if json_reply rsp 202 then field_set (decode_DeleteAccountAccepted cr bodyBytes) (\<lambda>dest. response\<lparr>del_JSON202 := Some dest\<rparr>)
           else if json_reply rsp 400 then field_set (decode_ErrorResponse ''accountsclient'' cr bodyBytes) (\<lambda>dest. response\<lparr>del_JSON400 := Some dest\<rparr>)
           else if json_reply rsp 404 then field_set (decode_ErrorResponse ''accountsclient'' cr bodyBytes) (\<lambda>dest. response\<lparr>del_JSON404 := Some dest\<rparr>)
           else if json_reply rsp 500 then field_set (decode_ErrorResponse ''accountsclient'' cr bodyBytes) (\<lambda>dest. response\<lparr>del_JSON500 := Some dest\<rparr>)
           else Inr response))"

record GetAccountHTTPResponse =
  get_Body :: string
  get_HTTPResponse :: "reply option"
  get_JSON200 :: "AccountResponse option"
  get_JSON400 :: "ErrorResponse option"
  get_JSON404 :: "ErrorResponse option"
  get_JSON500 :: "ErrorResponse option"

definition get_StatusCode :: "GetAccountHTTPResponse \<Rightarrow> int" where
  "get_StatusCode r = (case get_HTTPResponse r of Some rsp \<Rightarrow> rp_StatusCode rsp | None \<Rightarrow> 0)"

definition ParseGetAccountHTTPResponse :: "client_runtime \<Rightarrow> reply \<Rightarrow> gerror + GetAccountHTTPResponse" where
  "ParseGetAccountHTTPResponse cr rsp =
     (case rp_Body rsp of
        Inl err \<Rightarrow> Inl err
      | Inr bodyBytes \<Rightarrow>
          (let response = \<lparr>get_Body = bodyBytes, get_HTTPResponse = Some rsp, get_JSON200 = None, get_JSON400 = None, get_JSON404 = None, get_JSON500 = None\<rparr> in
           if json_reply rsp 200 then field_set (decode_AccountResponse cr bodyBytes) (\<lambda>dest. response\<lparr>get_JSON200 := Some dest\<rparr>)
           else if json_reply rsp 400 then field_set (decode_ErrorResponse ''accountsclient'' cr bodyBytes) (\<lambda>dest. response\<lparr>get_JSON400 := Some dest\<rparr>)
           else if json_reply rsp 404 then field_set (decode_ErrorResponse ''accountsclient'' cr bodyBytes) (\<lambda>dest. response\<lparr>get_JSON404 := Some dest\<rparr>)
           else if json_reply rsp 500 then field_set (decode_ErrorResponse ''accountsclient'' cr bodyBytes) (\<lambda>dest. response\<lparr>get_JSON500 := Some dest\<rparr>)
           else Inr response))"

record IssueKeyHTTPResponse =
  iss_Body :: string
  iss_HTTPResponse :: "reply option"
  iss_JSON201 :: "IssueKeyResponse option"
  iss_JSON400 :: "ErrorResponse option"
  iss_JSON404 :: "ErrorResponse option"
  iss_JSON422 :: "ErrorResponse option"
  iss_JSON500 :: "ErrorResponse option"

definition iss_StatusCode :: "IssueKeyHTTPResponse \<Rightarrow> int" where
  "iss_StatusCode r = (case iss_HTTPResponse r of Some rsp \<Rightarrow> rp_StatusCode rsp | None \<Rightarrow> 0)"

definition ParseIssueKeyHTTPResponse :: "client_runtime \<Rightarrow> reply \<Rightarrow> gerror + IssueKeyHTTPResponse" where
  "ParseIssueKeyHTTPResponse cr rsp =
     (case rp_Body rsp of
        Inl err \<Rightarrow> Inl err
      | Inr bodyBytes \<Rightarrow>
          (let response = \<lparr>iss_Body = bodyBytes, iss_HTTPResponse = Some rsp, iss_JSON201 = None, iss_JSON400 = None, iss_JSON404 = None, iss_JSON422 = None, iss_JSON500 = None\<rparr> in
           if json_reply rsp 201 then field_set (decode_IssueKeyResponse cr bodyBytes) (\<lambda>dest. response\<lparr>iss_JSON201 := Some dest\<rparr>)
           else if json_reply rsp 400 then field_set (decode_ErrorResponse ''accountsclient'' cr bodyBytes) (\<lambda>dest. response\<lparr>iss_JSON400 := Some dest\<rparr>)
           else if json_reply rsp 404 then field_set (decode_ErrorResponse ''accountsclient'' cr bodyBytes) (\<lambda>dest. response\<lparr>iss_JSON404 := Some dest\<rparr>)
           else if json_reply rsp 422 then field_set (decode_ErrorResponse ''accountsclient'' cr bodyBytes) (\<lambda>dest. response\<lparr>iss_JSON422 := Some dest\<rparr>)
           else if json_reply rsp 500 then field_set (decode_ErrorResponse ''accountsclient'' cr bodyBytes) (\<lambda>dest. response\<lparr>iss_JSON500 := Some dest\<rparr>)
           else Inr response))"

record RevokeKeyHTTPResponse =
  rev_Body :: string
  rev_HTTPResponse :: "reply option"
  rev_JSON400 :: "ErrorResponse option"
  rev_JSON404 :: "ErrorResponse option"
  rev_JSON500 :: "ErrorResponse option"

definition rev_StatusCode :: "RevokeKeyHTTPResponse \<Rightarrow> int" where
  "rev_StatusCode r = (case rev_HTTPResponse r of Some rsp \<Rightarrow> rp_StatusCode rsp | None \<Rightarrow> 0)"

definition ParseRevokeKeyHTTPResponse :: "client_runtime \<Rightarrow> reply \<Rightarrow> gerror + RevokeKeyHTTPResponse" where
  "ParseRevokeKeyHTTPResponse cr rsp =
     (case rp_Body rsp of
        Inl err \<Rightarrow> Inl err
      | Inr bodyBytes \<Rightarrow>
          (let response = \<lparr>rev_Body = bodyBytes, rev_HTTPResponse = Some rsp, rev_JSON400 = None, rev_JSON404 = None, rev_JSON500 = None\<rparr> in
           if json_reply rsp 400 then field_set (decode_ErrorResponse ''accountsclient'' cr bodyBytes) (\<lambda>dest. response\<lparr>rev_JSON400 := Some dest\<rparr>)
           else if json_reply rsp 404 then field_set (decode_ErrorResponse ''accountsclient'' cr bodyBytes) (\<lambda>dest. response\<lparr>rev_JSON404 := Some dest\<rparr>)
           else if json_reply rsp 500 then field_set (decode_ErrorResponse ''accountsclient'' cr bodyBytes) (\<lambda>dest. response\<lparr>rev_JSON500 := Some dest\<rparr>)
           else Inr response))"

record ProvisionNetworkHTTPResponse =
  pro_Body :: string
  pro_HTTPResponse :: "reply option"
  pro_JSON202 :: "CreateAccountAccepted option"
  pro_JSON400 :: "ErrorResponse option"
  pro_JSON404 :: "ErrorResponse option"
  pro_JSON409 :: "ErrorResponse option"
  pro_JSON500 :: "ErrorResponse option"

definition pro_StatusCode :: "ProvisionNetworkHTTPResponse \<Rightarrow> int" where
  "pro_StatusCode r = (case pro_HTTPResponse r of Some rsp \<Rightarrow> rp_StatusCode rsp | None \<Rightarrow> 0)"

definition ParseProvisionNetworkHTTPResponse :: "client_runtime \<Rightarrow> reply \<Rightarrow> gerror + ProvisionNetworkHTTPResponse" where
  "ParseProvisionNetworkHTTPResponse cr rsp =
     (case rp_Body rsp of
        Inl err \<Rightarrow> Inl err
      | Inr bodyBytes \<Rightarrow>
          (let response = \<lparr>pro_Body = bodyBytes, pro_HTTPResponse = Some rsp, pro_JSON202 = None, pro_JSON400 = None, pro_JSON404 = None, pro_JSON409 = None, pro_JSON500 = None\<rparr> in
           if json_reply rsp 202 then field_set (decode_CreateAccountAccepted cr bodyBytes) (\<lambda>dest. response\<lparr>pro_JSON202 := Some dest\<rparr>)
           else if json_reply rsp 400 then field_set (decode_ErrorResponse ''accountsclient'' cr bodyBytes) (\<lambda>dest. response\<lparr>pro_JSON400 := Some dest\<rparr>)
           else if json_reply rsp 404 then field_set (decode_ErrorResponse ''accountsclient'' cr bodyBytes) (\<lambda>dest. response\<lparr>pro_JSON404 := Some dest\<rparr>)
           else if json_reply rsp 409 then field_set (decode_ErrorResponse ''accountsclient'' cr bodyBytes) (\<lambda>dest. response\<lparr>pro_JSON409 := Some dest\<rparr>)
           else if json_reply rsp 500 then field_set (decode_ErrorResponse ''accountsclient'' cr bodyBytes) (\<lambda>dest. response\<lparr>pro_JSON500 := Some dest\<rparr>)
           else Inr response))"

record RegisterHTTPResponse =
  reg_Body :: string
  reg_HTTPResponse :: "reply option"
  reg_JSON201 :: "RegisterResponse option"
  reg_JSON400 :: "ErrorResponse option"
  reg_JSON409 :: "ErrorResponse option"
  reg_JSON422 :: "ErrorResponse option"
  reg_JSON500 :: "ErrorResponse option"

definition reg_StatusCode :: "RegisterHTTPResponse \<Rightarrow> int" where
  "reg_StatusCode r = (case reg_HTTPResponse r of Some rsp \<Rightarrow> rp_StatusCode rsp | None \<Rightarrow> 0)"

definition ParseRegisterHTTPResponse :: "client_runtime \<Rightarrow> reply \<Rightarrow> gerror + RegisterHTTPResponse" where
  "ParseRegisterHTTPResponse cr rsp =
     (case rp_Body rsp of
        Inl err \<Rightarrow> Inl err
      | Inr bodyBytes \<Rightarrow>
          (let response = \<lparr>reg_Body = bodyBytes, reg_HTTPResponse = Some rsp, reg_JSON201 = None, reg_JSON400 = None, reg_JSON409 = None, reg_JSON422 = None, reg_JSON500 = None\<rparr> in
           if json_reply rsp 201 then field_set (decode_RegisterResponse cr bodyBytes) (\<lambda>dest. response\<lparr>reg_JSON201 := Some dest\<rparr>)
           else if json_reply rsp 400 then field_set (decode_ErrorResponse ''accountsclient'' cr bodyBytes) (\<lambda>dest. response\<lparr>reg_JSON400 := Some dest\<rparr>)
           else if json_reply rsp 409 then field_set (decode_ErrorResponse ''accountsclient'' cr bodyBytes) (\<lambda>dest. response\<lparr>reg_JSON409 := Some dest\<rparr>)
           else if json_reply rsp 422 then field_set (decode_ErrorResponse ''accountsclient'' cr bodyBytes) (\<lambda>dest. response\<lparr>reg_JSON422 := Some dest\<rparr>)
           else if json_reply rsp 500 then field_set (decode_ErrorResponse ''accountsclient'' cr bodyBytes) (\<lambda>dest. response\<lparr>reg_JSON500 := Some dest\<rparr>)
           else Inr response))"

definition parsed :: "(reply \<Rightarrow> gerror + 'a) \<Rightarrow> (gerror + reply) prog \<Rightarrow> (gerror + 'a) prog" where
  "parsed parse call = bind call (\<lambda>rsp. Ret (case rsp of Inl err \<Rightarrow> Inl err | Inr rsp \<Rightarrow> parse rsp))"

definition DeleteAccountWithResponse :: "client_runtime \<Rightarrow> Client \<Rightarrow> string \<Rightarrow> RequestEditorFn list \<Rightarrow>
    (gerror + DeleteAccountHTTPResponse) prog" where
  "DeleteAccountWithResponse cr c tenantSlug reqEditors = parsed (ParseDeleteAccountHTTPResponse cr) (Client_DeleteAccount cr c tenantSlug reqEditors)"

definition GetAccountWithResponse :: "client_runtime \<Rightarrow> Client \<Rightarrow> string \<Rightarrow> RequestEditorFn list \<Rightarrow>
    (gerror + GetAccountHTTPResponse) prog" where
  "GetAccountWithResponse cr c tenantSlug reqEditors = parsed (ParseGetAccountHTTPResponse cr) (Client_GetAccount cr c tenantSlug reqEditors)"

definition IssueKeyWithBodyWithResponse :: "client_runtime \<Rightarrow> Client \<Rightarrow> string \<Rightarrow> string \<Rightarrow> string \<Rightarrow> RequestEditorFn list \<Rightarrow>
    (gerror + IssueKeyHTTPResponse) prog" where
  "IssueKeyWithBodyWithResponse cr c tenantSlug contentType body reqEditors = parsed (ParseIssueKeyHTTPResponse cr) (Client_IssueKeyWithBody cr c tenantSlug contentType body reqEditors)"

definition IssueKeyWithResponse :: "client_runtime \<Rightarrow> Client \<Rightarrow> string \<Rightarrow> IssueKeyRequest \<Rightarrow> RequestEditorFn list \<Rightarrow>
    (gerror + IssueKeyHTTPResponse) prog" where
  "IssueKeyWithResponse cr c tenantSlug body reqEditors = parsed (ParseIssueKeyHTTPResponse cr) (Client_IssueKey cr c tenantSlug body reqEditors)"

definition RevokeKeyWithResponse :: "client_runtime \<Rightarrow> Client \<Rightarrow> string \<Rightarrow> uuid \<Rightarrow> RequestEditorFn list \<Rightarrow>
    (gerror + RevokeKeyHTTPResponse) prog" where
  "RevokeKeyWithResponse cr c tenantSlug keyId reqEditors = parsed (ParseRevokeKeyHTTPResponse cr) (Client_RevokeKey cr c tenantSlug keyId reqEditors)"

definition ProvisionNetworkWithResponse :: "client_runtime \<Rightarrow> Client \<Rightarrow> string \<Rightarrow> RequestEditorFn list \<Rightarrow>
    (gerror + ProvisionNetworkHTTPResponse) prog" where
  "ProvisionNetworkWithResponse cr c tenantSlug reqEditors = parsed (ParseProvisionNetworkHTTPResponse cr) (Client_ProvisionNetwork cr c tenantSlug reqEditors)"

definition RegisterWithBodyWithResponse :: "client_runtime \<Rightarrow> Client \<Rightarrow> string \<Rightarrow> string \<Rightarrow> RequestEditorFn list \<Rightarrow>
    (gerror + RegisterHTTPResponse) prog" where
  "RegisterWithBodyWithResponse cr c contentType body reqEditors = parsed (ParseRegisterHTTPResponse cr) (Client_RegisterWithBody cr c contentType body reqEditors)"

definition RegisterWithResponse :: "client_runtime \<Rightarrow> Client \<Rightarrow> RegisterRequest \<Rightarrow> RequestEditorFn list \<Rightarrow>
    (gerror + RegisterHTTPResponse) prog" where
  "RegisterWithResponse cr c body reqEditors = parsed (ParseRegisterHTTPResponse cr) (Client_Register cr c body reqEditors)"

section \<open>What the server wrote is what the client reads\<close>

text \<open>The reply a client gets for a response the server finished.\<close>

definition reply_of :: "hw \<Rightarrow> reply" where
  "reply_of w = (case hw_sent w of
     Some (code, h) \<Rightarrow> \<lparr>rp_StatusCode = code, rp_Header = h, rp_Body = Inr (hw_body w)\<rparr>
   | None \<Rightarrow> \<lparr>rp_StatusCode = 200, rp_Header = hw_header w, rp_Body = Inr (hw_body w)\<rparr>)"

definition success_of :: "'a response \<Rightarrow> 'a option" where
  "success_of r = (case r of Success _ a \<Rightarrow> Some a | Failure _ _ \<Rightarrow> None)"

definition failure_of :: "int \<Rightarrow> 'a response \<Rightarrow> ErrorResponse option" where
  "failure_of code r = (case r of
     Success _ _ \<Rightarrow> None
   | Failure c b \<Rightarrow> if c = code
       then Some \<lparr>er_Error = \<lparr>ed_Code = err_code b, ed_Message = err_message b, ed_RequestId = None\<rparr>\<rparr> else None)"

definition sendable :: "int \<Rightarrow> int list \<Rightarrow> ('a \<Rightarrow> bool) \<Rightarrow> 'a response \<Rightarrow> bool" where
  "sendable ok errs good r \<longleftrightarrow> (case r of
     Success c a \<Rightarrow> c = ok \<and> good a
   | Failure c b \<Rightarrow> c \<in> set errs \<and> utf8 (err_code b) \<and> utf8 (err_message b))"

lemma reply_json:
  assumes "hw_sent w = None" "hw_body w = []" "code \<notin> {204, 304}"
  shows "rp_Body (reply_of (visit_json code (Inr j) w)) = Inr (Marshal j @ NL)"
    "json_reply (reply_of (visit_json code (Inr j) w)) c \<longleftrightarrow> code = c"
proof -
  have "Contains ''application/json'' ''json''" by code_simp
  then show "rp_Body (reply_of (visit_json code (Inr j) w)) = Inr (Marshal j @ NL)"
    "json_reply (reply_of (visit_json code (Inr j) w)) c \<longleftrightarrow> code = c"
    using assms by (simp_all add: reply_of_def json_reply_def visit_json_Inr Header_Get_def)
qed

lemma ascii_names [simp]:
  "ascii ''error''" "ascii ''code''" "ascii ''message''" "ascii ''created_at''" "ascii ''display_name''" "ascii ''plan''"
  "ascii ''pod_cidr''" "ascii ''service_cidr''" "ascii ''slug''" "ascii ''status''" "ascii ''tenant_id''" "ascii ''job_id''"
  "ascii ''key_id''" "ascii ''raw_key''" "ascii ''scopes''" "ascii ''initial_api_key''" "ascii ''user_id''" "ascii ''email''"
  "ascii ''password''"
  by (simp_all add: ascii_def)

lemma fields_ok_append [simp]: "fields_ok (xs @ ys) \<longleftrightarrow> fields_ok xs \<and> fields_ok ys"
  by (induction xs) auto

lemmas body_defs = field_named_def string_field_def pointer_field_def uuid_field_def unmarshaler_field_def struct_field_def
  optional_def ascii_utf8 ascii_uuid_String

text \<open>The parsers of the library types read these ids and times back.\<close>

definition reads :: "client_runtime \<Rightarrow> uuid set \<Rightarrow> time set \<Rightarrow> bool" where
  "reads cr ids ts \<longleftrightarrow> (\<forall>i\<in>ids. cr_UUID cr (uuid_String i) = Inr i) \<and>
     (\<forall>t\<in>ts. \<exists>j. marshal_time t = Inr j \<and> cr_Time cr j = Inr t)"

lemma decode_error:
  assumes "utf8 (err_code b)" "utf8 (err_message b)"
  shows "decode_ErrorResponse pkg cr (Marshal (error_envelope b) @ NL) =
    Inr \<lparr>er_Error = \<lparr>ed_Code = err_code b, ed_Message = err_message b, ed_RequestId = None\<rparr>\<rparr>"
  using assms unfolding decode_ErrorResponse_def error_envelope_def
  by (subst Unmarshal_line) (simp_all add: body_defs ErrorDetail_fields_def no_error_def)

lemma decode_DeleteAccountAccepted:
  assumes "reads cr {daa_JobId a} {}" "utf8 (daa_Slug a)" "utf8 (daa_Status a)"
  shows "decode_DeleteAccountAccepted cr (Marshal (encode_DeleteAccountAccepted a) @ NL) = Inr a"
  using assms unfolding decode_DeleteAccountAccepted_def encode_DeleteAccountAccepted_def
  by (subst Unmarshal_line) (simp_all add: body_defs reads_def)

lemma decode_CreateAccountAccepted:
  assumes "reads cr {caa_JobId a, caa_TenantId a} {}" "utf8 (caa_Slug a)" "utf8 (caa_Status a)"
  shows "decode_CreateAccountAccepted cr (Marshal (encode_CreateAccountAccepted a) @ NL) = Inr a"
  using assms unfolding decode_CreateAccountAccepted_def encode_CreateAccountAccepted_def
  by (subst Unmarshal_line) (simp_all add: body_defs reads_def)

lemma decode_RegisterResponse:
  assumes "reads cr {regresp_TenantId a, regresp_UserId a} {}" "utf8 (regresp_Slug a)" "utf8 (regresp_InitialApiKey a)"
  shows "decode_RegisterResponse cr (Marshal (encode_RegisterResponse a) @ NL) = Inr a"
  using assms unfolding decode_RegisterResponse_def encode_RegisterResponse_def
  by (subst Unmarshal_line) (simp_all add: body_defs reads_def)

text \<open>A marshalled time is ASCII.\<close>

lemma ascii_append [simp]: "ascii (s @ t) \<longleftrightarrow> ascii s \<and> ascii t"
  by (auto simp: ascii_def)

lemma ascii_Cons [simp]: "ascii (c # s) \<longleftrightarrow> (of_char c :: nat) < 128 \<and> ascii s" "ascii []"
  by (auto simp: ascii_def)

lemma ascii_Itoa: "ascii (Itoa n)"
  using Itoa_digits [of _ n] by (fastforce simp: ascii_def)

lemma ascii_padded: "ascii (padded n k)"
  using ascii_Itoa [of "nat k"] by (auto simp: padded_def Let_def ascii_def)

lemma ascii_fraction: "ascii (fraction ns)"
  using ascii_padded [of 9 ns] by (auto simp: fraction_def ascii_def dest!: set_dropWhileD)

lemma marshal_time_ok:
  assumes "marshal_time t = Inr j"
  shows "json_ok j"
proof -
  obtain s where "j = JStr s" "ascii s"
    using assms by (auto simp: marshal_time_def Let_def ascii_padded ascii_fraction split: if_splits prod.splits)
  then show ?thesis by (simp add: ascii_utf8)
qed

lemma decode_AccountResponse:
  assumes "reads cr {aresp_TenantId a} {aresp_CreatedAt a}"
    and "\<forall>s\<in>{aresp_DisplayName a, aresp_Plan a, aresp_Slug a, aresp_Status a}. utf8 s"
    and "\<forall>s. aresp_PodCidr a = Some s \<or> aresp_ServiceCidr a = Some s \<longrightarrow> utf8 s"
  shows "\<exists>j. encode_AccountResponse a = Inr j \<and> decode_AccountResponse cr (Marshal j @ NL) = Inr a"
proof -
  from assms(1) obtain created where c: "marshal_time (aresp_CreatedAt a) = Inr created"
    "cr_Time cr created = Inr (aresp_CreatedAt a)" by (auto simp: reads_def)
  let ?j = "JObj
      ([(''created_at'', created), (''display_name'', JStr (aresp_DisplayName a)), (''plan'', JStr (aresp_Plan a))] @
        optional ''pod_cidr'' JStr (aresp_PodCidr a) @ optional ''service_cidr'' JStr (aresp_ServiceCidr a) @
        [(''slug'', JStr (aresp_Slug a)), (''status'', JStr (aresp_Status a)),
         (''tenant_id'', JStr (uuid_String (aresp_TenantId a)))])"
  have "encode_AccountResponse a = Inr ?j" using c(1) by (simp add: encode_AccountResponse_def)
  moreover from marshal_time_ok [OF c(1)] c(2) have "decode_AccountResponse cr (Marshal ?j @ NL) = Inr a"
    unfolding decode_AccountResponse_def using assms
    by (subst Unmarshal_line; cases "aresp_PodCidr a"; cases "aresp_ServiceCidr a") (simp_all add: body_defs reads_def)
  ultimately show ?thesis by blast
qed

lemma decode_IssueKeyResponse:
  assumes "reads cr {ikresp_KeyId a} {ikresp_CreatedAt a}"
    and "\<forall>s\<in>{ikresp_DisplayName a, ikresp_RawKey a, ikresp_Scopes a, ikresp_Status a}. utf8 s"
  shows "\<exists>j. encode_IssueKeyResponse a = Inr j \<and> decode_IssueKeyResponse cr (Marshal j @ NL) = Inr a"
proof -
  from assms(1) obtain created where c: "marshal_time (ikresp_CreatedAt a) = Inr created"
    "cr_Time cr created = Inr (ikresp_CreatedAt a)" by (auto simp: reads_def)
  let ?j = "JObj
       [(''created_at'', created), (''display_name'', JStr (ikresp_DisplayName a)),
        (''key_id'', JStr (uuid_String (ikresp_KeyId a))), (''raw_key'', JStr (ikresp_RawKey a)),
        (''scopes'', JStr (ikresp_Scopes a)), (''status'', JStr (ikresp_Status a))]"
  have "encode_IssueKeyResponse a = Inr ?j" using c(1) by (simp add: encode_IssueKeyResponse_def)
  moreover from marshal_time_ok [OF c(1)] c(2) have "decode_IssueKeyResponse cr (Marshal ?j @ NL) = Inr a"
    unfolding decode_IssueKeyResponse_def using assms by (subst Unmarshal_line) (simp_all add: body_defs reads_def)
  ultimately show ?thesis by blast
qed

text \<open>Every parse function returns the response object the server's \<open>Visit\<close> method was called on.\<close>

definition unsent :: "hw \<Rightarrow> bool" where
  "unsent w \<longleftrightarrow> hw_sent w = None \<and> hw_body w = [] \<and> hw_header w ''Content-Type'' = None"

lemma Parse_DeleteAccount:
  assumes "unsent w" "sendable 202 [400, 404, 500] (\<lambda>a. reads cr {daa_JobId a} {} \<and> utf8 (daa_Slug a) \<and> utf8 (daa_Status a)) r"
  defines "rsp \<equiv> reply_of (VisitDeleteAccountResponse r w)"
  shows "\<exists>body. ParseDeleteAccountHTTPResponse cr rsp = Inr \<lparr>del_Body = body, del_HTTPResponse = Some rsp, del_JSON202 = success_of r, del_JSON400 = failure_of 400 r, del_JSON404 = failure_of 404 r, del_JSON500 = failure_of 500 r\<rparr>"
proof (cases r)
  case (Success c a)
  then show ?thesis using assms reply_json [of w] decode_DeleteAccountAccepted [of cr a]
    by (auto simp: ParseDeleteAccountHTTPResponse_def VisitDeleteAccountResponse_def visit_response_def sendable_def success_of_def failure_of_def
        field_set_def unsent_def)
next
  case (Failure c b)
  then show ?thesis using assms reply_json [of w] decode_error [of b "''accountsclient''" cr]
    by (auto simp: ParseDeleteAccountHTTPResponse_def VisitDeleteAccountResponse_def visit_response_def sendable_def success_of_def failure_of_def
        field_set_def unsent_def)
qed

lemma Parse_ProvisionNetwork:
  assumes "unsent w" "sendable 202 [400, 404, 409, 500] (\<lambda>a. reads cr {caa_JobId a, caa_TenantId a} {} \<and> utf8 (caa_Slug a) \<and> utf8 (caa_Status a)) r"
  defines "rsp \<equiv> reply_of (VisitProvisionNetworkResponse r w)"
  shows "\<exists>body. ParseProvisionNetworkHTTPResponse cr rsp = Inr \<lparr>pro_Body = body, pro_HTTPResponse = Some rsp, pro_JSON202 = success_of r, pro_JSON400 = failure_of 400 r, pro_JSON404 = failure_of 404 r, pro_JSON409 = failure_of 409 r, pro_JSON500 = failure_of 500 r\<rparr>"
proof (cases r)
  case (Success c a)
  then show ?thesis using assms reply_json [of w] decode_CreateAccountAccepted [of cr a]
    by (auto simp: ParseProvisionNetworkHTTPResponse_def VisitProvisionNetworkResponse_def visit_response_def sendable_def success_of_def failure_of_def
        field_set_def unsent_def)
next
  case (Failure c b)
  then show ?thesis using assms reply_json [of w] decode_error [of b "''accountsclient''" cr]
    by (auto simp: ParseProvisionNetworkHTTPResponse_def VisitProvisionNetworkResponse_def visit_response_def sendable_def success_of_def failure_of_def
        field_set_def unsent_def)
qed

lemma Parse_Register:
  assumes "unsent w" "sendable 201 [400, 409, 422, 500] (\<lambda>a. reads cr {regresp_TenantId a, regresp_UserId a} {} \<and> utf8 (regresp_Slug a) \<and> utf8 (regresp_InitialApiKey a)) r"
  defines "rsp \<equiv> reply_of (VisitRegisterResponse r w)"
  shows "\<exists>body. ParseRegisterHTTPResponse cr rsp = Inr \<lparr>reg_Body = body, reg_HTTPResponse = Some rsp, reg_JSON201 = success_of r, reg_JSON400 = failure_of 400 r, reg_JSON409 = failure_of 409 r, reg_JSON422 = failure_of 422 r, reg_JSON500 = failure_of 500 r\<rparr>"
proof (cases r)
  case (Success c a)
  then show ?thesis using assms reply_json [of w] decode_RegisterResponse [of cr a]
    by (auto simp: ParseRegisterHTTPResponse_def VisitRegisterResponse_def visit_response_def sendable_def success_of_def failure_of_def
        field_set_def unsent_def)
next
  case (Failure c b)
  then show ?thesis using assms reply_json [of w] decode_error [of b "''accountsclient''" cr]
    by (auto simp: ParseRegisterHTTPResponse_def VisitRegisterResponse_def visit_response_def sendable_def success_of_def failure_of_def
        field_set_def unsent_def)
qed

lemma Parse_GetAccount:
  assumes "unsent w" "sendable 200 [400, 404, 500] (\<lambda>a. reads cr {aresp_TenantId a} {aresp_CreatedAt a} \<and>
     (\<forall>s\<in>{aresp_DisplayName a, aresp_Plan a, aresp_Slug a, aresp_Status a}. utf8 s) \<and>
     (\<forall>s. aresp_PodCidr a = Some s \<or> aresp_ServiceCidr a = Some s \<longrightarrow> utf8 s)) r"
  defines "rsp \<equiv> reply_of (VisitGetAccountResponse r w)"
  shows "\<exists>body. ParseGetAccountHTTPResponse cr rsp = Inr \<lparr>get_Body = body, get_HTTPResponse = Some rsp, get_JSON200 = success_of r, get_JSON400 = failure_of 400 r, get_JSON404 = failure_of 404 r, get_JSON500 = failure_of 500 r\<rparr>"
proof (cases r)
  case (Success c a)
  then show ?thesis using assms reply_json [of w] decode_AccountResponse [of cr a]
    by (auto simp: ParseGetAccountHTTPResponse_def VisitGetAccountResponse_def visit_response_def sendable_def success_of_def failure_of_def
        field_set_def unsent_def)
next
  case (Failure c b)
  then show ?thesis using assms reply_json [of w] decode_error [of b "''accountsclient''" cr]
    by (auto simp: ParseGetAccountHTTPResponse_def VisitGetAccountResponse_def visit_response_def sendable_def success_of_def failure_of_def
        field_set_def unsent_def)
qed

lemma Parse_IssueKey:
  assumes "unsent w" "sendable 201 [400, 404, 422, 500] (\<lambda>a. reads cr {ikresp_KeyId a} {ikresp_CreatedAt a} \<and>
     (\<forall>s\<in>{ikresp_DisplayName a, ikresp_RawKey a, ikresp_Scopes a, ikresp_Status a}. utf8 s)) r"
  defines "rsp \<equiv> reply_of (VisitIssueKeyResponse r w)"
  shows "\<exists>body. ParseIssueKeyHTTPResponse cr rsp = Inr \<lparr>iss_Body = body, iss_HTTPResponse = Some rsp, iss_JSON201 = success_of r, iss_JSON400 = failure_of 400 r, iss_JSON404 = failure_of 404 r, iss_JSON422 = failure_of 422 r, iss_JSON500 = failure_of 500 r\<rparr>"
proof (cases r)
  case (Success c a)
  then show ?thesis using assms reply_json [of w] decode_IssueKeyResponse [of cr a]
    by (auto simp: ParseIssueKeyHTTPResponse_def VisitIssueKeyResponse_def visit_response_def sendable_def success_of_def failure_of_def
        field_set_def unsent_def)
next
  case (Failure c b)
  then show ?thesis using assms reply_json [of w] decode_error [of b "''accountsclient''" cr]
    by (auto simp: ParseIssueKeyHTTPResponse_def VisitIssueKeyResponse_def visit_response_def sendable_def success_of_def failure_of_def
        field_set_def unsent_def)
qed

lemma Parse_RevokeKey:
  assumes "unsent w" "sendable 204 [400, 404, 500] (\<lambda>_. True) r"
  defines "rsp \<equiv> reply_of (VisitRevokeKeyResponse r w)"
  shows "\<exists>body. ParseRevokeKeyHTTPResponse cr rsp = Inr \<lparr>rev_Body = body, rev_HTTPResponse = Some rsp,
    rev_JSON400 = failure_of 400 r, rev_JSON404 = failure_of 404 r, rev_JSON500 = failure_of 500 r\<rparr>"
proof (cases r)
  case (Success c a)
  have "\<not> Contains [] ''json''" by simp
  then show ?thesis using assms Success
    by (auto simp: ParseRevokeKeyHTTPResponse_def VisitRevokeKeyResponse_def sendable_def failure_of_def reply_of_def json_reply_def
        Header_Get_def unsent_def)
next
  case (Failure c b)
  then show ?thesis using assms reply_json [of w] decode_error [of b "''accountsclient''" cr]
    by (auto simp: ParseRevokeKeyHTTPResponse_def VisitRevokeKeyResponse_def visit_response_def sendable_def failure_of_def
        field_set_def unsent_def)
qed

text \<open>The body of a request is decoded by the server to the value the caller passed.\<close>

lemma register_body:
  assumes "NewRegisterRequest cr server b = Inr q"
    and "cr_MarshalEmail cr (regreq_Email b) = Inr (JStr (regreq_Email b))" "rt_Email rt (JStr (regreq_Email b)) = Inr (regreq_Email b)"
    and "\<forall>s\<in>{regreq_Email b, regreq_Password b, regreq_Slug b, regreq_DisplayName b, regreq_Plan b}. utf8 s"
  shows "\<exists>body. cq_Body q = Some body \<and> decode_RegisterRequest rt body = Inr b"
proof -
  let ?j = "JObj [(''display_name'', JStr (regreq_DisplayName b)), (''email'', JStr (regreq_Email b)),
    (''password'', JStr (regreq_Password b)), (''plan'', JStr (regreq_Plan b)), (''slug'', JStr (regreq_Slug b))]"
  have "cq_Body q = Some (Marshal ?j)"
    using assms(1,2) by (auto simp: NewRegisterRequest_def encode_RegisterRequest_def NewRegisterRequestWithBody_def
        build_request_def Let_def split: sum.splits)
  moreover have "decode_RegisterRequest rt (Marshal ?j) = Inr b" using assms(3,4) unfolding decode_RegisterRequest_def
    by (subst decode_body_Marshal) (simp_all add: RegisterRequest_fields_def body_defs)
  ultimately show ?thesis by blast
qed

lemma issue_body:
  assumes "NewIssueKeyRequest cr server slug b = Inr q" "utf8 (ikr_DisplayName b)" "\<forall>s. ikr_Scopes b = Some s \<longrightarrow> utf8 s"
  shows "\<exists>body. cq_Body q = Some body \<and> decode_IssueKeyRequest rt body = Inr b"
proof -
  have "cq_Body q = Some (Marshal (encode_IssueKeyRequest b))"
    using assms(1) by (auto simp: NewIssueKeyRequest_def NewIssueKeyRequestWithBody_def build_request_def Let_def split: sum.splits)
  moreover have "decode_IssueKeyRequest rt (Marshal (encode_IssueKeyRequest b)) = Inr b"
    using assms(2,3) unfolding decode_IssueKeyRequest_def encode_IssueKeyRequest_def
    by (subst decode_body_Marshal; cases "ikr_Scopes b") (simp_all add: IssueKeyRequest_fields_def body_defs)
  ultimately show ?thesis by blast
qed

end
