(* ===== verification/StorageClient.thy ===== *)
theory StorageClient
  imports AccountsClient StorageServer
begin

text \<open>
  \<open>pkg/client/storage/client.gen.go\<close>: the generated client of the storage API. The client itself, its
  options and the way it sends requests are the code of the accounts client, as \<open>AccountsClient\<close>
  models it; the operations, their requests and responses are this theory's.
\<close>

section \<open>Requests\<close>

text \<open>The path parameters \<open>tenant\<close> and \<open>project\<close>, styled in this order.\<close>

definition with_project :: "client_runtime \<Rightarrow> string \<Rightarrow> string \<Rightarrow> (string \<Rightarrow> gerror + client_request) \<Rightarrow> gerror + client_request" where
  "with_project cr tenant project build =
     (case cr_StyleString cr ''tenant'' tenant of
        Inl err \<Rightarrow> Inl err
      | Inr pathParam0 \<Rightarrow>
          (case cr_StyleString cr ''project'' project of
             Inl err \<Rightarrow> Inl err
           | Inr pathParam1 \<Rightarrow> build (''/'' @ pathParam0 @ ''/'' @ pathParam1 @ ''/buckets'')))"

definition NewListBucketsRequest :: "client_runtime \<Rightarrow> string \<Rightarrow> string \<Rightarrow> string \<Rightarrow> gerror + client_request" where
  "NewListBucketsRequest cr server tenant project =
     with_project cr tenant project (\<lambda>path. build_request cr ''GET'' server path None)"

definition NewCreateBucketRequestWithBody ::
    "client_runtime \<Rightarrow> string \<Rightarrow> string \<Rightarrow> string \<Rightarrow> string \<Rightarrow> string \<Rightarrow> gerror + client_request" where
  "NewCreateBucketRequestWithBody cr server tenant project contentType body =
     with_project cr tenant project (\<lambda>path. build_request cr ''POST'' server path (Some (contentType, body)))"

definition encode_CreateBucketRequest :: "CreateBucketRequest \<Rightarrow> json" where
  "encode_CreateBucketRequest b =
     JObj ([(''name'', JStr (cb_Name b))] @ optional ''region'' JStr (cb_Region b) @ optional ''versioning'' JBool (cb_Versioning b))"

definition NewCreateBucketRequest ::
    "client_runtime \<Rightarrow> string \<Rightarrow> string \<Rightarrow> string \<Rightarrow> CreateBucketRequest \<Rightarrow> gerror + client_request" where
  "NewCreateBucketRequest cr server tenant project body =
     NewCreateBucketRequestWithBody cr server tenant project ''application/json'' (Marshal (encode_CreateBucketRequest body))"

definition NewDeleteBucketRequest :: "client_runtime \<Rightarrow> string \<Rightarrow> string \<Rightarrow> string \<Rightarrow> string \<Rightarrow> gerror + client_request" where
  "NewDeleteBucketRequest cr server tenant project name =
     with_project cr tenant project (\<lambda>path.
       case cr_StyleString cr ''name'' name of
         Inl err \<Rightarrow> Inl err
       | Inr pathParam2 \<Rightarrow> build_request cr ''DELETE'' server (path @ ''/'' @ pathParam2) None)"

definition NewGetBucketRequest :: "client_runtime \<Rightarrow> string \<Rightarrow> string \<Rightarrow> string \<Rightarrow> string \<Rightarrow> gerror + client_request" where
  "NewGetBucketRequest cr server tenant project name =
     with_project cr tenant project (\<lambda>path.
       case cr_StyleString cr ''name'' name of
         Inl err \<Rightarrow> Inl err
       | Inr pathParam2 \<Rightarrow> build_request cr ''GET'' server (path @ ''/'' @ pathParam2) None)"

section \<open>Operations\<close>

definition Client_ListBuckets :: "client_runtime \<Rightarrow> Client \<Rightarrow> string \<Rightarrow> string \<Rightarrow> RequestEditorFn list \<Rightarrow> (gerror + reply) prog" where
  "Client_ListBuckets cr c tenant project reqEditors = send cr c reqEditors (NewListBucketsRequest cr (client_Server c) tenant project)"

definition Client_CreateBucketWithBody :: "client_runtime \<Rightarrow> Client \<Rightarrow> string \<Rightarrow> string \<Rightarrow> string \<Rightarrow> string \<Rightarrow> RequestEditorFn list \<Rightarrow> (gerror + reply) prog" where
  "Client_CreateBucketWithBody cr c tenant project contentType body reqEditors = send cr c reqEditors (NewCreateBucketRequestWithBody cr (client_Server c) tenant project contentType body)"

definition Client_CreateBucket :: "client_runtime \<Rightarrow> Client \<Rightarrow> string \<Rightarrow> string \<Rightarrow> CreateBucketRequest \<Rightarrow> RequestEditorFn list \<Rightarrow> (gerror + reply) prog" where
  "Client_CreateBucket cr c tenant project body reqEditors = send cr c reqEditors (NewCreateBucketRequest cr (client_Server c) tenant project body)"

definition Client_DeleteBucket :: "client_runtime \<Rightarrow> Client \<Rightarrow> string \<Rightarrow> string \<Rightarrow> string \<Rightarrow> RequestEditorFn list \<Rightarrow> (gerror + reply) prog" where
  "Client_DeleteBucket cr c tenant project name reqEditors = send cr c reqEditors (NewDeleteBucketRequest cr (client_Server c) tenant project name)"

definition Client_GetBucket :: "client_runtime \<Rightarrow> Client \<Rightarrow> string \<Rightarrow> string \<Rightarrow> string \<Rightarrow> RequestEditorFn list \<Rightarrow> (gerror + reply) prog" where
  "Client_GetBucket cr c tenant project name reqEditors = send cr c reqEditors (NewGetBucketRequest cr (client_Server c) tenant project name)"

section \<open>Response bodies\<close>

definition Bucket_fields :: "client_runtime \<Rightarrow> (string \<times> (json \<Rightarrow> Bucket \<Rightarrow> Bucket stored)) list" where
  "Bucket_fields cr =
     [(''createdAt'', unmarshaler_field (cr_Time cr) (\<lambda>t b. b\<lparr>bk_CreatedAt := t\<rparr>)),
      (''name'', string_field ''Bucket.name'' ''string'' (\<lambda>s b. b\<lparr>bk_Name := s\<rparr>)),
      (''project'', string_field ''Bucket.project'' ''string'' (\<lambda>s b. b\<lparr>bk_Project := s\<rparr>)),
      (''region'', pointer_field ''Bucket.region'' ''string'' (\<lambda>s b. b\<lparr>bk_Region := s\<rparr>)),
      (''tenant'', string_field ''Bucket.tenant'' ''string'' (\<lambda>s b. b\<lparr>bk_Tenant := s\<rparr>)),
      (''versioning'', bool_pointer_field ''Bucket.versioning'' (\<lambda>v b. b\<lparr>bk_Versioning := v\<rparr>))]"

definition no_bucket :: Bucket where
  "no_bucket = \<lparr>bk_CreatedAt = zero_time, bk_Name = [], bk_Project = [], bk_Region = None, bk_Tenant = [], bk_Versioning = None\<rparr>"

definition decode_Bucket :: "client_runtime \<Rightarrow> string \<Rightarrow> gerror + Bucket" where
  "decode_Bucket cr = Unmarshal (cr_SyntaxError cr) ''storageclient.Bucket'' (Bucket_fields cr) no_bucket"

text \<open>The elements of an array are decoded in order; one of the wrong type leaves its zero value.\<close>

fun decode_buckets :: "client_runtime \<Rightarrow> json list \<Rightarrow> gerror option \<Rightarrow> Bucket list \<Rightarrow> Bucket list stored" where
  "decode_buckets cr [] saved bs = (case saved of Some e \<Rightarrow> Mismatch e | None \<Rightarrow> Stored bs)"
| "decode_buckets cr (j # js) saved bs =
     (case (case j of JObj ps \<Rightarrow> decode_object (Bucket_fields cr) ps None no_bucket
                    | JNull \<Rightarrow> Stored no_bucket
                    | _ \<Rightarrow> Mismatch (field_type_error ''BucketList.items'' ''storageclient.Bucket'' j)) of
        Stored b \<Rightarrow> decode_buckets cr js saved (bs @ [b])
      | Mismatch e \<Rightarrow> decode_buckets cr js (case saved of None \<Rightarrow> Some e | Some d \<Rightarrow> Some d) (bs @ [no_bucket])
      | Abort e \<Rightarrow> Abort e)"

definition items_field :: "client_runtime \<Rightarrow> json \<Rightarrow> BucketList \<Rightarrow> BucketList stored" where
  "items_field cr j l = (case j of
     JArr js \<Rightarrow>
       (case decode_buckets cr js None [] of
          Stored bs \<Rightarrow> Stored (l\<lparr>bl_Items := Some bs\<rparr>) | Mismatch e \<Rightarrow> Mismatch e | Abort e \<Rightarrow> Abort e)
   | JNull \<Rightarrow> Stored (l\<lparr>bl_Items := None\<rparr>)
   | _ \<Rightarrow> Mismatch (field_type_error ''BucketList.items'' ''[]storageclient.Bucket'' j))"

definition total_field :: "json \<Rightarrow> BucketList \<Rightarrow> BucketList stored" where
  "total_field j l = (case j of
     JNum s \<Rightarrow>
       (let ds = (if HasPrefix s ''-'' then drop 1 s else s); n = (if HasPrefix s ''-'' then - int (dec ds) else int (dec ds)) in
        if list_all digit ds \<and> - (2 ^ 63) \<le> n \<and> n < 2 ^ 63 then Stored (l\<lparr>bl_Total := n\<rparr>)
        else Mismatch (Text (''json: cannot unmarshal number '' @ s @ '' into Go struct field BucketList.total of type int'')))
   | JNull \<Rightarrow> Stored l
   | _ \<Rightarrow> Mismatch (field_type_error ''BucketList.total'' ''int'' j))"

definition decode_BucketList :: "client_runtime \<Rightarrow> string \<Rightarrow> gerror + BucketList" where
  "decode_BucketList cr = Unmarshal (cr_SyntaxError cr) ''storageclient.BucketList''
     [(''items'', items_field cr), (''total'', total_field)] \<lparr>bl_Items = None, bl_Total = 0\<rparr>"

section \<open>Responses\<close>

record ListBucketsResponse =
  lbr_Body :: string
  lbr_HTTPResponse :: "reply option"
  lbr_JSON200 :: "BucketList option"
  lbr_JSON401 :: "ErrorResponse option"
  lbr_JSON403 :: "ErrorResponse option"
  lbr_JSON500 :: "ErrorResponse option"

definition lbr_StatusCode :: "ListBucketsResponse \<Rightarrow> int" where
  "lbr_StatusCode r = (case lbr_HTTPResponse r of Some rsp \<Rightarrow> rp_StatusCode rsp | None \<Rightarrow> 0)"

definition ParseListBucketsResponse :: "client_runtime \<Rightarrow> reply \<Rightarrow> gerror + ListBucketsResponse" where
  "ParseListBucketsResponse cr rsp =
     (case rp_Body rsp of
        Inl err \<Rightarrow> Inl err
      | Inr bodyBytes \<Rightarrow>
          (let response = \<lparr>lbr_Body = bodyBytes, lbr_HTTPResponse = Some rsp, lbr_JSON200 = None, lbr_JSON401 = None, lbr_JSON403 = None, lbr_JSON500 = None\<rparr> in
           if json_reply rsp 200 then field_set (decode_BucketList cr bodyBytes) (\<lambda>dest. response\<lparr>lbr_JSON200 := Some dest\<rparr>)
           else if json_reply rsp 401 then field_set (decode_ErrorResponse ''storageclient'' cr bodyBytes) (\<lambda>dest. response\<lparr>lbr_JSON401 := Some dest\<rparr>)
           else if json_reply rsp 403 then field_set (decode_ErrorResponse ''storageclient'' cr bodyBytes) (\<lambda>dest. response\<lparr>lbr_JSON403 := Some dest\<rparr>)
           else if json_reply rsp 500 then field_set (decode_ErrorResponse ''storageclient'' cr bodyBytes) (\<lambda>dest. response\<lparr>lbr_JSON500 := Some dest\<rparr>)
           else Inr response))"

record CreateBucketResponse =
  cbr_Body :: string
  cbr_HTTPResponse :: "reply option"
  cbr_JSON201 :: "Bucket option"
  cbr_JSON400 :: "ErrorResponse option"
  cbr_JSON401 :: "ErrorResponse option"
  cbr_JSON403 :: "ErrorResponse option"
  cbr_JSON409 :: "ErrorResponse option"
  cbr_JSON500 :: "ErrorResponse option"

definition cbr_StatusCode :: "CreateBucketResponse \<Rightarrow> int" where
  "cbr_StatusCode r = (case cbr_HTTPResponse r of Some rsp \<Rightarrow> rp_StatusCode rsp | None \<Rightarrow> 0)"

definition ParseCreateBucketResponse :: "client_runtime \<Rightarrow> reply \<Rightarrow> gerror + CreateBucketResponse" where
  "ParseCreateBucketResponse cr rsp =
     (case rp_Body rsp of
        Inl err \<Rightarrow> Inl err
      | Inr bodyBytes \<Rightarrow>
          (let response = \<lparr>cbr_Body = bodyBytes, cbr_HTTPResponse = Some rsp, cbr_JSON201 = None, cbr_JSON400 = None, cbr_JSON401 = None, cbr_JSON403 = None, cbr_JSON409 = None, cbr_JSON500 = None\<rparr> in
           if json_reply rsp 201 then field_set (decode_Bucket cr bodyBytes) (\<lambda>dest. response\<lparr>cbr_JSON201 := Some dest\<rparr>)
           else if json_reply rsp 400 then field_set (decode_ErrorResponse ''storageclient'' cr bodyBytes) (\<lambda>dest. response\<lparr>cbr_JSON400 := Some dest\<rparr>)
           else if json_reply rsp 401 then field_set (decode_ErrorResponse ''storageclient'' cr bodyBytes) (\<lambda>dest. response\<lparr>cbr_JSON401 := Some dest\<rparr>)
           else if json_reply rsp 403 then field_set (decode_ErrorResponse ''storageclient'' cr bodyBytes) (\<lambda>dest. response\<lparr>cbr_JSON403 := Some dest\<rparr>)
           else if json_reply rsp 409 then field_set (decode_ErrorResponse ''storageclient'' cr bodyBytes) (\<lambda>dest. response\<lparr>cbr_JSON409 := Some dest\<rparr>)
           else if json_reply rsp 500 then field_set (decode_ErrorResponse ''storageclient'' cr bodyBytes) (\<lambda>dest. response\<lparr>cbr_JSON500 := Some dest\<rparr>)
           else Inr response))"

record DeleteBucketResponse =
  dbr_Body :: string
  dbr_HTTPResponse :: "reply option"
  dbr_JSON401 :: "ErrorResponse option"
  dbr_JSON403 :: "ErrorResponse option"
  dbr_JSON404 :: "ErrorResponse option"
  dbr_JSON500 :: "ErrorResponse option"

definition dbr_StatusCode :: "DeleteBucketResponse \<Rightarrow> int" where
  "dbr_StatusCode r = (case dbr_HTTPResponse r of Some rsp \<Rightarrow> rp_StatusCode rsp | None \<Rightarrow> 0)"

definition ParseDeleteBucketResponse :: "client_runtime \<Rightarrow> reply \<Rightarrow> gerror + DeleteBucketResponse" where
  "ParseDeleteBucketResponse cr rsp =
     (case rp_Body rsp of
        Inl err \<Rightarrow> Inl err
      | Inr bodyBytes \<Rightarrow>
          (let response = \<lparr>dbr_Body = bodyBytes, dbr_HTTPResponse = Some rsp, dbr_JSON401 = None, dbr_JSON403 = None, dbr_JSON404 = None, dbr_JSON500 = None\<rparr> in
           if json_reply rsp 401 then field_set (decode_ErrorResponse ''storageclient'' cr bodyBytes) (\<lambda>dest. response\<lparr>dbr_JSON401 := Some dest\<rparr>)
           else if json_reply rsp 403 then field_set (decode_ErrorResponse ''storageclient'' cr bodyBytes) (\<lambda>dest. response\<lparr>dbr_JSON403 := Some dest\<rparr>)
           else if json_reply rsp 404 then field_set (decode_ErrorResponse ''storageclient'' cr bodyBytes) (\<lambda>dest. response\<lparr>dbr_JSON404 := Some dest\<rparr>)
           else if json_reply rsp 500 then field_set (decode_ErrorResponse ''storageclient'' cr bodyBytes) (\<lambda>dest. response\<lparr>dbr_JSON500 := Some dest\<rparr>)
           else Inr response))"

record GetBucketResponse =
  gbr_Body :: string
  gbr_HTTPResponse :: "reply option"
  gbr_JSON200 :: "Bucket option"
  gbr_JSON401 :: "ErrorResponse option"
  gbr_JSON403 :: "ErrorResponse option"
  gbr_JSON404 :: "ErrorResponse option"
  gbr_JSON500 :: "ErrorResponse option"

definition gbr_StatusCode :: "GetBucketResponse \<Rightarrow> int" where
  "gbr_StatusCode r = (case gbr_HTTPResponse r of Some rsp \<Rightarrow> rp_StatusCode rsp | None \<Rightarrow> 0)"

definition ParseGetBucketResponse :: "client_runtime \<Rightarrow> reply \<Rightarrow> gerror + GetBucketResponse" where
  "ParseGetBucketResponse cr rsp =
     (case rp_Body rsp of
        Inl err \<Rightarrow> Inl err
      | Inr bodyBytes \<Rightarrow>
          (let response = \<lparr>gbr_Body = bodyBytes, gbr_HTTPResponse = Some rsp, gbr_JSON200 = None, gbr_JSON401 = None, gbr_JSON403 = None, gbr_JSON404 = None, gbr_JSON500 = None\<rparr> in
           if json_reply rsp 200 then field_set (decode_Bucket cr bodyBytes) (\<lambda>dest. response\<lparr>gbr_JSON200 := Some dest\<rparr>)
           else if json_reply rsp 401 then field_set (decode_ErrorResponse ''storageclient'' cr bodyBytes) (\<lambda>dest. response\<lparr>gbr_JSON401 := Some dest\<rparr>)
           else if json_reply rsp 403 then field_set (decode_ErrorResponse ''storageclient'' cr bodyBytes) (\<lambda>dest. response\<lparr>gbr_JSON403 := Some dest\<rparr>)
           else if json_reply rsp 404 then field_set (decode_ErrorResponse ''storageclient'' cr bodyBytes) (\<lambda>dest. response\<lparr>gbr_JSON404 := Some dest\<rparr>)
           else if json_reply rsp 500 then field_set (decode_ErrorResponse ''storageclient'' cr bodyBytes) (\<lambda>dest. response\<lparr>gbr_JSON500 := Some dest\<rparr>)
           else Inr response))"

definition ListBucketsWithResponse :: "client_runtime \<Rightarrow> Client \<Rightarrow> string \<Rightarrow> string \<Rightarrow> RequestEditorFn list \<Rightarrow>
    (gerror + ListBucketsResponse) prog" where
  "ListBucketsWithResponse cr c tenant project reqEditors = parsed (ParseListBucketsResponse cr) (Client_ListBuckets cr c tenant project reqEditors)"

definition CreateBucketWithBodyWithResponse :: "client_runtime \<Rightarrow> Client \<Rightarrow> string \<Rightarrow> string \<Rightarrow> string \<Rightarrow> string \<Rightarrow> RequestEditorFn list \<Rightarrow>
    (gerror + CreateBucketResponse) prog" where
  "CreateBucketWithBodyWithResponse cr c tenant project contentType body reqEditors = parsed (ParseCreateBucketResponse cr) (Client_CreateBucketWithBody cr c tenant project contentType body reqEditors)"

definition CreateBucketWithResponse :: "client_runtime \<Rightarrow> Client \<Rightarrow> string \<Rightarrow> string \<Rightarrow> CreateBucketRequest \<Rightarrow> RequestEditorFn list \<Rightarrow>
    (gerror + CreateBucketResponse) prog" where
  "CreateBucketWithResponse cr c tenant project body reqEditors = parsed (ParseCreateBucketResponse cr) (Client_CreateBucket cr c tenant project body reqEditors)"

definition DeleteBucketWithResponse :: "client_runtime \<Rightarrow> Client \<Rightarrow> string \<Rightarrow> string \<Rightarrow> string \<Rightarrow> RequestEditorFn list \<Rightarrow>
    (gerror + DeleteBucketResponse) prog" where
  "DeleteBucketWithResponse cr c tenant project name reqEditors = parsed (ParseDeleteBucketResponse cr) (Client_DeleteBucket cr c tenant project name reqEditors)"

definition GetBucketWithResponse :: "client_runtime \<Rightarrow> Client \<Rightarrow> string \<Rightarrow> string \<Rightarrow> string \<Rightarrow> RequestEditorFn list \<Rightarrow>
    (gerror + GetBucketResponse) prog" where
  "GetBucketWithResponse cr c tenant project name reqEditors = parsed (ParseGetBucketResponse cr) (Client_GetBucket cr c tenant project name reqEditors)"

section \<open>What the server wrote is what the client reads\<close>

lemma ascii_bucket_names [simp]:
  "ascii ''createdAt''" "ascii ''name''" "ascii ''project''" "ascii ''region''" "ascii ''tenant''" "ascii ''versioning''"
  by (simp_all add: ascii_def)

lemma decode_Bucket:
  assumes "reads cr {} {bk_CreatedAt b}" "\<forall>s\<in>{bk_Name b, bk_Project b, bk_Tenant b}. utf8 s" "\<forall>s. bk_Region b = Some s \<longrightarrow> utf8 s"
  shows "\<exists>j. encode_Bucket b = Inr j \<and> decode_Bucket cr (Marshal j @ NL) = Inr b"
proof -
  from assms(1) obtain created where c: "marshal_time (bk_CreatedAt b) = Inr created" "cr_Time cr created = Inr (bk_CreatedAt b)"
    by (auto simp: reads_def)
  let ?j = "JObj
       ([(''createdAt'', created), (''name'', JStr (bk_Name b)), (''project'', JStr (bk_Project b))] @
        optional ''region'' JStr (bk_Region b) @ [(''tenant'', JStr (bk_Tenant b))] @
        optional ''versioning'' JBool (bk_Versioning b))"
  have "encode_Bucket b = Inr ?j" using c(1) by (simp add: encode_Bucket_def)
  moreover from marshal_time_ok [OF c(1)] c(2) have "decode_Bucket cr (Marshal ?j @ NL) = Inr b"
    unfolding decode_Bucket_def using assms
    by (subst Unmarshal_line; cases "bk_Region b"; cases "bk_Versioning b")
      (simp_all add: body_defs reads_def Bucket_fields_def bool_pointer_field_def no_bucket_def)
  ultimately show ?thesis by blast
qed

lemma create_bucket_body:
  assumes "NewCreateBucketRequest cr server tenant project b = Inr q" "utf8 (cb_Name b)" "\<forall>s. cb_Region b = Some s \<longrightarrow> utf8 s"
  shows "\<exists>body. cq_Body q = Some body \<and> decode_CreateBucketRequest rt body = Inr b"
proof -
  have "cq_Body q = Some (Marshal (encode_CreateBucketRequest b))"
    using assms(1) by (auto simp: NewCreateBucketRequest_def NewCreateBucketRequestWithBody_def with_project_def build_request_def
        Let_def split: sum.splits)
  moreover have "decode_CreateBucketRequest rt (Marshal (encode_CreateBucketRequest b)) = Inr b"
    using assms(2,3) unfolding decode_CreateBucketRequest_def encode_CreateBucketRequest_def
    by (subst decode_body_Marshal; cases "cb_Region b"; cases "cb_Versioning b")
      (simp_all add: CreateBucketRequest_fields_def body_defs bool_pointer_field_def)
  ultimately show ?thesis by blast
qed

lemma Parse_GetBucket:
  assumes "unsent w" "sendable 200 [401, 403, 404, 500] (\<lambda>a. reads cr {} {bk_CreatedAt a} \<and>
     (\<forall>s\<in>{bk_Name a, bk_Project a, bk_Tenant a}. utf8 s) \<and> (\<forall>s. bk_Region a = Some s \<longrightarrow> utf8 s)) r"
  defines "rsp \<equiv> reply_of (VisitGetBucketResponse r w)"
  shows "\<exists>body. ParseGetBucketResponse cr rsp = Inr \<lparr>gbr_Body = body, gbr_HTTPResponse = Some rsp, gbr_JSON200 = success_of r,
    gbr_JSON401 = failure_of 401 r, gbr_JSON403 = failure_of 403 r, gbr_JSON404 = failure_of 404 r, gbr_JSON500 = failure_of 500 r\<rparr>"
proof (cases r)
  case (Success c a)
  then show ?thesis using assms reply_json [of w] decode_Bucket [of cr a]
    by (auto simp: ParseGetBucketResponse_def VisitGetBucketResponse_def visit_response_def sendable_def success_of_def failure_of_def
        field_set_def unsent_def)
next
  case (Failure c b)
  then show ?thesis using assms reply_json [of w] decode_error [of b "''storageclient''" cr]
    by (auto simp: ParseGetBucketResponse_def VisitGetBucketResponse_def visit_response_def sendable_def success_of_def failure_of_def
        field_set_def unsent_def)
qed

end
