(* ===== verification/ConfigLoader.thy ===== *)
theory ConfigLoader
  imports GoErrors "HOL-Library.AList" "HOL-Library.Multiset"
begin

text \<open>
  \<open>internal/config\<close>: the configuration loader. Viper, mapstructure and the validator are libraries and
  appear as arguments: \<open>viper\<close> is the record of the methods the loader calls on a viper object of type
  \<open>'v\<close>, where \<open>'x\<close> are the values of a configuration map and \<open>'t\<close> the configuration structs. What the
  loader relies on is \<open>viper_laws\<close>, viper's documented behaviour. A Go map is an association list
  with distinct keys in the order a \<open>range\<close> statement meets them, which Go leaves open.
\<close>

section \<open>Flattening\<close>

datatype 'x any = Val 'x | Nested "(string \<times> 'x any) list"

fun put_all :: "(string \<times> 'x) list \<Rightarrow> (string \<times> 'x) list \<Rightarrow> (string \<times> 'x) list" where
  "put_all result [] = result"
| "put_all result ((nk, nv) # m) = put_all (AList.update nk nv result) m"

definition key_path :: "string \<Rightarrow> string \<Rightarrow> string" where
  "key_path pre k = (if pre \<noteq> [] then pre @ ''.'' @ k else k)"

text \<open>The loop of \<open>flattenMap\<close> over the rest of the map, with the result so far.\<close>

fun flatten_loop :: "(string \<times> 'x) list \<Rightarrow> (string \<times> 'x any) list \<Rightarrow> string \<Rightarrow> (string \<times> 'x) list" where
  "flatten_loop result [] pre = result"
| "flatten_loop result ((k, Nested n) # m) pre =
     flatten_loop (put_all result (flatten_loop [] n (key_path pre k))) m pre"
| "flatten_loop result ((k, Val x) # m) pre = flatten_loop (AList.update (key_path pre k) x result) m pre"

definition flattenMap :: "(string \<times> 'x any) list \<Rightarrow> string \<Rightarrow> (string \<times> 'x) list" where
  "flattenMap m pre = flatten_loop [] m pre"

text \<open>What a key path means: the value that stands in the nested map under its segments.\<close>

fun leaf_at :: "(string \<times> 'x any) list \<Rightarrow> string list \<Rightarrow> 'x option" where
  "leaf_at m [] = None"
| "leaf_at m (k # p) = (case map_of m k of
       None \<Rightarrow> None
     | Some (Val x) \<Rightarrow> if p = [] then Some x else None
     | Some (Nested n) \<Rightarrow> leaf_at n p)"

text \<open>A map whose keys are distinct, not empty and without dots, at every level.\<close>

fun dot_free :: "(string \<times> 'x any) list \<Rightarrow> bool" where
  "dot_free [] \<longleftrightarrow> True"
| "dot_free ((k, v) # m) \<longleftrightarrow> k \<noteq> [] \<and> CHR ''.'' \<notin> set k \<and> k \<notin> fst ` set m \<and>
     (case v of Val _ \<Rightarrow> True | Nested n \<Rightarrow> dot_free n) \<and> dot_free m"

lemma map_of_put_all [simp]: "map_of (put_all result m) = map_of result ++ map_of (rev m)"
  by (induction result m rule: put_all.induct) (simp_all add: update_conv' map_add_def fun_eq_iff split: option.split)

lemma distinct_put_all: "distinct (map fst result) \<Longrightarrow> distinct (map fst (put_all result m))"
  by (induction result m rule: put_all.induct) (simp_all add: distinct_update)

lemma distinct_flatten: "distinct (map fst result) \<Longrightarrow> distinct (map fst (flatten_loop result m pre))"
  by (induction result m pre rule: flatten_loop.induct) (simp_all add: distinct_update distinct_put_all)

lemma map_of_rev: "distinct (map fst xs) \<Longrightarrow> map_of (rev xs) = map_of xs"
  by (intro map_of_eqI) (auto simp: rev_map [symmetric] intro!: map_of_is_SomeI)

text \<open>The segments of a key below a path.\<close>

definition strip_path :: "string \<Rightarrow> string \<Rightarrow> string option" where
  "strip_path pre key = (if pre = [] then Some key
     else if HasPrefix key (pre @ ''.'') then Some (TrimPrefix key (pre @ ''.'')) else None)"

definition below :: "string \<Rightarrow> string \<Rightarrow> string list" where
  "below pre key = (case strip_path pre key of None \<Rightarrow> [] | Some s \<Rightarrow> Split s (CHR ''.''))"

lemma strip_path_iff: "strip_path pre key = Some s \<longleftrightarrow> key = (if pre = [] then s else pre @ ''.'' @ s)"
proof -
  have "HasPrefix key p \<and> TrimPrefix key p = s \<longleftrightarrow> key = p @ s" for p
    using HasPrefix_append [of p s] TrimPrefix_append [of p s]
    by (auto simp: HasPrefix_iff_prefix elim!: prefixE)
  from this [of "pre @ ''.''"] show ?thesis by (auto simp: strip_path_def)
qed

lemma Split_Cons_no_sep: "CHR ''.'' \<notin> set k \<Longrightarrow> Split s (CHR ''.'') = k # p \<longleftrightarrow>
    (if p = [] then s = k else \<exists>t. s = k @ ''.'' @ t \<and> Split t (CHR ''.'') = p)"
proof (induction s arbitrary: k)
  case Nil
  then show ?case by auto
next
  case (Cons c s)
  show ?case
  proof (cases "c = CHR ''.''")
    case True
    then show ?thesis using Cons.prems by (cases k) (auto simp: Cons_eq_append_conv)
  next
    case False
    show ?thesis
    proof (cases k)
      case Nil
      then show ?thesis using False by (auto split: list.splits)
    next
      case (Cons d k')
      obtain f fs where f: "Split s (CHR ''.'') = f # fs" by (cases "Split s (CHR ''.'')") simp_all
      show ?thesis using Cons.IH [of k'] Cons.prems Cons False f by auto
    qed
  qed
qed

lemma below_key_path:
  assumes "k \<noteq> []" "CHR ''.'' \<notin> set k"
  shows "below (key_path pre k) key = (case below pre key of [] \<Rightarrow> [] | k' # p \<Rightarrow> if k' = k then p else [])" (is ?steps)
    and "key = key_path pre k \<longleftrightarrow> below pre key = [k]" (is ?leaf)
proof -
  show ?leaf
  proof -
    have "below pre key = [k] \<longleftrightarrow> strip_path pre key = Some k"
      using Split_Cons_no_sep [OF assms(2), of _ "[]"] by (simp add: below_def split: option.split)
    then show ?thesis by (simp add: strip_path_iff key_path_def)
  qed
  have path: "key_path pre k \<noteq> []" using assms(1) by (simp add: key_path_def)
  show ?steps
  proof (cases "strip_path (key_path pre k) key")
    case (Some t)
    then have "strip_path pre key = Some (k @ ''.'' @ t)" unfolding strip_path_iff using path assms(1) by (simp add: key_path_def)
    then show ?thesis using Some Split_append [OF assms(2), of t] by (simp add: below_def)
  next
    case None
    have "p = []" if "below pre key = k # p" for p
    proof (rule ccontr)
      assume "p \<noteq> []"
      with that obtain s t where "strip_path pre key = Some s" "s = k @ ''.'' @ t"
        using Split_Cons_no_sep [OF assms(2), of _ p] by (auto simp: below_def split: option.splits)
      then have "strip_path (key_path pre k) key = Some t"
        unfolding strip_path_iff using path by (simp add: key_path_def split: if_splits)
      then show False using None by simp
    qed
    then show ?thesis using None by (auto simp: below_def [of "key_path pre k"] split: list.splits)
  qed
qed

lemma leaf_at_Cons:
  assumes "k \<notin> fst ` set m"
  shows "leaf_at ((k, v) # m) p = (case p of [] \<Rightarrow> None | k' # q \<Rightarrow>
      if k' = k then (case v of Val x \<Rightarrow> if q = [] then Some x else None | Nested n \<Rightarrow> leaf_at n q) else leaf_at m p)"
    and "leaf_at m (k # q) = None"
proof -
  have "map_of m k = None" using assms by (simp add: map_of_eq_None_iff)
  then show "leaf_at m (k # q) = None"
    "leaf_at ((k, v) # m) p = (case p of [] \<Rightarrow> None | k' # q \<Rightarrow>
      if k' = k then (case v of Val x \<Rightarrow> if q = [] then Some x else None | Nested n \<Rightarrow> leaf_at n q) else leaf_at m p)"
    by (simp_all split: list.split any.split)
qed

lemma flatten_loop_lookup:
  "dot_free m \<Longrightarrow> map_of (flatten_loop result m pre) key = (case leaf_at m (below pre key) of Some x \<Rightarrow> Some x | None \<Rightarrow> map_of result key)"
proof (induction result m pre arbitrary: key rule: flatten_loop.induct)
  case (1 result pre)
  show ?case by (cases "below pre key") simp_all
next
  case (2 result k n m pre)
  then have k: "k \<noteq> []" "CHR ''.'' \<notin> set k" "k \<notin> fst ` set m" and d: "dot_free n" "dot_free m" by auto
  have "distinct (map fst (flatten_loop [] n (key_path pre k)))" by (rule distinct_flatten) simp
  then show ?case using 2(1) [OF d(1)] 2(2) [OF d(2)] leaf_at_Cons(2) [OF k(3)]
    by (auto simp: leaf_at_Cons(1) [OF k(3)] below_key_path(1) [OF k(1,2)] map_of_rev map_add_def
        split: list.splits option.splits)
next
  case (3 result k x m pre)
  then have k: "k \<noteq> []" "CHR ''.'' \<notin> set k" "k \<notin> fst ` set m" and d: "dot_free m" by auto
  show ?case using 3(1) [OF d] below_key_path(2) [OF k(1,2), of key pre] leaf_at_Cons(2) [OF k(3)]
    by (auto simp: leaf_at_Cons(1) [OF k(3)] update_conv' split: list.splits option.splits)
qed

text \<open>The flat map holds under a key what the nested map holds under its segments.\<close>

lemma flattenMap_lookup: "dot_free m \<Longrightarrow> map_of (flattenMap m []) key = leaf_at m (Split key (CHR ''.''))"
  by (simp add: flattenMap_def flatten_loop_lookup below_def strip_path_def split: option.split)

section \<open>The loader\<close>

record Options =
  EnvPrefix :: string
  ConfigFile :: string
  SecretsDir :: string

text \<open>The process environment the loader reads, and the methods of the libraries it calls.\<close>

record os =
  os_Getenv :: "string \<Rightarrow> string"
  os_Stat :: "string \<Rightarrow> gerror option"
  os_ReadDir :: "string \<Rightarrow> gerror + (string \<times> bool) list"
  os_ReadFile :: "string \<Rightarrow> gerror + string"

record ('v, 'x, 't) viper =
  vp_New :: 'v
  vp_SetDefault :: "string \<Rightarrow> 'x \<Rightarrow> 'v \<Rightarrow> 'v"
  vp_SetConfigFile :: "string \<Rightarrow> 'v \<Rightarrow> 'v"
  vp_ReadInConfig :: "'v \<Rightarrow> gerror option \<times> 'v"
  vp_SetEnvPrefix :: "string \<Rightarrow> 'v \<Rightarrow> 'v"
  vp_AutomaticEnv :: "'v \<Rightarrow> 'v"
  vp_SetEnvKeyReplacer :: "(string \<times> string) list \<Rightarrow> 'v \<Rightarrow> 'v"
  vp_Set :: "string \<Rightarrow> string \<Rightarrow> 'v \<Rightarrow> 'v"
  vp_Unmarshal :: "'v \<Rightarrow> gerror + 't"
  ms_NewDecoder :: "gerror option"
  ms_Decode :: "'t \<Rightarrow> gerror + (string \<times> 'x any) list"
  validate_Struct :: "'t \<Rightarrow> gerror option"
  range_order :: "(string \<times> 'x) list \<Rightarrow> (string \<times> 'x) list"

definition resolveOptions :: "Options list \<Rightarrow> Options" where
  "resolveOptions opts = (case opts of [] \<Rightarrow> \<lparr>EnvPrefix = [], ConfigFile = [], SecretsDir = []\<rparr> | o' # _ \<Rightarrow> o')"

definition structToMap :: "('v, 'x, 't) viper \<Rightarrow> 't \<Rightarrow> gerror + (string \<times> 'x) list" where
  "structToMap L v = (case ms_NewDecoder L of
     Some err \<Rightarrow> Inl (Errorf ''creating mapstructure decoder: '' err)
   | None \<Rightarrow> (case ms_Decode L v of
         Inl err \<Rightarrow> Inl (Errorf ''decoding defaults with mapstructure: '' err)
       | Inr nested \<Rightarrow> Inr (flattenMap nested [])))"

text \<open>\<open>filepath.Join\<close> of a directory, which is not empty, and a file name.\<close>

fun Clean_segments :: "bool \<Rightarrow> string list \<Rightarrow> string list \<Rightarrow> string list" where
  "Clean_segments rooted acc [] = rev acc"
| "Clean_segments rooted acc (x # xs) =
     (if x = [] \<or> x = ''.'' then Clean_segments rooted acc xs
      else if x = ''..'' then
        (if acc \<noteq> [] \<and> hd acc \<noteq> ''..'' then Clean_segments rooted (tl acc) xs
         else if rooted then Clean_segments rooted acc xs else Clean_segments rooted (x # acc) xs)
      else Clean_segments rooted (x # acc) xs)"

definition filepath_Clean :: "string \<Rightarrow> string" where
  "filepath_Clean p =
     (let rooted = HasPrefix p ''/''; q = Join (Clean_segments rooted [] (Split p (CHR ''/''))) ''/'' in
      if rooted then ''/'' @ q else if q = [] then ''.'' else q)"

definition filepath_Join :: "string \<Rightarrow> string \<Rightarrow> string" where
  "filepath_Join dir name = filepath_Clean (dir @ ''/'' @ name)"

fun load_entries :: "('v, 'x, 't) viper \<Rightarrow> os \<Rightarrow> string \<Rightarrow> (string \<times> bool) list \<Rightarrow> 'v \<Rightarrow> gerror + 'v" where
  "load_entries L env dir [] v = Inr v"
| "load_entries L env dir ((name, is_dir) # entries) v =
     (if is_dir \<or> HasPrefix name ''.'' then load_entries L env dir entries v
      else case os_ReadFile env (filepath_Join dir name) of
          Inl err \<Rightarrow> Inl (Errorf (''reading secret file '' @ Quote name @ '': '') err)
        | Inr content \<Rightarrow> load_entries L env dir entries (vp_Set L (ToLower name) (TrimSpace content) v))"

definition loadSecretFiles :: "('v, 'x, 't) viper \<Rightarrow> os \<Rightarrow> 'v \<Rightarrow> string \<Rightarrow> gerror + 'v" where
  "loadSecretFiles L env v dir = (case os_ReadDir env dir of
     Inl err \<Rightarrow> Inl (Errorf ''reading secrets directory: '' err)
   | Inr entries \<Rightarrow> load_entries L env dir entries v)"

fun set_defaults :: "('v, 'x, 't) viper \<Rightarrow> (string \<times> 'x) list \<Rightarrow> 'v \<Rightarrow> 'v" where
  "set_defaults L [] v = v"
| "set_defaults L ((key, val) # m) v = set_defaults L m (vp_SetDefault L key val v)"

definition config_file :: "os \<Rightarrow> Options \<Rightarrow> string" where
  "config_file env o' = (if ConfigFile o' \<noteq> [] then ConfigFile o'
     else if os_Getenv env ''CF_CONFIG_FILE'' \<noteq> [] then os_Getenv env ''CF_CONFIG_FILE'' else ''config.yaml'')"

definition env_prefix :: "Options \<Rightarrow> string" where
  "env_prefix o' = (if EnvPrefix o' = [] then ''CF'' else EnvPrefix o')"

definition secrets_dir :: "os \<Rightarrow> Options \<Rightarrow> string" where
  "secrets_dir env o' = (if SecretsDir o' = [] then os_Getenv env ''CF_SECRETS_DIR'' else SecretsDir o')"

definition Load :: "('v, 'x, 't) viper \<Rightarrow> os \<Rightarrow> 't \<Rightarrow> Options list \<Rightarrow> gerror + 't" where
  "Load L env defaults opts =
     (let o' = resolveOptions opts; v = vp_New L in
      case structToMap L defaults of
        Inl err \<Rightarrow> Inl (Errorf ''config: encoding defaults: '' err)
      | Inr defaultMap \<Rightarrow>
     (let v = set_defaults L (range_order L defaultMap) v;
          configFile = config_file env o';
          v = vp_SetConfigFile L configFile v in
      case vp_ReadInConfig L v of (read_err, v) \<Rightarrow>
      if read_err \<noteq> None \<and> os_Stat env configFile = None
      then Inl (Errorf (''config: reading config file '' @ Quote configFile @ '': '') (the read_err))
      else
     (let v = vp_SetEnvPrefix L (env_prefix o') v;
          v = vp_AutomaticEnv L v;
          v = vp_SetEnvKeyReplacer L [(''.'', ''_''), (''-'', ''_'')] v;
          secretsDir = secrets_dir env o' in
      case (if secretsDir \<noteq> [] then loadSecretFiles L env v secretsDir else Inr v) of
        Inl err \<Rightarrow> Inl (Errorf (''config: loading secrets from '' @ Quote secretsDir @ '': '') err)
      | Inr v \<Rightarrow>
      (case vp_Unmarshal L v of
         Inl err \<Rightarrow> Inl (Errorf ''config: unmarshalling config: '' err)
       | Inr cfg \<Rightarrow>
           (case validate_Struct L cfg of
              Some err \<Rightarrow> Inl (Errorf ''config: validation failed: '' err)
            | None \<Rightarrow> Inr cfg)))))"

text \<open>\<open>MustLoad\<close>: a configuration, or the text of the panic.\<close>

definition MustLoad :: "('v, 'x, 't) viper \<Rightarrow> os \<Rightarrow> 't \<Rightarrow> Options list \<Rightarrow> string + 't" where
  "MustLoad L env defaults opts = (case Load L env defaults opts of
     Inl err \<Rightarrow> Inl (''cloudforge: failed to load configuration: '' @ Error_String err) | Inr cfg \<Rightarrow> Inr cfg)"

section \<open>What viper documents\<close>

text \<open>
  The sources a viper object has been given. Its documented precedence is: an explicit \<open>Set\<close>, an
  environment variable, the configuration file, a default; keys are case-insensitive, an empty
  variable counts as not set, and \<open>Unmarshal\<close> sees the keys that some source other than the environment
  has. A key that continues another key shadows it, which the law leaves out.
\<close>

datatype 'x setting = Typed 'x | TextValue string

record 'x layers =
  ly_defaults :: "string \<rightharpoonup> 'x"
  ly_path :: string
  ly_file :: "string \<rightharpoonup> 'x"
  ly_prefix :: string
  ly_automatic :: bool
  ly_replacer :: "(string \<times> string) list"
  ly_overrides :: "string \<rightharpoonup> string"

definition ToUpper :: "string \<Rightarrow> string" where
  "ToUpper s = map (\<lambda>c. if 97 \<le> (of_char c :: nat) \<and> (of_char c :: nat) \<le> 122 then char_of ((of_char c :: nat) - 32) else c) s"

definition Replace_bytes :: "(string \<times> string) list \<Rightarrow> string \<Rightarrow> string" where
  "Replace_bytes oldnew s = concat (map (\<lambda>c. case map_of oldnew [c] of Some r \<Rightarrow> r | None \<Rightarrow> [c]) s)"

definition env_name :: "string \<Rightarrow> (string \<times> string) list \<Rightarrow> string \<Rightarrow> string" where
  "env_name pre oldnew key = Replace_bytes oldnew (ToUpper (pre @ ''_'' @ key))"

definition known_keys :: "'x layers \<Rightarrow> string set" where
  "known_keys ly = dom (ly_defaults ly) \<union> dom (ly_file ly) \<union> dom (ly_overrides ly)"

definition settings :: "os \<Rightarrow> 'x layers \<Rightarrow> string \<rightharpoonup> 'x setting" where
  "settings env ly k =
     (if k \<notin> known_keys ly then None
      else case ly_overrides ly k of
        Some s \<Rightarrow> Some (TextValue s)
      | None \<Rightarrow>
          (let s = os_Getenv env (env_name (ly_prefix ly) (ly_replacer ly) k) in
           if ly_automatic ly \<and> s \<noteq> [] then Some (TextValue s)
           else map_option Typed ((ly_defaults ly ++ ly_file ly) k)))"

definition unshadowed :: "string set \<Rightarrow> bool" where
  "unshadowed ks \<longleftrightarrow> (\<forall>k\<in>ks. \<forall>k'\<in>ks. \<not> HasPrefix k (k' @ ''.''))"

definition viper_laws :: "('v, 'x, 't) viper \<Rightarrow> os \<Rightarrow> (string \<Rightarrow> gerror + (string \<rightharpoonup> 'x)) \<Rightarrow> ('v \<Rightarrow> 'x layers) \<Rightarrow>
    ((string \<rightharpoonup> 'x setting) \<Rightarrow> gerror + 't) \<Rightarrow> bool" where
  "viper_laws L env yaml ly populate \<longleftrightarrow>
     ly (vp_New L) = \<lparr>ly_defaults = Map.empty, ly_path = [], ly_file = Map.empty, ly_prefix = [], ly_automatic = False,
       ly_replacer = [], ly_overrides = Map.empty\<rparr> \<and>
     (\<forall>k x v. ly (vp_SetDefault L k x v) = (ly v)\<lparr>ly_defaults := (ly_defaults (ly v))(ToLower k \<mapsto> x)\<rparr>) \<and>
     (\<forall>p v. ly (vp_SetConfigFile L p v) = (ly v)\<lparr>ly_path := p\<rparr>) \<and>
     (\<forall>v. case yaml (ly_path (ly v)) of
        Inl e \<Rightarrow> (\<exists>v'. vp_ReadInConfig L v = (Some e, v') \<and> ly v' = ly v)
      | Inr m \<Rightarrow> (\<exists>v'. vp_ReadInConfig L v = (None, v') \<and> ly v' = (ly v)\<lparr>ly_file := m\<rparr>)) \<and>
     (\<forall>p v. ly (vp_SetEnvPrefix L p v) = (ly v)\<lparr>ly_prefix := p\<rparr>) \<and>
     (\<forall>v. ly (vp_AutomaticEnv L v) = (ly v)\<lparr>ly_automatic := True\<rparr>) \<and>
     (\<forall>r v. ly (vp_SetEnvKeyReplacer L r v) = (ly v)\<lparr>ly_replacer := r\<rparr>) \<and>
     (\<forall>k s v. ly (vp_Set L k s v) = (ly v)\<lparr>ly_overrides := (ly_overrides (ly v))(ToLower k \<mapsto> s)\<rparr>) \<and>
     (\<forall>v. unshadowed (known_keys (ly v)) \<longrightarrow> vp_Unmarshal L v = populate (settings env (ly v))) \<and>
     (\<forall>m. mset (range_order L m) = mset m)"

section \<open>Precedence\<close>

text \<open>The documented precedence: secrets over the environment over the file over the defaults.\<close>

definition precedence :: "(string \<Rightarrow> string) \<Rightarrow> (string \<rightharpoonup> 'x) \<Rightarrow> (string \<rightharpoonup> 'x) \<Rightarrow> (string \<rightharpoonup> string) \<Rightarrow> string \<rightharpoonup> 'x setting" where
  "precedence variable defaults file secrets k =
     (if k \<notin> dom defaults \<union> dom file \<union> dom secrets then None
      else if k \<in> dom secrets then map_option TextValue (secrets k)
      else if variable k \<noteq> [] then Some (TextValue (variable k))
      else if k \<in> dom file then map_option Typed (file k)
      else map_option Typed (defaults k))"

lemma settings_precedence:
  "ly_automatic ly \<Longrightarrow> settings env ly = precedence (\<lambda>k. os_Getenv env (env_name (ly_prefix ly) (ly_replacer ly) k))
     (ly_defaults ly) (ly_file ly) (ly_overrides ly)"
  by (auto simp: fun_eq_iff settings_def precedence_def known_keys_def Let_def map_add_def split: option.splits)

text \<open>The secrets of a directory: its regular files, by lower-case name, the last of a name first.\<close>

fun read_secrets :: "os \<Rightarrow> string \<Rightarrow> (string \<times> bool) list \<Rightarrow> (string \<times> string) list option" where
  "read_secrets env dir [] = Some []"
| "read_secrets env dir ((name, is_dir) # entries) =
     (if is_dir \<or> HasPrefix name ''.'' then read_secrets env dir entries
      else case os_ReadFile env (filepath_Join dir name) of
          Inl err \<Rightarrow> None
        | Inr content \<Rightarrow> map_option (\<lambda>ss. ss @ [(ToLower name, TrimSpace content)]) (read_secrets env dir entries))"

lemma ToLower_ToLower [simp]: "ToLower (ToLower s) = ToLower s"
  by (induction s) (simp_all add: ToLower_def lower_char_def of_char_of)

lemma ly_set_defaults:
  assumes "viper_laws L env yaml ly populate"
  shows "\<forall>k\<in>fst ` set m. ToLower k = k \<Longrightarrow>
    ly (set_defaults L m v) = (ly v)\<lparr>ly_defaults := ly_defaults (ly v) ++ map_of (rev m)\<rparr>"
proof (induction m arbitrary: v)
  case (Cons a m)
  have "ly (vp_SetDefault L k x v) = (ly v)\<lparr>ly_defaults := (ly_defaults (ly v))(ToLower k \<mapsto> x)\<rparr>" for k x v
    using assms by (simp add: viper_laws_def)
  then show ?case using Cons by (cases a) (simp add: map_add_def fun_eq_iff split: option.split)
qed simp

lemma ly_load_entries:
  assumes "viper_laws L env yaml ly populate"
  shows "read_secrets env' dir entries = Some ss \<Longrightarrow>
     \<exists>v'. load_entries L env' dir entries v = Inr v' \<and> ly v' = (ly v)\<lparr>ly_overrides := ly_overrides (ly v) ++ map_of ss\<rparr>"
proof (induction entries arbitrary: v ss)
  case (Cons a entries)
  obtain name is_dir where a: "a = (name, is_dir)" by (cases a)
  have set: "ly (vp_Set L k s v) = (ly v)\<lparr>ly_overrides := (ly_overrides (ly v))(ToLower k \<mapsto> s)\<rparr>" for k s v
    using assms by (simp add: viper_laws_def)
  show ?case
  proof (cases "is_dir \<or> HasPrefix name ''.''")
    case True
    then show ?thesis using Cons a by simp
  next
    case False
    then obtain content rest where c: "os_ReadFile env' (filepath_Join dir name) = Inr content"
      and rest: "read_secrets env' dir entries = Some rest" "ss = rest @ [(ToLower name, TrimSpace content)]"
      using Cons.prems a by (auto split: sum.splits)
    from Cons.IH [OF rest(1), of "vp_Set L (ToLower name) (TrimSpace content) v"] show ?thesis
      using False a c rest(2) by (auto simp: set map_add_def fun_eq_iff split: option.splits)
  qed
qed simp

text \<open>The layers of the viper object at the end of the loader, and what \<open>Load\<close> makes of them.\<close>

lemma Load_settings:
  assumes laws: "viper_laws L env yaml ly populate"
    and nested: "ms_NewDecoder L = None" "ms_Decode L defaults = Inr nested" "dot_free nested"
    and lower: "\<forall>k\<in>fst ` set (flattenMap nested []). ToLower k = k"
    and fromfile: "yaml (config_file env o') = Inr file \<or> (\<exists>e. yaml (config_file env o') = Inl e) \<and> os_Stat env (config_file env o') \<noteq> None \<and> file = Map.empty"
    and secrets: "if secrets_dir env o' = [] then ss = []
      else \<exists>entries. os_ReadDir env (secrets_dir env o') = Inr entries \<and> read_secrets env (secrets_dir env o') entries = Some ss"
    and o': "o' = resolveOptions opts"
    and shadow: "unshadowed (dom (map_of (flattenMap nested [])) \<union> dom file \<union> dom (map_of ss))"
  shows "Load L env defaults opts =
    (case populate (precedence (\<lambda>k. os_Getenv env (env_name (env_prefix o') [(''.'', ''_''), (''-'', ''_'')] k))
        (map_of (flattenMap nested [])) file (map_of ss)) of
       Inl err \<Rightarrow> Inl (Errorf ''config: unmarshalling config: '' err)
     | Inr cfg \<Rightarrow> (case validate_Struct L cfg of
           Some err \<Rightarrow> Inl (Errorf ''config: validation failed: '' err) | None \<Rightarrow> Inr cfg))"
proof -
  let ?m = "flattenMap nested []" and ?path = "config_file env o'" and ?rep = "[(''.'', ''_''), (''-'', ''_'')]"
  define v1 where "v1 = vp_SetConfigFile L ?path (set_defaults L (range_order L ?m) (vp_New L))"
  have order: "mset (range_order L ?m) = mset ?m" using laws by (simp add: viper_laws_def)
  have dist: "distinct (map fst ?m)" unfolding flattenMap_def by (rule distinct_flatten) simp
  then have dist': "distinct (map fst (range_order L ?m))" using order by (metis mset_map mset_eq_imp_distinct_iff)
  have "map_of (rev (range_order L ?m)) = map_of ?m"
    using dist dist' order by (simp add: map_of_rev map_of_inject_set [OF dist' dist] flip: set_mset_mset)
  moreover have "\<forall>k\<in>fst ` set (range_order L ?m). ToLower k = k" using lower order by (simp flip: set_mset_mset)
  ultimately have v1: "ly v1 = \<lparr>ly_defaults = map_of ?m, ly_path = ?path, ly_file = Map.empty, ly_prefix = [], ly_automatic = False,
      ly_replacer = [], ly_overrides = Map.empty\<rparr>"
    using laws ly_set_defaults [OF laws, of "range_order L ?m" "vp_New L"] by (simp add: v1_def viper_laws_def)
  have read: "case yaml (ly_path (ly v1)) of
        Inl e \<Rightarrow> (\<exists>v'. vp_ReadInConfig L v1 = (Some e, v') \<and> ly v' = ly v1)
      | Inr m \<Rightarrow> (\<exists>v'. vp_ReadInConfig L v1 = (None, v') \<and> ly v' = (ly v1)\<lparr>ly_file := m\<rparr>)"
    using laws unfolding viper_laws_def by blast
  obtain err v2 where v2: "vp_ReadInConfig L v1 = (err, v2)" "err = None \<or> os_Stat env ?path \<noteq> None" "ly v2 = (ly v1)\<lparr>ly_file := file\<rparr>"
    using fromfile read v1 by (auto split: sum.splits)
  define v3 where "v3 = vp_SetEnvKeyReplacer L ?rep (vp_AutomaticEnv L (vp_SetEnvPrefix L (env_prefix o') v2))"
  have v3: "ly v3 = (ly v2)\<lparr>ly_prefix := env_prefix o', ly_automatic := True, ly_replacer := ?rep\<rparr>"
    using laws by (simp add: v3_def viper_laws_def)
  obtain v4 where v4: "(if secrets_dir env o' \<noteq> [] then loadSecretFiles L env v3 (secrets_dir env o') else Inr v3) = Inr v4"
    "ly v4 = (ly v3)\<lparr>ly_overrides := map_of ss\<rparr>"
  proof (cases "secrets_dir env o' = []")
    case True
    then show ?thesis using that [of v3] secrets v1 v2(3) v3 by simp
  next
    case False
    then obtain entries where e: "os_ReadDir env (secrets_dir env o') = Inr entries" "read_secrets env (secrets_dir env o') entries = Some ss"
      using secrets by auto
    from ly_load_entries [OF laws e(2), of v3] e(1) False show ?thesis
      using that v1 v2(3) v3 by (auto simp: loadSecretFiles_def)
  qed
  have ly4: "ly v4 = \<lparr>ly_defaults = map_of ?m, ly_path = ?path, ly_file = file, ly_prefix = env_prefix o', ly_automatic = True,
      ly_replacer = ?rep, ly_overrides = map_of ss\<rparr>"
    using v1 v2(3) v3 v4(2) by simp
  then have "unshadowed (known_keys (ly v4))" using shadow by (simp add: known_keys_def)
  moreover have "unshadowed (known_keys (ly v4)) \<longrightarrow> vp_Unmarshal L v4 = populate (settings env (ly v4))"
    using laws unfolding viper_laws_def by blast
  ultimately have um: "vp_Unmarshal L v4 = populate (precedence (\<lambda>k. os_Getenv env (env_name (env_prefix o') ?rep k)) (map_of ?m) file (map_of ss))"
    using settings_precedence [of "ly v4" env] ly4 by simp
  have guard: "(err \<noteq> None \<and> os_Stat env ?path = None) \<longleftrightarrow> False" using v2(2) by blast
  show ?thesis
    unfolding Load_def Let_def structToMap_def nested(1,2) option.case sum.case o' [symmetric] v1_def [symmetric] v2(1) prod.case
      v3_def [symmetric] v4(1) guard if_False um by (rule refl)
qed

text \<open>A configuration file that exists but cannot be read fails the load.\<close>

lemma Load_bad_file:
  assumes laws: "viper_laws L env yaml ly populate"
    and nested: "ms_NewDecoder L = None" "ms_Decode L defaults = Inr nested"
    and "o' = resolveOptions opts" "yaml (config_file env o') = Inl e" "os_Stat env (config_file env o') = None"
  shows "Load L env defaults opts = Inl (Errorf (''config: reading config file '' @ Quote (config_file env o') @ '': '') e)"
proof -
  define v1 where "v1 = vp_SetConfigFile L (config_file env o') (set_defaults L (range_order L (flattenMap nested [])) (vp_New L))"
  have "ly_path (ly v1) = config_file env o'" using laws by (simp add: v1_def viper_laws_def)
  moreover have "case yaml (ly_path (ly v1)) of Inl e \<Rightarrow> (\<exists>v'. vp_ReadInConfig L v1 = (Some e, v') \<and> ly v' = ly v1)
      | Inr m \<Rightarrow> (\<exists>v'. vp_ReadInConfig L v1 = (None, v') \<and> ly v' = (ly v1)\<lparr>ly_file := m\<rparr>)"
    using laws unfolding viper_laws_def by blast
  ultimately obtain v2 where "vp_ReadInConfig L v1 = (Some e, v2)" using assms(5) by auto
  from this [unfolded v1_def assms(4)] show ?thesis
    using assms(2,3,6) by (simp add: Load_def Let_def structToMap_def assms(4))
qed

end
