(* ===== verification/Logging.thy ===== *)
theory Logging
  imports Middleware
begin

text \<open>
  \<open>internal/logging\<close>: the construction of a service's logger and the handlers of the package. The
  handlers of \<open>log/slog\<close> and of the OpenTelemetry bridge are sinks: a sink holds the attributes and groups
  it was derived with, and what it does with a record (the text it writes, its error) is an argument. A
  handler is a tree of fan-outs over sinks, and \<open>Handle\<close> yields the deliveries to sinks in order. (The
  contexts that carry a logger are in \<open>Middleware\<close>.)
\<close>

section \<open>Handlers\<close>

datatype derivation = Attrs "attr list" | Group string

datatype 'b slog_handler = Sink 'b "derivation list" | FanOut "'b slog_handler list" | NoopHandler

record log_record =
  lr_Level :: int
  lr_Message :: string
  lr_Attrs :: "attr list"

text \<open>What the sinks of a program do: whether they take a level, and the error of writing a record.\<close>

record ('b, 'ctx) sinks =
  sink_Enabled :: "'b \<Rightarrow> 'ctx \<Rightarrow> int \<Rightarrow> bool"
  sink_Handle :: "'b \<Rightarrow> derivation list \<Rightarrow> 'ctx \<Rightarrow> log_record \<Rightarrow> gerror option"

type_synonym 'b delivery = "'b \<times> derivation list \<times> log_record"

fun slog_Enabled :: "('b, 'ctx) sinks \<Rightarrow> 'b slog_handler \<Rightarrow> 'ctx \<Rightarrow> int \<Rightarrow> bool" where
  "slog_Enabled S (Sink b ds) ctx level \<longleftrightarrow> sink_Enabled S b ctx level"
| "slog_Enabled S (FanOut []) ctx level \<longleftrightarrow> False"
| "slog_Enabled S (FanOut (h # hs)) ctx level \<longleftrightarrow>
     (if slog_Enabled S h ctx level then True else slog_Enabled S (FanOut hs) ctx level)"
| "slog_Enabled S NoopHandler ctx level \<longleftrightarrow> False"

fun slog_Handle :: "('b, 'ctx) sinks \<Rightarrow> 'b slog_handler \<Rightarrow> 'ctx \<Rightarrow> log_record \<Rightarrow> gerror option \<times> 'b delivery list" where
  "slog_Handle S (Sink b ds) ctx r = (sink_Handle S b ds ctx r, [(b, ds, r)])"
| "slog_Handle S (FanOut []) ctx r = (None, [])"
| "slog_Handle S (FanOut (h # hs)) ctx r =
     (if \<not> slog_Enabled S h ctx (lr_Level r) then slog_Handle S (FanOut hs) ctx r
      else (case slog_Handle S h ctx r of (_, made) \<Rightarrow>
            case slog_Handle S (FanOut hs) ctx r of (err, rest) \<Rightarrow> (err, made @ rest)))"
| "slog_Handle S NoopHandler ctx r = (None, [])"

fun derive :: "derivation \<Rightarrow> 'b slog_handler \<Rightarrow> 'b slog_handler" where
  "derive d (Sink b ds) = Sink b (ds @ [d])"
| "derive d (FanOut hs) = FanOut (map (derive d) hs)"
| "derive d NoopHandler = NoopHandler"

definition WithAttrs :: "attr list \<Rightarrow> 'b slog_handler \<Rightarrow> 'b slog_handler" where
  "WithAttrs attrs = derive (Attrs attrs)"

definition WithGroup :: "string \<Rightarrow> 'b slog_handler \<Rightarrow> 'b slog_handler" where
  "WithGroup name = derive (Group name)"

text \<open>\<open>slog.Logger\<close>: a record goes to the handler when it is enabled, and its error is dropped.\<close>

definition logger_Log :: "('b, 'ctx) sinks \<Rightarrow> 'b slog_handler \<Rightarrow> 'ctx \<Rightarrow> log_record \<Rightarrow> 'b delivery list" where
  "logger_Log S h ctx r = (if slog_Enabled S h ctx (lr_Level r) then snd (slog_Handle S h ctx r) else [])"

section \<open>What a handler amounts to\<close>

fun leaves :: "'b slog_handler \<Rightarrow> ('b \<times> derivation list) list" where
  "leaves (Sink b ds) = [(b, ds)]"
| "leaves (FanOut hs) = concat (map leaves hs)"
| "leaves NoopHandler = []"

lemma Enabled_leaves: "slog_Enabled S h ctx level \<longleftrightarrow> (\<exists>(b, ds)\<in>set (leaves h). sink_Enabled S b ctx level)"
  by (induction S h ctx level rule: slog_Enabled.induct) auto

lemma leaves_derive: "leaves (derive d h) = map (\<lambda>(b, ds). (b, ds @ [d])) (leaves h)"
proof (induction h)
  case (FanOut hs)
  then show ?case by (induction hs) simp_all
qed simp_all

lemma Enabled_derive [simp]: "slog_Enabled S (derive d h) ctx level \<longleftrightarrow> slog_Enabled S h ctx level"
  by (simp add: Enabled_leaves leaves_derive split_beta)

lemma no_leaf_enabled: "\<not> slog_Enabled S h ctx level \<Longrightarrow> filter (\<lambda>(b, ds). sink_Enabled S b ctx level) (leaves h) = []"
  by (auto simp: Enabled_leaves filter_empty_conv)

lemma Handle_leaves:
  "slog_Enabled S h ctx (lr_Level r) \<or> (\<exists>hs. h = FanOut hs) \<Longrightarrow>
     snd (slog_Handle S h ctx r) = map (\<lambda>(b, ds). (b, ds, r)) (filter (\<lambda>(b, ds). sink_Enabled S b ctx (lr_Level r)) (leaves h))"
proof (induction S h ctx r rule: slog_Handle.induct)
  case (3 S h hs ctx r)
  show ?case
  proof (cases "slog_Enabled S h ctx (lr_Level r)")
    case True
    obtain err made where "slog_Handle S h ctx r = (err, made)" by fastforce
    with True 3(2) 3(3) [where x = err and y = made] show ?thesis by (simp add: split_beta)
  next
    case False
    then show ?thesis using 3(1) no_leaf_enabled [OF False] by simp
  qed
qed auto

lemma fan_out_no_error: "fst (slog_Handle S (FanOut hs) ctx r) = None"
  by (induction hs) (simp_all add: split_beta)

lemma Log_leaves:
  "logger_Log S h ctx r = map (\<lambda>(b, ds). (b, ds, r)) (filter (\<lambda>(b, ds). sink_Enabled S b ctx (lr_Level r)) (leaves h))"
  using Handle_leaves [of S h ctx r] no_leaf_enabled [of S h ctx "lr_Level r"] by (auto simp: logger_Log_def)

section \<open>The logger of a service\<close>

record log_config =
  lc_ServiceName :: string
  lc_ServiceVersion :: string
  lc_Environment :: string
  lc_Format :: string
  lc_Level :: int
  lc_OTelEnabled :: bool

datatype log_sink = TextHandler int | JSONHandler int | OTelHandler string

text \<open>The handlers of \<open>log/slog\<close> take the levels from their own on; the bridge decides by itself.\<close>

fun log_sink_Enabled :: "('ctx \<Rightarrow> int \<Rightarrow> bool) \<Rightarrow> log_sink \<Rightarrow> 'ctx \<Rightarrow> int \<Rightarrow> bool" where
  "log_sink_Enabled otel (TextHandler least) ctx level \<longleftrightarrow> least \<le> level"
| "log_sink_Enabled otel (JSONHandler least) ctx level \<longleftrightarrow> least \<le> level"
| "log_sink_Enabled otel (OTelHandler name) ctx level \<longleftrightarrow> otel ctx level"

definition log_environment :: "(string \<Rightarrow> string) \<Rightarrow> string \<Rightarrow> string" where
  "log_environment getenv env =
     (if env \<noteq> [] then env else if getenv ''CF_ENV'' \<noteq> [] then getenv ''CF_ENV'' else ''development'')"

definition log_format :: "(string \<Rightarrow> string) \<Rightarrow> string \<Rightarrow> string" where
  "log_format getenv format =
     (let format = (if getenv ''LOG_FORMAT'' \<noteq> [] then getenv ''LOG_FORMAT'' else format) in
      if format = [] then ''json'' else format)"

definition newLogger :: "(string \<Rightarrow> string) \<Rightarrow> log_config \<Rightarrow> log_sink slog_handler" where
  "newLogger getenv cfg =
     (let version = (if lc_ServiceVersion cfg = [] then ''dev'' else lc_ServiceVersion cfg);
          env = log_environment getenv (lc_Environment cfg);
          base = (if log_format getenv (lc_Format cfg) = ''text'' then TextHandler (lc_Level cfg) else JSONHandler (lc_Level cfg));
          handler = (if lc_OTelEnabled cfg then FanOut [Sink base [], Sink (OTelHandler (lc_ServiceName cfg)) []] else Sink base []) in
      WithAttrs [(''service'', lc_ServiceName cfg), (''version'', version), (''env'', env)] handler)"

definition logging_New :: "(string \<Rightarrow> string) \<Rightarrow> log_config \<Rightarrow> log_sink slog_handler" where
  "logging_New getenv cfg = newLogger getenv cfg"

lemma leaves_newLogger:
  "leaves (newLogger getenv cfg) =
     (let attrs = Attrs [(''service'', lc_ServiceName cfg), (''version'', if lc_ServiceVersion cfg = [] then ''dev'' else lc_ServiceVersion cfg),
            (''env'', log_environment getenv (lc_Environment cfg))] in
      (if log_format getenv (lc_Format cfg) = ''text'' then TextHandler (lc_Level cfg) else JSONHandler (lc_Level cfg), [attrs]) #
      (if lc_OTelEnabled cfg then [(OTelHandler (lc_ServiceName cfg), [attrs])] else []))"
  by (simp add: newLogger_def Let_def WithAttrs_def leaves_derive)

end
