(* ===== verification/Tracing.thy ===== *)
theory Tracing
  imports GoErrors "HOL-Library.Word"
begin

unbundle bit_operations_syntax

text \<open>
  \<open>internal/tracing\<close>: \<open>Init\<close>, the choice of exporters and of the sampler. The OpenTelemetry SDK and gRPC
  are libraries: what their constructors answer is the argument of type \<open>otel\<close>, and what \<open>Init\<close> does to the
  global state, to connections and to providers is the list of events it returns, in order.
\<close>

section \<open>Samplers\<close>

text \<open>
  A \<open>float64\<close> is its bit pattern. The comparisons with 0 and 1 are those of IEEE 754: they are false
  for a NaN. \<open>strconv.ParseFloat\<close> is an argument.
\<close>

type_synonym float64 = "64 word"

definition float_NaN :: "float64 \<Rightarrow> bool" where
  "float_NaN w \<longleftrightarrow> 0x7FF0000000000000 < w AND mask 63"

definition float_less_0 :: "float64 \<Rightarrow> bool" where
  "float_less_0 w \<longleftrightarrow> \<not> float_NaN w \<and> bit w 63 \<and> w AND mask 63 \<noteq> 0"

definition float_greater_1 :: "float64 \<Rightarrow> bool" where
  "float_greater_1 w \<longleftrightarrow> \<not> float_NaN w \<and> \<not> bit w 63 \<and> 0x3FF0000000000000 < w"

datatype sampler = AlwaysSample | NeverSample | TraceIDRatioBased float64 | ParentBased sampler

definition buildSampler :: "(string \<Rightarrow> gerror + float64) \<Rightarrow> string \<Rightarrow> string \<Rightarrow> gerror + sampler" where
  "buildSampler ParseFloat s endpoint =
     (if s = [] then
        if endpoint \<noteq> [] then Inr (ParentBased AlwaysSample) else Inr AlwaysSample
      else if s = ''always'' then Inr AlwaysSample
      else if s = ''never'' then Inr NeverSample
      else if s = ''parent'' then Inr (ParentBased AlwaysSample)
      else if HasPrefix s ''ratio:'' then
        (let ratioStr = TrimPrefix s ''ratio:'';
             invalid = Text (''invalid ratio sampler value '' @ Quote ratioStr @ '' (must be 0.0'' @ [CHR 0xE2, CHR 0x80, CHR 0x93] @ ''1.0)'') in
         case ParseFloat ratioStr of
           Inl err \<Rightarrow> Inl invalid
         | Inr ratio \<Rightarrow> if float_less_0 ratio \<or> float_greater_1 ratio then Inl invalid else Inr (TraceIDRatioBased ratio))
      else Inl (Text (''unknown sampler '' @ Quote s @ ''; accepted values: always, never, parent, ratio:N'')))"

section \<open>Exporters and providers\<close>

record tracing_config =
  tc_ServiceName :: string
  tc_ServiceVersion :: string
  tc_Environment :: string
  tc_OTLPEndpoint :: string
  tc_Sampler :: string

record ('res, 'conn, 'texp, 'lexp) otel =
  ot_NewResource :: "(string \<times> string) list \<Rightarrow> gerror + 'res"
  ot_stdouttrace_New :: "gerror + 'texp"
  ot_NewClient :: "string \<Rightarrow> gerror + 'conn"
  ot_otlptracegrpc_New :: "'conn \<Rightarrow> gerror + 'texp"
  ot_otlploggrpc_New :: "'conn \<Rightarrow> gerror + 'lexp"
  ot_ParseFloat :: "string \<Rightarrow> gerror + float64"
  ot_TracerShutdown :: "gerror option"
  ot_LoggerShutdown :: "gerror option"

text \<open>A tracer provider is its exporter, resource and sampler, a logger provider its exporter and resource.\<close>

datatype ('res, 'conn, 'texp, 'lexp) otel_event =
    Dialled 'conn
  | SetTracerProvider 'texp 'res sampler
  | SetTextMapPropagator "string list"
  | SetLoggerProvider 'lexp 'res
  | TracerShutdown 'texp
  | LoggerShutdown 'lexp

definition buildTraceExporter :: "('res, 'conn, 'texp, 'lexp) otel \<Rightarrow> string \<Rightarrow>
    (gerror + 'texp) \<times> ('res, 'conn, 'texp, 'lexp) otel_event list" where
  "buildTraceExporter L endpoint =
     (if endpoint = [] then (ot_stdouttrace_New L, [])
      else case ot_NewClient L endpoint of
        Inl err \<Rightarrow> (Inl (Errorf (''dialling OTLP gRPC endpoint '' @ Quote endpoint @ '': '') err), [])
      | Inr conn \<Rightarrow>
          (case ot_otlptracegrpc_New L conn of
             Inl err \<Rightarrow> (Inl (Errorf ''creating OTLP trace exporter: '' err), [Dialled conn])
           | Inr exporter \<Rightarrow> (Inr exporter, [Dialled conn])))"

definition buildLogExporter :: "('res, 'conn, 'texp, 'lexp) otel \<Rightarrow> string \<Rightarrow>
    (gerror + 'lexp) \<times> ('res, 'conn, 'texp, 'lexp) otel_event list" where
  "buildLogExporter L endpoint =
     (case ot_NewClient L endpoint of
        Inl err \<Rightarrow> (Inl (Errorf (''dialling OTLP gRPC endpoint for logs '' @ Quote endpoint @ '': '') err), [])
      | Inr conn \<Rightarrow>
          (case ot_otlploggrpc_New L conn of
             Inl err \<Rightarrow> (Inl (Errorf ''creating OTLP log exporter: '' err), [Dialled conn])
           | Inr exporter \<Rightarrow> (Inr exporter, [Dialled conn])))"

text \<open>What the shutdown function of \<open>Init\<close> closes: the tracer provider and the logger provider, if any.\<close>

type_synonym ('texp, 'lexp) shutdown_func = "'texp \<times> 'lexp option"

definition tracing_shutdown :: "('res, 'conn, 'texp, 'lexp) otel \<Rightarrow> ('texp, 'lexp) shutdown_func \<Rightarrow>
    gerror option \<times> ('res, 'conn, 'texp, 'lexp) otel_event list" where
  "tracing_shutdown L p = (case p of (tp, logShutdown) \<Rightarrow>
     let errs = (case ot_TracerShutdown L of None \<Rightarrow> [] | Some err \<Rightarrow> [''trace provider: '' @ Error_String err]);
         errs = errs @ (case logShutdown of None \<Rightarrow> [] | Some lp \<Rightarrow>
           (case ot_LoggerShutdown L of None \<Rightarrow> [] | Some err \<Rightarrow> [''log provider: '' @ Error_String err])) in
     (if errs \<noteq> [] then Some (Text (''tracing shutdown errors: '' @ Join errs ''; '')) else None,
      TracerShutdown tp # (case logShutdown of None \<Rightarrow> [] | Some lp \<Rightarrow> [LoggerShutdown lp])))"

definition resolve_config :: "(string \<Rightarrow> string) \<Rightarrow> tracing_config \<Rightarrow> tracing_config" where
  "resolve_config getenv cfg =
     (let cfg = (if tc_ServiceVersion cfg = [] then cfg\<lparr>tc_ServiceVersion := ''dev''\<rparr> else cfg);
          cfg = (if tc_Environment cfg = [] then
                   if getenv ''CF_ENV'' \<noteq> [] then cfg\<lparr>tc_Environment := getenv ''CF_ENV''\<rparr> else cfg\<lparr>tc_Environment := ''development''\<rparr>
                 else cfg) in
      if tc_OTLPEndpoint cfg = [] then cfg\<lparr>tc_OTLPEndpoint := getenv ''OTEL_EXPORTER_OTLP_ENDPOINT''\<rparr> else cfg)"

definition initProvider :: "('res, 'conn, 'texp, 'lexp) otel \<Rightarrow> (string \<Rightarrow> string) \<Rightarrow> tracing_config \<Rightarrow>
    (gerror + ('texp, 'lexp) shutdown_func) \<times> ('res, 'conn, 'texp, 'lexp) otel_event list" where
  "initProvider L getenv cfg =
     (let cfg = resolve_config getenv cfg in
      case ot_NewResource L [(''service.name'', tc_ServiceName cfg), (''service.version'', tc_ServiceVersion cfg),
          (''deployment.environment'', tc_Environment cfg)] of
        Inl err \<Rightarrow> (Inl (Errorf ''tracing: building resource: '' err), [])
      | Inr res \<Rightarrow>
     (case buildSampler (ot_ParseFloat L) (tc_Sampler cfg) (tc_OTLPEndpoint cfg) of
        Inl err \<Rightarrow> (Inl (Errorf ''tracing: building sampler: '' err), [])
      | Inr sampler \<Rightarrow>
     (case buildTraceExporter L (tc_OTLPEndpoint cfg) of
        (Inl err, es) \<Rightarrow> (Inl (Errorf ''tracing: building trace exporter: '' err), es)
      | (Inr traceExporter, es) \<Rightarrow>
     (let es = es @ [SetTracerProvider traceExporter res sampler, SetTextMapPropagator [''tracecontext'', ''baggage'']] in
      if tc_OTLPEndpoint cfg \<noteq> [] then
        (case buildLogExporter L (tc_OTLPEndpoint cfg) of
           (Inl err, es') \<Rightarrow> (Inl (Errorf ''tracing: building log exporter: '' err), es @ es' @ [TracerShutdown traceExporter])
         | (Inr logExporter, es') \<Rightarrow> (Inr (traceExporter, Some logExporter), es @ es' @ [SetLoggerProvider logExporter res]))
      else (Inr (traceExporter, None), es)))))"

definition tracing_Init :: "('res, 'conn, 'texp, 'lexp) otel \<Rightarrow> (string \<Rightarrow> string) \<Rightarrow> tracing_config \<Rightarrow>
    (gerror + ('texp, 'lexp) shutdown_func) \<times> ('res, 'conn, 'texp, 'lexp) otel_event list" where
  "tracing_Init L getenv cfg = initProvider L getenv cfg"

section \<open>What Init leaves behind\<close>

text \<open>The tracer provider registered after a list of events, and the providers that were shut down.\<close>

fun registered :: "('res, 'conn, 'texp, 'lexp) otel_event list \<Rightarrow> ('texp \<times> 'res \<times> sampler) option" where
  "registered [] = None"
| "registered (SetTracerProvider t r s # es) = (case registered es of None \<Rightarrow> Some (t, r, s) | Some p \<Rightarrow> Some p)"
| "registered (_ # es) = registered es"

lemma resolve_endpoint: "tc_OTLPEndpoint (resolve_config getenv cfg) =
    (if tc_OTLPEndpoint cfg = [] then getenv ''OTEL_EXPORTER_OTLP_ENDPOINT'' else tc_OTLPEndpoint cfg)"
  by (simp add: resolve_config_def Let_def)

lemma resolve_fields:
  "tc_ServiceName (resolve_config getenv cfg) = tc_ServiceName cfg"
  "tc_Sampler (resolve_config getenv cfg) = tc_Sampler cfg"
  "tc_ServiceVersion (resolve_config getenv cfg) = (if tc_ServiceVersion cfg = [] then ''dev'' else tc_ServiceVersion cfg)"
  "tc_Environment (resolve_config getenv cfg) = (if tc_Environment cfg \<noteq> [] then tc_Environment cfg
     else if getenv ''CF_ENV'' \<noteq> [] then getenv ''CF_ENV'' else ''development'')"
  by (simp_all add: resolve_config_def Let_def)

lemma traceExporter_events: "buildTraceExporter L endpoint = (x, es) \<Longrightarrow> \<exists>cs. es = map Dialled cs \<and> (endpoint = [] \<longrightarrow> cs = [])"
  by (auto simp: buildTraceExporter_def split: if_splits sum.splits intro: exI [of _ "[]"] exI [of _ "[_]"])

lemma logExporter_events: "buildLogExporter L endpoint = (x, es) \<Longrightarrow> \<exists>cs. es = map Dialled cs"
  by (auto simp: buildLogExporter_def split: sum.splits intro: exI [of _ "[]"] exI [of _ "[_]"])

lemma registered_Dialled: "registered (map Dialled cs @ es) = registered es"
  by (induction cs) simp_all

text \<open>The sampler accepts a ratio unless it compares as below 0 or above 1, which no NaN does.\<close>

lemma buildSampler_ratio:
  "buildSampler P (''ratio:'' @ s) endpoint = Inr x \<longleftrightarrow>
     (\<exists>ratio. P s = Inr ratio \<and> \<not> float_less_0 ratio \<and> \<not> float_greater_1 ratio \<and> x = TraceIDRatioBased ratio)"
  by (auto simp: buildSampler_def HasPrefix_def TrimPrefix_def Let_def split: sum.splits)

lemma NaN_in_range: "float_NaN w \<Longrightarrow> \<not> float_less_0 w \<and> \<not> float_greater_1 w"
  by (simp add: float_less_0_def float_greater_1_def)

lemma initProvider_cases:
  assumes "initProvider L getenv cfg = (x, es)"
  defines "c \<equiv> resolve_config getenv cfg"
  obtains (early) e cs where "x = Inl e" "es = map Dialled cs"
  | (late) e t r s cs cs' where "x = Inl e" "tc_OTLPEndpoint c \<noteq> []"
      "es = map Dialled cs @ [SetTracerProvider t r s, SetTextMapPropagator [''tracecontext'', ''baggage'']] @ map Dialled cs' @ [TracerShutdown t]"
  | (local) t r s where "x = Inr (t, None)" "tc_OTLPEndpoint c = []" "ot_stdouttrace_New L = Inr t"
      "ot_NewResource L [(''service.name'', tc_ServiceName c), (''service.version'', tc_ServiceVersion c), (''deployment.environment'', tc_Environment c)] = Inr r"
      "buildSampler (ot_ParseFloat L) (tc_Sampler c) [] = Inr s"
      "es = [SetTracerProvider t r s, SetTextMapPropagator [''tracecontext'', ''baggage'']]"
  | (remote) t l r s cs cs' where "x = Inr (t, Some l)" "tc_OTLPEndpoint c \<noteq> []"
      "ot_NewResource L [(''service.name'', tc_ServiceName c), (''service.version'', tc_ServiceVersion c), (''deployment.environment'', tc_Environment c)] = Inr r"
      "buildSampler (ot_ParseFloat L) (tc_Sampler c) (tc_OTLPEndpoint c) = Inr s"
      "es = map Dialled cs @ [SetTracerProvider t r s, SetTextMapPropagator [''tracecontext'', ''baggage'']] @ map Dialled cs' @ [SetLoggerProvider l r]"
proof -
  obtain xt est where t: "buildTraceExporter L (tc_OTLPEndpoint c) = (xt, est)" by fastforce
  obtain cs where cs: "est = map Dialled cs" "tc_OTLPEndpoint c = [] \<Longrightarrow> cs = []" using traceExporter_events [OF t] by blast
  obtain xl esl where l: "buildLogExporter L (tc_OTLPEndpoint c) = (xl, esl)" by fastforce
  obtain cs' where cs': "esl = map Dialled cs'" using logExporter_events [OF l] by blast
  show ?thesis
    using assms(1) t l cs cs' early [of _ "[]"] early [of _ cs] late local [of _ _ _] remote
    unfolding initProvider_def Let_def c_def [symmetric]
    by (simp split: sum.splits if_splits) (auto simp: buildTraceExporter_def)
qed

end
