(* ===== verification/TypedRows.thy ===== *)
theory TypedRows
  imports AccountsFacts ProvisionerRuns Pools
begin

text \<open>
  A type system for the tables. \<open>typed_db\<close> says of each row what the code that reads it takes for
  granted: the statuses, operations and kinds are constants of \<open>internal/accounts\<close>, the columns a status
  implies are there, and an allocated block is one of the allocator. CQL's unconditional updates create
  rows with null columns, so a column may be null where only an update wrote the row. Every statement
  the services issue keeps it, so every interleaving of their operations and workflows does.
\<close>

section \<open>Well-typed rows\<close>

definition tenant_statuses :: "string set" where
  "tenant_statuses = {TenantStatusProvisioning, TenantStatusActive, TenantStatusSuspended, TenantStatusDeleted}"

definition key_statuses :: "string set" where
  "key_statuses = {APIKeyStatusActive, APIKeyStatusRotating, APIKeyStatusRevoked}"

definition or_null :: "'a set \<Rightarrow> 'a option \<Rightarrow> bool" where
  "or_null A x \<longleftrightarrow> (case x of None \<Rightarrow> True | Some a \<Rightarrow> a \<in> A)"

lemma or_null_simps [simp]: "or_null A None" "or_null A (Some a) \<longleftrightarrow> a \<in> A"
  by (simp_all add: or_null_def)

definition typed_tenant :: "tenant_row \<Rightarrow> bool" where
  "typed_tenant r \<longleftrightarrow> or_null tenant_statuses (col_status r)"

definition typed_user :: "user_row \<Rightarrow> bool" where
  "typed_user r \<longleftrightarrow> ucol_status r \<in> {UserStatusActive, UserStatusSuspended}"

definition typed_key :: "key_row \<Rightarrow> bool" where
  "typed_key r \<longleftrightarrow> or_null key_statuses (kcol_status r)"

definition typed_cidr :: "string \<Rightarrow> cidr_row \<Rightarrow> bool" where
  "typed_cidr c r \<longleftrightarrow> (\<exists>i\<in>{1..maxTenants}. ccol_cidr_type r = CIDRTypePod \<and> c = pod_block i \<or>
     ccol_cidr_type r = CIDRTypeService \<and> c = svc_block i)"

definition typed_job :: "job_row \<Rightarrow> bool" where
  "typed_job r \<longleftrightarrow> or_null {JobOperationProvisionVPC, JobOperationDeprovisionVPC} (jcol_operation r) \<and>
     (case jcol_status r of None \<Rightarrow> False
      | Some st \<Rightarrow>
          st = JobStatusQueued \<and> jcol_idempotency_key r \<noteq> None \<and> jcol_operation r \<noteq> None \<or>
          st = JobStatusProvisioning \<and> jcol_started_at r \<noteq> None \<and> jcol_operation r \<noteq> None \<or>
          st = JobStatusReady \<and> jcol_result r \<noteq> None \<and> jcol_completed_at r \<noteq> None \<or>
          st = JobStatusFailed \<and> jcol_error_message r \<noteq> None \<and> jcol_completed_at r \<noteq> None)"

definition typed_db :: "cf_db \<Rightarrow> bool" where
  "typed_db d \<longleftrightarrow> (\<forall>r\<in>ran (tenants d). typed_tenant r) \<and> (\<forall>r\<in>ran (users d). typed_user r) \<and>
     (\<forall>r\<in>ran (api_keys d). typed_key r) \<and> (\<forall>c r. cidr_allocations d c = Some r \<longrightarrow> typed_cidr c r) \<and>
     (\<forall>r\<in>ran (provisioning_jobs d). typed_job r)"

lemma empty_typed: "typed_db empty_db"
  by (simp add: typed_db_def empty_db_def)

section \<open>Well-typed statements\<close>

fun typed_cas :: "cas_stmt \<Rightarrow> bool" where
  "typed_cas (InsertTenantSlug s) \<longleftrightarrow> True"
| "typed_cas (InsertTenant i r) \<longleftrightarrow> typed_tenant r"
| "typed_cas (InsertUser i r) \<longleftrightarrow> typed_user r"
| "typed_cas (InsertAPIKey h r) \<longleftrightarrow> typed_key r"
| "typed_cas (InsertIdem t k j) \<longleftrightarrow> True"
| "typed_cas (InsertCIDR c r) \<longleftrightarrow> typed_cidr c r"
| "typed_cas (ClaimJob t j st at expected) \<longleftrightarrow> st = JobStatusProvisioning \<and> expected = JobStatusQueued"

fun typed_exec :: "exec_stmt \<Rightarrow> bool" where
  "typed_exec (UpdateTenantStatus i st at) \<longleftrightarrow> st \<in> tenant_statuses"
| "typed_exec (UpdateKeyStatus h st) \<longleftrightarrow> st \<in> key_statuses"
| "typed_exec (InsertJob t j r) \<longleftrightarrow> typed_job r"
| "typed_exec (UpdateJobReady t j st res at) \<longleftrightarrow> st = JobStatusReady"
| "typed_exec (UpdateJobFailed t j st msg at) \<longleftrightarrow> st = JobStatusFailed"
| "typed_exec x \<longleftrightarrow> True"

lemma ran_update: "r \<in> ran (m(k \<mapsto> x)) \<Longrightarrow> r = x \<or> r \<in> ran m"
  by (auto simp: ran_def split: if_splits)

lemma ball_ran_update: "(\<forall>r\<in>ran m. P r) \<Longrightarrow> P x \<Longrightarrow> \<forall>r\<in>ran (m(k \<mapsto> x)). P r"
  by (blast dest: ran_update)

lemma row_or_ran: "(\<forall>r\<in>ran m. P r) \<Longrightarrow> P d \<Longrightarrow> P (row_or d (m k))"
  by (auto simp: row_or_def ran_def split: option.split)

lemma typed_cas_effect:
  assumes "typed_cas c" "typed_db d"
  shows "typed_db (cas_effect c d)"
proof (cases "cas_applies c d")
  case True
  then have "typed_db (cas_write c d)"
  proof (cases c)
    case (ClaimJob t j st at expected)
    then obtain r where r: "provisioning_jobs d (t, j) = Some r" "jcol_status r = Some JobStatusQueued"
      using True assms(1) by (auto simp: cas_applies.simps(7) job_status_def split: option.splits)
    then have "typed_job r" using assms(2) ranI [of "provisioning_jobs d", OF r(1)] by (simp add: typed_db_def)
    then have "typed_job (r\<lparr>jcol_status := Some st, jcol_started_at := Some at\<rparr>)"
      using r(2) ClaimJob assms(1) by (auto simp: typed_job_def)
    then show ?thesis using ClaimJob assms(2) r(1) ball_ran_update [of "provisioning_jobs d" typed_job]
      by (simp add: typed_db_def)
  qed (use assms ball_ran_update [of "tenants d" typed_tenant] ball_ran_update [of "users d" typed_user]
      ball_ran_update [of "api_keys d" typed_key] in \<open>simp_all add: typed_db_def\<close>)
  then show ?thesis using True by simp
qed (use assms in simp)

lemma typed_exec_effect:
  assumes "typed_exec x" "typed_db d"
  shows "typed_db (exec_effect x d)"
proof -
  have parts: "\<forall>r\<in>ran (tenants d). typed_tenant r" "\<forall>r\<in>ran (api_keys d). typed_key r" "\<forall>r\<in>ran (provisioning_jobs d). typed_job r"
    using assms(2) by (simp_all add: typed_db_def)
  have t: "typed_tenant (row_or null_tenant (tenants d i))" for i
    by (rule row_or_ran [OF parts(1)]) (simp add: typed_tenant_def null_tenant_def)
  have "\<forall>r\<in>ran (provisioning_jobs d). or_null {JobOperationProvisionVPC, JobOperationDeprovisionVPC} (jcol_operation r)"
    using parts(3) by (simp add: typed_job_def)
  then have j: "or_null {JobOperationProvisionVPC, JobOperationDeprovisionVPC} (jcol_operation (row_or null_job (provisioning_jobs d k)))" for k
    by (rule row_or_ran) (simp add: null_job_def)
  have set_tenant: "typed_db (d\<lparr>tenants := (tenants d)(i \<mapsto> r)\<rparr>)" if "typed_tenant r" for i r
    using assms(2) ball_ran_update [OF parts(1) that] by (simp add: typed_db_def)
  have set_key: "typed_db (d\<lparr>api_keys := (api_keys d)(h \<mapsto> r)\<rparr>)" if "typed_key r" for h r
    using assms(2) ball_ran_update [OF parts(2) that] by (simp add: typed_db_def)
  have set_job: "typed_db (d\<lparr>provisioning_jobs := (provisioning_jobs d)(k \<mapsto> r)\<rparr>)" if "typed_job r" for k r
    using assms(2) ball_ran_update [OF parts(3) that] by (simp add: typed_db_def)
  show ?thesis
  proof (cases x)
    case (UpdateTenantCIDRs i pc sc at)
    then show ?thesis using t [of i] set_tenant by (simp add: typed_tenant_def)
  next
    case (UpdateTenantStatus i st at)
    then show ?thesis using assms(1) set_tenant by (simp add: typed_tenant_def)
  next
    case (UpdateKeyStatus h st)
    then show ?thesis using assms(1) set_key by (simp add: typed_key_def)
  next
    case (InsertJob t' j' r)
    then show ?thesis using assms(1) set_job by simp
  next
    case (UpdateJobReady t' j' st res at)
    then show ?thesis using assms(1) set_job j [of "(t', j')"] by (simp add: typed_job_def)
  next
    case (UpdateJobFailed t' j' st msg at)
    then show ?thesis using assms(1) set_job j [of "(t', j')"] by (simp add: typed_job_def)
  qed (use assms(2) in \<open>simp_all add: typed_db_def\<close>)
qed

section \<open>The services issue well-typed statements\<close>

abbreviation typed_prog :: "'a prog \<Rightarrow> bool" where
  "typed_prog \<equiv> issues typed_cas typed_exec"

lemma typed_stores [simp]:
  "typed_prog (TenantStore_Create x dn plan)" "typed_prog (TenantStore_GetBySlug x)" "typed_prog (TenantStore_Get i)"
  "typed_prog (TenantStore_SetCIDRs i pc sc)" "st \<in> tenant_statuses \<Longrightarrow> typed_prog (TenantStore_UpdateStatus i st)"
  "typed_prog (UserStore_Create NewUserStore e h i)" "typed_prog (UserStore_GetByEmail NewUserStore e)"
  "typed_prog (APIKeyStore_RevokeByID i)" "typed_prog (GenerateAPIKey H APIKeyStore_Store i dn sc)"
  "op \<in> {JobOperationProvisionVPC, JobOperationDeprovisionVPC} \<Longrightarrow> typed_prog (JobStore_Enqueue i k op)"
  "typed_prog (JobStore_Claim i j)" "typed_prog (JobStore_Complete i j res)" "typed_prog (JobStore_Fail i j msg)"
  "typed_prog (JobStore_Get i j)"
  by (auto simp: TenantStore_Create_def TenantStore_GetBySlug_def TenantStore_Get_def TenantStore_SetCIDRs_def
      TenantStore_UpdateStatus_def UserStore_Create_def UserStore_GetByEmail_def NewUserStore_def gocqlUserQuerier_def
      APIKeyStore_RevokeByID_def APIKeyStore_revokeWhere_def GenerateAPIKey_def newRawKeyAndHash_def APIKeyStore_Store_def
      JobStore_Enqueue_def JobStore_Claim_def JobStore_Complete_def JobStore_Fail_def JobStore_Get_def
      typed_tenant_def new_tenant_row_def new_tenant_def tenant_statuses_def typed_user_def new_user_row_def new_user_def
      typed_key_def key_row_of_def new_api_key_def key_statuses_def typed_job_def new_job_row_def Let_def
      split: sum.splits option.splits)

lemma typed_cidrs [simp]: "typed_prog (ReleaseTenantCIDRs NewGocqlCIDRDB pc sc)" "typed_prog (ReleaseCIDR NewGocqlCIDRDB c)"
  by (auto simp: ReleaseTenantCIDRs_def ReleaseCIDR_def NewGocqlCIDRDB_def GocqlCIDRDB_Release_def Let_def split: option.splits)

lemma typed_allocate_from: "1 \<le> i \<Longrightarrow> typed_prog (AllocateCIDRs_from NewGocqlCIDRDB tid i)"
proof (induction "Suc maxTenants - i" arbitrary: i rule: less_induct)
  case less
  show ?case
  proof (cases "i \<le> maxTenants")
    case True
    then have "typed_prog (AllocateCIDRs_from NewGocqlCIDRDB tid (i + 1))" using less by simp
    moreover have "typed_prog (TryAllocate NewGocqlCIDRDB (pod_block i) tid CIDRTypePod n)"
      "typed_prog (TryAllocate NewGocqlCIDRDB (svc_block i) tid CIDRTypeService n)" for n
      using True less.prems
      by (auto simp: NewGocqlCIDRDB_def GocqlCIDRDB_TryAllocate_def typed_cidr_def split: sum.splits)
    ultimately show ?thesis unfolding AllocateCIDRs_step [OF True]
      by (auto split: sum.splits)
  next
    case False
    then show ?thesis by (subst AllocateCIDRs_from.simps) simp
  qed
qed

lemma typed_allocate [simp]: "typed_prog (AllocateCIDRs NewGocqlCIDRDB tid)"
  by (simp add: AllocateCIDRs_def typed_allocate_from)

lemma typed_failJob [simp]: "typed_prog (failJob New i j step e)"
  by (auto simp: failJob_def)

lemma statuses [simp]: "TenantStatusActive \<in> tenant_statuses" "TenantStatusDeleted \<in> tenant_statuses"
  by (simp_all add: tenant_statuses_def)

lemma typed_workflows [simp]:
  "typed_prog (runProvisionWorkflow H New j x)" "typed_prog (runDeprovisionWorkflow New j T)"
  by (auto simp: runProvisionWorkflow_def provision_tenant_def finish_provision_def runDeprovisionWorkflow_def Let_def
      split: sum.splits option.splits)

lemma typed_provisioner [simp]:
  "typed_prog (Provision New p)" "typed_prog (GetJob P New j)" "typed_prog (Deprovision New q)"
  by (auto simp: Provision_def GetJob_def Deprovision_def ToAccountsJobOperation_def Let_def split: sum.splits option.splits)

lemma typed_accounts [simp]:
  "typed_prog (Register H (store_deps P) r)" "typed_prog (ProvisionNetwork (store_deps P) x)"
  "typed_prog (GetAccount (store_deps P) x)" "typed_prog (DeleteAccount (store_deps P) x)"
  "typed_prog (IssueKey H (store_deps P) k)" "typed_prog (RevokeKey (store_deps P) x i)"
  by (auto simp: accounts_defs Let_def split: sum.splits option.splits)

text \<open>The programs that run in the services: every operation of the two APIs and the workflows.\<close>

abbreviation ignore :: "'a prog \<Rightarrow> unit prog" where
  "ignore p \<equiv> bind p (\<lambda>_. Ret ())"

inductive service_prog :: "hasher \<Rightarrow> (string \<Rightarrow> uuid option) \<Rightarrow> unit prog \<Rightarrow> bool" for H P where
  "service_prog H P (ignore (Register H (store_deps P) r))"
| "service_prog H P (ignore (ProvisionNetwork (store_deps P) x))"
| "service_prog H P (ignore (GetAccount (store_deps P) x))"
| "service_prog H P (ignore (DeleteAccount (store_deps P) x))"
| "service_prog H P (ignore (IssueKey H (store_deps P) k))"
| "service_prog H P (ignore (RevokeKey (store_deps P) x i))"
| "service_prog H P (ignore (Provision New p))"
| "service_prog H P (ignore (GetJob P New j))"
| "service_prog H P (ignore (Deprovision New q))"
| "service_prog H P (ignore (AllocateCIDRs NewGocqlCIDRDB i))"
| "service_prog H P (ignore (ReleaseTenantCIDRs NewGocqlCIDRDB pc sc))"
| "service_prog H P (goroutine_prog H New g)"

lemma service_typed: "service_prog H P p \<Longrightarrow> typed_prog p"
proof (induction rule: service_prog.induct)
  case (12 g)
  then show ?case by (cases g) simp_all
qed auto

section \<open>Every interleaving keeps the types\<close>

lemma preach_issues:
  assumes "preach f ps s qs t" and "\<forall>p\<in>set ps. issues P Q p"
    and "\<And>c d. P c \<Longrightarrow> rel d (cas_effect c d)" and "\<And>x d. Q x \<Longrightarrow> rel d (exec_effect x d)"
    and "\<And>d. rel d d" and "\<And>d e g. rel d e \<Longrightarrow> rel e g \<Longrightarrow> rel d g"
  shows "(\<forall>q\<in>set qs. issues P Q q) \<and> rel (db s) (db t)"
  using assms(1)
proof (induction rule: preach.induct)
  case pool_start
  then show ?case using assms(2,5) by blast
next
  case (pool_step qs t i q u)
  then have "issues P Q (qs ! i)" by (simp add: nth_mem)
  from estep_issues [OF pool_step.hyps(3) this assms(3-5)] have "issues P Q q" "rel (db t) (db u)" by blast+
  then show ?case using pool_step.IH assms(6) set_update_subset_insert [of qs i q] by blast
qed

lemma pool_typed:
  assumes "preach f ps s qs t" and "\<forall>p\<in>set ps. typed_prog p" and "typed_db (db s)"
  shows "typed_db (db t)"
  using preach_issues [OF assms(1,2), where rel = "\<lambda>d e. typed_db d \<longrightarrow> typed_db e"] assms(3)
    typed_cas_effect typed_exec_effect by blast

end
