(* ===== verification/MetricsRegistry.thy ===== *)
theory MetricsRegistry
  imports Middleware
begin

text \<open>
  The rest of \<open>internal/metrics\<close>: the registry of a service, the three instruments of the HTTP middleware
  and the handler of the scrape endpoint. Prometheus is a record of calls; \<open>None\<close> is a panic.
\<close>

section \<open>Collectors\<close>

record metric_opts =
  mo_Namespace :: string
  mo_Subsystem :: string
  mo_Name :: string
  mo_Help :: string

datatype collector =
    GoCollector bool
  | ProcessCollector string
  | HistogramVec metric_opts "nat list" "string list"
  | CounterVec metric_opts "string list"

record ('reg, 'h) prometheus =
  prom_NewRegistry :: 'reg
  prom_MustRegister :: "collector list \<Rightarrow> 'reg \<Rightarrow> 'reg option"
  prom_HandlerFor :: "'reg \<Rightarrow> bool \<Rightarrow> 'h"

definition newRegistry :: "('reg, 'h) prometheus \<Rightarrow> string \<Rightarrow> 'reg option" where
  "newRegistry P serviceName =
     prom_MustRegister P [GoCollector True, ProcessCollector serviceName] (prom_NewRegistry P)"

definition NewRegistry :: "('reg, 'h) prometheus \<Rightarrow> string \<Rightarrow> 'reg option" where
  "NewRegistry P serviceName = newRegistry P serviceName"

definition newHandler :: "('reg, 'h) prometheus \<Rightarrow> 'reg \<Rightarrow> 'h" where
  "newHandler P registry = prom_HandlerFor P registry True"

definition metrics_Handler :: "('reg, 'h) prometheus \<Rightarrow> 'reg \<Rightarrow> 'h" where
  "metrics_Handler P registry = newHandler P registry"

section \<open>The instruments of the HTTP middleware\<close>

text \<open>The boundaries of the buckets, \<open>float64\<close> in the code, are counted in thousandths.\<close>

definition defaultDurationBuckets :: "nat list" where
  "defaultDurationBuckets = [5, 10, 25, 50, 100, 250, 500, 1000, 2500, 5000, 10000]"

definition defaultSizeBuckets :: "nat list" where
  "defaultSizeBuckets = map (\<lambda>b. 1000 * b) [256, 512, 1024, 4096, 16384, 65536, 262144, 1048576]"

definition request_labels :: "string list" where
  "request_labels = [''method'', ''path'', ''status'']"

definition duration_histogram :: "string \<Rightarrow> collector" where
  "duration_histogram serviceName = HistogramVec
     \<lparr>mo_Namespace = serviceName, mo_Subsystem = ''http_server'', mo_Name = ''request_duration_seconds'',
      mo_Help = ''Histogram of HTTP request latency in seconds, labelled by method, path, and status code.''\<rparr>
     defaultDurationBuckets request_labels"

definition total_counter :: "string \<Rightarrow> collector" where
  "total_counter serviceName = CounterVec
     \<lparr>mo_Namespace = serviceName, mo_Subsystem = ''http_server'', mo_Name = ''requests_total'',
      mo_Help = ''Total number of HTTP requests handled, labelled by method, path, and status code.''\<rparr>
     request_labels"

definition size_histogram :: "string \<Rightarrow> collector" where
  "size_histogram serviceName = HistogramVec
     \<lparr>mo_Namespace = serviceName, mo_Subsystem = ''http_server'', mo_Name = ''response_size_bytes'',
      mo_Help = ''Histogram of HTTP response body sizes in bytes, labelled by method, path, and status code.''\<rparr>
     defaultSizeBuckets request_labels"

text \<open>
  \<open>newHTTPMiddleware\<close> registers the instruments and returns the middleware, whose effect on a request is
  \<open>HTTPMiddleware\<close>.
\<close>

definition newHTTPMiddleware ::
  "('reg, 'h) prometheus \<Rightarrow> 'reg \<Rightarrow> string \<Rightarrow> ('reg \<times> (handler \<Rightarrow> handler)) option" where
  "newHTTPMiddleware P registry serviceName =
     map_option (\<lambda>registry. (registry, HTTPMiddleware))
       (prom_MustRegister P [duration_histogram serviceName, total_counter serviceName, size_histogram serviceName] registry)"

text \<open>Histogram buckets have to increase.\<close>

lemma buckets_increase: "sorted_wrt (<) defaultDurationBuckets" "sorted_wrt (<) defaultSizeBuckets"
  by (simp_all add: defaultDurationBuckets_def defaultSizeBuckets_def)

section \<open>Registration\<close>

text \<open>
  What Prometheus documents. A metric is called \<open>namespace_subsystem_name\<close>; the runtime collectors have names
  of their own. \<open>MustRegister\<close> adds collectors whose names are new and panics for a name that is taken.
\<close>

fun fq_names :: "(string \<Rightarrow> string set) \<Rightarrow> collector \<Rightarrow> string set" where
  "fq_names procs (GoCollector r) = procs []"
| "fq_names procs (ProcessCollector ns) = procs (ns @ ''_process'')"
| "fq_names procs (HistogramVec m bs ls) = {mo_Namespace m @ ''_'' @ mo_Subsystem m @ ''_'' @ mo_Name m}"
| "fq_names procs (CounterVec m ls) = {mo_Namespace m @ ''_'' @ mo_Subsystem m @ ''_'' @ mo_Name m}"

fun names_apart :: "(string \<Rightarrow> string set) \<Rightarrow> string set \<Rightarrow> collector list \<Rightarrow> bool" where
  "names_apart procs taken [] \<longleftrightarrow> True"
| "names_apart procs taken (c # cs) \<longleftrightarrow> fq_names procs c \<inter> taken = {} \<and> names_apart procs (taken \<union> fq_names procs c) cs"

definition registry_laws :: "(string \<Rightarrow> string set) \<Rightarrow> ('reg \<Rightarrow> string set) \<Rightarrow> ('reg, 'h) prometheus \<Rightarrow> bool" where
  "registry_laws procs names P \<longleftrightarrow>
     names (prom_NewRegistry P) = {} \<and>
     (\<forall>cs reg. names_apart procs (names reg) cs \<longrightarrow>
        (\<exists>reg'. prom_MustRegister P cs reg = Some reg' \<and> names reg' = names reg \<union> (\<Union>c\<in>set cs. fq_names procs c))) \<and>
     (\<forall>cs reg. \<not> names_apart procs (names reg) cs \<longrightarrow> prom_MustRegister P cs reg = None)"

lemma registry_laws_hold:
  "registry_laws procs id \<lparr>prom_NewRegistry = {},
     prom_MustRegister = \<lambda>cs reg. if names_apart procs reg cs then Some (reg \<union> (\<Union>c\<in>set cs. fq_names procs c)) else None,
     prom_HandlerFor = h\<rparr>"
  by (simp add: registry_laws_def)

definition http_names :: "string \<Rightarrow> string set" where
  "http_names serviceName =
     {serviceName @ ''_http_server_request_duration_seconds'', serviceName @ ''_http_server_requests_total'',
      serviceName @ ''_http_server_response_size_bytes''}"

lemma http_names_instruments:
  "(\<Union>c\<in>set [duration_histogram s, total_counter s, size_histogram s]. fq_names procs c) = http_names s"
  by (auto simp: duration_histogram_def total_counter_def size_histogram_def http_names_def)

lemma instruments_apart:
  "names_apart procs taken [duration_histogram s, total_counter s, size_histogram s] \<longleftrightarrow> http_names s \<inter> taken = {}"
  by (auto simp: duration_histogram_def total_counter_def size_histogram_def http_names_def)

text \<open>
  The middleware of a service can be made exactly when the registry has none of its three names, and then
  it has them: a second one for the same service panics, one for another service does not.
\<close>

lemma newHTTPMiddleware_iff:
  assumes "registry_laws procs names P"
  shows "newHTTPMiddleware P reg s \<noteq> None \<longleftrightarrow> http_names s \<inter> names reg = {}"
    and "newHTTPMiddleware P reg s = Some (reg', mw) \<Longrightarrow> names reg' = names reg \<union> http_names s \<and> mw = HTTPMiddleware"
proof -
  let ?cs = "[duration_histogram s, total_counter s, size_histogram s]"
  have yes: "\<exists>reg'. prom_MustRegister P ?cs reg = Some reg' \<and> names reg' = names reg \<union> http_names s"
    if "http_names s \<inter> names reg = {}"
    using assms that instruments_apart [of procs "names reg" s] http_names_instruments [of procs s]
    unfolding registry_laws_def by metis
  have no: "prom_MustRegister P ?cs reg = None" if "\<not> http_names s \<inter> names reg = {}"
    using assms that instruments_apart [of procs "names reg" s] unfolding registry_laws_def by metis
  show "newHTTPMiddleware P reg s \<noteq> None \<longleftrightarrow> http_names s \<inter> names reg = {}"
    using yes no by (cases "http_names s \<inter> names reg = {}") (auto simp: newHTTPMiddleware_def)
  show "newHTTPMiddleware P reg s = Some (reg', mw) \<Longrightarrow> names reg' = names reg \<union> http_names s \<and> mw = HTTPMiddleware"
    using yes no by (cases "http_names s \<inter> names reg = {}") (auto simp: newHTTPMiddleware_def)
qed

lemma suffixes_agree:
  assumes "s @ u = t @ v" "2 \<le> length u" "2 \<le> length v"
  shows "take 2 (rev u) = take 2 (rev v)"
proof -
  have "take 2 (rev (s @ u)) = take 2 (rev (t @ v))" using assms(1) by simp
  then show ?thesis using assms(2,3) by simp
qed

lemma http_names_disjoint: "s \<noteq> t \<Longrightarrow> http_names s \<inter> http_names t = {}"
proof -
  assume st: "s \<noteq> t"
  have no: "s' @ u \<noteq> t' @ v" if "take 2 (rev u) \<noteq> take 2 (rev v)" "2 \<le> length u" "2 \<le> length v" for s' t' u v :: string
    using suffixes_agree that by blast
  have same: "s @ u \<noteq> t @ u" "t @ u \<noteq> s @ u" for u using st by simp_all
  show ?thesis
    unfolding http_names_def
    by (simp only: Int_insert_left Int_insert_right insert_iff empty_iff Int_empty_right Int_empty_left same no if_False simp_thms)
       (simp add: no)
qed

theorem second_middleware_panics:
  assumes "registry_laws procs names P" and "newHTTPMiddleware P reg s = Some (reg', mw)"
  shows "newHTTPMiddleware P reg' s = None"
proof -
  have "http_names s \<inter> names reg' \<noteq> {}"
    using newHTTPMiddleware_iff(2) [OF assms] by (simp add: http_names_def)
  then show ?thesis using newHTTPMiddleware_iff(1) [OF assms(1)] by blast
qed

end
