(* ===== verification/GoTime.thy ===== *)
theory GoTime
  imports GoErrors Session "HOL-Library.Signed_Division"
begin

text \<open>
  What the measuring programs under \<open>src/spikes\<close> use of Go besides the calls of the services: code that
  changes a world \<open>'w\<close> or panics (\<open>io\<close>), integers of 64 bits, \<open>time.Duration\<close> with its \<open>Round\<close> and
  \<open>String\<close>, and the padding and \<open>%.1f\<close> of \<open>fmt\<close>.
\<close>

section \<open>Code that acts on a world\<close>

text \<open>The result is \<open>None\<close> where the code panics or does not return.\<close>

type_synonym ('w, 'a) io = "'w \<Rightarrow> ('a \<times> 'w) option"

definition io_ret :: "'a \<Rightarrow> ('w, 'a) io" where
  "io_ret x = (\<lambda>w. Some (x, w))"

definition io_then :: "('w, 'a) io \<Rightarrow> ('a \<Rightarrow> ('w, 'b) io) \<Rightarrow> ('w, 'b) io" where
  "io_then m k = (\<lambda>w. case m w of None \<Rightarrow> None | Some (x, w') \<Rightarrow> k x w')"

definition io_call :: "('w \<Rightarrow> 'a \<times> 'w) \<Rightarrow> ('w, 'a) io" where
  "io_call f = (\<lambda>w. Some (f w))"

definition io_panic :: "('w, 'a) io" where
  "io_panic = (\<lambda>w. None)"

named_theorems io_eval \<open>what a piece of code does in a world\<close>

lemma io_ret_eval [io_eval]: "io_ret x w = Some (x, w)"
  by (simp add: io_ret_def)

lemma io_then_eval [io_eval]: "io_then m k w = (case m w of None \<Rightarrow> None | Some (x, w') \<Rightarrow> k x w')"
  by (simp add: io_then_def)

lemma io_call_eval [io_eval]: "io_call f w = Some (f w)"
  by (simp add: io_call_def)

lemma io_panic_eval [io_eval]: "io_panic w = None"
  by (simp add: io_panic_def)

lemma io_then_ret [simp]: "io_then m io_ret = m"
  by (rule ext) (simp add: io_eval split: option.splits prod.splits)

lemma io_then_assoc: "io_then (io_then m f) g = io_then m (\<lambda>x. io_then (f x) g)"
  by (rule ext) (simp add: io_eval split: option.splits prod.splits)

text \<open>\<open>for _, x := range xs\<close> whose body returns a value to collect.\<close>

primrec io_map :: "('a \<Rightarrow> ('w, 'b) io) \<Rightarrow> 'a list \<Rightarrow> ('w, 'b list) io" where
  "io_map f [] = io_ret []"
| "io_map f (x # xs) = io_then (f x) (\<lambda>y. io_then (io_map f xs) (\<lambda>ys. io_ret (y # ys)))"

lemma io_map_length: "io_map f xs w = Some (ys, w') \<Longrightarrow> length ys = length xs"
  by (induction xs arbitrary: ys w) (auto simp: io_eval split: option.splits)

text \<open>
  \<open>io_gives P m\<close>: in every world the code returns, and with a result that satisfies \<open>P\<close>.
\<close>

definition io_gives :: "('a \<Rightarrow> bool) \<Rightarrow> ('w, 'a) io \<Rightarrow> bool" where
  "io_gives P m \<longleftrightarrow> (\<forall>w. \<exists>x w'. m w = Some (x, w') \<and> P x)"

abbreviation io_ends :: "('w, 'a) io \<Rightarrow> bool" where
  "io_ends \<equiv> io_gives (\<lambda>_. True)"

lemma io_gives_ret [intro]: "P x \<Longrightarrow> io_gives P (io_ret x)"
  by (simp add: io_gives_def io_eval)

lemma io_gives_call [intro]: "(\<And>w. P (fst (f w))) \<Longrightarrow> io_gives P (io_call f)"
  by (simp add: io_gives_def io_eval) (metis prod.collapse)

lemma io_ends_call [intro, simp]: "io_ends (io_call f)"
  by (rule io_gives_call) simp

lemma io_gives_then: "io_gives Q m \<Longrightarrow> (\<And>x. Q x \<Longrightarrow> io_gives P (k x)) \<Longrightarrow> io_gives P (io_then m k)"
  by (simp add: io_gives_def io_eval) (metis (mono_tags, lifting) case_prod_conv option.simps(5))

lemma io_gives_after: "io_ends m \<Longrightarrow> (\<And>x. io_gives P (k x)) \<Longrightarrow> io_gives P (io_then m k)"
  by (rule io_gives_then)

lemma io_gives_mono: "io_gives Q m \<Longrightarrow> (\<And>x. Q x \<Longrightarrow> P x) \<Longrightarrow> io_gives P m"
  unfolding io_gives_def by blast

lemma io_gives_result: "io_gives P m \<Longrightarrow> m w = Some (x, w') \<Longrightarrow> P x"
  unfolding io_gives_def by (metis option.inject prod.inject)

text \<open>The rules that walk through the branches of a function body, one per construct.\<close>

lemma io_gives_if: "(b \<Longrightarrow> io_gives P m) \<Longrightarrow> (\<not> b \<Longrightarrow> io_gives P n) \<Longrightarrow> io_gives P (if b then m else n)"
  by simp

lemma io_gives_prod: "(\<And>a b. x = (a, b) \<Longrightarrow> io_gives P (f a b)) \<Longrightarrow> io_gives P (case x of (a, b) \<Rightarrow> f a b)"
  by (cases x) simp

lemma io_gives_option:
  "(x = None \<Longrightarrow> io_gives P m) \<Longrightarrow> (\<And>y. x = Some y \<Longrightarrow> io_gives P (f y)) \<Longrightarrow> io_gives P (case x of None \<Rightarrow> m | Some y \<Rightarrow> f y)"
  by (cases x) simp_all

lemma io_gives_sum:
  "(\<And>y. x = Inl y \<Longrightarrow> io_gives P (f y)) \<Longrightarrow> (\<And>y. x = Inr y \<Longrightarrow> io_gives P (g y)) \<Longrightarrow>
   io_gives P (case x of Inl y \<Rightarrow> f y | Inr y \<Rightarrow> g y)"
  by (cases x) simp_all

lemma io_gives_let: "(\<And>y. y = x \<Longrightarrow> io_gives P (f y)) \<Longrightarrow> io_gives P (let y = x in f y)"
  by simp

lemmas io_walk = io_gives_after [OF io_ends_call] io_gives_if io_gives_prod io_gives_option io_gives_sum io_gives_let

lemma io_gives_map:
  "(\<And>x. x \<in> set xs \<Longrightarrow> io_gives (P x) (f x)) \<Longrightarrow> io_gives (\<lambda>ys. list_all2 P xs ys) (io_map f xs)"
proof (induction xs)
  case (Cons x xs)
  show ?case
    by (simp, rule io_gives_then [OF Cons.prems], simp, rule io_gives_then [OF Cons.IH [OF Cons.prems]], simp)
       (auto intro!: io_gives_ret)
qed (auto intro!: io_gives_ret)

section \<open>Integers of 64 bits\<close>

definition int64 :: "int \<Rightarrow> int" where
  "int64 x = sint (word_of_int x :: 64 word)"

lemma int64_eq: "int64 x = (x + 2 ^ 63) mod 2 ^ 64 - 2 ^ 63"
  by (simp add: int64_def int_word_sint)

lemma int64_id: "- (2 ^ 63) \<le> x \<Longrightarrow> x < 2 ^ 63 \<Longrightarrow> int64 x = x"
  by (simp add: int64_eq)

lemma int64_int64 [simp]: "int64 (int64 x) = int64 x"
  by (simp add: int64_def)

lemma int64_add_left: "int64 (int64 x + y) = int64 (x + y)"
  by (simp add: int64_eq mod_simps) (metis (no_types, opaque_lifting) add.assoc add.commute mod_add_left_eq)

lemma int64_range: "- (2 ^ 63) \<le> int64 x" "int64 x < 2 ^ 63"
  by (simp_all add: int64_eq)

section \<open>time.Duration\<close>

definition Millisecond :: time where "Millisecond = 1000000"
definition Minute :: time where "Minute = 60 * Second"

definition Duration_Round :: "time \<Rightarrow> time \<Rightarrow> time" where
  "Duration_Round d m =
     (if m \<le> 0 then d
      else let r = \<bar>d\<bar> mod m in
        if d < 0 then (if 2 * r < m then d + r else max (d - m + r) (- (2 ^ 63)))
        else (if 2 * r < m then d - r else min (d + m - r) (2 ^ 63 - 1)))"

definition zero_pad :: "nat \<Rightarrow> string \<Rightarrow> string" where
  "zero_pad n s = replicate (n - length s) CHR ''0'' @ s"

text \<open>\<open>fmtFrac\<close>: the fraction \<open>v / 10^prec\<close> without trailing zeros, nothing when it is zero.\<close>

definition fmtFrac :: "nat \<Rightarrow> nat \<Rightarrow> string" where
  "fmtFrac v prec =
     (let ds = rev (dropWhile (\<lambda>c. c = CHR ''0'') (rev (zero_pad prec (Itoa v)))) in
      if ds = [] then [] else CHR ''.'' # ds)"

definition Duration_String :: "time \<Rightarrow> string" where
  "Duration_String d =
     (let u = nat \<bar>d\<bar>; s = u div 1000000000 in
      (if d < 0 then ''-'' else []) @
      (if u = 0 then ''0s''
       else if u < 1000 then Itoa u @ ''ns''
       else if u < 1000000 then Itoa (u div 1000) @ fmtFrac (u mod 1000) 3 @ [CHR 0xC2, CHR 0xB5] @ ''s''
       else if u < 1000000000 then Itoa (u div 1000000) @ fmtFrac (u mod 1000000) 6 @ ''ms''
       else (if 3600 \<le> s then Itoa (s div 3600) @ ''h'' else []) @
            (if 60 \<le> s then Itoa (s div 60 mod 60) @ ''m'' else []) @
            Itoa (s mod 60) @ fmtFrac (u mod 1000000000) 9 @ ''s''))"

lemma digit_chars:
  "digit_char 0 = CHR ''0''" "digit_char (Suc 0) = CHR ''1''" "digit_char 2 = CHR ''2''" "digit_char 3 = CHR ''3''"
  "digit_char 4 = CHR ''4''" "digit_char 5 = CHR ''5''" "digit_char 6 = CHR ''6''" "digit_char 7 = CHR ''7''"
  "digit_char 8 = CHR ''8''" "digit_char 9 = CHR ''9''"
  by code_simp+

lemma Duration_String_examples:
  "Duration_String 0 = ''0s''" "Duration_String (90 * Second) = ''1m30s''"
  "Duration_String (2500 * Millisecond) = ''2.5s''" "Duration_String (180 * Second) = ''3m0s''"
  by (simp_all add: Duration_String_def Let_def Second_def Millisecond_def Itoa.simps fmtFrac_def zero_pad_def digit_chars)

text \<open>\<open>Round\<close> goes to a nearest multiple.\<close>

lemma Duration_Round_near:
  assumes "0 < m" "0 \<le> d" "d + m < 2 ^ 63"
  shows "m dvd Duration_Round d m \<and> 2 * \<bar>Duration_Round d m - d\<bar> \<le> m"
proof -
  let ?r = "d mod m"
  have r: "0 \<le> ?r" "?r < m" "m dvd d - ?r" using assms by simp_all
  have up: "m dvd d + m - ?r" using r(3) dvd_add [of m "d - ?r" m] by (simp add: algebra_simps)
  have "d + m - ?r \<le> 2 ^ 63 - 1" using r(1) assms(3) by linarith
  then have "min (d + m - ?r) (2 ^ 63 - 1) = d + m - ?r" by (rule min_absorb1)
  then show ?thesis using assms r up by (simp add: Duration_Round_def Let_def)
qed

section \<open>Package fmt\<close>

text \<open>\<open>%v\<close> of an \<open>error\<close> and of a \<open>bool\<close>.\<close>

definition fmt_error :: "gerror option \<Rightarrow> string" where
  "fmt_error err = (case err of None \<Rightarrow> ''<nil>'' | Some e \<Rightarrow> Error_String e)"

definition fmt_bool :: "bool \<Rightarrow> string" where
  "fmt_bool b = (if b then ''true'' else ''false'')"

text \<open>\<open>%.1f\<close> of \<open>n / 1024\<close>, which is exact in binary, so ties go to even.\<close>

definition fmt_1f_1024 :: "int \<Rightarrow> string" where
  "fmt_1f_1024 n =
     (let t = 10 * nat \<bar>n\<bar>; q = t div 1024; r = t mod 1024;
          k = (if r < 512 \<or> (r = 512 \<and> even q) then q else q + 1) in
      (if n < 0 then ''-'' else []) @ Itoa (k div 10) @ ''.'' @ Itoa (k mod 10))"

text \<open>The white space \<open>strings.Fields\<close> cuts at.\<close>

fun Fields_go :: "string \<Rightarrow> string \<Rightarrow> string list" where
  "Fields_go cur [] = (if cur = [] then [] else [rev cur])"
| "Fields_go cur (c # s) =
     (if is_space c then (if cur = [] then Fields_go [] s else rev cur # Fields_go [] s)
      else Fields_go (c # cur) s)"

definition Fields :: "string \<Rightarrow> string list" where
  "Fields s = Fields_go [] s"

lemma Fields_go_nonempty: "f \<in> set (Fields_go cur s) \<Longrightarrow> f \<noteq> []"
  by (induction cur s rule: Fields_go.induct) (auto split: if_splits)

lemma Fields_nonempty: "f \<in> set (Fields s) \<Longrightarrow> f \<noteq> []"
  unfolding Fields_def by (rule Fields_go_nonempty)

end
