(* ===== verification/IsolationProbe.thy ===== *)
theory IsolationProbe
  imports GoTime Startup Json
begin

text \<open>
  The package \<open>spikes/tenant-isolation/internal/probe\<close>: the six tests that measure whether vClusters
  isolate tenants. The cluster is reached through the interface \<open>KubectlClient\<close>, a record of calls that
  act on a world; \<open>time.Now\<close> and timers are calls of a second record. The context of a call is part of
  the world: a call whose context has ended answers with an error.
\<close>

section \<open>types.go: results\<close>

type_synonym TestName = string
type_synonym Verdict = string

definition TestNetworkIsolation :: TestName where "TestNetworkIsolation = ''network_isolation''"
definition TestProvisioningSpeed :: TestName where "TestProvisioningSpeed = ''provisioning_speed''"
definition TestProvisionerComm :: TestName where "TestProvisionerComm = ''provisioner_communication''"
definition TestResourceOverhead :: TestName where "TestResourceOverhead = ''resource_overhead''"
definition TestCiliumEnforcement :: TestName where "TestCiliumEnforcement = ''cilium_enforcement''"
definition TestFailureRecovery :: TestName where "TestFailureRecovery = ''failure_recovery''"

lemmas test_names = TestNetworkIsolation_def TestProvisioningSpeed_def TestProvisionerComm_def
  TestResourceOverhead_def TestCiliumEnforcement_def TestFailureRecovery_def

definition AllTests :: "TestName list" where
  "AllTests = [TestNetworkIsolation, TestProvisioningSpeed, TestProvisionerComm, TestResourceOverhead,
     TestCiliumEnforcement, TestFailureRecovery]"

definition VerdictPass :: Verdict where "VerdictPass = ''PASS''"
definition VerdictFail :: Verdict where "VerdictFail = ''FAIL''"
definition VerdictSkip :: Verdict where "VerdictSkip = ''SKIP''"

lemma verdicts_distinct [simp]:
  "VerdictPass \<noteq> VerdictFail" "VerdictFail \<noteq> VerdictPass" "VerdictPass \<noteq> VerdictSkip" "VerdictSkip \<noteq> VerdictPass"
  "VerdictFail \<noteq> VerdictSkip" "VerdictSkip \<noteq> VerdictFail"
  by (simp_all add: VerdictPass_def VerdictFail_def VerdictSkip_def)

record TestResult =
  tr_Name :: TestName
  tr_Verdict :: Verdict
  tr_Evidence :: string
  tr_Metrics :: "string \<rightharpoonup> string"
  tr_Duration :: time

definition TestResult_Pass :: "TestResult \<Rightarrow> bool" where
  "TestResult_Pass r \<longleftrightarrow> tr_Verdict r = VerdictPass"

definition TestResult_String :: "TestResult \<Rightarrow> string" where
  "TestResult_String r =
     ''['' @ tr_Verdict r @ ''] '' @ tr_Name r @ '' ('' @ Duration_String (Duration_Round (tr_Duration r) Millisecond) @ '')''"

definition MetricOrEmpty :: "TestResult \<Rightarrow> string \<Rightarrow> string" where
  "MetricOrEmpty r k = (case tr_Metrics r k of Some v \<Rightarrow> v | None \<Rightarrow> ''-'')"

section \<open>types.go: pod resources\<close>

record PodResource =
  pod_Name :: string
  pod_CPUMilli :: int
  pod_MemMB :: int

definition TotalCPUMilli :: "PodResource list \<Rightarrow> int" where
  "TotalCPUMilli pods = foldl (\<lambda>sum p. int64 (sum + pod_CPUMilli p)) 0 pods"

definition TotalMemMB :: "PodResource list \<Rightarrow> int" where
  "TotalMemMB pods = foldl (\<lambda>sum p. int64 (sum + pod_MemMB p)) 0 pods"

lemma foldl_int64: "foldl (\<lambda>sum p. int64 (sum + f p)) (int64 a) xs = int64 (a + sum_list (map f xs))"
proof (induction xs arbitrary: a)
  case (Cons x xs)
  show ?case by (simp add: int64_add_left Cons.IH add.assoc)
qed simp

lemma totals_wrap:
  "TotalCPUMilli pods = int64 (sum_list (map pod_CPUMilli pods))"
  "TotalMemMB pods = int64 (sum_list (map pod_MemMB pods))"
  using foldl_int64 [of pod_CPUMilli 0 pods] foldl_int64 [of pod_MemMB 0 pods]
  by (simp_all add: TotalCPUMilli_def TotalMemMB_def int64_id)

definition TrimSuffix :: "string \<Rightarrow> string \<Rightarrow> string" where
  "TrimSuffix s p = (if HasSuffix s p then take (length s - length p) s else s)"

lemma HasSuffix_append [simp]: "HasSuffix (s @ p) p"
  by (simp add: HasSuffix_def)

lemma TrimSuffix_append [simp]: "TrimSuffix (s @ p) p = s"
  by (simp add: TrimSuffix_def)

text \<open>\<open>var v int64; fmt.Sscanf(s, "%d", &v)\<close>: \<open>v\<close> keeps 0 when the scan fails.\<close>

definition scan_d :: "string \<Rightarrow> int" where
  "scan_d s = (case Sscanf_d s of Inl _ \<Rightarrow> 0 | Inr v \<Rightarrow> v)"

definition ParseCPUMillicores :: "string \<Rightarrow> int" where
  "ParseCPUMillicores s0 =
     (let s = TrimSpace s0 in
      if s = [] \<or> s = ''<unknown>'' then 0
      else if HasSuffix s ''m'' then scan_d (TrimSuffix s ''m'')
      else int64 (scan_d s * 1000))"

definition ParseMemMB :: "string \<Rightarrow> int" where
  "ParseMemMB s0 =
     (let s = TrimSpace s0 in
      if s = [] \<or> s = ''<unknown>'' then 0
      else if HasSuffix s ''Gi'' then int64 (scan_d (TrimSuffix s ''Gi'') * 1024)
      else if HasSuffix s ''Mi'' then scan_d (TrimSuffix s ''Mi'')
      else if HasSuffix s ''Ki'' then scan_d (TrimSuffix s ''Ki'') sdiv 1024
      else if HasSuffix s ''G'' then int64 (scan_d (TrimSuffix s ''G'') * 1024)
      else if HasSuffix s ''M'' then scan_d (TrimSuffix s ''M'')
      else if HasSuffix s ''k'' then scan_d (TrimSuffix s ''k'') sdiv 1024
      else scan_d s sdiv (1024 * 1024))"

section \<open>types.go: configuration and the client\<close>

text \<open>
  The three \<open>float64\<close> thresholds hold whole seconds in every configuration the code builds, so they are
  integers here.
\<close>

record probe_Config =
  pc_KubeconfigPath :: string
  pc_TenantAName :: string
  pc_TenantBName :: string
  pc_KubeconfigDir :: string
  pc_SpeedSamples :: int
  pc_VClusterReadySeconds :: int
  pc_NATSReadySeconds :: int
  pc_MaxIdleRAMMB :: int
  pc_MaxIdleCPUMilli :: int
  pc_RecoverySeconds :: int
  pc_OverheadStabilizationWait :: time
  pc_OverheadSamples :: int
  pc_OverheadSampleInterval :: time
  pc_ExecTimeout :: time

definition probe_DefaultConfig :: probe_Config where
  "probe_DefaultConfig =
     \<lparr>pc_KubeconfigPath = [], pc_TenantAName = ''tenant-a'', pc_TenantBName = ''tenant-b'',
      pc_KubeconfigDir = ''kubeconfigs'', pc_SpeedSamples = 3, pc_VClusterReadySeconds = 90,
      pc_NATSReadySeconds = 180, pc_MaxIdleRAMMB = 512, pc_MaxIdleCPUMilli = 150, pc_RecoverySeconds = 60,
      pc_OverheadStabilizationWait = 0, pc_OverheadSamples = 3, pc_OverheadSampleInterval = 0,
      pc_ExecTimeout = 5 * Minute\<rparr>"

record 'w KubectlClient =
  kc_RunInPod :: "string \<Rightarrow> string \<Rightarrow> string \<Rightarrow> string \<Rightarrow> string list \<Rightarrow> 'w \<Rightarrow> (string \<times> gerror option) \<times> 'w"
  kc_Apply :: "string \<Rightarrow> string \<Rightarrow> 'w \<Rightarrow> gerror option \<times> 'w"
  kc_WaitPodReady :: "string \<Rightarrow> string \<Rightarrow> string \<Rightarrow> time \<Rightarrow> 'w \<Rightarrow> (string \<times> time \<times> gerror option) \<times> 'w"
  kc_DeletePod :: "string \<Rightarrow> string \<Rightarrow> string \<Rightarrow> 'w \<Rightarrow> gerror option \<times> 'w"
  kc_GetPodResources :: "string \<Rightarrow> string \<Rightarrow> string \<Rightarrow> 'w \<Rightarrow> (gerror + PodResource list) \<times> 'w"
  kc_GetPodsByLabel :: "string \<Rightarrow> string \<Rightarrow> string \<Rightarrow> 'w \<Rightarrow> (string list \<times> gerror option) \<times> 'w"
  kc_PodIP :: "string \<Rightarrow> string \<Rightarrow> string \<Rightarrow> 'w \<Rightarrow> (string \<times> gerror option) \<times> 'w"

text \<open>
  \<open>gt_Select d\<close> is the \<open>select\<close> over a timer of \<open>d\<close> and the end of the context: whether the timer fired.
\<close>

record 'w go_time =
  gt_Now :: "'w \<Rightarrow> time \<times> 'w"
  gt_Select :: "time \<Rightarrow> 'w \<Rightarrow> bool \<times> 'w"
  gt_RFC3339 :: "time \<Rightarrow> string"

section \<open>isolation.go: results\<close>

text \<open>The three constructors of results read the clock for the duration.\<close>

definition passResult :: "'w go_time \<Rightarrow> TestName \<Rightarrow> string \<Rightarrow> time \<Rightarrow> (string \<rightharpoonup> string) \<Rightarrow> ('w, TestResult) io" where
  "passResult T name evidence start metrics =
     io_then (io_call (gt_Now T)) (\<lambda>now. io_ret
       \<lparr>tr_Name = name, tr_Verdict = VerdictPass, tr_Evidence = evidence, tr_Metrics = metrics, tr_Duration = now - start\<rparr>)"

definition failResult :: "'w go_time \<Rightarrow> TestName \<Rightarrow> string \<Rightarrow> time \<Rightarrow> (string \<rightharpoonup> string) \<Rightarrow> ('w, TestResult) io" where
  "failResult T name evidence start metrics =
     io_then (io_call (gt_Now T)) (\<lambda>now. io_ret
       \<lparr>tr_Name = name, tr_Verdict = VerdictFail, tr_Evidence = evidence, tr_Metrics = metrics, tr_Duration = now - start\<rparr>)"

definition skipResult :: "'w go_time \<Rightarrow> TestName \<Rightarrow> string \<Rightarrow> time \<Rightarrow> ('w, TestResult) io" where
  "skipResult T name reason start =
     io_then (io_call (gt_Now T)) (\<lambda>now. io_ret
       \<lparr>tr_Name = name, tr_Verdict = VerdictSkip, tr_Evidence = reason, tr_Metrics = Map.empty, tr_Duration = now - start\<rparr>)"

section \<open>isolation.go: test 1\<close>

definition echoManifest :: string where
  "echoManifest = unlines
     [''---'', ''apiVersion: v1'', ''kind: Pod'', ''metadata:'', ''  name: echo-server'', ''  labels:'',
      ''    app: echo-server'', ''spec:'', ''  containers:'', ''  - name: echo'',
      ''    image: hashicorp/http-echo:latest'', ''    args: [\"-text=hello-from-vcluster\"]'', ''    ports:'',
      ''    - containerPort: 8080'', ''---'', ''apiVersion: v1'', ''kind: Service'', ''metadata:'',
      ''  name: echo'', ''spec:'', ''  selector:'', ''    app: echo-server'', ''  ports:'', ''  - port: 8080'',
      ''    targetPort: 8080'']"

definition netprobeManifest :: string where
  "netprobeManifest = unlines
     [''---'', ''apiVersion: v1'', ''kind: Pod'', ''metadata:'', ''  name: netprobe'', ''  labels:'',
      ''    app: netprobe'', ''spec:'', ''  containers:'', ''  - name: probe'', ''    image: busybox:stable'',
      ''    command: [\"sleep\", \"3600\"]'']"

definition isConnectionBlocked :: "string \<Rightarrow> bool" where
  "isConnectionBlocked output0 =
     (let output = ToLower output0 in
      if \<exists>sig\<in>set [''connection refused'', ''no route to host'', ''network unreachable'', ''connection timed out'',
           ''timed out'', ''nc: bad address'', ''host is unreachable'']. Contains output sig then True
      else if Contains output ''succeeded'' \<or> Contains output '' open'' then False
      else True)"

definition isDNSBlocked :: "string \<Rightarrow> bool" where
  "isDNSBlocked output0 =
     (let output = ToLower output0 in
      if \<exists>sig\<in>set [''nxdomain'', ''can'' @ [CHR 0x27] @ ''t find'', ''server can'' @ [CHR 0x27] @ ''t find'',
           ''name or service not known'', ''connection refused'', ''no servers could be reached'']. Contains output sig then True
      else if Contains output ''address:'' \<or> Contains output ''addresses:'' then False
      else True)"

record IsolationResult =
  ir_DirectIPBlocked :: bool
  ir_DNSBlocked :: bool
  ir_EvidenceDirect :: string
  ir_EvidenceDNS :: string

definition check_mark :: string where "check_mark = [CHR 0xE2, CHR 0x9C, CHR 0x93]"
definition ballot_x :: string where "ballot_x = [CHR 0xE2, CHR 0x9C, CHR 0x97]"
definition ellipsis :: string where "ellipsis = [CHR 0xE2, CHR 0x80, CHR 0xA6]"
definition em_dash :: string where "em_dash = [CHR 0xE2, CHR 0x80, CHR 0x94]"

definition buildIsolationEvidence :: "IsolationResult \<Rightarrow> string \<Rightarrow> string" where
  "buildIsolationEvidence ir targetIP =
     ''target-IP='' @ targetIP @ '' | '' @
     (if ir_DirectIPBlocked ir then ''direct-IP=BLOCKED '' @ check_mark @ '' | ''
      else ''direct-IP=REACHABLE '' @ ballot_x @ '' | '') @
     (if ir_DNSBlocked ir then ''DNS=BLOCKED '' @ check_mark else ''DNS=RESOLVED '' @ ballot_x)"

definition RunTestNetworkIsolation ::
  "'w go_time \<Rightarrow> 'w KubectlClient \<Rightarrow> probe_Config \<Rightarrow> string \<Rightarrow> string \<Rightarrow> ('w, TestResult) io" where
  "RunTestNetworkIsolation T c cfg tenantAKubeconfig tenantBKubeconfig =
     io_then (io_call (gt_Now T)) (\<lambda>start.
     let fail = (\<lambda>evidence. failResult T TestNetworkIsolation evidence start) in
     io_then (io_call (kc_Apply c tenantBKubeconfig echoManifest)) (\<lambda>err.
     if err \<noteq> None then fail (''deploy echo server in tenant-B: '' @ fmt_error err) Map.empty else
     io_then (io_call (kc_WaitPodReady c tenantBKubeconfig ''default'' ''app=echo-server'' (pc_ExecTimeout cfg))) (\<lambda>(_, _, err).
     if err \<noteq> None then fail (''echo server not ready in tenant-B: '' @ fmt_error err) Map.empty else
     io_then (io_call (kc_PodIP c tenantBKubeconfig ''default'' ''app=echo-server'')) (\<lambda>(tenantBIP, err).
     if err \<noteq> None \<or> tenantBIP = [] then fail (''cannot get tenant-B echo pod IP: '' @ fmt_error err) Map.empty else
     let metrics = [''tenant_b_echo_ip'' \<mapsto> tenantBIP] in
     io_then (io_call (kc_Apply c tenantAKubeconfig netprobeManifest)) (\<lambda>err.
     if err \<noteq> None then fail (''deploy netprobe in tenant-A: '' @ fmt_error err) metrics else
     io_then (io_call (kc_WaitPodReady c tenantAKubeconfig ''default'' ''app=netprobe'' (pc_ExecTimeout cfg))) (\<lambda>(probePod0, _, err).
     if err \<noteq> None then fail (''netprobe not ready in tenant-A: '' @ fmt_error err) metrics else
     let probePod = (if probePod0 = [] then ''netprobe'' else probePod0) in
     io_then (io_call (kc_RunInPod c tenantAKubeconfig ''default'' probePod ''probe'' [''nc'', ''-zv'', ''-w3'', tenantBIP, ''8080''])) (\<lambda>(ncOut, _).
     let directBlocked = isConnectionBlocked ncOut; metrics = metrics(''direct_ip_output'' \<mapsto> ncOut) in
     io_then (io_call (kc_RunInPod c tenantAKubeconfig ''default'' probePod ''probe'' [''nslookup'', ''echo.default.svc.cluster.local''])) (\<lambda>(dnsOut, _).
     let dnsBlocked = isDNSBlocked dnsOut; metrics = metrics(''dns_output'' \<mapsto> dnsOut);
         ir = \<lparr>ir_DirectIPBlocked = directBlocked, ir_DNSBlocked = dnsBlocked, ir_EvidenceDirect = ncOut, ir_EvidenceDNS = dnsOut\<rparr>;
         evidence = buildIsolationEvidence ir tenantBIP in
     if directBlocked \<and> dnsBlocked then passResult T TestNetworkIsolation evidence start metrics
     else fail evidence metrics))))))))"

section \<open>speed.go: test 2\<close>

definition natsManifest :: string where
  "natsManifest = unlines
     [''---'', ''apiVersion: v1'', ''kind: ConfigMap'', ''metadata:'', ''  name: nats-config'', ''data:'',
      ''  nats.conf: |'', ''    jetstream {'', ''      store_dir: /data/jetstream'', ''    }'', ''---'',
      ''apiVersion: apps/v1'', ''kind: StatefulSet'', ''metadata:'', ''  name: nats'', ''  labels:'',
      ''    app: nats'', ''spec:'', ''  serviceName: nats'', ''  replicas: 1'', ''  selector:'',
      ''    matchLabels:'', ''      app: nats'', ''  template:'', ''    metadata:'', ''      labels:'',
      ''        app: nats'', ''    spec:'', ''      containers:'', ''      - name: nats'',
      ''        image: nats:2.10-alpine'', ''        args: [\"-c\", \"/etc/nats/nats.conf\", \"-js\"]'',
      ''        ports:'', ''        - containerPort: 4222'', ''        volumeMounts:'',
      ''        - name: config'', ''          mountPath: /etc/nats'', ''      volumes:'',
      ''      - name: config'', ''        configMap:'', ''          name: nats-config'', ''---'',
      ''apiVersion: v1'', ''kind: Service'', ''metadata:'', ''  name: nats'', ''spec:'', ''  selector:'',
      ''    app: nats'', ''  ports:'', ''  - port: 4222'', ''    targetPort: 4222'']"

record SpeedSample =
  ss_VClusterReadyElapsed :: time
  ss_NATSReadyElapsed :: time
  ss_Err :: "gerror option"

record SpeedStats =
  st_Samples :: int
  st_FailedSamples :: int
  st_P50VCluster :: time
  st_P95VCluster :: time
  st_P50NATS :: time
  st_P95NATS :: time

text \<open>
  The insertion sort of \<open>percentileDuration\<close>, on the list: element \<open>i\<close> is swapped down while it is
  smaller than its left neighbour. The position of the percentile is computed in \<open>float64\<close> in the code;
  for 50 and 95, the percentiles it is called with, that is the rounding to the nearest here.
\<close>

fun sift_down :: "time list \<Rightarrow> nat \<Rightarrow> time list" where
  "sift_down ds 0 = ds"
| "sift_down ds (Suc j) =
     (if ds ! Suc j < ds ! j then sift_down (ds[Suc j := ds ! j, j := ds ! Suc j]) j else ds)"

definition insertion_sort :: "time list \<Rightarrow> time list" where
  "insertion_sort ds = foldl sift_down ds [1 ..< length ds]"

definition percentileDuration :: "time list \<Rightarrow> nat \<Rightarrow> time" where
  "percentileDuration ds p =
     (if ds = [] then 0
      else let sorted = insertion_sort ds; idx = (p * (length ds - 1) + 50) div 100;
               idx = (if length ds \<le> idx then length ds - 1 else idx) in
        sorted ! idx)"

definition computeSpeedStats :: "SpeedSample list \<Rightarrow> SpeedStats" where
  "computeSpeedStats samples =
     (let ok = filter (\<lambda>s. ss_Err s = None) samples;
          vcs = map ss_VClusterReadyElapsed ok; nats = map ss_NATSReadyElapsed ok in
      \<lparr>st_Samples = int (length samples), st_FailedSamples = int (length (filter (\<lambda>s. ss_Err s \<noteq> None) samples)),
       st_P50VCluster = percentileDuration vcs 50, st_P95VCluster = percentileDuration vcs 95,
       st_P50NATS = percentileDuration nats 50, st_P95NATS = percentileDuration nats 95\<rparr>)"

definition formatSpeedStats :: "SpeedStats \<Rightarrow> string" where
  "formatSpeedStats s =
     (let ms = (\<lambda>d. Duration_String (Duration_Round d Millisecond)) in
      Join [''samples='' @ fmt_int (st_Samples s) @ '' failed='' @ fmt_int (st_FailedSamples s),
            ''vCluster p50='' @ ms (st_P50VCluster s) @ '' p95='' @ ms (st_P95VCluster s),
            ''NATS p50='' @ ms (st_P50NATS s) @ '' p95='' @ ms (st_P95NATS s)] '' | '')"

definition measureNATSProvisioningSpeed ::
  "'w go_time \<Rightarrow> 'w KubectlClient \<Rightarrow> probe_Config \<Rightarrow> string \<Rightarrow> time \<Rightarrow> ('w, SpeedSample) io" where
  "measureNATSProvisioningSpeed T c cfg kubeconfig vClusterElapsed =
     (let failed = (\<lambda>e. io_ret \<lparr>ss_VClusterReadyElapsed = 0, ss_NATSReadyElapsed = 0, ss_Err = Some e\<rparr>);
          done = (\<lambda>d. io_ret \<lparr>ss_VClusterReadyElapsed = vClusterElapsed, ss_NATSReadyElapsed = d, ss_Err = None\<rparr>) in
      io_then (io_call (gt_Now T)) (\<lambda>natsStart.
      io_then (io_call (kc_Apply c kubeconfig natsManifest)) (\<lambda>err.
      case err of Some e \<Rightarrow> failed (Errorf ''apply NATS: '' e)
      | None \<Rightarrow>
        io_then (io_call (kc_WaitPodReady c kubeconfig ''default'' ''app=nats'' (pc_NATSReadySeconds cfg * Second)))
          (\<lambda>(_, natsElapsed, err).
        case err of Some e \<Rightarrow> failed (Errorf ''NATS not ready: '' e)
        | None \<Rightarrow>
          if natsElapsed = 0 then io_then (io_call (gt_Now T)) (\<lambda>now. done (now - natsStart))
          else done natsElapsed))))"

definition sample_errors :: "SpeedSample list \<Rightarrow> string \<rightharpoonup> string" where
  "sample_errors samples =
     map_of (concat (map (\<lambda>(i, s). case ss_Err s of None \<Rightarrow> []
       | Some e \<Rightarrow> [(''sample_'' @ Itoa i @ ''_error'', Error_String e)]) (enumerate 0 samples)))"

text \<open>The last part of the test: the metrics of the samples and the verdict against the thresholds.\<close>

definition speed_verdict ::
  "'w go_time \<Rightarrow> probe_Config \<Rightarrow> time \<Rightarrow> SpeedSample list \<Rightarrow> ('w, TestResult) io" where
  "speed_verdict T cfg start samples =
     (let stats = computeSpeedStats samples;
          vClusterThreshold = pc_VClusterReadySeconds cfg * Second;
          natsThreshold = pc_NATSReadySeconds cfg * Second;
          ms = (\<lambda>d. Duration_String (Duration_Round d Millisecond));
          sec = (\<lambda>d. Duration_String (Duration_Round d Second));
          metrics = (sample_errors samples)
            (''speed_samples'' \<mapsto> fmt_int (st_Samples stats), ''speed_failed'' \<mapsto> fmt_int (st_FailedSamples stats),
             ''vcluster_p50'' \<mapsto> ms (st_P50VCluster stats), ''vcluster_p95'' \<mapsto> ms (st_P95VCluster stats),
             ''nats_p50'' \<mapsto> ms (st_P50NATS stats), ''nats_p95'' \<mapsto> ms (st_P95NATS stats)) in
      if 0 < st_FailedSamples stats
      then failResult T TestProvisioningSpeed
             (fmt_int (st_FailedSamples stats) @ ''/'' @ fmt_int (st_Samples stats) @ '' samples failed '' @ em_dash @
              '' see metrics for details'') start metrics
      else if vClusterThreshold < st_P95VCluster stats
      then failResult T TestProvisioningSpeed
             (''vCluster p95 '' @ ms (st_P95VCluster stats) @ '' exceeds threshold '' @ Duration_String vClusterThreshold) start metrics
      else if natsThreshold < st_P95NATS stats
      then failResult T TestProvisioningSpeed
             (''NATS p95 '' @ ms (st_P95NATS stats) @ '' exceeds threshold '' @ Duration_String natsThreshold) start metrics
      else passResult T TestProvisioningSpeed
             (''vCluster p95='' @ sec (st_P95VCluster stats) @ '' (<='' @ Duration_String vClusterThreshold @ '') | NATS p95='' @
              sec (st_P95NATS stats) @ '' (<='' @ Duration_String natsThreshold @ '')'') start metrics)"

text \<open>\<open>make([]SpeedSample, 0, n)\<close> panics for a negative \<open>n\<close>.\<close>

definition RunTestProvisioningSpeed ::
  "'w go_time \<Rightarrow> 'w KubectlClient \<Rightarrow> probe_Config \<Rightarrow> string \<Rightarrow> time \<Rightarrow> ('w, TestResult) io" where
  "RunTestProvisioningSpeed T c cfg tenantKubeconfig vClusterReadyElapsed =
     io_then (io_call (gt_Now T)) (\<lambda>start.
     if pc_SpeedSamples cfg < 0 then io_panic
     else io_then (io_map (\<lambda>_. measureNATSProvisioningSpeed T c cfg tenantKubeconfig vClusterReadyElapsed)
                     [0 ..< nat (pc_SpeedSamples cfg)])
            (speed_verdict T cfg start))"

section \<open>provisioner.go: test 3\<close>

definition provisionerConfigMap :: string where
  "provisionerConfigMap = unlines
     [''---'', ''apiVersion: v1'', ''kind: ConfigMap'', ''metadata:'', ''  name: cf-provisioner-test'',
      ''  namespace: default'', ''  labels:'', ''    managed-by: cf-provisioner'',
      ''    spike: tenant-isolation'', ''data:'', ''  test: \"provisioner-communication-validated\"'']"

definition isTenantBScopedOut :: "string \<Rightarrow> gerror option \<Rightarrow> bool" where
  "isTenantBScopedOut output err =
     (if err \<noteq> None then True
      else let outputLow = ToLower output in
        if \<exists>sig\<in>set [''not found'', ''error'', ''no such'', ''forbidden'', ''unauthorized'']. Contains outputLow sig then True
        else if Contains outputLow ''deleted'' then False
        else True)"

definition formatScopeProof :: "string \<Rightarrow> gerror option \<Rightarrow> string" where
  "formatScopeProof output err =
     (case err of Some e \<Rightarrow> ''RunInPod error (expected): '' @ Error_String e
      | None \<Rightarrow>
        if output = [] then ''empty output (resource not accessible)''
        else if 80 < length output then take 80 output @ ellipsis
        else output)"

definition RunTestProvisionerComm ::
  "'w go_time \<Rightarrow> 'w KubectlClient \<Rightarrow> probe_Config \<Rightarrow> string \<Rightarrow> string \<Rightarrow> ('w, TestResult) io" where
  "RunTestProvisionerComm T c cfg tenantAKubeconfig tenantBKubeconfig =
     io_then (io_call (gt_Now T)) (\<lambda>start.
     io_then (io_call (kc_Apply c tenantAKubeconfig provisionerConfigMap)) (\<lambda>err.
     if err \<noteq> None then failResult T TestProvisionerComm (''apply ConfigMap to tenant-A failed: '' @ fmt_error err) start Map.empty else
     io_then (io_call (kc_GetPodsByLabel c tenantAKubeconfig ''default'' ''managed-by=cf-provisioner'')) (\<lambda>(pods, _).
     let applyConfirmed = True;
         metrics = [''apply_confirmed'' \<mapsto> fmt_bool applyConfirmed, ''pods_with_label'' \<mapsto> Itoa (length pods)] in
     io_then (io_call (kc_RunInPod c tenantBKubeconfig ''default'' ''cf-provisioner-test'' []
                [''kubectl'', ''--kubeconfig=/dev/stdin'', ''delete'', ''cm'', ''cf-provisioner-test''])) (\<lambda>(deleteOut, deleteErr).
     let tenantBIsolated = isTenantBScopedOut deleteOut deleteErr;
         metrics = metrics(''tenant_b_delete_attempt'' \<mapsto> ''isolated='' @ fmt_bool tenantBIsolated) in
     if \<not> applyConfirmed then failResult T TestProvisionerComm ''Apply to tenant-A did not succeed'' start metrics
     else if \<not> tenantBIsolated
     then failResult T TestProvisionerComm
            (''tenant-B kubeconfig was able to affect tenant-A resources '' @ em_dash @ '' isolation broken'') start metrics
     else passResult T TestProvisionerComm
            (''apply to tenant-A: OK | tenant-B scope isolation: confirmed ('' @ formatScopeProof deleteOut deleteErr @ '')'')
            start metrics))))"

section \<open>overhead.go: test 4\<close>

record overheadSample =
  os_cpuA :: int
  os_memA :: int
  os_cpuB :: int
  os_memB :: int

definition extractOverhead :: "overheadSample list \<Rightarrow> (overheadSample \<Rightarrow> int) \<Rightarrow> int list" where
  "extractOverhead samples fn = map fn samples"

definition p50Int64 :: "int list \<Rightarrow> int" where
  "p50Int64 vals = (if vals = [] then 0 else sort vals ! (length vals div 2))"

definition maxInt64 :: "int list \<Rightarrow> int" where
  "maxInt64 vals = (case vals of [] \<Rightarrow> 0 | m # vs \<Rightarrow> foldl (\<lambda>m v. if m < v then v else m) m vs)"

definition buildOverheadEvidence :: "int \<Rightarrow> int \<Rightarrow> int \<Rightarrow> int \<Rightarrow> int \<Rightarrow> int \<Rightarrow> string" where
  "buildOverheadEvidence cpuA memA cpuB memB avgCPU avgMem =
     ''tenant-A: '' @ fmt_int cpuA @ ''m/'' @ fmt_int memA @ ''Mi | tenant-B: '' @ fmt_int cpuB @ ''m/'' @ fmt_int memB @
     ''Mi | avg: '' @ fmt_int avgCPU @ ''m/'' @ fmt_int avgMem @ ''Mi''"

text \<open>
  \<open>collect_overhead\<close> is the loop over the snapshots: its result is the samples it collected, or the
  result with which the test returns from inside the loop. \<open>left\<close> counts the rounds that remain.
\<close>

definition vClusterControlPlanePodSelector :: string where
  "vClusterControlPlanePodSelector = ''app=vcluster''"

definition no_metrics_server :: string where
  "no_metrics_server = ''metrics-server not available '' @ em_dash @ '' install metrics-server to enable this test''"

fun collect_overhead ::
  "'w go_time \<Rightarrow> 'w KubectlClient \<Rightarrow> probe_Config \<Rightarrow> string \<Rightarrow> string \<Rightarrow> time \<Rightarrow> nat \<Rightarrow> nat \<Rightarrow> overheadSample list \<Rightarrow>
    ('w, TestResult + overheadSample list) io" where
  "collect_overhead T c cfg nsA nsB start i 0 samples = io_ret (Inr samples)"
| "collect_overhead T c cfg nsA nsB start i (Suc left) samples =
     io_then (if 0 < i \<and> 0 < pc_OverheadSampleInterval cfg then io_call (gt_Select T (pc_OverheadSampleInterval cfg)) else io_ret True)
       (\<lambda>fired.
     if \<not> fired then io_ret (Inr samples) else
     io_then (io_call (kc_GetPodResources c [] nsA vClusterControlPlanePodSelector)) (\<lambda>resA. case resA of
       Inl err \<Rightarrow> io_then (failResult T TestResourceOverhead
           (''get pod resources sample '' @ Itoa (Suc i) @ '' (tenant-A namespace='' @ nsA @ ''): '' @ Error_String err) start Map.empty)
           (\<lambda>r. io_ret (Inl r))
     | Inr podsA \<Rightarrow>
     io_then (io_call (kc_GetPodResources c [] nsB vClusterControlPlanePodSelector)) (\<lambda>resB. case resB of
       Inl err \<Rightarrow> io_then (failResult T TestResourceOverhead
           (''get pod resources sample '' @ Itoa (Suc i) @ '' (tenant-B namespace='' @ nsB @ ''): '' @ Error_String err) start Map.empty)
           (\<lambda>r. io_ret (Inl r))
     | Inr podsB \<Rightarrow>
       if podsA = [] \<and> podsB = []
       then (if i = 0 then io_then (skipResult T TestResourceOverhead no_metrics_server start) (\<lambda>r. io_ret (Inl r))
             else io_ret (Inr samples))
       else collect_overhead T c cfg nsA nsB start (Suc i) left
              (samples @ [\<lparr>os_cpuA = TotalCPUMilli podsA, os_memA = TotalMemMB podsA,
                           os_cpuB = TotalCPUMilli podsB, os_memB = TotalMemMB podsB\<rparr>]))))"

text \<open>\<open>float64(avgMem*n)/1024\<close> with \<open>%.1f\<close>; the product wraps.\<close>

definition sizing_gb :: "int \<Rightarrow> int \<Rightarrow> string" where
  "sizing_gb avgMem n = fmt_1f_1024 (int64 (avgMem * n)) @ ''Gi''"

definition overhead_verdict ::
  "'w go_time \<Rightarrow> probe_Config \<Rightarrow> time \<Rightarrow> overheadSample list \<Rightarrow> ('w, TestResult) io" where
  "overhead_verdict T cfg start samples =
     (let cpuA = p50Int64 (extractOverhead samples os_cpuA); memA = p50Int64 (extractOverhead samples os_memA);
          cpuB = p50Int64 (extractOverhead samples os_cpuB); memB = p50Int64 (extractOverhead samples os_memB);
          cpuAPeak = maxInt64 (extractOverhead samples os_cpuA); cpuBPeak = maxInt64 (extractOverhead samples os_cpuB);
          avgCPU = int64 (cpuA + cpuB) sdiv 2; avgMem = int64 (memA + memB) sdiv 2;
          metrics = [''samples_count'' \<mapsto> Itoa (length samples),
            ''tenant_a_cpu_p50_m'' \<mapsto> fmt_int cpuA @ ''m'', ''tenant_a_mem_p50_mb'' \<mapsto> fmt_int memA @ ''Mi'',
            ''tenant_a_cpu_peak_m'' \<mapsto> fmt_int cpuAPeak @ ''m'', ''tenant_b_cpu_p50_m'' \<mapsto> fmt_int cpuB @ ''m'',
            ''tenant_b_mem_p50_mb'' \<mapsto> fmt_int memB @ ''Mi'', ''tenant_b_cpu_peak_m'' \<mapsto> fmt_int cpuBPeak @ ''m'',
            ''avg_cpu_m'' \<mapsto> fmt_int avgCPU @ ''m'', ''avg_mem_mb'' \<mapsto> fmt_int avgMem @ ''Mi'',
            ''sizing_10_tenants_ram_gb'' \<mapsto> sizing_gb avgMem 10, ''sizing_50_tenants_ram_gb'' \<mapsto> sizing_gb avgMem 50,
            ''sizing_200_tenants_ram_gb'' \<mapsto> sizing_gb avgMem 200];
          failures =
            (if pc_MaxIdleRAMMB cfg < avgMem
             then [''idle RAM p50 '' @ fmt_int avgMem @ ''Mi > threshold '' @ fmt_int (pc_MaxIdleRAMMB cfg) @ ''Mi''] else []) @
            (if pc_MaxIdleCPUMilli cfg < avgCPU
             then [''idle CPU p50 '' @ fmt_int avgCPU @ ''m > threshold '' @ fmt_int (pc_MaxIdleCPUMilli cfg) @ ''m''] else []);
          evidence = buildOverheadEvidence cpuA memA cpuB memB avgCPU avgMem @ '' | samples='' @ Itoa (length samples) @
            (if cpuA < cpuAPeak \<or> cpuB < cpuBPeak
             then '' | cpu_peak_a='' @ fmt_int cpuAPeak @ ''m cpu_peak_b='' @ fmt_int cpuBPeak @ ''m'' else []) in
      if failures \<noteq> [] then failResult T TestResourceOverhead (evidence @ '' | FAIL: '' @ Join failures ''; '') start metrics
      else passResult T TestResourceOverhead evidence start metrics)"

definition RunTestResourceOverhead ::
  "'w go_time \<Rightarrow> 'w KubectlClient \<Rightarrow> probe_Config \<Rightarrow> string \<Rightarrow> string \<Rightarrow> ('w, TestResult) io" where
  "RunTestResourceOverhead T c cfg tenantANamespace tenantBNamespace =
     io_then (io_call (gt_Now T)) (\<lambda>start.
     io_then (if 0 < pc_OverheadStabilizationWait cfg then io_call (gt_Select T (pc_OverheadStabilizationWait cfg)) else io_ret True)
       (\<lambda>fired.
     if \<not> fired then failResult T TestResourceOverhead ''context cancelled during stabilization wait'' start Map.empty else
     let n = (if pc_OverheadSamples cfg < 1 then 1 else nat (pc_OverheadSamples cfg)) in
     io_then (collect_overhead T c cfg tenantANamespace tenantBNamespace start 0 n []) (\<lambda>res. case res of
       Inl r \<Rightarrow> io_ret r
     | Inr samples \<Rightarrow>
         if samples = [] then skipResult T TestResourceOverhead no_metrics_server start
         else overhead_verdict T cfg start samples)))"

record SizingRow =
  sr_Tenants :: int
  sr_TotalCPUM :: int
  sr_TotalMem_1024ths :: int

text \<open>The \<open>float64\<close> field \<open>TotalMemGB\<close> is kept as the integer it divides by 1024.\<close>

definition SizingFormula :: "int \<Rightarrow> int \<Rightarrow> int list \<Rightarrow> SizingRow list" where
  "SizingFormula avgCPUMilli avgMemMB tenantCounts =
     map (\<lambda>n. \<lparr>sr_Tenants = n, sr_TotalCPUM = int64 (avgCPUMilli * n), sr_TotalMem_1024ths = int64 (avgMemMB * n)\<rparr>) tenantCounts"

section \<open>cilium.go: test 5\<close>

definition ciliumProbeTemplate :: string where
  "ciliumProbeTemplate = unlines
     [''---'', ''apiVersion: v1'', ''kind: Pod'', ''metadata:'', ''  name: cilium-probe'', ''  labels:'',
      ''    app: cilium-probe'', ''spec:'', ''  containers:'', ''  - name: probe'',
      ''    image: busybox:stable'', ''    command: [\"sleep\", \"3600\"]'']"

definition truncate_go :: "string \<Rightarrow> nat \<Rightarrow> string" where
  "truncate_go s0 maxLen = (let s = TrimSpace s0 in if length s \<le> maxLen then s else take maxLen s @ ellipsis)"

definition isCiliumInstalled :: "'w KubectlClient \<Rightarrow> ('w, bool \<times> gerror option) io" where
  "isCiliumInstalled c =
     io_then (io_call (kc_GetPodsByLabel c [] ''kube-system'' ''k8s-app=cilium'')) (\<lambda>(pods, err).
     if err \<noteq> None then io_ret (False, None) else io_ret (pods \<noteq> [], None))"

definition RunTestCiliumEnforcement ::
  "'w go_time \<Rightarrow> 'w KubectlClient \<Rightarrow> probe_Config \<Rightarrow> string \<Rightarrow> string \<Rightarrow> ('w, TestResult) io" where
  "RunTestCiliumEnforcement T c cfg tenantANamespace tenantBNamespace =
     io_then (io_call (gt_Now T)) (\<lambda>start.
     io_then (isCiliumInstalled c) (\<lambda>(ciliumPresent, err).
     if err \<noteq> None then failResult T TestCiliumEnforcement (''cannot detect Cilium: '' @ fmt_error err) start Map.empty
     else if \<not> ciliumPresent
     then skipResult T TestCiliumEnforcement
            ''Cilium not installed on host cluster (flannel detected); cross-namespace TCP blocking not enforced'' start
     else
     io_then (io_call (kc_Apply c [] ciliumProbeTemplate)) (\<lambda>err.
     if err \<noteq> None
     then failResult T TestCiliumEnforcement (''deploy cilium-probe pod in '' @ tenantANamespace @ '': '' @ fmt_error err) start Map.empty
     else
     io_then (io_call (kc_WaitPodReady c [] tenantANamespace ''app=cilium-probe'' (pc_ExecTimeout cfg))) (\<lambda>(probePod0, _, err).
     if err \<noteq> None then failResult T TestCiliumEnforcement (''cilium-probe not ready: '' @ fmt_error err) start Map.empty
     else let probePod = (if probePod0 = [] then ''cilium-probe'' else probePod0) in
     io_then (io_call (kc_PodIP c [] tenantBNamespace ''app=echo-server'')) (\<lambda>(ip, err).
     let missing = (err \<noteq> None \<or> ip = []);
         tenantBClusterIP = (if missing then ''10.96.0.1'' else ip);
         metrics = (if missing then [''tenant_b_clusterip_note'' \<mapsto> ''echo not in host ns; using ClusterIP as probe target''] else Map.empty);
         metrics = metrics(''tenant_b_clusterip'' \<mapsto> tenantBClusterIP) in
     io_then (io_call (kc_RunInPod c [] tenantANamespace probePod ''probe'' [''nc'', ''-zv'', ''-w3'', tenantBClusterIP, ''8080'']))
       (\<lambda>(ncOut, _).
     let blocked = isConnectionBlocked ncOut; metrics = metrics(''cilium_nc_output'' \<mapsto> ncOut);
         evidence = ''probe-ns='' @ tenantANamespace @ '' | target='' @ tenantBClusterIP @ '':8080 | blocked='' @ fmt_bool blocked @
           '' | output='' @ Quote (truncate_go ncOut 80) in
     if blocked then passResult T TestCiliumEnforcement evidence start metrics
     else failResult T TestCiliumEnforcement
            (evidence @ '' | FAIL: cross-namespace connection succeeded '' @ em_dash @ '' Cilium policy not enforced'') start metrics))))))"

section \<open>recovery.go: test 6\<close>

definition buildRecoveryEvidence :: "string \<Rightarrow> time \<Rightarrow> time \<Rightarrow> bool \<Rightarrow> string" where
  "buildRecoveryEvidence deletedPod elapsed threshold natsOK =
     ''deleted='' @ deletedPod @ '' | recovery='' @ Duration_String (Duration_Round elapsed Second) @ '' (<='' @
     Duration_String threshold @ '') | '' @
     (if natsOK then ''NATS=running '' @ check_mark else ''NATS=not-detected (may not be deployed)'')"

definition RunTestFailureRecovery ::
  "'w go_time \<Rightarrow> 'w KubectlClient \<Rightarrow> probe_Config \<Rightarrow> string \<Rightarrow> ('w, TestResult) io" where
  "RunTestFailureRecovery T c cfg tenantNamespace =
     io_then (io_call (gt_Now T)) (\<lambda>start.
     let recoveryThreshold = pc_RecoverySeconds cfg * Second in
     io_then (io_call (kc_GetPodsByLabel c [] tenantNamespace ''app=vcluster'')) (\<lambda>(pods, err).
     if err \<noteq> None \<or> pods = []
     then failResult T TestFailureRecovery
            (''cannot find vCluster pod in namespace '' @ tenantNamespace @ '': '' @ fmt_error err) start Map.empty
     else let vclusterPod = hd pods; metrics = [''target_pod'' \<mapsto> vclusterPod] in
     io_then (io_call (gt_Now T)) (\<lambda>deleteStart.
     io_then (io_call (kc_DeletePod c [] tenantNamespace vclusterPod)) (\<lambda>err.
     if err \<noteq> None
     then failResult T TestFailureRecovery (''delete vCluster pod '' @ Quote vclusterPod @ '': '' @ fmt_error err) start metrics
     else let metrics = metrics(''deleted_at'' \<mapsto> gt_RFC3339 T deleteStart) in
     io_then (io_call (kc_WaitPodReady c [] tenantNamespace ''app=vcluster'' recoveryThreshold)) (\<lambda>(newPod, elapsed, err).
     let metrics = metrics(''recovery_elapsed'' \<mapsto> Duration_String (Duration_Round elapsed Millisecond), ''new_pod'' \<mapsto> newPod) in
     if err \<noteq> None
     then failResult T TestFailureRecovery
            (''vCluster API server did not recover within '' @ Duration_String recoveryThreshold @ '': '' @ fmt_error err) start metrics
     else
     io_then (io_call (kc_GetPodsByLabel c [] tenantNamespace ''app=nats'')) (\<lambda>(natsPods, natsErr).
     let natsStillRunning = (natsErr = None \<and> natsPods \<noteq> []);
         metrics = metrics(''nats_still_running'' \<mapsto> fmt_bool natsStillRunning);
         evidence = buildRecoveryEvidence vclusterPod elapsed recoveryThreshold natsStillRunning in
     if recoveryThreshold < elapsed
     then failResult T TestFailureRecovery (evidence @ '' | FAIL: recovery time exceeded threshold'') start metrics
     else passResult T TestFailureRecovery evidence start metrics))))))"

section \<open>runner.go\<close>

record RunInput =
  ri_TenantAKubeconfig :: string
  ri_TenantBKubeconfig :: string
  ri_TenantANamespace :: string
  ri_TenantBNamespace :: string
  ri_TenantAVClusterReadyElapsed :: time

definition runOne ::
  "'w go_time \<Rightarrow> 'w KubectlClient \<Rightarrow> probe_Config \<Rightarrow> RunInput \<Rightarrow> TestName \<Rightarrow> ('w, TestResult) io" where
  "runOne T c cfg input name =
     (if name = TestNetworkIsolation
      then RunTestNetworkIsolation T c cfg (ri_TenantAKubeconfig input) (ri_TenantBKubeconfig input)
      else if name = TestProvisioningSpeed
      then RunTestProvisioningSpeed T c cfg (ri_TenantAKubeconfig input) (ri_TenantAVClusterReadyElapsed input)
      else if name = TestProvisionerComm
      then RunTestProvisionerComm T c cfg (ri_TenantAKubeconfig input) (ri_TenantBKubeconfig input)
      else if name = TestResourceOverhead
      then RunTestResourceOverhead T c cfg (ri_TenantANamespace input) (ri_TenantBNamespace input)
      else if name = TestCiliumEnforcement
      then RunTestCiliumEnforcement T c cfg (ri_TenantANamespace input) (ri_TenantBNamespace input)
      else if name = TestFailureRecovery
      then RunTestFailureRecovery T c cfg (ri_TenantANamespace input)
      else io_ret \<lparr>tr_Name = name, tr_Verdict = VerdictFail, tr_Evidence = ''unknown test name: '' @ Quote name,
                   tr_Metrics = Map.empty, tr_Duration = 0\<rparr>)"

definition RunAll :: "'w go_time \<Rightarrow> 'w KubectlClient \<Rightarrow> probe_Config \<Rightarrow> RunInput \<Rightarrow> ('w, TestResult list) io" where
  "RunAll T c cfg input = io_map (runOne T c cfg input) AllTests"

definition CountByVerdict :: "TestResult list \<Rightarrow> Verdict \<rightharpoonup> nat" where
  "CountByVerdict results =
     foldl (\<lambda>counts r. counts(tr_Verdict r \<mapsto> Suc (case counts (tr_Verdict r) of Some n \<Rightarrow> n | None \<Rightarrow> 0)))
       [VerdictPass \<mapsto> 0, VerdictFail \<mapsto> 0, VerdictSkip \<mapsto> 0] results"

definition AllPassed :: "TestResult list \<Rightarrow> bool" where
  "AllPassed results \<longleftrightarrow> \<not> (\<exists>r\<in>set results. tr_Verdict r = VerdictFail)"

definition OverallVerdict :: "TestResult list \<Rightarrow> Verdict" where
  "OverallVerdict results =
     (if AllPassed results
      then (if 0 < the (CountByVerdict results VerdictPass) then VerdictPass else VerdictSkip)
      else VerdictFail)"

section \<open>table.go\<close>

definition colorVerdict :: "Verdict \<Rightarrow> string" where
  "colorVerdict v =
     (let esc = CHR 0x1B; off = esc # ''[0m'' in
      if v = VerdictPass then esc # ''[32m'' @ v @ off
      else if v = VerdictFail then esc # ''[31m'' @ v @ off
      else if v = VerdictSkip then esc # ''[33m'' @ v @ off
      else v)"

text \<open>
  What the tables print. \<open>%-*s\<close> pads to a number of runes, so a coloured verdict is not padded. The order in
  which Go ranges over the metrics of a result is an argument.
\<close>

function rune_count :: "string \<Rightarrow> nat" where
  "rune_count [] = 0"
| "rune_count (c # s) = Suc (rune_count (drop (case rune_len c s of None \<Rightarrow> 0 | Some k \<Rightarrow> k) s))"
  by pat_completeness auto
termination
  by (relation "measure length") (auto simp: le_imp_less_Suc)

definition pad_right :: "nat \<Rightarrow> string \<Rightarrow> string" where
  "pad_right n s = s @ replicate (n - rune_count s) CHR '' ''"

definition box_line :: "nat \<Rightarrow> string" where
  "box_line n = concat (replicate n [CHR 0xE2, CHR 0x94, CHR 0x80])"

definition PrintResults :: "TestResult list \<Rightarrow> string" where
  "PrintResults results =
     (let sep = box_line (28 + 7 + 10 + 60 + 7);
          row = (\<lambda>a b c d. pad_right 28 a @ ''  '' @ pad_right 7 b @ ''  '' @ pad_right 10 c @ ''  '' @ pad_right 60 d);
          counts = (\<lambda>v. Itoa (the (CountByVerdict results v))) in
      unlines ([sep, row ''TEST'' ''VERDICT'' ''DURATION'' ''EVIDENCE'', sep] @
        map (\<lambda>r. row (tr_Name r) (colorVerdict (tr_Verdict r))
          (Duration_String (Duration_Round (tr_Duration r) Millisecond)) (truncate_go (tr_Evidence r) 60)) results @ [sep]) @
      NL @ ''  Overall: '' @ colorVerdict (OverallVerdict results) @ ''   PASS='' @ counts VerdictPass @ ''  FAIL='' @
      counts VerdictFail @ ''  SKIP='' @ counts VerdictSkip @ NL @ NL)"

definition PrintMetrics :: "(TestResult \<Rightarrow> string list) \<Rightarrow> TestResult list \<Rightarrow> string" where
  "PrintMetrics order results =
     concat (map (\<lambda>r. if order r = [] then [] else
       NL @ box_line 2 @ '' '' @ tr_Name r @ '' ('' @ tr_Verdict r @ '') '' @ box_line 5 @ NL @
       unlines (map (\<lambda>k. ''   '' @ pad_right 40 k @ '' '' @ the (tr_Metrics r k)) (order r))) results)"

definition PrintSizingFormula :: "int \<Rightarrow> int \<Rightarrow> string" where
  "PrintSizingFormula avgCPUMilli avgMemMB =
     (let rows = SizingFormula avgCPUMilli avgMemMB [10, 50, 100, 200]; sep = box_line 57 in
      if rows = [] then []
      else NL @ unlines ([sep,
        ''  HOST CLUSTER SIZING FORMULA (per vCluster: '' @ fmt_int avgCPUMilli @ ''m CPU / '' @ fmt_int avgMemMB @ ''Mi RAM)'', sep,
        ''  '' @ pad_right 10 ''TENANTS'' @ ''  '' @ pad_right 15 ''TOTAL CPU (m)'' @ ''  '' @ pad_right 15 ''TOTAL RAM (GiB)'', sep] @
        map (\<lambda>r. ''  '' @ pad_right 10 (fmt_int (sr_Tenants r)) @ ''  '' @ pad_right 15 (fmt_int (sr_TotalCPUM r)) @ ''  '' @
          pad_right 15 (fmt_1f_1024 (sr_TotalMem_1024ths r))) rows @ [sep]))"

function StripANSI :: "string \<Rightarrow> string" where
  "StripANSI [] = []"
| "StripANSI (c # s) =
     (if c = CHR 0x1B \<and> s \<noteq> [] \<and> hd s = CHR ''['' then StripANSI (drop 1 (dropWhile (\<lambda>x. x \<noteq> CHR ''m'') s))
      else c # StripANSI s)"
  by pat_completeness auto
termination
  by (relation "measure length") (auto simp: le_imp_less_Suc length_dropWhile_le le_trans [OF diff_le_self])

section \<open>fake_client.go\<close>

text \<open>The scripted client: its state is the fields of \<open>FakeClient\<close>.\<close>

record fake_state =
  fc_RunInPodResponses :: "(string \<times> gerror option) list"
  fc_RunInPodCalls :: "(string \<times> string \<times> string \<times> string \<times> string list) list"
  fc_ApplyErr :: "gerror option"
  fc_ApplyCalls :: nat
  fc_WaitPodReadyPodName :: string
  fc_WaitPodReadyElapsed :: time
  fc_WaitPodReadyErr :: "gerror option"
  fc_WaitPodReadyCalls :: nat
  fc_DeletePodErr :: "gerror option"
  fc_DeletePodCalls :: "string list"
  fc_PodResources :: "PodResource list"
  fc_PodResourcesErr :: "gerror option"
  fc_PodsByLabel :: "string list"
  fc_PodsByLabelErr :: "gerror option"
  fc_PodIPResult :: string
  fc_PodIPErr :: "gerror option"

definition FakeRunInPod ::
  "string \<Rightarrow> string \<Rightarrow> string \<Rightarrow> string \<Rightarrow> string list \<Rightarrow> fake_state \<Rightarrow> (string \<times> gerror option) \<times> fake_state" where
  "FakeRunInPod kubeconfigPath namespace pod container cmd f =
     (let f = f\<lparr>fc_RunInPodCalls := fc_RunInPodCalls f @ [(kubeconfigPath, namespace, pod, container, cmd)]\<rparr> in
      if fc_RunInPodResponses f = [] then (([], Some (Text ''fake: no RunInPod response configured'')), f)
      else let idx = length (fc_RunInPodCalls f) - 1;
               idx = (if length (fc_RunInPodResponses f) \<le> idx then length (fc_RunInPodResponses f) - 1 else idx) in
        (fc_RunInPodResponses f ! idx, f))"

definition FakeApply :: "string \<Rightarrow> string \<Rightarrow> fake_state \<Rightarrow> gerror option \<times> fake_state" where
  "FakeApply kubeconfigPath yamlContent f = (fc_ApplyErr f, f\<lparr>fc_ApplyCalls := Suc (fc_ApplyCalls f)\<rparr>)"

definition FakeWaitPodReady ::
  "string \<Rightarrow> string \<Rightarrow> string \<Rightarrow> time \<Rightarrow> fake_state \<Rightarrow> (string \<times> time \<times> gerror option) \<times> fake_state" where
  "FakeWaitPodReady kubeconfigPath namespace selector timeout f =
     ((fc_WaitPodReadyPodName f, fc_WaitPodReadyElapsed f, fc_WaitPodReadyErr f),
      f\<lparr>fc_WaitPodReadyCalls := Suc (fc_WaitPodReadyCalls f)\<rparr>)"

definition FakeDeletePod :: "string \<Rightarrow> string \<Rightarrow> string \<Rightarrow> fake_state \<Rightarrow> gerror option \<times> fake_state" where
  "FakeDeletePod kubeconfigPath namespace pod f =
     (fc_DeletePodErr f, f\<lparr>fc_DeletePodCalls := fc_DeletePodCalls f @ [pod]\<rparr>)"

definition FakeGetPodResources ::
  "string \<Rightarrow> string \<Rightarrow> string \<Rightarrow> fake_state \<Rightarrow> (gerror + PodResource list) \<times> fake_state" where
  "FakeGetPodResources kubeconfigPath namespace selector f =
     (case fc_PodResourcesErr f of Some e \<Rightarrow> Inl e | None \<Rightarrow> Inr (fc_PodResources f), f)"

definition FakeGetPodsByLabel ::
  "string \<Rightarrow> string \<Rightarrow> string \<Rightarrow> fake_state \<Rightarrow> (string list \<times> gerror option) \<times> fake_state" where
  "FakeGetPodsByLabel kubeconfigPath namespace selector f = ((fc_PodsByLabel f, fc_PodsByLabelErr f), f)"

definition FakePodIP :: "string \<Rightarrow> string \<Rightarrow> string \<Rightarrow> fake_state \<Rightarrow> (string \<times> gerror option) \<times> fake_state" where
  "FakePodIP kubeconfigPath namespace selector f = ((fc_PodIPResult f, fc_PodIPErr f), f)"

definition FakeClient :: "fake_state KubectlClient" where
  "FakeClient =
     \<lparr>kc_RunInPod = FakeRunInPod, kc_Apply = FakeApply, kc_WaitPodReady = FakeWaitPodReady,
      kc_DeletePod = FakeDeletePod, kc_GetPodResources = FakeGetPodResources,
      kc_GetPodsByLabel = FakeGetPodsByLabel, kc_PodIP = FakePodIP\<rparr>"

end
