(* ===== verification/ProbeCluster.thy ===== *)
theory ProbeCluster
  imports IsolationProbe
begin

text \<open>
  The package \<open>spikes/tenant-isolation/internal/cluster\<close> and the command \<open>cmd/probe\<close>: the client that
  shells out to \<open>kubectl\<close>, the life cycle of the vClusters, the check of the tools, and the run of the
  probe with its exit code. The operating system is a record of calls.
\<close>

section \<open>The operating system\<close>

text \<open>
  \<open>po_Run argv stdin\<close> is \<open>cmd.Run\<close> with both outputs in one buffer, \<open>po_Output argv\<close> is \<open>cmd.Output\<close>.
\<close>

record 'w probe_os =
  po_Time :: "'w go_time"
  po_Run :: "string list \<Rightarrow> string \<Rightarrow> 'w \<Rightarrow> (string \<times> gerror option) \<times> 'w"
  po_Output :: "string list \<Rightarrow> 'w \<Rightarrow> (string \<times> gerror option) \<times> 'w"
  po_LookPath :: "string \<Rightarrow> 'w \<Rightarrow> (gerror + string) \<times> 'w"
  po_MkdirAll :: "string \<Rightarrow> nat \<Rightarrow> 'w \<Rightarrow> gerror option \<times> 'w"
  po_WriteFile :: "string \<Rightarrow> string \<Rightarrow> nat \<Rightarrow> 'w \<Rightarrow> gerror option \<times> 'w"
  po_CtxErr :: "'w \<Rightarrow> gerror option \<times> 'w"
  po_Sleep :: "time \<Rightarrow> 'w \<Rightarrow> unit \<times> 'w"

section \<open>client.go: output parsers\<close>

fun parsePodNameFromLines :: "string list \<Rightarrow> string" where
  "parsePodNameFromLines [] = []"
| "parsePodNameFromLines (l # ls) =
     (let line = TrimSpace l in
      if HasPrefix line ''pod/''
      then (case Fields line of p # _ \<Rightarrow> TrimPrefix p ''pod/'' | [] \<Rightarrow> parsePodNameFromLines ls)
      else parsePodNameFromLines ls)"

definition parsePodNameFromWait :: "string \<Rightarrow> string" where
  "parsePodNameFromWait out = parsePodNameFromLines (Split out CHR 0x0A)"

fun parsePodLine :: "string list \<Rightarrow> PodResource list" where
  "parsePodLine (name # cpu # mem # _) =
     [\<lparr>pod_Name = name, pod_CPUMilli = ParseCPUMillicores cpu, pod_MemMB = ParseMemMB mem\<rparr>]"
| "parsePodLine _ = []"

definition parsePodResources :: "string \<Rightarrow> PodResource list" where
  "parsePodResources out =
     concat (map (\<lambda>l. let line = TrimSpace l in if line = [] then [] else parsePodLine (Fields line)) (Split out CHR 0x0A))"

section \<open>client.go: the real client\<close>

definition kubectl_bin :: "string \<Rightarrow> string" where
  "kubectl_bin b = (if b \<noteq> [] then b else ''kubectl'')"

definition kubeconfigArgs :: "string \<Rightarrow> string list" where
  "kubeconfigArgs kubeconfigPath = (if kubeconfigPath \<noteq> [] then [''--kubeconfig'', kubeconfigPath] else [])"

definition kubectl_run :: "'w probe_os \<Rightarrow> string \<Rightarrow> string list \<Rightarrow> 'w \<Rightarrow> (string \<times> gerror option) \<times> 'w" where
  "kubectl_run os b args = po_Run os (kubectl_bin b # args) []"

definition RealRunInPod ::
  "'w probe_os \<Rightarrow> string \<Rightarrow> string \<Rightarrow> string \<Rightarrow> string \<Rightarrow> string \<Rightarrow> string list \<Rightarrow> 'w \<Rightarrow> (string \<times> gerror option) \<times> 'w" where
  "RealRunInPod os b kubeconfigPath namespace pod container cmd w =
     (let args = kubeconfigArgs kubeconfigPath @ [''exec'', ''-n'', namespace, pod];
          args = (if container \<noteq> [] then args @ [''-c'', container] else args) in
      kubectl_run os b (args @ [''--''] @ cmd) w)"

definition RealApply :: "'w probe_os \<Rightarrow> string \<Rightarrow> string \<Rightarrow> string \<Rightarrow> 'w \<Rightarrow> gerror option \<times> 'w" where
  "RealApply os b kubeconfigPath yamlContent w =
     (let ((out, err), w) = po_Run os (kubectl_bin b # kubeconfigArgs kubeconfigPath @ [''apply'', ''-f'', ''-'']) yamlContent w in
      (case err of Some e \<Rightarrow> (Some (Wrap ''kubectl apply: '' e (NL @ ''output: '' @ out)), w) | None \<Rightarrow> (None, w)))"

definition RealWaitPodReady ::
  "'w probe_os \<Rightarrow> string \<Rightarrow> string \<Rightarrow> string \<Rightarrow> string \<Rightarrow> time \<Rightarrow> 'w \<Rightarrow> (string \<times> time \<times> gerror option) \<times> 'w" where
  "RealWaitPodReady os b kubeconfigPath namespace selector timeout w =
     (let (start, w) = gt_Now (po_Time os) w;
          ((out, err), w) = kubectl_run os b (kubeconfigArgs kubeconfigPath @
            [''wait'', ''pod'', ''-n'', namespace, ''-l'', selector, ''--for=condition=Ready'',
             ''--timeout='' @ fmt_int (timeout sdiv Second) @ ''s'']) w in
      case err of
        Some e \<Rightarrow>
          (let (now, w) = gt_Now (po_Time os) w in
           (([], now - start, Some (Wrap (''wait pod ready (ns='' @ namespace @ '' sel='' @ selector @ ''): '') e
              ('' '' @ em_dash @ '' '' @ out))), w))
      | None \<Rightarrow> (let (now, w) = gt_Now (po_Time os) w in ((parsePodNameFromWait out, now - start, None), w)))"

definition RealDeletePod :: "'w probe_os \<Rightarrow> string \<Rightarrow> string \<Rightarrow> string \<Rightarrow> string \<Rightarrow> 'w \<Rightarrow> gerror option \<times> 'w" where
  "RealDeletePod os b kubeconfigPath namespace pod w =
     (let ((_, err), w) = kubectl_run os b (kubeconfigArgs kubeconfigPath @
            [''delete'', ''pod'', ''-n'', namespace, pod, ''--grace-period=0'', ''--force'']) w in
      (err, w))"

definition RealGetPodResources ::
  "'w probe_os \<Rightarrow> string \<Rightarrow> string \<Rightarrow> string \<Rightarrow> string \<Rightarrow> 'w \<Rightarrow> (gerror + PodResource list) \<times> 'w" where
  "RealGetPodResources os b kubeconfigPath namespace selector w =
     (let ((out, err), w) = kubectl_run os b (kubeconfigArgs kubeconfigPath @
            [''top'', ''pods'', ''-n'', namespace, ''-l'', selector, ''--no-headers'']) w in
      case err of
        Some e \<Rightarrow>
          if Contains out ''not available'' \<or> Contains (Error_String e) ''not found'' then (Inr [], w)
          else (Inl (Wrap ''kubectl top pods: '' e ('' '' @ em_dash @ '' '' @ out)), w)
      | None \<Rightarrow> (Inr (parsePodResources out), w))"

definition RealGetPodsByLabel ::
  "'w probe_os \<Rightarrow> string \<Rightarrow> string \<Rightarrow> string \<Rightarrow> string \<Rightarrow> 'w \<Rightarrow> (string list \<times> gerror option) \<times> 'w" where
  "RealGetPodsByLabel os b kubeconfigPath namespace selector w =
     (let ((out, err), w) = kubectl_run os b (kubeconfigArgs kubeconfigPath @
            [''get'', ''pods'', ''-n'', namespace, ''-l'', selector, ''-o'', ''jsonpath={.items[*].metadata.name}'']) w in
      case err of
        Some e \<Rightarrow> (([], Some (Wrap (''get pods (ns='' @ namespace @ '' sel='' @ selector @ ''): '') e ('' '' @ em_dash @ '' '' @ out))), w)
      | None \<Rightarrow>
          (let out = TrimSpace out in if out = [] then (([], None), w) else ((Fields out, None), w)))"

definition RealPodIP ::
  "'w probe_os \<Rightarrow> string \<Rightarrow> string \<Rightarrow> string \<Rightarrow> string \<Rightarrow> 'w \<Rightarrow> (string \<times> gerror option) \<times> 'w" where
  "RealPodIP os b kubeconfigPath namespace selector w =
     (let ((out, err), w) = kubectl_run os b (kubeconfigArgs kubeconfigPath @
            [''get'', ''pods'', ''-n'', namespace, ''-l'', selector, ''-o'', ''jsonpath={.items[0].status.podIP}'']) w in
      case err of
        Some e \<Rightarrow> (([], Some (Wrap (''pod IP (ns='' @ namespace @ '' sel='' @ selector @ ''): '') e ('' '' @ em_dash @ '' '' @ out))), w)
      | None \<Rightarrow> ((TrimSpace out, None), w))"

definition RealClient :: "'w probe_os \<Rightarrow> string \<Rightarrow> 'w KubectlClient" where
  "RealClient os b =
     \<lparr>kc_RunInPod = RealRunInPod os b, kc_Apply = RealApply os b, kc_WaitPodReady = RealWaitPodReady os b,
      kc_DeletePod = RealDeletePod os b, kc_GetPodResources = RealGetPodResources os b,
      kc_GetPodsByLabel = RealGetPodsByLabel os b, kc_PodIP = RealPodIP os b\<rparr>"

definition NewRealClient :: "'w probe_os \<Rightarrow> 'w KubectlClient" where
  "NewRealClient os = RealClient os ''kubectl''"

section \<open>vcluster.go\<close>

definition probe_KubeconfigPath :: "string \<Rightarrow> string \<Rightarrow> string" where
  "probe_KubeconfigPath dir name = dir @ ''/'' @ name @ ''.kubeconfig''"

text \<open>\<open>dirOf\<close>: the path before its last slash.\<close>

definition dirOf :: "string \<Rightarrow> string" where
  "dirOf path =
     (if CHR ''/'' \<in> set path then rev (drop 1 (dropWhile (\<lambda>c. c \<noteq> CHR ''/'') (rev path))) else ''.'')"

definition runVCluster :: "'w probe_os \<Rightarrow> string list \<Rightarrow> ('w, gerror option) io" where
  "runVCluster os args =
     io_then (io_call (po_Run os (''vcluster'' # args) [])) (\<lambda>(out, err).
     io_ret (map_option (\<lambda>e. Wrap [] e ('' '' @ em_dash @ '' output: '' @ out)) err))"

definition ensureNamespace :: "'w probe_os \<Rightarrow> string \<Rightarrow> ('w, gerror option) io" where
  "ensureNamespace os namespace =
     io_then (io_call (po_Run os [''kubectl'', ''create'', ''namespace'', namespace, ''--dry-run=client'', ''-o'', ''yaml''] []))
       (\<lambda>(buf, err). case err of
         Some e \<Rightarrow> io_ret (Some (Wrap ''generate namespace YAML: '' e ('' '' @ em_dash @ '' '' @ buf)))
       | None \<Rightarrow>
         io_then (io_call (po_Run os [''kubectl'', ''apply'', ''-f'', ''-''] buf)) (\<lambda>(out, err).
         io_ret (map_option (\<lambda>e. Wrap ''apply namespace: '' e ('' '' @ em_dash @ '' '' @ out)) err)))"

definition isVClusterPodRunning :: "'w probe_os \<Rightarrow> string \<Rightarrow> string \<Rightarrow> ('w, bool \<times> gerror option) io" where
  "isVClusterPodRunning os name namespace =
     io_then (io_call (po_Output os [''kubectl'', ''get'', ''pod'', ''-n'', namespace, ''-l'', ''app=vcluster,release='' @ name,
                ''--no-headers'', ''-o'', ''custom-columns=STATUS:.status.phase''])) (\<lambda>(out, err).
     if err \<noteq> None then io_ret (False, err) else io_ret (Contains (TrimSpace out) ''Running'', None))"

definition isVClusterRunning :: "'w probe_os \<Rightarrow> string \<Rightarrow> string \<Rightarrow> ('w, bool \<times> gerror option) io" where
  "isVClusterRunning os name namespace =
     io_then (io_call (po_Output os [''vcluster'', ''list'', ''-n'', namespace, ''--output'', ''json''])) (\<lambda>(output, err).
     if err \<noteq> None then isVClusterPodRunning os name namespace
     else io_ret (Contains output name \<and> Contains output ''Running'', None))"

text \<open>The loop \<open>for time.Now().Before(deadline)\<close>, which ends when the clock gets there.\<close>

partial_function (option) poll_vcluster ::
  "'w probe_os \<Rightarrow> string \<Rightarrow> string \<Rightarrow> time \<Rightarrow> gerror \<Rightarrow> 'w \<Rightarrow> (gerror option \<times> 'w) option" where
  "poll_vcluster os name namespace deadline timed_out w =
     (let (now, w) = gt_Now (po_Time os) w in
      if deadline \<le> now then Some (Some timed_out, w)
      else let (ctxErr, w) = po_CtxErr os w in
        if ctxErr \<noteq> None then Some (ctxErr, w)
        else (case isVClusterRunning os name namespace w of
          None \<Rightarrow> None
        | Some ((up, err), w) \<Rightarrow>
            if err = None \<and> up then Some (None, w)
            else poll_vcluster os name namespace deadline timed_out (snd (po_Sleep os (5 * Second) w))))"

definition probe_waitVClusterReady :: "'w probe_os \<Rightarrow> string \<Rightarrow> string \<Rightarrow> time \<Rightarrow> ('w, gerror option) io" where
  "probe_waitVClusterReady os name namespace timeout =
     io_then (io_call (gt_Now (po_Time os))) (\<lambda>now.
     poll_vcluster os name namespace (now + timeout)
       (Text (''timed out after '' @ Duration_String timeout @ '' waiting for vCluster '' @ Quote name @ '' to be Running'')))"

definition exportKubeconfig :: "'w probe_os \<Rightarrow> string \<Rightarrow> string \<Rightarrow> string \<Rightarrow> ('w, gerror option) io" where
  "exportKubeconfig os name namespace kubeconfigPath =
     io_then (io_call (po_Output os [''vcluster'', ''connect'', name, ''-n'', namespace, ''--print'', ''--update-current=false'']))
       (\<lambda>(out, err). case err of Some e \<Rightarrow> io_ret (Some (Errorf ''vcluster connect --print: '' e)) | None \<Rightarrow>
     io_then (io_call (po_MkdirAll os (dirOf kubeconfigPath) 448))
       (\<lambda>err. case err of Some e \<Rightarrow> io_ret (Some (Errorf ''create kubeconfig dir: '' e)) | None \<Rightarrow>
     io_then (io_call (po_WriteFile os kubeconfigPath out 384))
       (\<lambda>err. io_ret (map_option (Errorf ''write kubeconfig: '') err))))"

definition probe_CreateVCluster ::
  "'w probe_os \<Rightarrow> string \<Rightarrow> string \<Rightarrow> string \<Rightarrow> time \<Rightarrow> ('w, time \<times> gerror option) io" where
  "probe_CreateVCluster os name namespace kubeconfigPath timeout =
     (let since = (\<lambda>start err. io_then (io_call (gt_Now (po_Time os))) (\<lambda>now. io_ret (now - start, err))) in
      io_then (io_call (gt_Now (po_Time os))) (\<lambda>start.
      io_then (ensureNamespace os namespace)
        (\<lambda>err. case err of Some e \<Rightarrow> io_ret (0, Some (Errorf (''ensure namespace '' @ Quote namespace @ '': '') e)) | None \<Rightarrow>
      io_then (runVCluster os [''create'', name, ''-n'', namespace, ''--connect=false'', ''--update-current=false''])
        (\<lambda>err. case err of Some e \<Rightarrow> io_ret (0, Some (Errorf (''vcluster create '' @ Quote name @ '': '') e)) | None \<Rightarrow>
      io_then (probe_waitVClusterReady os name namespace timeout)
        (\<lambda>err. case err of Some e \<Rightarrow> since start (Some (Wrap (''vcluster '' @ Quote name @ '' not ready: '') e [])) | None \<Rightarrow>
      io_then (exportKubeconfig os name namespace kubeconfigPath)
        (\<lambda>err. case err of Some e \<Rightarrow> since start (Some (Errorf (''export kubeconfig for '' @ Quote name @ '': '') e)) | None \<Rightarrow>
      since start None))))))"

definition probe_DeleteVCluster :: "'w probe_os \<Rightarrow> string \<Rightarrow> string \<Rightarrow> ('w, gerror option) io" where
  "probe_DeleteVCluster os name namespace =
     io_then (runVCluster os [''delete'', name, ''-n'', namespace, ''--delete-namespace'']) (\<lambda>err. case err of
       Some e \<Rightarrow>
         if Contains (Error_String e) ''not found'' \<or> Contains (Error_String e) ''not exist'' then io_ret None
         else io_ret (Some (Errorf (''vcluster delete '' @ Quote name @ '': '') e))
     | None \<Rightarrow> io_ret None)"

section \<open>install.go\<close>

record Tool =
  tool_Binary :: string
  tool_InstallCmd :: string
  tool_Required :: bool

definition requiredTools :: "Tool list" where
  "requiredTools =
     [\<lparr>tool_Binary = ''kubectl'', tool_InstallCmd = ''brew install kubectl'', tool_Required = True\<rparr>,
      \<lparr>tool_Binary = ''helm'', tool_InstallCmd = ''brew install helm'', tool_Required = True\<rparr>,
      \<lparr>tool_Binary = ''vcluster'', tool_InstallCmd = ''brew install loft-sh/tap/vcluster'', tool_Required = True\<rparr>,
      \<lparr>tool_Binary = ''k3d'', tool_InstallCmd = ''brew install k3d'', tool_Required = True\<rparr>]"

record CheckResult =
  check_Tool :: Tool
  check_Found :: bool
  check_Version :: string

text \<open>The first non-empty line of the first version command that answers with one.\<close>

fun version_attempts :: "'w probe_os \<Rightarrow> string \<Rightarrow> string list list \<Rightarrow> ('w, string) io" where
  "version_attempts os path [] = io_ret []"
| "version_attempts os path (args # rest) =
     io_then (io_call (po_Output os (path # args))) (\<lambda>(out, err).
     case (if err = None then filter (\<lambda>l. l \<noteq> []) (map TrimSpace (Split out CHR 0x0A)) else []) of
       line # _ \<Rightarrow> io_ret line
     | [] \<Rightarrow> version_attempts os path rest)"

definition queryVersion :: "'w probe_os \<Rightarrow> string \<Rightarrow> ('w, string) io" where
  "queryVersion os path = version_attempts os path [[''version'', ''--short''], [''version''], [''--version'']]"

definition check_tool :: "'w probe_os \<Rightarrow> Tool \<Rightarrow> ('w, CheckResult) io" where
  "check_tool os tool =
     io_then (io_call (po_LookPath os (tool_Binary tool))) (\<lambda>res. case res of
       Inl _ \<Rightarrow> io_ret \<lparr>check_Tool = tool, check_Found = False, check_Version = []\<rparr>
     | Inr path \<Rightarrow> io_then (queryVersion os path) (\<lambda>v. io_ret \<lparr>check_Tool = tool, check_Found = True, check_Version = v\<rparr>))"

definition CheckPrerequisites :: "'w probe_os \<Rightarrow> ('w, CheckResult list \<times> gerror option) io" where
  "CheckPrerequisites os =
     io_then (io_map (check_tool os) requiredTools) (\<lambda>results.
     let missing = map (\<lambda>r. ''  '' @ tool_Binary (check_Tool r) @ ''  (install: '' @ tool_InstallCmd (check_Tool r) @ '')'')
           (filter (\<lambda>r. \<not> check_Found r \<and> tool_Required (check_Tool r)) results) in
     if missing \<noteq> [] then io_ret (results, Some (Text (''missing required tools:'' @ NL @ Join missing NL)))
     else io_ret (results, None))"

section \<open>cmd/probe\<close>

record probe_flags =
  flag_kubeconfig :: string
  flag_tenantA :: string
  flag_tenantB :: string
  flag_kcDir :: string
  flag_speedSamples :: int
  flag_overheadWait :: time
  flag_overheadInterval :: time
  flag_overheadSamples :: int
  flag_skipCreate :: bool
  flag_verbose :: bool

definition flags_Config :: "probe_flags \<Rightarrow> probe_Config" where
  "flags_Config fl = probe_DefaultConfig
     \<lparr>pc_KubeconfigPath := flag_kubeconfig fl, pc_TenantAName := flag_tenantA fl, pc_TenantBName := flag_tenantB fl,
      pc_KubeconfigDir := flag_kcDir fl, pc_SpeedSamples := flag_speedSamples fl,
      pc_OverheadStabilizationWait := flag_overheadWait fl, pc_OverheadSampleInterval := flag_overheadInterval fl,
      pc_OverheadSamples := flag_overheadSamples fl\<rparr>"

text \<open>The part of \<open>run\<close> that prints the sizing table of a verbose run: for the first overhead result.\<close>

definition sizing_output :: "TestResult list \<Rightarrow> string" where
  "sizing_output results =
     (case filter (\<lambda>r. tr_Name r = TestResourceOverhead \<and> tr_Verdict r \<noteq> VerdictSkip) results of
        [] \<Rightarrow> []
      | r # _ \<Rightarrow>
          (let avgCPU = ParseCPUMillicores (MetricOrEmpty r ''avg_cpu_m''); avgMem = ParseMemMB (MetricOrEmpty r ''avg_mem_mb'') in
           if 0 < avgCPU \<or> 0 < avgMem then PrintSizingFormula avgCPU avgMem else []))"

definition run_tests ::
  "(TestResult \<Rightarrow> string list) \<Rightarrow> 'w probe_os \<Rightarrow> probe_flags \<Rightarrow> RunInput \<Rightarrow> ('w, int \<times> string) io" where
  "run_tests order os fl input =
     io_then (RunAll (po_Time os) (NewRealClient os) (flags_Config fl) input) (\<lambda>results.
     let out = PrintResults results @ (if flag_verbose fl then PrintMetrics order results @ sizing_output results else []) in
     io_ret (if AllPassed results then 0 else 1, out))"

text \<open>\<open>run\<close> of \<open>cmd/probe\<close>: its exit code and what it prints besides log lines.\<close>

definition probe_run :: "(TestResult \<Rightarrow> string list) \<Rightarrow> 'w probe_os \<Rightarrow> probe_flags \<Rightarrow> ('w, int \<times> string) io" where
  "probe_run order os fl =
     io_then (CheckPrerequisites os) (\<lambda>(_, err).
     case err of Some e \<Rightarrow> io_ret (1, Error_String e @ NL) | None \<Rightarrow>
     let cfg = flags_Config fl;
         kcA = probe_KubeconfigPath (flag_kcDir fl) (flag_tenantA fl); kcB = probe_KubeconfigPath (flag_kcDir fl) (flag_tenantB fl);
         nsA = ''vcluster-'' @ flag_tenantA fl; nsB = ''vcluster-'' @ flag_tenantB fl;
         input = (\<lambda>elapsed. \<lparr>ri_TenantAKubeconfig = kcA, ri_TenantBKubeconfig = kcB, ri_TenantANamespace = nsA,
           ri_TenantBNamespace = nsB, ri_TenantAVClusterReadyElapsed = elapsed\<rparr>) in
     if flag_skipCreate fl then run_tests order os fl (input 0)
     else
     io_then (probe_CreateVCluster os (flag_tenantA fl) nsA kcA (pc_VClusterReadySeconds cfg * 2 * Second)) (\<lambda>(elapsed, err).
     if err \<noteq> None then io_ret (1, []) else
     io_then (probe_CreateVCluster os (flag_tenantB fl) nsB kcB (pc_VClusterReadySeconds cfg * 2 * Second)) (\<lambda>(_, err).
     if err \<noteq> None then io_ret (1, []) else run_tests order os fl (input elapsed))))"

end
