(* ===== verification/ProbeFacts.thy ===== *)
theory ProbeFacts
  imports ProbeCluster "HOL-Library.Multiset"
begin

text \<open>
  What holds of the tenant isolation probe: its sorting and percentiles against the library's, the verdict
  of each test against its thresholds, that every test returns, and the summary of a run.
\<close>

section \<open>Percentiles\<close>

lemma insort_before_last: "y \<le> x \<Longrightarrow> insort y (ys @ [x]) = insort y ys @ [x]"
  by (induction ys) auto

lemma sift_down_insort: "sorted xs \<Longrightarrow> sift_down (xs @ y # zs) (length xs) = insort y xs @ zs"
proof (induction xs arbitrary: zs rule: rev_induct)
  case (snoc x ys)
  have ys: "sorted ys" "\<forall>z\<in>set ys. z \<le> x" using snoc.prems by (simp_all add: sorted_append)
  show ?case
  proof (cases "y < x")
    case True
    then have "sift_down ((ys @ [x]) @ y # zs) (length (ys @ [x])) = sift_down (ys @ y # x # zs) (length ys)"
      by (simp add: nth_append list_update_append)
    then show ?thesis using snoc.IH [OF ys(1), of "x # zs"] insort_before_last [of y x ys] True by simp
  next
    case False
    then have "\<forall>z\<in>set (ys @ [x]). z \<le> y" using ys by force
    then have "insort y (ys @ [x]) = ys @ [x, y]"
      using sorted_insort_is_snoc [OF snoc.prems, of y] by simp
    then show ?thesis using False by (simp add: nth_append)
  qed
qed simp

lemma insort_sort: "insort y (sort xs) = sort (xs @ [y])"
  by (rule properties_for_sort [symmetric]) (simp_all add: sorted_insort)

lemma insertion_sort_prefix:
  "1 \<le> k \<Longrightarrow> k \<le> length ds \<Longrightarrow> foldl sift_down ds [1 ..< k] = sort (take k ds) @ drop k ds"
proof (induction k rule: dec_induct)
  case base
  then show ?case by (cases ds) simp_all
next
  case (step k)
  have d: "drop k ds = ds ! k # drop (Suc k) ds" "take (Suc k) ds = take k ds @ [ds ! k]"
    using step by (simp_all add: Cons_nth_drop_Suc take_Suc_conv_app_nth)
  have "foldl sift_down ds [1 ..< Suc k] = sift_down (sort (take k ds) @ ds ! k # drop (Suc k) ds) (length (sort (take k ds)))"
    using step d(1) by simp
  also have "\<dots> = sort (take (Suc k) ds) @ drop (Suc k) ds"
    unfolding sift_down_insort [OF sorted_sort] by (simp add: d(2) insort_sort)
  finally show ?case .
qed

lemma insertion_sort_sort: "insertion_sort ds = sort ds"
proof (cases ds)
  case (Cons x xs)
  then show ?thesis using insertion_sort_prefix [of "length ds" ds] by (simp add: insertion_sort_def)
qed (simp add: insertion_sort_def)

lemma filter_le_takeWhile:
  "sorted xs \<Longrightarrow> filter (\<lambda>x. x \<le> (t :: 'a :: linorder)) xs = takeWhile (\<lambda>x. x \<le> t) xs"
proof (induction xs)
  case (Cons x xs)
  show ?case
  proof (cases "x \<le> t")
    case False
    then have "\<forall>y\<in>set xs. \<not> y \<le> t" using Cons.prems by (auto dest: order_trans)
    then show ?thesis using False by simp
  qed (use Cons in simp)
qed simp

lemma sort_nth_le_iff:
  assumes "i < length xs"
  shows "sort xs ! i \<le> (t :: 'a :: linorder) \<longleftrightarrow> i < length (filter (\<lambda>x. x \<le> t) xs)"
proof -
  have "length (filter (\<lambda>x. x \<le> t) xs) = length (filter (\<lambda>x. x \<le> t) (sort xs))"
    by (metis mset_filter mset_sort size_mset)
  also have "filter (\<lambda>x. x \<le> t) (sort xs) = takeWhile (\<lambda>x. x \<le> t) (sort xs)"
    by (rule filter_le_takeWhile) simp
  finally have l: "length (filter (\<lambda>x. x \<le> t) xs) = length (takeWhile (\<lambda>x. x \<le> t) (sort xs))" .
  show ?thesis
  proof
    assume a: "sort xs ! i \<le> t"
    show "i < length (filter (\<lambda>x. x \<le> t) xs)"
    proof (rule ccontr)
      assume "\<not> i < length (filter (\<lambda>x. x \<le> t) xs)"
      then have j: "length (takeWhile (\<lambda>x. x \<le> t) (sort xs)) \<le> i" using l by simp
      then have n: "length (takeWhile (\<lambda>x. x \<le> t) (sort xs)) < length (sort xs)" using assms by simp
      have "\<not> sort xs ! length (takeWhile (\<lambda>x. x \<le> t) (sort xs)) \<le> t" using nth_length_takeWhile [OF n] .
      moreover have "sort xs ! length (takeWhile (\<lambda>x. x \<le> t) (sort xs)) \<le> sort xs ! i"
        using j assms by (intro sorted_nth_mono) simp_all
      ultimately show False using a by simp
    qed
  next
    assume "i < length (filter (\<lambda>x. x \<le> t) xs)"
    then have i: "i < length (takeWhile (\<lambda>x. x \<le> t) (sort xs))" using l by simp
    then have "takeWhile (\<lambda>x. x \<le> t) (sort xs) ! i \<le> t" using nth_mem set_takeWhileD by fastforce
    then show "sort xs ! i \<le> t" using takeWhile_nth [OF i] by simp
  qed
qed

text \<open>
  The percentile is at most \<open>t\<close> exactly when enough of the values are. Up to 11 values, more than the
  10 the code expects, the 95th percentile is the largest.
\<close>

lemma percentileDuration_le_iff:
  assumes "ds \<noteq> []" "p \<le> 100"
  shows "percentileDuration ds p \<le> t \<longleftrightarrow> (p * (length ds - 1) + 50) div 100 < length (filter (\<lambda>d. d \<le> t) ds)"
proof -
  let ?i = "(p * (length ds - 1) + 50) div 100"
  have "p * (length ds - 1) \<le> 100 * (length ds - 1)" using assms(2) by simp
  then have "?i \<le> length ds - 1" by linarith
  moreover have "0 < length ds" using assms(1) by simp
  ultimately have i: "?i < length ds" by linarith
  then have "percentileDuration ds p = sort ds ! ?i" using assms(1) by (simp add: percentileDuration_def insertion_sort_sort Let_def)
  then show ?thesis using sort_nth_le_iff [OF i] by simp
qed

lemma length_filter_all: "length xs \<le> length (filter P xs) \<longleftrightarrow> (\<forall>x\<in>set xs. P x)"
  by (metis filter_id_conv filter_True length_filter_le le_antisym length_filter_less leD)

lemma p95_le_iff:
  assumes "ds \<noteq> []" "length ds \<le> 11"
  shows "percentileDuration ds 95 \<le> t \<longleftrightarrow> (\<forall>d\<in>set ds. d \<le> t)"
proof -
  have "0 < length ds" using assms(1) by simp
  then have "(95 * (length ds - 1) + 50) div 100 = length ds - 1" using assms(2) by linarith
  then have "percentileDuration ds 95 \<le> t \<longleftrightarrow> length ds - 1 < length (filter (\<lambda>d. d \<le> t) ds)"
    using percentileDuration_le_iff [OF assms(1), of 95] by simp
  also have "\<dots> \<longleftrightarrow> length ds \<le> length (filter (\<lambda>d. d \<le> t) ds)" using \<open>0 < length ds\<close> by linarith
  finally show ?thesis by (simp only: length_filter_all)
qed

lemma p50Int64_le_iff:
  "vals \<noteq> [] \<Longrightarrow> p50Int64 vals \<le> t \<longleftrightarrow> length vals div 2 < length (filter (\<lambda>v. v \<le> t) vals)"
  using sort_nth_le_iff [of "length vals div 2" vals t] by (simp add: p50Int64_def)

lemma maxInt64_Max: "vals \<noteq> [] \<Longrightarrow> maxInt64 vals = Max (set vals)"
proof -
  have "foldl (\<lambda>m v. if m < v then v else m) m vs = Max (insert m (set vs))" for m :: int and vs
  proof (induction vs arbitrary: m)
    case (Cons v vs)
    have "Max (insert m (insert v (set vs))) = Max (insert (max m v) (set vs))"
      by (cases "vs = []") (simp_all add: max.assoc)
    then show ?case using Cons.IH [of "if m < v then v else m"] by (simp add: max_def split: if_splits)
  qed simp
  then show "vals \<noteq> [] \<Longrightarrow> ?thesis" by (cases vals) (simp_all add: maxInt64_def)
qed

section \<open>Every test returns a result of its own\<close>

definition own_result :: "TestName \<Rightarrow> TestResult \<Rightarrow> bool" where
  "own_result name r \<longleftrightarrow> tr_Name r = name \<and> tr_Verdict r \<in> {VerdictPass, VerdictFail, VerdictSkip}"

lemma own_results [intro]:
  "io_gives (own_result name) (passResult T name ev start m)"
  "io_gives (own_result name) (failResult T name ev start m)"
  "io_gives (own_result name) (skipResult T name ev start)"
  by (simp_all add: own_result_def passResult_def failResult_def skipResult_def io_gives_def io_eval split: prod.splits)

lemma network_isolation_own: "io_gives (own_result TestNetworkIsolation) (RunTestNetworkIsolation T c cfg a b)"
  unfolding RunTestNetworkIsolation_def by (intro io_walk; (hypsubst, rule own_results)?)

lemma speed_verdict_own: "io_gives (own_result TestProvisioningSpeed) (speed_verdict T cfg start ss)"
  unfolding speed_verdict_def by (intro io_walk; rule own_results)

lemma measure_ends: "io_ends (measureNATSProvisioningSpeed T c cfg kb e)"
  unfolding measureNATSProvisioningSpeed_def by (intro io_walk; simp add: io_gives_ret)

lemma map_ends: "(\<And>x. io_ends (f x)) \<Longrightarrow> io_ends (io_map f xs)"
  by (rule io_gives_mono [OF io_gives_map [of xs "\<lambda>_ _. True" f]]) simp_all

lemma speed_own:
  "0 \<le> pc_SpeedSamples cfg \<Longrightarrow> io_gives (own_result TestProvisioningSpeed) (RunTestProvisioningSpeed T c cfg kb e)"
  unfolding RunTestProvisioningSpeed_def
  by (simp add: io_gives_after [OF io_ends_call] io_gives_after [OF map_ends] measure_ends speed_verdict_own)

lemma provisioner_own: "io_gives (own_result TestProvisionerComm) (RunTestProvisionerComm T c cfg a b)"
  unfolding RunTestProvisionerComm_def by (intro io_walk own_results)

lemma recovery_own: "io_gives (own_result TestFailureRecovery) (RunTestFailureRecovery T c cfg ns)"
  unfolding RunTestFailureRecovery_def by (intro io_walk own_results)

lemma cilium_installed_ends: "io_ends (isCiliumInstalled c)"
  unfolding isCiliumInstalled_def by (intro io_walk io_gives_ret TrueI)

lemma cilium_own: "io_gives (own_result TestCiliumEnforcement) (RunTestCiliumEnforcement T c cfg a b)"
  unfolding RunTestCiliumEnforcement_def by (intro io_gives_after [OF cilium_installed_ends] io_walk own_results)

lemma collect_own:
  "io_gives (\<lambda>res. case res of Inl r \<Rightarrow> own_result TestResourceOverhead r | Inr ss \<Rightarrow> True)
     (collect_overhead T c cfg a b start i k samples)"
proof (induction k arbitrary: i samples)
  case (Suc k)
  have own: "io_gives (\<lambda>res. case res of Inl r \<Rightarrow> own_result TestResourceOverhead r | Inr ss \<Rightarrow> True) (io_then m (\<lambda>r. io_ret (Inl r)))"
    if "io_gives (own_result TestResourceOverhead) m" for m :: "('a, TestResult) io"
    by (rule io_gives_then [OF that]) (simp add: io_gives_ret)
  have pause: "io_ends (if p then io_call f else io_ret True)" for p and f :: "'a \<Rightarrow> bool \<times> 'a"
    by (intro io_gives_if io_ends_call io_gives_ret TrueI)
  show ?case
    unfolding collect_overhead.simps
    by (intro io_gives_after [OF pause] io_walk own own_results Suc.IH; simp add: io_gives_ret)
qed (simp add: io_gives_ret)

lemma overhead_own: "io_gives (own_result TestResourceOverhead) (RunTestResourceOverhead T c cfg a b)"
proof -
  have pause: "io_ends (if p then io_call f else io_ret True)" for p and f :: "'a \<Rightarrow> bool \<times> 'a"
    by (intro io_gives_if io_ends_call io_gives_ret TrueI)
  have verdict: "io_gives (own_result TestResourceOverhead) (overhead_verdict T cfg start ss)" for start ss
    unfolding overhead_verdict_def by (intro io_walk own_results)
  show ?thesis
    unfolding RunTestResourceOverhead_def
    by (intro io_gives_after [OF io_ends_call] io_gives_after [OF pause] io_gives_if own_results io_gives_let
          io_gives_then [OF collect_own])
       (auto intro!: io_gives_ret own_results verdict split: sum.splits)
qed

text \<open>
  A run returns the six tests in order, each with a verdict of its own. Only a negative number of speed
  samples can stop it.
\<close>

theorem RunAll_results:
  assumes "0 \<le> pc_SpeedSamples cfg"
  shows "io_gives (\<lambda>rs. list_all2 own_result AllTests rs) (RunAll T c cfg input)"
  unfolding RunAll_def
proof (rule io_gives_map)
  fix name assume "name \<in> set AllTests"
  then show "io_gives (own_result name) (runOne T c cfg input name)"
    by (auto simp: AllTests_def runOne_def test_names network_isolation_own [unfolded test_names]
        speed_own [unfolded test_names, OF assms] provisioner_own [unfolded test_names] overhead_own [unfolded test_names]
        cilium_own [unfolded test_names] recovery_own [unfolded test_names])
qed

lemma RunAll_panics: "pc_SpeedSamples cfg < 0 \<Longrightarrow> RunAll T c cfg input w = None"
proof -
  assume neg: "pc_SpeedSamples cfg < 0"
  have "runOne T c cfg input TestProvisioningSpeed w' = None" for w'
    using neg by (simp add: runOne_def test_names RunTestProvisioningSpeed_def io_eval split: prod.splits)
  then show ?thesis by (simp add: RunAll_def AllTests_def io_eval split: option.splits)
qed

section \<open>The verdict of a test\<close>

lemma result_verdicts:
  "passResult T name ev start m w = Some (r, w') \<Longrightarrow> tr_Verdict r = VerdictPass"
  "failResult T name ev start m w = Some (r, w') \<Longrightarrow> tr_Verdict r = VerdictFail"
  "skipResult T name ev start w = Some (r, w') \<Longrightarrow> tr_Verdict r = VerdictSkip"
  by (auto simp: passResult_def failResult_def skipResult_def io_eval split: prod.splits)

lemma failed_samples:
  "0 < st_FailedSamples (computeSpeedStats ss) \<longleftrightarrow> (\<exists>s\<in>set ss. ss_Err s \<noteq> None)"
  by (auto simp: computeSpeedStats_def Let_def filter_empty_conv)

lemma stats_le_iff:
  assumes "\<forall>s\<in>set ss. ss_Err s = None" "length ss \<le> 11" "0 \<le> t"
  shows "st_P95VCluster (computeSpeedStats ss) \<le> t \<longleftrightarrow> (\<forall>s\<in>set ss. ss_VClusterReadyElapsed s \<le> t)"
    and "st_P95NATS (computeSpeedStats ss) \<le> t \<longleftrightarrow> (\<forall>s\<in>set ss. ss_NATSReadyElapsed s \<le> t)"
proof -
  have ok: "filter (\<lambda>s. ss_Err s = None) ss = ss" using assms(1) by simp
  have "percentileDuration (map f ss) 95 \<le> t \<longleftrightarrow> (\<forall>s\<in>set ss. f s \<le> t)" for f :: "SpeedSample \<Rightarrow> time"
  proof (cases "ss = []")
    case False
    then show ?thesis using p95_le_iff [of "map f ss" t] assms(2) by simp
  qed (simp add: percentileDuration_def assms(3))
  then show "st_P95VCluster (computeSpeedStats ss) \<le> t \<longleftrightarrow> (\<forall>s\<in>set ss. ss_VClusterReadyElapsed s \<le> t)"
    and "st_P95NATS (computeSpeedStats ss) \<le> t \<longleftrightarrow> (\<forall>s\<in>set ss. ss_NATSReadyElapsed s \<le> t)"
    by (simp_all add: computeSpeedStats_def Let_def ok)
qed

definition fast_sample :: "probe_Config \<Rightarrow> SpeedSample \<Rightarrow> bool" where
  "fast_sample cfg s \<longleftrightarrow> ss_Err s = None \<and> ss_VClusterReadyElapsed s \<le> pc_VClusterReadySeconds cfg * Second \<and>
     ss_NATSReadyElapsed s \<le> pc_NATSReadySeconds cfg * Second"

lemma speed_verdict_pass_iff:
  assumes run: "speed_verdict T cfg start ss w = Some (r, w')" and n: "length ss \<le> 11"
    and thresholds: "0 \<le> pc_VClusterReadySeconds cfg" "0 \<le> pc_NATSReadySeconds cfg"
  shows "tr_Verdict r = VerdictPass \<longleftrightarrow> (\<forall>s\<in>set ss. fast_sample cfg s)"
proof (cases "\<forall>s\<in>set ss. ss_Err s = None")
  case False
  then have "0 < st_FailedSamples (computeSpeedStats ss)" by (simp add: failed_samples)
  then have "tr_Verdict r = VerdictFail" using run result_verdicts(2) by (simp add: speed_verdict_def Let_def)
  then show ?thesis using False by (auto simp: fast_sample_def)
next
  case ok: True
  have pos: "0 \<le> pc_VClusterReadySeconds cfg * Second" "0 \<le> pc_NATSReadySeconds cfg * Second"
    using thresholds by (simp_all add: Second_def)
  have "tr_Verdict r = VerdictPass \<longleftrightarrow>
      st_P95VCluster (computeSpeedStats ss) \<le> pc_VClusterReadySeconds cfg * Second \<and>
      st_P95NATS (computeSpeedStats ss) \<le> pc_NATSReadySeconds cfg * Second"
    using run failed_samples [of ss] ok unfolding speed_verdict_def Let_def
    by (auto split: if_splits dest: result_verdicts)
  also have "\<dots> \<longleftrightarrow> (\<forall>s\<in>set ss. fast_sample cfg s)"
    using ok by (auto simp: stats_le_iff [OF ok n pos(1)] stats_le_iff [OF ok n pos(2)] fast_sample_def)
  finally show ?thesis .
qed

lemma speed_test_pass_iff:
  assumes run: "RunTestProvisioningSpeed T c cfg kb e w = Some (r, w')" and n: "pc_SpeedSamples cfg \<le> 11"
    and thresholds: "0 \<le> pc_VClusterReadySeconds cfg" "0 \<le> pc_NATSReadySeconds cfg"
  shows "\<exists>ss w''. io_map (\<lambda>_. measureNATSProvisioningSpeed T c cfg kb e) [0 ..< nat (pc_SpeedSamples cfg)] (snd (gt_Now T w)) = Some (ss, w'') \<and>
     (tr_Verdict r = VerdictPass \<longleftrightarrow> (\<forall>s\<in>set ss. fast_sample cfg s))"
proof -
  obtain ss w'' where ss: "io_map (\<lambda>_. measureNATSProvisioningSpeed T c cfg kb e) [0 ..< nat (pc_SpeedSamples cfg)] (snd (gt_Now T w)) = Some (ss, w'')"
    and v: "speed_verdict T cfg (fst (gt_Now T w)) ss w'' = Some (r, w')"
    using run by (auto simp: RunTestProvisioningSpeed_def io_eval split: prod.splits if_splits option.splits)
  have "length ss \<le> 11" using io_map_length [OF ss] n by simp
  then show ?thesis using ss speed_verdict_pass_iff [OF v _ thresholds] by blast
qed

text \<open>With no samples at all the test passes.\<close>

lemma no_samples_pass:
  assumes "pc_SpeedSamples cfg = 0" "0 \<le> pc_VClusterReadySeconds cfg" "0 \<le> pc_NATSReadySeconds cfg"
    and "RunTestProvisioningSpeed T c cfg kb e w = Some (r, w')"
  shows "tr_Verdict r = VerdictPass"
  using speed_test_pass_iff [OF assms(4) _ assms(2,3)] assms(1) by (auto simp: io_eval)

section \<open>Tests that pass without a probe\<close>

text \<open>
  An output of a command in a pod that tells nothing: it has none of the words that mean success.
\<close>

definition tells_nothing :: "string \<Rightarrow> bool" where
  "tells_nothing out \<longleftrightarrow> (let o' = ToLower out in
     \<not> Contains o' ''succeeded'' \<and> \<not> Contains o' '' open'' \<and> \<not> Contains o' ''address:'' \<and> \<not> Contains o' ''addresses:'')"

lemma tells_nothing_blocked: "tells_nothing out \<Longrightarrow> isConnectionBlocked out" "tells_nothing out \<Longrightarrow> isDNSBlocked out"
  by (simp_all add: tells_nothing_def isConnectionBlocked_def isDNSBlocked_def Let_def)

lemma tells_nothing_empty: "tells_nothing []"
  by (simp add: tells_nothing_def ToLower_def)

text \<open>A cluster that works, but in which no command can be run in a pod.\<close>

definition exec_broken :: "'w KubectlClient \<Rightarrow> bool" where
  "exec_broken c \<longleftrightarrow>
     (\<forall>kb ns pod ctr cmd w. \<exists>out e. fst (kc_RunInPod c kb ns pod ctr cmd w) = (out, Some e) \<and> tells_nothing out) \<and>
     (\<forall>kb yaml w. fst (kc_Apply c kb yaml w) = None) \<and>
     (\<forall>kb ns sel t w. snd (snd (fst (kc_WaitPodReady c kb ns sel t w))) = None) \<and>
     (\<forall>kb ns sel w. fst (fst (kc_PodIP c kb ns sel w)) \<noteq> [] \<and> snd (fst (kc_PodIP c kb ns sel w)) = None) \<and>
     (\<forall>kb ns sel w. fst (fst (kc_GetPodsByLabel c kb ns sel w)) \<noteq> [] \<and> snd (fst (kc_GetPodsByLabel c kb ns sel w)) = None)"

lemma io_gives_call_then:
  "(\<And>w. Q (fst (f w))) \<Longrightarrow> (\<And>x. Q x \<Longrightarrow> io_gives P (k x)) \<Longrightarrow> io_gives P (io_then (io_call f) k)"
  by (rule io_gives_then [OF io_gives_call])

definition passed :: "TestResult \<Rightarrow> bool" where
  "passed r \<longleftrightarrow> tr_Verdict r = VerdictPass"

lemma passResult_passed: "io_gives passed (passResult T name ev start m)"
  by (simp add: passed_def passResult_def io_gives_def io_eval split: prod.splits)

lemma now_walk: "(\<And>t. io_gives P (k t)) \<Longrightarrow> io_gives P (io_then (io_call (gt_Now T)) k)"
  by (rule io_gives_after [OF io_ends_call])

lemma exec_broken_walk:
  assumes "exec_broken c"
  shows "(\<And>out e. tells_nothing out \<Longrightarrow> io_gives P (k (out, Some e))) \<Longrightarrow> io_gives P (io_then (io_call (kc_RunInPod c kb ns pod ctr cmd)) k)"
    and "io_gives P (l None) \<Longrightarrow> io_gives P (io_then (io_call (kc_Apply c kb yaml)) l)"
    and "(\<And>p e. io_gives P (m (p, e, None))) \<Longrightarrow> io_gives P (io_then (io_call (kc_WaitPodReady c kb ns sel t)) m)"
    and "(\<And>ip. ip \<noteq> [] \<Longrightarrow> io_gives P (n (ip, None))) \<Longrightarrow> io_gives P (io_then (io_call (kc_PodIP c kb ns sel)) n)"
    and "(\<And>ps. ps \<noteq> [] \<Longrightarrow> io_gives P (q (ps, None))) \<Longrightarrow> io_gives P (io_then (io_call (kc_GetPodsByLabel c kb ns sel)) q)"
proof -
  have run: "\<exists>out e. fst (kc_RunInPod c kb ns pod ctr cmd w) = (out, Some e) \<and> tells_nothing out"
    and apply_ok: "fst (kc_Apply c kb yaml w) = None"
    and wait: "snd (snd (fst (kc_WaitPodReady c kb ns sel t w))) = None"
    and ip: "fst (fst (kc_PodIP c kb ns sel w)) \<noteq> []" "snd (fst (kc_PodIP c kb ns sel w)) = None"
    and pods: "fst (fst (kc_GetPodsByLabel c kb ns sel w)) \<noteq> []" "snd (fst (kc_GetPodsByLabel c kb ns sel w)) = None" for w
    using assms by (simp_all add: exec_broken_def)
  show "(\<And>out e. tells_nothing out \<Longrightarrow> io_gives P (k (out, Some e))) \<Longrightarrow> io_gives P (io_then (io_call (kc_RunInPod c kb ns pod ctr cmd)) k)"
    by (rule io_gives_call_then [of "\<lambda>x. \<exists>out e. x = (out, Some e) \<and> tells_nothing out"]) (use run in blast)+
  show "io_gives P (l None) \<Longrightarrow> io_gives P (io_then (io_call (kc_Apply c kb yaml)) l)"
    by (rule io_gives_call_then [of "\<lambda>x. x = None"]) (simp_all add: apply_ok)
  show "(\<And>p e. io_gives P (m (p, e, None))) \<Longrightarrow> io_gives P (io_then (io_call (kc_WaitPodReady c kb ns sel t)) m)"
    by (rule io_gives_call_then [of "\<lambda>x. snd (snd x) = None"]) (auto simp: wait)
  show "(\<And>ip. ip \<noteq> [] \<Longrightarrow> io_gives P (n (ip, None))) \<Longrightarrow> io_gives P (io_then (io_call (kc_PodIP c kb ns sel)) n)"
    by (rule io_gives_call_then [of "\<lambda>x. fst x \<noteq> [] \<and> snd x = None"]) (auto simp: ip)
  show "(\<And>ps. ps \<noteq> [] \<Longrightarrow> io_gives P (q (ps, None))) \<Longrightarrow> io_gives P (io_then (io_call (kc_GetPodsByLabel c kb ns sel)) q)"
    by (rule io_gives_call_then [of "\<lambda>x. fst x \<noteq> [] \<and> snd x = None"]) (auto simp: pods)
qed

lemma network_isolation_unprobed:
  assumes "exec_broken c"
  shows "io_gives passed (RunTestNetworkIsolation T c cfg a b)"
  unfolding RunTestNetworkIsolation_def
  by (intro now_walk exec_broken_walk [OF assms] io_gives_let io_gives_if io_gives_prod; simp add: tells_nothing_blocked passResult_passed)

lemma provisioner_unprobed:
  assumes "exec_broken c"
  shows "io_gives passed (RunTestProvisionerComm T c cfg a b)"
  unfolding RunTestProvisionerComm_def
  by (intro now_walk exec_broken_walk [OF assms] io_gives_let io_gives_if io_gives_prod; simp add: isTenantBScopedOut_def passResult_passed)

lemma cilium_installed_unprobed:
  assumes "exec_broken c"
  shows "io_gives (\<lambda>x. x = (True, None)) (isCiliumInstalled c)"
  unfolding isCiliumInstalled_def
  by (intro exec_broken_walk [OF assms] io_gives_if io_gives_prod; simp add: io_gives_ret)

lemma cilium_unprobed:
  assumes "exec_broken c"
  shows "io_gives passed (RunTestCiliumEnforcement T c cfg a b)"
  unfolding RunTestCiliumEnforcement_def
  by (intro now_walk io_gives_then [OF cilium_installed_unprobed [OF assms]] exec_broken_walk [OF assms] io_gives_let io_gives_if io_gives_prod;
      simp add: tells_nothing_blocked passResult_passed)

text \<open>
  Test 3 looks for isolation by running a command in a pod called \<open>cf-provisioner-test\<close>. The manifest
  defines a config map of that name, no pod, so the command cannot run, and any error counts as isolated.
\<close>

lemma provisioner_never_probes:
  assumes "\<forall>kb ns ctr cmd w. snd (fst (kc_RunInPod c kb ns ''cf-provisioner-test'' ctr cmd w)) \<noteq> None"
    and "RunTestProvisionerComm T c cfg a b w = Some (r, w')"
  shows "tr_Verdict r = VerdictPass \<longleftrightarrow> fst (kc_Apply c a provisionerConfigMap (snd (gt_Now T w))) = None"
proof -
  let ?exec = "kc_RunInPod c b ''default'' ''cf-provisioner-test'' [] [''kubectl'', ''--kubeconfig=/dev/stdin'', ''delete'', ''cm'', ''cf-provisioner-test'']"
  obtain t w1 where now: "gt_Now T w = (t, w1)" by fastforce
  obtain err w2 where ap: "kc_Apply c a provisionerConfigMap w1 = (err, w2)" by fastforce
  obtain ps perr w3 where pods: "kc_GetPodsByLabel c a ''default'' ''managed-by=cf-provisioner'' w2 = ((ps, perr), w3)"
    by (metis prod.exhaust)
  obtain out e w4 where exec: "?exec w3 = ((out, Some e), w4)"
    using assms(1) by (metis option.exhaust prod.exhaust_sel)
  show ?thesis
  proof (cases err)
    case None
    then have "\<exists>n ev s m w5. passResult T n ev s m w5 = Some (r, w')"
      using assms(2) unfolding RunTestProvisionerComm_def Let_def
      by (simp add: io_then_eval io_call_eval now ap pods exec isTenantBScopedOut_def) blast
    then have "tr_Verdict r = VerdictPass" using result_verdicts(1) by metis
    then show ?thesis using None by (simp add: now ap)
  next
    case (Some e)
    then have "\<exists>n ev s m w5. failResult T n ev s m w5 = Some (r, w')"
      using assms(2) unfolding RunTestProvisionerComm_def Let_def
      by (simp add: io_then_eval io_call_eval now ap) blast
    then have "tr_Verdict r = VerdictFail" using result_verdicts(2) by metis
    then show ?thesis using Some by (simp add: now ap)
  qed
qed

text \<open>Test 1 is decided by the two outputs it records, and fails when it did not get to both.\<close>

definition outputs_decide :: "TestResult \<Rightarrow> bool" where
  "outputs_decide r \<longleftrightarrow> tr_Verdict r =
     (case (tr_Metrics r ''direct_ip_output'', tr_Metrics r ''dns_output'') of
        (Some n, Some d) \<Rightarrow> if isConnectionBlocked n \<and> isDNSBlocked d then VerdictPass else VerdictFail
      | _ \<Rightarrow> VerdictFail)"

lemma result_decided:
  "(\<And>d. P \<lparr>tr_Name = name, tr_Verdict = VerdictPass, tr_Evidence = ev, tr_Metrics = m, tr_Duration = d\<rparr>) \<Longrightarrow>
   io_gives P (passResult T name ev start m)"
  "(\<And>d. P \<lparr>tr_Name = name, tr_Verdict = VerdictFail, tr_Evidence = ev, tr_Metrics = m, tr_Duration = d\<rparr>) \<Longrightarrow>
   io_gives P (failResult T name ev start m)"
  by (simp_all add: passResult_def failResult_def io_gives_def io_eval split: prod.splits)

lemma network_outputs_decide: "io_gives outputs_decide (RunTestNetworkIsolation T c cfg a b)"
  unfolding RunTestNetworkIsolation_def
  by (intro io_walk; hypsubst; (rule result_decided)?; simp add: outputs_decide_def; auto)

section \<open>Summaries and tables\<close>

definition count_result :: "(Verdict \<rightharpoonup> nat) \<Rightarrow> TestResult \<Rightarrow> (Verdict \<rightharpoonup> nat)" where
  "count_result counts r = counts(tr_Verdict r \<mapsto> Suc (case counts (tr_Verdict r) of Some n \<Rightarrow> n | None \<Rightarrow> 0))"

lemma count_foldl:
  "counts v = Some n \<Longrightarrow> foldl count_result counts rs v = Some (n + length (filter (\<lambda>r. tr_Verdict r = v) rs))"
proof (induction rs arbitrary: counts n)
  case (Cons r rs)
  have "count_result counts r v = Some (if tr_Verdict r = v then Suc n else n)"
    using Cons.prems by (cases "tr_Verdict r = v") (auto simp: count_result_def)
  then show ?case using Cons.IH [of "count_result counts r" "if tr_Verdict r = v then Suc n else n"] by simp
qed simp

lemma CountByVerdict_length:
  "v \<in> {VerdictPass, VerdictFail, VerdictSkip} \<Longrightarrow> CountByVerdict rs v = Some (length (filter (\<lambda>r. tr_Verdict r = v) rs))"
  using count_foldl [of "[VerdictPass \<mapsto> 0, VerdictFail \<mapsto> 0, VerdictSkip \<mapsto> 0]" v 0 rs]
  by (auto simp: CountByVerdict_def count_result_def [abs_def])

lemma OverallVerdict_cases:
  "OverallVerdict rs =
     (if \<exists>r\<in>set rs. tr_Verdict r = VerdictFail then VerdictFail
      else if \<exists>r\<in>set rs. tr_Verdict r = VerdictPass then VerdictPass else VerdictSkip)"
  by (auto simp: OverallVerdict_def AllPassed_def CountByVerdict_length filter_empty_conv)

lemma StripANSI_plain: "CHR 0x1B \<notin> set s \<Longrightarrow> StripANSI (s @ t) = s @ StripANSI t"
  by (induction s) auto

lemma StripANSI_colorVerdict:
  "CHR 0x1B \<notin> set v \<Longrightarrow> StripANSI (colorVerdict v) = v"
proof -
  assume plain: "CHR 0x1B \<notin> set v"
  have "StripANSI (v @ CHR 0x1B # ''[0m'') = v" "StripANSI v = v"
    using StripANSI_plain [OF plain, of "CHR 0x1B # ''[0m''"] StripANSI_plain [OF plain, of "[]"] by simp_all
  then show ?thesis by (auto simp: colorVerdict_def Let_def)
qed

section \<open>Quantities\<close>

lemma digits_of_Itoa: "\<forall>c\<in>set (Itoa n). digit c"
proof
  fix c assume "c \<in> set (Itoa n)"
  then obtain d where "d < 10" "c = digit_char d" using Itoa_digits by blast
  then show "digit c" by (simp add: digit_def digit_char_def)
qed

lemma scan_d_Itoa: "n < 2 ^ 63 \<Longrightarrow> rest = [] \<or> \<not> digit (hd rest) \<Longrightarrow> scan_d (Itoa n @ rest) = int n"
  using Sscanf_digits [of "Itoa n" rest] digits_of_Itoa [of n] by (simp add: scan_d_def)

lemma trim_quantity:
  assumes "u \<noteq> []" "\<not> is_space (last u)"
  shows "TrimSpace (Itoa n @ u) = Itoa n @ u"
proof -
  obtain c s where i: "Itoa n = c # s" by (cases "Itoa n") simp_all
  then have "digit c" using digits_of_Itoa [of n] by simp
  then have "\<not> is_space c" using digit_no_space(1) [of c s] by (auto simp: space_len_def split: if_splits)
  then have d: "dropWhile is_space (Itoa n @ u) = Itoa n @ u" by (simp add: i)
  have "rev (Itoa n @ u) = last u # rev (Itoa n @ butlast u)"
    using assms(1) by (cases u rule: rev_cases) simp_all
  then have "dropWhile is_space (rev (Itoa n @ u)) = rev (Itoa n @ u)" using assms(2) by (metis dropWhile.simps(2))
  then show ?thesis unfolding TrimSpace_def d by simp
qed

text \<open>The averages a test records in its metrics are read back by the command for the sizing table.\<close>

lemma ParseCPUMillicores_round_trip:
  assumes "n < 2 ^ 63"
  shows "ParseCPUMillicores (Itoa n @ ''m'') = int n"
proof -
  have "TrimSpace (Itoa n @ ''m'') = Itoa n @ ''m''" by (rule trim_quantity) (simp_all add: is_space_def)
  moreover have "Itoa n @ ''m'' \<noteq> ''<unknown>''" using arg_cong [of "Itoa n @ ''m''" "''<unknown>''" last] by auto
  ultimately show ?thesis using scan_d_Itoa [OF assms, of "[]"] by (simp add: ParseCPUMillicores_def Let_def)
qed

lemma ParseMemMB_round_trip:
  assumes "n < 2 ^ 63"
  shows "ParseMemMB (Itoa n @ ''Mi'') = int n"
proof -
  have "TrimSpace (Itoa n @ ''Mi'') = Itoa n @ ''Mi''" by (rule trim_quantity) (simp_all add: is_space_def)
  moreover have "Itoa n @ ''Mi'' \<noteq> ''<unknown>''" "\<not> HasSuffix (Itoa n @ ''Mi'') ''Gi''"
    using arg_cong [of "Itoa n @ ''Mi''" "''<unknown>''" last] by (auto simp: HasSuffix_def drop_append)
  ultimately show ?thesis using scan_d_Itoa [OF assms, of "[]"] by (simp add: ParseMemMB_def Let_def)
qed

section \<open>Waiting ends\<close>

text \<open>
  What the wait for a vCluster relies on: \<open>clock\<close> is the time of the world, \<open>time.Now\<close> reads it, no call turns
  it back, and \<open>time.Sleep\<close> lets at least its duration pass.
\<close>

definition clock_laws :: "('w \<Rightarrow> time) \<Rightarrow> 'w probe_os \<Rightarrow> bool" where
  "clock_laws clock os \<longleftrightarrow>
     (\<forall>w. fst (gt_Now (po_Time os) w) = clock w) \<and>
     (\<forall>w. clock w \<le> clock (snd (gt_Now (po_Time os) w))) \<and>
     (\<forall>argv w. clock w \<le> clock (snd (po_Output os argv w))) \<and>
     (\<forall>w. clock w \<le> clock (snd (po_CtxErr os w))) \<and>
     (\<forall>d w. clock w + d \<le> clock (snd (po_Sleep os d w)))"

definition io_onward :: "('w \<Rightarrow> time) \<Rightarrow> ('w, 'a) io \<Rightarrow> bool" where
  "io_onward clock m \<longleftrightarrow> (\<forall>w. \<exists>x w'. m w = Some (x, w') \<and> clock w \<le> clock w')"

lemma io_onward_ret: "io_onward clock (io_ret x)"
  by (simp add: io_onward_def io_eval)

lemma io_onward_call_then:
  assumes "\<And>w. clock w \<le> clock (snd (f w))" "\<And>x. io_onward clock (k x)"
  shows "io_onward clock (io_then (io_call f) k)"
  unfolding io_onward_def
proof
  fix w
  obtain y w2 where "k (fst (f w)) (snd (f w)) = Some (y, w2)" "clock (snd (f w)) \<le> clock w2"
    using assms(2) unfolding io_onward_def by blast
  then show "\<exists>x w'. io_then (io_call f) k w = Some (x, w') \<and> clock w \<le> clock w'"
    using order.trans [OF assms(1)] by (auto simp: io_eval split: prod.split)
qed

lemma isVClusterRunning_clock:
  assumes "clock_laws clock os"
  shows "io_onward clock (isVClusterRunning os name namespace)"
proof -
  have out: "clock v \<le> clock (snd (po_Output os argv v))" for argv v using assms by (simp add: clock_laws_def)
  have pod: "io_onward clock (isVClusterPodRunning os name namespace)"
    unfolding isVClusterPodRunning_def by (rule io_onward_call_then, rule out) (simp add: io_onward_ret split: prod.split)
  show ?thesis
    unfolding isVClusterRunning_def by (rule io_onward_call_then, rule out) (simp add: io_onward_ret pod split: prod.split)
qed

lemma poll_vcluster_returns:
  assumes laws: "clock_laws clock os"
  shows "poll_vcluster os name namespace deadline t w \<noteq> None"
proof (induction "nat (deadline - clock w)" arbitrary: w rule: less_induct)
  case less
  obtain w1 where now: "gt_Now (po_Time os) w = (clock w, w1)" "clock w \<le> clock w1"
    using laws unfolding clock_laws_def by (metis prod.exhaust_sel)
  obtain e w2 where ctx: "po_CtxErr os w1 = (e, w2)" "clock w1 \<le> clock w2"
    using laws unfolding clock_laws_def by (metis prod.exhaust_sel)
  obtain x w3 where up: "isVClusterRunning os name namespace w2 = Some (x, w3)" "clock w2 \<le> clock w3"
    using isVClusterRunning_clock [OF laws] unfolding io_onward_def by blast
  obtain b err where x: "x = (b, err)" by fastforce
  let ?w4 = "snd (po_Sleep os (5 * Second) w3)"
  have "clock w3 + 5 * Second \<le> clock ?w4" using laws unfolding clock_laws_def by blast
  then have "clock w < clock ?w4" using now(2) ctx(2) up(2) by (simp add: Second_def)
  then have "poll_vcluster os name namespace deadline t ?w4 \<noteq> None" if "clock w < deadline"
    using less [of ?w4] that by simp
  then show ?case
    by (subst poll_vcluster.simps) (simp add: now(1) ctx(1) up(1) x)
qed

lemma probe_CreateVCluster_returns:
  assumes "clock_laws clock os"
  shows "io_ends (probe_CreateVCluster os name namespace path timeout)"
proof -
  have wait: "io_ends (probe_waitVClusterReady os name namespace timeout)"
    unfolding probe_waitVClusterReady_def
    by (intro io_gives_after [OF io_ends_call])
       (auto simp: io_gives_def intro: poll_vcluster_returns [OF assms, unfolded not_None_eq, simplified])
  have ns: "io_ends (ensureNamespace os namespace)"
    unfolding ensureNamespace_def by (intro io_walk; simp add: io_gives_ret)
  have vc: "io_ends (runVCluster os args)" for args
    unfolding runVCluster_def by (intro io_walk; simp add: io_gives_ret)
  have ex: "io_ends (exportKubeconfig os name namespace path)"
    unfolding exportKubeconfig_def by (intro io_walk; simp add: io_gives_ret)
  show ?thesis
    unfolding probe_CreateVCluster_def
    by (intro io_gives_after [OF ns] io_gives_after [OF vc] io_gives_after [OF wait] io_gives_after [OF ex] io_walk;
        simp add: io_gives_ret io_gives_after [OF io_ends_call])
qed

lemma version_attempts_end: "io_ends (version_attempts os path argss)"
  by (induction argss) (auto intro!: io_walk io_gives_ret split: list.split)

lemma CheckPrerequisites_ends: "io_ends (CheckPrerequisites os)"
proof -
  have "io_ends (check_tool os tool)" for tool
    unfolding check_tool_def queryVersion_def
    by (intro io_gives_after [OF version_attempts_end] io_walk; simp add: io_gives_ret)
  then show ?thesis
    unfolding CheckPrerequisites_def by (intro io_gives_after [OF map_ends] io_walk; simp add: io_gives_ret)
qed

text \<open>
  The command ends, and its exit code is 0 or 1. After the tests it is 0 exactly when none of the six failed.
\<close>

lemma run_tests_exit:
  assumes "run_tests order os fl input w = Some ((code, out), w')"
  shows "\<exists>rs. RunAll (po_Time os) (NewRealClient os) (flags_Config fl) input w = Some (rs, w') \<and>
     code = (if \<exists>r\<in>set rs. tr_Verdict r = VerdictFail then 1 else 0)"
proof (cases "RunAll (po_Time os) (NewRealClient os) (flags_Config fl) input w")
  case (Some x)
  then show ?thesis using assms by (cases x) (auto simp add: run_tests_def io_eval AllPassed_def Let_def split: if_splits)
qed (use assms in \<open>simp add: run_tests_def io_eval\<close>)

lemma probe_run_returns:
  assumes "clock_laws clock os" "0 \<le> flag_speedSamples fl"
  shows "io_gives (\<lambda>(code, _). code \<in> {0, 1}) (probe_run order os fl)"
proof -
  have n: "0 \<le> pc_SpeedSamples (flags_Config fl)" using assms(2) by (simp add: flags_Config_def)
  have tests: "io_gives (\<lambda>(code, _). code \<in> {0, 1}) (run_tests order os fl input)" for input
    unfolding run_tests_def by (intro io_gives_then [OF RunAll_results [OF n]] io_gives_let io_gives_ret) simp
  show ?thesis
    unfolding probe_run_def
    by (intro io_gives_after [OF CheckPrerequisites_ends] io_gives_after [OF probe_CreateVCluster_returns [OF assms(1)]]
          io_gives_prod io_gives_option io_gives_let io_gives_if tests; simp add: io_gives_ret tests)
qed

end
