(* ===== verification/CiliumProbe.thy ===== *)
theory CiliumProbe
  imports ProbeCluster
begin

text \<open>
  The spike \<open>spikes/cilium-enforcement\<close>: five tests of whether Cilium enforces network policies. Its package
  \<open>probe\<close> repeats the results, their constructors, the summaries and the colours of the tenant isolation
  spike, which are used here as they are modelled in \<open>IsolationProbe\<close>.
\<close>

section \<open>types.go\<close>

definition TestCrossNamespaceDeny :: TestName where "TestCrossNamespaceDeny = ''cross_namespace_deny''"
definition TestIntraNamespaceAllow :: TestName where "TestIntraNamespaceAllow = ''intra_namespace_allow''"
definition TestPlatformIsolation :: TestName where "TestPlatformIsolation = ''platform_isolation''"
definition TestPolicyTrace :: TestName where "TestPolicyTrace = ''policy_trace''"
definition TestVClusterCoexistence :: TestName where "TestVClusterCoexistence = ''vcluster_coexistence''"

lemmas cilium_names = TestCrossNamespaceDeny_def TestIntraNamespaceAllow_def TestPlatformIsolation_def
  TestPolicyTrace_def TestVClusterCoexistence_def

definition cilium_AllTests :: "TestName list" where
  "cilium_AllTests = [TestCrossNamespaceDeny, TestIntraNamespaceAllow, TestPlatformIsolation, TestPolicyTrace,
     TestVClusterCoexistence]"

record cilium_Config =
  cc_TenantANamespace :: string
  cc_TenantBNamespace :: string
  cc_PlatformNamespace :: string
  cc_VClusterNamespace :: string
  cc_VClusterName :: string
  cc_PodReadyTimeout :: time
  cc_ExecTimeout :: time
  cc_ConnectTimeoutSeconds :: int

definition cilium_DefaultConfig :: cilium_Config where
  "cilium_DefaultConfig =
     \<lparr>cc_TenantANamespace = ''cilium-tenant-a'', cc_TenantBNamespace = ''cilium-tenant-b'',
      cc_PlatformNamespace = ''cf-system'', cc_VClusterNamespace = ''vcluster-pilot'', cc_VClusterName = ''pilot'',
      cc_PodReadyTimeout = 120 * Second, cc_ExecTimeout = 30 * Second, cc_ConnectTimeoutSeconds = 5\<rparr>"

record 'w cilium_client =
  ck_Apply :: "string \<Rightarrow> string \<Rightarrow> 'w \<Rightarrow> gerror option \<times> 'w"
  ck_WaitPodReady :: "string \<Rightarrow> string \<Rightarrow> string \<Rightarrow> time \<Rightarrow> 'w \<Rightarrow> (string \<times> time \<times> gerror option) \<times> 'w"
  ck_RunInPod :: "string \<Rightarrow> string \<Rightarrow> string \<Rightarrow> string \<Rightarrow> string list \<Rightarrow> 'w \<Rightarrow> (string \<times> gerror option) \<times> 'w"
  ck_GetPodsByLabel :: "string \<Rightarrow> string \<Rightarrow> string \<Rightarrow> 'w \<Rightarrow> (string list \<times> gerror option) \<times> 'w"
  ck_PodIP :: "string \<Rightarrow> string \<Rightarrow> string \<Rightarrow> 'w \<Rightarrow> (string \<times> gerror option) \<times> 'w"

section \<open>helpers.go\<close>

definition truncate_line :: "string \<Rightarrow> nat \<Rightarrow> string" where
  "truncate_line s0 maxLen =
     (let s = map (\<lambda>c. if c = CHR 0x0A then CHR '' '' else c) s0 in
      if length s \<le> maxLen then s else take (maxLen - 1) s @ ellipsis)"

definition isBlocked :: "gerror option \<Rightarrow> bool" where
  "isBlocked err \<longleftrightarrow> err \<noteq> None"

definition isAllowed :: "string \<Rightarrow> gerror option \<Rightarrow> bool" where
  "isAllowed output err \<longleftrightarrow> err = None \<and> output \<noteq> []"

definition formatCurlError :: "string \<Rightarrow> string" where
  "formatCurlError output =
     (case filter (\<lambda>line. HasPrefix line ''curl:'') (map TrimSpace (Split output CHR 0x0A)) of
        line # _ \<Rightarrow> ''curl blocked: '' @ line
      | [] \<Rightarrow> if output \<noteq> [] then truncate_line output 80 else ''connection blocked (no output)'')"

definition arrow :: string where "arrow = [CHR 0xE2, CHR 0x86, CHR 0x92]"

definition curl_target :: "string \<Rightarrow> string" where
  "curl_target ip = ''http://'' @ ip @ '':8080''"

definition curl_args :: "cilium_Config \<Rightarrow> string \<Rightarrow> string list" where
  "curl_args cfg target =
     [''curl'', ''-s'', ''--connect-timeout'', fmt_int (cc_ConnectTimeoutSeconds cfg),
      ''--max-time'', fmt_int (cc_ConnectTimeoutSeconds cfg + 2), target]"

section \<open>deny.go: test 1\<close>

definition nsDenyPolicyTemplate :: "string \<Rightarrow> string" where
  "nsDenyPolicyTemplate ns = unlines
     [''apiVersion: cilium.io/v2'', ''kind: CiliumNetworkPolicy'', ''metadata:'',
      ''  name: deny-cross-namespace-ingress'', ''  namespace: '' @ ns, ''spec:'', ''  endpointSelector: {}'',
      ''  ingress:'', ''    - fromEndpoints:'', ''        - matchLabels:'',
      ''            io.kubernetes.pod.namespace: '' @ ns]"

definition echoPodTemplate :: "string \<Rightarrow> string" where
  "echoPodTemplate ns = unlines
     [''apiVersion: v1'', ''kind: Pod'', ''metadata:'', ''  name: echo'', ''  namespace: '' @ ns,
      ''  labels:'', ''    app: echo'', ''spec:'', ''  containers:'', ''  - name: echo'',
      ''    image: hashicorp/http-echo:latest'', ''    args: [\"-listen=:8080\", \"-text=pong\"]'',
      ''    ports:'', ''    - containerPort: 8080'', ''  terminationGracePeriodSeconds: 1'']"

definition netprobePodTemplate :: "string \<Rightarrow> string" where
  "netprobePodTemplate ns = unlines
     [''apiVersion: v1'', ''kind: Pod'', ''metadata:'', ''  name: netprobe'', ''  namespace: '' @ ns,
      ''  labels:'', ''    app: netprobe'', ''spec:'', ''  containers:'', ''  - name: netprobe'',
      ''    image: nicolaka/netshoot:latest'', ''    command: [\"sleep\", \"infinity\"]'',
      ''  terminationGracePeriodSeconds: 1'']"

definition namespacePodTemplate :: "string \<Rightarrow> string" where
  "namespacePodTemplate ns = unlines
     [''apiVersion: v1'', ''kind: Namespace'', ''metadata:'', ''  name: '' @ ns]"

definition RunTestCrossNamespaceDeny :: "'w go_time \<Rightarrow> 'w cilium_client \<Rightarrow> cilium_Config \<Rightarrow> ('w, TestResult) io" where
  "RunTestCrossNamespaceDeny T c cfg =
     (let nsA = cc_TenantANamespace cfg; nsB = cc_TenantBNamespace cfg in
     io_then (io_call (gt_Now T)) (\<lambda>start.
     let fail = (\<lambda>evidence. failResult T TestCrossNamespaceDeny evidence start) in
     io_then (io_call (ck_Apply c [] (namespacePodTemplate nsA))) (\<lambda>err.
     if err \<noteq> None then fail (''create namespace '' @ nsA @ '': '' @ fmt_error err) Map.empty else
     io_then (io_call (ck_Apply c [] (namespacePodTemplate nsB))) (\<lambda>err.
     if err \<noteq> None then fail (''create namespace '' @ nsB @ '': '' @ fmt_error err) Map.empty else
     io_then (io_call (ck_Apply c [] (nsDenyPolicyTemplate nsA))) (\<lambda>err.
     if err \<noteq> None then fail (''apply CNP to '' @ nsA @ '': '' @ fmt_error err) Map.empty else
     io_then (io_call (ck_Apply c [] (echoPodTemplate nsA))) (\<lambda>err.
     if err \<noteq> None then fail (''apply echo pod in '' @ nsA @ '': '' @ fmt_error err) Map.empty else
     io_then (io_call (ck_Apply c [] (netprobePodTemplate nsB))) (\<lambda>err.
     if err \<noteq> None then fail (''apply netprobe in '' @ nsB @ '': '' @ fmt_error err) Map.empty else
     io_then (io_call (ck_WaitPodReady c [] nsA ''app=echo'' (cc_PodReadyTimeout cfg))) (\<lambda>(_, _, err).
     if err \<noteq> None then fail (''echo pod not ready in '' @ nsA @ '': '' @ fmt_error err) Map.empty else
     io_then (io_call (ck_WaitPodReady c [] nsB ''app=netprobe'' (cc_PodReadyTimeout cfg))) (\<lambda>(_, _, err).
     if err \<noteq> None then fail (''netprobe pod not ready in '' @ nsB @ '': '' @ fmt_error err) Map.empty else
     io_then (io_call (ck_PodIP c [] nsA ''app=echo'')) (\<lambda>(echoIP, err).
     if err \<noteq> None then fail (''get echo pod IP: '' @ fmt_error err) Map.empty else
     let target = curl_target echoIP in
     io_then (io_call (ck_RunInPod c [] nsB ''netprobe'' [] (curl_args cfg target))) (\<lambda>(out, execErr).
     let metrics = [''echo_pod_ip'' \<mapsto> echoIP, ''attacker_namespace'' \<mapsto> nsB, ''target_namespace'' \<mapsto> nsA,
           ''curl_target'' \<mapsto> target, ''curl_output'' \<mapsto> truncate_line (TrimSpace out) 120] in
     if isBlocked execErr
     then passResult T TestCrossNamespaceDeny
            (nsB @ '' '' @ arrow @ '' '' @ nsA @ '' blocked (Cilium DROP) | '' @ formatCurlError out) start metrics
     else fail (''curl SUCCEEDED from '' @ nsB @ '' to '' @ nsA @ '' '' @ em_dash @ '' CNP not enforcing deny'') metrics)))))))))))"

section \<open>allow.go: test 2\<close>

definition allowProbePodTemplate :: "string \<Rightarrow> string" where
  "allowProbePodTemplate ns = unlines
     [''apiVersion: v1'', ''kind: Pod'', ''metadata:'', ''  name: allow-probe'', ''  namespace: '' @ ns,
      ''  labels:'', ''    app: allow-probe'', ''spec:'', ''  containers:'', ''  - name: probe'',
      ''    image: nicolaka/netshoot:latest'', ''    command: [\"sleep\", \"infinity\"]'',
      ''  terminationGracePeriodSeconds: 1'']"

definition RunTestIntraNamespaceAllow :: "'w go_time \<Rightarrow> 'w cilium_client \<Rightarrow> cilium_Config \<Rightarrow> ('w, TestResult) io" where
  "RunTestIntraNamespaceAllow T c cfg =
     (let nsA = cc_TenantANamespace cfg in
     io_then (io_call (gt_Now T)) (\<lambda>start.
     let fail = (\<lambda>evidence. failResult T TestIntraNamespaceAllow evidence start) in
     io_then (io_call (ck_Apply c [] (allowProbePodTemplate nsA))) (\<lambda>err.
     if err \<noteq> None then fail (''apply allow-probe in '' @ nsA @ '': '' @ fmt_error err) Map.empty else
     io_then (io_call (ck_WaitPodReady c [] nsA ''app=allow-probe'' (cc_PodReadyTimeout cfg))) (\<lambda>(_, _, err).
     if err \<noteq> None then fail (''allow-probe not ready in '' @ nsA @ '': '' @ fmt_error err) Map.empty else
     io_then (io_call (ck_PodIP c [] nsA ''app=echo'')) (\<lambda>(echoIP, err).
     if err \<noteq> None
     then fail (''get echo pod IP in '' @ nsA @ '': '' @ fmt_error err @ '' (ensure Test 1 ran first or echo pod exists)'') Map.empty
     else
     let target = curl_target echoIP in
     io_then (io_call (ck_RunInPod c [] nsA ''allow-probe'' [] (curl_args cfg target))) (\<lambda>(out, execErr).
     let metrics = [''echo_pod_ip'' \<mapsto> echoIP, ''probe_namespace'' \<mapsto> nsA, ''curl_target'' \<mapsto> target,
           ''curl_output'' \<mapsto> truncate_line out 60] in
     if isAllowed out execErr
     then passResult T TestIntraNamespaceAllow (''curl success within '' @ nsA @ '': '' @ truncate_line out 40) start metrics
     else fail (''intra-namespace curl FAILED in '' @ nsA @ '' '' @ em_dash @ '' CNP too restrictive? '' @ formatCurlError out)
            metrics))))))"

section \<open>platform.go: test 3\<close>

definition platformServicePodTemplate :: "string \<Rightarrow> string" where
  "platformServicePodTemplate ns = unlines
     [''apiVersion: v1'', ''kind: Pod'', ''metadata:'', ''  name: platform-svc'', ''  namespace: '' @ ns,
      ''  labels:'', ''    app: platform-svc'', ''spec:'', ''  containers:'', ''  - name: svc'',
      ''    image: hashicorp/http-echo:latest'', ''    args: [\"-listen=:8080\", \"-text=cf-system\"]'',
      ''    ports:'', ''    - containerPort: 8080'', ''  terminationGracePeriodSeconds: 1'']"

definition RunTestPlatformIsolation :: "'w go_time \<Rightarrow> 'w cilium_client \<Rightarrow> cilium_Config \<Rightarrow> ('w, TestResult) io" where
  "RunTestPlatformIsolation T c cfg =
     (let nsP = cc_PlatformNamespace cfg; nsB = cc_TenantBNamespace cfg in
     io_then (io_call (gt_Now T)) (\<lambda>start.
     let fail = (\<lambda>evidence. failResult T TestPlatformIsolation evidence start) in
     io_then (io_call (ck_Apply c [] (namespacePodTemplate nsP))) (\<lambda>err.
     if err \<noteq> None then fail (''create namespace '' @ nsP @ '': '' @ fmt_error err) Map.empty else
     io_then (io_call (ck_Apply c [] (nsDenyPolicyTemplate nsP))) (\<lambda>err.
     if err \<noteq> None then fail (''apply CNP to '' @ nsP @ '': '' @ fmt_error err) Map.empty else
     io_then (io_call (ck_Apply c [] (platformServicePodTemplate nsP))) (\<lambda>err.
     if err \<noteq> None then fail (''apply platform-svc pod in '' @ nsP @ '': '' @ fmt_error err) Map.empty else
     io_then (io_call (ck_WaitPodReady c [] nsP ''app=platform-svc'' (cc_PodReadyTimeout cfg))) (\<lambda>(_, _, err).
     if err \<noteq> None then fail (''platform-svc not ready in '' @ nsP @ '': '' @ fmt_error err) Map.empty else
     io_then (io_call (ck_PodIP c [] nsP ''app=platform-svc'')) (\<lambda>(svcIP, err).
     if err \<noteq> None then fail (''get platform-svc IP: '' @ fmt_error err) Map.empty else
     let metrics = [''platform_svc_ip'' \<mapsto> svcIP, ''attacker_namespace'' \<mapsto> nsB, ''target_namespace'' \<mapsto> nsP] in
     io_then (io_call (ck_Apply c [] (netprobePodTemplate nsB))) (\<lambda>err.
     if err \<noteq> None then fail (''ensure netprobe in '' @ nsB @ '': '' @ fmt_error err) metrics else
     io_then (io_call (ck_WaitPodReady c [] nsB ''app=netprobe'' (cc_PodReadyTimeout cfg))) (\<lambda>(_, _, err).
     if err \<noteq> None then fail (''netprobe not ready in '' @ nsB @ '': '' @ fmt_error err) metrics else
     let target = curl_target svcIP in
     io_then (io_call (ck_RunInPod c [] nsB ''netprobe'' [] (curl_args cfg target))) (\<lambda>(out, execErr).
     let metrics = metrics(''curl_target'' \<mapsto> target, ''curl_output'' \<mapsto> truncate_line out 120) in
     if isBlocked execErr
     then passResult T TestPlatformIsolation
            (nsB @ '' '' @ arrow @ '' '' @ nsP @ '' blocked (Cilium DROP) | '' @ formatCurlError out) start metrics
     else fail (''curl SUCCEEDED from '' @ nsB @ '' to '' @ nsP @ '' '' @ em_dash @ '' platform namespace reachable from tenant'')
            metrics))))))))))"

section \<open>trace.go: test 4\<close>

definition isCiliumDbgUnavailable :: "string \<Rightarrow> gerror option \<Rightarrow> bool" where
  "isCiliumDbgUnavailable out err =
     (let combined = out @ (case err of None \<Rightarrow> [] | Some e \<Rightarrow> '' '' @ Error_String e) in
      \<exists>indicator\<in>set [''executable file not found'', ''no such file or directory'', ''command not found'',
          ''Available Commands:'', ''unknown command \"trace\"'']. Contains combined indicator)"

definition runHubbleObserveFallback ::
  "'w go_time \<Rightarrow> 'w cilium_client \<Rightarrow> cilium_Config \<Rightarrow> string \<Rightarrow> time \<Rightarrow> (string \<rightharpoonup> string) \<Rightarrow> ('w, TestResult) io" where
  "runHubbleObserveFallback T c cfg ciliumPod start metrics =
     (let nsA = cc_TenantANamespace cfg; nsB = cc_TenantBNamespace cfg in
     io_then (io_call (ck_RunInPod c [] ''kube-system'' ciliumPod ''cilium-agent''
       [''hubble'', ''observe'', ''--from-namespace'', nsB, ''--to-namespace'', nsA, ''--verdict'', ''DROPPED'',
        ''--port'', ''8080'', ''--last'', ''100''])) (\<lambda>(out, err).
     let metrics = metrics(''hubble_output'' \<mapsto> truncate_line out 300) in
     if err \<noteq> None
     then skipResult T TestPolicyTrace (''cilium-dbg policy trace unavailable; hubble observe also failed: '' @ fmt_error err) start
     else if Contains out ''DROPPED''
     then passResult T TestPolicyTrace
            (''hubble observe: DROPPED flows found from '' @ nsB @ arrow @ nsA @ '':8080/tcp (cilium-dbg fallback)'') start metrics
     else failResult T TestPolicyTrace
            (''hubble observe: no DROPPED flows found from '' @ nsB @ arrow @ nsA @ '':8080/tcp '' @ em_dash @
             '' CNP may not be enforcing: '' @ truncate_line out 120) start metrics))"

definition RunTestPolicyTrace :: "'w go_time \<Rightarrow> 'w cilium_client \<Rightarrow> cilium_Config \<Rightarrow> ('w, TestResult) io" where
  "RunTestPolicyTrace T c cfg =
     (let nsA = cc_TenantANamespace cfg; nsB = cc_TenantBNamespace cfg;
          flow = ''('' @ nsB @ arrow @ nsA @ '':8080/tcp)'' in
     io_then (io_call (gt_Now T)) (\<lambda>start.
     io_then (io_call (ck_GetPodsByLabel c [] ''kube-system'' ''k8s-app=cilium'')) (\<lambda>(pods, err).
     if err \<noteq> None \<or> pods = []
     then skipResult T TestPolicyTrace
            (if err \<noteq> None then ''get cilium pods: '' @ fmt_error err else ''no cilium-agent pods found in kube-system'') start
     else let ciliumPod = hd pods in
     io_then (io_call (ck_RunInPod c [] ''kube-system'' ciliumPod ''cilium-agent''
       [''cilium-dbg'', ''policy'', ''trace'', ''--src-namespace'', nsB, ''--src-labels'', ''app=netprobe'',
        ''--dst-namespace'', nsA, ''--dst-labels'', ''app=echo'', ''--dport'', ''8080'', ''--protocol'', ''tcp''])) (\<lambda>(out, err).
     let metrics = [''cilium_pod'' \<mapsto> ciliumPod, ''trace_output'' \<mapsto> truncate_line out 300] in
     if err \<noteq> None \<and> isCiliumDbgUnavailable out err
     then runHubbleObserveFallback T c cfg ciliumPod start (metrics(''trace_strategy'' \<mapsto> ''hubble_observe_fallback''))
     else if Contains out ''Final verdict: DENIED''
     then passResult T TestPolicyTrace (''cilium-dbg policy trace: Final verdict: DENIED '' @ flow) start metrics
     else if Contains out ''Final verdict: ALLOWED''
     then failResult T TestPolicyTrace
            (''cilium-dbg policy trace: Final verdict: ALLOWED '' @ em_dash @ '' CNP not enforcing deny '' @ flow) start metrics
     else if err \<noteq> None
     then failResult T TestPolicyTrace
            (''cilium-dbg policy trace failed: '' @ fmt_error err @ '' | output: '' @ truncate_line out 120) start metrics
     else failResult T TestPolicyTrace
            (''cilium-dbg policy trace ran but '' @ [CHR 0x27] @ ''Final verdict'' @ [CHR 0x27] @ '' not found in output: '' @
             truncate_line out 120) start metrics))))"

section \<open>coexist.go: test 5\<close>

definition vclusterInstalled :: "'w probe_os \<Rightarrow> ('w, bool) io" where
  "vclusterInstalled os = io_then (io_call (po_LookPath os ''vcluster'')) (\<lambda>res. io_ret (case res of Inl _ \<Rightarrow> False | Inr _ \<Rightarrow> True))"

definition runVClusterCreate :: "'w probe_os \<Rightarrow> string \<Rightarrow> string \<Rightarrow> ('w, gerror option) io" where
  "runVClusterCreate os name namespace =
     io_then (io_call (po_Run os [''vcluster'', ''create'', name, ''-n'', namespace, ''--connect=false''] [])) (\<lambda>(out, err).
     case err of None \<Rightarrow> io_ret None
     | Some e \<Rightarrow>
         if Contains out ''already exists'' \<or> Contains out ''already present'' then io_ret None
         else io_ret (Some (Wrap [] e (NL @ ''output: '' @ out))))"

text \<open>The wait for the pod of the vCluster, with the shorter selector as the second attempt.\<close>

definition wait_vcluster_pod :: "'w cilium_client \<Rightarrow> cilium_Config \<Rightarrow> ('w, string \<times> gerror option) io" where
  "wait_vcluster_pod c cfg =
     io_then (io_call (ck_WaitPodReady c [] (cc_VClusterNamespace cfg) (''app=vcluster,release='' @ cc_VClusterName cfg) (3 * Minute)))
       (\<lambda>(podName, _, err).
     if err = None then io_ret (podName, None)
     else io_then (io_call (ck_WaitPodReady c [] (cc_VClusterNamespace cfg) ''app=vcluster'' (3 * Minute)))
            (\<lambda>(podName, _, err). io_ret (podName, err)))"

definition RunTestVClusterCoexistence ::
  "'w probe_os \<Rightarrow> 'w cilium_client \<Rightarrow> cilium_Config \<Rightarrow> ('w, TestResult) io" where
  "RunTestVClusterCoexistence os c cfg =
     (let T = po_Time os; nsV = cc_VClusterNamespace cfg; nsB = cc_TenantBNamespace cfg in
     io_then (io_call (gt_Now T)) (\<lambda>start.
     let fail = (\<lambda>evidence. failResult T TestVClusterCoexistence evidence start) in
     io_then (vclusterInstalled os) (\<lambda>installed.
     if \<not> installed
     then skipResult T TestVClusterCoexistence
            (''vcluster CLI not installed '' @ em_dash @ '' install via: brew install loft-sh/tap/vcluster'') start
     else
     io_then (io_call (ck_Apply c [] (namespacePodTemplate nsV))) (\<lambda>err.
     if err \<noteq> None then fail (''create namespace '' @ nsV @ '': '' @ fmt_error err) Map.empty else
     io_then (io_call (ck_Apply c [] (nsDenyPolicyTemplate nsV))) (\<lambda>err.
     if err \<noteq> None then fail (''apply CNP to '' @ nsV @ '': '' @ fmt_error err) Map.empty else
     io_then (io_call (ck_Apply c [] (echoPodTemplate nsV))) (\<lambda>err.
     if err \<noteq> None then fail (''apply echo pod in '' @ nsV @ '': '' @ fmt_error err) Map.empty else
     io_then (runVClusterCreate os (cc_VClusterName cfg) nsV) (\<lambda>err.
     if err \<noteq> None then fail (''vcluster create '' @ cc_VClusterName cfg @ '': '' @ fmt_error err) Map.empty else
     let metrics = [''vcluster_name'' \<mapsto> cc_VClusterName cfg, ''vcluster_namespace'' \<mapsto> nsV] in
     io_then (wait_vcluster_pod c cfg) (\<lambda>(podName, err).
     if err \<noteq> None then fail (''vCluster pod not ready in '' @ nsV @ '': '' @ fmt_error err) metrics else
     let metrics = metrics(''vcluster_pod'' \<mapsto> podName) in
     io_then (io_call (ck_WaitPodReady c [] nsV ''app=echo'' (cc_PodReadyTimeout cfg))) (\<lambda>(_, _, err).
     if err \<noteq> None then fail (''echo pod not ready in '' @ nsV @ '': '' @ fmt_error err) metrics else
     io_then (io_call (ck_PodIP c [] nsV ''app=echo'')) (\<lambda>(echoIP, err).
     if err \<noteq> None then fail (''get echo pod IP in '' @ nsV @ '': '' @ fmt_error err) metrics else
     let metrics = metrics(''echo_pod_ip'' \<mapsto> echoIP) in
     io_then (io_call (ck_Apply c [] (netprobePodTemplate nsB))) (\<lambda>err.
     if err \<noteq> None then fail (''ensure netprobe in '' @ nsB @ '': '' @ fmt_error err) metrics else
     io_then (io_call (ck_WaitPodReady c [] nsB ''app=netprobe'' (cc_PodReadyTimeout cfg))) (\<lambda>(_, _, err).
     if err \<noteq> None then fail (''netprobe not ready in '' @ nsB @ '': '' @ fmt_error err) metrics else
     let target = curl_target echoIP in
     io_then (io_call (ck_RunInPod c [] nsB ''netprobe'' [] (curl_args cfg target))) (\<lambda>(out, execErr).
     let metrics = metrics(''curl_target'' \<mapsto> target, ''curl_output'' \<mapsto> truncate_line (TrimSpace out) 120) in
     if isBlocked execErr
     then passResult T TestVClusterCoexistence
            (''vCluster pod='' @ podName @ '' Running + CNP blocks '' @ nsB @ arrow @ nsV @ '':8080 | '' @ formatCurlError out)
            start metrics
     else fail (''curl SUCCEEDED from '' @ nsB @ '' to '' @ nsV @ '' '' @ em_dash @ '' CNP enforcement broken by vCluster presence'')
            metrics)))))))))))))"

section \<open>runner.go\<close>

definition cilium_runOne ::
  "'w probe_os \<Rightarrow> 'w cilium_client \<Rightarrow> cilium_Config \<Rightarrow> TestName \<Rightarrow> ('w, TestResult) io" where
  "cilium_runOne os c cfg name =
     (if name = TestCrossNamespaceDeny then RunTestCrossNamespaceDeny (po_Time os) c cfg
      else if name = TestIntraNamespaceAllow then RunTestIntraNamespaceAllow (po_Time os) c cfg
      else if name = TestPlatformIsolation then RunTestPlatformIsolation (po_Time os) c cfg
      else if name = TestPolicyTrace then RunTestPolicyTrace (po_Time os) c cfg
      else if name = TestVClusterCoexistence then RunTestVClusterCoexistence os c cfg
      else io_ret \<lparr>tr_Name = name, tr_Verdict = VerdictFail, tr_Evidence = ''unknown test name: '' @ Quote name,
                   tr_Metrics = Map.empty, tr_Duration = 0\<rparr>)"

definition cilium_RunAll :: "'w probe_os \<Rightarrow> 'w cilium_client \<Rightarrow> cilium_Config \<Rightarrow> ('w, TestResult list) io" where
  "cilium_RunAll os c cfg = io_map (cilium_runOne os c cfg) cilium_AllTests"

section \<open>table.go\<close>

definition cilium_PrintResults :: "TestResult list \<Rightarrow> string" where
  "cilium_PrintResults results =
     (let sep = box_line (24 + 7 + 10 + 60 + 7);
          row = (\<lambda>a b c d. pad_right 24 a @ ''  '' @ pad_right 7 b @ ''  '' @ pad_right 10 c @ ''  '' @ pad_right 60 d);
          counts = (\<lambda>v. Itoa (the (CountByVerdict results v))) in
      unlines ([sep, row ''TEST'' ''VERDICT'' ''DURATION'' ''EVIDENCE'', sep] @
        map (\<lambda>r. row (tr_Name r) (colorVerdict (tr_Verdict r))
          (Duration_String (Duration_Round (tr_Duration r) Millisecond)) (truncate_line (tr_Evidence r) 60)) results @ [sep]) @
      NL @ ''  Overall: '' @ colorVerdict (OverallVerdict results) @ ''   PASS='' @ counts VerdictPass @ ''  FAIL='' @
      counts VerdictFail @ ''  SKIP='' @ counts VerdictSkip @ NL @ NL)"

section \<open>The real client\<close>

text \<open>\<open>run\<close> of this client wraps its errors, and no call looks at the kubeconfig path.\<close>

definition cilium_kubectl :: "'w probe_os \<Rightarrow> string \<Rightarrow> string list \<Rightarrow> 'w \<Rightarrow> (string \<times> gerror option) \<times> 'w" where
  "cilium_kubectl os b args w =
     (let ((out, err), w) = po_Run os (kubectl_bin b # args) [] w in
      ((out, map_option (\<lambda>e. Wrap (''kubectl '' @ hd args @ '': '') e (NL @ ''output: '' @ out)) err), w))"

definition cilium_Apply :: "'w probe_os \<Rightarrow> string \<Rightarrow> string \<Rightarrow> string \<Rightarrow> 'w \<Rightarrow> gerror option \<times> 'w" where
  "cilium_Apply os b kubeconfigPath yamlContent w =
     (let ((out, err), w) = po_Run os [kubectl_bin b, ''apply'', ''-f'', ''-''] yamlContent w in
      (map_option (\<lambda>e. Wrap ''kubectl apply: '' e (NL @ ''output: '' @ out)) err, w))"

definition cilium_WaitPodReady ::
  "'w probe_os \<Rightarrow> string \<Rightarrow> string \<Rightarrow> string \<Rightarrow> string \<Rightarrow> time \<Rightarrow> 'w \<Rightarrow> (string \<times> time \<times> gerror option) \<times> 'w" where
  "cilium_WaitPodReady os b kubeconfigPath namespace selector timeout w =
     (let (start, w) = gt_Now (po_Time os) w;
          ((_, err), w) = cilium_kubectl os b [''wait'', ''pod'', ''-n'', namespace, ''-l'', selector,
            ''--for=condition=Ready'', ''--timeout='' @ fmt_int (timeout sdiv Second) @ ''s''] w in
      case err of
        Some e \<Rightarrow>
          (let (now, w) = gt_Now (po_Time os) w in
           (([], now - start, Some (Errorf (''wait pod ready (ns='' @ namespace @ '' sel='' @ selector @ ''): '') e)), w))
      | None \<Rightarrow>
          (let ((out, nameErr), w) = cilium_kubectl os b [''get'', ''pod'', ''-n'', namespace, ''-l'', selector,
                 ''-o=jsonpath={.items[0].metadata.name}''] w;
               podName = (if nameErr = None then TrimSpace out else []);
               (now, w) = gt_Now (po_Time os) w in
           ((podName, now - start, None), w)))"

definition cilium_RunInPod ::
  "'w probe_os \<Rightarrow> string \<Rightarrow> string \<Rightarrow> string \<Rightarrow> string \<Rightarrow> string \<Rightarrow> string list \<Rightarrow> 'w \<Rightarrow> (string \<times> gerror option) \<times> 'w" where
  "cilium_RunInPod os b kubeconfigPath namespace pod container cmd =
     cilium_kubectl os b ([''exec'', ''-n'', namespace, pod] @ (if container \<noteq> [] then [''-c'', container] else []) @ [''--''] @ cmd)"

definition cilium_GetPodsByLabel ::
  "'w probe_os \<Rightarrow> string \<Rightarrow> string \<Rightarrow> string \<Rightarrow> string \<Rightarrow> 'w \<Rightarrow> (string list \<times> gerror option) \<times> 'w" where
  "cilium_GetPodsByLabel os b kubeconfigPath namespace selector w =
     (let ((out, err), w) = cilium_kubectl os b [''get'', ''pod'', ''-n'', namespace, ''-l'', selector,
            ''-o=jsonpath={.items[*].metadata.name}''] w in
      if err \<noteq> None then (([], err), w) else ((Fields (TrimSpace out), None), w))"

definition cilium_PodIP ::
  "'w probe_os \<Rightarrow> string \<Rightarrow> string \<Rightarrow> string \<Rightarrow> string \<Rightarrow> 'w \<Rightarrow> (string \<times> gerror option) \<times> 'w" where
  "cilium_PodIP os b kubeconfigPath namespace selector w =
     (let ((out, err), w) = cilium_kubectl os b [''get'', ''pod'', ''-n'', namespace, ''-l'', selector,
            ''-o=jsonpath={.items[0].status.podIP}''] w in
      if err \<noteq> None then (([], err), w)
      else let ip = TrimSpace out in
        if ip = [] then (([], Some (Text (''no pod IP for selector '' @ Quote selector @ '' in namespace '' @ Quote namespace))), w)
        else ((ip, None), w))"

definition cilium_RealClient :: "'w probe_os \<Rightarrow> string \<Rightarrow> 'w cilium_client" where
  "cilium_RealClient os b =
     \<lparr>ck_Apply = cilium_Apply os b, ck_WaitPodReady = cilium_WaitPodReady os b, ck_RunInPod = cilium_RunInPod os b,
      ck_GetPodsByLabel = cilium_GetPodsByLabel os b, ck_PodIP = cilium_PodIP os b\<rparr>"

definition cilium_NewRealClient :: "'w probe_os \<Rightarrow> 'w cilium_client" where
  "cilium_NewRealClient os = cilium_RealClient os ''kubectl''"

section \<open>install.go\<close>

record cilium_Tool =
  ctool_Binary :: string
  ctool_BrewFormula :: string

definition cilium_requiredTools :: "cilium_Tool list" where
  "cilium_requiredTools =
     [\<lparr>ctool_Binary = ''kubectl'', ctool_BrewFormula = []\<rparr>, \<lparr>ctool_Binary = ''k3d'', ctool_BrewFormula = ''k3d''\<rparr>,
      \<lparr>ctool_Binary = ''helm'', ctool_BrewFormula = ''helm''\<rparr>, \<lparr>ctool_Binary = ''cilium'', ctool_BrewFormula = ''cilium-cli''\<rparr>,
      \<lparr>ctool_Binary = ''vcluster'', ctool_BrewFormula = ''loft-sh/tap/vcluster''\<rparr>]"

record ToolCheckResult =
  tc_Tool :: cilium_Tool
  tc_Found :: bool
  tc_Version :: string

definition first_line :: "string \<Rightarrow> string" where
  "first_line out = TrimSpace (hd (Split (TrimSpace out) CHR 0x0A))"

definition cilium_queryVersion :: "'w probe_os \<Rightarrow> string \<Rightarrow> ('w, string) io" where
  "cilium_queryVersion os binary =
     io_then (io_call (po_Run os [binary, ''version''] [])) (\<lambda>(out, err).
     if err = None then io_ret (first_line out)
     else io_then (io_call (po_Run os [binary, ''--version''] [])) (\<lambda>(out, err).
       if err \<noteq> None then io_ret [] else io_ret (first_line out)))"

definition cilium_check_tool :: "'w probe_os \<Rightarrow> cilium_Tool \<Rightarrow> ('w, ToolCheckResult) io" where
  "cilium_check_tool os t =
     io_then (cilium_queryVersion os (ctool_Binary t)) (\<lambda>ver.
     if ver = [] \<and> ctool_BrewFormula t \<noteq> []
     then io_then (io_call (po_Run os [''brew'', ''install'', ctool_BrewFormula t] [])) (\<lambda>_.
          io_then (cilium_queryVersion os (ctool_Binary t)) (\<lambda>ver.
          io_ret \<lparr>tc_Tool = t, tc_Found = (ver \<noteq> []), tc_Version = ver\<rparr>))
     else io_ret \<lparr>tc_Tool = t, tc_Found = (ver \<noteq> []), tc_Version = ver\<rparr>)"

definition cilium_CheckPrerequisites :: "'w probe_os \<Rightarrow> ('w, ToolCheckResult list \<times> gerror option) io" where
  "cilium_CheckPrerequisites os =
     io_then (io_map (cilium_check_tool os) cilium_requiredTools) (\<lambda>results.
     let missing = map (\<lambda>r. ctool_Binary (tc_Tool r)) (filter (\<lambda>r. \<not> tc_Found r) results) in
     io_ret (results, if missing \<noteq> [] then Some (Text (''required tools not found: '' @ Join missing '', '')) else None))"

section \<open>cmd/probe\<close>

record cilium_flags =
  cf_tenantA :: string
  cf_tenantB :: string
  cf_platformNs :: string
  cf_vclusterNs :: string
  cf_vclusterName :: string
  cf_verbose :: bool

definition cilium_flags_Config :: "cilium_flags \<Rightarrow> cilium_Config" where
  "cilium_flags_Config fl = cilium_DefaultConfig
     \<lparr>cc_TenantANamespace := cf_tenantA fl, cc_TenantBNamespace := cf_tenantB fl, cc_PlatformNamespace := cf_platformNs fl,
      cc_VClusterNamespace := cf_vclusterNs fl, cc_VClusterName := cf_vclusterName fl\<rparr>"

definition cilium_run ::
  "(TestResult \<Rightarrow> string list) \<Rightarrow> 'w probe_os \<Rightarrow> cilium_flags \<Rightarrow> ('w, int \<times> string) io" where
  "cilium_run order os fl =
     io_then (cilium_CheckPrerequisites os) (\<lambda>(_, err).
     case err of Some e \<Rightarrow> io_ret (1, Error_String e @ NL) | None \<Rightarrow>
     io_then (cilium_RunAll os (cilium_NewRealClient os) (cilium_flags_Config fl)) (\<lambda>results.
     io_ret (if AllPassed results then 0 else 1,
       cilium_PrintResults results @ (if cf_verbose fl then PrintMetrics order results else []))))"

section \<open>fake_client.go\<close>

text \<open>The scripted client: its state is the fields of \<open>FakeClient\<close>.\<close>

record RunInPodCall =
  rc_Namespace :: string
  rc_Pod :: string
  rc_Container :: string
  rc_Cmd :: "string list"

record cilium_fake =
  cfk_ApplyErr :: "gerror option"
  cfk_ApplyCalls :: nat
  cfk_WaitPodReadyPodName :: string
  cfk_WaitPodReadyElapsed :: time
  cfk_WaitPodReadyErr :: "gerror option"
  cfk_WaitPodReadyCalls :: nat
  cfk_RunInPodResponses :: "(string \<times> gerror option) list"
  cfk_RunInPodCalls :: "RunInPodCall list"
  cfk_PodsByLabel :: "string list"
  cfk_PodsByLabelErr :: "gerror option"
  cfk_PodIPResult :: string
  cfk_PodIPErr :: "gerror option"

definition cilium_FakeApply :: "string \<Rightarrow> string \<Rightarrow> cilium_fake \<Rightarrow> gerror option \<times> cilium_fake" where
  "cilium_FakeApply kubeconfig yaml f = (cfk_ApplyErr f, f\<lparr>cfk_ApplyCalls := Suc (cfk_ApplyCalls f)\<rparr>)"

definition cilium_FakeWaitPodReady ::
  "string \<Rightarrow> string \<Rightarrow> string \<Rightarrow> time \<Rightarrow> cilium_fake \<Rightarrow> (string \<times> time \<times> gerror option) \<times> cilium_fake" where
  "cilium_FakeWaitPodReady kubeconfig namespace selector timeout f =
     ((cfk_WaitPodReadyPodName f, cfk_WaitPodReadyElapsed f, cfk_WaitPodReadyErr f),
      f\<lparr>cfk_WaitPodReadyCalls := Suc (cfk_WaitPodReadyCalls f)\<rparr>)"

definition cilium_FakeRunInPod ::
  "string \<Rightarrow> string \<Rightarrow> string \<Rightarrow> string \<Rightarrow> string list \<Rightarrow> cilium_fake \<Rightarrow> (string \<times> gerror option) \<times> cilium_fake" where
  "cilium_FakeRunInPod kubeconfig namespace pod container cmd f =
     (let f = f\<lparr>cfk_RunInPodCalls := cfk_RunInPodCalls f @
            [\<lparr>rc_Namespace = namespace, rc_Pod = pod, rc_Container = container, rc_Cmd = cmd\<rparr>]\<rparr>;
          rs = cfk_RunInPodResponses f in
      if rs = [] then (([], Some (Text ''fake: no RunInPod response configured'')), f)
      else let idx = length (cfk_RunInPodCalls f) - 1;
               idx = (if length rs \<le> idx then length rs - 1 else idx) in
        (rs ! idx, f))"

definition cilium_FakeGetPodsByLabel ::
  "string \<Rightarrow> string \<Rightarrow> string \<Rightarrow> cilium_fake \<Rightarrow> (string list \<times> gerror option) \<times> cilium_fake" where
  "cilium_FakeGetPodsByLabel kubeconfig namespace selector f = ((cfk_PodsByLabel f, cfk_PodsByLabelErr f), f)"

definition cilium_FakePodIP :: "string \<Rightarrow> string \<Rightarrow> string \<Rightarrow> cilium_fake \<Rightarrow> (string \<times> gerror option) \<times> cilium_fake" where
  "cilium_FakePodIP kubeconfig namespace selector f = ((cfk_PodIPResult f, cfk_PodIPErr f), f)"

definition cilium_FakeClient :: "cilium_fake cilium_client" where
  "cilium_FakeClient =
     \<lparr>ck_Apply = cilium_FakeApply, ck_WaitPodReady = cilium_FakeWaitPodReady, ck_RunInPod = cilium_FakeRunInPod,
      ck_GetPodsByLabel = cilium_FakeGetPodsByLabel, ck_PodIP = cilium_FakePodIP\<rparr>"

definition hasSubstr :: "string \<Rightarrow> string \<Rightarrow> bool" where
  "hasSubstr s sub = Contains s sub"

end
