(* ===== verification/CiliumFacts.thy ===== *)
theory CiliumFacts
  imports CiliumProbe ProbeFacts
begin

text \<open>
  What holds of the Cilium spike: every test returns a result of its own, the tests of denial are decided
  by the error of one command alone, and the test of allowed traffic is what catches a cluster in which
  no command runs.
\<close>

section \<open>Every test returns\<close>

lemma deny_own: "io_gives (own_result TestCrossNamespaceDeny) (RunTestCrossNamespaceDeny T c cfg)"
  unfolding RunTestCrossNamespaceDeny_def by (intro io_walk; hypsubst?; rule own_results)

lemma allow_own: "io_gives (own_result TestIntraNamespaceAllow) (RunTestIntraNamespaceAllow T c cfg)"
  unfolding RunTestIntraNamespaceAllow_def by (intro io_walk; hypsubst?; rule own_results)

lemma platform_own: "io_gives (own_result TestPlatformIsolation) (RunTestPlatformIsolation T c cfg)"
  unfolding RunTestPlatformIsolation_def by (intro io_walk; hypsubst?; rule own_results)

lemma hubble_own: "io_gives (own_result TestPolicyTrace) (runHubbleObserveFallback T c cfg p start m)"
  unfolding runHubbleObserveFallback_def by (intro io_walk own_results)

lemma trace_own: "io_gives (own_result TestPolicyTrace) (RunTestPolicyTrace T c cfg)"
  unfolding RunTestPolicyTrace_def by (intro io_walk own_results hubble_own)

lemma vcluster_steps_end:
  "io_ends (vclusterInstalled os)" "io_ends (runVClusterCreate os name ns)" "io_ends (wait_vcluster_pod c cfg)"
  unfolding vclusterInstalled_def runVClusterCreate_def wait_vcluster_pod_def
  by (intro io_walk io_gives_ret TrueI)+

lemma coexistence_own: "io_gives (own_result TestVClusterCoexistence) (RunTestVClusterCoexistence os c cfg)"
  unfolding RunTestVClusterCoexistence_def
  by (intro io_gives_after [OF vcluster_steps_end(1)] io_gives_after [OF vcluster_steps_end(2)]
        io_gives_after [OF vcluster_steps_end(3)] io_walk; hypsubst?; rule own_results)

lemma cilium_runOne_own:
  "name \<in> set cilium_AllTests \<Longrightarrow> io_gives (own_result name) (cilium_runOne os c cfg name)"
  by (auto simp: cilium_AllTests_def cilium_runOne_def cilium_names deny_own [unfolded cilium_names]
      allow_own [unfolded cilium_names] platform_own [unfolded cilium_names] trace_own [unfolded cilium_names]
      coexistence_own [unfolded cilium_names])

theorem cilium_RunAll_results:
  "io_gives (\<lambda>rs. list_all2 own_result cilium_AllTests rs) (cilium_RunAll os c cfg)"
  unfolding cilium_RunAll_def by (rule io_gives_map) (rule cilium_runOne_own)

section \<open>Denial is any error\<close>

text \<open>A cluster in which everything works but the commands in pods fail, for whatever reason.\<close>

definition cilium_exec_broken :: "'w cilium_client \<Rightarrow> bool" where
  "cilium_exec_broken c \<longleftrightarrow>
     (\<forall>kb ns pod ctr cmd w. snd (fst (ck_RunInPod c kb ns pod ctr cmd w)) \<noteq> None) \<and>
     (\<forall>kb yaml w. fst (ck_Apply c kb yaml w) = None) \<and>
     (\<forall>kb ns sel t w. snd (snd (fst (ck_WaitPodReady c kb ns sel t w))) = None) \<and>
     (\<forall>kb ns sel w. snd (fst (ck_PodIP c kb ns sel w)) = None)"

lemma cilium_broken_walk:
  assumes "cilium_exec_broken c"
  shows "(\<And>out e. io_gives P (k (out, Some e))) \<Longrightarrow> io_gives P (io_then (io_call (ck_RunInPod c kb ns pod ctr cmd)) k)"
    and "io_gives P (l None) \<Longrightarrow> io_gives P (io_then (io_call (ck_Apply c kb yaml)) l)"
    and "(\<And>p e. io_gives P (m (p, e, None))) \<Longrightarrow> io_gives P (io_then (io_call (ck_WaitPodReady c kb ns sel t)) m)"
    and "(\<And>ip. io_gives P (n (ip, None))) \<Longrightarrow> io_gives P (io_then (io_call (ck_PodIP c kb ns sel)) n)"
proof -
  have run: "snd (fst (ck_RunInPod c kb ns pod ctr cmd w)) \<noteq> None" and ap: "fst (ck_Apply c kb yaml w) = None"
    and wait: "snd (snd (fst (ck_WaitPodReady c kb ns sel t w))) = None" and ip: "snd (fst (ck_PodIP c kb ns sel w)) = None" for w
    using assms by (simp_all add: cilium_exec_broken_def)
  show "(\<And>out e. io_gives P (k (out, Some e))) \<Longrightarrow> io_gives P (io_then (io_call (ck_RunInPod c kb ns pod ctr cmd)) k)"
    by (rule io_gives_call_then [of "\<lambda>x. snd x \<noteq> None"]) (use run in auto)
  show "io_gives P (l None) \<Longrightarrow> io_gives P (io_then (io_call (ck_Apply c kb yaml)) l)"
    by (rule io_gives_call_then [of "\<lambda>x. x = None"]) (simp_all add: ap)
  show "(\<And>p e. io_gives P (m (p, e, None))) \<Longrightarrow> io_gives P (io_then (io_call (ck_WaitPodReady c kb ns sel t)) m)"
    by (rule io_gives_call_then [of "\<lambda>x. snd (snd x) = None"]) (auto simp: wait)
  show "(\<And>ip. io_gives P (n (ip, None))) \<Longrightarrow> io_gives P (io_then (io_call (ck_PodIP c kb ns sel)) n)"
    by (rule io_gives_call_then [of "\<lambda>x. snd x = None"]) (auto simp: ip)
qed

lemma deny_unprobed: "cilium_exec_broken c \<Longrightarrow> io_gives passed (RunTestCrossNamespaceDeny T c cfg)"
  unfolding RunTestCrossNamespaceDeny_def
  by (intro now_walk cilium_broken_walk io_gives_let io_gives_if io_gives_prod; simp add: isBlocked_def passResult_passed)

lemma platform_unprobed: "cilium_exec_broken c \<Longrightarrow> io_gives passed (RunTestPlatformIsolation T c cfg)"
  unfolding RunTestPlatformIsolation_def
  by (intro now_walk cilium_broken_walk io_gives_let io_gives_if io_gives_prod; simp add: isBlocked_def passResult_passed)

lemma allow_unprobed: "cilium_exec_broken c \<Longrightarrow> io_gives (\<lambda>r. tr_Verdict r = VerdictFail) (RunTestIntraNamespaceAllow T c cfg)"
  unfolding RunTestIntraNamespaceAllow_def
  by (intro now_walk cilium_broken_walk io_gives_let io_gives_if io_gives_prod; simp add: isAllowed_def result_decided)

text \<open>Such a cluster passes the tests of denial and fails the test of allowed traffic, so the run fails.\<close>

theorem unprobed_run_fails:
  assumes "cilium_exec_broken c"
  shows "io_gives (\<lambda>rs. OverallVerdict rs = VerdictFail) (cilium_RunAll os c cfg)"
proof -
  let ?P = "\<lambda>name (r :: TestResult). name = TestIntraNamespaceAllow \<longrightarrow> tr_Verdict r = VerdictFail"
  have "io_gives (\<lambda>rs. list_all2 ?P cilium_AllTests rs) (cilium_RunAll os c cfg)"
    unfolding cilium_RunAll_def
  proof (rule io_gives_map)
    fix name assume n: "name \<in> set cilium_AllTests"
    show "io_gives (?P name) (cilium_runOne os c cfg name)"
    proof (cases "name = TestIntraNamespaceAllow")
      case True
      then have "cilium_runOne os c cfg name = RunTestIntraNamespaceAllow (po_Time os) c cfg"
        by (simp add: cilium_runOne_def cilium_names)
      then show ?thesis using allow_unprobed [OF assms] True by simp
    next
      case False
      show ?thesis by (rule io_gives_mono [OF cilium_runOne_own [OF n]]) (simp add: False)
    qed
  qed
  then show ?thesis
  proof (rule io_gives_mono)
    fix rs assume "list_all2 ?P cilium_AllTests rs"
    then have "\<exists>r\<in>set rs. tr_Verdict r = VerdictFail"
      by (auto simp: cilium_AllTests_def list_all2_Cons1)
    then show "OverallVerdict rs = VerdictFail" by (simp add: OverallVerdict_cases)
  qed
qed

section \<open>The command\<close>

lemma cilium_check_tool_ends: "io_ends (cilium_check_tool os t)"
proof -
  have "io_ends (cilium_queryVersion os b)" for b
    unfolding cilium_queryVersion_def by (intro io_walk io_gives_ret TrueI)
  then show ?thesis
    unfolding cilium_check_tool_def by (intro io_gives_after io_gives_if io_ends_call io_gives_ret TrueI)
qed

text \<open>The command always ends, with 0 or 1, whatever its calls answer.\<close>

lemma cilium_run_returns: "io_gives (\<lambda>(code, _). code \<in> {0, 1}) (cilium_run order os fl)"
proof -
  have pre: "io_ends (cilium_CheckPrerequisites os)"
    unfolding cilium_CheckPrerequisites_def by (intro io_gives_after [OF map_ends] cilium_check_tool_ends io_gives_let io_gives_ret TrueI)
  show ?thesis
    unfolding cilium_run_def
    by (intro io_gives_after [OF pre] io_gives_then [OF cilium_RunAll_results] io_gives_prod io_gives_option; simp add: io_gives_ret)
qed

section \<open>The scripted client\<close>

text \<open>
  The commands run in pods consume the script in order and then repeat its last entry; every call is
  recorded, and the calls of the other operations leave the script where it is.
\<close>

lemma cilium_FakeRunInPod_script:
  assumes "cfk_RunInPodResponses f \<noteq> []"
  shows "fst (cilium_FakeRunInPod kb ns pod ctr cmd f) =
      cfk_RunInPodResponses f ! min (length (cfk_RunInPodCalls f)) (length (cfk_RunInPodResponses f) - 1)"
    and "length (cfk_RunInPodCalls (snd (cilium_FakeRunInPod kb ns pod ctr cmd f))) = Suc (length (cfk_RunInPodCalls f))"
    and "cfk_RunInPodResponses (snd (cilium_FakeRunInPod kb ns pod ctr cmd f)) = cfk_RunInPodResponses f"
proof -
  have "0 < length (cfk_RunInPodResponses f)" using assms by simp
  then have "(if length (cfk_RunInPodResponses f) \<le> n then length (cfk_RunInPodResponses f) - 1 else n) =
      min n (length (cfk_RunInPodResponses f) - 1)" for n by (auto simp: min_def)
  then show "fst (cilium_FakeRunInPod kb ns pod ctr cmd f) =
      cfk_RunInPodResponses f ! min (length (cfk_RunInPodCalls f)) (length (cfk_RunInPodResponses f) - 1)"
    using assms by (simp add: cilium_FakeRunInPod_def Let_def)
qed (simp_all add: cilium_FakeRunInPod_def Let_def assms)

primrec fake_runs :: "(string \<times> string \<times> string \<times> string list) list \<Rightarrow> cilium_fake \<Rightarrow> (string \<times> gerror option) list" where
  "fake_runs [] f = []"
| "fake_runs (c # cs) f = (case c of (ns, pod, ctr, cmd) \<Rightarrow>
     let (out, f') = cilium_FakeRunInPod [] ns pod ctr cmd f in out # fake_runs cs f')"

lemma fake_runs_nth:
  assumes "cfk_RunInPodResponses f \<noteq> []" "i < length cs"
  shows "fake_runs cs f ! i =
    cfk_RunInPodResponses f ! min (length (cfk_RunInPodCalls f) + i) (length (cfk_RunInPodResponses f) - 1)"
  using assms
proof (induction cs arbitrary: f i)
  case (Cons c cs)
  obtain ns pod ctr cmd where c: "c = (ns, pod, ctr, cmd)" by (cases c)
  let ?f = "snd (cilium_FakeRunInPod [] ns pod ctr cmd f)"
  note script = cilium_FakeRunInPod_script [OF Cons.prems(1), of "[]" ns pod ctr cmd]
  have "fake_runs (c # cs) f = fst (cilium_FakeRunInPod [] ns pod ctr cmd f) # fake_runs cs ?f"
    by (simp add: c case_prod_unfold Let_def)
  then show ?case using Cons.IH [of ?f "i - 1"] Cons.prems script by (cases i) simp_all
qed simp

text \<open>From a fresh client: the script, then its last entry for the calls beyond it.\<close>

theorem script_then_last:
  assumes "cfk_RunInPodResponses f \<noteq> []" "cfk_RunInPodCalls f = []"
  shows "fake_runs cs f = take (length cs) (cfk_RunInPodResponses f) @
    replicate (length cs - length (cfk_RunInPodResponses f)) (last (cfk_RunInPodResponses f))"
proof (rule nth_equalityI)
  let ?rs = "cfk_RunInPodResponses f"
  have len: "length (fake_runs cs g) = length cs" for g
    by (induction cs arbitrary: g) (simp_all add: case_prod_unfold Let_def)
  show "length (fake_runs cs f) = length (take (length cs) ?rs @ replicate (length cs - length ?rs) (last ?rs))"
    by (simp add: len)
  fix i assume "i < length (fake_runs cs f)"
  then have i: "i < length cs" by (simp add: len)
  have at: "fake_runs cs f ! i = ?rs ! min i (length ?rs - 1)" using fake_runs_nth [OF assms(1) i] assms(2) by simp
  show "fake_runs cs f ! i = (take (length cs) ?rs @ replicate (length cs - length ?rs) (last ?rs)) ! i"
  proof (cases "i < length ?rs")
    case True
    then have "min i (length ?rs - 1) = i" by simp
    then show ?thesis using at True i by (simp add: nth_append)
  next
    case False
    then have "min i (length ?rs - 1) = length ?rs - 1" by simp
    then show ?thesis using at False i by (simp add: nth_append last_conv_nth [OF assms(1)])
  qed
qed

text \<open>With an error as its whole script and nothing else failing, the client is a cluster in which no command runs.\<close>

definition only_errors :: "cilium_fake \<Rightarrow> bool" where
  "only_errors f \<longleftrightarrow> (\<forall>r\<in>set (cfk_RunInPodResponses f). snd r \<noteq> None)"

lemma cilium_FakeRunInPod_errors:
  assumes "only_errors f"
  shows "snd (fst (cilium_FakeRunInPod kb ns pod ctr cmd f)) \<noteq> None"
proof (cases "cfk_RunInPodResponses f = []")
  case False
  then have "min (length (cfk_RunInPodCalls f)) (length (cfk_RunInPodResponses f) - 1) < length (cfk_RunInPodResponses f)"
    by (cases "cfk_RunInPodResponses f") auto
  then show ?thesis using cilium_FakeRunInPod_script(1) [OF False] assms nth_mem by (fastforce simp: only_errors_def)
qed (simp add: cilium_FakeRunInPod_def Let_def)

end
