(* ===== verification/KnativeBench.thy ===== *)
theory KnativeBench
  imports IsolationProbe "HOL-Library.AList"
begin

text \<open>
  The spike \<open>spikes/knative-coldstart\<close>: the benchmark of cold starts with its runner, the wait for scale to
  zero, the HTTP probe, the statistics and the command. Contexts are values \<open>'c\<close>; what acts on the world
  is a record of calls. The \<open>cancel\<close> functions of contexts and the progress log are left out.
\<close>

section \<open>types.go\<close>

definition VariantMinimal :: string where "VariantMinimal = ''minimal''"
definition VariantMedium :: string where "VariantMedium = ''medium''"
definition VariantHeavy :: string where "VariantHeavy = ''heavy''"

definition AllVariants :: "string list" where
  "AllVariants = [VariantMinimal, VariantMedium, VariantHeavy]"

lemmas variants = AllVariants_def VariantMinimal_def VariantMedium_def VariantHeavy_def

definition ImageSizes :: "string \<rightharpoonup> string" where
  "ImageSizes = [VariantMinimal \<mapsto> ''8 MB'', VariantMedium \<mapsto> ''98 MB'', VariantHeavy \<mapsto> ''512 MB'']"

definition p95Thresholds :: "string \<rightharpoonup> time" where
  "p95Thresholds = [VariantMinimal \<mapsto> 3 * Second, VariantMedium \<mapsto> 5 * Second, VariantHeavy \<mapsto> 10 * Second]"

text \<open>A lookup of a missing key is the zero value.\<close>

definition P95Threshold :: "string \<Rightarrow> time" where
  "P95Threshold v = (case p95Thresholds v of Some t \<Rightarrow> t | None \<Rightarrow> 0)"

record Sample =
  smp_TTFB :: time
  smp_Error :: "gerror option"

record Stats =
  sta_Variant :: string
  sta_ImageSize :: string
  sta_P50 :: time
  sta_P75 :: time
  sta_P95 :: time
  sta_P99 :: time
  sta_Min :: time
  sta_Max :: time
  sta_SampleCount :: nat
  sta_FailCount :: nat

definition PassesThreshold :: "Stats \<Rightarrow> bool" where
  "PassesThreshold s =
     (if sta_SampleCount s = 0 \<or> sta_SampleCount s = sta_FailCount s then False
      else case p95Thresholds (sta_Variant s) of None \<Rightarrow> True | Some threshold \<Rightarrow> sta_P95 s \<le> threshold)"

definition Stats_Threshold :: "Stats \<Rightarrow> time" where
  "Stats_Threshold s = P95Threshold (sta_Variant s)"

text \<open>The map \<open>Results\<close> is an association list, so that what ranges over it computes.\<close>

record BenchmarkResult =
  br_Results :: "(string \<times> Stats) list"
  br_KnativeVersion :: string
  br_Platform :: string
  br_StartedAt :: time

definition bench_AllPassed :: "BenchmarkResult \<Rightarrow> bool" where
  "bench_AllPassed r \<longleftrightarrow> br_Results r \<noteq> [] \<and> (\<forall>(v, s)\<in>set (br_Results r). PassesThreshold s)"

record bench_Config =
  bc_Samples :: int
  bc_Namespace :: string
  bc_BaseURL :: string
  bc_ScaleDownTimeout :: time
  bc_RequestTimeout :: time
  bc_PollInterval :: time

definition bench_DefaultConfig :: bench_Config where
  "bench_DefaultConfig =
     \<lparr>bc_Samples = 10, bc_Namespace = ''default'', bc_BaseURL = ''http://fn-%s.default.127.0.0.1.sslip.io:9080'',
      bc_ScaleDownTimeout = 40 * Second, bc_RequestTimeout = 30 * Second, bc_PollInterval = 3 * Second\<rparr>"

section \<open>stats.go\<close>

text \<open>
  The nearest rank: \<open>ceil(p / 100 * n) - 1\<close>, computed in \<open>float64\<close> in the code, which is exact for the
  percentiles 50, 75, 95 and 99 it is used with.
\<close>

definition percentileAt :: "time list \<Rightarrow> nat \<Rightarrow> time" where
  "percentileAt ds p =
     (if ds = [] then 0
      else let idx = (p * length ds + 99) div 100 - 1;
               idx = (if length ds \<le> idx then length ds - 1 else idx) in
        ds ! idx)"

definition ComputeStats :: "string \<Rightarrow> Sample list \<Rightarrow> Stats" where
  "ComputeStats variant samples =
     (let durations = sort (map smp_TTFB (filter (\<lambda>s. smp_Error s = None) samples));
          s = \<lparr>sta_Variant = variant, sta_ImageSize = (case ImageSizes variant of Some z \<Rightarrow> z | None \<Rightarrow> []),
               sta_P50 = 0, sta_P75 = 0, sta_P95 = 0, sta_P99 = 0, sta_Min = 0, sta_Max = 0,
               sta_SampleCount = length samples,
               sta_FailCount = length (filter (\<lambda>s. smp_Error s \<noteq> None) samples)\<rparr> in
      if durations = [] then s
      else s\<lparr>sta_Min := hd durations, sta_Max := last durations, sta_P50 := percentileAt durations 50,
             sta_P75 := percentileAt durations 75, sta_P95 := percentileAt durations 95,
             sta_P99 := percentileAt durations 99\<rparr>)"

text \<open>\<open>%.2f\<close> of \<open>d.Seconds()\<close>, a \<open>float64\<close>, is an argument.\<close>

definition FormatDuration :: "(time \<Rightarrow> string) \<Rightarrow> time \<Rightarrow> string" where
  "FormatDuration fmt_2f d = (if Second \<le> d then fmt_2f d @ ''s'' else fmt_int (d sdiv 1000000) @ ''ms'')"

section \<open>The world\<close>

text \<open>
  \<open>be_Wait c d\<close> is the \<open>select\<close> over \<open>time.After(d)\<close> and the end of context \<open>c\<close>: \<open>None\<close> when the timer fired, else
  the error of the context. \<open>be_Do\<close> answers with the status of the response, \<open>be_ReadByte\<close> is the first
  \<open>Read\<close> of its body, and \<open>be_Run\<close> runs a command and answers with its two outputs.
\<close>

record ('c, 'w) bench_env =
  be_Now :: "'w \<Rightarrow> time \<times> 'w"
  be_WithTimeout :: "'c \<Rightarrow> time \<Rightarrow> 'w \<Rightarrow> 'c \<times> 'w"
  be_Err :: "'c \<Rightarrow> 'w \<Rightarrow> gerror option \<times> 'w"
  be_Wait :: "'c \<Rightarrow> time \<Rightarrow> 'w \<Rightarrow> gerror option \<times> 'w"
  be_NewRequest :: "string \<Rightarrow> gerror option"
  be_Do :: "'c \<Rightarrow> time \<Rightarrow> string \<Rightarrow> 'w \<Rightarrow> (gerror + int) \<times> 'w"
  be_ReadByte :: "'w \<Rightarrow> gerror option \<times> 'w"
  be_Run :: "'c \<Rightarrow> string list \<Rightarrow> 'w \<Rightarrow> (string \<times> string \<times> gerror option) \<times> 'w"

type_synonym ('c, 'w) Prober = "'c \<Rightarrow> string \<Rightarrow> ('w, gerror + time) io"
type_synonym ('c, 'w) PodCounter = "'c \<Rightarrow> string \<Rightarrow> string \<Rightarrow> ('w, gerror + nat) io"

section \<open>probe.go\<close>

record HTTPProber =
  hp_timeout :: time
  hp_retryInterval :: time

definition NewHTTPProber :: "time \<Rightarrow> time \<Rightarrow> HTTPProber" where
  "NewHTTPProber timeout retryInterval =
     \<lparr>hp_timeout = timeout, hp_retryInterval = (if retryInterval \<le> 0 then 200 * Millisecond else retryInterval)\<rparr>"

text \<open>
  The loop of \<open>Probe\<close>. Failed requests and 502 and 503 are tried again until the context ends; \<open>since\<close> is
  the elapsed time as the error texts print it.
\<close>

definition elapsed_error :: "('c, 'w) bench_env \<Rightarrow> string \<Rightarrow> time \<Rightarrow> gerror \<Rightarrow> 'w \<Rightarrow> ((gerror + time) \<times> 'w) option" where
  "elapsed_error E what start e w =
     (let (now, w) = be_Now E w in
      Some (Inl (Errorf (what @ Duration_String (Duration_Round (now - start) Millisecond) @ '': '') e), w))"

partial_function (option) probe_loop ::
  "('c, 'w) bench_env \<Rightarrow> HTTPProber \<Rightarrow> 'c \<Rightarrow> string \<Rightarrow> time \<Rightarrow> 'w \<Rightarrow> ((gerror + time) \<times> 'w) option" where
  "probe_loop E p ctx url start w =
     (let (err, w) = be_Err E ctx w in
      if err \<noteq> None then elapsed_error E ''cold-start probe cancelled after '' start (the err) w
      else if be_NewRequest E url \<noteq> None
      then Some (Inl (Errorf (''build request for '' @ url @ '': '') (the (be_NewRequest E url))), w)
      else let (resp, w) = be_Do E ctx (hp_timeout p) url w in
        (case resp of
           Inl e \<Rightarrow>
             (let (err, w) = be_Wait E ctx (hp_retryInterval p) w in
              if err \<noteq> None then elapsed_error E ''cold-start probe timed out after '' start (the err) w
              else probe_loop E p ctx url start w)
         | Inr status \<Rightarrow>
             if status = 502 \<or> status = 503
             then (let (err, w) = be_Wait E ctx (hp_retryInterval p) w in
                   if err \<noteq> None then elapsed_error E ''cold-start probe timed out (502/503 loop) after '' start (the err) w
                   else probe_loop E p ctx url start w)
             else if 500 \<le> status
             then Some (Inl (Text (''server error: status '' @ fmt_int status @ '' from '' @ url)), w)
             else let (err, w) = be_ReadByte E w in
               if err \<noteq> None then Some (Inl (Errorf (''read first byte from '' @ url @ '': '') (the err)), w)
               else let (now, w) = be_Now E w in Some (Inr (now - start), w)))"

definition Probe :: "('c, 'w) bench_env \<Rightarrow> HTTPProber \<Rightarrow> ('c, 'w) Prober" where
  "Probe E p ctx url = io_then (io_call (be_Now E)) (\<lambda>start. probe_loop E p ctx url start)"

section \<open>poller.go\<close>

definition pod_args :: "string \<Rightarrow> string \<Rightarrow> string list" where
  "pod_args service namespace =
     [''kubectl'', ''get'', ''pods'', ''-n'', namespace, ''-l'', ''serving.knative.dev/service='' @ service,
      ''--field-selector=status.phase=Running'', ''--no-headers'', ''-o'', ''name'']"

definition ReadyPods :: "('c, 'w) bench_env \<Rightarrow> ('c, 'w) PodCounter" where
  "ReadyPods E ctx service namespace =
     io_then (io_call (be_Run E ctx (pod_args service namespace)))
       (\<lambda>(out, errOut, err). case err of
         Some e \<Rightarrow> io_ret (Inl (Wrap (''kubectl get pods (service='' @ service @ '', ns='' @ namespace @ ''): '') e
             ('' '' @ em_dash @ '' '' @ TrimSpace errOut)))
       | None \<Rightarrow> io_ret (Inr (length (filter (\<lambda>l. TrimSpace l \<noteq> []) (Split (TrimSpace out) CHR 0x0A)))))"

partial_function (option) WaitForScaleToZero ::
  "('c, 'w) bench_env \<Rightarrow> 'c \<Rightarrow> ('c, 'w) PodCounter \<Rightarrow> string \<Rightarrow> string \<Rightarrow> time \<Rightarrow> 'w \<Rightarrow> (gerror option \<times> 'w) option" where
  "WaitForScaleToZero E ctx counter service namespace pollInterval w =
     (case counter ctx service namespace w of
        None \<Rightarrow> None
      | Some (Inl e, w) \<Rightarrow> Some (Some (Errorf (''poll ready pods for '' @ namespace @ ''/'' @ service @ '': '') e), w)
      | Some (Inr n, w) \<Rightarrow>
          if n = 0 then Some (None, w)
          else let (err, w) = be_Wait E ctx pollInterval w in
            if err \<noteq> None then Some (err, w)
            else WaitForScaleToZero E ctx counter service namespace pollInterval w)"

section \<open>runner.go\<close>

record ('c, 'w) Runner =
  rn_prober :: "('c, 'w) Prober"
  rn_counter :: "('c, 'w) PodCounter"
  rn_cfg :: bench_Config

definition NewRunner :: "('c, 'w) Prober \<Rightarrow> ('c, 'w) PodCounter \<Rightarrow> bench_Config \<Rightarrow> ('c, 'w) Runner" where
  "NewRunner prober counter cfg = \<lparr>rn_prober = prober, rn_counter = counter, rn_cfg = cfg\<rparr>"

text \<open>
  \<open>fmt.Sprintf\<close> with one string argument: \<open>%s\<close>, \<open>%%\<close> and the texts \<open>fmt\<close> writes for a verb it cannot use or
  an argument that is missing or left over. Patterns with flags or widths are not looked at.
\<close>

fun Sprintf_s :: "string \<Rightarrow> string \<Rightarrow> bool \<Rightarrow> string" where
  "Sprintf_s [] arg used = (if used then [] else ''%!(EXTRA string='' @ arg @ '')'')"
| "Sprintf_s [c] arg used =
     (if c = CHR ''%'' then ''%!(NOVERB)'' else [c]) @ (if used then [] else ''%!(EXTRA string='' @ arg @ '')'')"
| "Sprintf_s (c # d # s) arg used =
     (if c \<noteq> CHR ''%'' then c # Sprintf_s (d # s) arg used
      else if d = CHR ''%'' then CHR ''%'' # Sprintf_s s arg used
      else if used then ''%!'' @ [d] @ ''(MISSING)'' @ Sprintf_s s arg used
      else if d = CHR ''s'' then arg @ Sprintf_s s arg True
      else ''%!'' @ [d] @ ''(string='' @ arg @ '')'' @ Sprintf_s s arg True)"

definition serviceURL :: "('c, 'w) Runner \<Rightarrow> string \<Rightarrow> string" where
  "serviceURL r variant = Sprintf_s (bc_BaseURL (rn_cfg r)) variant False"

definition serviceName :: "('c, 'w) Runner \<Rightarrow> string \<Rightarrow> string" where
  "serviceName r variant = ''fn-'' @ variant"

definition RunSample :: "('c, 'w) bench_env \<Rightarrow> ('c, 'w) Runner \<Rightarrow> 'c \<Rightarrow> string \<Rightarrow> ('w, Sample) io" where
  "RunSample E r ctx variant =
     (let cfg = rn_cfg r; failed = (\<lambda>e. io_ret \<lparr>smp_TTFB = 0, smp_Error = Some e\<rparr>) in
      io_then (io_call (be_WithTimeout E ctx (bc_ScaleDownTimeout cfg))) (\<lambda>scaleCtx.
      io_then (WaitForScaleToZero E scaleCtx (rn_counter r) (serviceName r variant) (bc_Namespace cfg) (bc_PollInterval cfg))
        (\<lambda>err. case err of Some e \<Rightarrow> failed (Errorf ''scale-to-zero: '' e) | None \<Rightarrow>
      io_then (io_call (be_WithTimeout E ctx (bc_RequestTimeout cfg))) (\<lambda>probeCtx.
      io_then (rn_prober r probeCtx (serviceURL r variant)) (\<lambda>res. case res of
        Inl e \<Rightarrow> failed (Errorf ''probe: '' e)
      | Inr ttfb \<Rightarrow> io_ret \<lparr>smp_TTFB = ttfb, smp_Error = None\<rparr>)))))"

definition RunVariant :: "('c, 'w) bench_env \<Rightarrow> ('c, 'w) Runner \<Rightarrow> 'c \<Rightarrow> string \<Rightarrow> ('w, Sample list) io" where
  "RunVariant E r ctx variant =
     (if bc_Samples (rn_cfg r) < 0 then io_panic
      else io_map (\<lambda>_. RunSample E r ctx variant) [0 ..< nat (bc_Samples (rn_cfg r))])"

text \<open>The loop over the variants, which stops when the context has ended.\<close>

fun run_variants ::
  "('c, 'w) bench_env \<Rightarrow> ('c, 'w) Runner \<Rightarrow> 'c \<Rightarrow> string list \<Rightarrow> BenchmarkResult \<Rightarrow> ('w, BenchmarkResult) io" where
  "run_variants E r ctx [] result = io_ret result"
| "run_variants E r ctx (v # vs) result =
     io_then (io_call (be_Err E ctx)) (\<lambda>err.
     if err \<noteq> None then io_ret result
     else io_then (RunVariant E r ctx v) (\<lambda>samples.
       run_variants E r ctx vs (result\<lparr>br_Results := AList.update v (ComputeStats v samples) (br_Results result)\<rparr>)))"

definition bench_RunAll :: "('c, 'w) bench_env \<Rightarrow> string \<Rightarrow> ('c, 'w) Runner \<Rightarrow> 'c \<Rightarrow> ('w, BenchmarkResult) io" where
  "bench_RunAll E platform r ctx =
     io_then (io_call (be_Now E)) (\<lambda>now.
     run_variants E r ctx AllVariants
       \<lparr>br_Results = [], br_KnativeVersion = [], br_Platform = platform, br_StartedAt = now\<rparr>)"

section \<open>table.go\<close>

definition warning_sign :: string where "warning_sign = [CHR 0xE2, CHR 0x9A, CHR 0xA0]"

text \<open>The columns of the table, each with a blank on either side, between bars.\<close>

definition box_bar :: string where "box_bar = [CHR 0xE2, CHR 0x95, CHR 0x91]"

definition table_row :: "string list \<Rightarrow> string" where
  "table_row cells = box_bar @ concat (map (\<lambda>c. '' '' @ c @ '' '' @ box_bar) cells) @ NL"

definition pad_left :: "nat \<Rightarrow> string \<Rightarrow> string" where
  "pad_left n s = replicate (n - rune_count s) CHR '' '' @ s"

text \<open>A border of the table: the widths of the columns, and the corners and crossings at its ends.\<close>

definition table_border :: "nat \<Rightarrow> nat \<Rightarrow> nat \<Rightarrow> string" where
  "table_border left mid right =
     (let ch = (\<lambda>k. [CHR 0xE2, CHR 0x95, char_of k]) in
      ch left @ Join (map (\<lambda>n. concat (replicate n (ch 0x90))) [14, 10, 10, 9, 9, 9, 9, 8]) (ch mid) @ ch right @ NL)"

definition printStatsTable :: "(time \<Rightarrow> string) \<Rightarrow> BenchmarkResult \<Rightarrow> string" where
  "printStatsTable fmt_2f result =
     concat (map (\<lambda>v. table_row (pad_right 12 v #
       (case map_of (br_Results result) v of
          None \<Rightarrow> [pad_left 8 ''-'', pad_left 8 ''-'', pad_left 7 ''-'', pad_left 7 ''-'', pad_left 7 ''-'', pad_left 7 ''-'', pad_left 6 ''-'']
        | Some s \<Rightarrow>
            [pad_left 8 (sta_ImageSize s), pad_left 8 (FormatDuration fmt_2f (sta_P50 s)),
             pad_left 7 (FormatDuration fmt_2f (sta_P75 s)), pad_left 7 (FormatDuration fmt_2f (sta_P95 s)),
             pad_left 7 (FormatDuration fmt_2f (sta_P99 s)), pad_left 7 (FormatDuration fmt_2f (sta_Min s)),
             pad_left 6 (FormatDuration fmt_2f (sta_Max s))]))) AllVariants) @
     table_border 0x9A 0xA9 0x9D @ NL"

definition printThresholdAnalysis :: "(time \<Rightarrow> string) \<Rightarrow> BenchmarkResult \<Rightarrow> string" where
  "printThresholdAnalysis fmt_2f result =
     box_line 3 @ '' Threshold Analysis (p95) '' @ box_line 56 @ NL @
     concat (map (\<lambda>v. case map_of (br_Results result) v of
         None \<Rightarrow> ''  ? '' @ pad_right 10 v @ '': not measured'' @ NL
       | Some s \<Rightarrow>
           (let threshold = Stats_Threshold s;
                (symbol, note) =
                  (if \<not> PassesThreshold s
                   then (ballot_x, ''EXCEEDS '' @ FormatDuration fmt_2f threshold @ '' threshold. min-replicas=1 REQUIRED.'')
                   else if 0 < threshold \<and> threshold * 8 sdiv 10 < sta_P95 s
                   then (warning_sign, ''within '' @ FormatDuration fmt_2f threshold @
                     '' threshold but close. Recommend min-replicas=1 for AI functions.'')
                   else (check_mark, ''below '' @ FormatDuration fmt_2f threshold @ '' threshold. Scale-to-zero is safe.'')) in
            ''  '' @ symbol @ '' '' @ pad_right 10 v @ '': p95 '' @ pad_right 8 (FormatDuration fmt_2f (sta_P95 s)) @ '' '' @
            em_dash @ '' '' @ note @ NL)) AllVariants) @ NL"

definition printRecommendation :: "BenchmarkResult \<Rightarrow> string" where
  "printRecommendation result =
     box_line 3 @ '' Recommendation '' @ box_line 66 @ NL @
     ''  CF-FunctionTrigger default  minScale=0  maxScale=10'' @ NL @
     concat (map (\<lambda>v. case map_of (br_Results result) v of
         None \<Rightarrow> []
       | Some s \<Rightarrow>
           (let threshold = Stats_Threshold s in
            if \<not> PassesThreshold s
            then ''  Override for '' @ pad_right 10 v @ ''    minScale=1  (enforced by admission webhook)'' @ NL
            else if 0 < threshold \<and> threshold * 8 sdiv 10 < sta_P95 s
            then ''  Override for '' @ pad_right 10 v @ ''    minScale=1  (strongly recommended for AI functions)'' @ NL
            else [])) AllVariants) @ NL @
     (if bench_AllPassed result then ''  '' @ check_mark @ '' All variants pass their p95 thresholds.'' @ NL
      else ''  '' @ warning_sign @ '' One or more variants exceed their p95 threshold '' @ em_dash @ '' see analysis above.'' @ NL) @ NL"

section \<open>cmd/measure\<close>

fun parse_variants :: "string list \<Rightarrow> gerror + string list" where
  "parse_variants [] = Inr []"
| "parse_variants (part # parts) =
     (let v = TrimSpace part in
      if v \<notin> set AllVariants
      then Inl (Text (''unknown variant '' @ Quote v @ '' '' @ em_dash @ '' valid values: minimal, medium, heavy, all''))
      else case parse_variants parts of Inl e \<Rightarrow> Inl e | Inr vs \<Rightarrow> Inr (v # vs))"

definition parseServiceFlag :: "string \<Rightarrow> gerror + string list" where
  "parseServiceFlag s0 =
     (let s = TrimSpace (ToLower s0) in
      if s = ''all'' then Inr AllVariants
      else case parse_variants (Split s CHR '','') of
        Inl e \<Rightarrow> Inl e
      | Inr vs \<Rightarrow> if vs = [] then Inl (Text ''--service must not be empty'') else Inr vs)"

record measure_flags =
  mf_service :: string
  mf_samples :: int
  mf_namespace :: string
  mf_baseURL :: string
  mf_knativeVersion :: string

definition measure_Config :: "measure_flags \<Rightarrow> bench_Config" where
  "measure_Config fl = bench_DefaultConfig
     \<lparr>bc_Namespace := mf_namespace fl, bc_Samples := mf_samples fl,
      bc_BaseURL := (if mf_baseURL fl \<noteq> [] then mf_baseURL fl
                     else ''http://fn-%s.'' @ mf_namespace fl @ ''.127.0.0.1.sslip.io:9080'')\<rparr>"

text \<open>
  \<open>main\<close> from its flags to its exit code and the result it prints; \<open>None\<close> where it exits before the benchmark.
\<close>

definition measure_main ::
  "('c, 'w) bench_env \<Rightarrow> string \<Rightarrow> 'c \<Rightarrow> measure_flags \<Rightarrow> ('w, int \<times> BenchmarkResult option) io" where
  "measure_main E platform ctx fl =
     (if mf_samples fl < 1 then io_ret (1, None)
      else case parseServiceFlag (mf_service fl) of
        Inl e \<Rightarrow> io_ret (1, None)
      | Inr vs \<Rightarrow>
          (let cfg = measure_Config fl;
               runner = NewRunner (Probe E (NewHTTPProber (bc_RequestTimeout cfg) 0)) (ReadyPods E) cfg in
           io_then (if length vs = length AllVariants then bench_RunAll E platform runner ctx
                    else io_then (io_call (be_Now E)) (\<lambda>now.
                      run_variants E runner ctx vs
                        \<lparr>br_Results = [], br_KnativeVersion = [], br_Platform = platform, br_StartedAt = now\<rparr>))
             (\<lambda>result. let result = result\<lparr>br_KnativeVersion := mf_knativeVersion fl\<rparr> in
              io_ret (if bench_AllPassed result then 0 else 1, Some result))))"

end
