(* ===== verification/KnativeFacts.thy ===== *)
theory KnativeFacts
  imports KnativeBench ProbeFacts
begin

text \<open>
  What holds of the cold-start benchmark: the percentiles as counts of the samples, the verdict of a variant,
  that every run returns with all its samples under the laws of a clock, and the exit code.
\<close>

section \<open>Statistics\<close>

lemma percentileAt_le_iff:
  assumes "ds \<noteq> []" "0 < p" "p \<le> 100"
  shows "percentileAt (sort ds) p \<le> t \<longleftrightarrow> p * length ds \<le> 100 * length (filter (\<lambda>d. d \<le> t) ds)"
proof -
  let ?n = "length ds"
  have n: "0 < ?n" using assms(1) by simp
  have "p * ?n \<le> 100 * ?n" "0 < p * ?n" using assms n by simp_all
  then have i: "(p * ?n + 99) div 100 - 1 < ?n" and one: "1 \<le> (p * ?n + 99) div 100" by linarith+
  have "percentileAt (sort ds) p = sort ds ! ((p * ?n + 99) div 100 - 1)"
    using i assms(1) by (simp add: percentileAt_def Let_def) (metis length_0_conv length_sort)
  then have "percentileAt (sort ds) p \<le> t \<longleftrightarrow> (p * ?n + 99) div 100 - 1 < length (filter (\<lambda>d. d \<le> t) ds)"
    using sort_nth_le_iff [OF i] by simp
  also have "\<dots> \<longleftrightarrow> p * ?n \<le> 100 * length (filter (\<lambda>d. d \<le> t) ds)" using one by linarith
  finally show ?thesis .
qed

lemma percentileAt_mono:
  assumes "ds \<noteq> []" "0 < p" "p \<le> q" "q \<le> 100"
  shows "percentileAt (sort ds) p \<le> percentileAt (sort ds) q"
proof -
  have "q * length ds \<le> 100 * length (filter (\<lambda>d. d \<le> percentileAt (sort ds) q) ds)"
    using percentileAt_le_iff [of ds q "percentileAt (sort ds) q"] assms by simp
  moreover have "p * length ds \<le> q * length ds" using assms by simp
  ultimately have "p * length ds \<le> 100 * length (filter (\<lambda>d. d \<le> percentileAt (sort ds) q) ds)" by (rule order_trans [rotated])
  then show ?thesis using percentileAt_le_iff [of ds p] assms by simp
qed

definition ok_times :: "Sample list \<Rightarrow> time list" where
  "ok_times samples = map smp_TTFB (filter (\<lambda>s. smp_Error s = None) samples)"

lemma sort_Nil_iff [simp]: "sort xs = [] \<longleftrightarrow> xs = ([] :: 'a :: linorder list)"
  by (metis length_0_conv length_sort)

lemma ComputeStats_fields:
  "sta_Variant (ComputeStats v samples) = v" "sta_SampleCount (ComputeStats v samples) = length samples"
  "sta_FailCount (ComputeStats v samples) = length (filter (\<lambda>s. smp_Error s \<noteq> None) samples)"
  by (simp_all add: ComputeStats_def Let_def)

lemma FailCount_ok_times: "sta_FailCount (ComputeStats v samples) + length (ok_times samples) = length samples"
  using sum_length_filter_compl [of "\<lambda>s. smp_Error s = None" samples]
  by (simp add: ComputeStats_fields ok_times_def)

lemma ComputeStats_percentiles:
  assumes "ok_times samples \<noteq> []"
  shows "sta_P50 (ComputeStats v samples) = percentileAt (sort (ok_times samples)) 50"
    and "sta_P75 (ComputeStats v samples) = percentileAt (sort (ok_times samples)) 75"
    and "sta_P95 (ComputeStats v samples) = percentileAt (sort (ok_times samples)) 95"
    and "sta_P99 (ComputeStats v samples) = percentileAt (sort (ok_times samples)) 99"
  using assms unfolding ComputeStats_def Let_def ok_times_def [symmetric] by simp_all

text \<open>
  A variant passes exactly when a sample succeeded and, of the successful ones, at least 95 in 100 are
  within the threshold of the variant, where it has one.
\<close>

theorem PassesThreshold_ComputeStats:
  "PassesThreshold (ComputeStats v samples) \<longleftrightarrow>
     ok_times samples \<noteq> [] \<and>
     (case p95Thresholds v of None \<Rightarrow> True
      | Some t \<Rightarrow> 95 * length (ok_times samples) \<le> 100 * length (filter (\<lambda>d. d \<le> t) (ok_times samples)))"
proof (cases "ok_times samples = []")
  case True
  then have "sta_SampleCount (ComputeStats v samples) = sta_FailCount (ComputeStats v samples)"
    using FailCount_ok_times [of v samples] by (simp add: ComputeStats_fields(2))
  then show ?thesis using True by (simp add: PassesThreshold_def)
next
  case False
  have "samples \<noteq> []" using False by (auto simp: ok_times_def)
  moreover have "sta_FailCount (ComputeStats v samples) \<noteq> length samples"
    using FailCount_ok_times [of v samples] False by auto
  ultimately show ?thesis
    using ComputeStats_percentiles(3) [OF False, of v] False percentileAt_le_iff [OF False, of 95]
    by (simp add: PassesThreshold_def ComputeStats_fields(1,2) split: option.splits)
qed

theorem ComputeStats_ordered:
  assumes "ok_times samples \<noteq> []"
  shows "sta_P50 (ComputeStats v samples) \<le> sta_P75 (ComputeStats v samples) \<and>
         sta_P75 (ComputeStats v samples) \<le> sta_P95 (ComputeStats v samples) \<and>
         sta_P95 (ComputeStats v samples) \<le> sta_P99 (ComputeStats v samples)"
  using percentileAt_mono [OF assms] by (simp add: ComputeStats_percentiles [OF assms])

section \<open>Every run returns\<close>

text \<open>
  What contexts and timers promise: a clock that no call turns back, and under a context with a deadline a
  timer of \<open>d\<close> fires only when the deadline had not passed at its start, and then \<open>d\<close> has passed.
\<close>

definition bench_clock :: "('c, 'w) bench_env \<Rightarrow> ('w \<Rightarrow> int) \<Rightarrow> bool" where
  "bench_clock E clk \<longleftrightarrow>
     (\<forall>w. clk w \<le> clk (snd (be_Now E w))) \<and>
     (\<forall>c w. clk w \<le> clk (snd (be_Err E c w))) \<and>
     (\<forall>c d w. clk w \<le> clk (snd (be_Wait E c d w))) \<and>
     (\<forall>c t u w. clk w \<le> clk (snd (be_Do E c t u w))) \<and>
     (\<forall>w. clk w \<le> clk (snd (be_ReadByte E w))) \<and>
     (\<forall>c args w. clk w \<le> clk (snd (be_Run E c args w)))"

definition has_deadline :: "('c, 'w) bench_env \<Rightarrow> ('w \<Rightarrow> int) \<Rightarrow> 'c \<Rightarrow> int \<Rightarrow> bool" where
  "has_deadline E clk c dl \<longleftrightarrow>
     (\<forall>d w w'. be_Wait E c d w = (None, w') \<longrightarrow> clk w < dl \<and> clk w + d \<le> clk w')"

definition bench_timeouts :: "('c, 'w) bench_env \<Rightarrow> ('w \<Rightarrow> int) \<Rightarrow> bool" where
  "bench_timeouts E clk \<longleftrightarrow> (\<forall>c d w. \<exists>dl. has_deadline E clk (fst (be_WithTimeout E c d w)) dl)"

lemma deadline_progress:
  assumes "has_deadline E clk c dl" "0 < d" "be_Wait E c d w = (None, w')" "clk w0 \<le> clk w"
  shows "nat (dl - clk w') < nat (dl - clk w0)"
proof -
  have "clk w < dl" "clk w + d \<le> clk w'" using assms(1,3) unfolding has_deadline_def by blast+
  then show ?thesis using assms(2,4) by linarith
qed

theorem Probe_returns:
  assumes "bench_clock E clk" "has_deadline E clk c dl" "0 < hp_retryInterval p"
  shows "io_ends (Probe E p c url)"
proof -
  have "\<exists>r. probe_loop E p c url start w = Some r" for start w
  proof (induction "nat (dl - clk w)" arbitrary: w rule: less_induct)
    case less
    obtain err w1 where e: "be_Err E c w = (err, w1)" by (metis prod.exhaust)
    obtain resp w2 where r: "be_Do E c (hp_timeout p) url w1 = (resp, w2)" by (metis prod.exhaust)
    obtain err3 w3 where t: "be_Wait E c (hp_retryInterval p) w2 = (err3, w3)" by (metis prod.exhaust)
    have "clk w \<le> clk w1" "clk w1 \<le> clk w2"
      using assms(1) e r unfolding bench_clock_def by (metis snd_conv)+
    then have "clk w \<le> clk w2" by linarith
    then have IH: "\<exists>r. probe_loop E p c url start w3 = Some r" if "err3 = None"
      using less deadline_progress [OF assms(2,3), of w2 w3 w] t that by simp
    show ?case
      by (subst probe_loop.simps)
        (cases resp, use IH in \<open>auto simp: e r t elapsed_error_def Let_def split: prod.splits\<close>)
  qed
  then show ?thesis
    unfolding Probe_def by (intro io_gives_after [OF io_ends_call]) (simp add: io_gives_def)
qed

theorem WaitForScaleToZero_returns:
  assumes "bench_clock E clk" "has_deadline E clk c dl" "0 < interval"
    and "\<And>w. \<exists>n w'. counter c svc ns w = Some (n, w') \<and> clk w \<le> clk w'"
  shows "io_ends (WaitForScaleToZero E c counter svc ns interval)"
proof -
  have "\<exists>r. WaitForScaleToZero E c counter svc ns interval w = Some r" for w
  proof (induction "nat (dl - clk w)" arbitrary: w rule: less_induct)
    case less
    obtain n w1 where c: "counter c svc ns w = Some (n, w1)" and le: "clk w \<le> clk w1" using assms(4) by blast
    obtain err w2 where t: "be_Wait E c interval w1 = (err, w2)" by (metis prod.exhaust)
    have IH: "\<exists>r. WaitForScaleToZero E c counter svc ns interval w2 = Some r" if "err = None"
      using less deadline_progress [OF assms(2,3), of w1 w2 w] t le that by simp
    show ?case
      by (subst WaitForScaleToZero.simps) (cases n, use IH in \<open>auto simp: c t\<close>)
  qed
  then show ?thesis by (simp add: io_gives_def)
qed

lemma ReadyPods_returns:
  assumes "bench_clock E clk"
  shows "\<exists>n w'. ReadyPods E c svc ns w = Some (n, w') \<and> clk w \<le> clk w'"
proof -
  obtain out errOut err w1 where r: "be_Run E c (pod_args svc ns) w
       = ((out, errOut, err), w1)" by (metis prod.exhaust)
  have "clk w \<le> clk w1" using assms r unfolding bench_clock_def by (metis snd_conv)
  then show ?thesis by (cases err) (simp_all add: ReadyPods_def io_eval r)
qed

text \<open>The runner \<open>main\<close> builds.\<close>

definition main_runner :: "('c, 'w) bench_env \<Rightarrow> bench_Config \<Rightarrow> ('c, 'w) Runner" where
  "main_runner E cfg = NewRunner (Probe E (NewHTTPProber (bc_RequestTimeout cfg) 0)) (ReadyPods E) cfg"

lemma RunSample_returns:
  assumes "bench_clock E clk" "bench_timeouts E clk" "0 < bc_PollInterval cfg"
  shows "io_gives (\<lambda>s. smp_Error s \<noteq> None \<longrightarrow> smp_TTFB s = 0) (RunSample E (main_runner E cfg) c v)"
proof -
  have timed: "io_gives (\<lambda>c'. \<exists>dl. has_deadline E clk c' dl) (io_call (be_WithTimeout E c d))" for d
    by (rule io_gives_call) (use assms(2) in \<open>simp add: bench_timeouts_def\<close>)
  have scale: "io_ends (WaitForScaleToZero E c' (ReadyPods E) svc ns (bc_PollInterval cfg))" if "\<exists>dl. has_deadline E clk c' dl" for c' svc ns
    using that WaitForScaleToZero_returns [OF assms(1) _ assms(3)] ReadyPods_returns [OF assms(1)] by blast
  have probe: "io_ends (Probe E (NewHTTPProber t 0) c' url)" if "\<exists>dl. has_deadline E clk c' dl" for c' t url
    using that Probe_returns [OF assms(1)] by (auto simp: NewHTTPProber_def Millisecond_def)
  show ?thesis
    unfolding RunSample_def main_runner_def NewRunner_def Let_def Runner.simps
    by (rule io_gives_then [OF timed], rule io_gives_after [OF scale], assumption, rule io_gives_option,
        rule io_gives_then [OF timed], rule io_gives_after [OF probe], assumption, rule io_gives_sum)
      (rule io_gives_ret, simp)+
qed

theorem RunVariant_returns:
  assumes "bench_clock E clk" "bench_timeouts E clk" "0 < bc_PollInterval cfg" "0 \<le> bc_Samples cfg"
  shows "io_gives (\<lambda>ss. int (length ss) = bc_Samples cfg \<and> (\<forall>s\<in>set ss. smp_Error s \<noteq> None \<longrightarrow> smp_TTFB s = 0))
           (RunVariant E (main_runner E cfg) c v)"
proof -
  have "io_gives (\<lambda>ss. list_all2 (\<lambda>_ s. smp_Error s \<noteq> None \<longrightarrow> smp_TTFB s = 0) [0 ..< nat (bc_Samples cfg)] ss)
          (io_map (\<lambda>_. RunSample E (main_runner E cfg) c v) [0 ..< nat (bc_Samples cfg)])"
    by (rule io_gives_map) (rule RunSample_returns [OF assms(1-3)])
  then have "io_gives (\<lambda>ss. int (length ss) = bc_Samples cfg \<and> (\<forall>s\<in>set ss. smp_Error s \<noteq> None \<longrightarrow> smp_TTFB s = 0))
          (io_map (\<lambda>_. RunSample E (main_runner E cfg) c v) [0 ..< nat (bc_Samples cfg)])"
    by (rule io_gives_mono) (use assms(4) in \<open>auto simp: list_all2_conv_all_nth in_set_conv_nth\<close>)
  moreover have "rn_cfg (main_runner E cfg) = cfg" by (simp add: main_runner_def NewRunner_def)
  ultimately show ?thesis using assms(4) by (simp add: RunVariant_def)
qed

text \<open>The laws hold of a world that is a clock, with contexts that are their deadlines.\<close>

definition clock_bench :: "(int, int) bench_env" where
  "clock_bench =
     \<lparr>be_Now = \<lambda>w. (w, w), be_WithTimeout = \<lambda>c d w. (w + d, w),
      be_Err = \<lambda>c w. (if c \<le> w then Some (Text ''context deadline exceeded'') else None, w),
      be_Wait = \<lambda>c d w. (if c \<le> w then (Some (Text ''context deadline exceeded''), w) else (None, w + max 0 d)),
      be_NewRequest = \<lambda>url. None, be_Do = \<lambda>c t url w. (Inr 503, w + 1), be_ReadByte = \<lambda>w. (None, w),
      be_Run = \<lambda>c args w. (([], [], None), w + 1)\<rparr>"

lemma clock_bench_laws: "bench_clock clock_bench id" "bench_timeouts clock_bench id"
proof -
  have "has_deadline clock_bench id c c" for c
    by (auto simp: has_deadline_def clock_bench_def split: if_splits)
  then show "bench_timeouts clock_bench id" unfolding bench_timeouts_def by blast
qed (simp add: bench_clock_def clock_bench_def)

lemma RunVariant_returns_witness:
  "io_gives (\<lambda>ss. int (length ss) = 10 \<and> (\<forall>s\<in>set ss. smp_Error s \<noteq> None \<longrightarrow> smp_TTFB s = 0))
     (RunVariant clock_bench (main_runner clock_bench bench_DefaultConfig) 0 VariantHeavy)"
  using RunVariant_returns [OF clock_bench_laws, of bench_DefaultConfig 0 VariantHeavy]
  by (simp add: bench_DefaultConfig_def Second_def)

section \<open>What a probe counts as an answer\<close>

text \<open>
  Every status below 500 ends the probe with a time, those from 300 to 499 included, if its body has a
  first byte.
\<close>

theorem Probe_below_500:
  assumes "be_Err E c w1 = (None, w2)" "be_NewRequest E url = None" "be_Do E c (hp_timeout p) url w2 = (Inr status, w3)"
    and "status < 500" "be_ReadByte E w3 = (None, w4)" "be_Now E w = (start, w1)" "be_Now E w4 = (now, w5)"
  shows "Probe E p c url w = Some (Inr (now - start), w5)"
  by (simp add: Probe_def io_eval assms(6), subst probe_loop.simps) (use assms in \<open>simp add: Let_def\<close>)

theorem Probe_server_error:
  assumes "be_Err E c w1 = (None, w2)" "be_NewRequest E url = None" "be_Do E c (hp_timeout p) url w2 = (Inr status, w3)"
    and "500 \<le> status" "status \<noteq> 502" "status \<noteq> 503" "be_Now E w = (start, w1)"
  shows "Probe E p c url w = Some (Inl (Text (''server error: status '' @ fmt_int status @ '' from '' @ url)), w3)"
  by (simp add: Probe_def io_eval assms(7), subst probe_loop.simps) (use assms in \<open>simp add: Let_def\<close>)

section \<open>The command\<close>

text \<open>The results are those of the variants that ran, in the order asked for.\<close>

lemma run_variants_results:
  "run_variants E r c vs res w = Some (res', w') \<Longrightarrow>
   \<exists>n. fst ` set (br_Results res') = fst ` set (br_Results res) \<union> set (take n vs)"
proof (induction vs arbitrary: res w)
  case Nil
  then show ?case by (auto simp: io_eval)
next
  case (Cons v vs)
  obtain err w1 where e: "be_Err E c w = (err, w1)" by (metis prod.exhaust)
  show ?case
  proof (cases "err = None")
    case False
    then have "res' = res" using Cons.prems by (simp add: io_eval e)
    then show ?thesis by (intro exI [of _ 0]) simp
  next
    case True
    then obtain ss w2 where
      run: "run_variants E r c vs (res\<lparr>br_Results := AList.update v (ComputeStats v ss) (br_Results res)\<rparr>) w2 = Some (res', w')"
      using Cons.prems by (auto simp: io_eval e split: option.splits)
    obtain n where "fst ` set (br_Results res') =
        fst ` set (AList.update v (ComputeStats v ss) (br_Results res)) \<union> set (take n vs)"
      using Cons.IH [OF run] by auto
    moreover have "fst ` set (AList.update v (ComputeStats v ss) (br_Results res)) = insert v (fst ` set (br_Results res))"
      using dom_update [of v "ComputeStats v ss" "br_Results res"] by simp
    ultimately show ?thesis by (intro exI [of _ "Suc n"]) auto
  qed
qed

text \<open>
  Exit code 0 means a valid command line, a result that is not empty and a pass of every variant in it; a
  run cut short is judged by the variants it measured.
\<close>

theorem measure_main_exit:
  assumes "measure_main E platform c fl w = Some ((code, r), w')"
  shows "code = 0 \<longleftrightarrow> (\<exists>res. r = Some res \<and> bench_AllPassed res)"
  using assms
  by (auto simp: measure_main_def io_eval Let_def bench_AllPassed_def split: if_splits sum.splits option.splits)

theorem cancelled_before_first_variant:
  assumes "fst (be_Err E c (snd (be_Now E w))) \<noteq> None"
  shows "\<exists>r w'. measure_main E platform c fl w = Some ((1, r), w')"
proof -
  obtain now w1 where n: "be_Now E w = (now, w1)" by (metis prod.exhaust)
  obtain err w2 where e: "be_Err E c w1 = (err, w2)" by (metis prod.exhaust)
  have stop: "run_variants E r c vs res w1 = Some (res, if vs = [] then w1 else w2)" for r vs res
    using assms by (cases vs) (simp_all add: io_eval n e)
  show ?thesis
    by (auto simp: measure_main_def bench_RunAll_def io_eval n stop Let_def bench_AllPassed_def split: sum.splits)
qed

text \<open>Three names, whichever they are, select the run of all variants.\<close>

lemma thrice_the_same: "parseServiceFlag ''minimal,minimal,minimal'' = Inr [VariantMinimal, VariantMinimal, VariantMinimal]"
  by (simp add: parseServiceFlag_def variants Let_def ToLower_def lower_char_def TrimSpace_def is_space_def)

theorem three_names_run_all:
  assumes "parseServiceFlag (mf_service fl) = Inr vs" "length vs = 3" "1 \<le> mf_samples fl"
  shows "measure_main E platform c fl =
    io_then (bench_RunAll E platform (main_runner E (measure_Config fl)) c)
      (\<lambda>result. let result = result\<lparr>br_KnativeVersion := mf_knativeVersion fl\<rparr> in
        io_ret (if bench_AllPassed result then 0 else 1, Some result))"
  using assms by (simp add: measure_main_def main_runner_def Let_def AllVariants_def)

end
