(* ===== verification/ScyllaBench.thy ===== *)
theory ScyllaBench
  imports KnativeBench JobStore ApiKey
begin

text \<open>
  The spike \<open>spikes/scylladb-accounts\<close>: the race of conditional statements as programs of a pool, the
  readers as a step relation over the channel of jobs, the statistics, the schema and seed steps, and
  the command. The columns \<open>service_type\<close> and \<open>instance_id\<close>, which only the table of the spike has, are left out.
\<close>

section \<open>types.go\<close>

record scylla_Config =
  sc_Hosts :: "string list"
  sc_Port :: int
  sc_Keyspace :: string
  sc_Username :: string
  sc_Password :: string
  sc_SeedRows :: int
  sc_Ops :: int
  sc_Concurrency :: int
  sc_LWTWriters :: int
  sc_ConnectTimeout :: time
  sc_QueryTimeout :: time

definition scylla_DefaultConfig :: scylla_Config where
  "scylla_DefaultConfig =
     \<lparr>sc_Hosts = [''127.0.0.1''], sc_Port = 9042, sc_Keyspace = ''cf'', sc_Username = ''cassandra'',
      sc_Password = ''cassandra'', sc_SeedRows = 1000, sc_Ops = 2000, sc_Concurrency = 50, sc_LWTWriters = 20,
      sc_ConnectTimeout = 10 * Second, sc_QueryTimeout = 5 * Second\<rparr>"

definition BenchAPIKeyQuorum :: string where "BenchAPIKeyQuorum = ''api_key_lookup (QUORUM)''"
definition BenchAPIKeyOne :: string where "BenchAPIKeyOne = ''api_key_lookup (ONE)''"
definition BenchLWTClaim :: string where "BenchLWTClaim = ''lwt_job_claim''"
definition BenchLWTTransition :: string where "BenchLWTTransition = ''lwt_state_transition''"
definition BenchMVSlug :: string where "BenchMVSlug = ''mv_tenant_by_slug (QUORUM)''"
definition BenchMVEmail :: string where "BenchMVEmail = ''mv_user_by_email (QUORUM)''"

record bench_Result =
  bres_Name :: string
  bres_Ops :: nat
  bres_P50 :: time
  bres_P95 :: time
  bres_P99 :: time
  bres_Min :: time
  bres_Max :: time
  bres_TotalDuration :: time
  bres_Errors :: int

record LWTResult = bench_Result +
  lwt_Winners :: int
  lwt_Losers :: int

definition LWT_Correct :: "LWTResult \<Rightarrow> bool" where
  "LWT_Correct l \<longleftrightarrow> lwt_Winners l = 1"

section \<open>stats.go\<close>

text \<open>\<open>Percentile\<close> sorts its argument in place; the \<open>float64\<close> rank is exact for the percentiles in use.\<close>

definition Percentile :: "time list \<Rightarrow> nat \<Rightarrow> time" where
  "Percentile ds p =
     (if ds = [] then 0
      else let ds = sort ds;
               rank = (p * length ds + 99) div 100;
               rank = (if rank < 1 then 1 else rank);
               rank = (if length ds < rank then length ds else rank) in
        ds ! (rank - 1))"

definition MinDuration :: "time list \<Rightarrow> time" where
  "MinDuration ds = (case ds of [] \<Rightarrow> 0 | d # ds \<Rightarrow> foldl (\<lambda>m s. if s < m then s else m) d ds)"

definition MaxDuration :: "time list \<Rightarrow> time" where
  "MaxDuration ds = (case ds of [] \<Rightarrow> 0 | d # ds \<Rightarrow> foldl (\<lambda>m s. if m < s then s else m) d ds)"

definition BuildResult :: "string \<Rightarrow> time list \<Rightarrow> int \<Rightarrow> time \<Rightarrow> bench_Result" where
  "BuildResult name samples errs dur =
     (let samples = sort samples in
      \<lparr>bres_Name = name, bres_Ops = length samples, bres_P50 = Percentile samples 50,
       bres_P95 = Percentile samples 95, bres_P99 = Percentile samples 99, bres_Min = MinDuration samples,
       bres_Max = MaxDuration samples, bres_TotalDuration = dur, bres_Errors = errs\<rparr>)"

section \<open>lwt.go\<close>

text \<open>
  One goroutine of a race: it takes the time, builds its statement, runs it and takes the time again. The
  counters are \<open>int32\<close>. \<open>gocql.TimeUUID\<close>, which does not fail, gives the ids.
\<close>

definition int32 :: "int \<Rightarrow> int" where
  "int32 x = sint (word_of_int x :: 32 word)"

definition lwt_writer :: "cas_stmt prog \<Rightarrow> (time \<times> (gerror + bool)) prog" where
  "lwt_writer stmt =
     Now (\<lambda>t0. bind stmt (\<lambda>c. Cas c (\<lambda>r. Now (\<lambda>t1.
       Ret (t1 - t0, case r of Inl e \<Rightarrow> Inl e | Inr (applied, dest) \<Rightarrow> Inr applied)))))"

definition claim_writer :: "uuid \<Rightarrow> string \<Rightarrow> uuid \<Rightarrow> (time \<times> (gerror + bool)) prog" where
  "claim_writer tenantID idemKey jobID = lwt_writer (Ret (InsertIdem tenantID idemKey jobID))"

definition transition_writer :: "uuid \<Rightarrow> uuid \<Rightarrow> (time \<times> (gerror + bool)) prog" where
  "transition_writer tenantID jobID =
     lwt_writer (Now (\<lambda>now. Ret (ClaimJob tenantID jobID ''PROVISIONING'' (cql_timestamp now) ''QUEUED'')))"

text \<open>What the functions make of the outcomes of their writers. \<open>make\<close> panics for a negative capacity.\<close>

definition lwt_tally :: "string \<Rightarrow> (time \<times> (gerror + bool)) list \<Rightarrow> time \<Rightarrow> LWTResult" where
  "lwt_tally name outs dur =
     bench_Result.extend
       (BuildResult name (map fst (filter (\<lambda>(d, r). \<not> isl r) outs)) (int32 (int (length (filter (\<lambda>(d, r). isl r) outs)))) dur)
       (LWTResult.fields (int32 (int (length (filter (\<lambda>(d, r). r = Inr True) outs))))
         (int32 (int (length (filter (\<lambda>(d, r). r = Inr False) outs)))))"

definition claim_pool :: "scylla_Config \<Rightarrow> uuid \<Rightarrow> string \<Rightarrow> (nat \<Rightarrow> uuid) \<Rightarrow> (time \<times> (gerror + bool)) prog list option" where
  "claim_pool cfg tenantID idemKey jobIDs =
     (if sc_LWTWriters cfg < 0 then None
      else Some (map (\<lambda>i. claim_writer tenantID idemKey (jobIDs i)) [0 ..< nat (sc_LWTWriters cfg)]))"

definition transition_pool :: "scylla_Config \<Rightarrow> uuid \<Rightarrow> uuid \<Rightarrow> (time \<times> (gerror + bool)) prog list option" where
  "transition_pool cfg tenantID jobID =
     (if sc_LWTWriters cfg < 0 then None
      else Some (replicate (nat (sc_LWTWriters cfg)) (transition_writer tenantID jobID)))"

definition transition_row :: job_row where
  "transition_row =
     \<lparr>jcol_idempotency_key = Some ''spike-transition'', jcol_operation = Some ''PROVISION'', jcol_status = Some ''QUEUED'',
      jcol_error_message = None, jcol_result = None, jcol_started_at = Some (cql_timestamp zero_time),
      jcol_completed_at = Some (cql_timestamp zero_time)\<rparr>"

definition transition_seed :: "uuid \<Rightarrow> uuid \<Rightarrow> gerror option prog" where
  "transition_seed tenantID jobID =
     check (Exec (InsertJob tenantID jobID transition_row) Ret)
       (\<lambda>e. Ret (Some (Errorf ''insert seed job: '' e))) (Ret None)"

text \<open>The rows the seed steps return.\<close>

record TenantRow =
  trow_ID :: uuid
  trow_Slug :: string

record UserRow =
  urow_Email :: string
  urow_TenantID :: uuid

section \<open>apikey.go and mv.go\<close>

text \<open>
  The lookups of the three read benchmarks are one program: the channel \<open>jobs\<close> is filled and closed, then
  the workers range over it. A worker waits at the channel, reads, or has left its loop. \<open>replies\<close> are
  the answers a read of a key may get, with its time.
\<close>

definition fill_jobs :: "int \<Rightarrow> 'j list \<Rightarrow> 'j list option" where
  "fill_jobs ops keys =
     (if ops < 0 \<or> (0 < ops \<and> keys = []) then None
      else Some (map (\<lambda>i. keys ! (i mod length keys)) [0 ..< nat ops]))"

datatype 'j worker = Waiting | Reading 'j | LeftLoop

record 'j lookup_state =
  lk_jobs :: "'j list"
  lk_workers :: "'j worker list"
  lk_samples :: "time list"
  lk_errCount :: nat

definition lookup_start :: "scylla_Config \<Rightarrow> 'j list \<Rightarrow> 'j lookup_state option" where
  "lookup_start cfg keys = map_option (\<lambda>jobs.
     \<lparr>lk_jobs = jobs, lk_workers = replicate (nat (sc_Concurrency cfg)) Waiting, lk_samples = [], lk_errCount = 0\<rparr>)
     (fill_jobs (sc_Ops cfg) keys)"

inductive lookup_step :: "('j \<Rightarrow> gerror option \<times> time \<Rightarrow> bool) \<Rightarrow> 'j lookup_state \<Rightarrow> 'j lookup_state \<Rightarrow> bool"
  for replies where
  take_job: "i < length (lk_workers st) \<Longrightarrow> lk_workers st ! i = Waiting \<Longrightarrow> lk_jobs st = j # js \<Longrightarrow>
     lookup_step replies st (st\<lparr>lk_jobs := js, lk_workers := (lk_workers st)[i := Reading j]\<rparr>)"
| channel_closed: "i < length (lk_workers st) \<Longrightarrow> lk_workers st ! i = Waiting \<Longrightarrow> lk_jobs st = [] \<Longrightarrow>
     lookup_step replies st (st\<lparr>lk_workers := (lk_workers st)[i := LeftLoop]\<rparr>)"
| read_ok: "i < length (lk_workers st) \<Longrightarrow> lk_workers st ! i = Reading j \<Longrightarrow> replies j (None, elapsed) \<Longrightarrow>
     lookup_step replies st (st\<lparr>lk_workers := (lk_workers st)[i := Waiting], lk_samples := lk_samples st @ [elapsed]\<rparr>)"
| read_error: "i < length (lk_workers st) \<Longrightarrow> lk_workers st ! i = Reading j \<Longrightarrow> replies j (Some e, elapsed) \<Longrightarrow>
     lookup_step replies st (st\<lparr>lk_workers := (lk_workers st)[i := Waiting], lk_errCount := lk_errCount st + 1\<rparr>)"

text \<open>\<open>wg.Wait\<close> returns when every worker has left, at once when there is none.\<close>

definition wg_done :: "'j lookup_state \<Rightarrow> bool" where
  "wg_done st \<longleftrightarrow> (\<forall>w\<in>set (lk_workers st). w = LeftLoop)"

definition lookup_result :: "string \<Rightarrow> 'j lookup_state \<Rightarrow> time \<Rightarrow> bench_Result" where
  "lookup_result name st dur = BuildResult name (lk_samples st) (int32 (int (lk_errCount st))) dur"

text \<open>The results a benchmark may end with: the keys it looks up and what each may be answered.\<close>

inductive lookup_run ::
  "scylla_Config \<Rightarrow> 'j list \<Rightarrow> ('j \<Rightarrow> gerror option \<times> time \<Rightarrow> bool) \<Rightarrow> string \<Rightarrow> bench_Result \<Rightarrow> bool" where
  "lookup_start cfg keys = Some st0 \<Longrightarrow> (lookup_step replies)\<^sup>*\<^sup>* st0 st \<Longrightarrow> wg_done st \<Longrightarrow>
   lookup_run cfg keys replies name (lookup_result name st dur)"

definition BenchAPIKeyLookup ::
  "scylla_Config \<Rightarrow> string list \<Rightarrow> (string \<Rightarrow> gerror option \<times> time \<Rightarrow> bool) \<Rightarrow> string \<Rightarrow> bench_Result \<Rightarrow> bool" where
  "BenchAPIKeyLookup cfg hashes replies name = lookup_run cfg hashes replies name"

definition BenchMVSlugLookup ::
  "scylla_Config \<Rightarrow> TenantRow list \<Rightarrow> (string \<Rightarrow> gerror option \<times> time \<Rightarrow> bool) \<Rightarrow> bench_Result \<Rightarrow> bool" where
  "BenchMVSlugLookup cfg ts replies = lookup_run cfg (map trow_Slug ts) replies BenchMVSlug"

definition BenchMVEmailLookup ::
  "scylla_Config \<Rightarrow> UserRow list \<Rightarrow> (string \<Rightarrow> gerror option \<times> time \<Rightarrow> bool) \<Rightarrow> bench_Result \<Rightarrow> bool" where
  "BenchMVEmailLookup cfg us replies = lookup_run cfg (map urow_Email us) replies BenchMVEmail"

section \<open>table.go\<close>

definition thresholdHotPath :: time where "thresholdHotPath = 2 * Millisecond"
definition thresholdMV :: time where "thresholdMV = 5 * Millisecond"

definition verdictFor :: "string \<Rightarrow> string \<times> time" where
  "verdictFor name =
     (if name = BenchMVSlug \<or> name = BenchMVEmail then (''MV'', thresholdMV) else (''hot-path'', thresholdHotPath))"

definition row_verdict :: "bench_Result \<Rightarrow> bool" where
  "row_verdict r \<longleftrightarrow> bres_P99 r \<le> snd (verdictFor (bres_Name r)) \<and> bres_Errors r = 0"

text \<open>\<open>fmt_ms\<close> is \<open>%.2f\<close> of a duration in milliseconds and \<open>fmt_tput\<close> \<open>%.0f\<close> of \<open>Throughput\<close>, both \<open>float64\<close>.\<close>

definition light_bar :: string where "light_bar = [CHR 0xE2, CHR 0x94, CHR 0x82]"

definition result_row :: "(time \<Rightarrow> string) \<Rightarrow> (bench_Result \<Rightarrow> string) \<Rightarrow> bench_Result \<Rightarrow> string" where
  "result_row fmt_ms fmt_tput r =
     light_bar @ concat (map (\<lambda>c. '' '' @ c @ '' '' @ light_bar)
       [pad_right 36 (bres_Name r), pad_left 6 (Itoa (bres_Ops r)), pad_left 7 (fmt_ms (bres_P50 r) @ ''ms''),
        pad_left 7 (fmt_ms (bres_P95 r) @ ''ms''), pad_left 7 (fmt_ms (bres_P99 r) @ ''ms''),
        pad_left 14 (fmt_tput r @ '' ops/s''), pad_left 6 (fmt_int (bres_Errors r)),
        pad_left 8 (if row_verdict r then ''PASS'' else ''FAIL'')]) @ NL"

definition PrintLWTResult :: "(time \<Rightarrow> string) \<Rightarrow> LWTResult \<Rightarrow> string" where
  "PrintLWTResult fmt_ms r =
     (let correct = (if LWT_Correct r then ''YES '' @ check_mark
            else ''NO '' @ ballot_x @ ''  (winners='' @ fmt_int (lwt_Winners r) @ '', losers='' @ fmt_int (lwt_Losers r) @ '')'');
          errStr = (if 0 < bres_Errors r then ''  errors='' @ fmt_int (bres_Errors r) @ '' '' @ warning_sign else []) in
      NL @ ''  '' @ pad_right 36 (bres_Name r) @ ''  p50='' @ pad_right 7 (fmt_ms (bres_P50 r) @ ''ms'') @
      ''  p99='' @ pad_right 7 (fmt_ms (bres_P99 r) @ ''ms'') @ ''  winners='' @ pad_right 3 (fmt_int (lwt_Winners r)) @
      ''  losers='' @ pad_right 3 (fmt_int (lwt_Losers r)) @ ''  correct='' @ correct @ errStr @ NL)"

section \<open>seed.go\<close>

text \<open>The rows the seed steps insert, with the values of the columns in the order of the statements.\<close>

datatype seed_stmt =
    SeedKey string uuid uuid uuid string string string time
  | SeedTenant uuid string string string string time time
  | SeedUser uuid uuid string string string bool string time

record 'w scylla_env =
  se_rand :: "nat \<Rightarrow> 'w \<Rightarrow> (gerror + string) \<times> 'w"
  se_blake2b :: "string \<Rightarrow> string"
  se_TimeUUID :: "'w \<Rightarrow> uuid \<times> 'w"
  se_Now :: "'w \<Rightarrow> time \<times> 'w"
  se_Sleep :: "time \<Rightarrow> 'w \<Rightarrow> unit \<times> 'w"
  se_insert :: "seed_stmt \<Rightarrow> 'w \<Rightarrow> gerror option \<times> 'w"
  se_Exec :: "string \<Rightarrow> 'w \<Rightarrow> gerror option \<times> 'w"
  se_count :: "string \<Rightarrow> 'w \<Rightarrow> (gerror + int) \<times> 'w"
  se_ReadFile :: "string \<Rightarrow> 'w \<Rightarrow> (gerror + string) \<times> 'w"
  se_CreateSession :: "scylla_Config \<Rightarrow> 'w \<Rightarrow> gerror option \<times> 'w"

definition hashAPIKey :: "'w scylla_env \<Rightarrow> string \<Rightarrow> string" where
  "hashAPIKey E rawKey = EncodeToString (se_blake2b E rawKey)"

definition RandomRawKey :: "'w scylla_env \<Rightarrow> nat \<Rightarrow> ('w, gerror + string) io" where
  "RandomRawKey E n = io_call (se_rand E n)"

text \<open>\<open>for i := range n\<close> whose body returns an error or a row to append.\<close>

primrec seed_rows :: "(nat \<Rightarrow> ('w, gerror + 'r) io) \<Rightarrow> nat list \<Rightarrow> ('w, gerror + 'r list) io" where
  "seed_rows body [] = io_ret (Inr [])"
| "seed_rows body (i # is) = io_then (body i) (\<lambda>r. case r of
     Inl e \<Rightarrow> io_ret (Inl e)
   | Inr x \<Rightarrow> io_then (seed_rows body is) (\<lambda>rs. case rs of Inl e \<Rightarrow> io_ret (Inl e) | Inr xs \<Rightarrow> io_ret (Inr (x # xs))))"

definition seed_key :: "'w scylla_env \<Rightarrow> nat \<Rightarrow> ('w, gerror + string) io" where
  "seed_key E i =
     io_then (io_call (se_rand E 32)) (\<lambda>r. case r of
       Inl e \<Rightarrow> io_ret (Inl (Errorf (''seed key '' @ Itoa i @ '': rand: '') e))
     | Inr rawKey \<Rightarrow>
         io_then (io_call (se_TimeUUID E)) (\<lambda>keyID. io_then (io_call (se_TimeUUID E)) (\<lambda>tenantID.
         io_then (io_call (se_TimeUUID E)) (\<lambda>userID. io_then (io_call (se_Now E)) (\<lambda>now.
         io_then (io_call (se_insert E (SeedKey (hashAPIKey E rawKey) keyID tenantID userID (''bench-key-'' @ Itoa i)
            ''provision:read,provision:write'' ''ACTIVE'' now)))
           (\<lambda>err. case err of
              Some e \<Rightarrow> io_ret (Inl (Errorf (''seed api_key row '' @ Itoa i @ '': '') e))
            | None \<Rightarrow> io_ret (Inr (hashAPIKey E rawKey))))))))"

definition SeedAPIKeys :: "'w scylla_env \<Rightarrow> int \<Rightarrow> ('w, gerror + string list) io" where
  "SeedAPIKeys E n = (if n < 0 then io_panic else seed_rows (seed_key E) [0 ..< nat n])"

definition tenant_slug_at :: "nat \<Rightarrow> string" where
  "tenant_slug_at i = ''tenant-'' @ zero_pad 4 (Itoa i)"

definition seed_tenant :: "'w scylla_env \<Rightarrow> nat \<Rightarrow> ('w, gerror + TenantRow) io" where
  "seed_tenant E i =
     io_then (io_call (se_TimeUUID E)) (\<lambda>uid. io_then (io_call (se_Now E)) (\<lambda>t1. io_then (io_call (se_Now E)) (\<lambda>t2.
     io_then (io_call (se_insert E (SeedTenant uid (tenant_slug_at i) (''Benchmark Tenant '' @ Itoa i) ''ACTIVE'' ''starter'' t1 t2)))
       (\<lambda>err. case err of
          Some e \<Rightarrow> io_ret (Inl (Errorf (''seed tenant row '' @ Itoa i @ '': '') e))
        | None \<Rightarrow> io_ret (Inr \<lparr>trow_ID = uid, trow_Slug = tenant_slug_at i\<rparr>)))))"

definition SeedTenants :: "'w scylla_env \<Rightarrow> int \<Rightarrow> ('w, gerror + TenantRow list) io" where
  "SeedTenants E n = (if n < 0 then io_panic else seed_rows (seed_tenant E) [0 ..< nat n])"

definition seed_user :: "'w scylla_env \<Rightarrow> TenantRow list \<Rightarrow> nat \<Rightarrow> ('w, gerror + UserRow) io" where
  "seed_user E ts i =
     (if ts = [] then io_panic
      else let tenant = ts ! (i mod length ts); email = ''user'' @ Itoa i @ ''@'' @ trow_Slug tenant @ ''.example.com'' in
        io_then (io_call (se_TimeUUID E)) (\<lambda>uid. io_then (io_call (se_Now E)) (\<lambda>now.
        io_then (io_call (se_insert E (SeedUser uid (trow_ID tenant) email ''$argon2id$v=19$m=65536,t=3,p=4$fakehashforspike''
            ''MEMBER'' False ''ACTIVE'' now)))
          (\<lambda>err. case err of
             Some e \<Rightarrow> io_ret (Inl (Errorf (''seed user row '' @ Itoa i @ '': '') e))
           | None \<Rightarrow> io_ret (Inr \<lparr>urow_Email = email, urow_TenantID = trow_ID tenant\<rparr>)))))"

definition SeedUsers :: "'w scylla_env \<Rightarrow> TenantRow list \<Rightarrow> int \<Rightarrow> ('w, gerror + UserRow list) io" where
  "SeedUsers E ts n = (if n < 0 then io_panic else seed_rows (seed_user E ts) [0 ..< nat n])"

section \<open>setup.go\<close>

definition scylla_NewSession :: "'w scylla_env \<Rightarrow> scylla_Config \<Rightarrow> ('w, gerror option) io" where
  "scylla_NewSession E cfg =
     io_then (io_call (se_CreateSession E cfg)) (\<lambda>err. io_ret (map_option
       (Errorf (''dial ScyllaDB '' @ fmt_strings (sc_Hosts cfg) @ '':'' @ fmt_int (sc_Port cfg) @ '': '')) err))"

definition scylla_splitStatements :: "string \<Rightarrow> string list" where
  "scylla_splitStatements src =
     Split (concat (map (\<lambda>line. line @ NL) (filter (\<lambda>line. \<not> HasPrefix (TrimSpace line) ''--'') (Split src CHR 0x0A)))) CHR '';''"

fun apply_statements :: "'w scylla_env \<Rightarrow> nat \<Rightarrow> string list \<Rightarrow> ('w, gerror option) io" where
  "apply_statements E i [] = io_ret None"
| "apply_statements E i (stmt # stmts) =
     (let stmt = TrimSpace stmt in
      if stmt = [] then apply_statements E (i + 1) stmts
      else io_then (io_call (se_Exec E stmt)) (\<lambda>err. case err of
        Some e \<Rightarrow> io_ret (Some (Wrap (''statement '' @ Itoa (i + 1) @ '': '') e (NL @ stmt)))
      | None \<Rightarrow> apply_statements E (i + 1) stmts))"

definition scylla_ApplySchema :: "'w scylla_env \<Rightarrow> string \<Rightarrow> ('w, gerror option) io" where
  "scylla_ApplySchema E schemaContent = apply_statements E 0 (scylla_splitStatements schemaContent)"

definition DropSchema :: "'w scylla_env \<Rightarrow> ('w, gerror option) io" where
  "DropSchema E = io_call (se_Exec E ''DROP KEYSPACE IF EXISTS cf'')"

partial_function (option) mv_loop :: "'w scylla_env \<Rightarrow> time \<Rightarrow> time \<Rightarrow> 'w \<Rightarrow> (gerror option \<times> 'w) option" where
  "mv_loop E timeout deadline w =
     (let (now, w) = se_Now E w in
      if deadline \<le> now
      then Some (Some (Text (''cf.tenants_by_slug MV not ready after '' @ Duration_String timeout)), w)
      else let (n, w) = se_count E ''SELECT count(*) FROM cf.tenants_by_slug'' w in
        if \<not> isl n then Some (None, w)
        else let (_, w) = se_Sleep E (500 * Millisecond) w in mv_loop E timeout deadline w)"

definition WaitForMVReady :: "'w scylla_env \<Rightarrow> time \<Rightarrow> ('w, gerror option) io" where
  "WaitForMVReady E timeout = io_then (io_call (se_Now E)) (\<lambda>now. mv_loop E timeout (now + timeout))"

section \<open>cmd/bench\<close>

text \<open>\<open>main\<close> up to the benchmarks, with the exit code where it ends there, and the verdict it ends with.\<close>

definition bench_prepare ::
  "'w scylla_env \<Rightarrow> scylla_Config \<Rightarrow> bool \<Rightarrow> string \<Rightarrow> ('w, int + string list \<times> TenantRow list \<times> UserRow list) io" where
  "bench_prepare E cfg dropFirst schemaPath =
     (let fail = io_ret (Inl 1); ok = (\<lambda>err k. case err of Some e \<Rightarrow> fail | None \<Rightarrow> k) in
      io_then (scylla_NewSession E cfg) (\<lambda>err. ok err (
      io_then (if dropFirst then DropSchema E else io_ret None) (\<lambda>err. ok err (
      io_then (io_call (se_ReadFile E schemaPath)) (\<lambda>content. case content of Inl e \<Rightarrow> fail | Inr schema \<Rightarrow>
      io_then (scylla_ApplySchema E schema) (\<lambda>err. ok err (
      io_then (WaitForMVReady E (30 * Second)) (\<lambda>_.
      io_then (SeedAPIKeys E (sc_SeedRows cfg)) (\<lambda>hashes. case hashes of Inl e \<Rightarrow> fail | Inr hashes \<Rightarrow>
      io_then (SeedTenants E (sc_SeedRows cfg)) (\<lambda>ts. case ts of Inl e \<Rightarrow> fail | Inr ts \<Rightarrow>
      io_then (SeedUsers E ts (sc_SeedRows cfg)) (\<lambda>us. case us of Inl e \<Rightarrow> fail | Inr us \<Rightarrow>
      io_ret (Inr (hashes, ts, us))))))))))))))"

definition bench_pass :: "bench_Result list \<Rightarrow> LWTResult \<Rightarrow> LWTResult \<Rightarrow> bool" where
  "bench_pass allResults claimResult transResult \<longleftrightarrow>
     (\<forall>r\<in>set allResults. \<not> 0 < bres_Errors r) \<and> LWT_Correct claimResult \<and> LWT_Correct transResult"

definition bench_exit :: "bench_Result list \<Rightarrow> LWTResult \<Rightarrow> LWTResult \<Rightarrow> int" where
  "bench_exit allResults claimResult transResult = (if bench_pass allResults claimResult transResult then 0 else 1)"

end
