(* ===== verification/ScyllaFacts.thy ===== *)
theory ScyllaFacts
  imports ScyllaBench KnativeFacts
begin

text \<open>
  What holds of the ScyllaDB benchmark: the race of conditional statements has one winner in every
  interleaving, the read benchmarks account for every operation and end, the statistics agree with the
  library's, the seeds, and what the final verdict does not look at.
\<close>

section \<open>A race of conditional statements\<close>

text \<open>
  The goroutine before and after the reply to its statement: \<open>Some r\<close> once it has the reply \<open>r\<close>.
\<close>

inductive lwt_at :: "(cas_stmt \<Rightarrow> bool) \<Rightarrow> (time \<times> (gerror + bool)) prog \<Rightarrow> (gerror + bool) option \<Rightarrow> bool"
  for race where
  at_ret: "lwt_at race (Ret (d, r)) (Some r)"
| at_after: "lwt_at race (Now (\<lambda>t1. Ret (f t1, r))) (Some r)"
| at_cas: "race c \<Longrightarrow> (\<And>r. lwt_at race (k r) (Some (map_sum id fst r))) \<Longrightarrow> lwt_at race (Cas c k) None"
| at_now: "(\<And>t. lwt_at race (k t) None) \<Longrightarrow> lwt_at race (Now k) None"

inductive_cases lwt_at_RetE: "lwt_at race (Ret x) r"
inductive_cases lwt_at_NowE: "lwt_at race (Now k) r"
inductive_cases lwt_at_CasE: "lwt_at race (Cas c k) r"

lemma lwt_writer_at:
  assumes "\<And>now. race (c now)"
  shows "lwt_at race (lwt_writer (Now (\<lambda>now. Ret (c now)))) None" "lwt_at race (lwt_writer (Ret (c 0))) None"
proof -
  have after: "lwt_at race (Now (\<lambda>t1. Ret (t1 - t0, case r of Inl e \<Rightarrow> Inl e | Inr (applied, dest) \<Rightarrow> Inr applied)))
      (Some (map_sum id fst r))" for t0 and r :: "gerror + bool \<times> uuid option"
    using at_after [of race "\<lambda>t1. t1 - t0" "map_sum id fst r"] by (cases r) (simp_all add: case_prod_beta)
  have cas: "lwt_at race (Cas (c now) (\<lambda>r. Now (\<lambda>t1.
      Ret (t1 - t0, case r of Inl e \<Rightarrow> Inl e | Inr (applied, dest) \<Rightarrow> Inr applied)))) None" for now t0
    by (rule at_cas, rule assms, rule after)
  show "lwt_at race (lwt_writer (Now (\<lambda>now. Ret (c now)))) None" unfolding lwt_writer_def bind.simps
    by (rule at_now, rule at_now, rule cas)
  show "lwt_at race (lwt_writer (Ret (c 0))) None" unfolding lwt_writer_def bind.simps
    by (rule at_now, rule cas)
qed

lemma lwt_at_outside: "lwt_at race p r \<Longrightarrow> (\<exists>x. p = Ret x) \<or> (\<exists>k. p = Now k) \<or> (\<exists>c k. p = Cas c k \<and> r = None \<and> race c)"
  by (induction rule: lwt_at.induct) auto

lemma lwt_at_step:
  assumes "lwt_at race p o1" "estep f p s q u"
  shows "(lwt_at race q o1 \<and> u = s) \<or>
    (\<exists>c r. o1 = None \<and> race c \<and> cas_reply f c s r u \<and> lwt_at race q (Some (map_sum id fst r)))"
  using assms
proof (cases rule: lwt_at.cases)
  case (at_cas c k)
  then show ?thesis using assms(2) by (auto simp: estep_Cas)
qed (use assms(2) in \<open>auto simp: estep_Now intro: lwt_at.intros\<close>)

text \<open>
  Statements that race for the same row: whether they apply is one condition on the tables, and the one
  that applies ends it.
\<close>

locale lwt_race =
  fixes race :: "cas_stmt \<Rightarrow> bool" and avail :: "cf_db \<Rightarrow> bool"
  assumes applies: "race c \<Longrightarrow> cas_applies c d \<longleftrightarrow> avail d"
    and taken: "race c \<Longrightarrow> avail d \<Longrightarrow> \<not> avail (cas_write c d)"
begin

text \<open>
  What is known of the replies so far: while the row is free nobody got an answer, a winner is unique, and a
  taken row has a winner unless a write was lost.
\<close>

definition race_inv :: "(gerror + bool) option list \<Rightarrow> cf_db \<Rightarrow> bool" where
  "race_inv os d \<longleftrightarrow>
     (avail d \<longrightarrow> (\<forall>b. Some (Inr b) \<notin> set os)) \<and>
     (\<forall>i j. i < length os \<longrightarrow> j < length os \<longrightarrow> os ! i = Some (Inr True) \<longrightarrow> os ! j = Some (Inr True) \<longrightarrow> i = j) \<and>
     (\<not> avail d \<longrightarrow> Some (Inr True) \<in> set os \<or> (\<exists>e. Some (Inl e) \<in> set os))"

lemma race_inv_start: "avail d \<Longrightarrow> race_inv (replicate n None) d"
  by (auto simp: race_inv_def)

lemma set_update_None:
  "i < length os \<Longrightarrow> os ! i = None \<Longrightarrow> Some y \<in> set (os[i := Some x]) \<longleftrightarrow> y = x \<or> Some y \<in> set os"
  by (auto simp: in_set_conv_nth nth_list_update split: if_splits) (metis option.distinct(1))+

lemma race_inv_reply:
  assumes inv: "race_inv os (db s)" and i: "i < length os" "os ! i = None" and c: "race c" "cas_reply f c s r u"
  shows "race_inv (os[i := Some (map_sum id fst r)]) (db u)"
proof (cases r)
  case (Inl e)
  then have u: "db u = db s \<or> db u = cas_effect c (db s)" using c(2) by (auto simp: cas_reply_def)
  have un: "\<not> avail (db s) \<Longrightarrow> db u = db s"
    using u applies [OF c(1), of "db s"] by (auto simp: cas_effect_def)
  have "avail (db u) \<Longrightarrow> avail (db s)" using un by metis
  then show ?thesis using inv i unfolding race_inv_def Inl
    by (auto simp: set_update_None nth_list_update split: if_splits)
next
  case (Inr x)
  obtain b dest where x: "x = (b, dest)" by (cases x)
  have u: "db u = cas_effect c (db s)" "b = avail (db s)"
    using c applies [OF c(1)] Inr x by (auto simp: cas_reply_def)
  have un: "\<not> avail (db u)"
    using u taken [OF c(1), of "db s"] applies [OF c(1), of "db s"] by (cases "avail (db s)") (simp_all add: cas_effect_def)
  show ?thesis
  proof (cases "avail (db s)")
    case True
    then have no: "Some (Inr True) \<notin> set os" using inv by (auto simp: race_inv_def)
    then have "os ! j \<noteq> Some (Inr True)" if "j < length os" for j using that nth_mem by fastforce
    then show ?thesis using un i Inr x u True unfolding race_inv_def
      by (auto simp: set_update_None nth_list_update split: if_splits)
  next
    case False
    then show ?thesis using inv un i Inr x u unfolding race_inv_def
      by (auto simp: set_update_None nth_list_update split: if_splits)
  qed
qed

lemma race_pool:
  assumes "preach f ps s qs t" "avail (db s)" "\<And>i. i < length ps \<Longrightarrow> lwt_at race (ps ! i) None"
  shows "\<exists>os. length os = length qs \<and> (\<forall>i<length qs. lwt_at race (qs ! i) (os ! i)) \<and> race_inv os (db t)"
  using assms
proof (induction rule: preach.induct)
  case pool_start
  then show ?case using race_inv_start [of "db s" "length ps"] by (intro exI [of _ "replicate (length ps) None"]) simp
next
  case (pool_step qs t i q u)
  then obtain os where os: "length os = length qs" "\<And>j. j < length qs \<Longrightarrow> lwt_at race (qs ! j) (os ! j)" "race_inv os (db t)"
    by blast
  from lwt_at_step [OF os(2) [OF pool_step.hyps(2)] pool_step.hyps(3)] show ?case
  proof (elim disjE conjE exE)
    assume "lwt_at race q (os ! i)" "u = t"
    then show ?thesis using os pool_step.hyps(2) by (intro exI [of _ os]) (auto simp: nth_list_update)
  next
    fix c r
    assume c: "os ! i = None" "race c" "cas_reply f c t r u" "lwt_at race q (Some (map_sum id fst r))"
    have "race_inv (os[i := Some (map_sum id fst r)]) (db u)"
      by (rule race_inv_reply [OF os(3) _ c(1-3)]) (simp add: os(1) pool_step.hyps(2))
    then show ?thesis using os c(4) pool_step.hyps(2)
      by (intro exI [of _ "os[i := Some (map_sum id fst r)]"]) (auto simp: nth_list_update)
  qed
qed

text \<open>Once all have returned: at most one winner, and exactly one when no reply was an error.\<close>

lemma race_outcome:
  assumes "preach f ps s (map Ret outs) t" "avail (db s)" "\<And>i. i < length ps \<Longrightarrow> lwt_at race (ps ! i) None"
  shows "length (filter (\<lambda>(d, r). r = Inr True) outs) \<le> 1"
    and "outs \<noteq> [] \<Longrightarrow> \<forall>x\<in>set outs. \<not> isl (snd x) \<Longrightarrow> length (filter (\<lambda>(d, r). r = Inr True) outs) = 1"
proof -
  obtain os where os: "length os = length outs" "\<And>i. i < length outs \<Longrightarrow> lwt_at race (Ret (outs ! i)) (os ! i)"
    and inv: "race_inv os (db t)" using race_pool [OF assms] by auto
  have eq: "os = map (Some \<circ> snd) outs"
    by (rule nth_equalityI) (use os in \<open>force elim: lwt_at_RetE\<close>)+
  have won: "length (filter (\<lambda>(d, r). r = Inr True) outs) = card {i. i < length outs \<and> snd (outs ! i) = Inr True}"
    by (simp add: length_filter_conv_card case_prod_beta)
  have "\<forall>i<length outs. \<forall>j<length outs. snd (outs ! i) = Inr True \<longrightarrow> snd (outs ! j) = Inr True \<longrightarrow> i = j"
    using inv unfolding race_inv_def eq by simp
  then have "card {i. i < length outs \<and> snd (outs ! i) = Inr True} \<le> Suc 0"
    by (subst card_le_Suc0_iff_eq) auto
  then show le: "length (filter (\<lambda>(d, r). r = Inr True) outs) \<le> 1" using won by simp
  assume ne: "outs \<noteq> []" and ok: "\<forall>x\<in>set outs. \<not> isl (snd x)"
  obtain d r outs' where x: "outs = (d, r) # outs'" using ne by (cases outs) auto
  then obtain b where "r = Inr b" using ok by (cases r) auto
  then have "Some (Inr b) \<in> set os" using x eq by simp
  then have "\<not> avail (db t)" using inv by (auto simp: race_inv_def)
  then have "Some (Inr True) \<in> set os \<or> (\<exists>e. Some (Inl e) \<in> set os)" using inv by (auto simp: race_inv_def)
  moreover have "Some (Inl e) \<notin> set os" for e using ok eq by (force simp: image_iff)
  ultimately have "Inr True \<in> snd ` set outs" unfolding eq by auto
  then have "filter (\<lambda>(d, r). r = Inr True) outs \<noteq> []" by (force simp: filter_empty_conv)
  then show "length (filter (\<lambda>(d, r). r = Inr True) outs) = 1" using le by (cases "filter (\<lambda>(d, r). r = Inr True) outs") auto
qed

end

text \<open>The two races of the benchmark.\<close>

interpretation claim_race: lwt_race "\<lambda>c. \<exists>j. c = InsertIdem tid k j" "\<lambda>d. provisioning_jobs_by_idem d (tid, k) = None" for tid k
  by unfold_locales auto

interpretation transition_race: lwt_race "\<lambda>c. \<exists>now. c = ClaimJob tid j ''PROVISIONING'' now ''QUEUED''"
    "\<lambda>d. job_status d tid j = Some ''QUEUED''" for tid j
  by unfold_locales (auto simp del: cas_write.simps)

lemma claim_writer_at: "lwt_at (\<lambda>c. \<exists>j. c = InsertIdem tid k j) (claim_writer tid k j) None"
  unfolding claim_writer_def by (rule lwt_writer_at(2) [where c = "\<lambda>_. InsertIdem tid k j"]) blast

lemma transition_writer_at:
  "lwt_at (\<lambda>c. \<exists>now. c = ClaimJob tid j ''PROVISIONING'' now ''QUEUED'') (transition_writer tid j) None"
  unfolding transition_writer_def
  by (rule lwt_writer_at(1) [where c = "\<lambda>now. ClaimJob tid j ''PROVISIONING'' (cql_timestamp now) ''QUEUED''"]) blast

section \<open>The tally of a race\<close>

lemma int32_id: "0 \<le> x \<Longrightarrow> x < 2 ^ 31 \<Longrightarrow> int32 x = x"
  by (simp add: int32_def int_word_sint)

lemma int32_bits [simp]: "int32 0 = 0" "int32 1 = 1"
  by (simp_all add: int32_id)

lemma tally_fields:
  "bres_Ops (lwt_tally name outs d) = length (filter (\<lambda>(d, r). \<not> isl r) outs)"
  "bres_Errors (lwt_tally name outs d) = int32 (int (length (filter (\<lambda>(d, r). isl r) outs)))"
  "lwt_Winners (lwt_tally name outs d) = int32 (int (length (filter (\<lambda>(d, r). r = Inr True) outs)))"
  "lwt_Losers (lwt_tally name outs d) = int32 (int (length (filter (\<lambda>(d, r). r = Inr False) outs)))"
  by (simp_all add: lwt_tally_def BuildResult_def Let_def bench_Result.defs LWTResult.defs)

lemma tally_adds_up:
  assumes "length outs < 2 ^ 31"
  shows "lwt_Winners (lwt_tally name outs d) + lwt_Losers (lwt_tally name outs d) + bres_Errors (lwt_tally name outs d) = int (length outs)"
proof -
  let ?n = "\<lambda>P. length (filter P outs)"
  have "?n P < 2 ^ 31" for P using length_filter_le [of P outs] assms by linarith
  then have id: "int32 (int (?n P)) = int (?n P)" for P by (intro int32_id) (simp, metis of_nat_less_numeral_power_cancel_iff)
  have "?n (\<lambda>(d, r). r = Inr True) + ?n (\<lambda>(d, r). r = Inr False) + ?n (\<lambda>(d, r). isl r) = length outs"
  proof (induction outs)
    case (Cons x outs)
    then show ?case by (cases x; cases "snd x") auto
  qed simp
  then show ?thesis unfolding tally_fields id by linarith
qed

lemma race_tally:
  assumes "length (filter (\<lambda>(d, r). r = Inr True) outs) \<le> 1"
    and "outs \<noteq> [] \<Longrightarrow> \<forall>x\<in>set outs. \<not> isl (snd x) \<Longrightarrow> length (filter (\<lambda>(d, r). r = Inr True) outs) = 1"
    and "outs \<noteq> []" "length outs < 2 ^ 31"
  shows "lwt_Winners (lwt_tally name outs d) \<le> 1 \<and>
    (bres_Errors (lwt_tally name outs d) = 0 \<longrightarrow> LWT_Correct (lwt_tally name outs d))"
proof -
  let ?won = "length (filter (\<lambda>(d, r). r = Inr True) outs)" and ?err = "length (filter (\<lambda>(d, r). isl r) outs)"
  have w: "int32 (int ?won) = int ?won" by (rule int32_id) (use assms(1) in simp_all)
  have "?err < 2 ^ 31" using length_filter_le [of "\<lambda>(d, r). isl r" outs] assms(4) by linarith
  then have e: "int32 (int ?err) = int ?err" by (intro int32_id) (simp, metis of_nat_less_numeral_power_cancel_iff)
  have "?err = 0 \<Longrightarrow> \<forall>x\<in>set outs. \<not> isl (snd x)" by (simp add: filter_empty_conv case_prod_beta)
  then show ?thesis using assms(1-3) by (auto simp: tally_fields LWT_Correct_def w e)
qed

text \<open>
  The race for an idempotency key, and the race for a queued job after its row was written: in every
  interleaving and whatever fails, at most one goroutine wins, and exactly one when no reply was lost.
\<close>

theorem job_claim_correct:
  assumes "claim_pool cfg tid k ids = Some ps" "preach f ps s (map Ret outs) t"
    and "provisioning_jobs_by_idem (db s) (tid, k) = None" "0 < sc_LWTWriters cfg" "sc_LWTWriters cfg < 2 ^ 31"
  shows "lwt_Winners (lwt_tally BenchLWTClaim outs d) \<le> 1 \<and>
    (bres_Errors (lwt_tally BenchLWTClaim outs d) = 0 \<longrightarrow> LWT_Correct (lwt_tally BenchLWTClaim outs d))"
proof -
  have ps: "ps = map (\<lambda>i. claim_writer tid k (ids i)) [0 ..< nat (sc_LWTWriters cfg)]"
    using assms(1,4) by (simp add: claim_pool_def)
  have "length outs = nat (sc_LWTWriters cfg)" using preach_length [OF assms(2)] by (simp add: ps)
  then have len: "outs \<noteq> []" "length outs < 2 ^ 31" using assms(4,5) by auto
  have "lwt_at (\<lambda>c. \<exists>j. c = InsertIdem tid k j) (ps ! i) None" if "i < length ps" for i
    using that claim_writer_at by (simp add: ps)
  note claim_race.race_outcome [OF assms(2,3) this]
  then show ?thesis by (intro race_tally len)
qed

theorem state_transition_correct:
  assumes "sem g (transition_seed tid j) s0 None s" "transition_pool cfg tid j = Some ps" "preach f ps s (map Ret outs) t"
    and "0 < sc_LWTWriters cfg" "sc_LWTWriters cfg < 2 ^ 31"
  shows "lwt_Winners (lwt_tally BenchLWTTransition outs d) \<le> 1 \<and>
    (bres_Errors (lwt_tally BenchLWTTransition outs d) = 0 \<longrightarrow> LWT_Correct (lwt_tally BenchLWTTransition outs d))"
proof -
  have ps: "ps = replicate (nat (sc_LWTWriters cfg)) (transition_writer tid j)"
    using assms(2,4) by (simp add: transition_pool_def)
  have "length outs = nat (sc_LWTWriters cfg)" using preach_length [OF assms(3)] by (simp add: ps)
  then have len: "outs \<noteq> []" "length outs < 2 ^ 31" using assms(4,5) by auto
  have q: "job_status (db s) tid j = Some ''QUEUED''"
    using assms(1) by (auto simp: transition_seed_def transition_row_def ex_reply simp del: exec_effect.simps)
  have "lwt_at (\<lambda>c. \<exists>now. c = ClaimJob tid j ''PROVISIONING'' now ''QUEUED'') (ps ! i) None" if "i < length ps" for i
    using that transition_writer_at by (simp add: ps)
  note transition_race.race_outcome [OF assms(3) q this]
  then show ?thesis by (intro race_tally len)
qed

text \<open>A reply lost after its write leaves no winner: the table is right and the benchmark says it is not.\<close>

theorem lost_reply_fails_the_check:
  assumes "provisioning_jobs_by_idem (db s) (tid, k) = None" "fault_error e"
  shows "\<exists>outs t. preach AnyFaults [claim_writer tid k j] s (map Ret outs) t \<and>
    provisioning_jobs_by_idem (db t) (tid, k) = Some j \<and> \<not> LWT_Correct (lwt_tally BenchLWTClaim outs d)"
proof -
  let ?t = "s\<lparr>db := cas_effect (InsertIdem tid k j) (db s)\<rparr>"
  have "sem AnyFaults (claim_writer tid k j) s (0, Inl e) ?t"
    by (simp add: claim_writer_def lwt_writer_def ex_reply assms)
  from sem_preach [OF this pool_start [where ps = "[claim_writer tid k j]"], of 0] have "preach AnyFaults [claim_writer tid k j] s (map Ret [(0, Inl e)]) ?t" by simp
  moreover have "provisioning_jobs_by_idem (db ?t) (tid, k) = Some j" using assms(1) by (simp add: cas_effect_def)
  moreover have "\<not> LWT_Correct (lwt_tally BenchLWTClaim [(0, Inl e)] d)" by (simp add: LWT_Correct_def tally_fields int32_def)
  ultimately show ?thesis by blast
qed

section \<open>The read benchmarks\<close>

definition reading :: "'j lookup_state \<Rightarrow> nat" where
  "reading st = length (filter (\<lambda>w. w \<noteq> Waiting \<and> w \<noteq> LeftLoop) (lk_workers st))"

definition waiting :: "'j lookup_state \<Rightarrow> nat" where
  "waiting st = length (filter (\<lambda>w. w = Waiting) (lk_workers st))"

lemma filter_update_count:
  "i < length xs \<Longrightarrow> length (filter P (xs[i := y])) + (if P (xs ! i) then 1 else 0) = length (filter P xs) + (if P y then 1 else 0)"
proof (induction xs arbitrary: i)
  case (Cons x xs)
  then show ?case by (cases i) auto
qed simp

lemma worker_counts:
  assumes "i < length ws"
  shows "length (filter P (ws[i := w])) = length (filter P ws) + (if P w then 1 else 0) - (if P (ws ! i) then 1 else 0)"
  using filter_update_count [OF assms, of P w] by simp

lemma counted_pos: "i < length ws \<Longrightarrow> P (ws ! i) \<Longrightarrow> 0 < length (filter P ws)"
  by (metis filter_empty_conv length_greater_0_conv nth_mem)

text \<open>Every operation is in the channel, being read, a sample or an error.\<close>

definition accounted :: "'j lookup_state \<Rightarrow> nat" where
  "accounted st = length (lk_jobs st) + reading st + length (lk_samples st) + lk_errCount st"

lemma step_accounted: "lookup_step replies st st' \<Longrightarrow> accounted st' = accounted st"
proof (induction rule: lookup_step.induct)
  case (take_job i st j js)
  then show ?case by (simp add: accounted_def reading_def worker_counts)
next
  case (channel_closed i st)
  then show ?case by (simp add: accounted_def reading_def worker_counts)
next
  case (read_ok i st j elapsed)
  then have "0 < reading st" unfolding reading_def by (intro counted_pos [of i]) simp_all
  then show ?case using read_ok by (simp add: accounted_def reading_def worker_counts)
next
  case (read_error i st j e elapsed)
  then have "0 < reading st" unfolding reading_def by (intro counted_pos [of i]) simp_all
  then show ?case using read_error by (simp add: accounted_def reading_def worker_counts)
qed

text \<open>Every step brings the end nearer, and until \<open>wg.Wait\<close> returns there is one.\<close>

definition lookup_work :: "'j lookup_state \<Rightarrow> nat" where
  "lookup_work st = 3 * length (lk_jobs st) + 2 * reading st + waiting st"

lemma work_counts:
  assumes "i < length (lk_workers st)"
  shows "length (filter (\<lambda>w. w \<noteq> Waiting \<and> w \<noteq> LeftLoop) ((lk_workers st)[i := w]))
       + (if lk_workers st ! i \<noteq> Waiting \<and> lk_workers st ! i \<noteq> LeftLoop then 1 else 0)
       = reading st + (if w \<noteq> Waiting \<and> w \<noteq> LeftLoop then 1 else 0)"
    and "length (filter (\<lambda>w. w = Waiting) ((lk_workers st)[i := w])) + (if lk_workers st ! i = Waiting then 1 else 0)
       = waiting st + (if w = Waiting then 1 else 0)"
  unfolding reading_def waiting_def by (rule filter_update_count [OF assms])+

lemma step_progress: "lookup_step replies st st' \<Longrightarrow> lookup_work st' < lookup_work st"
proof (induction rule: lookup_step.induct)
  case (take_job i st j js)
  then show ?case using work_counts [OF take_job(1), of "Reading j"]
    by (simp add: lookup_work_def reading_def waiting_def)
next
  case (channel_closed i st)
  then show ?case using work_counts [OF channel_closed(1), of LeftLoop] by (simp add: lookup_work_def reading_def waiting_def)
next
  case (read_ok i st j elapsed)
  then show ?case using work_counts [OF read_ok(1), of Waiting] by (simp add: lookup_work_def reading_def waiting_def)
next
  case (read_error i st j e elapsed)
  then show ?case using work_counts [OF read_error(1), of Waiting] by (simp add: lookup_work_def reading_def waiting_def)
qed

lemma step_exists:
  assumes "\<not> wg_done st" "\<And>j. \<exists>r. replies j r"
  shows "\<exists>st'. lookup_step replies st st'"
proof -
  obtain i where i: "i < length (lk_workers st)" "lk_workers st ! i \<noteq> LeftLoop"
    using assms(1) by (auto simp: wg_done_def in_set_conv_nth)
  show ?thesis
  proof (cases "lk_workers st ! i")
    case Waiting
    then show ?thesis
      using lookup_step.take_job [OF i(1), where replies = replies] lookup_step.channel_closed [OF i(1), where replies = replies]
      by (cases "lk_jobs st") blast+
  next
    case (Reading j)
    obtain err elapsed where "replies j (err, elapsed)" using assms(2) [of j] by (metis prod.exhaust)
    then show ?thesis
      using lookup_step.read_ok [OF i(1) Reading, of replies] lookup_step.read_error [OF i(1) Reading, of replies]
      by (cases err) blast+
  qed (use i(2) in simp)
qed

text \<open>
  The invariant of a run: a worker leaves only when the channel is empty, and once it is empty it stays so.
\<close>

lemma steps_invariant:
  assumes "(lookup_step replies)\<^sup>*\<^sup>* st st'" "LeftLoop \<in> set (lk_workers st) \<Longrightarrow> lk_jobs st = []"
  shows "accounted st' = accounted st \<and> length (lk_workers st') = length (lk_workers st) \<and>
    (LeftLoop \<in> set (lk_workers st') \<longrightarrow> lk_jobs st' = [])"
  using assms
proof (induction rule: rtranclp_induct)
  case (step st1 st2)
  then have IH: "accounted st1 = accounted st" "length (lk_workers st1) = length (lk_workers st)"
    "LeftLoop \<in> set (lk_workers st1) \<Longrightarrow> lk_jobs st1 = []" by auto
  have "length (lk_workers st2) = length (lk_workers st1) \<and> (LeftLoop \<in> set (lk_workers st2) \<longrightarrow> lk_jobs st2 = [])"
    using step.hyps(2) IH(3)
    by (induction rule: lookup_step.induct) (use set_update_subset_insert in \<open>fastforce split: if_splits\<close>)+
  then show ?case using IH step_accounted [OF step.hyps(2)] by simp
qed simp

theorem lookups_complete:
  assumes "lookup_start cfg keys = Some st0" "(lookup_step replies)\<^sup>*\<^sup>* st0 st" "wg_done st" "0 < sc_Concurrency cfg"
  shows "int (length (lk_samples st) + lk_errCount st) = sc_Ops cfg"
proof -
  obtain jobs where jobs: "fill_jobs (sc_Ops cfg) keys = Some jobs" and st0: "st0 = \<lparr>lk_jobs = jobs,
      lk_workers = replicate (nat (sc_Concurrency cfg)) Waiting, lk_samples = [], lk_errCount = 0\<rparr>"
    using assms(1) by (auto simp: lookup_start_def)
  have len: "int (length jobs) = sc_Ops cfg" using jobs by (auto simp: fill_jobs_def split: if_splits)
  have inv: "accounted st = accounted st0" "length (lk_workers st) = length (lk_workers st0)"
    "LeftLoop \<in> set (lk_workers st) \<Longrightarrow> lk_jobs st = []"
    using steps_invariant [OF assms(2)] by (auto simp: st0)
  have "lk_workers st \<noteq> []" using inv(2) assms(4) by (auto simp: st0)
  then have "LeftLoop \<in> set (lk_workers st)" using assms(3) by (cases "lk_workers st") (auto simp: wg_done_def)
  moreover have "reading st = 0" using assms(3) by (auto simp: reading_def wg_done_def filter_empty_conv)
  moreover have "accounted st0 = length jobs" by (simp add: accounted_def st0 reading_def)
  ultimately show ?thesis using inv(1,3) len by (simp add: accounted_def)
qed

theorem lookups_end: "\<exists>n. \<forall>m st. ((lookup_step replies) ^^ m) st0 st \<longrightarrow> m \<le> n"
proof -
  have "lookup_work st + m \<le> lookup_work st0" if "((lookup_step replies) ^^ m) st0 st" for m st
    using that
  proof (induction m arbitrary: st)
    case (Suc m)
    then obtain st1 where "((lookup_step replies) ^^ m) st0 st1" "lookup_step replies st1 st" by auto
    then show ?case using Suc.IH [of st1] step_progress [of replies st1 st] by simp
  qed simp
  then have "\<forall>m st. ((lookup_step replies) ^^ m) st0 st \<longrightarrow> m \<le> lookup_work st0" by (metis add_leD2)
  then show ?thesis by blast
qed

text \<open>Without workers nothing is read, and the result has no error.\<close>

theorem no_workers_no_reads:
  assumes "lookup_start cfg keys = Some st" "sc_Concurrency cfg \<le> 0"
  shows "wg_done st \<and> bres_Ops (lookup_result name st d) = 0 \<and> bres_Errors (lookup_result name st d) = 0"
  using assms by (auto simp: lookup_start_def wg_done_def lookup_result_def BuildResult_def Let_def)

text \<open>Each of the three benchmarks, with at least one worker, reports as many operations and errors as it was asked for.\<close>

theorem lookup_run_complete:
  assumes "lookup_run cfg keys replies name r" "0 < sc_Concurrency cfg" "sc_Ops cfg < 2 ^ 31"
  shows "int (bres_Ops r) + bres_Errors r = sc_Ops cfg"
  using assms(1)
proof cases
  case (1 st0 st dur)
  have n: "int (length (lk_samples st) + lk_errCount st) = sc_Ops cfg"
    by (rule lookups_complete [OF 1(2-4) assms(2)])
  then have "int32 (int (lk_errCount st)) = int (lk_errCount st)" using assms(3) by (intro int32_id) simp_all
  then show ?thesis using 1(1) n by (simp add: lookup_result_def BuildResult_def Let_def)
qed

section \<open>Statistics\<close>

lemma Percentile_percentileAt: "0 < p \<Longrightarrow> Percentile ds p = percentileAt (sort ds) p"
proof (cases "ds = []")
  case False
  assume "0 < p"
  moreover have "0 < length ds" using False by simp
  ultimately have "0 < p * length ds" by simp
  then have "1 \<le> (p * length ds + 99) div 100" by linarith
  then show ?thesis using False by (auto simp: Percentile_def percentileAt_def Let_def)
qed (simp add: Percentile_def percentileAt_def)

lemma foldl_min: "foldl (\<lambda>m s. if s < m then s else m) d ds = Min (insert (d :: time) (set ds))"
proof (induction ds arbitrary: d)
  case (Cons s ds)
  have "Min (insert d (insert s (set ds))) = Min (insert (min d s) (set ds))"
    by (cases "ds = []") (simp_all add: min.assoc)
  then show ?case using Cons.IH [of "if s < d then s else d"] by (simp add: min_def split: if_splits)
qed simp

lemma foldl_max: "foldl (\<lambda>m s. if m < s then s else m) d ds = Max (insert (d :: time) (set ds))"
proof (induction ds arbitrary: d)
  case (Cons s ds)
  have "Max (insert d (insert s (set ds))) = Max (insert (max d s) (set ds))"
    by (cases "ds = []") (simp_all add: max.assoc)
  then show ?case using Cons.IH [of "if d < s then s else d"] by (simp add: max_def split: if_splits)
qed simp

theorem BuildResult_statistics:
  assumes "ds \<noteq> []"
  shows "bres_Min (BuildResult name ds errs d) = Min (set ds)" "bres_Max (BuildResult name ds errs d) = Max (set ds)"
    and "bres_P99 (BuildResult name ds errs d) \<le> t \<longleftrightarrow> 99 * length ds \<le> 100 * length (filter (\<lambda>s. s \<le> t) ds)"
proof -
  have "sort ds \<noteq> []" using assms by simp
  then obtain x xs where x: "sort ds = x # xs" by (cases "sort ds") auto
  then have "set ds = insert x (set xs)" by (metis list.simps(15) set_sort)
  then show "bres_Min (BuildResult name ds errs d) = Min (set ds)" "bres_Max (BuildResult name ds errs d) = Max (set ds)"
    by (simp_all add: BuildResult_def Let_def x MinDuration_def MaxDuration_def foldl_min foldl_max)
  show "bres_P99 (BuildResult name ds errs d) \<le> t \<longleftrightarrow> 99 * length ds \<le> 100 * length (filter (\<lambda>s. s \<le> t) ds)"
    using percentileAt_le_iff [OF assms, of 99 t] by (simp add: BuildResult_def Let_def Percentile_percentileAt sorted_sort_id)
qed

section \<open>Seeds and schema\<close>

lemma seed_rows_Inr:
  "seed_rows body is w = Some (Inr rs, w') \<Longrightarrow>
   list_all2 (\<lambda>i r. \<exists>w1 w2. body i w1 = Some (Inr r, w2)) is rs"
proof (induction "is" arbitrary: rs w)
  case Nil
  then show ?case by (simp add: io_eval)
next
  case (Cons i "is")
  obtain x w1 where x: "body i w = Some (x, w1)" using Cons.prems by (cases "body i w") (auto simp: io_eval)
  show ?case
  proof (cases x)
    case (Inr r)
    then obtain y w2 where y: "seed_rows body is w1 = Some (y, w2)"
      using Cons.prems x by (cases "seed_rows body is w1") (auto simp: io_eval)
    then obtain rs' where "y = Inr rs'" "rs = r # rs'" using Cons.prems x Inr by (cases y) (auto simp: io_eval)
    then show ?thesis using Cons.IH [of w1 rs'] x y Inr Cons.prems by (auto simp: io_eval)
  qed (use Cons.prems x in \<open>simp add: io_eval\<close>)
qed

lemma list_all2_slugs: "list_all2 (\<lambda>i r. trow_Slug r = tenant_slug_at i) is rows \<Longrightarrow> map trow_Slug rows = map tenant_slug_at is"
  by (induction rule: list_all2_induct) simp_all

text \<open>The seeded tenants have the slugs \<open>tenant-0000\<close>, \<open>tenant-0001\<close>, ..., one row for each number.\<close>

theorem SeedTenants_slugs:
  assumes "SeedTenants E n w = Some (Inr rows, w')"
  shows "0 \<le> n \<and> map trow_Slug rows = map tenant_slug_at [0 ..< nat n]"
proof -
  have n: "0 \<le> n" and run: "seed_rows (seed_tenant E) [0 ..< nat n] w = Some (Inr rows, w')"
    using assms by (auto simp: SeedTenants_def io_eval split: if_splits)
  have one: "trow_Slug r = tenant_slug_at i" if "seed_tenant E i w1 = Some (Inr r, w2)" for i r w1 w2
    using that by (auto simp: seed_tenant_def io_eval split: prod.splits option.splits)
  have "list_all2 (\<lambda>i r. trow_Slug r = tenant_slug_at i) [0 ..< nat n] rows"
    by (rule list_all2_mono [OF seed_rows_Inr [OF run]]) (use one in blast)
  from list_all2_slugs [OF this] n show ?thesis by blast
qed

text \<open>Waiting for the view ends when sleeping lets time pass.\<close>

theorem WaitForMVReady_returns:
  assumes "\<And>w. clk (snd (se_Now E w)) = clk w \<and> fst (se_Now E w) = clk w" "\<And>q w. clk w \<le> clk (snd (se_count E q w))"
    and "\<And>d w. clk w + d \<le> clk (snd (se_Sleep E d w))"
  shows "io_ends (WaitForMVReady E timeout)"
proof -
  have "\<exists>r. mv_loop E timeout dl w = Some r" for dl w
  proof (induction "nat (dl - clk w)" arbitrary: w rule: less_induct)
    case less
    obtain now w1 where n: "se_Now E w = (now, w1)" by (metis prod.exhaust)
    obtain c w2 where c: "se_count E ''SELECT count(*) FROM cf.tenants_by_slug'' w1 = (c, w2)" by (metis prod.exhaust)
    obtain u w3 where z: "se_Sleep E (500 * Millisecond) w2 = (u, w3)" by (metis prod.exhaust)
    have t: "now = clk w" "clk w1 = clk w" "clk w1 \<le> clk w2" "clk w2 + 500 * Millisecond \<le> clk w3"
      using assms(1) [of w] assms(2) [of w1 "''SELECT count(*) FROM cf.tenants_by_slug''"] assms(3) [of w2 "500 * Millisecond"]
      by (simp_all add: n c z)
    have "\<exists>r. mv_loop E timeout dl w3 = Some r" if "\<not> dl \<le> now"
      by (rule less) (use t that in \<open>simp add: Millisecond_def\<close>)
    then show ?case by (subst mv_loop.simps) (simp add: n c z)
  qed
  then show ?thesis
    unfolding WaitForMVReady_def by (intro io_gives_after [OF io_ends_call]) (simp add: io_gives_def)
qed

section \<open>The final verdict\<close>

text \<open>
  The exit code is 0 exactly when no read failed and both races had one winner. The targets of the latencies,
  by which the rows of the tables pass or fail, do not matter.
\<close>

theorem exit_ignores_latency:
  assumes "bench_exit rs claim trn = 0"
  shows "bench_exit (map (\<lambda>r. r\<lparr>bres_P99 := slow\<rparr>) rs) claim trn = 0"
    and "thresholdMV < slow \<Longrightarrow> r \<in> set (map (\<lambda>r. r\<lparr>bres_P99 := slow\<rparr>) rs) \<Longrightarrow> \<not> row_verdict r"
  using assms
  by (auto simp: bench_exit_def bench_pass_def row_verdict_def verdictFor_def thresholdMV_def thresholdHotPath_def
      Millisecond_def split: if_splits)

end
