(* ===== verification/NatsSpike.thy ===== *)
theory NatsSpike
  imports KnativeBench Json
begin

text \<open>
  The spike \<open>spikes/nats-routing\<close>: the dispatcher and its consumer loop as a step relation beside the \<open>select\<close>
  that waits for it, the tests of isolation, latency and provisioning over a record of calls to NATS, the
  change of the server configuration, the results and the command. The context of a run is fixed in the
  record; log lines are left out.
\<close>

section \<open>types.go and events.go\<close>

record CloudEvent =
  ce_SpecVersion :: string
  ce_Type :: string
  ce_Source :: string
  ce_ID :: string
  ce_DataContentType :: string
  ce_Data :: string

record 't LatencyStats =
  lat_P50 :: time
  lat_P95 :: time
  lat_P99 :: time
  lat_Min :: time
  lat_Max :: time
  lat_Throughput :: 't

record 't SpikeResult =
  q1_Pass :: bool
  q1_Detail :: string
  q2_Pass :: bool
  q2_Detail :: string
  q3_Stats :: "'t LatencyStats"
  q3_Detail :: string
  q4_Pass :: bool
  q4_Detail :: string
  q5_Pass :: bool
  q5_Duration :: time
  q5_Detail :: string

record ProvisionedAccount =
  pa_AccountName :: string
  pa_User :: string
  pa_Password :: string

definition DefaultBenchmarkMessages :: int where "DefaultBenchmarkMessages = 10000"

definition BuildCloudEvent :: "time \<Rightarrow> string \<Rightarrow> string \<Rightarrow> string \<Rightarrow> CloudEvent" where
  "BuildCloudEvent now eventType source rawDataJSON =
     \<lparr>ce_SpecVersion = ''1.0'', ce_Type = eventType, ce_Source = ''//'' @ source, ce_ID = fmt_int now,
      ce_DataContentType = ''application/json'', ce_Data = rawDataJSON\<rparr>"

text \<open>\<open>Marshal\<close> writes the keys of a map in order; \<open>created_at\<close> is the current time in RFC 3339.\<close>

definition BuildBenchmarkPayload :: "string \<Rightarrow> CloudEvent" where
  "BuildBenchmarkPayload created_at =
     \<lparr>ce_SpecVersion = ''1.0'', ce_Type = ''com.cloudforge.bucket.created'', ce_Source = ''//storage-svc'', ce_ID = ''benchmark'',
      ce_DataContentType = ''application/json'',
      ce_Data = Marshal (JObj [(''_padding'', JStr (replicate 600 CHR ''x'')), (''created_at'', JStr created_at),
        (''name'', JStr ''benchmark-bucket''), (''project'', JStr ''bench-project''), (''region'', JStr ''eu-west-1''),
        (''tenant'', JStr ''bench-tenant'')])\<rparr>"

definition PadTo1KB :: "string \<Rightarrow> string" where
  "PadTo1KB dat = take 1024 (dat @ replicate (1024 - length dat) CHR '' '')"

section \<open>dispatcher.go\<close>

datatype DispatchResult = DispatchOK | DispatchUnknownType | DispatchDecodeError

type_synonym 'w RouteHandler = "CloudEvent \<Rightarrow> 'w \<Rightarrow> 'w"

text \<open>\<open>unmarshal\<close> is \<open>json.Unmarshal\<close> into a \<open>CloudEvent\<close>, which keeps the field \<open>data\<close> as it is written.\<close>

definition Dispatch ::
  "(string \<Rightarrow> gerror + CloudEvent) \<Rightarrow> (string \<rightharpoonup> 'w RouteHandler) \<Rightarrow> string \<Rightarrow> 'w \<Rightarrow> (DispatchResult \<times> gerror option) \<times> 'w" where
  "Dispatch unmarshal routes dat w =
     (case unmarshal dat of
        Inl e \<Rightarrow> ((DispatchDecodeError, Some (Errorf ''unmarshal CloudEvent: '' e)), w)
      | Inr ev \<Rightarrow>
          (case routes (ce_Type ev) of
             None \<Rightarrow> ((DispatchUnknownType, Some (Text (''no route for type '' @ Quote (ce_Type ev)))), w)
           | Some handler \<Rightarrow> ((DispatchOK, None), handler ev w)))"

text \<open>The handlers log the event; a log is a list of messages with their fields.\<close>

type_synonym route_log = "(string \<times> string list) list"

definition arrow :: string where "arrow = [CHR 0xE2, CHR 0x86, CHR 0x92]"

definition HandleBucketCreated :: "route_log RouteHandler" where
  "HandleBucketCreated ev w = w @ [(arrow @ '' handleBucketCreated'', [ce_ID ev, ce_Source ev, ce_Data ev])]"

definition HandleBucketDeleted :: "route_log RouteHandler" where
  "HandleBucketDeleted ev w = w @ [(arrow @ '' handleBucketDeleted'', [ce_ID ev, ce_Source ev, ce_Data ev])]"

definition NewDefaultRoutes :: "string \<rightharpoonup> route_log RouteHandler" where
  "NewDefaultRoutes = [''com.cloudforge.bucket.created'' \<mapsto> HandleBucketCreated, ''com.cloudforge.bucket.deleted'' \<mapsto> HandleBucketDeleted]"

section \<open>routing.go\<close>

text \<open>
  The goroutine of \<open>ConsumeAndDispatch\<close>: it has \<open>left\<close> messages to go; what it did with each is in \<open>settled\<close>.
  \<open>delivers\<close> are the messages and errors \<open>msgs.Next\<close> may return.
\<close>

datatype settlement = Ack | Term | Nak

record 'w consume_state =
  cs_left :: nat
  cs_errors :: "string list"
  cs_settled :: "(string \<times> settlement) list"
  cs_world :: 'w

inductive consume_step ::
  "(string \<Rightarrow> gerror + CloudEvent) \<Rightarrow> (string \<rightharpoonup> 'w RouteHandler) \<Rightarrow> (gerror + string \<Rightarrow> bool) \<Rightarrow>
   'w consume_state \<Rightarrow> 'w consume_state \<Rightarrow> bool" for unmarshal routes delivers where
  next_failed: "cs_left st = Suc n \<Longrightarrow> delivers (Inl e) \<Longrightarrow>
     consume_step unmarshal routes delivers st
       (st\<lparr>cs_left := n, cs_errors := cs_errors st @ [''msgs.Next: '' @ Error_String e]\<rparr>)"
| dispatched: "cs_left st = Suc n \<Longrightarrow> delivers (Inr dat) \<Longrightarrow> Dispatch unmarshal routes dat (cs_world st) = ((DispatchOK, err), w) \<Longrightarrow>
     consume_step unmarshal routes delivers st
       (st\<lparr>cs_left := n, cs_settled := cs_settled st @ [(dat, Ack)], cs_world := w\<rparr>)"
| discarded: "cs_left st = Suc n \<Longrightarrow> delivers (Inr dat) \<Longrightarrow>
     Dispatch unmarshal routes dat (cs_world st) = ((DispatchUnknownType, err), w) \<Longrightarrow>
     consume_step unmarshal routes delivers st
       (st\<lparr>cs_left := n, cs_settled := cs_settled st @ [(dat, Term)], cs_world := w\<rparr>)"
| undecodable: "cs_left st = Suc n \<Longrightarrow> delivers (Inr dat) \<Longrightarrow>
     Dispatch unmarshal routes dat (cs_world st) = ((DispatchDecodeError, Some e), w) \<Longrightarrow>
     consume_step unmarshal routes delivers st
       (st\<lparr>cs_left := n, cs_errors := cs_errors st @ [Error_String e], cs_settled := cs_settled st @ [(dat, Nak)], cs_world := w\<rparr>)"

text \<open>
  What \<open>ConsumeAndDispatch\<close> may return: the \<open>select\<close> sees the goroutine done, or the timer or the end of the
  context, in whatever state the goroutine is then.
\<close>

definition consume_start :: "nat \<Rightarrow> 'w \<Rightarrow> 'w consume_state" where
  "consume_start n w = \<lparr>cs_left = n, cs_errors = [], cs_settled = [], cs_world = w\<rparr>"

inductive ConsumeAndDispatch ::
  "(string \<Rightarrow> gerror + CloudEvent) \<Rightarrow> (string \<rightharpoonup> 'w RouteHandler) \<Rightarrow> (gerror + string \<Rightarrow> bool) \<Rightarrow> nat \<Rightarrow> 'w \<Rightarrow>
   string list \<Rightarrow> 'w consume_state \<Rightarrow> bool" for unmarshal routes delivers n w where
  all_done: "(consume_step unmarshal routes delivers)\<^sup>*\<^sup>* (consume_start n w) st \<Longrightarrow> cs_left st = 0 \<Longrightarrow>
     ConsumeAndDispatch unmarshal routes delivers n w (cs_errors st) st"
| timed_out: "(consume_step unmarshal routes delivers)\<^sup>*\<^sup>* (consume_start n w) st \<Longrightarrow>
     ConsumeAndDispatch unmarshal routes delivers n w (cs_errors st @ [''timeout waiting for messages'']) st"
| cancelled: "(consume_step unmarshal routes delivers)\<^sup>*\<^sup>* (consume_start n w) st \<Longrightarrow>
     ConsumeAndDispatch unmarshal routes delivers n w (cs_errors st @ [''context cancelled: '' @ Error_String e]) st"

section \<open>The world\<close>

record nats_options =
  no_User :: string
  no_Password :: string
  no_Timeout :: time
  no_MaxReconnects :: "int option"
  no_ReconnectWait :: "time option"

record stream_config =
  scf_Name :: string
  scf_Subjects :: "string list"
  scf_WorkQueue :: bool

datatype sanity_event = SanityReceived | SanityTimer | SanityCancelled

record ('n, 's, 't, 'w) nats_env =
  ne_Now :: "'w \<Rightarrow> time \<times> 'w"
  ne_Wait :: "time \<Rightarrow> 'w \<Rightarrow> gerror option \<times> 'w"
  ne_Sleep :: "time \<Rightarrow> 'w \<Rightarrow> unit \<times> 'w"
  ne_Connect :: "string \<Rightarrow> nats_options \<Rightarrow> 'w \<Rightarrow> (gerror + 'n) \<times> 'w"
  ne_Close :: "'n \<Rightarrow> 'w \<Rightarrow> unit \<times> 'w"
  ne_Drain :: "'n \<Rightarrow> 'w \<Rightarrow> unit \<times> 'w"
  ne_Subscribe :: "'n \<Rightarrow> string \<Rightarrow> 'w \<Rightarrow> (gerror + 's) \<times> 'w"
  ne_Unsubscribe :: "'s \<Rightarrow> 'w \<Rightarrow> unit \<times> 'w"
  ne_Flush :: "'n \<Rightarrow> 'w \<Rightarrow> gerror option \<times> 'w"
  ne_Publish :: "'n \<Rightarrow> string \<Rightarrow> string \<Rightarrow> 'w \<Rightarrow> gerror option \<times> 'w"
  ne_Receive :: "'s \<Rightarrow> time \<Rightarrow> 'w \<Rightarrow> string option \<times> 'w"
  ne_Sanity :: "'s \<Rightarrow> time \<Rightarrow> 'w \<Rightarrow> sanity_event \<times> 'w"
  ne_JetStream :: "'n \<Rightarrow> 'w \<Rightarrow> gerror option \<times> 'w"
  ne_CreateStream :: "'n \<Rightarrow> stream_config \<Rightarrow> 'w \<Rightarrow> gerror option \<times> 'w"
  ne_DeleteStream :: "'n \<Rightarrow> string \<Rightarrow> 'w \<Rightarrow> unit \<times> 'w"
  ne_js_Publish :: "'n \<Rightarrow> string \<Rightarrow> string \<Rightarrow> 'w \<Rightarrow> gerror option \<times> 'w"
  ne_CreateConsumer :: "'n \<Rightarrow> string \<Rightarrow> string \<Rightarrow> 'w \<Rightarrow> gerror option \<times> 'w"
  ne_Messages :: "'n \<Rightarrow> string \<Rightarrow> 'w \<Rightarrow> gerror option \<times> 'w"
  ne_Stop :: "'n \<Rightarrow> string \<Rightarrow> 'w \<Rightarrow> unit \<times> 'w"
  ne_MarshalEvent :: "CloudEvent \<Rightarrow> string"
  ne_ReadFile :: "string \<Rightarrow> 'w \<Rightarrow> (gerror + string) \<times> 'w"
  ne_WriteFile :: "string \<Rightarrow> string \<Rightarrow> 'w \<Rightarrow> gerror option \<times> 'w"
  ne_Remove :: "string \<Rightarrow> 'w \<Rightarrow> unit \<times> 'w"
  ne_Command :: "string list \<Rightarrow> 'w \<Rightarrow> gerror option \<times> 'w"
  ne_TempDir :: string
  ne_RFC3339 :: "time \<Rightarrow> string"
  ne_throughput :: "nat \<Rightarrow> time \<Rightarrow> 't"
  ne_fmt_0f :: "'t \<Rightarrow> string"

text \<open>\<open>defer d\<close> around the rest of a function that does not panic.\<close>

definition io_defer :: "('w \<Rightarrow> unit \<times> 'w) \<Rightarrow> ('w, 'a) io \<Rightarrow> ('w, 'a) io" where
  "io_defer d m = io_then m (\<lambda>x. io_then (io_call d) (\<lambda>_. io_ret x))"

text \<open>\<open>if err := call; err != nil { return false, fmt.Sprintf("...: %v", err) }\<close>.\<close>

definition or_fail :: "('w \<Rightarrow> gerror option \<times> 'w) \<Rightarrow> string \<Rightarrow> ('w, bool \<times> string) io \<Rightarrow> ('w, bool \<times> string) io" where
  "or_fail call what k = io_then (io_call call) (\<lambda>err. case err of
     Some e \<Rightarrow> io_ret (False, what @ Error_String e) | None \<Rightarrow> k)"

section \<open>connect.go\<close>

fun connect_loop ::
  "('n, 's, 't, 'w) nats_env \<Rightarrow> string \<Rightarrow> string \<Rightarrow> string \<Rightarrow> int \<Rightarrow> time \<Rightarrow> nat list \<Rightarrow> gerror option \<Rightarrow> ('w, gerror + 'n) io" where
  "connect_loop E url user password maxRetries retryDelay [] err =
     io_ret (Inl (case err of
       Some e \<Rightarrow> Errorf (''all '' @ fmt_int maxRetries @ '' NATS connection attempts failed for user '' @ Quote user @ '': '') e
     | None \<Rightarrow> Text (''all '' @ fmt_int maxRetries @ '' NATS connection attempts failed for user '' @ Quote user @ '': %!w(<nil>)'')))"
| "connect_loop E url user password maxRetries retryDelay (i # idx) err =
     io_then (io_call (ne_Connect E url \<lparr>no_User = user, no_Password = password, no_Timeout = 5 * Second,
         no_MaxReconnects = Some 5, no_ReconnectWait = Some (500 * Millisecond)\<rparr>))
       (\<lambda>r. case r of
          Inr nc \<Rightarrow> io_ret (Inr nc)
        | Inl e \<Rightarrow>
            if 0 < retryDelay
            then io_then (io_call (ne_Wait E retryDelay)) (\<lambda>ctxErr. case ctxErr of
                   Some c \<Rightarrow> io_ret (Inl (Errorf (''context cancelled after attempt '' @ Itoa (i + 1) @ '': '') c))
                 | None \<Rightarrow> connect_loop E url user password maxRetries retryDelay idx (Some e))
            else connect_loop E url user password maxRetries retryDelay idx (Some e))"

definition connectWithRetryCtx ::
  "('n, 's, 't, 'w) nats_env \<Rightarrow> string \<Rightarrow> string \<Rightarrow> string \<Rightarrow> int \<Rightarrow> time \<Rightarrow> ('w, gerror + 'n) io" where
  "connectWithRetryCtx E url user password maxRetries retryDelay =
     connect_loop E url user password maxRetries retryDelay [0 ..< nat maxRetries] None"

text \<open>Under \<open>context.Background()\<close> a wait only sleeps.\<close>

definition ConnectWithRetryN ::
  "('n, 's, 't, 'w) nats_env \<Rightarrow> string \<Rightarrow> string \<Rightarrow> string \<Rightarrow> int \<Rightarrow> time \<Rightarrow> ('w, gerror + 'n) io" where
  "ConnectWithRetryN E url user password maxRetries retryDelay =
     connectWithRetryCtx (E\<lparr>ne_Wait := (\<lambda>d w. (None, snd (ne_Sleep E d w)))\<rparr>) url user password maxRetries retryDelay"

definition ConnectWithRetry :: "('n, 's, 't, 'w) nats_env \<Rightarrow> string \<Rightarrow> string \<Rightarrow> string \<Rightarrow> ('w, gerror + 'n) io" where
  "ConnectWithRetry E url user password = ConnectWithRetryN E url user password 10 (2 * Second)"

definition ConnectWithRetryCtx ::
  "('n, 's, 't, 'w) nats_env \<Rightarrow> string \<Rightarrow> string \<Rightarrow> string \<Rightarrow> int \<Rightarrow> time \<Rightarrow> ('w, gerror + 'n) io" where
  "ConnectWithRetryCtx = connectWithRetryCtx"

definition GetEnvOrDefault :: "(string \<rightharpoonup> string) \<Rightarrow> string \<Rightarrow> string \<Rightarrow> string" where
  "GetEnvOrDefault env key defaultVal =
     (case env key of Some v \<Rightarrow> if v \<noteq> [] then v else defaultVal | None \<Rightarrow> defaultVal)"

section \<open>RunContentBasedRouting\<close>

definition RoutingStreamName :: string where "RoutingStreamName = ''ROUTING_TEST''"
definition RoutingSubject :: string where "RoutingSubject = ''events.all''"

definition routing_events :: "time \<Rightarrow> time \<Rightarrow> CloudEvent list" where
  "routing_events t1 t2 =
     [BuildCloudEvent t1 ''com.cloudforge.bucket.created'' ''storage-svc'' ''{\"name\":\"my-bucket\"}'',
      BuildCloudEvent t2 ''com.cloudforge.bucket.deleted'' ''storage-svc'' ''{\"name\":\"my-bucket\"}'']"

fun publish_events ::
  "('n, 's, 't, 'w) nats_env \<Rightarrow> 'n \<Rightarrow> CloudEvent list \<Rightarrow> ('w, bool \<times> string) io \<Rightarrow> ('w, bool \<times> string) io" where
  "publish_events E nc [] k = k"
| "publish_events E nc (ev # evs) k =
     or_fail (ne_js_Publish E nc RoutingSubject (ne_MarshalEvent E ev)) ''js.Publish failed: '' (publish_events E nc evs k)"

text \<open>\<open>consume n\<close> is what \<open>ConsumeAndDispatch\<close> returns for \<open>n\<close> messages.\<close>

definition RunContentBasedRouting ::
  "('n, 's, 't, 'w) nats_env \<Rightarrow> (nat \<Rightarrow> 'w \<Rightarrow> string list \<times> 'w) \<Rightarrow> 'n \<Rightarrow> ('w, bool \<times> string) io" where
  "RunContentBasedRouting E consume nc =
     or_fail (ne_JetStream E nc) ''jetstream.New failed: ''
      (or_fail (ne_CreateStream E nc \<lparr>scf_Name = RoutingStreamName, scf_Subjects = [''events.>''], scf_WorkQueue = True\<rparr>)
        ''CreateOrUpdateStream failed: ''
       (io_defer (ne_DeleteStream E nc RoutingStreamName)
         (io_then (io_call (ne_Now E)) (\<lambda>t1. io_then (io_call (ne_Now E)) (\<lambda>t2.
          publish_events E nc (routing_events t1 t2)
            (or_fail (ne_CreateConsumer E nc RoutingStreamName ''events.>'') ''CreateOrUpdateConsumer failed: ''
              (or_fail (ne_Messages E nc RoutingStreamName) ''consumer.Messages() failed: ''
                (io_defer (ne_Stop E nc RoutingStreamName)
                  (io_then (io_call (consume (length (routing_events t1 t2)))) (\<lambda>dispatchErrors. io_ret
                     (if dispatchErrors \<noteq> [] then (False, ''dispatch errors: '' @ Join dispatchErrors ''; '')
                      else (True, ''content-based routing works: dispatcher reads 'type' field and calls per-type handlers'')))))))))))) "

section \<open>isolation.go\<close>

definition RunIsolationTest :: "('n, 's, 't, 'w) nats_env \<Rightarrow> 'n \<Rightarrow> 'n \<Rightarrow> string \<Rightarrow> ('w, bool \<times> string) io" where
  "RunIsolationTest E ncA ncB subject =
     io_then (io_call (ne_Subscribe E ncA subject)) (\<lambda>r. case r of
       Inl e \<Rightarrow> io_ret (False, ''ncA subscribe failed: '' @ Error_String e)
     | Inr sub \<Rightarrow> io_defer (ne_Unsubscribe E sub)
        (or_fail (ne_Flush E ncA) ''ncA flush failed: ''
        (or_fail (ne_Publish E ncB subject ''{\"spy\":\"should-not-arrive\"}'') ''ncB publish failed: ''
        (or_fail (ne_Flush E ncB) ''ncB flush failed: ''
        (io_then (io_call (ne_Receive E sub (300 * Millisecond))) (\<lambda>msg. case msg of
           Some dat \<Rightarrow> io_ret (False, ''ISOLATION BROKEN: ncA received ncB message: '' @ dat)
         | None \<Rightarrow>
             io_then (io_call (ne_Subscribe E ncA (subject @ ''.sanity''))) (\<lambda>r. case r of
               Inl e \<Rightarrow> io_ret (False, ''sanity subscribe failed: '' @ Error_String e)
             | Inr sanity \<Rightarrow> io_defer (ne_Unsubscribe E sanity)
                 (or_fail (ne_Publish E ncA (subject @ ''.sanity'') ''ping'') ''sanity publish failed: ''
                 (io_then (io_call (ne_Sanity E sanity (300 * Millisecond))) (\<lambda>ev. io_ret (case ev of
                    SanityReceived \<Rightarrow> (True, ''NATS account isolation is complete: cross-account messages are silently dropped'')
                  | SanityTimer \<Rightarrow> (False, ''sanity check failed: ncA did not receive its own message within 300ms'')
                  | SanityCancelled \<Rightarrow> (False, ''context cancelled during sanity check'')))))))))))) "

section \<open>stats.go and benchmark.go\<close>

text \<open>Callers do not pass an empty list, for which the code panics.\<close>

definition nearest_rank :: "time list \<Rightarrow> nat \<Rightarrow> time" where
  "nearest_rank ds p = ds ! ((p * length ds + 99) div 100 - 1)"

definition ComputePercentiles :: "('n, 's, 't, 'w) nats_env \<Rightarrow> time list \<Rightarrow> time \<Rightarrow> 't LatencyStats option" where
  "ComputePercentiles E latencies elapsed =
     (let ds = sort latencies in
      if ds = [] then None
      else Some \<lparr>lat_P50 = nearest_rank ds 50, lat_P95 = nearest_rank ds 95, lat_P99 = nearest_rank ds 99, lat_Min = hd ds,
             lat_Max = ds ! (length ds - 1), lat_Throughput = ne_throughput E (length ds) elapsed\<rparr>)"

primrec publish_timed :: "('n, 's, 't, 'w) nats_env \<Rightarrow> 'n \<Rightarrow> string \<Rightarrow> nat \<Rightarrow> ('w, time list) io" where
  "publish_timed E nc dat 0 = io_ret []"
| "publish_timed E nc dat (Suc n) =
     io_then (io_call (ne_Now E)) (\<lambda>t0.
     io_then (io_call (ne_js_Publish E nc ''bench.events'' dat)) (\<lambda>err.
     if err \<noteq> None then publish_timed E nc dat n
     else io_then (io_call (ne_Now E)) (\<lambda>t1.
          io_then (publish_timed E nc dat n) (\<lambda>ds. io_ret ((t1 - t0) # ds)))))"

text \<open>\<open>zero\<close> is the zero value of \<open>LatencyStats\<close>.\<close>

definition RunLatencyBenchmark ::
  "('n, 's, 't, 'w) nats_env \<Rightarrow> 't LatencyStats \<Rightarrow> 'n \<Rightarrow> int \<Rightarrow> ('w, 't LatencyStats \<times> string) io" where
  "RunLatencyBenchmark E zero nc msgCount0 =
     (let msgCount = (if msgCount0 \<le> 0 then DefaultBenchmarkMessages else msgCount0);
          guard = (\<lambda>call what k. io_then (io_call call) (\<lambda>err. case err of
            Some e \<Rightarrow> io_ret (zero, what @ Error_String e) | None \<Rightarrow> k)) in
      guard (ne_JetStream E nc) ''jetstream.New: ''
       (guard (ne_CreateStream E nc \<lparr>scf_Name = ''BENCH'', scf_Subjects = [''bench.events''], scf_WorkQueue = False\<rparr>)
         ''CreateOrUpdateStream: ''
        (io_defer (ne_DeleteStream E nc ''BENCH'')
          (io_then (io_call (ne_Now E)) (\<lambda>created.
           io_then (io_call (ne_Now E)) (\<lambda>start.
           io_then (publish_timed E nc (PadTo1KB (ne_MarshalEvent E (BuildBenchmarkPayload (ne_RFC3339 E created)))) (nat msgCount))
             (\<lambda>latencies. io_then (io_call (ne_Now E)) (\<lambda>stop.
             let elapsed = stop - start in
             case ComputePercentiles E latencies elapsed of
               None \<Rightarrow> io_ret (zero, ''all publishes failed '' @ em_dash @ '' no latency data collected'')
             | Some s \<Rightarrow> io_ret (s, ''published '' @ Itoa (length latencies) @ '' messages in '' @
                 Duration_String (Duration_Round elapsed Millisecond) @ '' '' @ em_dash @ '' p50='' @ Duration_String (lat_P50 s) @
                 '' p95='' @ Duration_String (lat_P95 s) @ '' p99='' @ Duration_String (lat_P99 s) @ '' min='' @
                 Duration_String (lat_Min s) @ '' max='' @ Duration_String (lat_Max s) @ '' throughput='' @
                 ne_fmt_0f E (lat_Throughput s) @ '' msg/s'')))))))))"

section \<open>provisioning.go\<close>

definition two_digits :: "nat \<Rightarrow> string" where
  "two_digits n = zero_pad 2 (Itoa n)"

definition BuildAccountList :: "int \<Rightarrow> ProvisionedAccount list option" where
  "BuildAccountList n =
     (if n < 0 then None
      else Some (map (\<lambda>i. let num = i + 1 in
        \<lparr>pa_AccountName = ''TENANT_'' @ two_digits num, pa_User = ''tenant-'' @ two_digits num, pa_Password = ''pass-'' @ two_digits num\<rparr>)
        [0 ..< nat n]))"

text \<open>\<open>strings.Replace(s, old, new, 1)\<close> for a non-empty \<open>old\<close>.\<close>

fun Replace_first :: "string \<Rightarrow> string \<Rightarrow> string \<Rightarrow> string" where
  "Replace_first [] old new = []"
| "Replace_first (c # s) old new =
     (if HasPrefix (c # s) old then new @ drop (length old) (c # s) else c # Replace_first s old new)"

definition system_marker :: string where "system_marker = ''# Designate the system account''"

definition account_block :: "string \<Rightarrow> string \<Rightarrow> string \<Rightarrow> string" where
  "account_block accountName user password =
     NL @ ''  '' @ accountName @ '' {'' @ NL @ ''    users = [{ user: '' @ Quote user @ '', password: '' @ Quote password @ '' }]'' @ NL @
     ''    jetstream: enabled'' @ NL @ ''  }'' @ NL"

definition GenerateUpdatedConfig :: "string \<Rightarrow> string \<Rightarrow> string \<Rightarrow> string \<Rightarrow> string" where
  "GenerateUpdatedConfig current accountName user password =
     Replace_first current system_marker (account_block accountName user password @ NL @ system_marker)"

definition DemonstrateConfigReload :: "('n, 's, 't, 'w) nats_env \<Rightarrow> string \<Rightarrow> string \<Rightarrow> ('w, unit) io" where
  "DemonstrateConfigReload E url confPath =
     (if confPath = [] then io_ret ()
      else io_then (io_call (ne_ReadFile E confPath)) (\<lambda>r. case r of Inl e \<Rightarrow> io_ret () | Inr current \<Rightarrow>
        let updated = GenerateUpdatedConfig current ''TENANT_DYNAMIC'' ''user-dynamic'' ''password-dynamic'' in
        io_then (io_call (ne_Now E)) (\<lambda>now.
        let tmpPath = ne_TempDir E @ ''/nats-reload-'' @ fmt_int now @ ''.conf'' in
        io_defer (ne_Remove E tmpPath)
          (io_then (io_call (ne_WriteFile E tmpPath updated)) (\<lambda>_.
           io_then (io_call (ne_Command E [''docker'', ''cp'', tmpPath, ''nats-1:/config/nats.conf''])) (\<lambda>err.
           if err \<noteq> None then io_ret ()
           else io_then (io_call (ne_Command E [''docker'', ''kill'', ''--signal=HUP'', ''nats-1''])) (\<lambda>err.
             if err \<noteq> None then io_ret ()
             else io_then (io_call (ne_Sleep E (200 * Millisecond))) (\<lambda>_.
               io_then (io_call (ne_Connect E url \<lparr>no_User = ''user-dynamic'', no_Password = ''password-dynamic'',
                   no_Timeout = 3 * Second, no_MaxReconnects = None, no_ReconnectWait = None\<rparr>))
                 (\<lambda>r. case r of Inl e \<Rightarrow> io_ret () | Inr nc \<Rightarrow> io_call (ne_Close E nc))))))))))"

fun connect_all :: "('n, 's, 't, 'w) nats_env \<Rightarrow> string \<Rightarrow> ProvisionedAccount list \<Rightarrow> nat \<Rightarrow> ('w, nat) io" where
  "connect_all E url [] failures = io_ret failures"
| "connect_all E url (acc # accs) failures =
     io_then (io_call (ne_Connect E url \<lparr>no_User = pa_User acc, no_Password = pa_Password acc, no_Timeout = 5 * Second,
         no_MaxReconnects = Some 0, no_ReconnectWait = None\<rparr>))
       (\<lambda>r. case r of
          Inl e \<Rightarrow> connect_all E url accs (failures + 1)
        | Inr nc \<Rightarrow> io_then (io_call (ne_Close E nc)) (\<lambda>_. connect_all E url accs failures))"

text \<open>The deferred \<open>Drain\<close> of the connection of tenant C runs when the function returns.\<close>

definition RunProvisioningTest ::
  "('n, 's, 't, 'w) nats_env \<Rightarrow> string \<Rightarrow> string \<Rightarrow> string \<Rightarrow> string \<Rightarrow> ('w, (bool \<times> string) \<times> bool \<times> time \<times> string) io" where
  "RunProvisioningTest E url tenantCUser tenantCPass confPath =
     io_then (ConnectWithRetryN E url tenantCUser tenantCPass 3 0) (\<lambda>r.
     let q1 = (case r of
           Inl e \<Rightarrow> (False, ''cannot connect as tenant-c (Q1 inconclusive): '' @ Error_String e)
         | Inr nc \<Rightarrow> (True, ''TENANT_C is reachable without server restart '' @ em_dash @ '' config reload (SIGHUP) confirmed''));
         accounts = the (BuildAccountList 50);
         rest =
           io_then (io_call (ne_Now E)) (\<lambda>start.
           io_then (connect_all E url accounts 0) (\<lambda>failures.
           io_then (io_call (ne_Now E)) (\<lambda>stop.
           let q5Dur = stop - start; q5Pass = (failures = 0 \<and> q5Dur < 2 * Minute);
               q5Detail = ''connected to '' @ Itoa (length accounts - failures) @ ''/'' @ Itoa (length accounts) @ '' accounts in '' @
                 Duration_String (Duration_Round q5Dur Millisecond) @ '' '' @ em_dash @ '' threshold: 2m0s'' in
           io_then (DemonstrateConfigReload E url confPath) (\<lambda>_. io_ret (q1, q5Pass, q5Dur, q5Detail))))) in
     case r of Inl e \<Rightarrow> rest | Inr ncC \<Rightarrow> io_defer (ne_Drain E ncC) rest)"

section \<open>results.go, run.go and cmd\<close>

definition PassLabel :: "bool \<Rightarrow> string" where
  "PassLabel ok = (if ok then ''PASS '' @ check_mark else ''FAIL '' @ ballot_x)"

definition result_lines :: "('n, 's, 't, 'w) nats_env \<Rightarrow> 't SpikeResult \<Rightarrow> string list" where
  "result_lines E r =
     (let sep = box_line 72; d = Duration_String; s = q3_Stats r in
      [[], sep, ''  SPIKE 0.6 '' @ em_dash @ '' NATS JetStream Multi-Tenant Routing '' @ em_dash @ '' RESULTS'', sep, [],
       ''  Q1  Dynamic provisioning without restart   '' @ PassLabel (q1_Pass r), ''      '' @ q1_Detail r, [],
       ''  Q2  Cross-account isolation complete        '' @ PassLabel (q2_Pass r), ''      '' @ q2_Detail r, [],
       ''  Q3  Publish latency (1KB CloudEvent, JetStream sync publish)'',
       ''      p50 '' @ pad_right 10 (d (lat_P50 s)) @ ''  p95 '' @ pad_right 10 (d (lat_P95 s)) @ ''  p99 '' @ pad_right 10 (d (lat_P99 s)),
       ''      min '' @ pad_right 10 (d (lat_Min s)) @ ''  max '' @ pad_right 10 (d (lat_Max s)) @ ''  throughput '' @
         ne_fmt_0f E (lat_Throughput s) @ '' msg/s'',
       ''      threshold: p99 < 5ms  '' @ arrow @ ''  '' @ PassLabel (lat_P99 s < 5 * Millisecond), [],
       ''  Q4  Content-based routing implemented       '' @ PassLabel (q4_Pass r), ''      '' @ q4_Detail r, [],
       ''  Q5  50 accounts provisioned in < 2m         '' @ PassLabel (q5_Pass r),
       ''      Duration: '' @ d (Duration_Round (q5_Duration r) Millisecond), ''      '' @ q5_Detail r, [], sep])"

definition nats_PrintResults :: "('n, 's, 't, 'w) nats_env \<Rightarrow> 't SpikeResult \<Rightarrow> bool \<times> string" where
  "nats_PrintResults E r =
     (let critical = (q1_Pass r \<and> q2_Pass r \<and> q4_Pass r) in
      (critical, unlines (result_lines E r) @
        (if critical then NL @ ''  '' @ check_mark @ '' All critical spike questions passed.''
         else NL @ ''  '' @ ballot_x @ '' One or more critical spike questions failed. See FINDINGS.md.'') @ NL))"

definition nats_Run ::
  "('n, 's, 't, 'w) nats_env \<Rightarrow> (nat \<Rightarrow> 'w \<Rightarrow> string list \<times> 'w) \<Rightarrow> 't LatencyStats \<Rightarrow> string \<Rightarrow> string \<Rightarrow> ('w, bool \<times> string) io" where
  "nats_Run E consume zero url confPath =
     io_then (ConnectWithRetryCtx E url ''user-a'' ''password-a'' 10 (2 * Second)) (\<lambda>r. case r of
       Inl e \<Rightarrow> io_ret (False, [])
     | Inr ncA \<Rightarrow> io_defer (ne_Drain E ncA)
        (io_then (ConnectWithRetryCtx E url ''user-b'' ''password-b'' 10 (2 * Second)) (\<lambda>r. case r of
           Inl e \<Rightarrow> io_ret (False, [])
         | Inr ncB \<Rightarrow> io_defer (ne_Drain E ncB)
            (io_then (RunIsolationTest E ncA ncB ''events.secret'') (\<lambda>(q2Pass, q2Detail).
             io_then (RunContentBasedRouting E consume ncA) (\<lambda>(q4Pass, q4Detail).
             io_then (RunLatencyBenchmark E zero ncA 0) (\<lambda>(q3Stats, q3Detail).
             io_then (RunProvisioningTest E url ''user-c'' ''password-c'' confPath) (\<lambda>((q1Pass, q1Detail), q5Pass, q5Dur, q5Detail).
             io_ret (nats_PrintResults E
               \<lparr>q1_Pass = q1Pass, q1_Detail = q1Detail, q2_Pass = q2Pass, q2_Detail = q2Detail, q3_Stats = q3Stats,
                q3_Detail = q3Detail, q4_Pass = q4Pass, q4_Detail = q4Detail, q5_Pass = q5Pass, q5_Duration = q5Dur,
                q5_Detail = q5Detail\<rparr>))))))))) "

text \<open>\<open>main\<close> drops the result of \<open>RunWithTimeout\<close>, so the process exits with 0.\<close>

definition nats_main ::
  "('n, 's, 't, 'w) nats_env \<Rightarrow> (nat \<Rightarrow> 'w \<Rightarrow> string list \<times> 'w) \<Rightarrow> 't LatencyStats \<Rightarrow> (string \<rightharpoonup> string) \<Rightarrow> string \<Rightarrow> ('w, int \<times> string) io" where
  "nats_main E consume zero env confPath =
     io_then (nats_Run E consume zero (GetEnvOrDefault env ''NATS_URL'' ''nats://localhost:4222'') confPath) (\<lambda>(critical, out).
     io_ret (0, out))"

end
