(* ===== verification/NatsFacts.thy ===== *)
theory NatsFacts
  imports NatsSpike KnativeFacts
begin

text \<open>
  What holds of the NATS spike: what the consumer loop returns accounts for every message and leaves out the
  unrouted ones, the isolation test passes on silence and its sanity check alone, every function returns,
  where a new account goes in the configuration, and which results decide.
\<close>

section \<open>Dispatch\<close>

lemma Dispatch_result:
  "fst (fst (Dispatch unmarshal routes dat w)) =
     (case unmarshal dat of Inl e \<Rightarrow> DispatchDecodeError
      | Inr ev \<Rightarrow> if routes (ce_Type ev) = None then DispatchUnknownType else DispatchOK)"
  by (auto simp: Dispatch_def split: sum.splits option.splits)

lemma Dispatch_error: "snd (fst (Dispatch unmarshal routes dat w)) = None \<longleftrightarrow> fst (fst (Dispatch unmarshal routes dat w)) = DispatchOK"
  by (auto simp: Dispatch_def split: sum.splits option.splits)

section \<open>The consumer loop\<close>

lemma consume_bounded: "consume_step u routes dl st st' \<Longrightarrow> cs_left st' < cs_left st"
  by (induction rule: consume_step.induct) simp_all

text \<open>
  Every message is settled by its type: acknowledged when it was routed, terminated when there is no route,
  and returned to the stream when it cannot be decoded, which is an error; a failed \<open>Next\<close> is one too.
\<close>

definition settled_as :: "(string \<Rightarrow> gerror + CloudEvent) \<Rightarrow> (string \<rightharpoonup> 'w RouteHandler) \<Rightarrow> string \<times> settlement \<Rightarrow> bool" where
  "settled_as u routes x \<longleftrightarrow>
     (case u (fst x) of Inl e \<Rightarrow> snd x = Nak | Inr ev \<Rightarrow> snd x = (if routes (ce_Type ev) = None then Term else Ack))"

definition consume_inv :: "(string \<Rightarrow> gerror + CloudEvent) \<Rightarrow> (string \<rightharpoonup> 'w RouteHandler) \<Rightarrow> nat \<Rightarrow> 'w consume_state \<Rightarrow> bool" where
  "consume_inv u routes n st \<longleftrightarrow>
     (\<forall>x\<in>set (cs_settled st). settled_as u routes x) \<and>
     cs_left st + length (cs_errors st) + length (filter (\<lambda>x. snd x \<noteq> Nak) (cs_settled st)) = n \<and>
     length (filter (\<lambda>x. snd x = Nak) (cs_settled st)) \<le> length (cs_errors st)"

lemma step_consume_inv:
  assumes "consume_step u routes dl st st'" "consume_inv u routes n st"
  shows "consume_inv u routes n st'"
  using assms
proof (induction rule: consume_step.induct)
  case (next_failed st n' e)
  then show ?case by (simp add: consume_inv_def)
next
  case (dispatched st n' dat err w)
  have "settled_as u routes (dat, Ack)"
    using Dispatch_result [of u routes dat "cs_world st"] dispatched(3) by (auto simp: settled_as_def split: sum.splits if_splits)
  then show ?case using dispatched by (auto simp: consume_inv_def)
next
  case (discarded st n' dat err w)
  have "settled_as u routes (dat, Term)"
    using Dispatch_result [of u routes dat "cs_world st"] discarded(3) by (auto simp: settled_as_def split: sum.splits if_splits)
  then show ?case using discarded by (auto simp: consume_inv_def)
next
  case (undecodable st n' dat e w)
  have "settled_as u routes (dat, Nak)"
    using Dispatch_result [of u routes dat "cs_world st"] undecodable(3) by (auto simp: settled_as_def split: sum.splits if_splits)
  then show ?case using undecodable by (auto simp: consume_inv_def)
qed

lemma consume_reach:
  "(consume_step u routes dl)\<^sup>*\<^sup>* (consume_start n w) st \<Longrightarrow> consume_inv u routes n st"
proof (induction rule: rtranclp_induct)
  case base
  show ?case by (simp add: consume_inv_def consume_start_def)
next
  case (step st1 st2)
  from step_consume_inv [OF step.hyps(2) step.IH] show ?case .
qed

theorem no_errors_all_settled:
  assumes "ConsumeAndDispatch u routes dl n w [] st"
  shows "length (cs_settled st) = n \<and> (\<forall>(dat, s)\<in>set (cs_settled st). s \<noteq> Nak \<and> (\<exists>ev. u dat = Inr ev))"
  using assms
proof cases
  case all_done
  have inv: "consume_inv u routes n st" by (rule consume_reach [OF all_done(2)])
  then have nak: "filter (\<lambda>x. snd x = Nak) (cs_settled st) = []" using all_done(1) by (simp add: consume_inv_def)
  then have no: "\<forall>x\<in>set (cs_settled st). snd x \<noteq> Nak" by (simp add: filter_empty_conv)
  then have "filter (\<lambda>x. snd x \<noteq> Nak) (cs_settled st) = cs_settled st" by (simp add: filter_id_conv)
  then have "length (cs_settled st) = n" using inv all_done by (simp add: consume_inv_def)
  moreover have "\<forall>(dat, s)\<in>set (cs_settled st). s \<noteq> Nak \<and> (\<exists>ev. u dat = Inr ev)"
  proof (clarify, rule conjI)
    fix dat s assume m: "(dat, s) \<in> set (cs_settled st)"
    show "s \<noteq> Nak" using no m by force
    then show "\<exists>ev. u dat = Inr ev" using inv m by (cases "u dat") (auto simp: consume_inv_def settled_as_def)
  qed
  ultimately show ?thesis by blast
qed simp_all

text \<open>The test also passes when no event has a route: they are terminated and no handler runs.\<close>

theorem unrouted_events_pass:
  assumes "u dat = Inr ev" "routes (ce_Type ev) = None" "dl (Inr dat)"
  shows "\<exists>st. ConsumeAndDispatch u routes dl n w [] st \<and> cs_world st = w \<and> cs_settled st = replicate n (dat, Term)"
proof -
  define st where "st k = \<lparr>cs_left = n - k, cs_errors = [], cs_settled = replicate k (dat, Term), cs_world = w\<rparr>" for k
  have run: "k \<le> n \<Longrightarrow> (consume_step u routes dl)\<^sup>*\<^sup>* (consume_start n w) (st k)" for k
  proof (induction k)
    case 0
    then show ?case by (simp add: st_def consume_start_def)
  next
    case (Suc k)
    have "consume_step u routes dl (st k) ((st k)\<lparr>cs_left := n - Suc k, cs_settled := cs_settled (st k) @ [(dat, Term)], cs_world := w\<rparr>)"
      by (rule consume_step.discarded [where err = "Some (Text (''no route for type '' @ Quote (ce_Type ev)))"])
        (use Suc.prems assms in \<open>simp_all add: st_def Dispatch_def\<close>)
    moreover have "(st k)\<lparr>cs_left := n - Suc k, cs_settled := cs_settled (st k) @ [(dat, Term)], cs_world := w\<rparr> = st (Suc k)"
      by (simp add: st_def replicate_append_same)
    ultimately show ?case using Suc by (metis Suc_leD rtranclp.rtrancl_into_rtrancl)
  qed
  have "ConsumeAndDispatch u routes dl n w (cs_errors (st n)) (st n)"
    by (rule all_done [OF run]) (simp_all add: st_def)
  then show ?thesis by (intro exI [of _ "st n"]) (simp add: st_def)
qed

section \<open>Every function returns\<close>

lemma io_ends_defer [intro]: "io_gives P m \<Longrightarrow> io_gives P (io_defer d m)"
  unfolding io_defer_def by (rule io_gives_then, assumption) (intro io_gives_after [OF io_ends_call] io_gives_ret)

lemma or_fail_gives: "(\<And>e. P (False, what @ Error_String e)) \<Longrightarrow> io_gives P k \<Longrightarrow> io_gives P (or_fail call what k)"
  unfolding or_fail_def by (intro io_gives_after [OF io_ends_call] io_gives_option io_gives_ret; simp)

lemma connect_loop_ends: "io_ends (connect_loop E url user pw m d idx err)"
proof (induction idx arbitrary: err)
  case (Cons i idx)
  then show ?case
    unfolding connect_loop.simps by (intro io_walk io_gives_ret TrueI)
qed (auto intro: io_gives_ret)

lemma connect_all_counts: "io_gives (\<lambda>f. failures \<le> f \<and> f \<le> failures + length accs) (connect_all E url accs failures)"
proof (induction accs arbitrary: failures)
  case (Cons acc accs)
  show ?case unfolding connect_all.simps
  proof (intro io_walk)
    show "io_gives (\<lambda>f. failures \<le> f \<and> f \<le> failures + length (acc # accs)) (connect_all E url accs (failures + 1))"
      by (rule io_gives_mono [OF Cons.IH]) simp
    show "io_gives (\<lambda>f. failures \<le> f \<and> f \<le> failures + length (acc # accs)) (connect_all E url accs failures)"
      by (rule io_gives_mono [OF Cons.IH]) simp
  qed
qed (auto intro: io_gives_ret)

lemma publish_timed_length: "io_gives (\<lambda>ds. length ds \<le> n) (publish_timed E nc dat n)"
proof (induction n)
  case (Suc n)
  have more: "io_gives (\<lambda>ds. length ds \<le> Suc n) (publish_timed E nc dat n)" by (rule io_gives_mono [OF Suc]) simp
  have "io_gives (\<lambda>ds. length ds \<le> Suc n) (io_then (publish_timed E nc dat n) (\<lambda>ds. io_ret (d # ds)))" for d
    by (rule io_gives_then [OF Suc]) (rule io_gives_ret, simp)
  then show ?case unfolding publish_timed.simps by (intro io_walk more)
qed (auto intro: io_gives_ret)

text \<open>A whole run returns, whatever the servers and commands answer.\<close>

lemma routing_ends: "io_ends (RunContentBasedRouting E consume nc)"
proof -
  have pub: "io_ends k \<Longrightarrow> io_ends (publish_events E nc evs k)" for evs k
    by (induction evs) (auto intro: or_fail_gives)
  show ?thesis
    unfolding RunContentBasedRouting_def
    by (intro or_fail_gives io_ends_defer io_gives_after [OF io_ends_call] pub io_gives_ret TrueI)
qed

lemma isolation_ends: "io_ends (RunIsolationTest E a b subject)"
  unfolding RunIsolationTest_def by (intro or_fail_gives io_ends_defer io_walk io_gives_ret TrueI)

lemma latency_ends: "io_ends (RunLatencyBenchmark E zero nc n)"
  unfolding RunLatencyBenchmark_def Let_def
  by (intro io_ends_defer io_walk io_gives_after [OF io_gives_mono [OF publish_timed_length]] io_gives_ret TrueI)

lemma reload_ends: "io_ends (DemonstrateConfigReload E url conf)"
  unfolding DemonstrateConfigReload_def Let_def by (intro io_ends_defer io_walk io_gives_ret io_ends_call TrueI)

lemma connect_ends: "io_ends (ConnectWithRetryCtx E url user pw m d)" "io_ends (ConnectWithRetryN E url user pw m d)"
  unfolding ConnectWithRetryN_def ConnectWithRetryCtx_def connectWithRetryCtx_def by (rule connect_loop_ends)+

lemma provisioning_ends: "io_ends (RunProvisioningTest E url user pw conf)"
  unfolding RunProvisioningTest_def Let_def
  by (intro io_gives_after [OF connect_ends(2)] io_gives_sum io_ends_defer io_walk
      io_gives_after [OF io_gives_mono [OF connect_all_counts]] io_gives_after [OF reload_ends] io_gives_ret TrueI)

theorem nats_main_returns: "io_ends (nats_main E consume zero env conf)"
  unfolding nats_main_def nats_Run_def
  by (intro io_gives_after [OF connect_ends(1)] io_gives_after [OF connect_ends(2)] io_gives_after [OF isolation_ends] io_gives_after [OF routing_ends]
      io_gives_after [OF latency_ends] io_gives_after [OF provisioning_ends] io_gives_after io_gives_sum io_gives_prod
      io_ends_defer io_gives_ret TrueI; simp add: case_prod_beta io_gives_ret)

section \<open>Isolation\<close>

text \<open>
  The test passes exactly when every call succeeds, the spy message does not arrive within the window and the
  sanity message does: silence is the only evidence of isolation.
\<close>

theorem isolation_passes_on_silence:
  assumes "RunIsolationTest E a b subject w = Some ((True, detail), w')"
  shows "\<exists>sub sanity w1 w2 w3 w4. ne_Subscribe E a subject w = (Inr sub, w1) \<and>
    ne_Receive E sub (300 * Millisecond) w2 = (None, w3) \<and> fst (ne_Sanity E sanity (300 * Millisecond) w4) = SanityReceived"
proof -
  obtain r w1 where r: "ne_Subscribe E a subject w = (r, w1)" by (metis prod.exhaust)
  then obtain sub where sub: "r = Inr sub" using assms by (cases r) (auto simp: RunIsolationTest_def io_eval)
  obtain x w2 where x: "ne_Flush E a w1 = (x, w2)" by (metis prod.exhaust)
  obtain y w3 where y: "ne_Publish E b subject ''{\"spy\":\"should-not-arrive\"}'' w2 = (y, w3)" by (metis prod.exhaust)
  obtain z w4 where z: "ne_Flush E b w3 = (z, w4)" by (metis prod.exhaust)
  obtain msg w5 where m: "ne_Receive E sub (300 * Millisecond) w4 = (msg, w5)" by (metis prod.exhaust)
  obtain r2 w6 where s: "ne_Subscribe E a (subject @ ''.sanity'') w5 = (r2, w6)" by (metis prod.exhaust)
  note ev = RunIsolationTest_def io_eval io_defer_def or_fail_def r sub x y z m s
  have none: "x = None" "y = None" "z = None"
    using assms by (cases x; cases y; cases z; auto simp: ev split: prod.splits)+
  then have msg: "msg = None" using assms by (cases msg) (auto simp: ev split: prod.splits)
  obtain sanity where san: "r2 = Inr sanity" using assms none msg by (cases r2) (auto simp: ev split: prod.splits)
  obtain p w7 where p: "ne_Publish E a (subject @ ''.sanity'') ''ping'' w6 = (p, w7)" by (metis prod.exhaust)
  have "p = None" using assms none msg san by (cases p) (auto simp: ev p split: prod.splits)
  then have "fst (ne_Sanity E sanity (300 * Millisecond) w7) = SanityReceived"
    using assms none msg san by (cases "fst (ne_Sanity E sanity (300 * Millisecond) w7)") (auto simp: ev p split: prod.splits)
  then show ?thesis using r sub m msg by blast
qed

section \<open>Latency\<close>

theorem ComputePercentiles_statistics:
  assumes "ComputePercentiles E ds elapsed = Some s"
  shows "lat_P99 s \<le> t \<longleftrightarrow> 99 * length ds \<le> 100 * length (filter (\<lambda>d. d \<le> t) ds)"
    and "lat_P50 s \<le> lat_P95 s" "lat_P95 s \<le> lat_P99 s"
proof -
  have ne: "ds \<noteq> []" using assms by (auto simp: ComputePercentiles_def Let_def split: if_splits)
  have rank: "nearest_rank (sort ds) p = percentileAt (sort ds) p" if "0 < p" "p \<le> 100" for p
  proof -
    have "0 < length ds" using ne by simp
    then have "p * length ds \<le> 100 * length ds" "0 < length ds" using that by simp_all
    then have "(p * length ds + 99) div 100 - 1 < length ds" by linarith
    then show ?thesis using ne by (simp add: nearest_rank_def percentileAt_def Let_def)
  qed
  have s: "lat_P50 s = percentileAt (sort ds) 50" "lat_P95 s = percentileAt (sort ds) 95" "lat_P99 s = percentileAt (sort ds) 99"
    using assms rank by (auto simp: ComputePercentiles_def Let_def split: if_splits)
  show "lat_P99 s \<le> t \<longleftrightarrow> 99 * length ds \<le> 100 * length (filter (\<lambda>d. d \<le> t) ds)"
    unfolding s by (rule percentileAt_le_iff [OF ne]) simp_all
  show "lat_P50 s \<le> lat_P95 s" "lat_P95 s \<le> lat_P99 s" unfolding s by (rule percentileAt_mono [OF ne]; simp)+
qed

text \<open>Without data the statistics are zero, and the threshold of question 3 is reported as passed.\<close>

theorem no_data_passes_threshold:
  assumes "lat_P99 (q3_Stats r) = 0"
  shows "''      threshold: p99 < 5ms  '' @ arrow @ ''  '' @ PassLabel True \<in> set (result_lines E r)"
  using assms by (simp add: result_lines_def Let_def Millisecond_def)

section \<open>Configuration\<close>

lemma PadTo1KB_length: "length (PadTo1KB dat) = 1024"
  by (simp add: PadTo1KB_def)

lemma PadTo1KB_short: "length dat \<le> 1024 \<Longrightarrow> PadTo1KB dat = dat @ replicate (1024 - length dat) CHR '' ''"
  by (simp add: PadTo1KB_def)

lemma PadTo1KB_long: "1024 \<le> length dat \<Longrightarrow> PadTo1KB dat = take 1024 dat"
  by (simp add: PadTo1KB_def)

lemma Replace_first_found:
  assumes "old \<noteq> []" "\<And>x y. a = x @ y \<Longrightarrow> y \<noteq> [] \<Longrightarrow> \<not> HasPrefix (y @ old @ b) old"
  shows "Replace_first (a @ old @ b) old new = a @ new @ b"
  using assms(2)
proof (induction a)
  case Nil
  have "HasPrefix (old @ b) old" by (simp add: HasPrefix_append)
  then show ?case using assms(1) by (cases old) simp_all
next
  case (Cons c a)
  have "\<not> HasPrefix ((c # a) @ old @ b) old" by (rule Cons.prems [of "[]" "c # a"]) simp_all
  moreover have "Replace_first (a @ old @ b) old new = a @ new @ b"
    by (rule Cons.IH) (use Cons.prems [of "c # x" for x] in \<open>metis append_Cons\<close>)
  ultimately show ?case by simp
qed

lemma Replace_first_absent:
  "(\<And>x y. s = x @ y \<Longrightarrow> y \<noteq> [] \<Longrightarrow> \<not> HasPrefix y old) \<Longrightarrow> Replace_first s old new = s"
proof (induction s)
  case (Cons c s)
  have "\<not> HasPrefix (c # s) old" by (rule Cons.prems [of "[]"]) simp_all
  moreover have "Replace_first s old new = s"
    by (rule Cons.IH) (use Cons.prems [of "c # x" for x] in \<open>metis append_Cons\<close>)
  ultimately show ?case by simp
qed simp

text \<open>
  The block of a new account goes right before the comment that announces the system account. Where the
  braces before that comment are balanced, as in \<open>config/nats.conf\<close>, whose block \<open>accounts\<close> is closed by
  then, the account is outside every block.
\<close>

definition brace_depth :: "string \<Rightarrow> int" where
  "brace_depth s = int (count_list s CHR ''{'') - int (count_list s CHR ''}'')"

theorem new_account_outside_blocks:
  assumes "\<And>x y. before = x @ y \<Longrightarrow> y \<noteq> [] \<Longrightarrow> \<not> HasPrefix (y @ system_marker @ rest) system_marker" "brace_depth before = 0"
  shows "\<exists>head. GenerateUpdatedConfig (before @ system_marker @ rest) name user pw =
      head @ account_block name user pw @ NL @ system_marker @ rest \<and> brace_depth head = 0"
  using Replace_first_found [of system_marker before rest "account_block name user pw @ NL @ system_marker"] assms
  by (auto simp: GenerateUpdatedConfig_def system_marker_def)

section \<open>The verdict\<close>

theorem critical_questions:
  "fst (nats_PrintResults E r) \<longleftrightarrow> q1_Pass r \<and> q2_Pass r \<and> q4_Pass r"
  by (simp add: nats_PrintResults_def Let_def)

theorem exit_code_always_zero:
  assumes "nats_main E consume zero env confPath w = Some ((code, out), w')"
  shows "code = 0"
  using assms by (auto simp: nats_main_def io_eval split: option.splits)

end
