(* ===== verification/Testutil.thy ===== *)
theory Testutil
  imports GoTime Startup
begin

text \<open>
  \<open>internal/testutil\<close>: the helpers that start a container for an integration test and return a client and a
  cleanup function. Docker, the servers and their clients are a record of calls over a world \<open>'w\<close>, with
  containers \<open>'c\<close> and clients \<open>'k\<close>. A helper returns \<open>Inl\<close> where it calls \<open>t.Fatalf\<close> or returns an error, else
  the client and the cleanup function, which it has also registered with \<open>t.Cleanup\<close>.
\<close>

section \<open>Containers and clients\<close>

record container_request =
  cr_Image :: string
  cr_ExposedPorts :: "string list"
  cr_Env :: "(string \<times> string) list"
  cr_Cmd :: "string list"
  cr_WaitingFor :: string
  cr_StartupTimeout :: "time option"

datatype start_request =
    GenericContainer container_request
  | RunMinIO string string string
  | RunNATS string
  | RunPostgres string string string string

record test_cluster =
  tc_Host :: string
  tc_Port :: int
  tc_ConnectTimeout :: time
  tc_Timeout :: time
  tc_ProtoVersion :: nat
  tc_Consistency :: string

record ('c, 'k, 'w) tu_env =
  tu_Start :: "start_request \<Rightarrow> 'w \<Rightarrow> (gerror + 'c) \<times> 'w"
  tu_Terminate :: "'c \<Rightarrow> 'w \<Rightarrow> gerror option \<times> 'w"
  tu_Host :: "'c \<Rightarrow> 'w \<Rightarrow> (gerror + string) \<times> 'w"
  tu_MappedPort :: "'c \<Rightarrow> string \<Rightarrow> 'w \<Rightarrow> (gerror + string) \<times> 'w"
  tu_ConnectionString :: "'c \<Rightarrow> 'w \<Rightarrow> (gerror + string) \<times> 'w"
  tu_Logf :: "string \<Rightarrow> 'w \<Rightarrow> unit \<times> 'w"
  tu_Sleep :: "time \<Rightarrow> 'w \<Rightarrow> unit \<times> 'w"
  tu_minio_New :: "string \<Rightarrow> string \<times> string \<Rightarrow> bool \<Rightarrow> 'w \<Rightarrow> (gerror + 'k) \<times> 'w"
  tu_ListBuckets :: "'k \<Rightarrow> 'w \<Rightarrow> gerror option \<times> 'w"
  tu_nats_Connect :: "string \<Rightarrow> int \<Rightarrow> time \<Rightarrow> 'w \<Rightarrow> (gerror + 'k) \<times> 'w"
  tu_Drain :: "'k \<Rightarrow> 'w \<Rightarrow> gerror option \<times> 'w"
  tu_pgxpool_New :: "string \<Rightarrow> 'w \<Rightarrow> (gerror + 'k) \<times> 'w"
  tu_Ping :: "'k \<Rightarrow> 'w \<Rightarrow> gerror option \<times> 'w"
  tu_Close :: "'k \<Rightarrow> 'w \<Rightarrow> unit \<times> 'w"
  tu_openbao_NewClient :: "string \<Rightarrow> 'w \<Rightarrow> (gerror + 'k) \<times> 'w"
  tu_SetToken :: "'k \<Rightarrow> string \<Rightarrow> 'w \<Rightarrow> unit \<times> 'w"
  tu_Health :: "'k \<Rightarrow> 'w \<Rightarrow> gerror option \<times> 'w"
  tu_CreateSession :: "test_cluster \<Rightarrow> 'w \<Rightarrow> (gerror + 'k) \<times> 'w"

type_synonym ('k, 'w) started = "gerror + 'k \<times> ('w, unit) io"

text \<open>\<open>t.Fatalf("testutil: ...: %v", err)\<close>.\<close>

definition Fatalf :: "string \<Rightarrow> gerror \<Rightarrow> gerror" where
  "Fatalf what e = Text (''testutil: '' @ what @ '': '' @ Error_String e)"

text \<open>
  The two shapes of the code: start the container or fail, and a later call that on an error terminates the
  container first.
\<close>

definition tu_begin ::
  "('c, 'k, 'w) tu_env \<Rightarrow> start_request \<Rightarrow> (gerror \<Rightarrow> gerror) \<Rightarrow> ('c \<Rightarrow> ('w, ('k, 'w) started) io) \<Rightarrow> ('w, ('k, 'w) started) io" where
  "tu_begin E req fail k = io_then (io_call (tu_Start E req)) (\<lambda>r. case r of Inl e \<Rightarrow> io_ret (Inl (fail e)) | Inr c \<Rightarrow> k c)"

definition tu_fail :: "('c, 'k, 'w) tu_env \<Rightarrow> 'c \<Rightarrow> gerror \<Rightarrow> ('w, ('k, 'w) started) io" where
  "tu_fail E c err = io_then (io_call (tu_Terminate E c)) (\<lambda>_. io_ret (Inl err))"

definition tu_try ::
  "('c, 'k, 'w) tu_env \<Rightarrow> 'c \<Rightarrow> (gerror \<Rightarrow> gerror) \<Rightarrow> ('w \<Rightarrow> (gerror + 'a) \<times> 'w) \<Rightarrow> ('a \<Rightarrow> ('w, ('k, 'w) started) io) \<Rightarrow>
   ('w, ('k, 'w) started) io" where
  "tu_try E c fail call k = io_then (io_call call) (\<lambda>r. case r of Inl e \<Rightarrow> tu_fail E c (fail e) | Inr x \<Rightarrow> k x)"

definition tu_check ::
  "('c, 'k, 'w) tu_env \<Rightarrow> 'c \<Rightarrow> (gerror \<Rightarrow> gerror) \<Rightarrow> ('w \<Rightarrow> gerror option \<times> 'w) \<Rightarrow> ('w, ('k, 'w) started) io \<Rightarrow> ('w, ('k, 'w) started) io" where
  "tu_check E c fail call k = io_then (io_call call) (\<lambda>r. case r of Some e \<Rightarrow> tu_fail E c (fail e) | None \<Rightarrow> k)"

text \<open>The end of every cleanup function: terminate the container, and log where that fails.\<close>

definition tu_terminate :: "('c, 'k, 'w) tu_env \<Rightarrow> 'c \<Rightarrow> string \<Rightarrow> ('w, unit) io" where
  "tu_terminate E c what = io_then (io_call (tu_Terminate E c)) (\<lambda>r. case r of
     Some e \<Rightarrow> io_call (tu_Logf E (''testutil: warning: '' @ what @ '': '' @ Error_String e)) | None \<Rightarrow> io_ret ())"

definition tu_started :: "'k \<Rightarrow> ('w, unit) io \<Rightarrow> ('w, ('k, 'w) started) io" where
  "tu_started client cleanup = io_ret (Inr (client, cleanup))"

section \<open>minio.go, nats.go, opa.go, postgres.go\<close>

definition StartMinIO :: "('c, 'k, 'w) tu_env \<Rightarrow> ('w, ('k, 'w) started) io" where
  "StartMinIO E =
     tu_begin E (RunMinIO ''minio/minio:RELEASE.2024-01-01T00-00-00Z'' ''minio-test-access'' ''minio-test-secret'')
       (Fatalf ''starting minio container'') (\<lambda>c.
     tu_try E c (Fatalf ''getting minio endpoint'') (tu_ConnectionString E c) (\<lambda>endpoint.
     tu_try E c (Fatalf ''creating minio client'') (tu_minio_New E endpoint (''minio-test-access'', ''minio-test-secret'') False) (\<lambda>client.
     tu_check E c (Fatalf ''pinging minio'') (tu_ListBuckets E client)
       (tu_started client (tu_terminate E c ''failed to terminate minio container'')))))"

text \<open>\<open>nats.ReconnectWait(100)\<close> is 100 nanoseconds.\<close>

definition StartNATS :: "('c, 'k, 'w) tu_env \<Rightarrow> ('w, ('k, 'w) started) io" where
  "StartNATS E =
     tu_begin E (RunNATS ''nats:2.10-alpine'') (Fatalf ''starting nats container'') (\<lambda>c.
     tu_try E c (Fatalf ''getting nats connection string'') (tu_ConnectionString E c) (\<lambda>url.
     tu_try E c (Fatalf ''connecting to nats'') (tu_nats_Connect E url (- 1) 100) (\<lambda>conn.
     tu_started conn
       (io_then (io_call (tu_Drain E conn)) (\<lambda>r.
        io_then (case r of Some e \<Rightarrow> io_call (tu_Logf E (''testutil: warning: nats drain error: '' @ Error_String e)) | None \<Rightarrow> io_ret ())
          (\<lambda>_. tu_terminate E c ''failed to terminate nats container''))))))"

text \<open>The client of OPA is its base URL.\<close>

definition opa_request :: container_request where
  "opa_request =
     \<lparr>cr_Image = ''openpolicyagent/opa:latest'', cr_ExposedPorts = [''8181/tcp''], cr_Env = [],
      cr_Cmd = [''run'', ''--server'', ''--addr'', ''0.0.0.0:8181'', ''--log-level'', ''error''],
      cr_WaitingFor = ''http /health 8181/tcp'', cr_StartupTimeout = None\<rparr>"

definition StartOPA :: "('c, string, 'w) tu_env \<Rightarrow> ('w, (string, 'w) started) io" where
  "StartOPA E =
     tu_begin E (GenericContainer opa_request) (Fatalf ''starting opa container'') (\<lambda>c.
     tu_try E c (Fatalf ''getting opa container host'') (tu_Host E c) (\<lambda>host.
     tu_try E c (Fatalf ''getting opa container port'') (tu_MappedPort E c ''8181'') (\<lambda>port.
     tu_started (''http://'' @ host @ '':'' @ port) (tu_terminate E c ''failed to terminate opa container''))))"

definition postgres_dsn :: "string \<Rightarrow> string \<Rightarrow> string" where
  "postgres_dsn host port = ''postgres://testuser:testpassword@'' @ host @ '':'' @ port @ ''/testdb?sslmode=disable''"

definition StartPostgres :: "('c, 'k, 'w) tu_env \<Rightarrow> ('w, ('k, 'w) started) io" where
  "StartPostgres E =
     tu_begin E (RunPostgres ''pgvector/pgvector:pg16'' ''testdb'' ''testuser'' ''testpassword'') (Fatalf ''starting postgres container'') (\<lambda>c.
     tu_try E c (Fatalf ''getting postgres container host'') (tu_Host E c) (\<lambda>host.
     tu_try E c (Fatalf ''getting postgres container port'') (tu_MappedPort E c ''5432'') (\<lambda>port.
     tu_try E c (Fatalf ''connecting to postgres'') (tu_pgxpool_New E (postgres_dsn host port)) (\<lambda>pool.
     io_then (io_call (tu_Ping E pool)) (\<lambda>r. case r of
       Some e \<Rightarrow> io_then (io_call (tu_Close E pool)) (\<lambda>_. tu_fail E c (Fatalf ''pinging postgres'' e))
     | None \<Rightarrow> tu_started pool
         (io_then (io_call (tu_Close E pool)) (\<lambda>_. tu_terminate E c ''failed to terminate postgres container'')))))))"

section \<open>openbao.go\<close>

definition openbao_request :: container_request where
  "openbao_request =
     \<lparr>cr_Image = ''quay.io/openbao/openbao:latest'', cr_ExposedPorts = [''8200/tcp''],
      cr_Env = [(''BAO_DEV_ROOT_TOKEN_ID'', ''root-test-token'')],
      cr_Cmd = [''server'', ''-dev'', ''-dev-root-token-id=root-test-token'', ''-dev-listen-address=0.0.0.0:8200''],
      cr_WaitingFor = ''log Development mode should NOT be used in production installations!'', cr_StartupTimeout = None\<rparr>"

text \<open>
  \<open>StartOpenBao\<close> and \<open>StartOpenBaoForSuite\<close> differ in how they fail and whether the cleanup logs; \<open>fail\<close> is
  given the texts of the six errors in order.
\<close>

definition openbao_start ::
  "('c, 'k, 'w) tu_env \<Rightarrow> (nat \<Rightarrow> gerror \<Rightarrow> gerror) \<Rightarrow> ('c \<Rightarrow> ('w, unit) io) \<Rightarrow> ('w, ('k, 'w) started) io" where
  "openbao_start E fail cleanup =
     tu_begin E (GenericContainer openbao_request) (fail 0) (\<lambda>c.
     tu_try E c (fail 1) (tu_Host E c) (\<lambda>host.
     tu_try E c (fail 2) (tu_MappedPort E c ''8200'') (\<lambda>port.
     tu_try E c (fail 3) (tu_openbao_NewClient E (''http://'' @ host @ '':'' @ port)) (\<lambda>client.
     io_then (io_call (tu_SetToken E client ''root-test-token'')) (\<lambda>_.
     tu_check E c (fail 4) (tu_Health E client) (tu_started client (cleanup c)))))))"

definition StartOpenBao :: "('c, 'k, 'w) tu_env \<Rightarrow> ('w, ('k, 'w) started) io" where
  "StartOpenBao E = openbao_start E
     (\<lambda>n. Fatalf ([''starting openbao container'', ''getting openbao container host'', ''getting openbao container port'',
        ''creating openbao client'', ''pinging openbao''] ! n))
     (\<lambda>c. tu_terminate E c ''failed to terminate openbao container'')"

definition StartOpenBaoForSuite :: "('c, 'k, 'w) tu_env \<Rightarrow> ('w, ('k, 'w) started) io" where
  "StartOpenBaoForSuite E = openbao_start E
     (\<lambda>n. Errorf (''testutil: '' @ [''start OpenBao container'', ''get OpenBao host'', ''get OpenBao port'',
        ''create OpenBao client'', ''ping OpenBao''] ! n @ '': ''))
     (\<lambda>c. io_then (io_call (tu_Terminate E c)) (\<lambda>_. io_ret ()))"

section \<open>scylladb.go\<close>

definition scylla_request :: container_request where
  "scylla_request =
     \<lparr>cr_Image = ''scylladb/scylla:6.1'', cr_ExposedPorts = [''9042/tcp''], cr_Env = [], cr_Cmd = [''--developer-mode=1'', ''--smp=1''],
      cr_WaitingFor = ''log init - Scylla version'', cr_StartupTimeout = Some (90 * Second)\<rparr>"

text \<open>\<open>fmt.Sscanf\<close> leaves 0 where the text does not start with a number; the caller drops the error.\<close>

definition portToInt :: "string \<Rightarrow> int \<times> gerror option" where
  "portToInt port = (case Sscanf_d port of Inl e \<Rightarrow> (0, Some e) | Inr n \<Rightarrow> (n, None))"

primrec scylla_connect :: "('c, 'k, 'w) tu_env \<Rightarrow> string \<Rightarrow> string \<Rightarrow> nat \<Rightarrow> ('w, gerror + 'k) io" where
  "scylla_connect E host port 0 = io_ret (Inl (Text []))"
| "scylla_connect E host port (Suc attempts) =
     io_then (io_call (tu_CreateSession E \<lparr>tc_Host = host, tc_Port = fst (portToInt port),
         tc_ConnectTimeout = 5 * Second, tc_Timeout = 5 * Second, tc_ProtoVersion = 4, tc_Consistency = ''QUORUM''\<rparr>))
       (\<lambda>r. case r of
          Inr sess \<Rightarrow> io_ret (Inr sess)
        | Inl e \<Rightarrow> io_then (io_call (tu_Sleep E (2 * Second))) (\<lambda>_.
            if attempts = 0 then io_ret (Inl e) else scylla_connect E host port attempts))"

definition scylla_start ::
  "('c, 'k, 'w) tu_env \<Rightarrow> (nat \<Rightarrow> gerror \<Rightarrow> gerror) \<Rightarrow> ('c \<Rightarrow> ('w, unit) io) \<Rightarrow> ('w, ('k, 'w) started) io" where
  "scylla_start E fail cleanup =
     tu_begin E (GenericContainer scylla_request) (fail 0) (\<lambda>c.
     tu_try E c (fail 1) (tu_Host E c) (\<lambda>host.
     tu_try E c (fail 2) (tu_MappedPort E c ''9042'') (\<lambda>port.
     io_then (scylla_connect E host port 20) (\<lambda>r. case r of
       Inl e \<Rightarrow> tu_fail E c (fail 3 e)
     | Inr sess \<Rightarrow> tu_started sess (io_then (io_call (tu_Close E sess)) (\<lambda>_. cleanup c))))))"

definition StartScyllaDB :: "('c, 'k, 'w) tu_env \<Rightarrow> ('w, ('k, 'w) started) io" where
  "StartScyllaDB E = scylla_start E
     (\<lambda>n. Fatalf ([''start ScyllaDB container'', ''get ScyllaDB host'', ''get ScyllaDB port'', ''connect to ScyllaDB after 20 attempts''] ! n))
     (\<lambda>c. tu_terminate E c ''terminate ScyllaDB container'')"

definition StartScyllaDBForSuite :: "('c, 'k, 'w) tu_env \<Rightarrow> ('w, ('k, 'w) started) io" where
  "StartScyllaDBForSuite E = scylla_start E
     (\<lambda>n. Errorf (''testutil: '' @ [''start ScyllaDB container'', ''get ScyllaDB host'', ''get ScyllaDB port'',
        ''connect to ScyllaDB after 20 attempts''] ! n @ '': ''))
     (\<lambda>c. io_then (io_call (tu_Terminate E c)) (\<lambda>_. io_ret ()))"

end
