(* ===== verification/TestutilFacts.thy ===== *)
theory TestutilFacts
  imports Testutil
begin

text \<open>
  No helper of \<open>internal/testutil\<close> leaves a container behind: where it fails the containers are those from
  before, and its cleanup function takes away the container that it started. The rules follow the shapes of
  the code; all of them are about total correctness, so every helper returns.
\<close>

section \<open>What the helpers rely on\<close>

definition quiet :: "('w \<Rightarrow> 'c set) \<Rightarrow> ('w \<Rightarrow> 'a \<times> 'w) \<Rightarrow> bool" where
  "quiet up call \<longleftrightarrow> (\<forall>w. up (snd (call w)) = up w)"

text \<open>
  The documented behaviour: a start that succeeds adds a container that was not there, one that fails adds none,
  terminating one takes it away, and nothing else touches the containers.
\<close>

definition container_laws :: "('c, 'k, 'w) tu_env \<Rightarrow> ('w \<Rightarrow> 'c set) \<Rightarrow> bool" where
  "container_laws E up \<longleftrightarrow>
     (\<forall>req w. case fst (tu_Start E req w) of
        Inl e \<Rightarrow> up (snd (tu_Start E req w)) = up w
      | Inr c \<Rightarrow> c \<notin> up w \<and> up (snd (tu_Start E req w)) = insert c (up w)) \<and>
     (\<forall>c w. up (snd (tu_Terminate E c w)) = up w - {c}) \<and>
     (\<forall>c. quiet up (tu_Host E c)) \<and> (\<forall>c p. quiet up (tu_MappedPort E c p)) \<and> (\<forall>c. quiet up (tu_ConnectionString E c)) \<and>
     (\<forall>s. quiet up (tu_Logf E s)) \<and> (\<forall>d. quiet up (tu_Sleep E d)) \<and> (\<forall>a b s. quiet up (tu_minio_New E a b s)) \<and>
     (\<forall>k. quiet up (tu_ListBuckets E k)) \<and> (\<forall>u m d. quiet up (tu_nats_Connect E u m d)) \<and> (\<forall>k. quiet up (tu_Drain E k)) \<and>
     (\<forall>d. quiet up (tu_pgxpool_New E d)) \<and> (\<forall>k. quiet up (tu_Ping E k)) \<and> (\<forall>k. quiet up (tu_Close E k)) \<and>
     (\<forall>a. quiet up (tu_openbao_NewClient E a)) \<and> (\<forall>k t. quiet up (tu_SetToken E k t)) \<and>
     (\<forall>k. quiet up (tu_Health E k)) \<and> (\<forall>c. quiet up (tu_CreateSession E c))"

lemma quiet_calls:
  assumes "container_laws E up"
  shows "quiet up (tu_Host E c)" "quiet up (tu_MappedPort E c p)" "quiet up (tu_ConnectionString E c)" "quiet up (tu_Logf E s)"
    "quiet up (tu_Sleep E d)" "quiet up (tu_minio_New E a b z)" "quiet up (tu_ListBuckets E k)" "quiet up (tu_nats_Connect E a i d)"
    "quiet up (tu_Drain E k)" "quiet up (tu_pgxpool_New E a)" "quiet up (tu_Ping E k)" "quiet up (tu_Close E k)"
    "quiet up (tu_openbao_NewClient E a)" "quiet up (tu_SetToken E k a)" "quiet up (tu_Health E k)" "quiet up (tu_CreateSession E q)"
  using assms by (cases b; simp add: container_laws_def)+

lemma start_law:
  assumes "container_laws E up" "tu_Start E req w = (r, w')"
  shows "case r of Inl e \<Rightarrow> up w' = up w | Inr c \<Rightarrow> c \<notin> up w \<and> up w' = insert c (up w)"
  using container_laws_def [THEN iffD1, OF assms(1), THEN conjunct1, THEN spec, of req, THEN spec, of w]
  by (simp only: assms(2) fst_conv snd_conv)

lemma terminate_law:
  assumes "container_laws E up" "tu_Terminate E c w = (r, w')"
  shows "up w' = up w - {c}"
  using container_laws_def [THEN iffD1, OF assms(1), THEN conjunct2, THEN conjunct1, THEN spec, of c, THEN spec, of w]
  by (simp only: assms(2) snd_conv)

section \<open>Contracts\<close>

definition cleans_up :: "('w \<Rightarrow> 'c set) \<Rightarrow> 'c \<Rightarrow> ('w, unit) io \<Rightarrow> bool" where
  "cleans_up up c m \<longleftrightarrow> (\<forall>w. \<exists>w'. m w = Some ((), w') \<and> up w' = up w - {c})"

definition tidy :: "('w \<Rightarrow> 'c set) \<Rightarrow> 'c set \<Rightarrow> ('k, 'w) started \<Rightarrow> 'w \<Rightarrow> bool" where
  "tidy up S r w \<longleftrightarrow> (case r of
     Inl e \<Rightarrow> up w = S
   | Inr (client, cleanup) \<Rightarrow> \<exists>c. c \<notin> S \<and> up w = insert c S \<and> cleans_up up c cleanup)"

definition no_leak :: "('w \<Rightarrow> 'c set) \<Rightarrow> ('w, ('k, 'w) started) io \<Rightarrow> bool" where
  "no_leak up m \<longleftrightarrow> (\<forall>w. \<exists>r w'. m w = Some (r, w') \<and> tidy up (up w) r w')"

text \<open>The same for the rest of a helper, once its container \<open>c\<close> runs.\<close>

definition no_leak_from :: "('w \<Rightarrow> 'c set) \<Rightarrow> 'c \<Rightarrow> ('w, ('k, 'w) started) io \<Rightarrow> bool" where
  "no_leak_from up c m \<longleftrightarrow>
     (\<forall>S w. c \<notin> S \<longrightarrow> up w = insert c S \<longrightarrow> (\<exists>r w'. m w = Some (r, w') \<and> tidy up S r w'))"

lemma no_leak_begin:
  assumes "container_laws E up" "\<And>c. no_leak_from up c (k c)"
  shows "no_leak up (tu_begin E req fail k)"
  unfolding no_leak_def
proof
  fix w
  obtain r w1 where r: "tu_Start E req w = (r, w1)" by (metis prod.exhaust)
  have law: "case r of Inl e \<Rightarrow> up w1 = up w | Inr c \<Rightarrow> c \<notin> up w \<and> up w1 = insert c (up w)"
    by (rule start_law [OF assms(1) r])
  show "\<exists>x w'. tu_begin E req fail k w = Some (x, w') \<and> tidy up (up w) x w'"
  proof (cases r)
    case (Inr c)
    then show ?thesis using assms(2) [of c] law by (simp add: tu_begin_def io_eval r no_leak_from_def)
  qed (use law in \<open>simp add: tu_begin_def io_eval r tidy_def\<close>)
qed

lemma no_leak_started: "cleans_up up c m \<Longrightarrow> no_leak_from up c (tu_started client m)"
  by (auto simp: no_leak_from_def tu_started_def io_eval tidy_def)

lemma no_leak_call:
  assumes "quiet up f" "\<And>x. no_leak_from up c (k x)"
  shows "no_leak_from up c (io_then (io_call f) k)"
  using assms unfolding no_leak_from_def quiet_def
  by (simp add: io_eval split: prod.split) (metis snd_conv)

lemma no_leak_fail:
  assumes "container_laws E up"
  shows "no_leak_from up c (tu_fail E c err)"
  unfolding no_leak_from_def
proof (intro allI impI)
  fix S w assume S: "c \<notin> S" "up w = insert c S"
  obtain r w1 where r: "tu_Terminate E c w = (r, w1)" by (metis prod.exhaust)
  have "up w1 = S" using terminate_law [OF assms r] S by auto
  then show "\<exists>x w'. tu_fail E c err w = Some (x, w') \<and> tidy up S x w'" by (simp add: tu_fail_def io_eval r tidy_def)
qed

lemma no_leak_option:
  "(\<And>y. no_leak_from up c (f y)) \<Longrightarrow> no_leak_from up c m \<Longrightarrow> no_leak_from up c (case x of Some y \<Rightarrow> f y | None \<Rightarrow> m)"
  by (cases x) simp_all

lemma no_leak_sum:
  "(\<And>y. no_leak_from up c (f y)) \<Longrightarrow> (\<And>y. no_leak_from up c (g y)) \<Longrightarrow>
   no_leak_from up c (case x of Inl y \<Rightarrow> f y | Inr y \<Rightarrow> g y)"
  by (cases x) simp_all

lemma no_leak_try:
  "container_laws E up \<Longrightarrow> quiet up f \<Longrightarrow> (\<And>x. no_leak_from up c (k x)) \<Longrightarrow> no_leak_from up c (tu_try E c fail f k)"
  unfolding tu_try_def by (intro no_leak_call no_leak_sum no_leak_fail)

lemma no_leak_check:
  "container_laws E up \<Longrightarrow> quiet up f \<Longrightarrow> no_leak_from up c m \<Longrightarrow> no_leak_from up c (tu_check E c fail f m)"
  unfolding tu_check_def by (intro no_leak_call no_leak_option no_leak_fail)

section \<open>Cleanup functions\<close>

lemma cleans_up_terminate: "container_laws E up \<Longrightarrow> cleans_up up c (tu_terminate E c what)"
  unfolding cleans_up_def
proof
  fix w assume L: "container_laws E up"
  obtain r w1 where r: "tu_Terminate E c w = (r, w1)" by (metis prod.exhaust)
  have w1: "up w1 = up w - {c}" by (rule terminate_law [OF L r])
  show "\<exists>w'. tu_terminate E c what w = Some ((), w') \<and> up w' = up w - {c}"
  proof (cases r)
    case (Some e)
    obtain u w2 where log: "tu_Logf E (''testutil: warning: '' @ what @ '': '' @ Error_String e) w1 = (u, w2)" by (metis prod.exhaust)
    have "up w2 = up w1" using quiet_calls(4) [OF L] log unfolding quiet_def by (metis snd_conv)
    then show ?thesis using w1 Some log by (simp add: tu_terminate_def io_eval r)
  qed (use w1 in \<open>simp add: tu_terminate_def io_eval r\<close>)
qed

lemma cleans_up_silent: "container_laws E up \<Longrightarrow> cleans_up up c (io_then (io_call (tu_Terminate E c)) (\<lambda>_. io_ret ()))"
  using terminate_law [of E up c] by (simp add: cleans_up_def io_eval split: prod.split)

lemma cleans_up_call: "quiet up f \<Longrightarrow> (\<And>x. cleans_up up c (k x)) \<Longrightarrow> cleans_up up c (io_then (io_call f) k)"
  by (simp add: cleans_up_def quiet_def io_eval split: prod.split) (metis snd_conv)

lemma cleans_up_log:
  "(\<And>e. quiet up (f e)) \<Longrightarrow> cleans_up up c m \<Longrightarrow>
   cleans_up up c (io_then (case r of Some e \<Rightarrow> io_call (f e) | None \<Rightarrow> io_ret ()) (\<lambda>_. m))"
  using cleans_up_call [of up "f (the r)" c "\<lambda>_. m"] by (cases r) (simp_all add: cleans_up_def io_eval)

section \<open>The helpers\<close>

theorem StartMinIO_no_leak: "container_laws E up \<Longrightarrow> no_leak up (StartMinIO E)"
  unfolding StartMinIO_def
  by (intro no_leak_begin no_leak_try no_leak_check no_leak_started cleans_up_terminate quiet_calls; assumption)

theorem StartNATS_no_leak: "container_laws E up \<Longrightarrow> no_leak up (StartNATS E)"
  unfolding StartNATS_def
  by (intro no_leak_begin no_leak_try no_leak_started cleans_up_call cleans_up_log cleans_up_terminate quiet_calls; assumption)

theorem StartOPA_no_leak: "container_laws E up \<Longrightarrow> no_leak up (StartOPA E)"
  unfolding StartOPA_def
  by (intro no_leak_begin no_leak_try no_leak_started cleans_up_terminate quiet_calls; assumption)

theorem StartPostgres_no_leak: "container_laws E up \<Longrightarrow> no_leak up (StartPostgres E)"
  unfolding StartPostgres_def
  by (intro no_leak_begin no_leak_try no_leak_call no_leak_option no_leak_fail no_leak_started cleans_up_call
      cleans_up_terminate quiet_calls; assumption)

lemma openbao_start_no_leak:
  "container_laws E up \<Longrightarrow> (\<And>c. cleans_up up c (cl c)) \<Longrightarrow> no_leak up (openbao_start E fail cl)"
  unfolding openbao_start_def
  by (intro no_leak_begin no_leak_try no_leak_call no_leak_check no_leak_started quiet_calls; assumption?)

theorem StartOpenBao_no_leak:
  "container_laws E up \<Longrightarrow> no_leak up (StartOpenBao E)"
  "container_laws E up \<Longrightarrow> no_leak up (StartOpenBaoForSuite E)"
  unfolding StartOpenBao_def StartOpenBaoForSuite_def
  by (intro openbao_start_no_leak cleans_up_terminate cleans_up_silent; assumption)+

text \<open>The 20 attempts to connect to ScyllaDB.\<close>

lemma scylla_connect_quiet:
  assumes "container_laws E up"
  shows "\<exists>r w'. scylla_connect E host port n w = Some (r, w') \<and> up w' = up w"
proof (induction n arbitrary: w)
  case (Suc n)
  let ?cluster = "\<lparr>tc_Host = host, tc_Port = fst (portToInt port), tc_ConnectTimeout = 5 * Second, tc_Timeout = 5 * Second,
     tc_ProtoVersion = 4, tc_Consistency = ''QUORUM''\<rparr>"
  obtain r w1 where r: "tu_CreateSession E ?cluster w = (r, w1)" by (metis prod.exhaust)
  obtain u w2 where z: "tu_Sleep E (2 * Second) w1 = (u, w2)" by (metis prod.exhaust)
  have "up w1 = up w" "up w2 = up w1"
    using quiet_calls(16) [OF assms, of ?cluster] quiet_calls(5) [OF assms, of "2 * Second"] r z
    unfolding quiet_def by (metis snd_conv)+
  then show ?case using Suc [of w2] by (cases r) (auto simp: io_eval r z)
qed (simp add: io_eval)

lemma scylla_start_no_leak:
  assumes "container_laws E up" "\<And>c. cleans_up up c (cl c)"
  shows "no_leak up (scylla_start E fail cl)"
proof -
  have conn: "no_leak_from up c (io_then (scylla_connect E host port 20) k)" if "\<And>x. no_leak_from up c (k x)" for c host port k
    unfolding no_leak_from_def
  proof (intro allI impI)
    fix S w assume S: "c \<notin> S" "up w = insert c S"
    obtain r w' where "scylla_connect E host port 20 w = Some (r, w')" "up w' = up w"
      using scylla_connect_quiet [OF assms(1)] by blast
    then show "\<exists>x w'. io_then (scylla_connect E host port 20) k w = Some (x, w') \<and> tidy up S x w'"
      using that [of r] S by (simp add: io_eval no_leak_from_def)
  qed
  show ?thesis unfolding scylla_start_def
    by (intro no_leak_begin no_leak_try conn no_leak_sum no_leak_fail no_leak_started cleans_up_call quiet_calls assms)
qed

theorem StartScyllaDB_no_leak:
  "container_laws E up \<Longrightarrow> no_leak up (StartScyllaDB E)"
  "container_laws E up \<Longrightarrow> no_leak up (StartScyllaDBForSuite E)"
  unfolding StartScyllaDB_def StartScyllaDBForSuite_def
  by (intro scylla_start_no_leak cleans_up_terminate cleans_up_silent; assumption)+

text \<open>A world that counts containers satisfies the laws, so they can hold.\<close>

definition counting_docker :: "(nat, nat, nat \<times> nat set) tu_env" where
  "counting_docker =
     (let q = (\<lambda>w. (Inr [], w)); ok = (\<lambda>w. (None, w)); k = (\<lambda>w. (Inr 0, w)); u = (\<lambda>w. ((), w)) in
      \<lparr>tu_Start = \<lambda>req (n, S). (Inr (Suc n), (Suc n, insert (Suc n) {c\<in>S. c \<le> n})),
       tu_Terminate = \<lambda>c (n, S). (None, (n, S - {c})),
       tu_Host = \<lambda>c. q, tu_MappedPort = \<lambda>c p. q, tu_ConnectionString = \<lambda>c. q, tu_Logf = \<lambda>s. u, tu_Sleep = \<lambda>d. u,
       tu_minio_New = \<lambda>a b s. k, tu_ListBuckets = \<lambda>c. ok, tu_nats_Connect = \<lambda>a i d. k, tu_Drain = \<lambda>c. ok, tu_pgxpool_New = \<lambda>a. k,
       tu_Ping = \<lambda>c. ok, tu_Close = \<lambda>c. u, tu_openbao_NewClient = \<lambda>a. k, tu_SetToken = \<lambda>c t. u, tu_Health = \<lambda>c. ok,
       tu_CreateSession = \<lambda>c. k\<rparr>)"

lemma counting_docker_laws: "container_laws counting_docker (\<lambda>(n, S). {c\<in>S. c \<le> n})"
  unfolding container_laws_def counting_docker_def quiet_def Let_def by auto

end
