(* ===== verification/KnativeFunctions.thy ===== *)
theory KnativeFunctions
  imports KnativeFacts Routers Startup
begin

text \<open>
  The functions the cold-start benchmark measures, \<open>spikes/knative-coldstart/functions\<close>: three servers that
  differ in their variant and in the payload built into the binary. The payload file is a parameter, as is
  \<open>http.ListenAndServe\<close>; the log is left out. The last section puts a function and the probe together.
\<close>

section \<open>The handlers\<close>

definition minimal_root :: handler where
  "minimal_root r w =
     (let w = Header_Set ''Content-Type'' ''text/plain; charset=utf-8'' w;
          w = Header_Set ''X-Variant'' ''minimal'' w in
      (Returned, Write (''variant=minimal method='' @ req_method r @ '' path='' @ req_path r @ NL) w))"

definition medium_root :: "string \<Rightarrow> handler" where
  "medium_root payload r w =
     (let w = Header_Set ''Content-Type'' ''text/plain; charset=utf-8'' w;
          w = Header_Set ''X-Variant'' ''medium'' w in
      (Returned, Write (''variant=medium payload_bytes='' @ Itoa (length payload) @ '' method='' @ req_method r @
         '' path='' @ req_path r @ NL) w))"

definition heavy_root :: "string \<Rightarrow> handler" where
  "heavy_root payload r w =
     (let w = Header_Set ''Content-Type'' ''text/plain; charset=utf-8'' w;
          w = Header_Set ''X-Variant'' ''heavy'' w in
      (Returned, Write (''variant=heavy payload_bytes='' @ Itoa (length payload) @ '' method='' @ req_method r @
         '' path='' @ req_path r @ NL) w))"

definition function_healthz :: handler where
  "function_healthz r w = (Returned, Write (''ok'' @ NL) (WriteHeader 200 w))"

definition function_routes :: "handler \<Rightarrow> (pattern \<times> handler) list" where
  "function_routes root = [((None, [Rest]), root), ((None, [Seg ''healthz'']), function_healthz)]"

section \<open>The commands\<close>

text \<open>\<open>http.ListenAndServe(addr, handler)\<close> returns when the server ends; the result is the exit code.\<close>

type_synonym 'w listener = "string \<Rightarrow> handler \<Rightarrow> ('w, gerror option) io"

definition minimal_main ::
    "(string \<Rightarrow> request \<Rightarrow> hw \<Rightarrow> hw) \<Rightarrow> (string \<Rightarrow> string) \<Rightarrow> 'w listener \<Rightarrow> ('w, int) io" where
  "minimal_main Redirect Getenv ListenAndServe =
     (let port = env_or Getenv ''PORT'' ''8080''; mux = ServeMux Redirect (function_routes minimal_root) in
      io_then (ListenAndServe ('':'' @ port) mux) (\<lambda>err. io_ret (if err \<noteq> None then 1 else 0)))"

definition medium_main ::
    "string \<Rightarrow> (string \<Rightarrow> request \<Rightarrow> hw \<Rightarrow> hw) \<Rightarrow> (string \<Rightarrow> string) \<Rightarrow> 'w listener \<Rightarrow> ('w, int) io" where
  "medium_main payload Redirect Getenv ListenAndServe =
     (let port = env_or Getenv ''PORT'' ''8080''; mux = ServeMux Redirect (function_routes (medium_root payload)) in
      io_then (ListenAndServe ('':'' @ port) mux) (\<lambda>err. io_ret (if err \<noteq> None then 1 else 0)))"

definition heavy_main ::
    "string \<Rightarrow> (string \<Rightarrow> request \<Rightarrow> hw \<Rightarrow> hw) \<Rightarrow> (string \<Rightarrow> string) \<Rightarrow> 'w listener \<Rightarrow> ('w, int) io" where
  "heavy_main payload Redirect Getenv ListenAndServe =
     (let port = env_or Getenv ''PORT'' ''8080''; mux = ServeMux Redirect (function_routes (heavy_root payload)) in
      io_then (ListenAndServe ('':'' @ port) mux) (\<lambda>err. io_ret (if err \<noteq> None then 1 else 0)))"

section \<open>What a function answers\<close>

text \<open>The health check is answered on one path for every method; every other path is the root handler's.\<close>

lemma function_mux_healthz:
  assumes "clean_request r" "path_segs (req_escaped r) = [''healthz'']"
  shows "ServeMux Redirect (function_routes root) r w = (Returned, Write (''ok'' @ NL) (WriteHeader 200 w))"
  using assms clean_path_nonempty [OF assms(1)]
  by (simp add: ServeMux_def findHandler_def clean_request_def find_route_def function_routes_def routes_of_def function_healthz_def)

lemma function_mux_root:
  assumes "clean_request r" "path_segs (req_escaped r) \<noteq> [''healthz'']"
  shows "ServeMux Redirect (function_routes root) r w = root (r\<lparr>req_path_values := Map.empty\<rparr>) w"
proof -
  let ?ss = "path_segs (req_escaped r)"
  obtain s ss where s: "?ss = s # ss" using clean_path_nonempty [OF assms(1)] by (cases ?ss) auto
  have "find_route (function_routes root) (req_method r) ?ss = Some (([Rest], root), [])"
    using assms(2) s by (cases ss) (simp_all add: find_route_def function_routes_def routes_of_def)
  from findHandler_found [OF assms(1) this] show ?thesis by (simp add: ServeMux_def)
qed

text \<open>Whatever the path, a fresh writer gets status 200 and a body that is not empty.\<close>

definition fresh :: "hw \<Rightarrow> bool" where
  "fresh w \<longleftrightarrow> hw_sent w = None \<and> hw_body w = []"

definition answered :: "hw \<Rightarrow> bool" where
  "answered w \<longleftrightarrow> (\<exists>h. hw_sent w = Some (200, h)) \<and> hw_body w \<noteq> []"

lemma fresh_write: "fresh w \<Longrightarrow> b \<noteq> [] \<Longrightarrow> answered (Write b w)"
  by (simp add: fresh_def answered_def Write_def server_Write_def server_WriteHeader_def bodyless_def Let_def)

lemma fresh_header: "fresh w \<Longrightarrow> fresh (Header_Set k v w)"
  by (simp add: fresh_def Header_Set_def)

lemma ok_write: "fresh w \<Longrightarrow> b \<noteq> [] \<Longrightarrow> answered (Write b (WriteHeader 200 w))"
  by (simp add: fresh_def answered_def Write_def WriteHeader_def server_Write_def server_WriteHeader_def bodyless_def Let_def)

lemma roots_answer:
  assumes "fresh w"
  shows "answered (snd (minimal_root r w))" "answered (snd (medium_root payload r w))" "answered (snd (heavy_root payload r w))"
  using assms by (simp_all add: minimal_root_def medium_root_def heavy_root_def Let_def fresh_write fresh_header)

lemma function_answers:
  assumes "clean_request r" "fresh w" "\<And>r. answered (snd (root r w))"
  shows "answered (snd (ServeMux Redirect (function_routes root) r w))"
proof (cases "path_segs (req_escaped r) = [''healthz'']")
  case True
  show ?thesis by (simp add: function_mux_healthz [OF assms(1) True] ok_write [OF assms(2)])
next
  case False
  show ?thesis by (simp add: function_mux_root [OF assms(1) False] assms(3))
qed

theorem functions_answer:
  assumes "clean_request r" "fresh w"
  shows "answered (snd (ServeMux Redirect (function_routes minimal_root) r w))"
    and "answered (snd (ServeMux Redirect (function_routes (medium_root payload)) r w))"
    and "answered (snd (ServeMux Redirect (function_routes (heavy_root payload)) r w))"
  by (rule function_answers [OF assms]; rule roots_answer [OF assms(2)])+

text \<open>The body names the variant and, for the two with a payload, its size.\<close>

lemma medium_body:
  "hw_body (snd (medium_root p r \<lparr>hw_header = h, hw_sent = None, hw_body = [], hw_recorders = rs, hw_log = l, hw_metrics = m, hw_ids = i, hw_clock = c\<rparr>)) =
     ''variant=medium payload_bytes='' @ Itoa (length p) @ '' method='' @ req_method r @ '' path='' @ req_path r @ NL"
  by (simp add: medium_root_def Let_def Write_def server_Write_def server_WriteHeader_def bodyless_def Header_Set_def)

text \<open>A command that ends has exit code 1 when the server failed and 0 otherwise; it serves on \<open>PORT\<close> or on 8080.\<close>

lemma minimal_main_cases:
  "minimal_main Redirect Getenv LAS w = (case LAS ('':'' @ env_or Getenv ''PORT'' ''8080'') (ServeMux Redirect (function_routes minimal_root)) w of
     None \<Rightarrow> None | Some (err, w') \<Rightarrow> Some (if err = None then 0 else 1, w'))"
  by (simp add: minimal_main_def io_then_def io_ret_def split: option.splits)

section \<open>The probe of a function\<close>

text \<open>
  A probe whose request reaches a function: its first attempt is the last, and the sample is the time
  between the two readings of the clock around it.
\<close>

definition reaches :: "('c, 'w) bench_env \<Rightarrow> handler \<Rightarrow> bool" where
  "reaches E h \<longleftrightarrow>
     (\<forall>c w. fst (be_Err E c w) = None) \<and> (\<forall>url. be_NewRequest E url = None) \<and>
     (\<forall>c d url w. \<exists>r w0. clean_request r \<and> fresh w0 \<and>
        fst (be_Do E c d url w) = Inr (fst (the (hw_sent (snd (h r w0))))) \<and>
        (hw_body (snd (h r w0)) \<noteq> [] \<longrightarrow> (\<forall>w. fst (be_ReadByte E w) = None)))"

lemma probe_of_function:
  assumes "reaches E h" and "\<And>r w. clean_request r \<Longrightarrow> fresh w \<Longrightarrow> answered (snd (h r w))"
  shows "\<exists>t w'. Probe E p ctx url w = Some (Inr t, w')"
proof -
  let ?w1 = "snd (be_Now E w)"
  let ?w2 = "snd (be_Err E ctx ?w1)"
  obtain r w0 where rw: "clean_request r" "fresh w0"
    and d: "fst (be_Do E ctx (hp_timeout p) url ?w2) = Inr (fst (the (hw_sent (snd (h r w0)))))"
    and b: "hw_body (snd (h r w0)) \<noteq> [] \<Longrightarrow> \<forall>w. fst (be_ReadByte E w) = None"
    using assms(1) unfolding reaches_def by blast
  have "answered (snd (h r w0))" using assms(2) rw by blast
  then have d: "fst (be_Do E ctx (hp_timeout p) url ?w2) = Inr 200" and b: "fst (be_ReadByte E v) = None" for v
    using d b by (auto simp: answered_def)
  have e: "fst (be_Err E ctx ?w1) = None" "be_NewRequest E url = None" using assms(1) by (simp_all add: reaches_def)
  show ?thesis
    by (auto simp: Probe_def io_then_def io_call_def probe_loop.simps [of E p ctx url] case_prod_unfold Let_def e d b)
qed

theorem probe_of_functions:
  "reaches E (ServeMux Redirect (function_routes minimal_root)) \<Longrightarrow> \<exists>t w'. Probe E p ctx url w = Some (Inr t, w')"
  "reaches E (ServeMux Redirect (function_routes (medium_root payload))) \<Longrightarrow> \<exists>t w'. Probe E p ctx url w = Some (Inr t, w')"
  "reaches E (ServeMux Redirect (function_routes (heavy_root payload))) \<Longrightarrow> \<exists>t w'. Probe E p ctx url w = Some (Inr t, w')"
  by (erule probe_of_function, erule (1) functions_answer)+

end
