(* ===== verification/Spec2Isabelle.thy ===== *)
theory Spec2Isabelle
  imports Prelude GoErrors Schema AccountsTypes Effects Execution World Pools TenantStore UserStore
    KeyStore JobStore Session Cidr ApiKey Cnp Kubeconfig VCluster Json ProvisionerService
    ProvisionerFacts Regex Http ProvisionerApi ProvisionerRuns AccountsService AccountsFacts
    AccountsApi Middleware MiddlewareFacts ServeMux Server Routers ProvisionerServer
    AccountsServer StorageServer Startup AccountsClient StorageClient ConfigLoader Logging
    Tracing TypedRows MetricsRegistry GoTime IsolationProbe ProbeCluster ProbeFacts
    CiliumProbe CiliumFacts KnativeBench KnativeFacts ScyllaBench ScyllaFacts NatsSpike
    NatsFacts Testutil TestutilFacts KnativeFunctions
begin

text \<open>
  CloudForge: a verification development of its account and provisioning services.

  CloudForge gives each tenant a virtual Kubernetes cluster. Two HTTP services share one ScyllaDB
  keyspace: CF-Accounts (\<open>services/accounts\<close>) registers users and tenants and issues API keys,
  CF-Provisioner (\<open>services/provisioner\<close>) builds and tears down a tenant's cluster in background
  workflows that it starts with \<open>go\<close> statements and records as jobs. Both stand on the packages
  \<open>internal/accounts\<close> (the stores of tenants, users, keys and jobs) and \<open>internal/provisioner\<close> (CIDR
  blocks, network policies, vCluster, kubeconfig secrets, API keys).

  Every function of the code that calls out of the process (a CQL statement, an OpenBao request, a
  command, the clock, random numbers, bcrypt, a \<open>go\<close> statement) is a \<open>prog\<close>: the control flow of the
  Go function, in its order and with its error returns, over one constructor per kind of call. What the
  callee may answer is not part of it. Pure functions are HOL functions. Errors are values of
  \<open>gerror\<close>, so \<open>(T, error)\<close> is \<open>gerror + T\<close> and an \<open>error\<close> alone is \<open>gerror option\<close>.

  Theories and what they model:

  \<^item> \<open>Prelude\<close>: the parts of Go's standard library the code uses (\<open>strings\<close>, \<open>strconv\<close>, \<open>%q\<close>,
    hex and UUID text) and shared lemmas. \<open>GoErrors\<close>: Go errors, sentinels, \<open>errors.Is\<close> and
    \<open>internal/errors\<close>. \<open>Schema\<close>: the tables of \<open>internal/accounts/schema/schema.cql\<close> and the effect of
    each CQL statement of the code (a lightweight transaction is one compare-and-set).
  \<^item> \<open>AccountsTypes\<close>: the structs and status constants of \<open>internal/accounts\<close>.
  \<^item> \<open>Effects\<close>: programs. \<open>Execution\<close>: \<open>sem f p s r t\<close>, the executions of one program, where \<open>f\<close> bounds
    what may fail (\<open>NoFaults\<close>: nothing; \<open>CleanFaults\<close>: a call fails without effect; \<open>AnyFaults\<close>: also a
    write that is reported failed and took effect). \<open>Pools\<close>: \<open>preach\<close>, the interleavings of several
    programs at their calls, with a rely-guarantee rule. \<open>World\<close>: an executable world against which a
    program is run, and the proof that its runs are executions; the witnesses run the code on it.
  \<^item> \<open>TenantStore\<close>, \<open>UserStore\<close>, \<open>KeyStore\<close>, \<open>JobStore\<close>, \<open>Session\<close>: the files \<open>tenant.go\<close>, \<open>user.go\<close>,
    \<open>apikey.go\<close>, \<open>job.go\<close> and \<open>session.go\<close> of \<open>internal/accounts\<close>.
  \<^item> \<open>Cidr\<close>, \<open>ApiKey\<close>, \<open>Cnp\<close>, \<open>Kubeconfig\<close>, \<open>VCluster\<close>: the files of the same names of
    \<open>internal/provisioner\<close>. \<open>Json\<close>: the JSON texts the code writes and reads.
  \<^item> \<open>ProvisionerService\<close>, \<open>ProvisionerFacts\<close>, \<open>ProvisionerRuns\<close>: \<open>services/provisioner/service\<close>, its two
    workflows, what their executions guarantee and that they can finish.
    \<open>Regex\<close>, \<open>Http\<close>, \<open>ProvisionerApi\<close>: the tenant id pattern, responses, and \<open>services/provisioner\<close>.
  \<^item> \<open>AccountsService\<close>, \<open>AccountsFacts\<close>, \<open>AccountsApi\<close>: \<open>services/accounts/service\<close> and \<open>services/accounts\<close>.
  \<^item> \<open>Middleware\<close>, \<open>MiddlewareFacts\<close>: \<open>internal/middleware\<close>, the metrics middleware, the logger of a context
    and \<open>WriteJSON\<close>. A handler is a function of the request and of the response state; the chain, what
    a handler sees inside it and what it makes of a return and of a panic. \<open>ServeMux\<close>: the routing of
    \<open>net/http\<close>, and that it finds a route exactly when a pattern matches. \<open>Routers\<close>: \<open>NewRouter\<close> of
    the services and the health, specification and documentation pages.
    \<open>Server\<close>, \<open>ProvisionerServer\<close>, \<open>AccountsServer\<close>, \<open>StorageServer\<close>: the servers \<open>oapi-codegen\<close> generated
    (\<open>generated/server.gen.go\<close>): decoding of bodies, binding of path parameters, routes, the strict
    handler and what each response object writes, down to the handlers of the services. \<open>StorageServer\<close>
    also holds the placeholder handlers of \<open>services/storage\<close>.
  \<^item> \<open>AccountsClient\<close>, \<open>StorageClient\<close>: the generated clients under \<open>pkg/client\<close>. A client sends requests
    through a doer, any program from requests to replies; the lemmas \<open>Parse_X\<close> say that the client reads
    back what the server's \<open>Visit\<close> method of the operation wrote.
  \<^item> \<open>Startup\<close>: \<open>cmd/cf-accounts\<close> and \<open>cmd/cf-provisioner\<close>: the configuration, the wiring, and the process
    from start to exit as the step relation \<open>run_step\<close> with its invariant.
  \<^item> \<open>ConfigLoader\<close>: \<open>internal/config\<close>. Viper is an argument and \<open>viper_laws\<close> its documented behaviour; the
    lemmas relate the flattened defaults to the nested map and the loaded struct to the documented
    precedence. \<open>Logging\<close>: \<open>internal/logging\<close>, handlers as trees of fan-outs over sinks. \<open>Tracing\<close>:
    \<open>internal/tracing\<close>, \<open>Init\<close> as the list of what it does to the global OpenTelemetry state.
  \<^item> \<open>TypedRows\<close>: a type system for the tables and the proof that every statement of the services keeps it.
  \<^item> \<open>MetricsRegistry\<close>: the registry and the instruments of \<open>internal/metrics\<close>, with Prometheus as a record of calls.
  \<^item> \<open>GoTime\<close>, \<open>IsolationProbe\<close>, \<open>ProbeCluster\<close>, \<open>ProbeFacts\<close>: the spike \<open>spikes/tenant-isolation\<close>. Its code acts on
    a world \<open>'w\<close> and may panic (\<open>io\<close>); \<open>io_gives P m\<close> says that \<open>m\<close> returns a result with \<open>P\<close> in every world and
    has a rule for each construct. The facts: sorting and percentiles against the library's, the verdicts
    against their thresholds, what a run prints and reads back, and that waiting ends.
  \<^item> \<open>CiliumProbe\<close>, \<open>CiliumFacts\<close>: the spike \<open>spikes/cilium-enforcement\<close>, over the results of \<open>IsolationProbe\<close> and
    the operating system of \<open>ProbeCluster\<close>.
  \<^item> \<open>KnativeBench\<close>, \<open>KnativeFacts\<close>: the spike \<open>spikes/knative-coldstart\<close>. Its loops are partial functions; the
    facts prove that they return under the laws of a clock (\<open>bench_clock\<close>, \<open>has_deadline\<close>), which a concrete world
    satisfies, and give the verdict of a variant as a count of its samples. \<open>KnativeFunctions\<close>: the functions the
    benchmark measures, over the mux and writers of the platform's own servers, and what the probe sees of them.
  \<^item> \<open>ScyllaBench\<close>, \<open>ScyllaFacts\<close>: the spike \<open>spikes/scylladb-accounts\<close>. The goroutines of a race are programs of a
    pool; the locale \<open>lwt_race\<close> is the contract of the statements that race, and its lemma says that every
    interleaving has one winner. The read benchmarks are a step relation over channel and workers, with
    an invariant that accounts for every operation and a measure that decreases.
  \<^item> \<open>NatsSpike\<close>, \<open>NatsFacts\<close>: the spike \<open>spikes/nats-routing\<close>. The goroutine that consumes messages is a step
    relation and \<open>ConsumeAndDispatch\<close> what the \<open>select\<close> beside it may return; the facts account for every
    message, and prove that a whole run returns.
  \<^item> \<open>Testutil\<close>, \<open>TestutilFacts\<close>: \<open>internal/testutil\<close>. Each helper keeps the contract \<open>no_leak\<close>, that it leaves no
    container behind, under the laws of Docker (\<open>container_laws\<close>), which a concrete world satisfies.
  The interfaces of the code are locales, with the laws its callers rely on, interpreted on the
  modelled implementations: the lookups of \<open>tenantManager\<close> and \<open>jobQueuer\<close> in \<open>ProvisionerFacts\<close>, the
  storers of \<open>CFAccountsService\<close> in \<open>AccountsFacts\<close>, \<open>CIDRAllocationDB\<close> in \<open>Cidr\<close>, \<open>http.Handler\<close> in
  \<open>MiddlewareFacts\<close> with the handlers of \<open>Routers\<close>, the external systems of a run in \<open>World\<close>.

  Bounds. The CIDR scan ends after the 254 blocks of \<open>maxTenants\<close> (a measure). \<open>waitVClusterReady\<close>
  polls every 3 seconds until its 90 second context ends, so at most \<open>ready_polls = 30\<close> timers fire;
  the model counts them and may time out earlier. The JSON parser has fuel, the length of its input
  plus one, which each nested value shortens.

  Not modelled: the embedded OpenAPI specifications, the \<open>Status\<close> methods of the clients, the logging
  calls inside the modelled functions (their only effect is on the log), the box \<open>printDevAddresses\<close>
  prints, the mock of \<open>slog.Handler\<close>, and packages that only hold a \<open>doc.go\<close> or an empty \<open>main\<close>.
  ScyllaDB, OpenBao, kubectl and the vcluster CLI are external: the \<open>sem\<close> relation states their
  documented behaviour, and a property holds for every reply it allows.
\<close>

section \<open>Tenants, jobs and keys\<close>

text \<open>C1. However many workers claim jobs concurrently, in any interleaving of their
  database calls and with any clean failures, at most one of them is told that it owns a given job:
  the compare-and-set of \<open>JobStore.Claim\<close> elects a single worker.\<close>

theorem one_worker_claims_a_job:
  assumes "preach CleanFaults (map (\<lambda>(i, j). JobStore_Claim i j) ks) s qs t"
    and "m < length qs" "n < length qs"
    and "qs ! m = Ret (Inr True)" "qs ! n = Ret (Inr True)" and "ks ! m = ks ! n"
  shows "m = n"
  by (rule one_claim_wins [OF assms])

definition job_world :: ref_world where
  "job_world = snd (ref_run (JobStore_Enqueue uuid_Nil ''k'' JobOperationProvisionVPC) ref_start)"

lemma job_world_good [simp]: "ref_good job_world"
  unfolding job_world_def by (rule ref_run_sem(2) [OF ref_good_start])

lemma two_claims:
  "fst (sched_run (ref_ops (\<lambda>_. Answer)) [0, 1, 1, 0] [JobStore_Claim uuid_Nil 1, JobStore_Claim uuid_Nil 1] job_world) =
     [Ret (Inr False), Ret (Inr True)]"
  by (simp add: job_world_def ref_eval JobStore_Enqueue_def JobStore_Claim_def new_job_row_def job_status_def)

theorem one_worker_claims_a_job_witness:
  "\<exists>qs t. preach CleanFaults (map (\<lambda>(i, j). JobStore_Claim i j) [(uuid_Nil, 1), (uuid_Nil, 1)]) (rw_sys job_world) qs t \<and>
     qs ! 1 = Ret (Inr True) \<and> (\<forall>m<2. qs ! m = Ret (Inr True) \<longrightarrow> m = 1)"
proof -
  let ?qs = "fst (sched_run (ref_ops (\<lambda>_. Answer)) [0, 1, 1, 0] [JobStore_Claim uuid_Nil 1, JobStore_Claim uuid_Nil 1] job_world)"
  have p: "preach CleanFaults (map (\<lambda>(i, j). JobStore_Claim i j) [(uuid_Nil, 1), (uuid_Nil, 1)]) (rw_sys job_world) ?qs
     (rw_sys (snd (sched_run (ref_ops (\<lambda>_. Answer)) [0, 1, 1, 0] [JobStore_Claim uuid_Nil 1, JobStore_Claim uuid_Nil 1] job_world)))"
    unfolding list.map prod.case by (rule ref_pool [OF job_world_good]) simp
  have q: "length ?qs = 2" "?qs ! 1 = Ret (Inr True)" unfolding two_claims by simp_all
  have "m = 1" if "m < 2" "?qs ! m = Ret (Inr True)" for m
    by (rule one_worker_claims_a_job [OF p])
       (use that q in \<open>simp_all add: nth_Cons'\<close>)
  then show ?thesis using p q by blast
qed



text \<open>C3. Two allocators that run concurrently for different tenants never get
  overlapping networks: the pod and service blocks of their pairs are /24 networks of the two
  supernets with no address in common.\<close>

theorem concurrent_blocks_disjoint:
  assumes "preach CleanFaults (map (AllocateCIDRs NewGocqlCIDRDB) ts) s qs t"
    and "distinct ts" and "i < length ts" "j < length ts" "i \<noteq> j"
    and "qs ! i = Ret (Inr p)" "qs ! j = Ret (Inr q)"
    and "b \<in> {Pair_PodCIDR p, Pair_SvcCIDR p}" "c \<in> {Pair_PodCIDR q, Pair_SvcCIDR q}"
    and "ParseCIDR b = Inr (x, n)" "ParseCIDR c = Inr (y, m)"
  shows "\<not> (in_net n a \<and> in_net m a)"
  by (rule concurrent_networks_disjoint [OF assms])

lemma two_allocations:
  "fst (sched_run (ref_ops (\<lambda>_. Answer)) [0, 1, 0, 1, 0, 1, 1, 1]
     [AllocateCIDRs NewGocqlCIDRDB 1, AllocateCIDRs NewGocqlCIDRDB 2] ref_start) =
   [Ret (Inr \<lparr>Pair_PodCIDR = pod_block 1, Pair_SvcCIDR = svc_block 1\<rparr>),
    Ret (Inr \<lparr>Pair_PodCIDR = pod_block 2, Pair_SvcCIDR = svc_block 2\<rparr>)]"
  by (simp add: AllocateCIDRs_def AllocateCIDRs_step maxTenants_def NewGocqlCIDRDB_def GocqlCIDRDB_TryAllocate_def
      ref_eval cong: bind_weak)

theorem concurrent_blocks_disjoint_witness:
  "(\<forall>a. \<not> (in_net (block_net 100 1) a \<and> in_net (block_net 200 2) a)) \<and>
   ParseCIDR (pod_block 1) = Inr (block_ip 100 1, block_net 100 1)"
proof -
  let ?ps = "[AllocateCIDRs NewGocqlCIDRDB 1, AllocateCIDRs NewGocqlCIDRDB 2]"
  let ?r = "sched_run (ref_ops (\<lambda>_. Answer)) [0, 1, 0, 1, 0, 1, 1, 1] ?ps ref_start"
  have p: "preach CleanFaults (map (AllocateCIDRs NewGocqlCIDRDB) [1, 2]) empty_sys (fst ?r) (rw_sys (snd ?r))"
    unfolding list.map by (rule ref_pool_start) simp
  have parse: "ParseCIDR (pod_block 1) = Inr (block_ip 100 1, block_net 100 1)"
    "ParseCIDR (svc_block 2) = Inr (block_ip 200 2, block_net 200 2)"
    by (simp_all add: pod_block_parse svc_block_parse block_net_def)
  have "\<not> (in_net (block_net 100 1) a \<and> in_net (block_net 200 2) a)" for a
    by (rule concurrent_blocks_disjoint [OF p [unfolded two_allocations], where i = 0 and j = 1
          and p = "\<lparr>Pair_PodCIDR = pod_block 1, Pair_SvcCIDR = svc_block 1\<rparr>" and b = "pod_block 1"
          and q = "\<lparr>Pair_PodCIDR = pod_block 2, Pair_SvcCIDR = svc_block 2\<rparr>" and c = "svc_block 2"])
       (simp_all add: parse del: One_nat_def)
  then show ?thesis using parse by blast
qed

text \<open>C4. Without faults, \<open>AllocateCIDRs\<close> gives the tenant the pair of the lowest index from
  1 to 254 whose pod and service block are both free, and records it as the owner of both; when no
  index is free it reports that the space is exhausted and the table is unchanged.\<close>

theorem lowest_free_block_allocated:
  assumes "sem NoFaults (AllocateCIDRs NewGocqlCIDRDB tid) s r t"
  defines "free i \<equiv> cidr_owner s (pod_block i) = None \<and> cidr_owner s (svc_block i) = None"
  shows "(\<exists>k\<in>{1..254}. free k \<and> (\<forall>j\<in>{1..<k}. \<not> free j) \<and>
      r = Inr \<lparr>Pair_PodCIDR = pod_block k, Pair_SvcCIDR = svc_block k\<rparr> \<and>
      cidr_owner t = (cidr_owner s)(pod_block k \<mapsto> tid, svc_block k \<mapsto> tid)) \<or>
    ((\<forall>j\<in>{1..254}. \<not> free j) \<and> r = Inl (Sentinel provisioner_ErrCIDRExhausted) \<and>
      cidr_owner t = cidr_owner s)"
proof -
  have "gocql_cidrs.allocated s tid 1 r t"
    by (rule gocql_cidrs.Allocate_nofault) (use assms(1) in \<open>simp add: AllocateCIDRs_def\<close>)
  then show ?thesis unfolding free_def gocql_cidrs.allocated_def gocql_cidrs.free_index_def maxTenants_def
    by (metis One_nat_def atLeastAtMost_iff atLeastLessThan_iff)
qed

theorem lowest_free_block_allocated_witness:
  "\<exists>t. sem NoFaults (AllocateCIDRs NewGocqlCIDRDB 7) empty_sys
      (Inr \<lparr>Pair_PodCIDR = pod_block 1, Pair_SvcCIDR = svc_block 1\<rparr>) t \<and>
     cidr_owner t = [pod_block 1 \<mapsto> 7, svc_block 1 \<mapsto> 7]"
proof -
  let ?r = "ref_run (AllocateCIDRs NewGocqlCIDRDB 7) ref_start"
  have s: "sem NoFaults (AllocateCIDRs NewGocqlCIDRDB 7) empty_sys (fst ?r) (rw_sys (snd ?r))"
    by (rule ref_run_start)
  have r: "fst ?r = Inr \<lparr>Pair_PodCIDR = pod_block 1, Pair_SvcCIDR = svc_block 1\<rparr>"
    by (simp add: AllocateCIDRs_def AllocateCIDRs_step maxTenants_def NewGocqlCIDRDB_def GocqlCIDRDB_TryAllocate_def
      ref_eval cong: bind_weak)
  have empty: "cidr_owner empty_sys = Map.empty" by (auto simp: cidr_owner_def empty_sys_def empty_db_def)
  from lowest_free_block_allocated [OF s] show ?thesis
    using s unfolding r empty by auto
qed

section \<open>Provisioning and deprovisioning\<close>

text \<open>A state with one PROVISIONING tenant and the queued job of its provisioning.\<close>

definition acme_sys :: sys where
  "acme_sys = empty_sys\<lparr>db := empty_db\<lparr>tenant_slugs := (\<lambda>x. x = ''acme''),
     tenants := [1 \<mapsto> new_tenant_row (new_tenant 1 0 ''acme'' ''Acme'' ''pro'')],
     provisioning_jobs := [(uuid_Nil, 2) \<mapsto> new_job_row ''provision-vpc:acme'' JobOperationProvisionVPC 0],
     provisioning_jobs_by_idem := [(uuid_Nil, ''provision-vpc:acme'') \<mapsto> 2]\<rparr>\<rparr>"

lemma acme_sys_simps [simp]:
  "tenants (db acme_sys) 1 = Some (new_tenant_row (new_tenant 1 0 ''acme'' ''Acme'' ''pro''))"
  "tenants (db acme_sys) uuid_Nil = None"
  "job_status (db acme_sys) uuid_Nil 2 = Some JobStatusQueued"
  "tenant_status (db acme_sys) 1 = Some TenantStatusProvisioning"
  "col_slug (new_tenant_row (new_tenant 1 0 ''acme'' ''Acme'' ''pro'')) = Some ''acme''"
  by (simp_all add: acme_sys_def job_status_def tenant_status_def new_job_row_def new_tenant_row_def
      empty_sys_def empty_db_def uuid_Nil_def)

lemma acme_label [simp]: "dns_label ''acme''"
  by (simp add: dns_label_def lower_alnum_def)

lemma acme_runs:
  "\<exists>t. sem NoFaults (runProvisionWorkflow (Inr rev) New 2 ''acme'') acme_sys () t \<and>
     tenant_status (db t) 1 = Some TenantStatusActive"
  using workflow_can_activate [of acme_sys 2 1 _ "''acme''" NoFaults rev] by auto

text \<open>C5. The provisioning workflow changes the status of no tenant but the one with the
  job's slug, and it only does so when everything before it succeeded: both network policies of the
  tenant's namespace applied, the vCluster created, a non-empty kubeconfig stored, an API key
  persisted and the CIDRs recorded, whatever calls fail, even with writes that time out.\<close>

theorem tenant_active_only_when_provisioned:
  assumes "sem f (runProvisionWorkflow (Inr H) New jobID slug) s a t"
    and "tenant_status (db t) i \<noteq> tenant_status (db s) i"
  shows "tenant_has (db s) i slug \<and> provisioned H slug i t"
  by (rule workflow_activates [OF assms])

theorem tenant_active_only_when_provisioned_witness:
  "\<exists>t. tenant_status (db t) 1 = Some TenantStatusActive \<and> provisioned rev ''acme'' 1 t"
proof -
  obtain t where t: "sem NoFaults (runProvisionWorkflow (Inr rev) New 2 ''acme'') acme_sys () t"
    "tenant_status (db t) 1 = Some TenantStatusActive" using acme_runs by blast
  have "tenant_status (db t) 1 \<noteq> tenant_status (db acme_sys) 1"
    unfolding t(2) acme_sys_simps by (simp add: TenantStatusActive_def TenantStatusProvisioning_def)
  from tenant_active_only_when_provisioned [OF t(1) this] show ?thesis using t(2) by blast
qed

text \<open>C6. In the commands a provisioning workflow issues, every \<open>vcluster create\<close> comes after
  both Cilium policies of the tenant's host namespace were applied successfully: no tenant cluster
  starts without isolation.\<close>

theorem vcluster_only_after_isolation:
  assumes "sem f (runProvisionWorkflow New256 New jobID slug) s a t"
  shows "\<exists>new. cmds t = cmds s @ new \<and> (\<forall>pre c post. new = pre @ c # post \<longrightarrow> is_create (fst c) \<longrightarrow>
    (\<exists>iso acc. TenantIsolationPolicy (''tenant-'' @ slug) = Inr iso \<and>
       ProvisionerAccessPolicy (''tenant-'' @ slug) = Inr acc \<and>
       apply_ok iso \<in> set pre \<and> apply_ok acc \<in> set pre))"
  using store_tables.workflow_guarded [OF assms] unfolding runs_def guarded_def isolated_def .

theorem vcluster_only_after_isolation_witness:
  "\<exists>t new. sem NoFaults (runProvisionWorkflow (Inr rev) New 2 ''acme'') acme_sys () t \<and> cmds t = cmds acme_sys @ new \<and>
     tenant_status (db t) 1 = Some TenantStatusActive"
proof -
  obtain t where t: "sem NoFaults (runProvisionWorkflow (Inr rev) New 2 ''acme'') acme_sys () t"
    "tenant_status (db t) 1 = Some TenantStatusActive" using acme_runs by blast
  from vcluster_only_after_isolation [OF t(1)] show ?thesis using t by blast
qed



text \<open>C8. The row a client polls is never completed. \<open>Provision\<close> enqueues the job under
  the nil tenant and \<open>GetJob\<close> reads it there, but the workflow completes the job under the id of the
  tenant it found: no execution of the workflow makes the polled job READY, even when it activates
  the tenant.\<close>

theorem polled_job_never_ready:
  assumes "sem f (runProvisionWorkflow (Inr H) New jobID slug) s a t"
    and "tenants (db s) uuid_Nil = None"
    and "job_status (db s) uuid_Nil jobID \<noteq> Some JobStatusReady"
  shows "job_status (db t) uuid_Nil jobID \<noteq> Some JobStatusReady"
  by (rule workflow_never_ready [OF assms])

theorem polled_job_never_ready_witness:
  "\<exists>t. sem NoFaults (runProvisionWorkflow (Inr rev) New 2 ''acme'') acme_sys () t \<and>
     tenant_status (db t) 1 = Some TenantStatusActive \<and> job_status (db t) uuid_Nil 2 \<noteq> Some JobStatusReady"
proof -
  obtain t where t: "sem NoFaults (runProvisionWorkflow (Inr rev) New 2 ''acme'') acme_sys () t"
    "tenant_status (db t) 1 = Some TenantStatusActive" using acme_runs by blast
  from polled_job_never_ready [OF t(1)] show ?thesis
    using t by (auto simp: JobStatusQueued_def JobStatusReady_def)
qed

text \<open>A workflow started for a job that is no longer queued does nothing at all: no
  command, no write, no secret.\<close>

theorem job_runs_at_most_once:
  assumes "sem f (runProvisionWorkflow New256 New jobID slug) s a t"
    and "job_status (db s) uuid_Nil jobID \<noteq> Some JobStatusQueued"
  shows "t = s"
  by (rule workflow_not_queued [OF assms])

theorem job_runs_at_most_once_witness:
  "rw_sys (snd (ref_run (runProvisionWorkflow (Inr rev) New 9 ''acme'') ref_start)) = empty_sys"
  by (rule job_runs_at_most_once [OF ref_run_start])
     (simp add: job_status_def empty_sys_def empty_db_def)

text \<open>C9. The deprovisioning workflow changes no tenant's status but its own, and only
  after the tenant's kubeconfig was deleted from the secret store and \<open>vcluster delete\<close> was run for
  its cluster.\<close>

theorem deleted_only_after_teardown:
  assumes "sem f (runDeprovisionWorkflow New jobID T) s a t"
    and "tenant_status (db t) i \<noteq> tenant_status (db s) i"
  shows "i = TenantID T \<and> stored_kubeconfig t (Slug T) = None \<and>
    (\<exists>b. ([''vcluster'', ''delete'', Slug T, ''--namespace'', ''tenant-'' @ Slug T], [], b) \<in> set (cmds t))"
  using deprovision_deletes [OF assms] by (auto simp: deleted_cluster_def stored_kubeconfig_def)

definition deprovision_world :: ref_world where
  "deprovision_world = ref_start\<lparr>rw_sys := empty_sys\<lparr>db := empty_db\<lparr>
     tenants := [1 \<mapsto> new_tenant_row (new_tenant 1 0 ''acme'' ''Acme'' ''pro'')],
     provisioning_jobs := [(1, 3) \<mapsto> new_job_row ''d'' JobOperationDeprovisionVPC 0]\<rparr>\<rparr>, rw_tenants := [1]\<rparr>"

lemma deprovision_run:
  "tenant_status (db (rw_sys (snd (ref_run (runDeprovisionWorkflow New 3 (new_tenant 1 0 ''acme'' ''Acme'' ''pro''))
     deprovision_world)))) 1 = Some TenantStatusDeleted"
  unfolding runDeprovisionWorkflow_def New_sel Let_def new_tenant_sel
  by (simp add: deprovision_world_def JobStore_Claim_def ref_eval new_job_row_def job_status_def tenant_status_def Revoke_def
      DeleteVCluster_def runVClusterCLI_def defaultVClusterRunner_def TenantStore_UpdateStatus_def
      JobStore_Complete_def validateTenantID_None [THEN iffD2] log_command_def
      new_tenant_row_def cong: bind_weak)

theorem deleted_only_after_teardown_witness:
  "\<exists>t. tenant_status (db t) 1 = Some TenantStatusDeleted \<and> stored_kubeconfig t ''acme'' = None \<and>
    (\<exists>b. ([''vcluster'', ''delete'', ''acme'', ''--namespace'', ''tenant-acme''], [], b) \<in> set (cmds t))"
proof -
  let ?T = "new_tenant 1 0 ''acme'' ''Acme'' ''pro''"
  let ?r = "ref_run (runDeprovisionWorkflow New 3 ?T) deprovision_world"
  have s: "sem NoFaults (runDeprovisionWorkflow New 3 ?T) (rw_sys deprovision_world) (fst ?r) (rw_sys (snd ?r))"
    by (rule ref_run_sem) (simp add: deprovision_world_def ref_good_def ref_start_def empty_sys_def empty_db_def)
  have "tenant_status (db (rw_sys (snd ?r))) 1 \<noteq> tenant_status (db (rw_sys deprovision_world)) 1"
    unfolding deprovision_run
    by (simp add: deprovision_world_def tenant_status_def new_tenant_row_def TenantStatusDeleted_def
        TenantStatusProvisioning_def)
  from deleted_only_after_teardown [OF s this] show ?thesis using deprovision_run by auto
qed

section \<open>Accounts\<close>

definition acme :: RegisterParams where
  "acme = \<lparr>rp_Email = ''a@acme.io'', rp_Password = ''s3cret-pw'', rp_Slug = ''acme'',
     rp_DisplayName = ''Acme'', rp_Plan = ''pro''\<rparr>"

lemmas store_evals = TenantStore_Create_def UserStore_Create_def UserStore_GetByEmail_def NewUserStore_def
  gocqlUserQuerier_def GenerateAPIKey_def newRawKeyAndHash_def HashAPIKey_def APIKeyStore_Store_def
  TenantStore_GetBySlug_def




text \<open>Without faults, a registration with a registered email or, the email being free,
  with a reserved slug is refused with the error of that case and writes nothing.\<close>

theorem duplicate_registration_refused:
  assumes "sem NoFaults (Register New256 (store_deps P) p) s r t"
    and "email_taken (db s) (rp_Email p) \<or> tenant_slugs (db s) (rp_Slug p)"
  shows "t = s \<and> r = Inl (Sentinel (if email_taken (db s) (rp_Email p)
    then accountssvc_ErrEmailAlreadyRegistered else accountssvc_ErrAccountAlreadyExists))"
  using Register_refused [OF assms(1)] assms(2) by auto

theorem duplicate_registration_refused_witness:
  "\<exists>t. sem NoFaults (Register (Inr rev) (store_deps (\<lambda>_. None)) acme) acme_sys
     (Inl (Sentinel accountssvc_ErrAccountAlreadyExists)) t \<and> t = acme_sys"
proof -
  define w where "w = ref_start\<lparr>rw_sys := acme_sys, rw_tenants := [1]\<rparr>"
  have w: "ref_good w" "rw_sys w = acme_sys"
    by (simp_all add: w_def ref_good_def ref_start_def acme_sys_def empty_sys_def empty_db_def)
  have s: "sem NoFaults (Register (Inr rev) (store_deps (\<lambda>_. None)) acme) acme_sys
      (fst (ref_run (Register (Inr rev) (store_deps (\<lambda>_. None)) acme) w))
      (rw_sys (snd (ref_run (Register (Inr rev) (store_deps (\<lambda>_. None)) acme) w)))"
    using ref_run_sem(1) [OF w(1), of "Register (Inr rev) (store_deps (\<lambda>_. None)) acme"] unfolding w(2) .
  have "tenant_slugs (db acme_sys) (rp_Slug acme)" "\<not> email_taken (db acme_sys) (rp_Email acme)"
    by (simp_all add: acme_sys_def acme_def email_taken_def users_by_email_def empty_sys_def empty_db_def)
  from duplicate_registration_refused [OF s disjI2 [OF this(1)]] this(2) s show ?thesis by auto
qed

text \<open>C11. A registration with a password of more than 72 bytes (the API allows 128) fails
  after the tenant was created: no user exists, yet the slug stays taken by a tenant nobody can log
  in to, unless the tenant could not be created at all.\<close>

theorem long_password_burns_slug:
  assumes "sem NoFaults (Register New256 (store_deps P) p) s r t" and "72 < length (rp_Password p)"
    and "\<not> email_taken (db s) (rp_Email p)" and "\<not> tenant_slugs (db s) (rp_Slug p)"
  shows "(\<exists>e. r = Inl e) \<and> users (db t) = users (db s) \<and>
    ((\<exists>T. tenant_known t (rp_Slug p) T \<and> tenant_slugs (db t) (rp_Slug p)) \<or>
     r = Inl (Sentinel accountssvc_ErrAccountAlreadyExists))"
  by (rule Register_long_password [OF assms])

lemma long_password_run:
  "\<exists>e. fst (ref_run (Register (Inr rev) (store_deps P) (acme\<lparr>rp_Password := replicate 73 (CHR ''x'')\<rparr>)) ref_start) =
     Inl (Errorf ''accounts: register, hash password: '' e)"
  unfolding Register_def store_deps_sel acme_def
  by (simp add: store_evals ref_eval del: bind.simps cong: bind_weak)

theorem long_password_burns_slug_witness:
  "\<exists>r t T. sem NoFaults (Register (Inr rev) (store_deps (\<lambda>_. None)) (acme\<lparr>rp_Password := replicate 73 (CHR ''x'')\<rparr>)) empty_sys r t \<and>
     (\<exists>e. r = Inl e) \<and> tenant_known t ''acme'' T \<and> tenant_slugs (db t) ''acme''"
proof -
  let ?p = "acme\<lparr>rp_Password := replicate 73 (CHR ''x'')\<rparr>"
  let ?r = "ref_run (Register (Inr rev) (store_deps (\<lambda>_. None)) ?p) ref_start"
  have s: "sem NoFaults (Register (Inr rev) (store_deps (\<lambda>_. None)) ?p) empty_sys (fst ?r) (rw_sys (snd ?r))"
    by (rule ref_run_start)
  have h: "72 < length (rp_Password ?p)" "\<not> email_taken (db empty_sys) (rp_Email ?p)" "\<not> tenant_slugs (db empty_sys) (rp_Slug ?p)"
    by (simp_all add: email_taken_def users_by_email_def empty_sys_def empty_db_def acme_def)
  have "rp_Slug ?p = ''acme''" by (simp add: acme_def)
  with long_password_burns_slug [OF s h] long_password_run [of "\<lambda>_. None"] s show ?thesis by auto
qed






text \<open>For a slug no tenant has, \<open>GetAccount\<close>, \<open>ProvisionNetwork\<close>, \<open>IssueKey\<close> and
  \<open>RevokeKey\<close> answer with \<open>ErrAccountNotFound\<close> and change nothing; for tenants that are not ACTIVE
  \<open>IssueKey\<close> answers with \<open>ErrAccountNotActive\<close> and changes nothing.\<close>

theorem unknown_or_inactive_account_refused:
  assumes "sem NoFaults (GetAccount (store_deps P) x) s r1 t1"
    and "sem NoFaults (ProvisionNetwork (store_deps P) x) s r2 t2"
    and "sem NoFaults (IssueKey New256 (store_deps P) p) s r3 t3" and "ik_TenantSlug p = x"
    and "sem NoFaults (RevokeKey (store_deps P) x i) s r4 t4"
  shows "((\<nexists>i. tenant_has (db s) i x) \<longrightarrow>
      r1 = Inl (Sentinel accountssvc_ErrAccountNotFound) \<and> r2 = Inl (Sentinel accountssvc_ErrAccountNotFound) \<and>
      r3 = Inl (Sentinel accountssvc_ErrAccountNotFound) \<and> r4 = Some (Sentinel accountssvc_ErrAccountNotFound) \<and>
      t1 = s \<and> t2 = s \<and> t3 = s \<and> t4 = s) \<and>
    ((\<exists>i. tenant_has (db s) i x) \<longrightarrow> (\<forall>tn. tenant_known s x tn \<longrightarrow> Status tn \<noteq> TenantStatusActive) \<longrightarrow>
      r3 = Inl (Sentinel accountssvc_ErrAccountNotActive) \<and> t3 = s)"
proof (intro conjI impI)
  assume "\<nexists>i. tenant_has (db s) i x"
  then have n: "\<nexists>tn. tenant_known s x tn" using tenant_known_has by blast
  show "r1 = Inl (Sentinel accountssvc_ErrAccountNotFound)" "t1 = s"
    using accounts.unknown_account(1) [OF n assms(1)] by simp_all
  show "r2 = Inl (Sentinel accountssvc_ErrAccountNotFound)" "t2 = s"
    using accounts.unknown_account(2) [OF n assms(2)] by simp_all
  show "r3 = Inl (Sentinel accountssvc_ErrAccountNotFound)" "t3 = s"
    using accounts.unknown_account(3) [OF n assms(3,4)] by simp_all
  show "r4 = Some (Sentinel accountssvc_ErrAccountNotFound)" "t4 = s"
    using accounts.unknown_account(4) [OF n assms(5)] by simp_all
next
  assume k: "\<exists>i. tenant_has (db s) i x" and a: "\<forall>tn. tenant_known s x tn \<longrightarrow> Status tn \<noteq> TenantStatusActive"
  have "\<exists>tn. tenant_known s x tn" using k tenant_known_has by blast
  then show "r3 = Inl (Sentinel accountssvc_ErrAccountNotActive)" "t3 = s"
    using accounts.IssueKey_not_active [OF assms(3)] a assms(4) by auto
qed

theorem unknown_or_inactive_account_refused_witness:
  "fst (ref_run (GetAccount (store_deps (\<lambda>_. None)) ''nobody'') ref_start) = Inl (Sentinel accountssvc_ErrAccountNotFound) \<and>
   rw_sys (snd (ref_run (RevokeKey (store_deps (\<lambda>_. None)) ''nobody'' 4) ref_start)) = empty_sys"
proof -
  have "\<nexists>i. tenant_has (db empty_sys) i ''nobody''" by (simp add: tenant_has_def empty_sys_def empty_db_def)
  with unknown_or_inactive_account_refused [OF ref_run_start ref_run_start ref_run_start [of "IssueKey (Inr rev)
      (store_deps (\<lambda>_. None)) \<lparr>ik_TenantSlug = ''nobody'', ik_DisplayName = [], ik_Scopes = []\<rparr>"] _ ref_run_start,
      where x = "''nobody''" and i = 4]
  show ?thesis by simp
qed




section \<open>The provisioner API\<close>

definition parse_uuid :: "string \<Rightarrow> uuid option" where
  "parse_uuid x = (if x = uuid_String 1 then Some 1 else None)"

definition acme_request :: ProvisionRequest where
  "acme_request = \<lparr>req_TenantID = ''acme'', req_DisplayName = ''Acme'', req_Plan = ''pro''\<rparr>"

lemma acme_request_TenantID: "req_TenantID acme_request = ''acme''"
  by (simp add: acme_request_def)

lemma acme_pattern: "matches tenantIDPattern ''acme''"
  by (simp add: tenantIDPattern_dns_label dns_label_def lower_alnum_def)

lemma accepted_run:
  "fst (ref_run (Handler_ProvisionVPC (provisioner_service P New) (Some acme_request)) ref_start) =
     Success 202 \<lparr>ja_JobId = 1, ja_Status = ''QUEUED''\<rparr>"
  by (simp add: Handler_ProvisionVPC_def acme_request_def acme_pattern ToServiceProvisionParams_def Provision_def
      JobStore_Enqueue_def new_job_row_def ref_eval cong: bind_weak)

text \<open>C14. An accepted provisioning request starts the workflow of the returned job for the
  requested tenant, and polling that job id before the workflow runs answers 200 with status QUEUED
  and no result.\<close>

theorem accepted_request_can_be_polled:
  assumes "sem f (Handler_ProvisionVPC (provisioner_service uuid_Parse New) (Some b)) s (Success 202 a) t"
    and "provisioning_jobs_by_idem (db s) (uuid_Nil, ''provision-vpc:'' @ req_TenantID b) = None"
    and "uuid_Parse (uuid_String (ja_JobId a)) = Some (ja_JobId a)"
    and "sem NoFaults (Handler_GetJob uuid_Parse (provisioner_service uuid_Parse New) (ja_JobId a)) t r u"
  shows "spawned t = spawned s @ [RunProvisionWorkflow (ja_JobId a) (req_TenantID b)] \<and> u = t \<and>
    r = Success 200 \<lparr>jresp_ApiKey = None, jresp_ApiKeyId = None, jresp_ErrorMessage = None,
       jresp_JobId = ja_JobId a, jresp_Status = JobStatusQueued, jresp_VpcInfo = None\<rparr>"
  by (rule provision_then_poll [OF assms])

theorem accepted_request_can_be_polled_witness:
  "\<exists>t r u. sem NoFaults (Handler_GetJob parse_uuid (provisioner_service parse_uuid New) 1) t r u \<and>
     spawned t = [RunProvisionWorkflow 1 ''acme''] \<and> status_code r = 200"
proof -
  let ?h = "Handler_ProvisionVPC (provisioner_service parse_uuid New) (Some acme_request)"
  let ?g = "Handler_GetJob parse_uuid (provisioner_service parse_uuid New) 1"
  let ?w = "snd (ref_run ?h ref_start)"
  have h: "sem NoFaults ?h empty_sys (Success 202 \<lparr>ja_JobId = 1, ja_Status = ''QUEUED''\<rparr>) (rw_sys ?w)"
    using ref_run_start [of ?h] unfolding accepted_run .
  have g: "sem NoFaults ?g (rw_sys ?w) (fst (ref_run ?g ?w)) (rw_sys (snd (ref_run ?g ?w)))"
    by (rule ref_run_sem) (rule ref_run_sem(2) [OF ref_good_start])
  let ?a = "\<lparr>ja_JobId = 1, ja_Status = ''QUEUED''\<rparr>"
  let ?r = "fst (ref_run ?g ?w)"
  let ?u = "rw_sys (snd (ref_run ?g ?w))"
  have "spawned (rw_sys ?w) = spawned empty_sys @ [RunProvisionWorkflow (ja_JobId ?a) (req_TenantID acme_request)] \<and>
    ?u = rw_sys ?w \<and> ?r = Success 200 \<lparr>jresp_ApiKey = None, jresp_ApiKeyId = None,
      jresp_ErrorMessage = None, jresp_JobId = ja_JobId ?a, jresp_Status = JobStatusQueued, jresp_VpcInfo = None\<rparr>"
    by (rule accepted_request_can_be_polled [OF h])
       (use g in \<open>simp_all add: empty_sys_def empty_db_def parse_uuid_def\<close>)
  then have "spawned (rw_sys ?w) = [RunProvisionWorkflow 1 ''acme''] \<and> status_code ?r = 200"
    by (simp add: acme_request_TenantID empty_sys_def)
  with g show ?thesis by (intro exI [of _ "rw_sys ?w"] exI [of _ ?r] exI conjI) simp_all
qed

text \<open>C15. The job id an accepted deprovisioning returns cannot be polled: the job is kept under
  the tenant's id, and \<open>GetJob\<close> only looks under the nil tenant, so polling answers 404.\<close>

theorem deprovision_job_not_pollable:
  assumes "sem f (Handler_DeprovisionVPC (provisioner_service uuid_Parse New) x) s (Success 202 a) t"
    and "provisioning_jobs (db s) (uuid_Nil, dp_JobId a) = None" and "tenants (db s) uuid_Nil = None"
    and "uuid_Parse (uuid_String (dp_JobId a)) = Some (dp_JobId a)"
    and "sem NoFaults (Handler_GetJob uuid_Parse (provisioner_service uuid_Parse New) (dp_JobId a)) t r u"
  shows "r = Failure 404 \<lparr>err_code = NOT_FOUND, err_message = ''job not found''\<rparr>"
  by (rule deprovision_then_poll [OF assms])

definition one_tenant_world :: ref_world where
  "one_tenant_world = ref_start\<lparr>rw_sys := empty_sys\<lparr>db := empty_db\<lparr>
     tenants := [5 \<mapsto> new_tenant_row (new_tenant 5 0 ''acme'' ''Acme'' ''pro'')]\<rparr>\<rparr>, rw_tenants := [5]\<rparr>"

lemma deprovision_accepted_run:
  "fst (ref_run (Handler_DeprovisionVPC (provisioner_service P New) ''acme'') one_tenant_world) =
     Success 202 \<lparr>dp_JobId = 1, dp_Status = ''QUEUED'', dp_TenantId = ''acme''\<rparr>"
  by (simp add: Handler_DeprovisionVPC_def acme_pattern Deprovision_def TenantStore_GetBySlug_def scan_tenant_def
      JobStore_Enqueue_def new_job_row_def new_tenant_row_def one_tenant_world_def ref_eval cong: bind_weak)

theorem deprovision_job_not_pollable_witness:
  "\<exists>t r u. sem NoFaults (Handler_GetJob parse_uuid (provisioner_service parse_uuid New) 1) t r u \<and>
     status_code r = 404 \<and> t = rw_sys (snd (ref_run (Handler_DeprovisionVPC (provisioner_service parse_uuid New) ''acme'')
       one_tenant_world))"
proof -
  let ?h = "Handler_DeprovisionVPC (provisioner_service parse_uuid New) ''acme''"
  let ?g = "Handler_GetJob parse_uuid (provisioner_service parse_uuid New) 1"
  let ?w = "snd (ref_run ?h one_tenant_world)"
  have good: "ref_good one_tenant_world"
    by (simp add: one_tenant_world_def ref_good_def ref_start_def empty_sys_def empty_db_def)
  have h: "sem NoFaults ?h (rw_sys one_tenant_world)
      (Success 202 \<lparr>dp_JobId = 1, dp_Status = ''QUEUED'', dp_TenantId = ''acme''\<rparr>) (rw_sys ?w)"
    using ref_run_sem(1) [OF good, of ?h] unfolding deprovision_accepted_run .
  have g: "sem NoFaults ?g (rw_sys ?w) (fst (ref_run ?g ?w)) (rw_sys (snd (ref_run ?g ?w)))"
    by (rule ref_run_sem) (rule ref_run_sem(2) [OF good])
  have "fst (ref_run ?g ?w) = Failure 404 \<lparr>err_code = NOT_FOUND, err_message = ''job not found''\<rparr>"
    by (rule deprovision_job_not_pollable [OF h])
       (use g in \<open>simp_all add: one_tenant_world_def empty_sys_def empty_db_def parse_uuid_def uuid_Nil_def\<close>)
  then show ?thesis using g by (intro exI [of _ "rw_sys ?w"] exI [of _ "fst (ref_run ?g ?w)"] exI) simp
qed

text \<open>C16. The idempotency key of a provisioning request depends on the slug only. Once a
  job exists for it, every later \<open>Provision\<close> returns that old job, and when the job is not queued any
  more (it failed, say) the workflow started for it does nothing: the tenant cannot be provisioned
  again.\<close>

theorem failed_provisioning_not_retried:
  assumes "sem f (Provision New p) s (Inr jobID) t"
    and "provisioning_jobs_by_idem (db s) (uuid_Nil, ''provision-vpc:'' @ pp_TenantSlug p) = Some old"
    and "job_status (db s) uuid_Nil old \<noteq> Some JobStatusQueued"
  shows "jobID = old \<and> db t = db s \<and>
    (\<forall>f' a u. sem f' (runProvisionWorkflow New256 New jobID (pp_TenantSlug p)) t a u \<longrightarrow> u = t)"
proof -
  have "jobID = old" "db t = db s" using Provision_again [OF assms(1,2)] by simp_all
  moreover have "u = t" if "sem f' (runProvisionWorkflow New256 New jobID (pp_TenantSlug p)) t a u" for f' a u
    by (rule workflow_not_queued [OF that]) (use calculation assms(3) in simp)
  ultimately show ?thesis by blast
qed

definition failed_world :: ref_world where
  "failed_world = ref_start\<lparr>rw_sys := empty_sys\<lparr>db := empty_db\<lparr>
     provisioning_jobs := [(uuid_Nil, 9) \<mapsto> (new_job_row ''k'' JobOperationProvisionVPC 0)\<lparr>jcol_status := Some JobStatusFailed\<rparr>],
     provisioning_jobs_by_idem := [(uuid_Nil, ''provision-vpc:acme'') \<mapsto> 9]\<rparr>\<rparr>\<rparr>"

lemma failed_run: "fst (ref_run (Provision New \<lparr>pp_TenantSlug = ''acme''\<rparr>) failed_world) = Inr 9"
  by (simp add: Provision_def JobStore_Enqueue_def failed_world_def ref_eval cong: bind_weak)

theorem failed_provisioning_not_retried_witness:
  "\<exists>t. sem NoFaults (Provision New \<lparr>pp_TenantSlug = ''acme''\<rparr>) (rw_sys failed_world) (Inr 9) t \<and>
     db t = db (rw_sys failed_world)"
proof -
  let ?r = "ref_run (Provision New \<lparr>pp_TenantSlug = ''acme''\<rparr>) failed_world"
  have "ref_good failed_world"
    by (simp add: failed_world_def ref_good_def ref_start_def empty_sys_def empty_db_def)
  from ref_run_sem(1) [OF this, of "Provision New \<lparr>pp_TenantSlug = ''acme''\<rparr>"]
  have s: "sem NoFaults (Provision New \<lparr>pp_TenantSlug = ''acme''\<rparr>) (rw_sys failed_world) (Inr 9) (rw_sys (snd ?r))"
    unfolding failed_run .
  have "provisioning_jobs_by_idem (db (rw_sys failed_world)) (uuid_Nil, ''provision-vpc:'' @ pp_TenantSlug \<lparr>pp_TenantSlug = ''acme''\<rparr>) = Some 9"
    "job_status (db (rw_sys failed_world)) uuid_Nil 9 \<noteq> Some JobStatusQueued"
    by (simp_all add: failed_world_def job_status_def JobStatusFailed_def JobStatusQueued_def)
  from failed_provisioning_not_retried [OF s this] s show ?thesis by blast
qed

text \<open>C17. The pattern of the REST layer accepts exactly the labels of lower case letters, digits
  and inner hyphens that \<open>validateNamespace\<close> accepts, and for an accepted identifier both policies of
  the namespace \<open>tenant-<id>\<close> render: a request that passes validation cannot fail for its name.
  Neither check bounds the length: a tenant id of 63 characters, the longest the API documents, passes
  the pattern, and its namespace passes \<open>validateNamespace\<close> although it has 70 characters, more than the
  63 of an RFC 1123 label.\<close>

theorem tenant_ids_are_labels:
  "(matches tenantIDPattern x \<longleftrightarrow> validateNamespace x = None) \<and>
   (validateNamespace x = None \<longleftrightarrow> dns_label x) \<and>
   (matches tenantIDPattern x \<longrightarrow> (\<exists>iso acc. TenantIsolationPolicy (''tenant-'' @ x) = Inr iso \<and>
      ProvisionerAccessPolicy (''tenant-'' @ x) = Inr acc)) \<and>
   (let long = replicate 63 (CHR ''a'') in matches tenantIDPattern long \<and> validateNamespace (''tenant-'' @ long) = None \<and>
      length (''tenant-'' @ long) = 70)"
proof -
  have long: "dns_label (replicate 63 (CHR ''a''))" by (simp add: dns_label_def lower_alnum_def)
  have render: "dns_label x \<longrightarrow> (\<exists>iso acc. TenantIsolationPolicy (''tenant-'' @ x) = Inr iso \<and>
      ProvisionerAccessPolicy (''tenant-'' @ x) = Inr acc)"
    using policies_render [OF dns_label_prefix] by blast
  have "length (''tenant-'' @ replicate 63 (CHR ''a'')) = 70" by simp
  with long render dns_label_prefix [OF long] show ?thesis
    unfolding tenantIDPattern_dns_label validateNamespace_iff Let_def by (intro conjI refl)
qed

theorem tenant_ids_are_labels_witness:
  "matches tenantIDPattern ''acme-corp'' \<and> (\<exists>iso. TenantIsolationPolicy (''tenant-'' @ ''acme-corp'') = Inr iso) \<and>
   validateNamespace ''-acme'' \<noteq> None"
proof -
  note sound = tenant_ids_are_labels [THEN conjunct1] and exact = tenant_ids_are_labels [THEN conjunct2, THEN conjunct1]
    and renders = tenant_ids_are_labels [THEN conjunct2, THEN conjunct2, THEN conjunct1, rule_format]
  have yes: "matches tenantIDPattern x \<and> (\<exists>iso. TenantIsolationPolicy (''tenant-'' @ x) = Inr iso)" if "dns_label x" for x
  proof -
    have m: "matches tenantIDPattern x" using sound [of x] exact [of x] that by simp
    from renders [OF m] show ?thesis using m by (elim exE conjE) (intro conjI exI)
  qed
  have no: "validateNamespace x \<noteq> None" if "\<not> dns_label x" for x
    using exact [of x] that by simp
  have labels: "dns_label ''acme-corp''" "\<not> dns_label ''-acme''" by (simp_all add: dns_label_def lower_alnum_def)
  show ?thesis using yes [OF labels(1)] no [OF labels(2)] by simp
qed

section \<open>Stores and secrets\<close>

lemma ref_run_then:
  "sem NoFaults q (rw_sys (snd (ref_run p ref_start))) (fst (ref_run q (snd (ref_run p ref_start))))
     (rw_sys (snd (ref_run q (snd (ref_run p ref_start)))))"
  by (rule ref_run_sem) (rule ref_run_sem(2) [OF ref_good_start])

text \<open>C18. Whatever else runs beside them and whatever fails, also writes that time out, all
  submissions of one idempotency key that succeed return the same job, the one the key is bound to.\<close>

theorem enqueues_of_a_key_agree:
  assumes "preach f ps s qs t" and "m < length ps" "n < length ps"
    and "ps ! m = JobStore_Enqueue tid k op" "ps ! n = JobStore_Enqueue tid k op'"
    and "qs ! m = Ret (Inr i)" "qs ! n = Ret (Inr j)"
  shows "i = j \<and> provisioning_jobs_by_idem (db t) (tid, k) = Some i"
  by (rule same_key_same_job [OF assms])

lemma two_enqueues:
  "fst (sched_run (ref_ops (\<lambda>_. Answer)) [0, 1, 0, 1, 0, 0] [JobStore_Enqueue 5 ''k'' JobOperationProvisionVPC,
     JobStore_Enqueue 5 ''k'' JobOperationDeprovisionVPC] ref_start) = [Ret (Inr 1), Ret (Inr 1)]"
  by (simp add: JobStore_Enqueue_def ref_eval new_job_row_def)

theorem enqueues_of_a_key_agree_witness:
  "\<exists>t. preach CleanFaults [JobStore_Enqueue 5 ''k'' JobOperationProvisionVPC, JobStore_Enqueue 5 ''k'' JobOperationDeprovisionVPC]
     empty_sys [Ret (Inr 1), Ret (Inr 1)] t \<and> provisioning_jobs_by_idem (db t) (5, ''k'') = Some 1"
proof -
  let ?ps = "[JobStore_Enqueue 5 ''k'' JobOperationProvisionVPC, JobStore_Enqueue 5 ''k'' JobOperationDeprovisionVPC]"
  let ?r = "sched_run (ref_ops (\<lambda>_. Answer)) [0, 1, 0, 1, 0, 0] ?ps ref_start"
  have p: "preach CleanFaults ?ps empty_sys [Ret (Inr 1), Ret (Inr 1)] (rw_sys (snd ?r))"
    using ref_pool_start [of "[0, 1, 0, 1, 0, 0]" ?ps] unfolding two_enqueues by simp
  show ?thesis
    using enqueues_of_a_key_agree [OF p, of 0 1 5 "''k''" JobOperationProvisionVPC JobOperationDeprovisionVPC 1 1] p by auto
qed

text \<open>A tenant that was created is found by its slug and by its id as it was created, with its times
  in milliseconds.\<close>

theorem created_tenant_found:
  assumes "sem f (TenantStore_Create x dn plan) s (Inr T) t" and "slug_inv (db s)"
    and "sem NoFaults (TenantStore_GetBySlug x) t r u"
    and "sem NoFaults (TenantStore_Get (TenantID T)) t r' u'"
  shows "r = Inr (stored_tenant T) \<and> r' = Inr (stored_tenant T) \<and> u = t \<and> u' = t"
  using Create_GetBySlug [OF assms(1-3)] Create_Get [OF assms(1,4)] by simp

theorem created_tenant_found_witness:
  "\<exists>T t u. sem NoFaults (TenantStore_Create ''acme'' ''Acme'' ''pro'') empty_sys (Inr T) t \<and>
     sem NoFaults (TenantStore_GetBySlug ''acme'') t (Inr (stored_tenant T)) u"
proof -
  let ?c = "TenantStore_Create ''acme'' ''Acme'' ''pro''" and ?g = "TenantStore_GetBySlug ''acme''"
  let ?w = "snd (ref_run ?c ref_start)"
  have "\<exists>T. fst (ref_run ?c ref_start) = Inr T" by (simp add: TenantStore_Create_def ref_eval)
  then obtain T where T: "fst (ref_run ?c ref_start) = Inr T" by blast
  have c: "sem NoFaults ?c empty_sys (Inr T) (rw_sys ?w)" using ref_run_start [of ?c] unfolding T .
  have "fst (ref_run ?g ?w) = Inr (stored_tenant T)"
    using created_tenant_found [OF c _ ref_run_then ref_run_then] by (simp add: empty_sys_def)
  then show ?thesis using c ref_run_then [of ?g ?c] by auto
qed

text \<open>C19. A key that was stored is found by its hash. After it is revoked by its id the lookup
  says REVOKED, every other key is untouched, and no later store or revocation changes that.\<close>

theorem revoked_key_stays_revoked:
  assumes "sem f (APIKeyStore_Store k) s None t" and "api_keys (db s) (Key_KeyHash k) = None"
    and "sem NoFaults (APIKeyStore_Lookup (Key_KeyHash k)) t r t'"
    and "key_inv (db t)" and "sem f' (APIKeyStore_RevokeByID (Key_KeyID k)) t None u"
    and "sem f1 (APIKeyStore_Store k') u r1 v" and "sem f2 (APIKeyStore_RevokeByID i) v r2 w"
    and "sem NoFaults (APIKeyStore_Lookup (Key_KeyHash k)) w r' w'"
  shows "r = Inr (stored_key k) \<and> (\<exists>K. r' = Inr K \<and> Key_Status K = APIKeyStatusRevoked) \<and>
    (\<forall>h. h \<noteq> Key_KeyHash k \<longrightarrow> api_keys (db u) h = api_keys (db t) h)"
proof -
  have "keys_by_id (db t) (Key_KeyID k) (Key_KeyHash k)"
    using assms(1,2) by (auto simp: Store_sem keys_by_id_def key_row_of_def)
  note revoke = RevokeByID_revokes [OF assms(4) this assms(5)]
  have "revoked (db u) (Key_KeyHash k)" using revoke(1) by (auto simp: revoked_def)
  then have "revoked (db v) (Key_KeyHash k)" by (rule revoked_forever(1) [OF _ assms(6)])
  then have "revoked (db w) (Key_KeyHash k)" by (rule revoked_forever(2) [OF _ assms(7)])
  then have "\<exists>K. r' = Inr K \<and> Key_Status K = APIKeyStatusRevoked"
    using Lookup_sem [OF assms(8)] by (cases r') (auto simp: revoked_def scan_key_def)
  then show ?thesis using Store_Lookup [OF assms(2,1,3)] revoke(2) by blast
qed

definition ci_key :: APIKey where
  "ci_key = new_api_key ''h'' 3 1 ''ci'' ''provision:read''"

theorem revoked_key_stays_revoked_witness:
  "\<exists>t u. sem NoFaults (APIKeyStore_Store ci_key) empty_sys None t \<and> sem NoFaults (APIKeyStore_RevokeByID 3) t None u \<and>
     sem NoFaults (APIKeyStore_Lookup ''h'') t (Inr (stored_key ci_key)) t \<and>
     (\<exists>K. sem NoFaults (APIKeyStore_Lookup ''h'') u (Inr K) u \<and> Key_Status K = APIKeyStatusRevoked)"
proof -
  let ?row = "key_row_of ci_key"
  let ?t = "empty_sys\<lparr>db := cas_effect (InsertAPIKey ''h'' ?row) (db empty_sys)\<rparr>"
  let ?u = "?t\<lparr>db := exec_effect (UpdateKeyStatus ''h'' APIKeyStatusRevoked) (db ?t)\<rparr>"
  have k: "Key_KeyHash ci_key = ''h''" "Key_KeyID ci_key = 3" by (simp_all add: ci_key_def new_api_key_def)
  have t: "sem NoFaults (APIKeyStore_Store ci_key) empty_sys None ?t" by (simp add: Store_sem k)
  have id: "kcol_key_id ?row = Some 3" by (simp add: key_row_of_def k)
  have inv: "key_inv (db ?t)" by (auto simp: key_inv_def keys_by_id_def empty_sys_def empty_db_def cas_effect_def)
  have l: "sem NoFaults (APIKeyStore_Lookup ''h'') ?t (Inr (scan_key ''h'' ?row)) ?t"
    by (simp add: APIKeyStore_Lookup_def empty_sys_def empty_db_def cas_effect_def ex_reply)
  have u: "sem NoFaults (APIKeyStore_RevokeByID 3) ?t None ?u"
    by (auto simp: APIKeyStore_RevokeByID_def APIKeyStore_revokeWhere_def ex_reply keys_by_id_def id empty_sys_def
        empty_db_def cas_effect_def)
  have v: "sem NoFaults (APIKeyStore_Store ci_key) ?u None ?u"
    by (simp add: Store_sem k empty_sys_def empty_db_def cas_effect_def)
  have w: "sem NoFaults (APIKeyStore_RevokeByID 9) ?u None ?u"
    by (auto simp: APIKeyStore_RevokeByID_def APIKeyStore_revokeWhere_def ex_reply keys_by_id_def id empty_sys_def
        empty_db_def cas_effect_def)
  have l': "sem NoFaults (APIKeyStore_Lookup ''h'') ?u
      (Inr (scan_key ''h'' (?row\<lparr>kcol_status := Some APIKeyStatusRevoked\<rparr>))) ?u"
    by (simp add: APIKeyStore_Lookup_def empty_sys_def empty_db_def cas_effect_def ex_reply)
  have "Inr (scan_key ''h'' ?row) = Inr (stored_key ci_key) \<and>
      (\<exists>K. Inr (scan_key ''h'' (?row\<lparr>kcol_status := Some APIKeyStatusRevoked\<rparr>)) = (Inr K :: gerror + APIKey) \<and>
         Key_Status K = APIKeyStatusRevoked)"
    using revoked_key_stays_revoked [where k = ci_key, unfolded k, OF t _ l inv u v w l']
    by (simp add: empty_sys_def empty_db_def)
  then show ?thesis using t u l l' by auto
qed

text \<open>C20. A stored kubeconfig is retrieved unchanged, a revoked one answers with
  \<open>ErrNotFound\<close>, and neither operation touches the secret of another tenant.\<close>

theorem kubeconfig_round_trip:
  assumes "sem f (Store tid yaml) s None t" and "sem NoFaults (Retrieve tid) t r1 t1"
    and "sem f' (Revoke tid) t None u" and "sem NoFaults (Retrieve tid) u r2 u2"
  shows "r1 = Inr yaml \<and> r2 = Inl (Sentinel provisioner_ErrNotFound) \<and>
    (\<forall>other. other \<noteq> tid \<longrightarrow> kv t (kv_path other) = kv s (kv_path other) \<and> kv u (kv_path other) = kv s (kv_path other))"
  using Store_Retrieve [OF assms(1,2)] Revoke_Retrieve [OF assms(3,4)] assms(1,3)
  by (simp add: kubeconfig_Store_sem kubeconfig_Revoke_sem)

theorem kubeconfig_round_trip_witness:
  "\<exists>t u. sem NoFaults (Store ''acme'' ''cfg'') empty_sys None t \<and> sem NoFaults (Revoke ''acme'') t None u \<and>
     sem NoFaults (Retrieve ''acme'') t (Inr ''cfg'') t \<and> stored_kubeconfig u ''acme'' = None"
proof -
  have l: "dns_label ''acme''" by (rule acme_label)
  let ?t = "empty_sys\<lparr>kv := (kv empty_sys)(kv_path ''acme'' \<mapsto> [kubeconfigKey \<mapsto> KVString ''cfg''])\<rparr>"
  let ?u = "?t\<lparr>kv := (kv ?t)(kv_path ''acme'' := None)\<rparr>"
  have s: "sem NoFaults (Store ''acme'' ''cfg'') empty_sys None ?t" using l by (simp add: kubeconfig_Store_sem)
  have r: "sem NoFaults (Revoke ''acme'') ?t None ?u" using l by (simp add: kubeconfig_Revoke_sem)
  have g: "sem NoFaults (Retrieve ''acme'') ?t (Inr ''cfg'') ?t"
    by (subst Retrieve_present [OF l, of _ "[kubeconfigKey \<mapsto> KVString ''cfg'']" "''cfg''"]) simp_all
  have "sem NoFaults (Retrieve ''acme'') ?u (Inl (Sentinel provisioner_ErrNotFound)) ?u"
    using validateTenantID_None [of "''acme''"] l
    by (simp add: Retrieve_def kv_reply_def kv_missing_def) (rule exI [of _ "Inr None"], simp)
  from kubeconfig_round_trip [OF s g r this] show ?thesis
    using s r g by (intro exI [of _ ?t] exI [of _ ?u]) (simp add: stored_kubeconfig_def)
qed

text \<open>C21. The result the workflow writes into a job is the result \<open>GetJob\<close> reads from it: the CIDRs, the
  raw key and the key id come back, for the keys \<open>GenerateAPIKey\<close> makes and any CIDR pair in ASCII.\<close>

theorem job_result_round_trip:
  assumes "sem f (GenerateAPIKey (Inr H) APIKeyStore_Store tid dn scopes) s (Inr G) t"
    and "ascii (Pair_PodCIDR c)" "ascii (Pair_SvcCIDR c)"
    and "uuid_Parse (uuid_String (Key_KeyID (Gen_Record G))) = Some (Key_KeyID (Gen_Record G))"
  shows "parseVPCResult uuid_Parse (result_json G c) = Some
    \<lparr>vpr_PodCIDR = Pair_PodCIDR c, vpr_SvcCIDR = Pair_SvcCIDR c, vpr_APIKey = Gen_RawKey G,
     vpr_APIKeyID = Key_KeyID (Gen_Record G)\<rparr>"
proof -
  from key_store.Generate_sem [OF assms(1)] obtain buf where
    "Gen_RawKey G = apiKeyPrefix @ EncodeToString buf" "Gen_KeyHash G = EncodeToString (H (Gen_RawKey G))" by blast
  moreover have "ascii apiKeyPrefix" by (simp add: ascii_def apiKeyPrefix_def)
  ultimately have "ascii (Gen_RawKey G)" "ascii (Gen_KeyHash G)"
    using ascii_EncodeToString by (auto simp: ascii_def)
  then show ?thesis using assms(2-4) ascii_uuid_String by (intro parse_result)
qed

theorem job_result_round_trip_witness:
  "\<exists>G t. sem NoFaults (GenerateAPIKey (Inr rev) APIKeyStore_Store 1 ''k'' ''provision:read'') empty_sys (Inr G) t \<and>
     map_option vpr_APIKey (parseVPCResult (\<lambda>_. Some (Key_KeyID (Gen_Record G))) (result_json G fixed_cidrs)) = Some (Gen_RawKey G)"
proof -
  let ?p = "GenerateAPIKey (Inr rev) APIKeyStore_Store 1 ''k'' ''provision:read''"
  have "\<exists>G. fst (ref_run ?p ref_start) = Inr G"
    by (simp add: GenerateAPIKey_def newRawKeyAndHash_def HashAPIKey_def APIKeyStore_Store_def ref_eval cong: bind_weak)
  then obtain G where G: "fst (ref_run ?p ref_start) = Inr G" by blast
  have s: "sem NoFaults ?p empty_sys (Inr G) (rw_sys (snd (ref_run ?p ref_start)))"
    using ref_run_start [of ?p] unfolding G .
  have "ascii (Pair_PodCIDR fixed_cidrs)" "ascii (Pair_SvcCIDR fixed_cidrs)" by (simp_all add: fixed_cidrs_def ascii_def)
  from job_result_round_trip [OF s this, of "\<lambda>_. Some (Key_KeyID (Gen_Record G))"] s show ?thesis by auto
qed

section \<open>Schema, cluster and network policies\<close>

text \<open>Applying a schema executes exactly the non-empty statements of the file, in order, when it
  succeeds. When it fails it has executed a proper prefix of them, and the failed statement only if it
  timed out. No statement holds a semicolon, and joined again they are the file without its comment
  lines.\<close>

theorem schema_applied_in_order:
  assumes "sem f (ApplySchema src) s r t"
  defines "stmts \<equiv> filter (\<lambda>x. x \<noteq> []) (map TrimSpace (splitStatements src))"
  shows "(r = None \<longrightarrow> ddl_log (db t) = ddl_log (db s) @ stmts) \<and>
    (r \<noteq> None \<longrightarrow> f \<noteq> NoFaults \<and> (\<exists>pre stmt rest. stmts = pre @ stmt # rest \<and> (ddl_log (db t) = ddl_log (db s) @ pre \<or>
       f = AnyFaults \<and> ddl_log (db t) = ddl_log (db s) @ pre @ [stmt]))) \<and>
    (\<forall>x\<in>set (splitStatements src). CHR '';'' \<notin> set x) \<and>
    Join (splitStatements src) '';'' =
      concat (map (\<lambda>line. line @ [CHR 0x0A]) (filter (\<lambda>line. \<not> is_comment line) (Split src (CHR 0x0A))))"
proof (intro conjI impI ballI)
  have stmts: "stmts = schema_statements src" by (simp add: stmts_def schema_statements_def nonblank_def)
  show "ddl_log (db t) = ddl_log (db s) @ stmts" if "r = None"
    using ApplySchema_ok [OF assms(1) [unfolded that]] unfolding stmts by (simp add: ddl_done_def)
  show "f \<noteq> NoFaults" if "r \<noteq> None"
    using that ApplySchema_fails [of f src s _ t] assms(1) by (cases r) auto
  show "\<exists>pre stmt rest. stmts = pre @ stmt # rest \<and> (ddl_log (db t) = ddl_log (db s) @ pre \<or>
       f = AnyFaults \<and> ddl_log (db t) = ddl_log (db s) @ pre @ [stmt])" if "r \<noteq> None"
  proof -
    from that obtain e where "r = Some e" by blast
    with ApplySchema_fails assms(1) obtain pre stmt rest where "schema_statements src = pre @ stmt # rest"
      "t = ddl_done s pre \<or> f = AnyFaults \<and> t = ddl_done s (pre @ [stmt])" by blast
    then show ?thesis unfolding stmts by (intro exI conjI) (assumption, auto simp: ddl_done_def)
  qed
qed (simp_all add: splitStatements_no_semicolon splitStatements_join)

definition two_tables :: string where
  "two_tables = unlines [''-- tables; of the test'', ''CREATE TABLE a;'', ''  -- next'', ''CREATE TABLE b;'']"

lemma two_tables_statements:
  "filter (\<lambda>x. x \<noteq> []) (map TrimSpace (splitStatements two_tables)) = [''CREATE TABLE a'', ''CREATE TABLE b'']"
  by code_simp

theorem schema_applied_in_order_witness:
  "ddl_log (db (rw_sys (snd (ref_run (ApplySchema two_tables) ref_start)))) = [''CREATE TABLE a'', ''CREATE TABLE b''] \<and>
   fst (ref_run (ApplySchema two_tables) ref_start) = None"
proof -
  have "ddl_log (db empty_sys) = []" by (simp add: empty_sys_def empty_db_def)
  with schema_applied_in_order [OF ref_run_start [of "ApplySchema two_tables"], unfolded two_tables_statements]
  show ?thesis by simp
qed



text \<open>A successful \<open>CreateVCluster\<close> was given a valid tenant id and both CIDRs, created the
  cluster of that tenant in its namespace with these CIDRs in the Helm values, saw it ready after at
  most 31 polls, and exported a kubeconfig that is not empty; it changed nothing else.\<close>

theorem cluster_created_for_tenant:
  assumes "sem f (CreateVCluster cfg) s (Inr kc) t"
  defines "tid \<equiv> vc_TenantID cfg" and "ns \<equiv> vc_HostNamespace cfg"
  shows "dns_label tid \<and> kc \<noteq> [] \<and> vc_PodCIDR cfg \<noteq> [] \<and> vc_SvcCIDR cfg \<noteq> [] \<and>
    (\<exists>k\<le>30. t = s\<lparr>cmds := cmds s @
       [([''vcluster'', ''create'', tid, ''--namespace'', ns, ''--chart-values'',
          ''vcluster:'' @ NL @ ''  extraArgs:'' @ NL @ ''    - --cluster-cidr='' @ vc_PodCIDR cfg @ NL @
          ''    - --service-cidr='' @ vc_SvcCIDR cfg @ NL, ''--connect=false'', ''--update-current=false''], [], True)] @
       replicate k (rollout_args tid ns, [], False) @
       [(rollout_args tid ns, [], True),
        ([''vcluster'', ''connect'', tid, ''--namespace'', ns, ''--server'',
          ''https://'' @ tid @ ''.'' @ ns @ ''.svc.cluster.local:443'', ''--print'', ''--update-current=false''], [], True)]\<rparr>)"
  using Create_ok [OF assms(1)] unfolding create_args_def helm_values_def ready_polls_eq tid_def ns_def
  by (elim conjE exE) (intro conjI, assumption+, intro exI conjI, assumption, simp)

definition acme_cluster :: VClusterConfig where
  "acme_cluster = \<lparr>vc_TenantID = ''acme'', vc_HostNamespace = ''tenant-acme'', vc_PodCIDR = ''10.100.1.0/24'',
     vc_SvcCIDR = ''10.200.1.0/24''\<rparr>"

theorem cluster_created_for_tenant_witness:
  "\<exists>t. sem NoFaults (CreateVCluster acme_cluster) empty_sys (Inr ''ok'') t \<and> 3 \<le> length (cmds t)"
proof -
  let ?r = "ref_run (CreateVCluster acme_cluster) ref_start"
  have "fst ?r = Inr ''ok''"
    using validateTenantID_None [of "''acme''"] TrimSpace_ok
    by (simp add: CreateVCluster_def acme_cluster_def runVClusterCLI_def defaultVClusterRunner_def waitVClusterReady_def
        waitVClusterReady_from.simps runKubectl_def defaultKubectlRunner_def exportVClusterKubeconfig_def
        defaultKubeconfigExporter_def Let_def ref_eval log_command_def cong: bind_weak)
  then have s: "sem NoFaults (CreateVCluster acme_cluster) empty_sys (Inr ''ok'') (rw_sys (snd ?r))"
    using ref_run_start [of "CreateVCluster acme_cluster"] by simp
  from cluster_created_for_tenant [OF s] have "3 \<le> length (cmds (rw_sys (snd ?r)))" by auto
  then show ?thesis using s by blast
qed

text \<open>C23. Exactly for DNS labels the isolation policy renders, and its text is the one document
  that lets in only traffic from the namespace itself; the access policy of the same namespace lets
  only \<open>cf-system\<close> reach the vCluster pods, on port 6443. A name cannot inject lines into either.\<close>

theorem policies_render_as_documented:
  "((\<exists>doc. TenantIsolationPolicy ns = Inr doc) \<longleftrightarrow> dns_label ns) \<and>
   ((\<exists>doc. ProvisionerAccessPolicy ns = Inr doc) \<longleftrightarrow> dns_label ns) \<and>
   (\<forall>doc. TenantIsolationPolicy ns = Inr doc \<longrightarrow> Split doc (CHR 0x0A) =
     [''apiVersion: cilium.io/v2'', ''kind: CiliumNetworkPolicy'', ''metadata:'', ''  name: tenant-isolation'',
      ''  namespace: '' @ ns, ''spec:'', ''  endpointSelector: {}'', ''  ingress:'', ''    - fromEndpoints:'',
      ''        - matchLabels:'', ''            io.kubernetes.pod.namespace: '' @ ns, []]) \<and>
   (\<forall>doc. ProvisionerAccessPolicy ns = Inr doc \<longrightarrow> length (Split doc (CHR 0x0A)) = 18 \<and>
     Split doc (CHR 0x0A) ! 4 = ''  namespace: '' @ ns \<and>
     Split doc (CHR 0x0A) ! 8 = ''      app: vcluster'' \<and>
     Split doc (CHR 0x0A) ! 12 = ''            io.kubernetes.pod.namespace: cf-system'' \<and>
     Split doc (CHR 0x0A) ! 15 = ''            - port: '' @ Quote ''6443'')"
proof (intro conjI allI impI)
  show "(\<exists>doc. TenantIsolationPolicy ns = Inr doc) \<longleftrightarrow> dns_label ns"
    unfolding TenantIsolationPolicy_def by (rule render_ok_iff)
  show "(\<exists>doc. ProvisionerAccessPolicy ns = Inr doc) \<longleftrightarrow> dns_label ns"
    by (auto simp: ProvisionerAccessPolicy_def validateNamespace_iff [symmetric] split: option.splits)
next
  fix doc assume "TenantIsolationPolicy ns = Inr doc"
  from isolation_lines [OF this [unfolded TenantIsolationPolicy_def]]
  show "Split doc (CHR 0x0A) =
     [''apiVersion: cilium.io/v2'', ''kind: CiliumNetworkPolicy'', ''metadata:'', ''  name: tenant-isolation'',
      ''  namespace: '' @ ns, ''spec:'', ''  endpointSelector: {}'', ''  ingress:'', ''    - fromEndpoints:'',
      ''        - matchLabels:'', ''            io.kubernetes.pod.namespace: '' @ ns, []]" by simp
next
  fix doc assume "ProvisionerAccessPolicy ns = Inr doc"
  note lines = access_lines [OF this]
  show "length (Split doc (CHR 0x0A)) = 18" unfolding lines by (simp add: provisionerAccessCNPTemplate_def)
  show "Split doc (CHR 0x0A) ! 4 = ''  namespace: '' @ ns" unfolding lines by (simp add: provisionerAccessCNPTemplate_def)
  show "Split doc (CHR 0x0A) ! 8 = ''      app: vcluster''" unfolding lines by (simp add: provisionerAccessCNPTemplate_def)
  show "Split doc (CHR 0x0A) ! 12 = ''            io.kubernetes.pod.namespace: cf-system''"
    unfolding lines by (simp add: provisionerAccessCNPTemplate_def)
  have "Quote ''6443'' = [CHR 0x22] @ ''6443'' @ [CHR 0x22]" by code_simp
  then show "Split doc (CHR 0x0A) ! 15 = ''            - port: '' @ Quote ''6443''"
    unfolding lines by (simp add: provisionerAccessCNPTemplate_def)
qed

theorem policies_render_as_documented_witness:
  "(\<exists>doc. TenantIsolationPolicy ''tenant-acme'' = Inr doc \<and> length (Split doc (CHR 0x0A)) = 12)"
proof -
  have "dns_label ''tenant-acme''" by (simp add: dns_label_def lower_alnum_def)
  with policies_render_as_documented [of "''tenant-acme''"]
  obtain doc where "TenantIsolationPolicy ''tenant-acme'' = Inr doc" by auto
  moreover from this policies_render_as_documented [of "''tenant-acme''"] have "length (Split doc (CHR 0x0A)) = 12" by auto
  ultimately show ?thesis by blast
qed



text \<open>Each predicate of \<open>internal/errors\<close> recognises exactly the errors of its constructor,
  also through any number of \<open>%w\<close> wrappings, whereas \<open>HTTPStatusFor\<close> knows only the unwrapped error: a
  wrapped platform error maps to 500.\<close>

theorem platform_errors_classified:
  "HTTPStatusFor (Some (NotFound x y)) = 404 \<and> HTTPStatusFor (Some (Unauthorized x)) = 401 \<and>
   HTTPStatusFor (Some (Forbidden x y z)) = 403 \<and> HTTPStatusFor (Some (BadRequest x)) = 400 \<and>
   HTTPStatusFor (Some (Internal c)) = 500 \<and> HTTPStatusFor (Some (Conflict x y)) = 409 \<and>
   (\<forall>e \<in> {NotFound x y, Unauthorized x, Forbidden x y z, BadRequest x, Internal c, Conflict x y}.
      let w = foldr (\<lambda>(pre, post) e. Wrap pre e post) ws e in
      (IsNotFound w \<longleftrightarrow> e = NotFound x y) \<and> (IsUnauthorized w \<longleftrightarrow> e = Unauthorized x) \<and>
      (IsForbidden w \<longleftrightarrow> e = Forbidden x y z) \<and> (ws \<noteq> [] \<longrightarrow> HTTPStatusFor (Some w) = 500))"
proof -
  have wrap: "has_code c (foldr (\<lambda>(pre, post) e. Wrap pre e post) ws e) = has_code c e" for c e
    by (induction ws) auto
  have status: "HTTPStatusFor (Some (foldr (\<lambda>(pre, post) e. Wrap pre e post) ws e)) = 500" if "ws \<noteq> []" for e
    using that by (cases ws) auto
  show ?thesis
    by (simp add: Let_def IsNotFound_def IsForbidden_def IsUnauthorized_def wrap status)
       (simp add: platform_constructors platform_codes has_code_def)
qed

theorem platform_errors_classified_witness:
  "IsNotFound (Errorf ''get instance: '' (NotFound ''instance'' ''db1'')) \<and>
   HTTPStatusFor (Some (Errorf ''get instance: '' (NotFound ''instance'' ''db1''))) = 500"
  using platform_errors_classified [of "''instance''" "''db1''" "[]" None "[(''get instance: '', [])]"] by (simp add: Let_def)

section \<open>The HTTP layer\<close>

text \<open>An environment and requests to run the chain on.\<close>

definition test_env :: http_env where
  "test_env = \<lparr>env_NewString = uuid_String \<circ> of_nat, env_Clock = (\<lambda>n. 1000000 * int n), env_Stack = ''stack'',
     env_OTelSpan = span_middleware (\<lambda>_. None)\<rparr>"

definition test_request :: "string \<Rightarrow> string \<Rightarrow> headers \<Rightarrow> request" where
  "test_request method path h = \<lparr>req_method = method, req_path = path, req_escaped = path, req_body = [], req_header = h, req_path_values = Map.empty,
     req_ctx = Background\<rparr>"

definition fresh_hw :: hw where
  "fresh_hw = \<lparr>hw_header = Map.empty, hw_sent = None, hw_body = [], hw_recorders = [], hw_log = [], hw_metrics = [],
     hw_ids = 0, hw_clock = 0\<rparr>"

lemma test_env_otel: "env_OTelSpan test_env = span_middleware (\<lambda>_. None)"
  by (simp add: test_env_def)

text \<open>C25. Through the middleware chain every handler runs with one request id, the client's
  \<open>X-Request-ID\<close> if it sent one and a fresh one otherwise: it is in the request context and in the
  response headers before the handler runs, so every error body \<open>WriteJSON\<close> writes carries it. The
  chain itself always returns, whatever the handler does.\<close>

theorem request_ids_propagate:
  assumes "env_OTelSpan env = span_middleware S"
  shows "\<exists>r' w' finish. (\<forall>h. Apply (Chain env log) h r w = (Returned, finish (h r' w'))) \<and>
    RequestIDFromContext (req_ctx r') = requestIDFromResponse w' \<and>
    requestIDFromResponse w' = (if Header_Get (req_header r) ''X-Request-ID'' = [] then env_NewString env (hw_ids w)
      else Header_Get (req_header r) ''X-Request-ID'') \<and>
    (\<forall>code msg cause st. hw_body (WriteJSON (Some (Platform code msg cause st)) (w'\<lparr>hw_sent := None\<rparr>)) =
       (if st \<in> {204, 304} then hw_body w' else hw_body w' @ errorResponse code msg (requestIDFromResponse w')))"
  by (rule exI [of _ "chain_request env S log r w"], rule exI [of _ "chain_state env S log r w"],
      rule exI [of _ "\<lambda>x. logged_exit (env_Clock env) log (spanned_request env S r w) (env_Clock env (hw_clock w))
        (chain_inner env log (spanned_request env S r w) x)"])
     (auto simp: Chain_run [OF assms] RequestIDFromContext_def requestIDFromResponse_def request_id_for_def requestIDHeader_def
       Header_Get_def Let_def)

theorem request_ids_propagate_witness:
  "\<exists>r' w' finish. (\<forall>h. Apply (Chain test_env (Logger [])) h (test_request ''GET'' ''/x'' [''X-Request-ID'' \<mapsto> ''abc'']) fresh_hw =
     (Returned, finish (h r' w'))) \<and> RequestIDFromContext (req_ctx r') = ''abc''"
proof -
  have id: "Header_Get (req_header (test_request ''GET'' ''/x'' [''X-Request-ID'' \<mapsto> ''abc''])) ''X-Request-ID'' = ''abc''"
    by (simp add: test_request_def Header_Get_def)
  from request_ids_propagate [OF test_env_otel, of "Logger []" "test_request ''GET'' ''/x'' [''X-Request-ID'' \<mapsto> ''abc'']" fresh_hw]
  show ?thesis unfolding id by (elim exE conjE, intro exI conjI) (assumption, simp)
qed

text \<open>C26. A handler that panics before it sent a status is answered with 500 and the fixed
  internal error body with the request id: nothing of the panic value reaches the client. When it
  panics after it sent a status, the client keeps that status and the error body is appended to what
  was written, but the log says 500. Either way the request is missing from the metrics, because the
  metrics middleware runs inside \<open>PanicRecovery\<close> and observes only after a return.\<close>

theorem panics_answered_discreetly:
  assumes "env_OTelSpan env = span_middleware S" and "http_handler h"
    and "h (chain_request env S (Logger as) r w) (chain_state env S (Logger as) r w) = (Panicked v, u)"
  shows "\<exists>t. Apply (Chain env (Logger as)) h r w = (Returned, t) \<and> hw_metrics t = hw_metrics u \<and>
    (hw_sent u = None \<longrightarrow> map_option fst (hw_sent t) = Some 500 \<and>
       hw_body t = hw_body u @ errorResponse CodeInternal ''an unexpected internal error occurred''
         (requestIDFromResponse u)) \<and>
    (\<forall>x. hw_sent u = Some x \<longrightarrow> hw_sent t = Some x) \<and>
    (\<exists>bs. last (hw_log t) = (''request completed'', bs) \<and> (''status'', ''500'') \<in> set bs)"
proof -
  have "length (hw_recorders u) = Suc (Suc (length (hw_recorders w)))"
    using http_handler.depth [OF assms(2,3)] by simp
  from chain_panic [where h = h and log = "Logger as" and r = r and w = w, OF assms(1,3) this] obtain t where t: "Apply (Chain env (Logger as)) h r w = (Returned, t)"
    "hw_metrics t = hw_metrics u"
    "hw_sent t = (case hw_sent u of None \<Rightarrow> Some (500, (hw_header u)(''Content-Type'' \<mapsto> ''application/json; charset=utf-8'',
      ''X-Content-Type-Options'' \<mapsto> ''nosniff'')) | Some x \<Rightarrow> Some x)"
    "\<not> bodyless u \<longrightarrow> hw_body t = hw_body u @ errorResponse CodeInternal ''an unexpected internal error occurred''
      (Header_Get (hw_header u) requestIDHeader)"
    "\<forall>bs. Logger as = Logger bs \<longrightarrow> (\<exists>cs. last (hw_log t) = (''request completed'', cs) \<and> (''status'', ''500'') \<in> set cs)"
    by (elim exE conjE) (rule that)
  from t(5) obtain cs where "last (hw_log t) = (''request completed'', cs)" "(''status'', ''500'') \<in> set cs" by auto
  moreover have "hw_sent u = None \<Longrightarrow> \<not> bodyless u" by (simp add: bodyless_def)
  ultimately show ?thesis using t(1-4) by (intro exI [of _ t] conjI) (auto simp: requestIDFromResponse_def)
qed

definition crash :: handler where
  "crash r w = (Panicked (PanicValue ''secret''), w)"

theorem panics_answered_discreetly_witness:
  "\<exists>t. Apply (Chain test_env (Logger [])) crash (test_request ''GET'' ''/x'' [''X-Request-ID'' \<mapsto> ''abc'']) fresh_hw = (Returned, t) \<and>
     map_option fst (hw_sent t) = Some 500 \<and> hw_metrics t = [] \<and>
     hw_body t = errorResponse ''INTERNAL_ERROR'' ''an unexpected internal error occurred'' ''abc''"
proof -
  let ?r = "test_request ''GET'' ''/x'' [''X-Request-ID'' \<mapsto> ''abc'']"
  let ?u = "chain_state test_env (\<lambda>_. None) (Logger []) ?r fresh_hw"
  have h: "http_handler crash" by unfold_locales (auto simp: crash_def intro: exI [of _ id])
  have id: "requestIDFromResponse ?u = ''abc''"
    by (simp add: requestIDFromResponse_def request_id_for_def test_request_def Header_Get_def requestIDHeader_def)
  have "hw_sent ?u = None" "hw_body ?u = []" "hw_metrics ?u = []" by (simp_all add: fresh_hw_def)
  moreover from panics_answered_discreetly [OF test_env_otel h, of "[]" ?r fresh_hw]
  obtain t where "Apply (Chain test_env (Logger [])) crash ?r fresh_hw = (Returned, t)" "hw_metrics t = hw_metrics ?u"
    "hw_sent ?u = None \<longrightarrow> map_option fst (hw_sent t) = Some 500 \<and>
       hw_body t = hw_body ?u @ errorResponse CodeInternal ''an unexpected internal error occurred'' (requestIDFromResponse ?u)"
    by (auto simp: crash_def)
  ultimately show ?thesis unfolding id by (intro exI [of _ t]) (simp add: CodeInternal_def)
qed

text \<open>C27. For a handler that returns, the chain leaves the response as it is, adds exactly one
  metrics observation, and its completion record carries the request id and the same status and byte
  count as the observation. The path label is the route pattern of the request as it came in: a
  \<open>WithRoutePattern\<close> inside the chain does not change it.\<close>

theorem requests_observed_once:
  assumes "env_OTelSpan env = span_middleware S" and "http_handler h"
    and "h (chain_request env S (Logger as) r w) (chain_state env S (Logger as) r w) = (Returned, u)"
  shows "\<exists>t status bytes bs. Apply (Chain env (Logger as)) h r w = (Returned, t) \<and> hw_sent t = hw_sent u \<and>
    hw_body t = hw_body u \<and> hw_metrics t = hw_metrics u @ [(req_method r, routePatternFromContext r, fmt_int status, bytes)] \<and>
    last (hw_log t) = (''request completed'', bs) \<and>
    {(''status'', fmt_int status), (''bytes'', Itoa bytes), (''request_id'', request_id_for env r w)} \<subseteq> set bs"
proof -
  from http_handler.agree [OF assms(2,3) chain_state_simps(5)] obtain rw rws where rs: "hw_recorders u = rw # rw # rws" by blast
  from chain_return [where h = h and r = r and w = w, OF assms(1,3) rs] obtain t bs where t: "Apply (Chain env (Logger as)) h r w = (Returned, t)" "hw_sent t = hw_sent u"
    "hw_body t = hw_body u"
    "hw_metrics t = hw_metrics u @ [(req_method r, routePatternFromContext r, fmt_int (rec_status rw), rec_written rw)]"
    "last (hw_log t) = (''request completed'', bs)" "(''status'', fmt_int (rec_status rw)) \<in> set bs"
    "(''bytes'', Itoa (rec_written rw)) \<in> set bs" "(''request_id'', request_id_for env r w) \<in> set bs"
    by (elim exE conjE) (rule that)
  then show ?thesis by (intro exI [of _ t] exI [of _ "rec_status rw"] exI [of _ "rec_written rw"] exI [of _ bs]) simp
qed

theorem requests_observed_once_witness:
  "\<exists>t status bytes. Apply (Chain test_env (Logger [])) healthz (test_request ''GET'' ''/healthz'' Map.empty) fresh_hw = (Returned, t) \<and>
     hw_metrics t = [(''GET'', ''/healthz'', status, bytes)]"
proof -
  let ?r = "test_request ''GET'' ''/healthz'' Map.empty"
  have "fst (healthz (chain_request test_env (\<lambda>_. None) (Logger []) ?r fresh_hw) (chain_state test_env (\<lambda>_. None) (Logger []) ?r fresh_hw)) = Returned"
    by (simp add: healthz_def)
  then obtain u where u: "healthz (chain_request test_env (\<lambda>_. None) (Logger []) ?r fresh_hw)
      (chain_state test_env (\<lambda>_. None) (Logger []) ?r fresh_hw) = (Returned, u)" by (metis prod.collapse)
  have "hw_metrics u = []" using u by (auto simp: healthz_def fresh_hw_def)
  moreover have "routePatternFromContext ?r = ''/healthz''" "req_method ?r = ''GET''"
    by (simp_all add: routePatternFromContext_def test_request_def Background_def)
  ultimately show ?thesis
    using requests_observed_once [OF test_env_otel healthz_handler.http_handler_axioms u] by auto
qed

text \<open>C28. With CORS on, a preflight request is answered with 204 before any other middleware or
  handler runs, other methods reach the handler with only headers added, and the
  \<open>Access-Control-Allow-Origin\<close> header is set by it exactly for allowed origins.\<close>

theorem cors_answers_preflight:
  fixes r :: request and w :: hw
  assumes "origins \<noteq> []" and "hw_header w ''Access-Control-Allow-Origin'' = None"
  defines "origin \<equiv> Header_Get (req_header r) ''Origin''"
  shows "\<exists>hd. (\<forall>h. Apply (ChainWithCORS origins env log) h r w =
      (if req_method r = ''OPTIONS'' then (Returned, WriteHeader 204 (w\<lparr>hw_header := hd\<rparr>))
       else Apply (Chain env log) h r (w\<lparr>hw_header := hd\<rparr>))) \<and>
    hd ''Access-Control-Allow-Origin'' =
      (if origin \<noteq> [] \<and> (''*'' \<in> set origins \<or> origin \<in> set origins) then Some origin else None)"
proof -
  have set: "origin \<in> set (fst (origin_set os)) \<or> snd (origin_set os) \<longleftrightarrow> ''*'' \<in> set os \<or> origin \<in> set os" for os
  proof (induction os)
    case (Cons x xs)
    then show ?case by (cases "x = ''*''"; cases "origin_set xs") auto
  qed simp
  obtain os all where os: "origin_set origins = (os, all)" by (cases "origin_set origins")
  have in_set: "all \<or> origin \<in> set os \<longleftrightarrow> ''*'' \<in> set origins \<or> origin \<in> set origins"
    using set [of origins] unfolding os by auto
  define hd where "hd = (if origin = [] then hw_header w else
     (if all \<or> origin \<in> set os then (hw_header w)(''Access-Control-Allow-Origin'' \<mapsto> origin) else hw_header w)
     (''Access-Control-Allow-Methods'' \<mapsto> ''GET, POST, PUT, DELETE, OPTIONS'',
      ''Access-Control-Allow-Headers'' \<mapsto> Join [''Authorization'', ''Content-Type'', ''X-Request-ID'', ''X-CF-Tenant-ID''] '', '',
      ''Access-Control-Max-Age'' \<mapsto> ''86400''))"
  have "Apply (ChainWithCORS origins env log) h r w =
      (if req_method r = ''OPTIONS'' then (Returned, WriteHeader 204 (w\<lparr>hw_header := hd\<rparr>))
       else Apply (Chain env log) h r (w\<lparr>hw_header := hd\<rparr>))" for h
    unfolding ChainWithCORS_def using assms(1)
    by (simp add: CORS_def os origin_def [symmetric] hd_def Header_Set_def)
  moreover have "hd ''Access-Control-Allow-Origin'' =
      (if origin \<noteq> [] \<and> (''*'' \<in> set origins \<or> origin \<in> set origins) then Some origin else None)"
    unfolding hd_def in_set using assms(2) by simp
  ultimately show ?thesis by blast
qed

theorem cors_answers_preflight_witness:
  "\<exists>hd. Apply (ChainWithCORS [''http://localhost:8096''] test_env (Logger [])) crash
     (test_request ''OPTIONS'' ''/x'' [''Origin'' \<mapsto> ''http://evil'']) fresh_hw = (Returned, WriteHeader 204 (fresh_hw\<lparr>hw_header := hd\<rparr>)) \<and>
     hd ''Access-Control-Allow-Origin'' = None"
proof -
  let ?r = "test_request ''OPTIONS'' ''/x'' [''Origin'' \<mapsto> ''http://evil'']"
  have "req_method ?r = ''OPTIONS''" "Header_Get (req_header ?r) ''Origin'' = ''http://evil''"
    by (simp_all add: test_request_def Header_Get_def)
  moreover have "hw_header fresh_hw ''Access-Control-Allow-Origin'' = None" by (simp add: fresh_hw_def)
  ultimately show ?thesis
    using cors_answers_preflight [of "[''http://localhost:8096'']" fresh_hw test_env "Logger []" ?r] by auto
qed

text \<open>C29. Below the routers the tenant of the request context is never set. \<open>NewRouter\<close> puts the
  chain around the mux, so \<open>TenantContext\<close> runs before the mux has matched the route: the request it
  sees has no path values, and \<open>TenantFromContext\<close> answers no in every operation. Its comment says the
  mux has resolved the path values by then.\<close>

theorem no_tenant_in_router_context:
  assumes "env_OTelSpan env = span_middleware S"
    and "req_path_values r = Map.empty" and "req_ctx r = Background"
  shows "\<exists>r' w' finish. TenantFromContext (req_ctx r') = None \<and>
    (\<forall>Redirect ReadFile mux. accounts_NewRouter env Redirect ReadFile mux log [] r w =
       (Returned, finish (top_mux Redirect (openapi_yaml ReadFile ''api/accounts/v1/openapi.yaml'')
          (docs_page ''CloudForge Accounts API'') mux r' w'))) \<and>
    (\<forall>mux. storage_NewRouter env mux log r w = (Returned, finish (mux r' w')))"
proof -
  let ?f = "\<lambda>x. logged_exit (env_Clock env) log (spanned_request env S r w) (env_Clock env (hw_clock w))
        (chain_inner env log (spanned_request env S r w) x)"
  have "TenantFromContext (req_ctx (chain_request env S log r w)) = None"
    using assms(2,3) by (simp add: TenantFromContext_def Header_Get_def Background_def)
  then show ?thesis
    by (intro exI [of _ "chain_request env S log r w"] exI [of _ "chain_state env S log r w"] exI [of _ ?f])
       (simp add: accounts_NewRouter_def storage_NewRouter_def ChainWithCORS_def Chain_run [OF assms(1)])
qed

theorem no_tenant_in_router_context_witness:
  "\<exists>r' w' finish. TenantFromContext (req_ctx r') = None \<and>
    (\<forall>mux. storage_NewRouter test_env mux (Logger []) (test_request ''GET'' ''/api/v1/tenants/acme/projects/p/buckets'' Map.empty) fresh_hw =
      (Returned, finish (mux r' w')))"
  using no_tenant_in_router_context [OF test_env_otel, of "test_request ''GET'' ''/api/v1/tenants/acme/projects/p/buckets'' Map.empty"
      "Logger []" fresh_hw] by (auto simp: test_request_def)

text \<open>\<open>GET /healthz\<close> on either service is answered with 200 and the fixed body, whatever the
  generated router, the files of the deployment or the logger do, and every error of request
  validation becomes a 400 with the BAD_REQUEST envelope.\<close>

theorem health_check_always_answers:
  assumes "env_OTelSpan env = span_middleware S" and "req_method r = ''GET''" "req_escaped r = ''/healthz''"
    and "hw_sent w = None" "hw_body w = []"
  shows "(\<exists>t. accounts_NewRouter env Redirect ReadFile mux log [] r w = (Returned, t) \<and>
      provisioner_NewRouter env Redirect ReadFile mux' log [] r w = (Returned, t) \<and>
      map_option fst (hw_sent t) = Some 200 \<and> hw_body t = ''{'' @ Quote ''status'' @ '':'' @ Quote ''ok'' @ ''}'') \<and>
    hw_sent (accounts_opapiErrorHandler err w) = Some (400, (hw_header w)(''Content-Type'' \<mapsto> ''application/json'')) \<and>
      hw_body (accounts_opapiErrorHandler err w) =
        error_json \<lparr>err_code = ''BAD_REQUEST'', err_message = Error_String err\<rparr> \<and>
      provisioner_opapiErrorHandler err w = accounts_opapiErrorHandler err w"
proof (intro conjI)
  have clean: "cleanPath ''/healthz'' = ''/healthz''" "path_segs ''/healthz'' = [''healthz'']" by code_simp+
  have body: "json_string ''status'' = Quote ''status''" "json_string ''ok'' = Quote ''ok''" by code_simp+
  have t: "top_mux R a b m (chain_request env S log r w) v = healthz (chain_request env S log r w) v" for R a b m v
    using assms(2,3) clean by (subst top_mux_healthz) (simp_all add: clean_request_def healthz_def)
  show "\<exists>t. accounts_NewRouter env Redirect ReadFile mux log [] r w = (Returned, t) \<and>
      provisioner_NewRouter env Redirect ReadFile mux' log [] r w = (Returned, t) \<and>
      map_option fst (hw_sent t) = Some 200 \<and> hw_body t = ''{'' @ Quote ''status'' @ '':'' @ Quote ''ok'' @ ''}''"
    unfolding accounts_NewRouter_def provisioner_NewRouter_def ChainWithCORS_def using assms(4,5)
    by (simp add: Chain_run [OF assms(1)] t body healthz_def chain_inner_def logged_exit_def bodyless_def)
qed (use assms(4,5) in \<open>simp_all add: accounts_opapiErrorHandler_def provisioner_opapiErrorHandler_def
      accounts_BadRequestBody_def ProvisionerApi.BadRequestBody_def newBody_def BAD_REQUEST_def\<close>)

theorem health_check_always_answers_witness:
  "\<exists>t. accounts_NewRouter test_env (\<lambda>p r w. w) (\<lambda>_. Inr []) crash (Logger []) [] (test_request ''GET'' ''/healthz'' Map.empty) fresh_hw =
     (Returned, t) \<and> map_option fst (hw_sent t) = Some 200"
proof -
  let ?r = "test_request ''GET'' ''/healthz'' Map.empty"
  have r: "req_method ?r = ''GET''" "req_escaped ?r = ''/healthz''" by (simp_all add: test_request_def)
  have w: "hw_sent fresh_hw = None" "hw_body fresh_hw = []" by (simp_all add: fresh_hw_def)
  from health_check_always_answers [OF test_env_otel r w, where Redirect = "\<lambda>p r w. w" and ReadFile = "\<lambda>_. Inr []"
      and mux = crash and log = "Logger []" and mux' = crash and err = NoRows]
  show ?thesis by (elim conjE exE) (rule exI, rule conjI, assumption+)
qed

section \<open>The generated servers\<close>

definition test_runtime :: runtime where
  "test_runtime = \<lparr>rt_BindString = (\<lambda>_ v. Inr v), rt_BindUUID = (\<lambda>_ v. Inl (Text ''invalid UUID'')),
     rt_Email = (\<lambda>j. case j of JStr x \<Rightarrow>
       if CHR ''@'' \<in> set x then Inr x else Inl (Text ''email: failed to pass regex validation'')
     | _ \<Rightarrow> Inl (Text ''email: failed to pass regex validation'')),
     rt_SyntaxError = (\<lambda>b. Text ''unexpected EOF'')\<rparr>"

text \<open>C30. \<open>POST /provision\<close> with a JSON body that names a valid tenant, through the middleware chain, the
  mux, the generated server and the handler: the client reads 202 and a JSON object with the id of the
  job \<open>Provision\<close> enqueued and the status QUEUED, or, when a call failed, 500 and the fixed error
  envelope, and then nothing outside the tables was touched.\<close>

theorem provisioning_over_http:
  fixes r :: request and w :: hw
  assumes "env_OTelSpan env = span_middleware S" and "clean_request r" "req_method r = ''POST''" "path_segs (req_escaped r) = [''provision'']"
    and "req_body r = Marshal (JObj [(''tenant_id'', JStr x), (''display_name'', JStr y), (''plan'', JStr z)])"
    and "dns_label x" "utf8 y" "utf8 z" and "hw_sent w = None" "hw_body w = []"
    and "sem f (provisioner_api rt R P (provisioner_service P New) (routed_request env S log r w)) s wr t"
  shows "\<exists>u. provisioner_NewRouter env R F (\<lambda>_ v. (Returned, wr v)) log [] r w = (Returned, u) \<and>
    ((\<exists>j. sem f (Provision New \<lparr>pp_TenantSlug = x\<rparr>) s (Inr j) t \<and> map_option fst (hw_sent u) = Some 202 \<and>
        hw_body u = Marshal (JObj [(''job_id'', JStr (uuid_String j)), (''status'', JStr ''QUEUED'')]) @ NL) \<or>
     (faulty f \<and> same_outside s t \<and> map_option fst (hw_sent u) = Some 500 \<and> hw_body u = error_json internal_body))"
proof -
  let ?q = "routed_request env S log r w"
  have "ascii x" unfolding ascii_def using dns_label_chars [OF assms(6)] by fastforce
  then have b: "decode_ProvisionRequest rt (req_body ?q) = Inr \<lparr>req_TenantID = x, req_DisplayName = y, req_Plan = z\<rparr>"
    using decode_provision_body [OF ascii_utf8 assms(7,8)] by (simp add: assms(5))
  have "sem f (strict_ProvisionVPC rt (provisioner_service P New) (?q\<lparr>req_path_values := Map.empty\<rparr>)) s wr t"
    using assms(11) route_ProvisionVPC [of ?q rt R P "provisioner_service P New"] assms(2-4) by simp
  from strict_ProvisionVPC_sem [OF this] b assms(6) have
    "(\<exists>j. wr = visit_json 202 (Inr (encode_JobAccepted \<lparr>ja_JobId = j, ja_Status = ''QUEUED''\<rparr>)) \<and>
        sem f (Provision New \<lparr>pp_TenantSlug = x\<rparr>) s (Inr j) t) \<or>
      (faulty f \<and> wr = visit_json 500 (Inr (error_envelope internal_body)) \<and> same_outside s t)" by simp
  moreover have "\<not> own_page r" using assms(3) by (simp add: own_page_def)
  from router_answer [OF assms(1,2) this, of log R _ _ "\<lambda>_. wr" w]
  obtain u where "provisioner_NewRouter env R F (\<lambda>_ v. (Returned, wr v)) log [] r w = (Returned, u)"
    "hw_sent u = hw_sent (wr (chain_state env S log r w))" "hw_body u = hw_body (wr (chain_state env S log r w))"
    unfolding provisioner_NewRouter_def by blast
  ultimately show ?thesis using assms(9,10)
    by (auto simp: visit_json_Inr error_json_def encode_JobAccepted_def)
qed

theorem provisioning_over_http_witness:
  "\<forall>R F. \<exists>wr t u. sem NoFaults (provisioner_api test_runtime R parse_uuid (provisioner_service parse_uuid New)
      (routed_request test_env (\<lambda>_. None) NoopLogger (test_request ''POST'' ''/provision'' Map.empty\<lparr>req_body :=
         Marshal (JObj [(''tenant_id'', JStr ''acme''), (''display_name'', JStr ''Acme''), (''plan'', JStr ''pro'')])\<rparr>) fresh_hw))
      empty_sys wr t \<and>
    provisioner_NewRouter test_env R F (\<lambda>_ v. (Returned, wr v)) NoopLogger [] (test_request ''POST'' ''/provision'' Map.empty\<lparr>req_body :=
         Marshal (JObj [(''tenant_id'', JStr ''acme''), (''display_name'', JStr ''Acme''), (''plan'', JStr ''pro'')])\<rparr>) fresh_hw =
      (Returned, u) \<and> map_option fst (hw_sent u) = Some 202" (is "\<forall>R F. ?Q R F")
proof (intro allI)
  fix R F
  let ?r = "test_request ''POST'' ''/provision'' Map.empty\<lparr>req_body :=
         Marshal (JObj [(''tenant_id'', JStr ''acme''), (''display_name'', JStr ''Acme''), (''plan'', JStr ''pro'')])\<rparr>"
  let ?p = "provisioner_api test_runtime R parse_uuid (provisioner_service parse_uuid New)
      (routed_request test_env (\<lambda>_. None) NoopLogger ?r fresh_hw)"
  have clean: "cleanPath ''/provision'' = ''/provision''" "path_segs ''/provision'' = [''provision'']" by code_simp+
  then have r: "clean_request ?r" "req_method ?r = ''POST''" "path_segs (req_escaped ?r) = [''provision'']"
    by (simp_all add: test_request_def clean_request_def)
  have b: "req_body ?r = Marshal (JObj [(''tenant_id'', JStr ''acme''), (''display_name'', JStr ''Acme''), (''plan'', JStr ''pro'')])"
    by simp
  have u: "utf8 ''Acme''" "utf8 ''pro''" by (simp_all add: ascii_utf8 ascii_def)
  have w: "hw_sent fresh_hw = None" "hw_body fresh_hw = []" by (simp_all add: fresh_hw_def)
  have p: "sem NoFaults ?p empty_sys (fst (ref_run ?p ref_start)) (rw_sys (snd (ref_run ?p ref_start)))"
    by (rule ref_run_start)
  from provisioning_over_http [OF test_env_otel r b acme_label u w p, of F]
  obtain u where "provisioner_NewRouter test_env R F (\<lambda>_ v. (Returned, fst (ref_run ?p ref_start) v)) NoopLogger [] ?r fresh_hw =
      (Returned, u)" "map_option fst (hw_sent u) = Some 202"
    by (elim exE conjE disjE) (rule that, assumption, assumption, simp only: faulty_simps)
  with p show "?Q R F" by blast
qed

text \<open>C31. The specifications put the APIs under \<open>/api/v1\<close> and \<open>/api/v1/vpc\<close>, and so do the comments and
  the addresses the commands print. The routers set no base URL: below \<open>/api\<close> only the specification
  and the documentation page answer, every other request is a 404, and no operation runs.\<close>

theorem documented_paths_not_found:
  fixes r :: request and w :: hw and log :: logger
  assumes "env_OTelSpan env = span_middleware S" and "clean_request r" "path_segs (req_escaped r) = ''api'' # x # ss"
    and "\<not> own_page r" "hw_sent w = None"
  defines "q \<equiv> routed_request env S log r w" and "absent \<equiv> http_Error ''404 page not found'' 404"
  shows "accounts_api rt R M H a q = Ret absent \<and> provisioner_api rt R P p q = Ret absent \<and>
    (\<exists>t. accounts_NewRouter env R F (\<lambda>_ v. (Returned, absent v)) log [] r w = (Returned, t) \<and> map_option fst (hw_sent t) = Some 404) \<and>
    (\<exists>t. provisioner_NewRouter env R F (\<lambda>_ v. (Returned, absent v)) log [] r w = (Returned, t) \<and> map_option fst (hw_sent t) = Some 404)"
proof -
  have q: "clean_request q" "path_segs (req_escaped q) = ''api'' # x # ss" unfolding q_def using assms(2,3) by simp_all
  have "hw_sent (chain_state env S log r w) = None" using assms(5) by simp
  then have "map_option fst (hw_sent (absent (chain_state env S log r w))) = Some 404"
    unfolding absent_def by (rule http_Error_sent)
  then show ?thesis
    using accounts_api_prefix [OF q] provisioner_api_prefix [OF q]
      router_answer [OF assms(1,2,4), of log R _ _ "\<lambda>_. absent" w]
    unfolding accounts_NewRouter_def provisioner_NewRouter_def absent_def [symmetric] by metis
qed

theorem documented_paths_not_found_witness:
  "\<forall>R P p. provisioner_api test_runtime R P p (routed_request test_env (\<lambda>_. None) NoopLogger
     (test_request ''POST'' ''/api/v1/vpc/provision'' Map.empty) fresh_hw) = Ret (http_Error ''404 page not found'' 404)" (is "\<forall>R P p. ?Q R P p")
proof (intro allI)
  fix R P p
  let ?r = "test_request ''POST'' ''/api/v1/vpc/provision'' Map.empty"
  have clean: "cleanPath ''/api/v1/vpc/provision'' = ''/api/v1/vpc/provision''"
    "path_segs ''/api/v1/vpc/provision'' = ''api'' # ''v1'' # [''vpc'', ''provision'']" by code_simp+
  have r: "clean_request ?r" "path_segs (req_escaped ?r) = ''api'' # ''v1'' # [''vpc'', ''provision'']" "\<not> own_page ?r"
    using clean by (simp_all add: test_request_def clean_request_def own_page_def)
  have w: "hw_sent fresh_hw = None" by (simp add: fresh_hw_def)
  show "?Q R P p"
    using documented_paths_not_found [OF test_env_otel r w, where rt = test_runtime and R = R and P = P and p = p
        and log = NoopLogger] by blast
qed

text \<open>C32. A body that cannot be decoded (malformed JSON, a field of the wrong type, an email the
  runtime's email type refuses) is answered with 400 in plain text and runs no operation. The error
  handlers of the services, which write the JSON envelope, only see errors of path parameters, and
  the 422 for an invalid email is left to addresses the email type accepts.\<close>

theorem undecodable_bodies_in_plain_text:
  fixes r :: request and w :: hw
  assumes "clean_request r" "req_method r = ''POST''" and "rt_BindString rt ''tenant_slug'' x = Inr y" "x \<noteq> ''/''"
    and "hw_sent w = None"
  defines "refusal e \<equiv> http_Error (''can't decode JSON body: '' @ Error_String e) 400"
  shows "(path_segs (req_escaped r) = [''provision''] \<longrightarrow> decode_ProvisionRequest rt (req_body r) = Inl e \<longrightarrow>
      provisioner_api rt R P p r = Ret (refusal e)) \<and>
    (path_segs (req_escaped r) = [''register''] \<longrightarrow> decode_RegisterRequest rt (req_body r) = Inl e \<longrightarrow>
      accounts_api rt R M H a r = Ret (refusal e)) \<and>
    (path_segs (req_escaped r) = [''accounts'', x, ''keys''] \<longrightarrow> decode_IssueKeyRequest rt (req_body r) = Inl e \<longrightarrow>
      accounts_api rt R M H a r = Ret (refusal e)) \<and>
    (rt_Email rt (JStr m) = Inl e \<longrightarrow> utf8 m \<longrightarrow> decode_RegisterRequest rt (Marshal (JObj [(''email'', JStr m)])) = Inl e) \<and>
    (case hw_sent (refusal e w) of Some (code, h) \<Rightarrow> code = 400 \<and> h ''Content-Type'' = Some ''text/plain; charset=utf-8''
     | None \<Rightarrow> False)"
proof (intro conjI impI)
  assume "path_segs (req_escaped r) = [''provision'']" "decode_ProvisionRequest rt (req_body r) = Inl e"
  then show "provisioner_api rt R P p r = Ret (refusal e)"
    using route_ProvisionVPC [OF assms(1,2)]
      undecodable_body [of "decode_ProvisionRequest rt" "r\<lparr>req_path_values := Map.empty\<rparr>" e] by (simp add: strict_ProvisionVPC_def refusal_def)
next
  assume "path_segs (req_escaped r) = [''register'']" "decode_RegisterRequest rt (req_body r) = Inl e"
  then show "accounts_api rt R M H a r = Ret (refusal e)"
    using route_Register [OF assms(1,2)]
      undecodable_body [of "decode_RegisterRequest rt" "r\<lparr>req_path_values := Map.empty\<rparr>" e] by (simp add: strict_Register_def refusal_def)
next
  assume "path_segs (req_escaped r) = [''accounts'', x, ''keys'']" "decode_IssueKeyRequest rt (req_body r) = Inl e"
  then show "accounts_api rt R M H a r = Ret (refusal e)"
    using route_IssueKey [OF assms(1,2) _ assms(4,3)]
      undecodable_body [of "decode_IssueKeyRequest rt" "r\<lparr>req_path_values := [''tenant_slug'' \<mapsto> x]\<rparr>" e] by (simp add: strict_IssueKey_def refusal_def)
next
  assume "rt_Email rt (JStr m) = Inl e" "utf8 m"
  then show "decode_RegisterRequest rt (Marshal (JObj [(''email'', JStr m)])) = Inl e" by (rule refused_email)
next
  show "case hw_sent (refusal e w) of Some (code, h) \<Rightarrow> code = 400 \<and> h ''Content-Type'' = Some ''text/plain; charset=utf-8''
     | None \<Rightarrow> False"
    using assms(5) by (simp add: refusal_def http_Error_def Let_def Header_Set_def)
qed

theorem undecodable_bodies_in_plain_text_witness:
  "\<forall>R P p M H a. provisioner_api test_runtime R P p (test_request ''POST'' ''/provision'' Map.empty\<lparr>req_body := ''{''\<rparr>) =
     Ret (http_Error ''can't decode JSON body: unexpected EOF'' 400) \<and>
   accounts_api test_runtime R M H a
       (test_request ''POST'' ''/register'' Map.empty\<lparr>req_body := Marshal (JObj [(''email'', JStr ''nobody'')])\<rparr>) =
     Ret (http_Error ''can't decode JSON body: email: failed to pass regex validation'' 400)" (is "\<forall>R P p M H a. ?Q R P p M H a")
proof (intro allI)
  fix R P p M H a
  let ?r = "test_request ''POST'' ''/provision'' Map.empty\<lparr>req_body := ''{''\<rparr>"
  let ?q = "test_request ''POST'' ''/register'' Map.empty\<lparr>req_body := Marshal (JObj [(''email'', JStr ''nobody'')])\<rparr>"
  have clean: "cleanPath ''/provision'' = ''/provision''" "path_segs ''/provision'' = [''provision'']"
    "cleanPath ''/register'' = ''/register''" "path_segs ''/register'' = [''register'']" by code_simp+
  then have r: "clean_request ?r" "req_method ?r = ''POST''" and q: "clean_request ?q" "req_method ?q = ''POST''"
    by (simp_all add: test_request_def clean_request_def)
  have bound: "rt_BindString test_runtime ''tenant_slug'' ''acme'' = Inr ''acme''" "''acme'' \<noteq> ''/''"
    by (simp_all add: test_runtime_def)
  have w: "hw_sent fresh_hw = None" by (simp add: fresh_hw_def)
  have "decode_ProvisionRequest test_runtime (req_body ?r) = Inl (Text ''unexpected EOF'')"
    by (simp add: decode_ProvisionRequest_def decode_body_def test_runtime_def eval_nat_numeral)
  then have 1: "provisioner_api test_runtime R P p ?r = Ret (http_Error (''can't decode JSON body: '' @ Error_String (Text ''unexpected EOF'')) 400)"
    using undecodable_bodies_in_plain_text [OF r bound w, of "Text ''unexpected EOF''"] clean by (simp add: test_request_def)
  let ?e = "Text ''email: failed to pass regex validation''"
  have "rt_Email test_runtime (JStr ''nobody'') = Inl ?e" "utf8 ''nobody''"
    by (simp_all add: test_runtime_def ascii_utf8 ascii_def)
  then have "accounts_api test_runtime R M H a ?q = Ret (http_Error (''can't decode JSON body: '' @ Error_String ?e) 400)"
    using undecodable_bodies_in_plain_text [OF q bound w, of ?e] clean by (simp add: test_request_def)
  with 1 show "?Q R P p M H a" by simp
qed

section \<open>The commands\<close>

text \<open>C33. A process whose configuration and wiring succeeded exits with status 0 only after a
  signal, and closes its session before it ends. But it does not wait for \<open>srv.Shutdown\<close>, although a
  goroutine gives the open requests 15 seconds: \<open>ListenAndServe\<close> returns as soon as the shutdown begins,
  and the process can exit, with the session closed, while any number of requests and of workflows
  are unfinished.\<close>

theorem shutdown_abandons_requests:
  "(\<forall>p. run_process None p \<longrightarrow> at p = Exited 0 \<longrightarrow> signalled p \<and> \<not> session_open p) \<and>
   (\<forall>n m. \<exists>p. run_process None p \<and> at p = Exited 0 \<and> in_flight p = n \<and> running p = m \<and> \<not> drained p) \<and>
   (\<forall>e p code. run_process (Some e) p \<longrightarrow> at p = Exited code \<longrightarrow> code = 1 \<and> completed p = 0)"
proof (intro conjI allI impI)
  fix p assume "run_process None p" "at p = Exited 0"
  from process_inv [OF this(1)] this(2) show "signalled p" "\<not> session_open p" by (simp_all add: process_inv_def)
next
  fix n m
  show "\<exists>p. run_process None p \<and> at p = Exited 0 \<and> in_flight p = n \<and> running p = m \<and> \<not> drained p"
    using exit_with [of n m] by blast
next
  fix e p code assume "run_process (Some e) p" "at p = Exited code"
  from process_inv [OF this(1)] this(2) show "code = 1" "completed p = 0" by (auto simp: process_inv_def)
qed

theorem shutdown_abandons_requests_witness:
  "(\<exists>p. run_process None p \<and> at p = Exited 0 \<and> in_flight p = 3 \<and> signalled p) \<and>
   run_process (Some (Text ''boot'')) (new_process\<lparr>at := Exited 1\<rparr>) \<and> completed (new_process\<lparr>at := Exited 1\<rparr>) = 0"
proof -
  note exits = shutdown_abandons_requests [THEN conjunct1, rule_format]
    and late = shutdown_abandons_requests [THEN conjunct2, THEN conjunct1, rule_format]
    and failed = shutdown_abandons_requests [THEN conjunct2, THEN conjunct2, rule_format]
  have "run_process (Some (Text ''boot'')) (new_process\<lparr>at := Exited 1\<rparr>)"
    using run_step.boot_fails [of new_process "Some (Text ''boot'')"]
    by (intro r_into_rtranclp) (simp add: new_process_def exit_code_def)
  moreover from failed [OF this] have "completed (new_process\<lparr>at := Exited 1\<rparr>) = 0" by simp
  moreover obtain p where p: "run_process None p" "at p = Exited 0" "in_flight p = 3" using late [of 3 0] by blast
  ultimately show ?thesis using exits [OF p(1,2)] by blast
qed

text \<open>Both commands read the same configuration and differ in the default of \<open>LISTEN_ADDR\<close>. A port
  is read from the digits \<open>SCYLLA_PORT\<close> starts with: text behind them is ignored, not refused. The
  CORS origins are the trimmed, non-empty elements of \<open>DEV_CORS_ORIGINS\<close>, while the hosts are split at
  the commas and not trimmed. A session \<open>Wire\<close> opened belongs to the application or was closed.\<close>

theorem startup_configuration:
  assumes "Getenv ''SCYLLA_PORT'' = ds @ rest" and "ds \<noteq> []" "\<forall>c\<in>set ds. digit c" "rest = [] \<or> \<not> digit (hd rest)"
    and "dec ds < 2 ^ 63"
  shows "\<exists>cfg. accounts_configFromEnv Getenv = Inr cfg \<and>
    provisioner_configFromEnv Getenv = Inr (cfg\<lparr>ListenAddr := env_or Getenv ''LISTEN_ADDR'' '':8084''\<rparr>) \<and>
    ListenAddr cfg = env_or Getenv ''LISTEN_ADDR'' '':8082'' \<and> Port (Scylla cfg) = int (dec ds) \<and>
    Hosts (Scylla cfg) = Split (env_or Getenv ''SCYLLA_HOSTS'' ''127.0.0.1'') (CHR '','') \<and>
    (\<forall>x. x \<in> set (DevCORSOrigins cfg) \<longleftrightarrow> Getenv ''DEV_CORS_ORIGINS'' \<noteq> [] \<and> x \<noteq> [] \<and>
       (\<exists>y\<in>set (Split (Getenv ''DEV_CORS_ORIGINS'') (CHR '','')). x = TrimSpace y)) \<and>
    (\<forall>CreateSession sess. NewSession CreateSession (Scylla cfg) = Inr sess \<longrightarrow>
       Wire CreateSession NewBaoClient assemble cfg log = (case NewBaoClient (OpenBaoAddr cfg) of
         Some err \<Rightarrow> (Inl err, [sess]) | None \<Rightarrow> (Inr (assemble sess log (DevCORSOrigins cfg)), [])))"
  using assms(2) Sscanf_digits [OF assms(2-5)]
  by (simp add: accounts_configFromEnv_def provisioner_configFromEnv_def configFromEnv_def assms(1) cors_origins_trimmed Wire_sessions)

theorem startup_configuration_witness:
  "\<exists>cfg. accounts_configFromEnv ((\<lambda>_. [])(''SCYLLA_PORT'' := ''9042x'', ''DEV_CORS_ORIGINS'' := '' http://localhost:8096 ,,'')) = Inr cfg \<and>
     Port (Scylla cfg) = 9042 \<and> ListenAddr cfg = '':8082'' \<and> Hosts (Scylla cfg) = [''127.0.0.1''] \<and>
     ''http://localhost:8096'' \<in> set (DevCORSOrigins cfg)"
proof -
  let ?env = "(\<lambda>_. [])(''SCYLLA_PORT'' := ''9042x'', ''DEV_CORS_ORIGINS'' := '' http://localhost:8096 ,,'')"
  have p: "?env ''SCYLLA_PORT'' = ''9042'' @ ''x''" by simp
  have d: "''9042'' \<noteq> []" "\<forall>c\<in>set ''9042''. digit c" "''x'' = [] \<or> \<not> digit (hd ''x'')" "dec ''9042'' < 2 ^ 63"
    and n: "int (dec ''9042'') = 9042"
    by (simp_all add: digit_def dec_def digit_val_def)
  have h: "Split (env_or ?env ''SCYLLA_HOSTS'' ''127.0.0.1'') (CHR '','') = [''127.0.0.1'']"
    "env_or ?env ''LISTEN_ADDR'' '':8082'' = '':8082''" by (simp_all add: env_or_def)
  have "Split (?env ''DEV_CORS_ORIGINS'') (CHR '','') = ['' http://localhost:8096 '', [], []]"
    "TrimSpace '' http://localhost:8096 '' = ''http://localhost:8096''" "?env ''DEV_CORS_ORIGINS'' \<noteq> []"
    by (simp_all add: TrimSpace_def is_space_def)
  then have o: "?env ''DEV_CORS_ORIGINS'' \<noteq> [] \<and> ''http://localhost:8096'' \<noteq> [] \<and>
      (\<exists>y\<in>set (Split (?env ''DEV_CORS_ORIGINS'') (CHR '','')). ''http://localhost:8096'' = TrimSpace y)" by simp
  from startup_configuration [where Getenv = ?env and ds = "''9042''" and rest = "''x''" and NewBaoClient = "\<lambda>_. None"
      and assemble = "\<lambda>_ _ _. \<lparr>app_api = \<lambda>_. Ret id, app_Router = id, app_Shutdown = ()\<rparr>" and log = NoopLogger, OF p d] obtain cfg where
    "accounts_configFromEnv ?env = Inr cfg" "ListenAddr cfg = env_or ?env ''LISTEN_ADDR'' '':8082''"
    "Port (Scylla cfg) = int (dec ''9042'')"
    "Hosts (Scylla cfg) = Split (env_or ?env ''SCYLLA_HOSTS'' ''127.0.0.1'') (CHR '','')"
    "\<forall>x. x \<in> set (DevCORSOrigins cfg) \<longleftrightarrow> ?env ''DEV_CORS_ORIGINS'' \<noteq> [] \<and> x \<noteq> [] \<and>
       (\<exists>y\<in>set (Split (?env ''DEV_CORS_ORIGINS'') (CHR '','')). x = TrimSpace y)" by (elim exE conjE) (rule that)
  then show ?thesis unfolding n h using o by (intro exI [of _ cfg] conjI) simp_all
qed

section \<open>The generated client\<close>

text \<open>C34. For every operation of the accounts API, the client's parse function applied to
  what the server's \<open>Visit\<close> method wrote returns the response object itself: the success body or the
  error under its status, everything else empty. Texts must be UTF-8, and the library's parsers of UUIDs
  and times must read the printed values back.\<close>

theorem client_reads_what_server_wrote:
  fixes w :: hw
  assumes "unsent w"
  shows "(sendable 202 [400, 404, 500] (\<lambda>a. reads cr {daa_JobId a} {} \<and> utf8 (daa_Slug a) \<and> utf8 (daa_Status a)) x1 \<longrightarrow>
      (let rsp = reply_of (VisitDeleteAccountResponse x1 w) in \<exists>body. ParseDeleteAccountHTTPResponse cr rsp =
         Inr \<lparr>del_Body = body, del_HTTPResponse = Some rsp, del_JSON202 = success_of x1, del_JSON400 = failure_of 400 x1, del_JSON404 = failure_of 404 x1, del_JSON500 = failure_of 500 x1\<rparr>)) \<and>
    (sendable 202 [400, 404, 409, 500] (\<lambda>a. reads cr {caa_JobId a, caa_TenantId a} {} \<and> utf8 (caa_Slug a) \<and> utf8 (caa_Status a)) x2 \<longrightarrow>
      (let rsp = reply_of (VisitProvisionNetworkResponse x2 w) in \<exists>body. ParseProvisionNetworkHTTPResponse cr rsp =
         Inr \<lparr>pro_Body = body, pro_HTTPResponse = Some rsp, pro_JSON202 = success_of x2, pro_JSON400 = failure_of 400 x2, pro_JSON404 = failure_of 404 x2, pro_JSON409 = failure_of 409 x2, pro_JSON500 = failure_of 500 x2\<rparr>)) \<and>
    (sendable 201 [400, 409, 422, 500] (\<lambda>a. reads cr {regresp_TenantId a, regresp_UserId a} {} \<and> utf8 (regresp_Slug a) \<and> utf8 (regresp_InitialApiKey a)) x3 \<longrightarrow>
      (let rsp = reply_of (VisitRegisterResponse x3 w) in \<exists>body. ParseRegisterHTTPResponse cr rsp =
         Inr \<lparr>reg_Body = body, reg_HTTPResponse = Some rsp, reg_JSON201 = success_of x3, reg_JSON400 = failure_of 400 x3, reg_JSON409 = failure_of 409 x3, reg_JSON422 = failure_of 422 x3, reg_JSON500 = failure_of 500 x3\<rparr>)) \<and>
    (sendable 200 [400, 404, 500] (\<lambda>a. reads cr {aresp_TenantId a} {aresp_CreatedAt a} \<and>
       (\<forall>s\<in>{aresp_DisplayName a, aresp_Plan a, aresp_Slug a, aresp_Status a}. utf8 s) \<and>
       (\<forall>s. aresp_PodCidr a = Some s \<or> aresp_ServiceCidr a = Some s \<longrightarrow> utf8 s)) x4 \<longrightarrow>
      (let rsp = reply_of (VisitGetAccountResponse x4 w) in \<exists>body. ParseGetAccountHTTPResponse cr rsp =
         Inr \<lparr>get_Body = body, get_HTTPResponse = Some rsp, get_JSON200 = success_of x4, get_JSON400 = failure_of 400 x4, get_JSON404 = failure_of 404 x4, get_JSON500 = failure_of 500 x4\<rparr>)) \<and>
    (sendable 201 [400, 404, 422, 500] (\<lambda>a. reads cr {ikresp_KeyId a} {ikresp_CreatedAt a} \<and>
       (\<forall>s\<in>{ikresp_DisplayName a, ikresp_RawKey a, ikresp_Scopes a, ikresp_Status a}. utf8 s)) x5 \<longrightarrow>
      (let rsp = reply_of (VisitIssueKeyResponse x5 w) in \<exists>body. ParseIssueKeyHTTPResponse cr rsp =
         Inr \<lparr>iss_Body = body, iss_HTTPResponse = Some rsp, iss_JSON201 = success_of x5, iss_JSON400 = failure_of 400 x5, iss_JSON404 = failure_of 404 x5, iss_JSON422 = failure_of 422 x5, iss_JSON500 = failure_of 500 x5\<rparr>)) \<and>
    (sendable 204 [400, 404, 500] (\<lambda>_. True) x6 \<longrightarrow>
      (let rsp = reply_of (VisitRevokeKeyResponse x6 w) in \<exists>body. ParseRevokeKeyHTTPResponse cr rsp =
         Inr \<lparr>rev_Body = body, rev_HTTPResponse = Some rsp, rev_JSON400 = failure_of 400 x6,
           rev_JSON404 = failure_of 404 x6, rev_JSON500 = failure_of 500 x6\<rparr>))"
  unfolding Let_def using Parse_DeleteAccount [OF assms]
    Parse_ProvisionNetwork [OF assms]
    Parse_Register [OF assms]
    Parse_GetAccount [OF assms]
    Parse_IssueKey [OF assms]
    Parse_RevokeKey [OF assms] by blast

definition test_client :: client_runtime where
  "test_client = \<lparr>cr_StyleString = (\<lambda>_ x. Inr x), cr_StyleUUID = (\<lambda>_ i. Inr (uuid_String i)), cr_ParseURL = Inr,
     cr_Resolve = (\<lambda>server p. Inr (server @ drop 2 p)), cr_MarshalEmail = (\<lambda>e. Inr (JStr e)),
     cr_UUID = (\<lambda>x. case parse_uuid x of Some i \<Rightarrow> Inr i | None \<Rightarrow> Inl (Text ''invalid UUID'')),
     cr_Time = (\<lambda>_. Inl (Text ''time'')), cr_SyntaxError = (\<lambda>_. Text ''syntax''), cr_DefaultDoer = (\<lambda>_. Ret (Inl (Text ''no network'')))\<rparr>"

definition acme_account :: RegisterResponse where
  "acme_account = \<lparr>regresp_UserId = 1, regresp_TenantId = 1, regresp_Slug = ''acme'', regresp_InitialApiKey = ''cf_live_1''\<rparr>"

lemma acme_account_sendable:
  "sendable 201 [400, 409, 422, 500] (\<lambda>a. reads test_client {regresp_TenantId a, regresp_UserId a} {} \<and>
     utf8 (regresp_Slug a) \<and> utf8 (regresp_InitialApiKey a)) (Success 201 acme_account)"
  by (simp add: sendable_def reads_def test_client_def parse_uuid_def acme_account_def ascii_utf8 ascii_def)

theorem client_reads_what_server_wrote_witness:
  "\<exists>res. ParseRegisterHTTPResponse test_client (reply_of (VisitRegisterResponse (Success 201 acme_account) fresh_hw)) = Inr res \<and>
     reg_JSON201 res = Some acme_account \<and> reg_JSON409 res = None"
proof -
  have "unsent fresh_hw" by (simp add: unsent_def fresh_hw_def)
  from client_reads_what_server_wrote [OF this, THEN conjunct2, THEN conjunct2, THEN conjunct1, rule_format, OF acme_account_sendable]
  show ?thesis by (auto simp: Let_def success_of_def failure_of_def)
qed

text \<open>The server of the accounts API as the doer of a client in the same process.\<close>

definition incoming :: "(string \<Rightarrow> string) \<Rightarrow> client_request \<Rightarrow> request" where
  "incoming path_of q = \<lparr>req_method = cq_Method q, req_path = path_of (cq_URL q), req_escaped = path_of (cq_URL q),
     req_body = (case cq_Body q of None \<Rightarrow> [] | Some b \<Rightarrow> b), req_header = cq_Header q, req_path_values = Map.empty,
     req_ctx = Background\<rparr>"

definition in_process :: "(string \<Rightarrow> string) \<Rightarrow> operation \<Rightarrow> hw \<Rightarrow> doer" where
  "in_process path_of api w q = bind (api (incoming path_of q)) (\<lambda>wr. Ret (Inr (reply_of (wr w))))"

text \<open>C35. \<open>RegisterWithResponse\<close> of a client whose requests reach the server runs the handler of
  the registration with the very body the caller passed, changes the state as the handler does, and
  returns the handler's response. An invalid email is refused by the client before anything is sent.\<close>

theorem client_call_runs_handler:
  fixes w :: hw
  assumes "unsent w" and "Doer c = Some (in_process path_of (accounts_api rt R M H svc) w)" "RequestEditors c = []"
    and "cr_Resolve cr (client_Server c) ''./register'' = Inr u" "path_of u = ''/register''"
    and "cr_MarshalEmail cr (regreq_Email b) = Inr (JStr (regreq_Email b))" "rt_Email rt (JStr (regreq_Email b)) = Inr (regreq_Email b)"
    and "\<forall>s\<in>{regreq_Email b, regreq_Password b, regreq_Slug b, regreq_DisplayName b, regreq_Plan b}. utf8 s"
    and "sem f (RegisterWithResponse cr c b []) s r t"
  shows "\<exists>response. sem f (Handler_Register M H svc (Some b)) s response t \<and>
    (sendable 201 [400, 409, 422, 500] (\<lambda>a. reads cr {regresp_TenantId a, regresp_UserId a} {} \<and>
        utf8 (regresp_Slug a) \<and> utf8 (regresp_InitialApiKey a)) response \<longrightarrow>
     (\<exists>res. r = Inr res \<and> reg_JSON201 res = success_of response \<and> reg_JSON400 res = failure_of 400 response \<and>
        reg_JSON409 res = failure_of 409 response \<and> reg_JSON422 res = failure_of 422 response \<and>
        reg_JSON500 res = failure_of 500 response)) \<and>
    (\<forall>b' e eds. cr_MarshalEmail cr (regreq_Email b') = Inl e \<longrightarrow> RegisterWithResponse cr c b' eds = Ret (Inl e))"
proof -
  from assms(4,6) obtain q where q: "NewRegisterRequest cr (client_Server c) b = Inr q" "cq_Method q = ''POST''" "cq_URL q = u"
    by (auto simp: NewRegisterRequest_def encode_RegisterRequest_def NewRegisterRequestWithBody_def build_request_def HasPrefix_def
        split: sum.splits)
  from register_body [OF q(1) assms(6-8)] obtain body where body: "cq_Body q = Some body" "decode_RegisterRequest rt body = Inr b" by blast
  have clean: "cleanPath ''/register'' = ''/register''" "path_segs ''/register'' = [''register'']" by code_simp+
  have "accounts_api rt R M H svc (incoming path_of q) =
      strict_Register rt M H svc ((incoming path_of q)\<lparr>req_path_values := Map.empty\<rparr>)"
    using clean assms(5) q(2,3) by (intro route_Register) (simp_all add: clean_request_def incoming_def)
  also have "\<dots> = bind (Handler_Register M H svc (Some b)) (\<lambda>response. Ret (VisitRegisterResponse response))"
    using body by (simp add: strict_Register_def with_body_def incoming_def)
  finally have "RegisterWithResponse cr c b [] = bind (Handler_Register M H svc (Some b))
      (\<lambda>response. Ret (ParseRegisterHTTPResponse cr (reply_of (VisitRegisterResponse response w))))"
    using assms(2,3) q(1) by (simp add: RegisterWithResponse_def Client_Register_def send_def applyEditors_def parsed_def
        in_process_def bind_assoc)
  with assms(9) obtain response where h: "sem f (Handler_Register M H svc (Some b)) s response t"
    and r: "r = ParseRegisterHTTPResponse cr (reply_of (VisitRegisterResponse response w))" by auto
  have "sendable 201 [400, 409, 422, 500] (\<lambda>a. reads cr {regresp_TenantId a, regresp_UserId a} {} \<and>
        utf8 (regresp_Slug a) \<and> utf8 (regresp_InitialApiKey a)) response \<longrightarrow>
     (\<exists>res. r = Inr res \<and> reg_JSON201 res = success_of response \<and> reg_JSON400 res = failure_of 400 response \<and>
        reg_JSON409 res = failure_of 409 response \<and> reg_JSON422 res = failure_of 422 response \<and>
        reg_JSON500 res = failure_of 500 response)"
    using Parse_Register [OF assms(1), of cr response] r by fastforce
  moreover have "RegisterWithResponse cr c b' eds = Ret (Inl e)" if "cr_MarshalEmail cr (regreq_Email b') = Inl e" for b' e eds
    using that by (simp add: RegisterWithResponse_def Client_Register_def send_def NewRegisterRequest_def encode_RegisterRequest_def parsed_def)
  ultimately show ?thesis using h by blast
qed

definition acme_registration :: RegisterRequest where
  "acme_registration = \<lparr>regreq_Email = ''a@acme.io'', regreq_Password = ''correct horse'', regreq_Slug = ''acme'',
     regreq_DisplayName = ''Acme'', regreq_Plan = ''pro''\<rparr>"

definition acme_client :: Client where
  "acme_client = \<lparr>client_Server = ''/'', Doer = Some (in_process id (accounts_api test_runtime (\<lambda>_ _ w. w) (\<lambda>_. None) (Inr rev)
     (store_deps parse_uuid)) fresh_hw), RequestEditors = []\<rparr>"

theorem client_call_runs_handler_witness:
  "\<exists>r t response. sem NoFaults (RegisterWithResponse test_client acme_client acme_registration []) empty_sys r t \<and>
     sem NoFaults (Handler_Register (\<lambda>_. None) (Inr rev) (store_deps parse_uuid) (Some acme_registration)) empty_sys response t"
proof -
  let ?p = "RegisterWithResponse test_client acme_client acme_registration []"
  have w: "unsent fresh_hw" by (simp add: unsent_def fresh_hw_def)
  have c: "Doer acme_client = Some (in_process id (accounts_api test_runtime (\<lambda>_ _ w. w) (\<lambda>_. None) (Inr rev)
      (store_deps parse_uuid)) fresh_hw)" "RequestEditors acme_client = []"
    "cr_Resolve test_client (client_Server acme_client) ''./register'' = Inr ''/register''" "id ''/register'' = ''/register''"
    by (simp_all add: acme_client_def test_client_def)
  have m: "cr_MarshalEmail test_client (regreq_Email acme_registration) = Inr (JStr (regreq_Email acme_registration))"
    "rt_Email test_runtime (JStr (regreq_Email acme_registration)) = Inr (regreq_Email acme_registration)"
    by (simp_all add: test_client_def test_runtime_def acme_registration_def)
  have u: "\<forall>s\<in>{regreq_Email acme_registration, regreq_Password acme_registration, regreq_Slug acme_registration,
      regreq_DisplayName acme_registration, regreq_Plan acme_registration}. utf8 s"
    by (simp add: acme_registration_def ascii_utf8 ascii_def)
  have p: "sem NoFaults ?p empty_sys (fst (ref_run ?p ref_start)) (rw_sys (snd (ref_run ?p ref_start)))"
    by (rule ref_run_start)
  from client_call_runs_handler [OF w c m u p] p show ?thesis by blast
qed

section \<open>The storage service\<close>

text \<open>Every request for a bucket operation that gets to its handler is answered with 500 and the
  INTERNAL_ERROR envelope, through the chain and the generated server, although the operations are
  documented to answer 501 until they are implemented; \<open>notImplemented\<close> would write that answer, and
  nothing calls it. No operation touches anything.\<close>

theorem storage_answers_500:
  fixes r :: request and w :: hw and log :: logger
  assumes "env_OTelSpan env = span_middleware S" and "clean_request r" "hw_sent w = None" "hw_body w = []"
    and "x \<noteq> ''/''" "y \<noteq> ''/''" "rt_BindString rt ''tenant'' x = Inr t" "rt_BindString rt ''project'' y = Inr p"
    and "(path_segs (req_escaped r) = [x, y, ''buckets''] \<and>
        (req_method r = ''GET'' \<or> req_method r = ''POST'' \<and> decode_CreateBucketRequest rt (req_body r) = Inr b)) \<or>
      (path_segs (req_escaped r) = [x, y, ''buckets'', z] \<and> z \<noteq> ''/'' \<and> rt_BindString rt ''name'' z = Inr n \<and>
        (req_method r = ''GET'' \<or> req_method r = ''DELETE''))"
  shows "\<exists>wr u. storage_api rt R storage_NewHandler (chain_request env S log r w) = Ret wr \<and>
    storage_NewRouter env (\<lambda>_ v. (Returned, wr v)) log r w = (Returned, u) \<and> map_option fst (hw_sent u) = Some 500 \<and>
    hw_body u = error_json \<lparr>err_code = ''INTERNAL_ERROR'', err_message = ''not yet implemented''\<rparr> \<and>
    (\<exists>v. notImplemented r w = (Returned, v) \<and> map_option fst (hw_sent v) = Some 501)"
proof -
  let ?q = "chain_request env S log r w" and ?v = "chain_state env S log r w"
  let ?wr = "visit_json 500 (Inr (error_envelope \<lparr>err_code = ''INTERNAL_ERROR'', err_message = ''not yet implemented''\<rparr>))"
  have q: "clean_request ?q" "req_method ?q = req_method r" "req_escaped ?q = req_escaped r" "req_body ?q = req_body r"
    using assms(2) by (simp_all add: clean_request_def)
  have "storage_api rt R storage_NewHandler ?q = Ret ?wr"
    using assms(9)
  proof (elim disjE conjE)
    assume h: "path_segs (req_escaped r) = [x, y, ''buckets'']" "req_method r = ''GET''"
    then show ?thesis using route_buckets(1) [OF q(1) _ assms(5-8)] q
      by (simp add: strict_ListBuckets_def storage_NewHandler_def ListBuckets_def storage_placeholder_def
          VisitListBucketsResponse_def visit_response_def)
  next
    assume h: "path_segs (req_escaped r) = [x, y, ''buckets'']" "req_method r = ''POST''"
      "decode_CreateBucketRequest rt (req_body r) = Inr b"
    then show ?thesis using route_buckets(2) [OF q(1) _ assms(5-8)] q
      by (simp add: strict_CreateBucket_def storage_NewHandler_def CreateBucket_def storage_placeholder_def with_body_def
          VisitCreateBucketResponse_def fun_eq_iff)
  next
    assume h: "path_segs (req_escaped r) = [x, y, ''buckets'', z]" "z \<noteq> ''/''" "rt_BindString rt ''name'' z = Inr n" "req_method r = ''GET''"
    then show ?thesis using route_bucket(1) [OF q(1) _ assms(5,6) h(2) assms(7,8) h(3)] q
      by (simp add: strict_GetBucket_def storage_NewHandler_def GetBucket_def storage_placeholder_def
          VisitGetBucketResponse_def visit_response_def)
  next
    assume h: "path_segs (req_escaped r) = [x, y, ''buckets'', z]" "z \<noteq> ''/''" "rt_BindString rt ''name'' z = Inr n" "req_method r = ''DELETE''"
    then show ?thesis using route_bucket(2) [OF q(1) _ assms(5,6) h(2) assms(7,8) h(3)] q
      by (simp add: strict_DeleteBucket_def storage_NewHandler_def DeleteBucket_def storage_placeholder_def
          VisitDeleteBucketResponse_def fun_eq_iff)
  qed
  moreover have "\<exists>u. storage_NewRouter env (\<lambda>_ v. (Returned, ?wr v)) log r w = (Returned, u) \<and> hw_sent u = hw_sent (?wr ?v) \<and>
      hw_body u = hw_body (?wr ?v)"
    unfolding storage_NewRouter_def by (simp add: Chain_run [OF assms(1)] chain_inner_def logged_exit_def)
  moreover have "hw_sent ?v = None" "hw_body ?v = []" using assms(3,4) by simp_all
  moreover have "\<exists>v. notImplemented r w = (Returned, v) \<and> map_option fst (hw_sent v) = Some 501"
    using assms(3) by (simp add: notImplemented_def Let_def)
  ultimately show ?thesis by (auto simp: visit_json_Inr error_json_def)
qed

theorem storage_answers_500_witness:
  "\<exists>wr u. storage_api test_runtime (\<lambda>_ _ w. w) storage_NewHandler (chain_request test_env (\<lambda>_. None) NoopLogger
       (test_request ''GET'' ''/acme/web/buckets'' Map.empty) fresh_hw) = Ret wr \<and>
     storage_NewRouter test_env (\<lambda>_ v. (Returned, wr v)) NoopLogger (test_request ''GET'' ''/acme/web/buckets'' Map.empty) fresh_hw =
       (Returned, u) \<and> map_option fst (hw_sent u) = Some 500"
proof -
  let ?r = "test_request ''GET'' ''/acme/web/buckets'' Map.empty"
  have clean: "cleanPath ''/acme/web/buckets'' = ''/acme/web/buckets''"
    "path_segs ''/acme/web/buckets'' = [''acme'', ''web'', ''buckets'']" by code_simp+
  have r: "clean_request ?r" using clean by (simp add: clean_request_def test_request_def)
  have w: "hw_sent fresh_hw = None" "hw_body fresh_hw = []" by (simp_all add: fresh_hw_def)
  have x: "''acme'' \<noteq> ''/''" "''web'' \<noteq> ''/''" "rt_BindString test_runtime ''tenant'' ''acme'' = Inr ''acme''"
    "rt_BindString test_runtime ''project'' ''web'' = Inr ''web''" by (simp_all add: test_runtime_def)
  have p: "path_segs (req_escaped ?r) = [''acme'', ''web'', ''buckets''] \<and> req_method ?r = ''GET''"
    using clean by (simp add: test_request_def)
  from storage_answers_500 [OF test_env_otel r w x, of "\<lparr>cb_Name = [], cb_Region = None, cb_Versioning = None\<rparr>" "[]" "[]" "\<lambda>_ _ w. w" NoopLogger] p show ?thesis by blast
qed

section \<open>The configuration loader\<close>

text \<open>C36. \<open>Load\<close> implements the documented precedence. With a readable configuration file or
  none, and readable secrets or none, it fills and validates the struct with, for every dotted key, the
  trimmed secret file of that name, else the environment variable, else the value of the file, else the
  default that stands in the struct under the segments of the key, in whatever order Go ranges over the
  maps. A configuration file that exists but cannot be parsed fails the load, and \<open>MustLoad\<close> panics
  exactly when \<open>Load\<close> fails. The hypotheses on viper are \<open>viper_laws\<close>.\<close>

theorem configuration_precedence:
  assumes laws: "viper_laws L env yaml ly populate"
    and decode: "ms_NewDecoder L = None" "ms_Decode L defaults = Inr nested" "dot_free nested"
    and lower: "\<forall>key. leaf_at nested (Split key (CHR ''.'')) \<noteq> None \<longrightarrow> ToLower key = key"
    and o': "o' = resolveOptions opts"
    and secrets: "if secrets_dir env o' = [] then ss = []
      else \<exists>entries. os_ReadDir env (secrets_dir env o') = Inr entries \<and> read_secrets env (secrets_dir env o') entries = Some ss"
    and shadow: "unshadowed ({key. leaf_at nested (Split key (CHR ''.'')) \<noteq> None} \<union> dom m \<union> dom (map_of ss))"
  shows "(yaml (config_file env o') = Inr m \<or> (\<exists>e. yaml (config_file env o') = Inl e) \<and> os_Stat env (config_file env o') \<noteq> None \<and> m = Map.empty \<longrightarrow>
      Load L env defaults opts =
       (case populate (precedence (\<lambda>key. os_Getenv env (env_name (env_prefix o') [(''.'', ''_''), (''-'', ''_'')] key))
           (\<lambda>key. leaf_at nested (Split key (CHR ''.''))) m (map_of ss)) of
          Inl err \<Rightarrow> Inl (Errorf ''config: unmarshalling config: '' err)
        | Inr cfg \<Rightarrow> (case validate_Struct L cfg of
              Some err \<Rightarrow> Inl (Errorf ''config: validation failed: '' err) | None \<Rightarrow> Inr cfg))) \<and>
    (\<forall>e. yaml (config_file env o') = Inl e \<and> os_Stat env (config_file env o') = None \<longrightarrow>
      Load L env defaults opts = Inl (Errorf (''config: reading config file '' @ Quote (config_file env o') @ '': '') e)) \<and>
    (\<forall>cfg. MustLoad L env defaults opts = Inr cfg \<longleftrightarrow> Load L env defaults opts = Inr cfg)"
proof (intro conjI impI allI)
  have flat: "map_of (flattenMap nested []) = (\<lambda>key. leaf_at nested (Split key (CHR ''.'')))"
    using flattenMap_lookup [OF decode(3)] by blast
  have keys: "dom (map_of (flattenMap nested [])) = {key. leaf_at nested (Split key (CHR ''.'')) \<noteq> None}"
    unfolding flat by auto
  have "\<forall>k\<in>fst ` set (flattenMap nested []). ToLower k = k"
    using lower keys by (simp add: dom_map_of_conv_image_fst [symmetric])
  with shadow show "Load L env defaults opts =
       (case populate (precedence (\<lambda>key. os_Getenv env (env_name (env_prefix o') [(''.'', ''_''), (''-'', ''_'')] key))
           (\<lambda>key. leaf_at nested (Split key (CHR ''.''))) m (map_of ss)) of
          Inl err \<Rightarrow> Inl (Errorf ''config: unmarshalling config: '' err)
        | Inr cfg \<Rightarrow> (case validate_Struct L cfg of
              Some err \<Rightarrow> Inl (Errorf ''config: validation failed: '' err) | None \<Rightarrow> Inr cfg))"
    if "yaml (config_file env o') = Inr m \<or> (\<exists>e. yaml (config_file env o') = Inl e) \<and> os_Stat env (config_file env o') \<noteq> None \<and> m = Map.empty"
    unfolding flat [symmetric] keys [symmetric] by (intro Load_settings [OF laws decode _ that secrets o'])
  show "Load L env defaults opts = Inl (Errorf (''config: reading config file '' @ Quote (config_file env o') @ '': '') e)"
    if "yaml (config_file env o') = Inl e \<and> os_Stat env (config_file env o') = None" for e
    using Load_bad_file [OF laws decode(1,2) o'] that by blast
  show "MustLoad L env defaults opts = Inr cfg \<longleftrightarrow> Load L env defaults opts = Inr cfg" for cfg
    by (simp add: MustLoad_def split: sum.split)
qed

text \<open>A viper that keeps its sources, and a deployment with an environment variable and a secret.\<close>

definition plain_viper :: "os \<Rightarrow> (string \<times> string any) list \<Rightarrow> (string layers, string, string \<rightharpoonup> string setting) viper" where
  "plain_viper env nested =
     \<lparr>vp_New = \<lparr>ly_defaults = Map.empty, ly_path = [], ly_file = Map.empty, ly_prefix = [], ly_automatic = False,
        ly_replacer = [], ly_overrides = Map.empty\<rparr>,
      vp_SetDefault = (\<lambda>k x v. v\<lparr>ly_defaults := (ly_defaults v)(ToLower k \<mapsto> x)\<rparr>),
      vp_SetConfigFile = (\<lambda>p v. v\<lparr>ly_path := p\<rparr>),
      vp_ReadInConfig = (\<lambda>v. (Some (Text ''no such file''), v)),
      vp_SetEnvPrefix = (\<lambda>p v. v\<lparr>ly_prefix := p\<rparr>),
      vp_AutomaticEnv = (\<lambda>v. v\<lparr>ly_automatic := True\<rparr>),
      vp_SetEnvKeyReplacer = (\<lambda>r v. v\<lparr>ly_replacer := r\<rparr>),
      vp_Set = (\<lambda>k s v. v\<lparr>ly_overrides := (ly_overrides v)(ToLower k \<mapsto> s)\<rparr>),
      vp_Unmarshal = (\<lambda>v. Inr (settings env v)),
      ms_NewDecoder = None, ms_Decode = (\<lambda>_. Inr nested), validate_Struct = (\<lambda>_. None), range_order = rev\<rparr>"

lemma plain_viper_laws: "viper_laws (plain_viper env nested) env (\<lambda>_. Inl (Text ''no such file'')) id Inr"
  by (simp add: viper_laws_def plain_viper_def)

definition web_defaults :: "(string \<times> string any) list" where
  "web_defaults = [(''server'', Nested [(''port'', Val ''8080''), (''host'', Val ''0.0.0.0'')]), (''level'', Val ''info'')]"

definition web_os :: os where
  "web_os = \<lparr>os_Getenv = (\<lambda>n. if n = ''CF_SECRETS_DIR'' then ''/s'' else if n = ''CF_SERVER_PORT'' then ''9090'' else []),
     os_Stat = (\<lambda>_. Some (Text ''no such file'')), os_ReadDir = (\<lambda>_. Inr [(''..data'', False), (''LEVEL'', False)]),
     os_ReadFile = (\<lambda>p. if p = ''/s/LEVEL'' then Inr ''debug '' else Inl (Text ''unexpected''))\<rparr>"

theorem configuration_precedence_witness:
  "\<exists>cfg. Load (plain_viper web_os web_defaults) web_os Map.empty [] = Inr cfg \<and> cfg ''server.port'' = Some (TextValue ''9090'') \<and>
     cfg ''server.host'' = Some (Typed ''0.0.0.0'') \<and> cfg ''level'' = Some (TextValue ''debug'') \<and> cfg ''other'' = None"
proof -
  let ?L = "plain_viper web_os web_defaults" and ?o = "resolveOptions []"
  have flat: "flattenMap web_defaults [] = [(''server.port'', ''8080''), (''server.host'', ''0.0.0.0''), (''level'', ''info'')]"
    by code_simp
  have leaf: "leaf_at web_defaults (Split key (CHR ''.'')) = map_of [(''server.port'', ''8080''), (''server.host'', ''0.0.0.0''), (''level'', ''info'')] key" for key
    using flattenMap_lookup [of web_defaults key] unfolding flat by (simp add: web_defaults_def)
  have dec: "ms_NewDecoder ?L = None" "ms_Decode ?L Map.empty = Inr web_defaults" "dot_free web_defaults"
    by (simp_all add: plain_viper_def web_defaults_def)
  have low: "\<forall>key. leaf_at web_defaults (Split key (CHR ''.'')) \<noteq> None \<longrightarrow> ToLower key = key"
    unfolding leaf by (auto simp: ToLower_def lower_char_def split: if_splits)
  have dir: "secrets_dir web_os ?o = ''/s''" by (simp add: secrets_dir_def resolveOptions_def web_os_def)
  have lvl: "filepath_Join ''/s'' ''LEVEL'' = ''/s/LEVEL''" "ToLower ''LEVEL'' = ''level''" "TrimSpace ''debug '' = ''debug''" by code_simp+
  have read: "read_secrets web_os ''/s'' [(''..data'', False), (''LEVEL'', False)] = Some [(''level'', ''debug'')]"
    by (simp add: web_os_def lvl HasPrefix_def)
  have rd: "os_ReadDir web_os ''/s'' = Inr [(''..data'', False), (''LEVEL'', False)]" by (simp add: web_os_def)
  have sec: "if secrets_dir web_os ?o = [] then [(''level'', ''debug'')] = [] else \<exists>entries. os_ReadDir web_os (secrets_dir web_os ?o) = Inr entries \<and>
      read_secrets web_os (secrets_dir web_os ?o) entries = Some [(''level'', ''debug'')]"
    using read rd unfolding dir by (simp del: read_secrets.simps)
  have shadow: "unshadowed ({key. leaf_at web_defaults (Split key (CHR ''.'')) \<noteq> None} \<union> dom Map.empty \<union> dom (map_of [(''level'', ''debug'')]))"
    unfolding leaf by (auto simp: unshadowed_def HasPrefix_def split: if_splits)
  have names: "env_name (env_prefix ?o) [(''.'', ''_''), (''-'', ''_'')] ''server.port'' = ''CF_SERVER_PORT''"
    "env_name (env_prefix ?o) [(''.'', ''_''), (''-'', ''_'')] ''server.host'' = ''CF_SERVER_HOST''"
    "env_name (env_prefix ?o) [(''.'', ''_''), (''-'', ''_'')] ''other'' = ''CF_OTHER''" by code_simp+
  from configuration_precedence [OF plain_viper_laws dec low refl sec shadow, THEN conjunct1]
  have "Load ?L web_os Map.empty [] = Inr (precedence (\<lambda>key. os_Getenv web_os (env_name (env_prefix ?o) [(''.'', ''_''), (''-'', ''_'')] key))
      (\<lambda>key. leaf_at web_defaults (Split key (CHR ''.''))) Map.empty (map_of [(''level'', ''debug'')]))"
    by (simp add: plain_viper_def web_os_def)
  then show ?thesis unfolding leaf by (intro exI conjI) (assumption, simp_all add: precedence_def names domIff, simp_all add: web_os_def)
qed

section \<open>Logging and tracing\<close>

text \<open>C37. A logger of \<open>logging.New\<close> delivers a record to standard output exactly when its level
  reaches the configured one, as text exactly when \<open>LOG_FORMAT\<close>, or else the configured format, is
  \<open>text\<close>, and with the service, version and environment attributes. With the bridge enabled the record
  also goes to the bridge, whatever writing to standard output answers, and below the configured level
  too. In general a tree of fan-outs delivers to its enabled sinks, in order, and reports no error.\<close>

theorem log_records_delivered:
  "(let attrs = Attrs [(''service'', lc_ServiceName cfg), (''version'', if lc_ServiceVersion cfg = [] then ''dev'' else lc_ServiceVersion cfg),
          (''env'', log_environment getenv (lc_Environment cfg))];
        out = (if log_format getenv (lc_Format cfg) = ''text'' then TextHandler (lc_Level cfg) else JSONHandler (lc_Level cfg));
        S = \<lparr>sink_Enabled = log_sink_Enabled otel, sink_Handle = wrt\<rparr> in
    logger_Log S (logging_New getenv cfg) ctx r =
      (if lc_Level cfg \<le> lr_Level r then [(out, [attrs], r)] else []) @
      (if lc_OTelEnabled cfg \<and> otel ctx (lr_Level r) then [(OTelHandler (lc_ServiceName cfg), [attrs], r)] else [])) \<and>
   logger_Log T (WithAttrs extra (FanOut hs)) ctx r =
     map (\<lambda>(b, ds). (b, ds @ [Attrs extra], r)) (filter (\<lambda>(b, ds). sink_Enabled T b ctx (lr_Level r)) (concat (map leaves hs))) \<and>
   fst (slog_Handle T (FanOut hs) ctx r) = None"
proof (intro conjI)
  show "fst (slog_Handle T (FanOut hs) ctx r) = None" by (rule fan_out_no_error)
  show "logger_Log T (WithAttrs extra (FanOut hs)) ctx r =
     map (\<lambda>(b, ds). (b, ds @ [Attrs extra], r)) (filter (\<lambda>(b, ds). sink_Enabled T b ctx (lr_Level r)) (concat (map leaves hs)))"
    unfolding Log_leaves WithAttrs_def leaves_derive by (simp add: filter_map case_prod_unfold o_def)
qed (simp add: Let_def Log_leaves logging_New_def leaves_newLogger)


section \<open>Types of the stored rows\<close>

text \<open>C39. In any interleaving of any number of operations of the two services and of their
  workflows, with any faults, every row of the database stays well typed: statuses, job operations and
  block kinds are the declared constants, the columns a job status implies are there, and every
  allocated block is one of the allocator's. The empty database is well typed.\<close>

theorem rows_stay_well_typed:
  assumes "preach f ps s qs t" and "\<forall>p\<in>set ps. service_prog H P p" and "typed_db (db s)"
  shows "typed_db (db t) \<and> typed_db empty_db"
  using pool_typed [OF assms(1) _ assms(3)] assms(2) service_typed empty_typed by blast

theorem rows_stay_well_typed_witness:
  "\<exists>qs t. preach NoFaults [ignore (Provision New \<lparr>pp_TenantSlug = ''acme''\<rparr>), goroutine_prog (Inr rev) New (RunProvisionWorkflow 1 ''acme'')] empty_sys qs t \<and>
     provisioning_jobs_by_idem (db t) \<noteq> Map.empty \<and> typed_db (db t)"
proof -
  let ?p = "ignore (Provision New \<lparr>pp_TenantSlug = ''acme''\<rparr>)"
  let ?ps = "[?p, goroutine_prog (Inr rev) New (RunProvisionWorkflow 1 ''acme'')]"
  have "sem NoFaults ?p empty_sys (fst (ref_run ?p ref_start)) (rw_sys (snd (ref_run ?p ref_start)))" by (rule ref_run_start)
  then have run: "preach NoFaults ?ps empty_sys (?ps[0 := Ret (fst (ref_run ?p ref_start))]) (rw_sys (snd (ref_run ?p ref_start)))"
    by (rule sem_preach) (simp_all add: pool_start)
  have s: "\<forall>p\<in>set ?ps. service_prog (Inr rev) (\<lambda>_. None) p" by (simp del: goroutine_prog.simps add: service_prog.intros)
  have e: "typed_db (db empty_sys)" using empty_typed by (simp add: empty_sys_def)
  have j: "provisioning_jobs_by_idem (db (rw_sys (snd (ref_run ?p ref_start)))) \<noteq> Map.empty"
    by (simp add: Provision_def JobStore_Enqueue_def fun_eq_iff ref_eval cong: bind_weak)
  from rows_stay_well_typed [OF run s e] run j show ?thesis by blast
qed

section \<open>The tenant isolation probe\<close>

text \<open>C40. The network isolation test of the spike is decided by the outputs of its two probes
  alone and fails when it did not get to them. The error of running a command in a pod is dropped, and an
  output that tells nothing counts as blocked: in a cluster that works but where no command can be run in
  a pod, the tests of network isolation, of the provisioner's scope and of Cilium all pass without
  having probed anything.\<close>

theorem isolation_passes_unprobed:
  "io_gives outputs_decide (RunTestNetworkIsolation T c cfg kubeconfigA kubeconfigB) \<and>
   (exec_broken c \<longrightarrow>
      io_gives passed (RunTestNetworkIsolation T c cfg kubeconfigA kubeconfigB) \<and>
      io_gives passed (RunTestProvisionerComm T c cfg kubeconfigA kubeconfigB) \<and>
      io_gives passed (RunTestCiliumEnforcement T c cfg namespaceA namespaceB))"
  using network_outputs_decide network_isolation_unprobed provisioner_unprobed cilium_unprobed by blast

theorem isolation_passes_unprobed_witness:
  "\<exists>c. (\<forall>kb ns pod ctr cmd. kc_RunInPod c kb ns pod ctr cmd () = (([], Some (Text ''error: unable to upgrade connection'')), ())) \<and>
     io_gives passed (RunTestNetworkIsolation \<lparr>gt_Now = \<lambda>w. (0, w), gt_Select = \<lambda>d w. (True, w), gt_RFC3339 = \<lambda>t. []\<rparr>
       c probe_DefaultConfig ''a.kubeconfig'' ''b.kubeconfig'')"
proof -
  let ?c = "\<lparr>kc_RunInPod = \<lambda>kb ns pod ctr cmd w. (([], Some (Text ''error: unable to upgrade connection'')), w),
    kc_Apply = \<lambda>kb yaml w. (None, w), kc_WaitPodReady = \<lambda>kb ns sel t w. ((''echo-server'', 1000000000, None), w),
    kc_DeletePod = \<lambda>kb ns pod w. (None, w), kc_GetPodResources = \<lambda>kb ns sel w. (Inr [], w),
    kc_GetPodsByLabel = \<lambda>kb ns sel w. (([''cilium''], None), w), kc_PodIP = \<lambda>kb ns sel w. ((''10.42.0.9'', None), w)\<rparr> :: unit KubectlClient"
  have "exec_broken ?c" by (simp add: exec_broken_def tells_nothing_empty)
  then show ?thesis using isolation_passes_unprobed [of _ ?c] by (intro exI [of _ ?c]) simp
qed

end
